(* ===== verification/Prelude.thy ===== *)
theory Prelude
  imports
    Main
    "HOL-Library.Word"
    "HOL-Library.Char_ord"
    "HOL-Library.List_Lexorder"
    "HOL-Library.Product_Lexorder"
begin

text \<open>
  Shared vocabulary of the development.

  \<^item> \<open>err\<close>: the error values of the modelled Go packages, one constructor for each exported
    sentinel and \<open>ErrText\<close> for an error built in place with \<^verbatim>\<open>errors.New\<close>.
  \<^item> \<open>('w, 'a) tx\<close>: a function of the store that either fails, leaving nothing behind (the
    deferred \<^verbatim>\<open>tx.Rollback\<close>), or returns a value and the new store. The Go pattern
    \<^verbatim>\<open>x, err := f(tx); if err != nil { return err }\<close> is \<open>tx_bind\<close>.
  \<^item> \<open>tx_within R m\<close>: every successful run of \<open>m\<close> is a step of the relation \<open>R\<close>. The
    locale \<open>tx_relation\<close> gives the composition rules for a reflexive and transitive \<open>R\<close>; an
    invariant \<open>I\<close> is the relation \<open>preserves I\<close>.
  \<^item> \<open>tx_hoare P m Q\<close>: a successful run of \<open>m\<close> from a store with \<open>P\<close> ends in one with \<open>Q\<close>.
  \<^item> tables as lists of rows, with \<^verbatim>\<open>UPDATE ... WHERE\<close> as \<open>update_where\<close>.
\<close>

section \<open>Errors\<close>

datatype external_agent_err =
    ErrExternalAgentNotFound
  | ErrExternalAgentNameTaken
  | ErrExternalAgentNameEmpty
  | ErrExternalAgentNameTooLong
  | ErrExternalAgentModelEmpty
  | ErrExternalAgentModelTooLong
  | ErrExternalAgentBaseURLEmpty
  | ErrExternalAgentBaseURLInvalid
  | ErrExternalAgentBaseURLTooLong
  | ErrExternalAgentBaseURLCredentials
  | ErrExternalAgentCredentialRefEmpty
  | ErrExternalAgentCredentialRefFormat
  | ErrExternalAgentCredentialRefLong
  | ErrExternalAgentProviderInvalid

datatype automation_err =
    ErrAutomationNotFound
  | ErrAutomationNameTaken
  | ErrAutomationNameEmpty
  | ErrAutomationNameTooLong
  | ErrAutomationNoPrompt
  | ErrAutomationPromptLong
  | ErrAutomationToolInvalid
  | ErrAutomationTooManyTools
  | ErrAutomationIntegrationToolUnsupported
  | ErrAutomationMemoryToolUnsupported
  | ErrAutomationTeamToolUnsupported
  | ErrScheduleKindUnknown
  | ErrScheduleIntervalRange
  | ErrScheduleDailyMinute
  | errScheduleColumnsInvalid

datatype err =
    ErrNoRows
  | ErrText string
  | ErrConflict
  | ErrInvalidTimestamp
  | ErrTimestampRangeExhausted
  | ErrInvalidSessionTimestamp
  | ErrUnsupportedNotice
  | ErrUnsupportedQueueOutcome
  | ErrRunStateVersionExhausted
  | ErrRunStateVersionInvalid
  | ErrRunTransitionConflict
  | ErrRunTransitionUnsupported
  | ErrRunNotCompletable
  | ErrRunNotFailable
  | ErrRunNotCancellable
  | ErrRunNotActive
  | ErrQueueWaitNotApplicable
  | ErrCancelKeyInvalid
  | ErrCancelKeyConflict
  | ErrApprovalExpired
  | ErrApprovalAlreadyConsumed
  | ErrAssignmentFenced
  | ErrToolCallConflict
  | ErrToolCallNotFound
  | ErrToolCallInvalidTransition
  | ErrRetryIdentityIncomplete
  | ErrFraming string
  | ErrUnique string
  | ErrSessionNotFound
  | ErrSessionDeleting
  | ErrDelegationSessionReadOnly
  | ErrInvalidSessionTitleOrigin
  | ErrInvalidSessionStatus
  | ErrDelegationNotFound
  | ErrInvalidSessionTitle
  | ErrInvalidSessionFilter
  | ErrInvalidSessionPage
  | ErrDelegationEgressNotPending
  | ErrDelegationArgumentsChanged
  | ErrDelegationPolicyChanged
  | ErrDelegationProfileChanged
  | ErrDelegationCapReached
  | ErrTeamNameCollision string
  | ErrInvalidKeyedEndpoint
  | ErrInvalidLocalEndpoint
  | ErrRemoteEgressConsentRequired
  | ErrLocalEgressDecisionForbidden
  | ErrEgressChallengeAlreadyUsed
  | ErrEgressDecisionInvalid
  | ErrEgressSkillSnapshotChanged
  | ErrEgressMemorySnapshotChanged
  | ErrIdempotencyConflict
  | ErrExternalAgentBaseURLInsecure
  | ErrMemorySettingCorrupt
  | ErrNotADelegationSession
  | ErrExternalAgent external_agent_err
  | ErrAutomation automation_err
  | ErrUnmarshal
  | ErrDepthExhausted

type_synonym 'a result = "err + 'a"

section \<open>Transactions\<close>

type_synonym ('w, 'a) tx = "'w \<Rightarrow> err + ('a \<times> 'w)"

definition tx_return :: "'a \<Rightarrow> ('w, 'a) tx" where
  "tx_return x = (\<lambda>w. Inr (x, w))"

definition tx_fail :: "err \<Rightarrow> ('w, 'a) tx" where
  "tx_fail e = (\<lambda>w. Inl e)"

definition tx_bind :: "('w, 'a) tx \<Rightarrow> ('a \<Rightarrow> ('w, 'b) tx) \<Rightarrow> ('w, 'b) tx" where
  "tx_bind m f = (\<lambda>w. case m w of Inl e \<Rightarrow> Inl e | Inr (x, w') \<Rightarrow> f x w')"

definition tx_then :: "('w, 'a) tx \<Rightarrow> ('w, 'b) tx \<Rightarrow> ('w, 'b) tx" where
  "tx_then m n = tx_bind m (\<lambda>_. n)"

definition tx_gets :: "('w \<Rightarrow> 'a) \<Rightarrow> ('w, 'a) tx" where
  "tx_gets f = (\<lambda>w. Inr (f w, w))"

definition tx_modify :: "('w \<Rightarrow> 'w) \<Rightarrow> ('w, unit) tx" where
  "tx_modify f = (\<lambda>w. Inr ((), f w))"

definition tx_lift :: "'a result \<Rightarrow> ('w, 'a) tx" where
  "tx_lift r = (case r of Inl e \<Rightarrow> tx_fail e | Inr x \<Rightarrow> tx_return x)"

definition tx_guard :: "bool \<Rightarrow> err \<Rightarrow> ('w, unit) tx" where
  "tx_guard b e = (if b then tx_return () else tx_fail e)"

text \<open>A \<^verbatim>\<open>for ... range\<close> loop that runs a statement per element and collects its results.\<close>

fun tx_map :: "('a \<Rightarrow> ('w, 'b) tx) \<Rightarrow> 'a list \<Rightarrow> ('w, 'b list) tx" where
  "tx_map f [] = tx_return []"
| "tx_map f (x # xs) = tx_bind (f x) (\<lambda>y. tx_bind (tx_map f xs) (\<lambda>ys. tx_return (y # ys)))"

text \<open>Replacing one error by another, as \<^verbatim>\<open>errors.Is\<close> branches do.\<close>

definition tx_map_err :: "(err \<Rightarrow> err) \<Rightarrow> ('w, 'a) tx \<Rightarrow> ('w, 'a) tx" where
  "tx_map_err g m = (\<lambda>w. case m w of Inl e \<Rightarrow> Inl (g e) | Inr y \<Rightarrow> Inr y)"

named_theorems tx_simps \<open>evaluation of the transaction combinators\<close>
named_theorems tx_within_intros \<open>composition rules for step relations\<close>

lemma tx_bind_Inr_iff:
  "tx_bind m f w = Inr (y, w2) \<longleftrightarrow> (\<exists>x w1. m w = Inr (x, w1) \<and> f x w1 = Inr (y, w2))"
  by (auto simp: tx_bind_def split: sum.splits prod.splits)

lemma tx_bind_Inr: "m w = Inr (x, w1) \<Longrightarrow> tx_bind m f w = f x w1"
  by (simp add: tx_bind_def)

lemma tx_bind_Inl: "m w = Inl e \<Longrightarrow> tx_bind m f w = Inl e"
  by (simp add: tx_bind_def)

lemma tx_then_Inr_iff:
  "tx_then m n w = Inr (y, w2) \<longleftrightarrow> (\<exists>x w1. m w = Inr (x, w1) \<and> n w1 = Inr (y, w2))"
  by (auto simp: tx_then_def tx_bind_Inr_iff)

lemma tx_bindE:
  assumes "tx_bind m f w = Inr (y, w2)"
  obtains x w1 where "m w = Inr (x, w1)" "f x w1 = Inr (y, w2)"
  using assms unfolding tx_bind_Inr_iff by blast

lemma tx_thenE:
  assumes "tx_then m n w = Inr (y, w2)"
  obtains x w1 where "m w = Inr (x, w1)" "n w1 = Inr (y, w2)"
  using assms unfolding tx_then_Inr_iff by blast

lemma tx_then_guard: "tx_then (tx_guard b e) n w = Inr z \<longleftrightarrow> b \<and> n w = Inr z"
  by (simp add: tx_then_def tx_bind_def tx_guard_def tx_return_def tx_fail_def)

lemma tx_guard_apply: "tx_guard b e w = (if b then Inr ((), w) else Inl e)"
  by (simp add: tx_guard_def tx_return_def tx_fail_def)

lemma tx_lift_apply: "tx_lift r w = (case r of Inl e \<Rightarrow> Inl e | Inr x \<Rightarrow> Inr (x, w))"
  by (simp add: tx_lift_def tx_return_def tx_fail_def split: sum.splits)

lemmas tx_apply [simp] =
  tx_return_def [THEN fun_cong] tx_fail_def [THEN fun_cong] tx_gets_def [THEN fun_cong]
  tx_modify_def [THEN fun_cong] tx_guard_apply tx_lift_apply

lemma tx_map_err_Inr_iff [simp]: "tx_map_err g m w = Inr y \<longleftrightarrow> m w = Inr y"
  by (simp add: tx_map_err_def split: sum.splits)

lemmas tx_eval = tx_bind_def tx_then_def tx_map_err_def
declare tx_bind_Inr_iff [tx_simps] tx_then_Inr_iff [tx_simps]

section \<open>Step relations\<close>

definition tx_within :: "('w \<Rightarrow> 'w \<Rightarrow> bool) \<Rightarrow> ('w, 'a) tx \<Rightarrow> bool" where
  "tx_within R m \<longleftrightarrow> (\<forall>w x w'. m w = Inr (x, w') \<longrightarrow> R w w')"

definition preserves :: "('w \<Rightarrow> bool) \<Rightarrow> 'w \<Rightarrow> 'w \<Rightarrow> bool" where
  "preserves I w w' \<longleftrightarrow> (I w \<longrightarrow> I w')"

lemma tx_withinI: "(\<And>w x w'. m w = Inr (x, w') \<Longrightarrow> R w w') \<Longrightarrow> tx_within R m"
  by (auto simp: tx_within_def)

lemma tx_withinD: "tx_within R m \<Longrightarrow> m w = Inr (x, w') \<Longrightarrow> R w w'"
  by (auto simp: tx_within_def)

locale tx_relation =
  fixes R :: "'w \<Rightarrow> 'w \<Rightarrow> bool"
  assumes step_refl: "R w w"
    and step_trans: "R w1 w2 \<Longrightarrow> R w2 w3 \<Longrightarrow> R w1 w3"
begin

text \<open>The continuation may use what the first statement returned.\<close>

lemma within_bind_result:
  assumes "tx_within R m" and "\<And>w x w1. m w = Inr (x, w1) \<Longrightarrow> tx_within R (f x)"
  shows "tx_within R (tx_bind m f)"
proof (rule tx_withinI)
  fix w y w2 assume "tx_bind m f w = Inr (y, w2)"
  then obtain x w1 where m: "m w = Inr (x, w1)" and f: "f x w1 = Inr (y, w2)"
    by (auto simp: tx_bind_Inr_iff)
  from assms(1) m have "R w w1" by (rule tx_withinD)
  moreover from assms(2) [OF m] f have "R w1 w2" by (rule tx_withinD)
  ultimately show "R w w2" by (rule step_trans)
qed

lemma within_bind:
  "tx_within R m \<Longrightarrow> (\<And>x. tx_within R (f x)) \<Longrightarrow> tx_within R (tx_bind m f)"
  by (rule within_bind_result)

lemma within_then: "tx_within R m \<Longrightarrow> tx_within R n \<Longrightarrow> tx_within R (tx_then m n)"
  unfolding tx_then_def by (rule within_bind)

lemma within_return: "tx_within R (tx_return x)"
  by (auto simp: tx_within_def step_refl)

lemma within_fail: "tx_within R (tx_fail e)"
  by (auto simp: tx_within_def)

lemma within_gets: "tx_within R (tx_gets f)"
  by (auto simp: tx_within_def step_refl)

lemma within_guard: "tx_within R (tx_guard b e)"
  by (auto simp: tx_guard_def intro: within_return within_fail)

lemma within_lift: "tx_within R (tx_lift r)"
  by (auto simp: tx_lift_def intro: within_return within_fail split: sum.splits)

lemma within_map_err: "tx_within R m \<Longrightarrow> tx_within R (tx_map_err g m)"
  by (auto simp: tx_within_def)

lemma within_map: "(\<And>x. x \<in> set xs \<Longrightarrow> tx_within R (f x)) \<Longrightarrow> tx_within R (tx_map f xs)"
  by (induction xs) (auto intro!: within_return within_bind)

lemma within_if: "(b \<Longrightarrow> tx_within R m) \<Longrightarrow> (\<not> b \<Longrightarrow> tx_within R n) \<Longrightarrow> tx_within R (if b then m else n)"
  by simp

lemma within_case_option:
  "(x = None \<Longrightarrow> tx_within R m) \<Longrightarrow> (\<And>y. x = Some y \<Longrightarrow> tx_within R (f y)) \<Longrightarrow>
   tx_within R (case x of None \<Rightarrow> m | Some y \<Rightarrow> f y)"
  by (cases x) auto

lemma within_case_prod:
  "(\<And>a b. x = (a, b) \<Longrightarrow> tx_within R (f a b)) \<Longrightarrow> tx_within R (case x of (a, b) \<Rightarrow> f a b)"
  by (cases x) simp

lemma within_modify: "(\<And>w. R w (f w)) \<Longrightarrow> tx_within R (tx_modify f)"
  by (auto simp: tx_within_def)

lemmas within_intros =
  within_return within_fail within_gets within_guard within_lift
  within_bind within_then within_map within_map_err within_if within_case_option within_case_prod

end

interpretation preserve: tx_relation "preserves I" for I :: "'w \<Rightarrow> bool"
  by unfold_locales (auto simp: preserves_def)

section \<open>Pre- and postconditions\<close>

definition tx_hoare :: "('w \<Rightarrow> bool) \<Rightarrow> ('w, 'a) tx \<Rightarrow> ('a \<Rightarrow> 'w \<Rightarrow> bool) \<Rightarrow> bool" where
  "tx_hoare P m Q \<longleftrightarrow> (\<forall>w x w'. P w \<longrightarrow> m w = Inr (x, w') \<longrightarrow> Q x w')"

lemma tx_hoareI: "(\<And>w x w'. P w \<Longrightarrow> m w = Inr (x, w') \<Longrightarrow> Q x w') \<Longrightarrow> tx_hoare P m Q"
  by (auto simp: tx_hoare_def)

lemma tx_hoareD: "tx_hoare P m Q \<Longrightarrow> P w \<Longrightarrow> m w = Inr (x, w') \<Longrightarrow> Q x w'"
  by (auto simp: tx_hoare_def)

lemma hoare_bind: "tx_hoare P m Q \<Longrightarrow> (\<And>x. tx_hoare (Q x) (f x) S) \<Longrightarrow> tx_hoare P (tx_bind m f) S"
  unfolding tx_hoare_def tx_bind_Inr_iff by blast

lemma hoare_then: "tx_hoare P m (\<lambda>_. Q) \<Longrightarrow> tx_hoare Q n S \<Longrightarrow> tx_hoare P (tx_then m n) S"
  unfolding tx_hoare_def tx_then_Inr_iff by blast

lemma hoare_gets: "tx_hoare P (tx_gets f) (\<lambda>_. P)"
  by (simp add: tx_hoare_def)

lemma hoare_return: "(\<And>w. P w \<Longrightarrow> Q x w) \<Longrightarrow> tx_hoare P (tx_return x) Q"
  by (simp add: tx_hoare_def)

lemma hoare_fail: "tx_hoare P (tx_fail e) Q"
  by (simp add: tx_hoare_def)

lemma hoare_if: "(b \<Longrightarrow> tx_hoare P m Q) \<Longrightarrow> (\<not> b \<Longrightarrow> tx_hoare P n Q) \<Longrightarrow> tx_hoare P (if b then m else n) Q"
  by simp

lemma hoare_case_prod: "(\<And>a b. x = (a, b) \<Longrightarrow> tx_hoare P (f a b) Q) \<Longrightarrow> tx_hoare P (case x of (a, b) \<Rightarrow> f a b) Q"
  by (cases x) simp

lemma hoare_modify: "(\<And>w. P w \<Longrightarrow> Q () (f w)) \<Longrightarrow> tx_hoare P (tx_modify f) Q"
  by (simp add: tx_hoare_def)

lemma hoare_map:
  "(\<And>x. x \<in> set xs \<Longrightarrow> tx_hoare P (f x) (\<lambda>_. P)) \<Longrightarrow> tx_hoare P (tx_map f xs) (\<lambda>_. P)"
  by (induction xs) (auto intro!: hoare_bind hoare_return)

lemma hoare_post: "tx_hoare P m Q \<Longrightarrow> (\<And>x w. Q x w \<Longrightarrow> S x w) \<Longrightarrow> tx_hoare P m S"
  by (auto simp: tx_hoare_def)

lemma hoare_pre: "(\<And>w. P w \<Longrightarrow> P' w) \<Longrightarrow> tx_hoare P' m Q \<Longrightarrow> tx_hoare P m Q"
  by (auto simp: tx_hoare_def)

section \<open>Tables\<close>

definition update_where :: "('r \<Rightarrow> bool) \<Rightarrow> ('r \<Rightarrow> 'r) \<Rightarrow> 'r list \<Rightarrow> 'r list" where
  "update_where p f rows = map (\<lambda>r. if p r then f r else r) rows"

definition rows_affected :: "('r \<Rightarrow> bool) \<Rightarrow> 'r list \<Rightarrow> nat" where
  "rows_affected p rows = length (filter p rows)"

definition list_max0 :: "int list \<Rightarrow> int" where
  "list_max0 xs = foldr max xs 0"

lemma length_update_where [simp]: "length (update_where p f rows) = length rows"
  by (simp add: update_where_def)

lemma set_update_where:
  "set (update_where p f rows) = (\<lambda>r. if p r then f r else r) ` set rows"
  by (simp add: update_where_def)

lemma in_update_whereE:
  assumes "r' \<in> set (update_where p f rows)"
  obtains r where "r \<in> set rows" and "p r" and "r' = f r"
    | "r' \<in> set rows" and "\<not> p r'"
  using assms by (auto simp: set_update_where split: if_splits)

lemma in_update_where_hit: "r \<in> set rows \<Longrightarrow> p r \<Longrightarrow> f r \<in> set (update_where p f rows)"
  by (force simp: set_update_where)

lemma in_update_where_miss: "r \<in> set rows \<Longrightarrow> \<not> p r \<Longrightarrow> r \<in> set (update_where p f rows)"
  by (force simp: set_update_where)

lemma map_update_where:
  "(\<And>r. p r \<Longrightarrow> g (f r) = g r) \<Longrightarrow> map g (update_where p f rows) = map g rows"
  by (simp add: update_where_def)

lemma filter_update_where_None:
  "(\<And>r. p r \<Longrightarrow> \<not> q (f r)) \<Longrightarrow> (\<And>r. \<not> p r \<Longrightarrow> \<not> q r) \<Longrightarrow> filter q (update_where p f rows) = []"
  by (auto simp: update_where_def filter_empty_conv)

lemma list_max0_ge: "x \<in> set xs \<Longrightarrow> x \<le> list_max0 xs"
  by (induction xs) (auto simp: list_max0_def)

lemma list_max0_nonneg: "0 \<le> list_max0 xs"
  by (induction xs) (auto simp: list_max0_def)

lemma list_max0_in: "list_max0 xs = 0 \<or> list_max0 xs \<in> set xs"
  by (induction xs) (auto simp: list_max0_def max_def)

section \<open>Machine integers\<close>

text \<open>Go's \<^verbatim>\<open>int64\<close> as the integers with the two's-complement wrap written out.\<close>

definition MaxInt64 :: int where "MaxInt64 = 9223372036854775807"

definition wrap64 :: "int \<Rightarrow> int" where
  "wrap64 x = (x + 9223372036854775808) mod 18446744073709551616 - 9223372036854775808"

lemma wrap64_range: "- 9223372036854775808 \<le> wrap64 x" "wrap64 x \<le> MaxInt64"
  by (simp_all add: wrap64_def MaxInt64_def)

lemma wrap64_id: "- 9223372036854775808 \<le> x \<Longrightarrow> x \<le> MaxInt64 \<Longrightarrow> wrap64 x = x"
  by (simp add: wrap64_def MaxInt64_def)

end
