(* ===== verification/GoStrings.thy ===== *)
theory GoStrings
  imports Prelude
begin

text \<open>
  What the modelled sources use of Go's strings. A Go string is a byte sequence; here it is a
  \<open>string\<close> whose characters are its bytes. This theory holds UTF-8 decoding as
  \<^verbatim>\<open>for _, r := range s\<close> does it (an invalid byte is the replacement rune, one byte wide),
  \<^verbatim>\<open>utf8.ValidString\<close>, \<^verbatim>\<open>utf8.RuneStart\<close>, \<^verbatim>\<open>strings.TrimSpace\<close>,
  \<^verbatim>\<open>strings.Join\<close> and the decimal rendering of \<^verbatim>\<open>fmt\<close>'s \<^verbatim>\<open>%d\<close>.
\<close>

definition byte :: "char \<Rightarrow> int" where
  "byte c = of_char c"

definition byte_char :: "int \<Rightarrow> char" where
  "byte_char n = char_of n"

lemma byte_range: "0 \<le> byte c" "byte c < 256"
proof -
  have "of_char c mod 256 = (of_char c :: int)" by simp
  then show "0 \<le> byte c" "byte c < 256"
    unfolding byte_def by (metis pos_mod_sign zero_less_numeral, metis pos_mod_bound zero_less_numeral)
qed

lemma byte_nat: "byte c = int (of_char c)"
  unfolding byte_def by (rule of_nat_of_char [symmetric])

definition RuneError :: int where "RuneError = 0xFFFD"

definition cont_byte :: "int \<Rightarrow> bool" where
  "cont_byte b \<longleftrightarrow> 0x80 \<le> b \<and> b \<le> 0xBF"

text \<open>The accepted range of the second byte, by the first (the accept ranges of \<^verbatim>\<open>unicode/utf8\<close>).\<close>

definition second_ok :: "int \<Rightarrow> int \<Rightarrow> bool" where
  "second_ok x b \<longleftrightarrow>
     (if x = 0xE0 then 0xA0 \<le> b \<and> b \<le> 0xBF
      else if x = 0xED then 0x80 \<le> b \<and> b \<le> 0x9F
      else if x = 0xF0 then 0x90 \<le> b \<and> b \<le> 0xBF
      else if x = 0xF4 then 0x80 \<le> b \<and> b \<le> 0x8F
      else cont_byte b)"

text \<open>Decodes a multi-byte rune from its first byte and the bytes after it.\<close>

definition decode_multi :: "int \<Rightarrow> string \<Rightarrow> (int \<times> string) option" where
  "decode_multi x bs =
     (if 0xC2 \<le> x \<and> x \<le> 0xDF then
        (case bs of
           b1 # rest \<Rightarrow>
             if second_ok x (byte b1) then Some ((x - 0xC0) * 64 + (byte b1 - 0x80), rest) else None
         | [] \<Rightarrow> None)
      else if 0xE0 \<le> x \<and> x \<le> 0xEF then
        (case bs of
           b1 # b2 # rest \<Rightarrow>
             if second_ok x (byte b1) \<and> cont_byte (byte b2)
             then Some ((x - 0xE0) * 4096 + (byte b1 - 0x80) * 64 + (byte b2 - 0x80), rest) else None
         | _ \<Rightarrow> None)
      else if 0xF0 \<le> x \<and> x \<le> 0xF4 then
        (case bs of
           b1 # b2 # b3 # rest \<Rightarrow>
             if second_ok x (byte b1) \<and> cont_byte (byte b2) \<and> cont_byte (byte b3)
             then Some ((x - 0xF0) * 262144 + (byte b1 - 0x80) * 4096
                        + (byte b2 - 0x80) * 64 + (byte b3 - 0x80), rest) else None
         | _ \<Rightarrow> None)
      else None)"

lemma decode_multi_length: "decode_multi x bs = Some (r, rest) \<Longrightarrow> length rest < length bs"
  by (auto simp: decode_multi_def split: if_splits list.splits)

function runes :: "string \<Rightarrow> int list" where
  "runes [] = []"
| "runes (b # bs) =
     (if byte b < 0x80 then byte b # runes bs
      else (case decode_multi (byte b) bs of
              Some (r, rest) \<Rightarrow> r # runes rest
            | None \<Rightarrow> RuneError # runes bs))"
  by pat_completeness auto
termination
  by (relation "measure length") (auto dest: decode_multi_length)

function ValidString :: "string \<Rightarrow> bool" where
  "ValidString [] = True"
| "ValidString (b # bs) =
     (if byte b < 0x80 then ValidString bs
      else (case decode_multi (byte b) bs of
              Some (r, rest) \<Rightarrow> ValidString rest
            | None \<Rightarrow> False))"
  by pat_completeness auto
termination
  by (relation "measure length") (auto dest: decode_multi_length)

definition RuneStart :: "char \<Rightarrow> bool" where
  "RuneStart c \<longleftrightarrow> \<not> cont_byte (byte c)"

text \<open>\<^verbatim>\<open>unicode.IsSpace\<close>.\<close>

definition IsSpace :: "int \<Rightarrow> bool" where
  "IsSpace r \<longleftrightarrow> r \<in> set [0x09, 0x0A, 0x0B, 0x0C, 0x0D, 0x20, 0x85, 0xA0, 0x1680,
     0x2000, 0x2001, 0x2002, 0x2003, 0x2004, 0x2005, 0x2006, 0x2007, 0x2008, 0x2009, 0x200A,
     0x2028, 0x2029, 0x202F, 0x205F, 0x3000]"

text \<open>\<^verbatim>\<open>strings.TrimSpace\<close>: white space is dropped rune by rune from both ends.\<close>

function trim_left :: "string \<Rightarrow> string" where
  "trim_left [] = []"
| "trim_left (b # bs) =
     (if byte b < 0x80 then (if IsSpace (byte b) then trim_left bs else b # bs)
      else (case decode_multi (byte b) bs of
              Some (r, rest) \<Rightarrow> if IsSpace r then trim_left rest else b # bs
            | None \<Rightarrow> b # bs))"
  by pat_completeness auto
termination
  by (relation "measure length") (auto dest: decode_multi_length)

text \<open>The last rune, read backwards; \<open>rs\<close> is the string reversed.\<close>

definition last_space :: "string \<Rightarrow> string option" where
  "last_space rs =
     (case rs of
        [] \<Rightarrow> None
      | b # rest \<Rightarrow>
          if byte b < 0x80 then (if IsSpace (byte b) then Some rest else None)
          else (case rest of
                  [] \<Rightarrow> None
                | c # rest2 \<Rightarrow>
                    (case decode_multi (byte c) [b] of
                       Some (r, []) \<Rightarrow> if IsSpace r then Some rest2 else None
                     | _ \<Rightarrow>
                         (case rest2 of
                            [] \<Rightarrow> None
                          | d # rest3 \<Rightarrow>
                              (case decode_multi (byte d) [c, b] of
                                 Some (r, []) \<Rightarrow> if IsSpace r then Some rest3 else None
                               | _ \<Rightarrow> None)))))"

lemma last_space_length: "last_space rs = Some rest \<Longrightarrow> length rest < length rs"
  by (auto simp: last_space_def split: list.splits if_splits option.splits prod.splits)

function trim_right_rev :: "string \<Rightarrow> string" where
  "trim_right_rev rs = (case last_space rs of Some rest \<Rightarrow> trim_right_rev rest | None \<Rightarrow> rs)"
  by pat_completeness auto
termination
  by (relation "measure length") (auto dest: last_space_length)

declare trim_right_rev.simps [simp del]

definition TrimSpace :: "string \<Rightarrow> string" where
  "TrimSpace s = rev (trim_right_rev (rev (trim_left s)))"

text \<open>\<^verbatim>\<open>strings.Join\<close>.\<close>

fun Join :: "string list \<Rightarrow> string \<Rightarrow> string" where
  "Join [] sep = []"
| "Join [x] sep = x"
| "Join (x # y # ys) sep = x @ sep @ Join (y # ys) sep"

section \<open>Decimal numbers\<close>

definition digit :: "int \<Rightarrow> char" where
  "digit d = char_of (48 + d)"

definition is_digit :: "char \<Rightarrow> bool" where
  "is_digit c \<longleftrightarrow> 48 \<le> byte c \<and> byte c \<le> 57"

definition digit_val :: "char \<Rightarrow> int" where
  "digit_val c = byte c - 48"

text \<open>The \<open>n\<close> least significant digits, most significant first: Go's zero-padded fields.\<close>

fun padded :: "nat \<Rightarrow> int \<Rightarrow> string" where
  "padded 0 v = []"
| "padded (Suc n) v = padded n (v div 10) @ [digit (v mod 10)]"

definition number :: "string \<Rightarrow> int" where
  "number ds = foldl (\<lambda>acc c. acc * 10 + digit_val c) 0 ds"

function dec_pos :: "int \<Rightarrow> string" where
  "dec_pos n = (if n < 10 then [digit n] else dec_pos (n div 10) @ [digit (n mod 10)])"
  by pat_completeness auto
termination
  by (relation "measure nat") auto

declare dec_pos.simps [simp del]

definition dec :: "int \<Rightarrow> string" where
  "dec i = (if i < 0 then ''-'' @ dec_pos (- i) else dec_pos i)"

lemma byte_digit: "0 \<le> d \<Longrightarrow> d < 10 \<Longrightarrow> byte (digit d) = 48 + d"
  by (simp add: byte_def digit_def)

lemma is_digit_digit: "0 \<le> d \<Longrightarrow> d < 10 \<Longrightarrow> is_digit (digit d)"
  by (simp add: is_digit_def byte_digit)

lemma digit_val_digit: "0 \<le> d \<Longrightarrow> d < 10 \<Longrightarrow> digit_val (digit d) = d"
  by (simp add: digit_val_def byte_digit)

lemma length_padded [simp]: "length (padded n v) = n"
  by (induction n arbitrary: v) auto

lemma padded_digits: "c \<in> set (padded n v) \<Longrightarrow> is_digit c"
  by (induction n arbitrary: v) (auto simp: is_digit_digit)

lemma number_append: "number (xs @ [c]) = number xs * 10 + digit_val c"
  by (simp add: number_def)

lemma div10_bound: "(v::int) < 10 ^ Suc n \<Longrightarrow> v div 10 < 10 ^ n"
  by (simp add: div_less_iff_less_mult mult.commute)

lemma number_padded: "0 \<le> v \<Longrightarrow> v < 10 ^ n \<Longrightarrow> number (padded n v) = v"
proof (induction n arbitrary: v)
  case 0
  then show ?case by (simp add: number_def)
next
  case (Suc n)
  then have "number (padded n (v div 10)) = v div 10" by (simp add: div10_bound)
  then show ?case by (simp add: number_append digit_val_digit)
qed

lemma padded_inject:
  "0 \<le> u \<Longrightarrow> u < 10 ^ n \<Longrightarrow> 0 \<le> v \<Longrightarrow> v < 10 ^ n \<Longrightarrow> padded n u = padded n v \<longleftrightarrow> u = v"
  by (metis number_padded)

text \<open>Fixed-width decimals compare as text the way the numbers compare.\<close>

lemma list_less_append_same_length:
  fixes a b c d :: "'a::order list"
  shows "length a = length b \<Longrightarrow> a @ c < b @ d \<longleftrightarrow> a < b \<or> (a = b \<and> c < d)"
  by (induction a b rule: list_induct2) auto

lemma digit_less: "0 \<le> d \<Longrightarrow> d < 10 \<Longrightarrow> 0 \<le> e \<Longrightarrow> e < 10 \<Longrightarrow> digit d < digit e \<longleftrightarrow> d < e"
proof -
  assume d: "0 \<le> d" "d < 10" "0 \<le> e" "e < 10"
  have "digit d < digit e \<longleftrightarrow> byte (digit d) < byte (digit e)"
    by (simp add: byte_nat less_char_def)
  with d show ?thesis by (simp add: byte_digit)
qed

lemma div_mod_less:
  "(u::int) < v \<longleftrightarrow> u div 10 < v div 10 \<or> (u div 10 = v div 10 \<and> u mod 10 < v mod 10)"
proof -
  have "u = 10 * (u div 10) + u mod 10" "u mod 10 < 10" "0 \<le> u mod 10"
      "v = 10 * (v div 10) + v mod 10" "v mod 10 < 10" "0 \<le> v mod 10"
    by simp_all
  then show ?thesis
    by (cases "u div 10" "v div 10" rule: linorder_cases) linarith+
qed

lemma padded_less:
  "0 \<le> u \<Longrightarrow> u < 10 ^ n \<Longrightarrow> 0 \<le> v \<Longrightarrow> v < 10 ^ n \<Longrightarrow> padded n u < padded n v \<longleftrightarrow> u < v"
proof (induction n arbitrary: u v)
  case 0
  then show ?case by simp
next
  case (Suc n)
  let ?u = "u div 10" and ?v = "v div 10"
  have b: "0 \<le> ?u" "?u < 10 ^ n" "0 \<le> ?v" "?v < 10 ^ n"
    using Suc.prems by (simp_all add: div10_bound)
  have "padded (Suc n) u < padded (Suc n) v \<longleftrightarrow>
      padded n ?u < padded n ?v \<or> (padded n ?u = padded n ?v \<and> [digit (u mod 10)] < [digit (v mod 10)])"
    by (simp add: list_less_append_same_length)
  also have "\<dots> \<longleftrightarrow> ?u < ?v \<or> (?u = ?v \<and> u mod 10 < v mod 10)"
    using Suc.IH [OF b] b by (simp add: padded_inject digit_less)
  also have "\<dots> \<longleftrightarrow> u < v"
    by (rule div_mod_less [symmetric])
  finally show ?case .
qed

end
