(* ===== verification/PersistTime.thy ===== *)
theory PersistTime
  imports GoStrings
begin

text \<open>
  The package \<^verbatim>\<open>persisttime\<close> (\<^verbatim>\<open>internal/persisttime/time.go\<close>): the one persisted timestamp
  format. A Go \<^verbatim>\<open>time.Time\<close> is the integer number of nanoseconds since 0001-01-01T00:00:00Z;
  the calendar of package \<^verbatim>\<open>time\<close> (proleptic Gregorian, UTC) is written out below.

  The point of the package is that rows are compared as text: \<open>Format_order\<close> shows that the
  fixed-width rendering makes text order chronological, and \<open>ParseLegacy_Format\<close> that
  parsing reads back what was written.
\<close>

section \<open>The calendar\<close>

definition is_leap :: "int \<Rightarrow> bool" where
  "is_leap y \<longleftrightarrow> 4 dvd y \<and> (\<not> 100 dvd y \<or> 400 dvd y)"

definition days_before_year :: "int \<Rightarrow> int" where
  "days_before_year y = 365 * (y - 1) + (y - 1) div 4 - (y - 1) div 100 + (y - 1) div 400"

definition days_before_month :: "bool \<Rightarrow> int \<Rightarrow> int" where
  "days_before_month leap m =
     (if m \<le> 1 then 0 else if m = 2 then 31
      else (if leap then 1 else 0)
        + (if m = 3 then 59 else if m = 4 then 90 else if m = 5 then 120 else if m = 6 then 151
           else if m = 7 then 181 else if m = 8 then 212 else if m = 9 then 243
           else if m = 10 then 273 else if m = 11 then 304 else if m = 12 then 334 else 365))"

definition days_in_month :: "bool \<Rightarrow> int \<Rightarrow> int" where
  "days_in_month leap m = days_before_month leap (m + 1) - days_before_month leap m"

definition day_number :: "int \<Rightarrow> int \<Rightarrow> int \<Rightarrow> int" where
  "day_number y m d = days_before_year y + days_before_month (is_leap y) m + (d - 1)"

definition valid_date :: "int \<Rightarrow> int \<Rightarrow> int \<Rightarrow> bool" where
  "valid_date y m d \<longleftrightarrow> 1 \<le> m \<and> m \<le> 12 \<and> 1 \<le> d \<and> d \<le> days_in_month (is_leap y) m"

text \<open>The year and the day within it of a day number, by 400-, 100-, 4- and 1-year cycles.\<close>

definition year_day :: "int \<Rightarrow> int \<times> int" where
  "year_day n =
     (let n400 = n div 146097; r400 = n mod 146097;
          n100 = min 3 (r400 div 36524); r100 = r400 - 36524 * n100;
          n4 = r100 div 1461; r4 = r100 mod 1461;
          n1 = min 3 (r4 div 365)
      in (400 * n400 + 100 * n100 + 4 * n4 + n1 + 1, r4 - 365 * n1))"

fun month_search :: "bool \<Rightarrow> int \<Rightarrow> int list \<Rightarrow> int" where
  "month_search leap yd [] = 12"
| "month_search leap yd (m # ms) =
     (if yd < days_before_month leap (m + 1) then m else month_search leap yd ms)"

definition month_of :: "bool \<Rightarrow> int \<Rightarrow> int" where
  "month_of leap yd = month_search leap yd [1, 2, 3, 4, 5, 6, 7, 8, 9, 10, 11]"

definition civil :: "int \<Rightarrow> int \<times> int \<times> int" where
  "civil n = (case year_day n of (y, yd) \<Rightarrow>
     let m = month_of (is_leap y) yd in (y, m, yd - days_before_month (is_leap y) m + 1))"

section \<open>The package\<close>

definition day_nanos :: int where "day_nanos = 86400000000000"

definition minInstant :: int where "minInstant = 0"

definition maxInstant :: int where "maxInstant = 3652059 * day_nanos - 1"

definition unix_epoch :: int where "unix_epoch = 719162 * day_nanos"

text \<open>\<^verbatim>\<open>Time.UnixNano\<close> computes in \<^verbatim>\<open>int64\<close>.\<close>

definition UnixNano :: "int \<Rightarrow> int" where
  "UnixNano t = wrap64 (t - unix_epoch)"

text \<open>\<^verbatim>\<open>appendInt(year, 4)\<close> pads to four digits and grows beyond them.\<close>

definition year_text :: "int \<Rightarrow> string" where
  "year_text y =
     (if y < 0 then ''-'' @ (if - y < 10000 then padded 4 (- y) else dec (- y))
      else if y < 10000 then padded 4 y else dec y)"

definition Format :: "int \<Rightarrow> string" where
  "Format t =
     (case civil (t div day_nanos) of (y, m, d) \<Rightarrow>
        let tod = t mod day_nanos in
        year_text y @ ''-'' @ padded 2 m @ ''-'' @ padded 2 d @ ''T''
        @ padded 2 (tod div 3600000000000) @ '':'' @ padded 2 (tod div 60000000000 mod 60) @ '':''
        @ padded 2 (tod div 1000000000 mod 60) @ ''.'' @ padded 9 (tod mod 1000000000) @ ''Z'')"

definition all_digits :: "string \<Rightarrow> bool" where
  "all_digits s \<longleftrightarrow> list_all is_digit s"

text \<open>The zone suffix of \<^verbatim>\<open>approvedShape\<close> as its offset in seconds.\<close>

definition zone_offset :: "string \<Rightarrow> int option" where
  "zone_offset z =
     (if z = ''Z'' then Some 0
      else if length z = 6 \<and> (take 1 z = ''+'' \<or> take 1 z = ''-'') \<and> all_digits (take 2 (drop 1 z))
        \<and> take 1 (drop 3 z) = '':'' \<and> all_digits (drop 4 z)
        \<and> number (take 2 (drop 1 z)) \<le> 23 \<and> number (drop 4 z) \<le> 59
      then Some ((if take 1 z = ''-'' then -1 else 1)
                 * (number (take 2 (drop 1 z)) * 3600 + number (drop 4 z) * 60))
      else None)"

text \<open>The optional fraction and the zone, as nanoseconds and offset.\<close>

definition fraction_zone :: "string \<Rightarrow> (int \<times> int) option" where
  "fraction_zone s =
     (if take 1 s = ''.'' then
        (let ds = takeWhile is_digit (drop 1 s); z = dropWhile is_digit (drop 1 s) in
         if 1 \<le> length ds \<and> length ds \<le> 9
         then map_option (Pair (number (ds @ replicate (9 - length ds) (CHR ''0'')))) (zone_offset z)
         else None)
      else map_option (Pair 0) (zone_offset s))"

definition date_time_shape :: "string \<Rightarrow> bool" where
  "date_time_shape s \<longleftrightarrow> 20 \<le> length s
     \<and> all_digits (take 4 s) \<and> take 1 (drop 4 s) = ''-''
     \<and> all_digits (take 2 (drop 5 s)) \<and> take 1 (drop 7 s) = ''-''
     \<and> all_digits (take 2 (drop 8 s)) \<and> take 1 (drop 10 s) = ''T''
     \<and> all_digits (take 2 (drop 11 s)) \<and> take 1 (drop 13 s) = '':''
     \<and> all_digits (take 2 (drop 14 s)) \<and> take 1 (drop 16 s) = '':''
     \<and> all_digits (take 2 (drop 17 s))"

definition approvedShape :: "string \<Rightarrow> bool" where
  "approvedShape s \<longleftrightarrow> date_time_shape s \<and> fraction_zone (drop 19 s) \<noteq> None"

text \<open>\<^verbatim>\<open>time.Parse(time.RFC3339Nano, s)\<close> on the approved shapes, as a UTC instant.\<close>

definition parse_rfc3339 :: "string \<Rightarrow> int option" where
  "parse_rfc3339 s =
     (case fraction_zone (drop 19 s) of
        None \<Rightarrow> None
      | Some (ns, off) \<Rightarrow>
          (let y = number (take 4 s); m = number (take 2 (drop 5 s)); d = number (take 2 (drop 8 s));
               hh = number (take 2 (drop 11 s)); mi = number (take 2 (drop 14 s));
               ss = number (take 2 (drop 17 s)) in
           if valid_date y m d \<and> hh \<le> 23 \<and> mi \<le> 59 \<and> ss \<le> 59
           then Some (day_number y m d * day_nanos
                      + (hh * 3600 + mi * 60 + ss - off) * 1000000000 + ns)
           else None))"

definition ParseLegacy :: "string \<Rightarrow> int result" where
  "ParseLegacy value =
     (if \<not> approvedShape value then Inl ErrInvalidTimestamp
      else case parse_rfc3339 value of
             None \<Rightarrow> Inl ErrInvalidTimestamp
           | Some normalized \<Rightarrow>
               if normalized < minInstant \<or> maxInstant < normalized then Inl ErrInvalidTimestamp
               else Inr normalized)"

definition ParseCanonical :: "string \<Rightarrow> int result" where
  "ParseCanonical value =
     (case ParseLegacy value of
        Inl e \<Rightarrow> Inl ErrInvalidTimestamp
      | Inr parsed \<Rightarrow> if Format parsed \<noteq> value then Inl ErrInvalidTimestamp else Inr parsed)"

definition NextStateTime :: "int \<Rightarrow> string \<Rightarrow> string result" where
  "NextStateTime now prior =
     (case ParseLegacy prior of
        Inl e \<Rightarrow> Inl e
      | Inr priorInstant \<Rightarrow>
          if \<not> priorInstant < maxInstant then Inl ErrTimestampRangeExhausted
          else (let next0 = priorInstant + 1;
                    nxt = (if next0 < now then now else next0) in
                if nxt < minInstant \<or> maxInstant < nxt then Inl ErrTimestampRangeExhausted
                else Inr (Format nxt)))"

section \<open>Calendar lemmas\<close>

lemma div_step: "0 < k \<Longrightarrow> (y::int) div k = (y - 1) div k + (if k dvd y then 1 else 0)"
proof -
  assume k: "0 < k"
  show ?thesis
  proof (cases "k dvd y")
    case True
    then obtain q where "y = k * q" by blast
    moreover have "(k * q - 1) div k = q - 1"
      using k by (intro int_div_pos_eq [where r = "k - 1"]) (auto simp: algebra_simps)
    ultimately show ?thesis using k True by simp
  next
    case False
    then have "y mod k \<noteq> 0" using dvd_eq_mod_eq_0 by blast
    then have "0 < y mod k" "y mod k < k" 
      using k pos_mod_bound [of k y] pos_mod_sign [of k y] by linarith+
    then have "(y - 1) div k = y div k"
      using minus_mod_eq_mult_div [of y k] by (intro int_div_pos_eq [where r = "y mod k - 1"]) auto
    then show ?thesis using False by simp
  qed
qed

lemma year_sum:
  "L = 365 + i - j + k \<Longrightarrow> A = a + i \<Longrightarrow> B = b + j \<Longrightarrow> C = c + k \<Longrightarrow>
   365 * y + A - B + C = 365 * (y - 1) + a - b + c + (L::int)"
  by (simp add: algebra_simps)

lemma days_before_year_Suc:
  "days_before_year (y + 1) = days_before_year y + (if is_leap y then 366 else 365)"
proof -
  have dvds: "400 dvd y \<Longrightarrow> 100 dvd y" "100 dvd y \<Longrightarrow> 4 dvd y"
    using dvd_trans [of "100::int" 400 y] dvd_trans [of "4::int" 100 y] by auto
  have "(if is_leap y then 366 else 365 :: int)
      = 365 + (if 4 dvd y then 1 else 0) - (if 100 dvd y then 1 else 0) + (if 400 dvd y then 1 else 0)"
    unfolding is_leap_def using dvds
    by (cases "4 dvd y"; cases "100 dvd y"; cases "400 dvd y") simp_all
  then show ?thesis
    using div_step [of 4 y, OF zero_less_numeral] div_step [of 100 y, OF zero_less_numeral]
      div_step [of 400 y, OF zero_less_numeral]
    unfolding days_before_year_def add_diff_cancel_right' by (rule year_sum)
qed

lemma days_before_year_add: "days_before_year y + 365 * int n \<le> days_before_year (y + int n)"
proof (induction n)
  case (Suc n)
  then show ?case using days_before_year_Suc [of "y + int n"] by (auto simp: algebra_simps split: if_splits)
qed simp

lemma days_before_year_mono: "y \<le> z \<Longrightarrow> days_before_year y \<le> days_before_year z"
  using days_before_year_add [of y "nat (z - y)"] by simp

lemma year_day_parts:
  assumes "0 \<le> b" "b \<le> 3" "0 \<le> c" "c \<le> 24" "0 \<le> e" "e \<le> (3::int)"
  shows "days_before_year (400 * a + 100 * b + 4 * c + e + 1)
    = 146097 * a + 36524 * b + 1461 * c + 365 * e"
proof -
  have "(400 * a + 100 * b + 4 * c + e) div 4 = 100 * a + 25 * b + c"
    using assms by (intro int_div_pos_eq [where r = e]) auto
  moreover have "(400 * a + 100 * b + 4 * c + e) div 100 = 4 * a + b"
    using assms by (intro int_div_pos_eq [where r = "4 * c + e"]) auto
  moreover have "(400 * a + 100 * b + 4 * c + e) div 400 = a"
    using assms by (intro int_div_pos_eq [where r = "100 * b + 4 * c + e"]) auto
  ultimately show ?thesis by (simp add: days_before_year_def)
qed

lemma dvd_remainder:
  assumes "0 < r" "r \<le> (k::int)"
  shows "k dvd k * q + r \<longleftrightarrow> r = k"
proof -
  have "k dvd k * q + r \<longleftrightarrow> k dvd r" by (simp add: dvd_add_right_iff)
  also have "\<dots> \<longleftrightarrow> r = k" using assms zdvd_imp_le by fastforce
  finally show ?thesis .
qed

lemma is_leap_parts:
  assumes "0 \<le> b" "b \<le> 3" "0 \<le> c" "c \<le> 24" "0 \<le> e" "e \<le> (3::int)"
  shows "is_leap (400 * a + 100 * b + 4 * c + e + 1) \<longleftrightarrow> e = 3 \<and> (c < 24 \<or> b = 3)"
proof -
  let ?y = "400 * a + 100 * b + 4 * c + e + 1"
  have "4 dvd ?y \<longleftrightarrow> e = 3"
    using dvd_remainder [of "e + 1" 4 "100 * a + 25 * b + c"] assms by (simp add: algebra_simps)
  moreover have "4 * c + e + 1 = 100 \<longleftrightarrow> e = 3 \<and> c = 24" using assms by linarith
  then have "100 dvd ?y \<longleftrightarrow> e = 3 \<and> c = 24"
    using dvd_remainder [of "4 * c + e + 1" 100 "4 * a + b"] assms by (simp add: algebra_simps)
  moreover have "100 * b + 4 * c + e + 1 = 400 \<longleftrightarrow> e = 3 \<and> c = 24 \<and> b = 3" using assms by linarith
  then have "400 dvd ?y \<longleftrightarrow> e = 3 \<and> c = 24 \<and> b = 3"
    using dvd_remainder [of "100 * b + 4 * c + e + 1" 400 a] assms by (simp add: algebra_simps)
  ultimately show ?thesis unfolding is_leap_def using assms by auto
qed

lemma year_day_correct:
  assumes "year_day n = (y, yd)"
  shows "n = days_before_year y + yd \<and> 0 \<le> yd \<and> yd < (if is_leap y then 366 else 365)"
proof -
  define a where "a = n div 146097"
  define r where "r = n mod 146097"
  define b where "b = min 3 (r div 36524)"
  define s where "s = r - 36524 * b"
  define c where "c = s div 1461"
  define u where "u = s mod 1461"
  define e where "e = min 3 (u div 365)"
  have n: "n = 146097 * a + r" "0 \<le> r" "r < 146097" by (simp_all add: a_def r_def)
  have b: "0 \<le> b" "b \<le> 3" "0 \<le> s" "s < 36525" "b < 3 \<Longrightarrow> s < 36524"
    using n unfolding b_def s_def by linarith+
  have s: "s = 1461 * c + u" "0 \<le> u" "u < 1461" by (simp_all add: c_def u_def)
  have c: "0 \<le> c" "c \<le> 24" "b < 3 \<Longrightarrow> c = 24 \<Longrightarrow> u < 1460" using b s by linarith+
  have e: "0 \<le> e" "e \<le> 3" "0 \<le> u - 365 * e" "u - 365 * e < 366" "e < 3 \<Longrightarrow> u - 365 * e < 365"
    using s unfolding e_def by linarith+
  have y: "y = 400 * a + 100 * b + 4 * c + e + 1" and yd: "yd = u - 365 * e"
    using assms by (simp_all add: year_day_def Let_def a_def r_def b_def s_def c_def u_def e_def)
  have "days_before_year y = 146097 * a + 36524 * b + 1461 * c + 365 * e"
    unfolding y using b c e by (intro year_day_parts) auto
  moreover have "is_leap y \<longleftrightarrow> e = 3 \<and> (c < 24 \<or> b = 3)"
    unfolding y using b c e by (intro is_leap_parts) auto
  moreover have "s = r - 36524 * b" by (simp add: s_def)
  moreover have "\<not> is_leap y \<Longrightarrow> yd < 365"
    using calculation(2) c e b yd by (cases "e = 3") auto
  ultimately show ?thesis using n b s c e yd by (cases "is_leap y") auto
qed

lemma month_cases: "1 \<le> m \<Longrightarrow> m \<le> (12::int) \<Longrightarrow>
  m = 1 \<or> m = 2 \<or> m = 3 \<or> m = 4 \<or> m = 5 \<or> m = 6 \<or> m = 7 \<or> m = 8 \<or> m = 9 \<or> m = 10 \<or> m = 11 \<or> m = 12"
  by arith

lemma days_before_month_values [simp]:
  "days_before_month l 1 = 0" "days_before_month l 2 = 31" "days_before_month l 3 = 59 + of_bool l"
  "days_before_month l 4 = 90 + of_bool l" "days_before_month l 5 = 120 + of_bool l"
  "days_before_month l 6 = 151 + of_bool l" "days_before_month l 7 = 181 + of_bool l"
  "days_before_month l 8 = 212 + of_bool l" "days_before_month l 9 = 243 + of_bool l"
  "days_before_month l 10 = 273 + of_bool l" "days_before_month l 11 = 304 + of_bool l"
  "days_before_month l 12 = 334 + of_bool l" "days_before_month l 13 = 365 + of_bool l"
  by (simp_all add: days_before_month_def)

lemma month_of_correct:
  assumes "0 \<le> yd" "yd < 365 + of_bool leap"
  shows "1 \<le> month_of leap yd \<and> month_of leap yd \<le> 12
    \<and> days_before_month leap (month_of leap yd) \<le> yd
    \<and> yd < days_before_month leap (month_of leap yd + 1)"
  using assms by (simp add: month_of_def)

lemma civil_correct:
  assumes "civil n = (y, m, d)"
  shows "valid_date y m d \<and> n = day_number y m d"
proof -
  obtain y' yd where yy: "year_day n = (y', yd)" by fastforce
  with assms have y: "y' = y" and m: "m = month_of (is_leap y) yd"
    and d: "d = yd - days_before_month (is_leap y) m + 1"
    by (auto simp: civil_def Let_def)
  from year_day_correct [OF yy] y
  have n: "n = days_before_year y + yd" and yd: "0 \<le> yd" "yd < 365 + of_bool (is_leap y)"
    by (auto split: if_splits)
  from month_of_correct [OF yd] m d n show ?thesis
    by (auto simp: valid_date_def day_number_def days_in_month_def)
qed

lemma days_before_month_mono:
  assumes "1 \<le> m" "m < m'" "m' \<le> 13"
  shows "days_before_month l (m + 1) \<le> days_before_month l m'"
proof -
  have m: "m = 1 \<or> m = 2 \<or> m = 3 \<or> m = 4 \<or> m = 5 \<or> m = 6 \<or> m = 7 \<or> m = 8 \<or> m = 9 \<or> m = 10 \<or> m = 11 \<or> m = 12"
    and m': "m' = 2 \<or> m' = 3 \<or> m' = 4 \<or> m' = 5 \<or> m' = 6 \<or> m' = 7 \<or> m' = 8 \<or> m' = 9 \<or> m' = 10 \<or> m' = 11 \<or> m' = 12 \<or> m' = 13"
    using assms by arith+
  show ?thesis using m m' assms(2) by (elim disjE) simp_all
qed

lemma day_number_bounds:
  assumes "valid_date y m d"
  shows "days_before_year y \<le> day_number y m d \<and> day_number y m d < days_before_year (y + 1)"
proof -
  have m: "1 \<le> m" "m \<le> 12" and d: "1 \<le> d" "d \<le> days_in_month (is_leap y) m"
    using assms by (auto simp: valid_date_def)
  have "0 \<le> days_before_month (is_leap y) m" using month_cases [OF m] by (elim disjE) simp_all
  moreover have "days_before_month (is_leap y) (m + 1) \<le> 365 + of_bool (is_leap y)"
    using days_before_month_mono [of m 13 "is_leap y"] m by simp
  ultimately show ?thesis using d days_before_year_Suc [of y]
    by (auto simp: day_number_def days_in_month_def split: if_splits)
qed

lemma day_number_less:
  assumes v: "valid_date y m d" "valid_date y' m' d'"
    and lex: "y < y' \<or> (y = y' \<and> (m < m' \<or> (m = m' \<and> d < d')))"
  shows "day_number y m d < day_number y' m' d'"
proof -
  consider "y < y'" | "y = y'" "m < m'" | "y = y'" "m = m'" "d < d'" using lex by blast
  then show ?thesis
  proof cases
    case 1
    then have "days_before_year (y + 1) \<le> days_before_year y'" by (simp add: days_before_year_mono)
    with day_number_bounds [OF v(1)] day_number_bounds [OF v(2)] show ?thesis by linarith
  next
    case 2
    then have "days_before_month (is_leap y) (m + 1) \<le> days_before_month (is_leap y) m'"
      using v by (intro days_before_month_mono) (auto simp: valid_date_def)
    with 2 v show ?thesis by (auto simp: valid_date_def day_number_def days_in_month_def)
  next
    case 3
    then show ?thesis by (simp add: day_number_def)
  qed
qed

lemma day_number_less_iff:
  assumes v: "valid_date y m d" "valid_date y' m' d'"
  shows "day_number y m d < day_number y' m' d' \<longleftrightarrow> y < y' \<or> (y = y' \<and> (m < m' \<or> (m = m' \<and> d < d')))"
  using day_number_less [OF v] day_number_less [OF v(2) v(1)] by (metis linorder_neqE less_asym')

lemma day_number_eq_iff:
  assumes v: "valid_date y m d" "valid_date y' m' d'"
  shows "day_number y m d = day_number y' m' d' \<longleftrightarrow> y = y' \<and> m = m' \<and> d = d'"
  using day_number_less [OF v] day_number_less [OF v(2) v(1)] by (metis linorder_neqE less_irrefl)

section \<open>The rendering\<close>

text \<open>The fields of an instant in the range \<^verbatim>\<open>minInstant .. maxInstant\<close>.\<close>

lemma days_before_year_bounds:
  assumes "0 \<le> n" "n < 3652059" "n = days_before_year y + yd" "0 \<le> yd" "n < days_before_year (y + 1)"
  shows "1 \<le> y \<and> y \<le> 9999"
proof (rule ccontr)
  assume "\<not> (1 \<le> y \<and> y \<le> 9999)"
  then consider "y + 1 \<le> 1" | "10000 \<le> y" by linarith
  then show False
  proof cases
    case 1
    then have "days_before_year (y + 1) \<le> days_before_year 1" by (rule days_before_year_mono)
    with assms show False by (simp add: days_before_year_def [of 1])
  next
    case 2
    then have "days_before_year 10000 \<le> days_before_year y" by (rule days_before_year_mono)
    with assms show False by (simp add: days_before_year_def [of 10000])
  qed
qed

lemma civil_year_range:
  assumes "0 \<le> n" "n < 3652059" "civil n = (y, m, d)"
  shows "1 \<le> y \<and> y \<le> 9999"
proof -
  from civil_correct [OF assms(3)] have v: "valid_date y m d" and n: "n = day_number y m d" by auto
  from day_number_bounds [OF v] n assms show ?thesis
    by (intro days_before_year_bounds [where n = n and yd = "n - days_before_year y"]) auto
qed

lemma valid_date_day: "valid_date y m d \<Longrightarrow> 1 \<le> d \<and> d \<le> 31"
proof -
  assume v: "valid_date y m d"
  then have "1 \<le> m" "m \<le> 12" by (auto simp: valid_date_def)
  from month_cases [OF this] have "days_in_month (is_leap y) m \<le> 31"
    by (elim disjE) (simp_all add: days_in_month_def)
  with v show ?thesis by (auto simp: valid_date_def)
qed

definition in_range :: "int \<Rightarrow> bool" where
  "in_range t \<longleftrightarrow> minInstant \<le> t \<and> t \<le> maxInstant"

text \<open>The seven fields \<open>Format\<close> prints, most significant first, and what they add up to.\<close>

definition time_fields :: "int \<Rightarrow> int \<times> int \<times> int \<times> int \<times> int \<times> int \<times> int" where
  "time_fields t =
     (case civil (t div day_nanos) of (y, m, d) \<Rightarrow>
        let tod = t mod day_nanos in
        (y, m, d, tod div 3600000000000, tod div 60000000000 mod 60, tod div 1000000000 mod 60,
         tod mod 1000000000))"

lemma tod_parts:
  assumes "0 \<le> x" "x < day_nanos"
  shows "x = (x div 3600000000000) * 3600000000000 + (x div 60000000000 mod 60) * 60000000000
      + (x div 1000000000 mod 60) * 1000000000 + x mod 1000000000"
    and "0 \<le> x div 3600000000000" and "x div 3600000000000 < 24"
proof -
  have "x div 60000000000 div 60 = x div 3600000000000"
    using zdiv_zmult2_eq [of 60 x 60000000000] by simp
  moreover have "x div 1000000000 div 60 = x div 60000000000"
    using zdiv_zmult2_eq [of 60 x 1000000000] by simp
  moreover have "x div 60000000000 = 60 * (x div 60000000000 div 60) + x div 60000000000 mod 60"
      "x div 1000000000 = 60 * (x div 1000000000 div 60) + x div 1000000000 mod 60"
      "x = 1000000000 * (x div 1000000000) + x mod 1000000000"
    by simp_all
  ultimately show "x = (x div 3600000000000) * 3600000000000 + (x div 60000000000 mod 60) * 60000000000
      + (x div 1000000000 mod 60) * 1000000000 + x mod 1000000000"
    by linarith
  show "0 \<le> x div 3600000000000" using assms by (simp add: pos_imp_zdiv_nonneg_iff)
  show "x div 3600000000000 < 24" using assms unfolding day_nanos_def by linarith
qed

lemma time_fields_correct:
  assumes "in_range t" "time_fields t = (y, m, d, hh, mi, ss, ns)"
  shows "valid_date y m d" "1 \<le> y" "y \<le> 9999" "0 \<le> hh" "hh < 24" "0 \<le> mi" "mi < 60"
    "0 \<le> ss" "ss < 60" "0 \<le> ns" "ns < 1000000000"
    "t = day_number y m d * day_nanos + (hh * 3600 + mi * 60 + ss) * 1000000000 + ns"
proof -
  let ?n = "t div day_nanos" and ?tod = "t mod day_nanos"
  have pos: "0 < day_nanos" by (simp add: day_nanos_def)
  have c: "civil ?n = (y, m, d)"
    and f: "hh = ?tod div 3600000000000" "mi = ?tod div 60000000000 mod 60"
      "ss = ?tod div 1000000000 mod 60" "ns = ?tod mod 1000000000"
    using assms(2) by (auto simp: time_fields_def Let_def split: prod.splits)
  have n: "0 \<le> ?n" "?n < 3652059"
    using assms(1) unfolding in_range_def minInstant_def maxInstant_def day_nanos_def by linarith+
  have tod: "0 \<le> ?tod" "?tod < day_nanos" using pos by simp_all
  from civil_correct [OF c] show v: "valid_date y m d" by simp
  from civil_year_range [OF n c] show "1 \<le> y" "y \<le> 9999" by auto
  show "0 \<le> hh" "hh < 24" unfolding f by (fact tod_parts(2,3) [OF tod])+
  show "0 \<le> mi" "mi < 60" "0 \<le> ss" "ss < 60" "0 \<le> ns" "ns < 1000000000" unfolding f by simp_all
  have "t = ?n * day_nanos + ?tod" by simp
  moreover have "?tod = hh * 3600000000000 + mi * 60000000000 + ss * 1000000000 + ns"
    unfolding f by (fact tod_parts(1) [OF tod])
  moreover have "?n = day_number y m d" using civil_correct [OF c] by simp
  ultimately show "t = day_number y m d * day_nanos + (hh * 3600 + mi * 60 + ss) * 1000000000 + ns"
    by (simp add: algebra_simps)
qed

text \<open>In range the year takes exactly four digits.\<close>

lemma Format_fields:
  assumes "in_range t" "time_fields t = (y, m, d, hh, mi, ss, ns)"
  shows "Format t = padded 4 y @ ''-'' @ padded 2 m @ ''-'' @ padded 2 d @ ''T'' @ padded 2 hh @ '':''
     @ padded 2 mi @ '':'' @ padded 2 ss @ ''.'' @ padded 9 ns @ ''Z''"
proof -
  from time_fields_correct(2,3) [OF assms] have "year_text y = padded 4 y"
    by (simp add: year_text_def)
  with assms(2) show ?thesis
    by (auto simp: Format_def time_fields_def Let_def split: prod.splits)
qed

lemma length_Format: "in_range t \<Longrightarrow> length (Format t) = 30"
  by (cases "time_fields t") (simp add: Format_fields)

section \<open>Round trip\<close>

lemma drop_padded: "length a = n \<Longrightarrow> drop (n + k) (a @ b) = drop k b"
  by simp

lemma all_digits_padded [simp]: "all_digits (padded n v)"
  by (auto simp: all_digits_def list_all_iff padded_digits)

lemma fraction_zone_canonical:
  assumes "0 \<le> ns" "ns < 1000000000"
  shows "fraction_zone (''.'' @ padded 9 ns @ ''Z'') = Some (ns, 0)"
proof -
  have "\<not> is_digit (CHR ''Z'')" by (simp add: is_digit_def byte_def)
  then have "takeWhile is_digit (padded 9 ns @ ''Z'') = padded 9 ns"
      "dropWhile is_digit (padded 9 ns @ ''Z'') = ''Z''"
    by (simp_all add: takeWhile_append2 dropWhile_append2 padded_digits)
  then show ?thesis using number_padded [of ns 9] assms
    by (simp add: fraction_zone_def zone_offset_def)
qed

lemma fields_text:
  assumes "s = a @ ''-'' @ b @ ''-'' @ c @ ''T'' @ d @ '':'' @ e @ '':'' @ f @ z"
    and "length a = 4" "length b = 2" "length c = 2" "length d = 2" "length e = 2" "length f = 2"
  shows "take 4 s = a" "take 1 (drop 4 s) = ''-''" "take 2 (drop 5 s) = b" "take 1 (drop 7 s) = ''-''"
    "take 2 (drop 8 s) = c" "take 1 (drop 10 s) = ''T''" "take 2 (drop 11 s) = d"
    "take 1 (drop 13 s) = '':''" "take 2 (drop 14 s) = e" "take 1 (drop 16 s) = '':''"
    "take 2 (drop 17 s) = f" "drop 19 s = z"
  using assms by simp_all

lemma ParseLegacy_Format:
  assumes "in_range t"
  shows "ParseLegacy (Format t) = Inr t"
proof -
  obtain y m d hh mi ss ns where tf: "time_fields t = (y, m, d, hh, mi, ss, ns)"
    by (cases "time_fields t") auto
  note F = Format_fields [OF assms tf] and C = time_fields_correct [OF assms tf]
  let ?s = "Format t"
  note P = fields_text [OF F length_padded length_padded length_padded length_padded length_padded length_padded]
  have m: "1 \<le> m" "m \<le> 12" using C(1) by (auto simp: valid_date_def)
  have d: "1 \<le> d" "d \<le> 31" using valid_date_day [OF C(1)] by auto
  have N: "number (padded 4 y) = y" "number (padded 2 m) = m" "number (padded 2 d) = d"
      "number (padded 2 hh) = hh" "number (padded 2 mi) = mi" "number (padded 2 ss) = ss"
    using C m d by (auto intro: number_padded)
  have z: "fraction_zone (drop 19 ?s) = Some (ns, 0)"
    unfolding P using fraction_zone_canonical C by simp
  have "approvedShape ?s"
    using z unfolding approvedShape_def date_time_shape_def P length_Format [OF assms] by simp
  moreover have "parse_rfc3339 ?s = Some t"
    unfolding parse_rfc3339_def z option.case prod.case Let_def P(1-11) N using C by simp
  ultimately show ?thesis using assms
    by (simp add: ParseLegacy_def in_range_def)
qed

lemma ParseCanonical_Format: "in_range t \<Longrightarrow> ParseCanonical (Format t) = Inr t"
  by (simp add: ParseCanonical_def ParseLegacy_Format)

lemma ParseLegacy_in_range: "ParseLegacy s = Inr t \<Longrightarrow> in_range t"
  by (auto simp: ParseLegacy_def in_range_def split: if_splits option.splits)

lemma Format_inject: "in_range t \<Longrightarrow> in_range u \<Longrightarrow> Format t = Format u \<longleftrightarrow> t = u"
  by (metis ParseLegacy_Format sum.inject(2))

section \<open>Text order is time order\<close>

lemma less_by_parts:
  assumes "0 \<le> r" "r < k" "0 \<le> r'" "r' < (k::int)"
  shows "D * k + r < D' * k + r' \<longleftrightarrow> D < D' \<or> (D = D' \<and> r < r')"
proof -
  have "D * k + k \<le> D' * k" if "D < D'" for D D'
    using that assms mult_right_mono [of "D + 1" D' k] by (simp add: algebra_simps)
  from this [of D D'] this [of D' D] assms show ?thesis
    by (cases D D' rule: linorder_cases) auto
qed

lemma eq_by_parts:
  assumes "0 \<le> r" "r < k" "0 \<le> r'" "r' < (k::int)"
  shows "D * k + r = D' * k + r' \<longleftrightarrow> D = D' \<and> r = r'"
  using less_by_parts [OF assms, of D D'] less_by_parts [OF assms(3,4,1,2), of D' D] by auto

lemma field_less:
  assumes "0 \<le> u" "u < 10 ^ n" "0 \<le> v" "v < 10 ^ n"
  shows "padded n u @ [c] @ r < padded n v @ [c] @ r' \<longleftrightarrow> u < v \<or> (u = v \<and> r < r')"
  using assms by (simp add: list_less_append_same_length padded_less padded_inject)

lemma Format_order:
  assumes t: "in_range t" and u: "in_range u"
  shows "Format t < Format u \<longleftrightarrow> t < u"
proof -
  obtain y m d hh mi ss ns where tf: "time_fields t = (y, m, d, hh, mi, ss, ns)"
    by (cases "time_fields t") auto
  obtain y' m' d' hh' mi' ss' ns' where uf: "time_fields u = (y', m', d', hh', mi', ss', ns')"
    by (cases "time_fields u") auto
  note C = time_fields_correct [OF t tf] and C' = time_fields_correct [OF u uf]
  have v: "1 \<le> m" "m \<le> 12" "1 \<le> d" "d \<le> 31" "1 \<le> m'" "m' \<le> 12" "1 \<le> d'" "d' \<le> 31"
    using valid_date_day [OF C(1)] valid_date_day [OF C'(1)] C(1) C'(1) unfolding valid_date_def
    by blast+
  have y: "0 \<le> y" "y < 10 ^ 4" "0 \<le> y'" "y' < 10 ^ 4" using C C' by simp_all
  have mF: "0 \<le> m" "m < 10 ^ 2" "0 \<le> m'" "m' < 10 ^ 2" using v by simp_all
  have dF: "0 \<le> d" "d < 10 ^ 2" "0 \<le> d'" "d' < 10 ^ 2" using v by simp_all
  have hF: "0 \<le> hh" "hh < 10 ^ 2" "0 \<le> hh'" "hh' < 10 ^ 2" using C(4,5) C'(4,5) by simp_all
  have iF: "0 \<le> mi" "mi < 10 ^ 2" "0 \<le> mi'" "mi' < 10 ^ 2" using C(6,7) C'(6,7) by simp_all
  have sF: "0 \<le> ss" "ss < 10 ^ 2" "0 \<le> ss'" "ss' < 10 ^ 2" using C(8,9) C'(8,9) by simp_all
  have nF: "0 \<le> ns" "ns < 10 ^ 9" "0 \<le> ns'" "ns' < 10 ^ 9" using C(10,11) C'(10,11) by simp_all
  have fmt: "Format t < Format u \<longleftrightarrow>
      y < y' \<or> y = y' \<and> (m < m' \<or> m = m' \<and> (d < d' \<or> d = d' \<and> (hh < hh' \<or> hh = hh' \<and>
        (mi < mi' \<or> mi = mi' \<and> (ss < ss' \<or> ss = ss' \<and> ns < ns')))))"
    unfolding Format_fields [OF t tf] Format_fields [OF u uf]
      field_less [OF y] field_less [OF mF] field_less [OF dF] field_less [OF hF] field_less [OF iF]
      field_less [OF sF]
    using padded_less [OF nF] by (simp add: list_less_append_same_length)
  have T: "t = (((day_number y m d * 24 + hh) * 60 + mi) * 60 + ss) * 1000000000 + ns"
      "u = (((day_number y' m' d' * 24 + hh') * 60 + mi') * 60 + ss') * 1000000000 + ns'"
    using C(12) C'(12) by (simp_all add: day_nanos_def)
  note L = less_by_parts and E = eq_by_parts
  have "t < u \<longleftrightarrow> day_number y m d < day_number y' m' d' \<or> day_number y m d = day_number y' m' d' \<and>
      (hh < hh' \<or> hh = hh' \<and> (mi < mi' \<or> mi = mi' \<and> (ss < ss' \<or> ss = ss' \<and> ns < ns')))"
    unfolding T L [OF C(10,11) C'(10,11)] L [OF C(8,9) C'(8,9)] E [OF C(8,9) C'(8,9)]
      L [OF C(6,7) C'(6,7)] E [OF C(6,7) C'(6,7)] L [OF C(4,5) C'(4,5)] E [OF C(4,5) C'(4,5)]
    by blast
  then show ?thesis
    unfolding fmt day_number_less_iff [OF C(1) C'(1)] day_number_eq_iff [OF C(1) C'(1)] by blast
qed

section \<open>The next state time\<close>

text \<open>The written instant is after the prior one and not before the clock, and it is the least such.\<close>

lemma NextStateTime_Inr:
  assumes "NextStateTime now prior = Inr s"
  shows "\<exists>p n. ParseLegacy prior = Inr p \<and> s = Format n \<and> in_range p \<and> in_range n
    \<and> n = max now (p + 1)"
  using assms ParseLegacy_in_range
  by (auto simp: NextStateTime_def in_range_def Let_def split: sum.splits if_splits)

lemma NextStateTime_total:
  assumes "ParseLegacy prior = Inr p" "p < maxInstant" "now \<le> maxInstant"
  shows "NextStateTime now prior = Inr (Format (max now (p + 1)))"
  using assms ParseLegacy_in_range [OF assms(1)]
  by (auto simp: NextStateTime_def in_range_def Let_def)

lemma NextStateTime_less:
  assumes "NextStateTime now (Format p) = Inr s" "in_range p"
  shows "Format p < s"
  using NextStateTime_Inr [OF assms(1)] ParseLegacy_Format [OF assms(2)] Format_order [OF assms(2)]
  by auto

section \<open>Evaluation\<close>

text \<open>
  Evaluation renders a time only once it is a number: under an abstraction over the time the
  calendar computation stays folded.
\<close>

definition Format_number :: "int \<Rightarrow> string" where
  "Format_number = Format"

lemmas Format_number_code [code] = Format_def [folded Format_number_def]

lemma Format_code [code]:
  "Format 0 = Format_number 0"
  "Format (Int.Pos k) = Format_number (Int.Pos k)"
  "Format (Int.Neg k) = Format_number (Int.Neg k)"
  by (simp_all add: Format_number_def)

end
