(* ===== verification/RunOutcome.thy ===== *)
theory RunOutcome
  imports Sha256
begin

text \<open>
  The package \<^verbatim>\<open>runoutcome\<close>: the closed vocabulary in which a run's end is recorded
  (\<^verbatim>\<open>outcome.go\<close>, \<^verbatim>\<open>content.go\<close>, \<^verbatim>\<open>retry_notice_keys.go\<close>). Provider, tool and worker
  text is untrusted, so the lemmas show that whatever origin, code and retry class is reported,
  the normalized value stays inside the vocabulary, never widens retrying, and never repeats
  a code that is not allowlisted.

  \<^verbatim>\<open>Origin\<close> and \<^verbatim>\<open>RetryClass\<close> are the source's \<^verbatim>\<open>uint8\<close>, so out-of-range values
  exist here as they do there; protobuf enum values are integers.
\<close>

section \<open>Vocabulary\<close>

type_synonym Origin = "8 word"

definition OriginUnspecified :: Origin where "OriginUnspecified = 0"
definition OriginUnknown :: Origin where "OriginUnknown = 1"
definition OriginContextAssembly :: Origin where "OriginContextAssembly = 2"
definition OriginExternalProvider :: Origin where "OriginExternalProvider = 3"
definition OriginProviderConfiguration :: Origin where "OriginProviderConfiguration = 4"
definition OriginProviderProtocol :: Origin where "OriginProviderProtocol = 5"
definition OriginProviderTransport :: Origin where "OriginProviderTransport = 6"
definition OriginProviderOutputGuard :: Origin where "OriginProviderOutputGuard = 7"
definition OriginToolInfrastructure :: Origin where "OriginToolInfrastructure = 8"
definition OriginToolExecution :: Origin where "OriginToolExecution = 9"
definition OriginToolGuard :: Origin where "OriginToolGuard = 10"
definition OriginToolPolicy :: Origin where "OriginToolPolicy = 11"
definition OriginApprovalTransport :: Origin where "OriginApprovalTransport = 12"
definition OriginApprovalExpiry :: Origin where "OriginApprovalExpiry = 13"
definition OriginAutomationPolicy :: Origin where "OriginAutomationPolicy = 14"
definition OriginWorkerRuntime :: Origin where "OriginWorkerRuntime = 15"
definition OriginDispatch :: Origin where "OriginDispatch = 16"
definition OriginRecovery :: Origin where "OriginRecovery = 17"
definition OriginOrchestratorInternal :: Origin where "OriginOrchestratorInternal = 18"
definition OriginClientLifecycle :: Origin where "OriginClientLifecycle = 19"

lemmas origin_defs =
  OriginUnspecified_def OriginUnknown_def OriginContextAssembly_def OriginExternalProvider_def
  OriginProviderConfiguration_def OriginProviderProtocol_def OriginProviderTransport_def
  OriginProviderOutputGuard_def OriginToolInfrastructure_def OriginToolExecution_def
  OriginToolGuard_def OriginToolPolicy_def OriginApprovalTransport_def OriginApprovalExpiry_def
  OriginAutomationPolicy_def OriginWorkerRuntime_def OriginDispatch_def OriginRecovery_def
  OriginOrchestratorInternal_def OriginClientLifecycle_def

type_synonym RetryClass = "8 word"

definition RetryClassUnspecified :: RetryClass where "RetryClassUnspecified = 0"
definition RetryClassUnknown :: RetryClass where "RetryClassUnknown = 1"
definition RetryClassNever :: RetryClass where "RetryClassNever = 2"
definition RetryClassSameRunTransient :: RetryClass where "RetryClassSameRunTransient = 3"

lemmas retry_defs =
  RetryClassUnspecified_def RetryClassUnknown_def RetryClassNever_def RetryClassSameRunTransient_def

type_synonym Reason = string

definition ReasonNone :: Reason where "ReasonNone = ''none''"
definition ReasonUnknown :: Reason where "ReasonUnknown = ''unknown''"
definition ReasonLegacyUnknown :: Reason where "ReasonLegacyUnknown = ''legacy_unknown''"
definition ReasonCompletedNoContent :: Reason where "ReasonCompletedNoContent = ''completed_no_content''"
definition ReasonUserCancelled :: Reason where "ReasonUserCancelled = ''user_cancelled''"
definition ReasonAbandoned :: Reason where "ReasonAbandoned = ''abandoned''"
definition ReasonExpired :: Reason where "ReasonExpired = ''expired''"
definition ReasonContextLimit :: Reason where "ReasonContextLimit = ''context_limit''"
definition ReasonProviderFailure :: Reason where "ReasonProviderFailure = ''provider_failure''"
definition ReasonToolFailure :: Reason where "ReasonToolFailure = ''tool_failure''"
definition ReasonPolicyDenied :: Reason where "ReasonPolicyDenied = ''policy_denied''"
definition ReasonRetriesExhausted :: Reason where "ReasonRetriesExhausted = ''retries_exhausted''"
definition ReasonRecoveryInterrupted :: Reason where "ReasonRecoveryInterrupted = ''recovery_interrupted''"
definition ReasonSideEffectUncertain :: Reason where "ReasonSideEffectUncertain = ''side_effect_uncertain''"
definition ReasonApprovalDeliveryFailed :: Reason where
  "ReasonApprovalDeliveryFailed = ''approval_delivery_failed''"
definition ReasonInternalFailure :: Reason where "ReasonInternalFailure = ''internal_failure''"

lemmas reason_defs =
  ReasonNone_def ReasonUnknown_def ReasonLegacyUnknown_def ReasonCompletedNoContent_def
  ReasonUserCancelled_def ReasonAbandoned_def ReasonExpired_def ReasonContextLimit_def
  ReasonProviderFailure_def ReasonToolFailure_def ReasonPolicyDenied_def ReasonRetriesExhausted_def
  ReasonRecoveryInterrupted_def ReasonSideEffectUncertain_def ReasonApprovalDeliveryFailed_def
  ReasonInternalFailure_def

definition CodeUnknown :: string where "CodeUnknown = ''unknown''"
definition CodeClientCancelled :: string where "CodeClientCancelled = ''client_cancelled''"
definition CodeUserCancelled :: string where "CodeUserCancelled = ReasonUserCancelled"
definition CodeQueueWaitExpired :: string where "CodeQueueWaitExpired = ''queue_wait_expired''"
definition CodeQueueNoCompatibleWorker :: string where
  "CodeQueueNoCompatibleWorker = ''queue_no_compatible_worker''"
definition CodeParentRunEnded :: string where "CodeParentRunEnded = ''parent_run_ended''"
definition CodeEgressConsentDeclined :: string where
  "CodeEgressConsentDeclined = ''egress_consent_declined''"

lemmas code_defs =
  CodeUnknown_def CodeClientCancelled_def CodeUserCancelled_def CodeQueueWaitExpired_def
  CodeQueueNoCompatibleWorker_def CodeParentRunEnded_def CodeEgressConsentDeclined_def

definition QueueWaitNone :: string where "QueueWaitNone = ''none''"
definition QueueWaitNoCompatibleWorker :: string where
  "QueueWaitNoCompatibleWorker = ''no_compatible_worker''"
definition QueueWaitQueueTimeout :: string where "QueueWaitQueueTimeout = ''queue_timeout''"

lemmas queue_wait_defs = QueueWaitNone_def QueueWaitNoCompatibleWorker_def QueueWaitQueueTimeout_def

definition QueueTimeoutPolicyFail :: string where "QueueTimeoutPolicyFail = ''fail''"
definition QueueTimeoutPolicyCancel :: string where "QueueTimeoutPolicyCancel = ''cancel''"

definition KnownQueueTimeoutPolicy :: "string \<Rightarrow> bool" where
  "KnownQueueTimeoutPolicy v \<longleftrightarrow> v = QueueTimeoutPolicyFail \<or> v = QueueTimeoutPolicyCancel"

definition MaxNoticeAttempts :: int where "MaxNoticeAttempts = 1000"

section \<open>Failures and cancellations\<close>

text \<open>The fields are the private ones; the accessors normalize the Go zero value on read.\<close>

record Failure =
  failure_origin :: Origin
  failure_code :: string
  failure_reason :: Reason
  failure_retry :: RetryClass

definition normalizeRetryClass :: "RetryClass \<Rightarrow> RetryClass" where
  "normalizeRetryClass retry =
     (if retry = RetryClassSameRunTransient then RetryClassSameRunTransient else RetryClassNever)"

definition Failure_Origin :: "Failure \<Rightarrow> Origin" where
  "Failure_Origin f = (if failure_origin f = OriginUnspecified then OriginUnknown else failure_origin f)"

definition Failure_Code :: "Failure \<Rightarrow> string" where
  "Failure_Code f = (if failure_code f = '''' then CodeUnknown else failure_code f)"

definition Failure_Reason :: "Failure \<Rightarrow> Reason" where
  "Failure_Reason f = (if failure_reason f = '''' then ReasonInternalFailure else failure_reason f)"

definition Failure_RetryClass :: "Failure \<Rightarrow> RetryClass" where
  "Failure_RetryClass f = normalizeRetryClass (failure_retry f)"

record Cancellation =
  cancellation_origin :: Origin
  cancellation_code :: string
  cancellation_reason :: Reason

definition Cancellation_Origin :: "Cancellation \<Rightarrow> Origin" where
  "Cancellation_Origin c =
     (if cancellation_origin c = OriginUnspecified then OriginClientLifecycle else cancellation_origin c)"

definition Cancellation_Code :: "Cancellation \<Rightarrow> string" where
  "Cancellation_Code c = (if cancellation_code c = '''' then CodeClientCancelled else cancellation_code c)"

definition Cancellation_Reason :: "Cancellation \<Rightarrow> Reason" where
  "Cancellation_Reason c = (if cancellation_reason c = '''' then ReasonAbandoned else cancellation_reason c)"

definition AbandonedCancellation :: Cancellation where
  "AbandonedCancellation = \<lparr>cancellation_origin = OriginClientLifecycle,
     cancellation_code = CodeClientCancelled, cancellation_reason = ReasonAbandoned\<rparr>"

definition UserCancellation :: Cancellation where
  "UserCancellation = \<lparr>cancellation_origin = OriginClientLifecycle,
     cancellation_code = CodeUserCancelled, cancellation_reason = ReasonUserCancelled\<rparr>"

definition ParentEndedCancellation :: Cancellation where
  "ParentEndedCancellation = \<lparr>cancellation_origin = OriginOrchestratorInternal,
     cancellation_code = CodeParentRunEnded, cancellation_reason = ReasonAbandoned\<rparr>"

definition EgressConsentDeclinedCancellation :: Cancellation where
  "EgressConsentDeclinedCancellation = \<lparr>cancellation_origin = OriginClientLifecycle,
     cancellation_code = CodeEgressConsentDeclined, cancellation_reason = ReasonAbandoned\<rparr>"

definition QueueTimeoutCancellation :: "string \<Rightarrow> Cancellation result" where
  "QueueTimeoutCancellation code =
     (if code = CodeQueueWaitExpired \<or> code = CodeQueueNoCompatibleWorker
      then Inr \<lparr>cancellation_origin = OriginDispatch, cancellation_code = code,
                cancellation_reason = ReasonAbandoned\<rparr>
      else Inl ErrUnsupportedQueueOutcome)"

text \<open>The approved mapping from a typed origin and an internal code to the public reason.\<close>

definition failureReasons :: "((Origin \<times> string) \<times> Reason) list" where
  "failureReasons = [
    ((OriginContextAssembly, ''message_fetch_failed''), ReasonInternalFailure),
    ((OriginExternalProvider, ''external_agent_unavailable''), ReasonProviderFailure),
    ((OriginProviderConfiguration, ''model_provider_unavailable''), ReasonProviderFailure),
    ((OriginToolInfrastructure, ''tool_discovery_failed''), ReasonToolFailure),
    ((OriginContextAssembly, ''context_budget_exceeded''), ReasonContextLimit),
    ((OriginProviderTransport, ''model_timeout''), ReasonProviderFailure),
    ((OriginProviderTransport, ''model_stream_failed''), ReasonProviderFailure),
    ((OriginProviderOutputGuard, ''model_output_limit_exceeded''), ReasonProviderFailure),
    ((OriginProviderProtocol, ''model_unavailable''), ReasonProviderFailure),
    ((OriginProviderProtocol, ''model_auth_failed''), ReasonProviderFailure),
    ((OriginProviderProtocol, ''model_request_failed''), ReasonProviderFailure),
    ((OriginExternalProvider, ''model_error''), ReasonProviderFailure),
    ((OriginProviderProtocol, ''model_quota_exceeded''), ReasonProviderFailure),
    ((OriginProviderProtocol, ''model_bad_chunk''), ReasonProviderFailure),
    ((OriginProviderTransport, ''model_stream_error''), ReasonProviderFailure),
    ((OriginToolExecution, ''tool_call_failed''), ReasonToolFailure),
    ((OriginToolGuard, ''tool_call_limit_exceeded''), ReasonToolFailure),
    ((OriginToolGuard, ''tool_result_limit_exceeded''), ReasonToolFailure),
    ((OriginWorkerRuntime, ''runtime_error''), ReasonInternalFailure),
    ((OriginDispatch, ''retries_exhausted''), ReasonRetriesExhausted),
    ((OriginRecovery, ''job_timeout''), ReasonRecoveryInterrupted),
    ((OriginRecovery, ''side_effect_uncertain''), ReasonSideEffectUncertain),
    ((OriginApprovalTransport, ''approval_delivery_failed''), ReasonApprovalDeliveryFailed),
    ((OriginApprovalExpiry, ''approval_expired''), ReasonExpired),
    ((OriginAutomationPolicy, ''automation_approval_failed''), ReasonPolicyDenied),
    ((OriginAutomationPolicy, ''automation_tool_not_allowlisted''), ReasonPolicyDenied),
    ((OriginToolPolicy, ''egress_decision_required''), ReasonPolicyDenied),
    ((OriginToolPolicy, ''egress_decision_invalid''), ReasonPolicyDenied),
    ((OriginClientLifecycle, ''client_cancelled''), ReasonAbandoned),
    ((OriginDispatch, CodeQueueWaitExpired), ReasonExpired),
    ((OriginDispatch, CodeQueueNoCompatibleWorker), ReasonExpired),
    ((OriginDispatch, ''worker_busy''), ReasonNone),
    ((OriginDispatch, ''worker_unavailable''), ReasonNone),
    ((OriginToolPolicy, ''tool_policy_decision_failed''), ReasonPolicyDenied),
    ((OriginToolPolicy, ''tool_policy_decision_invalid''), ReasonPolicyDenied),
    ((OriginApprovalTransport, ''approval_wait_failed''), ReasonApprovalDeliveryFailed),
    ((OriginToolExecution, ''mcp_call_failed''), ReasonToolFailure),
    ((OriginToolInfrastructure, ''unknown_tool''), ReasonToolFailure),
    ((OriginToolPolicy, ''unknown_tool''), ReasonPolicyDenied),
    ((OriginToolInfrastructure, ''tool_runner_unavailable''), ReasonToolFailure),
    ((OriginRecovery, ''worker_unavailable''), ReasonRecoveryInterrupted),
    ((OriginClientLifecycle, ''cancelled''), ReasonAbandoned)]"

definition recognizedOrigin :: "Origin \<Rightarrow> Origin \<times> bool" where
  "recognizedOrigin origin =
     (if origin \<le> OriginUnknown \<or> OriginClientLifecycle < origin then (OriginUnknown, False)
      else (origin, True))"

definition unknownCodeReason :: "Origin \<Rightarrow> Reason" where
  "unknownCodeReason origin =
     (if origin \<in> set [OriginExternalProvider, OriginProviderConfiguration, OriginProviderProtocol,
        OriginProviderTransport, OriginProviderOutputGuard] then ReasonProviderFailure
      else if origin \<in> set [OriginToolInfrastructure, OriginToolExecution, OriginToolGuard, OriginToolPolicy]
      then ReasonToolFailure
      else ReasonInternalFailure)"

definition NormalizeFailure :: "Origin \<Rightarrow> string \<Rightarrow> RetryClass \<Rightarrow> Failure" where
  "NormalizeFailure origin code retry =
     (case recognizedOrigin origin of (typedOrigin, recognized) \<Rightarrow>
        if \<not> recognized
        then \<lparr>failure_origin = OriginUnknown, failure_code = CodeUnknown,
              failure_reason = ReasonInternalFailure, failure_retry = RetryClassNever\<rparr>
        else (case map_of failureReasons (typedOrigin, code) of
                None \<Rightarrow> \<lparr>failure_origin = typedOrigin, failure_code = CodeUnknown,
                         failure_reason = unknownCodeReason typedOrigin, failure_retry = RetryClassNever\<rparr>
              | Some reason \<Rightarrow> \<lparr>failure_origin = typedOrigin, failure_code = code,
                         failure_reason = reason, failure_retry = normalizeRetryClass retry\<rparr>))"

definition QueueTimeoutFailure :: "string \<Rightarrow> Failure result" where
  "QueueTimeoutFailure code =
     (if code = CodeQueueWaitExpired \<or> code = CodeQueueNoCompatibleWorker
      then Inr (NormalizeFailure OriginDispatch code RetryClassNever)
      else Inl ErrUnsupportedQueueOutcome)"

text \<open>The protobuf enum values of \<^verbatim>\<open>FailureOrigin\<close> and \<^verbatim>\<open>AutomaticRetryClass\<close>.\<close>

definition originFromProto :: "int \<Rightarrow> Origin" where
  "originFromProto origin =
     (if origin = 2 then OriginContextAssembly
      else if origin = 3 then OriginExternalProvider
      else if origin = 4 then OriginProviderConfiguration
      else if origin = 5 then OriginProviderProtocol
      else if origin = 6 then OriginProviderTransport
      else if origin = 7 then OriginProviderOutputGuard
      else if origin = 8 then OriginToolInfrastructure
      else if origin = 9 then OriginToolExecution
      else if origin = 10 then OriginToolGuard
      else if origin = 11 then OriginToolPolicy
      else if origin = 12 then OriginApprovalTransport
      else if origin = 13 then OriginApprovalExpiry
      else if origin = 14 then OriginAutomationPolicy
      else if origin = 15 then OriginWorkerRuntime
      else if origin = 16 then OriginDispatch
      else if origin = 17 then OriginRecovery
      else if origin = 18 then OriginOrchestratorInternal
      else if origin = 19 then OriginClientLifecycle
      else OriginUnknown)"

definition retryClassFromProto :: "int \<Rightarrow> RetryClass" where
  "retryClassFromProto retry = (if retry = 3 then RetryClassSameRunTransient else RetryClassNever)"

definition NormalizeRuntimeFailure :: "int \<Rightarrow> string \<Rightarrow> int \<Rightarrow> Failure" where
  "NormalizeRuntimeFailure origin code retry =
     NormalizeFailure (originFromProto origin) code (retryClassFromProto retry)"

section \<open>Event categories and notices\<close>

definition ApprovalFailureCategory :: "string \<Rightarrow> Reason option" where
  "ApprovalFailureCategory eventType =
     (if eventType = ''approval.denied'' then Some ReasonPolicyDenied
      else if eventType = ''approval.expired'' then Some ReasonExpired
      else None)"

definition ToolCallFailureCategory :: "string \<Rightarrow> Reason option" where
  "ToolCallFailureCategory eventType =
     (if eventType = ''tool.call.failed'' then Some ReasonToolFailure
      else if eventType = ''tool.call.denied'' then Some ReasonPolicyDenied
      else None)"

type_synonym NoticeCategory = string

definition NoticeDispatchRetry :: NoticeCategory where "NoticeDispatchRetry = ''dispatch_retry''"
definition NoticeRecoveryRetry :: NoticeCategory where "NoticeRecoveryRetry = ''recovery_retry''"
definition NoticeRecoveryExhausted :: NoticeCategory where
  "NoticeRecoveryExhausted = ''recovery_exhausted''"

record StepNotice =
  notice_category :: NoticeCategory
  notice_attempt :: int
  notice_maxAttempts :: int

definition NewStepNotice :: "NoticeCategory \<Rightarrow> int \<Rightarrow> int \<Rightarrow> StepNotice result" where
  "NewStepNotice category attempt maxAttempts =
     (if \<not> (category = NoticeDispatchRetry \<or> category = NoticeRecoveryRetry
            \<or> category = NoticeRecoveryExhausted) then Inl ErrUnsupportedNotice
      else if attempt < 1 \<or> maxAttempts < 1 \<or> maxAttempts > MaxNoticeAttempts \<or> attempt > maxAttempts
      then Inl ErrUnsupportedNotice
      else Inr \<lparr>notice_category = category, notice_attempt = attempt, notice_maxAttempts = maxAttempts\<rparr>)"

definition StepNotice_Valid :: "StepNotice \<Rightarrow> bool" where
  "StepNotice_Valid n =
     (case NewStepNotice (notice_category n) (notice_attempt n) (notice_maxAttempts n) of
        Inl _ \<Rightarrow> False | Inr _ \<Rightarrow> True)"

text \<open>Payload maps are association lists with distinct keys.\<close>

definition reservedRetryNoticeKeys :: "string list" where
  "reservedRetryNoticeKeys = [''category'', ''attempt'', ''attempts'', ''maxAttempts'', ''stateVersion'']"

definition HasReservedRetryNoticeKey :: "(string \<times> 'v) list \<Rightarrow> bool" where
  "HasReservedRetryNoticeKey payload \<longleftrightarrow>
     list_ex (\<lambda>key. map_of payload key \<noteq> None) reservedRetryNoticeKeys"

definition DeleteReservedRetryNoticeKeys :: "(string \<times> 'v) list \<Rightarrow> (string \<times> 'v) list" where
  "DeleteReservedRetryNoticeKeys payload =
     foldl (\<lambda>fs key. filter (\<lambda>kv. fst kv \<noteq> key) fs) payload reservedRetryNoticeKeys"

section \<open>Content\<close>

definition approvedWhitespace :: "int \<Rightarrow> bool" where
  "approvedWhitespace scalar \<longleftrightarrow> scalar \<in> set [0x0009, 0x000A, 0x000B, 0x000C, 0x000D,
     0x0020, 0x0085, 0x00A0, 0x1680, 0x2000, 0x2001, 0x2002, 0x2003, 0x2004, 0x2005, 0x2006,
     0x2007, 0x2008, 0x2009, 0x200A, 0x2028, 0x2029, 0x202F, 0x205F, 0x3000]"

definition HasDisplayableContent :: "string \<Rightarrow> bool" where
  "HasDisplayableContent content \<longleftrightarrow> list_ex (\<lambda>scalar. \<not> approvedWhitespace scalar) (runes content)"

definition ContentSHA256 :: "string \<Rightarrow> string" where
  "ContentSHA256 content = sha256_hex content"

section \<open>What normalization guarantees\<close>

text \<open>The reasons a failed run may carry; \<^verbatim>\<open>allowedOutcomeReasons[lifecycleFailed]\<close>.\<close>

definition failed_reasons :: "Reason list" where
  "failed_reasons = [ReasonExpired, ReasonContextLimit, ReasonProviderFailure, ReasonToolFailure,
     ReasonPolicyDenied, ReasonRetriesExhausted, ReasonRecoveryInterrupted, ReasonSideEffectUncertain,
     ReasonApprovalDeliveryFailed, ReasonInternalFailure]"

lemma failureReasons_entries:
  "list_all (\<lambda>((ori, code), reason). fst (recognizedOrigin ori) = ori \<and> code \<noteq> '''' \<and> code \<noteq> CodeUnknown
      \<and> (reason \<in> set failed_reasons
         \<or> (reason = ReasonNone \<and> ori = OriginDispatch)
         \<or> (reason = ReasonAbandoned \<and> ori = OriginClientLifecycle))) failureReasons"
  by (simp add: failureReasons_def recognizedOrigin_def origin_defs code_defs failed_reasons_def
      word_le_nat_alt)

lemma unknownCodeReason_failed: "unknownCodeReason ori \<in> set failed_reasons"
  by (simp add: unknownCodeReason_def failed_reasons_def)

lemma failed_reasons_nonempty: "r \<in> set failed_reasons \<Longrightarrow> r \<noteq> ''''"
  by (auto simp: failed_reasons_def reason_defs)

lemma failureReasons_lookup:
  assumes "map_of failureReasons (ori, code) = Some r"
  shows "code \<noteq> ''''" "code \<noteq> CodeUnknown"
    "r \<in> set failed_reasons \<or> (r = ReasonNone \<and> ori = OriginDispatch)
       \<or> (r = ReasonAbandoned \<and> ori = OriginClientLifecycle)"
  using failureReasons_entries map_of_SomeD [OF assms] by (auto simp: list_all_iff)

lemma NormalizeFailure_dichotomy:
  "(\<exists>r. map_of failureReasons (ori, code) = Some r \<and>
      NormalizeFailure ori code retry = \<lparr>failure_origin = ori, failure_code = code,
         failure_reason = r, failure_retry = normalizeRetryClass retry\<rparr>)
   \<or> (failure_code (NormalizeFailure ori code retry) = CodeUnknown \<and>
      failure_reason (NormalizeFailure ori code retry) \<in> set failed_reasons \<and>
      failure_retry (NormalizeFailure ori code retry) = RetryClassNever)"
proof (cases "ori \<le> OriginUnknown \<or> OriginClientLifecycle < ori")
  case True
  then show ?thesis by (simp add: NormalizeFailure_def recognizedOrigin_def failed_reasons_def)
next
  case False
  then have "recognizedOrigin ori = (ori, True)" by (simp add: recognizedOrigin_def)
  then show ?thesis
    by (cases "map_of failureReasons (ori, code)")
      (simp_all add: NormalizeFailure_def unknownCodeReason_failed)
qed

lemma NormalizeFailure_cases:
  obtains (allowlisted) r where "map_of failureReasons (ori, code) = Some r"
      "NormalizeFailure ori code retry = \<lparr>failure_origin = ori, failure_code = code,
         failure_reason = r, failure_retry = normalizeRetryClass retry\<rparr>"
  | (unlisted) "failure_code (NormalizeFailure ori code retry) = CodeUnknown"
      "failure_reason (NormalizeFailure ori code retry) \<in> set failed_reasons"
      "failure_retry (NormalizeFailure ori code retry) = RetryClassNever"
  using NormalizeFailure_dichotomy by blast

lemma NormalizeFailure_reason:
  "failure_reason (NormalizeFailure ori code retry) \<in> set (ReasonNone # ReasonAbandoned # failed_reasons)"
proof (cases rule: NormalizeFailure_cases [of ori code retry])
  case (allowlisted r)
  then show ?thesis using failureReasons_lookup(3) [of ori code r] by auto
qed simp

lemma QueueTimeoutFailure_reason:
  "QueueTimeoutFailure code = Inr f \<Longrightarrow> Failure_Reason f = ReasonExpired \<and> Failure_Code f = code"
  by (auto simp: QueueTimeoutFailure_def NormalizeFailure_def recognizedOrigin_def failureReasons_def
      origin_defs code_defs reason_defs Failure_Reason_def Failure_Code_def word_le_nat_alt split: if_splits)

lemma QueueTimeoutCancellation_reason:
  "QueueTimeoutCancellation code = Inr c \<Longrightarrow> Cancellation_Reason c = ReasonAbandoned"
  by (auto simp: QueueTimeoutCancellation_def Cancellation_Reason_def reason_defs split: if_splits)

lemma StepNotice_Valid_iff:
  "StepNotice_Valid n \<longleftrightarrow>
     notice_category n \<in> {NoticeDispatchRetry, NoticeRecoveryRetry, NoticeRecoveryExhausted}
     \<and> 1 \<le> notice_attempt n \<and> notice_attempt n \<le> notice_maxAttempts n
     \<and> notice_maxAttempts n \<le> MaxNoticeAttempts"
  by (auto simp: StepNotice_Valid_def NewStepNotice_def)

lemma DeleteReserved_Has:
  "\<not> HasReservedRetryNoticeKey (DeleteReservedRetryNoticeKeys payload)"
  by (auto simp: HasReservedRetryNoticeKey_def DeleteReservedRetryNoticeKeys_def
      reservedRetryNoticeKeys_def map_of_eq_None_iff)

lemma length_ContentSHA256: "length (ContentSHA256 content) = 64"
  by (simp add: ContentSHA256_def length_sha256_hex)

lemma no_displayable_empty: "\<not> HasDisplayableContent ''''"
  by (simp add: HasDisplayableContent_def)

end
