(* ===== verification/Store.thy ===== *)
theory Store
  imports PersistTime RunOutcome
begin

text \<open>
  The SQLite store as the repository package sees it: one record type per table with the columns
  the modelled code reads or writes (\<^verbatim>\<open>internal/db/schema\<close>), the tables as lists of rows in
  insertion order, and the environment a transaction draws on: the clock (\<^verbatim>\<open>time.Now\<close>), the
  random part of a new identifier (\<^verbatim>\<open>ids.New\<close>) and the framing nonces, each a stream with
  the number of values drawn so far; and \<open>json_decode\<close>, what \<^verbatim>\<open>encoding/json\<close> reads from the
  text columns the code keeps as text (tool arguments).

  JSON text columns hold the value their text encodes. A primary key or unique index makes an
  \<^verbatim>\<open>INSERT\<close> fail with \<open>ErrUnique\<close>; column checks, and foreign keys other than those of an
  approval, are not modelled as failures of a statement.

  On top of the tables: the event log (\<^verbatim>\<open>appendEventTx\<close>, \<^verbatim>\<open>AppendEvent\<close>,
  \<^verbatim>\<open>ReplayEvents\<close>), message slots and session activity times (\<^verbatim>\<open>timestamps.go\<close>), and the
  audit log. The locale \<open>store_relation\<close> is the interface between the store and everything
  above it: the elementary changes of the state that matters (runs and events), as laws a
  step relation has to satisfy.
\<close>

section \<open>JSON\<close>

text \<open>\<open>JFrac\<close> is a number that is not an integer, by its literal.\<close>

datatype json =
    JNull
  | JBool bool
  | JNum int
  | JFrac string
  | JStr string
  | JArr "json list"
  | JObj "(string \<times> json) list"

definition json_get :: "string \<Rightarrow> json \<Rightarrow> json option" where
  "json_get k j = (case j of JObj kvs \<Rightarrow> map_of kvs k | _ \<Rightarrow> None)"

text \<open>SQLite's \<^verbatim>\<open>json_extract\<close>; a missing member and a JSON null are both SQL NULL.\<close>

fun json_extract :: "string list \<Rightarrow> json \<Rightarrow> json option" where
  "json_extract [] j = (if j = JNull then None else Some j)"
| "json_extract (k # ks) j = (case json_get k j of None \<Rightarrow> None | Some v \<Rightarrow> json_extract ks v)"

text \<open>\<^verbatim>\<open>json.Unmarshal\<close> into a string, an integer, a boolean and a \<^verbatim>\<open>[]string\<close>; null leaves the zero value.\<close>

definition decode_string :: "json \<Rightarrow> string option" where
  "decode_string j = (case j of JStr s \<Rightarrow> Some s | JNull \<Rightarrow> Some [] | _ \<Rightarrow> None)"

definition decode_int :: "json \<Rightarrow> int option" where
  "decode_int j = (case j of JNum n \<Rightarrow> Some n | JNull \<Rightarrow> Some 0 | _ \<Rightarrow> None)"

definition decode_bool :: "json \<Rightarrow> bool option" where
  "decode_bool j = (case j of JBool b \<Rightarrow> Some b | JNull \<Rightarrow> Some False | _ \<Rightarrow> None)"

fun all_some :: "'a option list \<Rightarrow> 'a list option" where
  "all_some [] = Some []"
| "all_some (None # xs) = None"
| "all_some (Some x # xs) = map_option (Cons x) (all_some xs)"

definition decode_strings :: "json \<Rightarrow> string list option" where
  "decode_strings j = (case j of JArr xs \<Rightarrow> all_some (map decode_string xs) | JNull \<Rightarrow> Some [] | _ \<Rightarrow> None)"

text \<open>A struct field: an absent key or a null leaves the value the struct had.\<close>

definition decode_field :: "(json \<Rightarrow> 'a option) \<Rightarrow> 'a \<Rightarrow> string \<Rightarrow> json \<Rightarrow> 'a option" where
  "decode_field dec0 d k j = (case json_get k j of None \<Rightarrow> Some d | Some v \<Rightarrow> if v = JNull then Some d else dec0 v)"

text \<open>Assigning one key of a Go map.\<close>

definition map_set :: "string \<Rightarrow> 'v \<Rightarrow> (string \<times> 'v) list \<Rightarrow> (string \<times> 'v) list" where
  "map_set k v kvs = filter (\<lambda>kv. fst kv \<noteq> k) kvs @ [(k, v)]"

lemma map_of_filter_ne: "map_of (filter (\<lambda>kv. fst kv \<noteq> k) kvs) k' = (if k' = k then None else map_of kvs k')"
  by (induction kvs) auto

lemma map_of_map_set: "map_of (map_set k v kvs) k' = (if k' = k then Some v else map_of kvs k')"
  by (auto simp: map_set_def map_add_def map_of_filter_ne split: option.splits)

definition JOptStr :: "string option \<Rightarrow> json" where
  "JOptStr s = (case s of None \<Rightarrow> JNull | Some t \<Rightarrow> JStr t)"

section \<open>Rows\<close>

record agent_run =
  run_id :: string
  run_session_id :: string
  run_user_message_id :: string
  run_assistant_message_id :: "string option"
  run_agent_id :: string
  run_trace_id :: string
  run_status :: string
  run_model_provider :: string
  run_model_name :: string
  run_error_code :: "string option"
  run_error_message :: "string option"
  run_created_at :: string
  run_started_at :: "string option"
  run_finished_at :: "string option"
  run_cancellation_reason :: "string option"
  run_worker_id :: "string option"
  run_execution_active :: bool
  run_execution_exit_acknowledged_at :: "string option"
  run_execution_attempt_id :: "string option"
  run_execution_state :: string
  run_execution_lease_expires_at :: "string option"
  run_execution_lease_expires_at_ns :: "int option"
  run_input_tokens :: "int option"
  run_output_tokens :: "int option"
  run_state_version :: int
  run_state_updated_at :: string
  run_outcome_reason :: string
  run_assistant_content_sha256 :: string
  run_queue_waited_ns :: int
  run_queued_since_ns :: "int option"
  run_queue_unroutable_since_ns :: "int option"
  run_queue_wait_reason :: string
  run_continues_run_id :: "string option"
  run_external_agent_name :: "string option"
  run_external_agent_host :: "string option"

record message =
  msg_id :: string
  msg_session_id :: string
  msg_run_id :: "string option"
  msg_role :: string
  msg_content :: string
  msg_content_type :: string
  msg_sequence :: int
  msg_created_at :: string

record job =
  job_id :: string
  job_run_id :: string
  job_agent_id :: string
  job_status :: string
  job_attempt :: int
  job_payload :: json
  job_picked_up_at :: "string option"
  job_finished_at :: "string option"
  job_error_code :: "string option"
  job_error_message :: "string option"
  job_created_at :: string
  job_created_at_ns :: "int option"
  job_lease_owner :: "string option"
  job_lease_expires_at :: "string option"
  job_lease_expires_at_ns :: "int option"
  job_assignment_attempt_id :: "string option"

record approval =
  ap_id :: string
  ap_run_id :: string
  ap_tool_call_id :: "string option"
  ap_agent_id :: string
  ap_tool_name :: string
  ap_args_json :: string
  ap_args_hash :: string
  ap_status :: string
  ap_jti :: "string option"
  ap_token :: "string option"
  ap_expires_at :: string
  ap_decided_at :: "string option"
  ap_consumed_at :: "string option"
  ap_created_at :: string
  ap_comment :: "string option"
  ap_denial_reason :: "string option"

record tool_call =
  tc_id :: string
  tc_run_id :: string
  tc_agent_id :: string
  tc_server_name :: string
  tc_tool_name :: string
  tc_args_json :: string
  tc_args_hash :: string
  tc_status :: string
  tc_result_summary :: "string option"
  tc_error_code :: "string option"
  tc_error_message :: "string option"
  tc_approval_id :: "string option"
  tc_duration_ms :: "int option"
  tc_created_at :: string
  tc_completed_at :: "string option"
  tc_model_tool_call_id :: "string option"
  tc_mcp_server_id :: "string option"

text \<open>\<^verbatim>\<open>repository.Event\<close>, which is also the row of \<^verbatim>\<open>events\<close>.\<close>

record Event =
  ev_id :: string
  ev_session_id :: string
  ev_run_id :: "string option"
  ev_trace_id :: string
  ev_sequence :: int
  ev_type :: string
  ev_payload :: json
  ev_created_at :: string

record session =
  sess_id :: string
  sess_kind :: string
  sess_parent_id :: "string option"
  sess_title :: "string option"
  sess_title_origin :: string
  sess_status :: string
  sess_created_at :: string
  sess_updated_at :: string
  sess_deletion_state :: string

record delegation_row =
  dg_id :: string
  dg_parent_session_id :: string
  dg_parent_run_id :: string
  dg_parent_tool_call_id :: string
  dg_child_session_id :: string
  dg_child_run_id :: string
  dg_profile_id :: string
  dg_profile_revision :: string
  dg_args_hash :: string
  dg_joined :: bool
  dg_result_bytes :: "int option"
  dg_error_code :: "string option"
  dg_created_at :: string
  dg_finished_at :: "string option"
  dg_task :: string
  dg_egress_tools :: json
  dg_egress_consent :: string
  dg_egress_required :: bool

record cancellation_receipt =
  rc_idempotency_key :: string
  rc_session_id :: string
  rc_run_id :: string
  rc_accepted :: bool
  rc_run_state :: json

record audit_log =
  au_id :: string
  au_correlation_id :: "string option"
  au_actor_type :: string
  au_actor_id :: "string option"
  au_action :: string
  au_target :: "string option"
  au_payload :: "json option"
  au_created_at :: string

record approval_preview =
  pv_approval_id :: string
  pv_hash :: string
  pv_snapshot_json :: string
  pv_generation :: int

record session_deletion =
  sd_session_id :: string
  sd_lifecycle_version :: int
  sd_state :: string
  sd_quiesce_deadline_at :: string
  sd_terminal_sequence :: int
  sd_terminal_at :: "string option"
  sd_deleted_at :: "string option"
  sd_error_code :: "string option"
  sd_retryable :: bool
  sd_run_count :: int
  sd_message_count :: int
  sd_retained_legacy_artifact_count :: int
  sd_parent_session_id :: "string option"

record sandbox_artifact =
  sb_id :: string
  sb_session_id :: string
  sb_run_id :: string
  sb_logical_path_hash :: string
  sb_physical_path :: string
  sb_state :: string
  sb_policy :: string
  sb_deletion_generation :: int
  sb_created_at :: string
  sb_finalized_at :: "string option"

record vault_artifact =
  vt_id :: string
  vt_session_id :: string
  vt_vault_path :: string
  vt_physical_path :: string
  vt_state :: string
  vt_created_at :: string
  vt_finalized_at :: "string option"
  vt_expected_content_hash :: "string option"

record automation_row =
  ar_id :: string
  ar_name :: string
  ar_prompt :: string
  ar_schedule_kind :: string
  ar_interval_seconds :: "int option"
  ar_daily_minute_utc :: "int option"
  ar_enabled :: bool
  ar_next_due_at :: "string option"
  ar_last_run_at :: "string option"
  ar_last_run_id :: "string option"
  ar_session_id :: "string option"
  ar_created_at :: string
  ar_updated_at :: string

record automation_allowed_tool =
  aa_automation_id :: string
  aa_server_name :: string
  aa_tool_name :: string

record automation_run =
  arn_run_id :: string
  arn_automation_id :: string
  arn_automation_name :: string
  arn_allowed_tools_json :: json
  arn_fired_at :: string

record integration_connection =
  ic_id :: string
  ic_provider :: string
  ic_status :: string
  ic_display_name :: string
  ic_credential_ciphertext :: "string option"

record mcp_server =
  mv_id :: string
  mv_name :: string

record RemoteMCPServerEgress =
  re_ServerName :: string
  re_Endpoint :: string
  re_EndpointHost :: string

record IntegrationEndpointEgress =
  ie_Endpoint :: string
  ie_EndpointHost :: string
  ie_ConnectionID :: string
  ie_DisplayName :: string
  ie_Tools :: "string list"

record RunEgressDecision =
  ed_DecisionID :: string
  ed_RunID :: string
  ed_Version :: int
  ed_ChallengeNonce :: string
  ed_ChallengeFingerprint :: string
  ed_RequestDigest :: string
  ed_Provider :: string
  ed_Model :: string
  ed_ExternalAgentID :: string
  ed_ExternalCredentialRefHash :: string
  ed_Endpoint :: string
  ed_EndpointHost :: string
  ed_DataCategories :: "string list"
  ed_SelectedTools :: "string list"
  ed_SkillSnapshotFingerprint :: string
  ed_RecallApplicable :: bool
  ed_MemoryProfileApplicable :: bool
  ed_MemorySnapshotFingerprint :: string
  ed_ConsentGrantedAt :: string
  ed_RemoteMCPServers :: "RemoteMCPServerEgress list"
  ed_IntegrationEndpoints :: "IntegrationEndpointEgress list"

record sendMessageIdempotencyRecord =
  si_idempotency_key :: string
  si_SessionID :: string
  si_RequestFingerprint :: string
  si_UserMessageID :: string
  si_AssistantMessageID :: string
  si_RunID :: string
  si_JobID :: string
  si_TraceID :: string
  si_QueuedEventSequence :: int
  si_CreatedAt :: string

record ExternalAgent =
  xa_AgentID :: string
  xa_DisplayName :: string
  xa_Provider :: string
  xa_BaseURL :: string
  xa_Model :: string
  xa_CredentialRef :: string
  xa_CreatedAt :: string
  xa_UpdatedAt :: string

record session_external_agent =
  sx_session_id :: string
  sx_agent_id :: string
  sx_routed_at :: string

record agent_profile_setting =
  ps_profile_id :: string
  ps_enabled :: bool
  ps_granted_revision :: "string option"

record tool_row =
  tl_server_name :: string
  tl_tool_name :: string
  tl_policy :: string
  tl_mcp_server_id :: "string option"
  tl_present :: bool

text \<open>
  What the sources use of \<^verbatim>\<open>net/url\<close> and \<^verbatim>\<open>net/netip\<close>: parsed URLs and addresses. The two parsers,
  the URL printer and the Unicode tables behind \<^verbatim>\<open>strings.ToLower\<close> are a parameter of the model; an
  address is given unmapped.
\<close>

record URL =
  url_Scheme :: string
  url_Opaque :: string
  url_User :: bool
  url_Host :: string
  url_Path :: string
  url_RawPath :: string
  url_ForceQuery :: bool
  url_RawQuery :: string
  url_Fragment :: string

record Addr =
  addr_String :: string
  addr_Is6 :: bool
  addr_IsLoopback :: bool

record net_library =
  url_Parse :: "string \<Rightarrow> URL option"
  url_String :: "URL \<Rightarrow> string"
  netip_ParseAddr :: "string \<Rightarrow> Addr option"
  strings_ToLower :: "string \<Rightarrow> string"

record world =
  agent_runs :: "agent_run list"
  messages :: "message list"
  jobs :: "job list"
  approvals :: "approval list"
  tool_calls :: "tool_call list"
  events :: "Event list"
  sessions :: "session list"
  delegations :: "delegation_row list"
  receipts :: "cancellation_receipt list"
  audit_logs :: "audit_log list"
  approval_previews :: "approval_preview list"
  session_deletions :: "session_deletion list"
  integration_connections :: "integration_connection list"
  mcp_servers :: "mcp_server list"
  tool_rows :: "tool_row list"
  run_egress_decisions :: "RunEgressDecision list"
  send_message_idempotency :: "sendMessageIdempotencyRecord list"
  external_agents :: "ExternalAgent list"
  session_external_agents :: "session_external_agent list"
  agent_profile_settings :: "agent_profile_setting list"
  settings_rows :: "(string \<times> string) list"
  sandbox_artifacts :: "sandbox_artifact list"
  vault_artifacts :: "vault_artifact list"
  automations :: "automation_row list"
  automation_allowed_tools :: "automation_allowed_tool list"
  automation_runs :: "automation_run list"
  net_lib :: net_library
  json_decode :: "string \<Rightarrow> json option"
  clock :: "nat \<Rightarrow> int"
  ticks :: nat
  ulids :: "nat \<Rightarrow> string"
  ulids_drawn :: nat
  nonces :: "nat \<Rightarrow> string"
  nonces_drawn :: nat

type_synonym 'a wtx = "(world, 'a) tx"

section \<open>Environment\<close>

definition time_Now :: "int wtx" where
  "time_Now w = Inr (clock w (ticks w), w\<lparr>ticks := Suc (ticks w)\<rparr>)"

definition FormatTimestamp :: "int \<Rightarrow> string" where
  "FormatTimestamp value = Format value"

definition now_text :: "string wtx" where
  "now_text = tx_bind time_Now (\<lambda>t. tx_return (FormatTimestamp t))"

text \<open>\<^verbatim>\<open>ids.New\<close>: a prefix and a ULID from the environment.\<close>

definition ids_New :: "string \<Rightarrow> string wtx" where
  "ids_New prefix w = Inr (prefix @ ''_'' @ ulids w (ulids_drawn w), w\<lparr>ulids_drawn := Suc (ulids_drawn w)\<rparr>)"

definition rand_nonce :: "string wtx" where
  "rand_nonce w = Inr (nonces w (nonces_drawn w), w\<lparr>nonces_drawn := Suc (nonces_drawn w)\<rparr>)"

definition nullableText :: "string \<Rightarrow> string option" where
  "nullableText v = (if v = '''' then None else Some v)"

text \<open>SQL \<^verbatim>\<open>COALESCE(column, '')\<close>.\<close>

definition text_or_empty :: "string option \<Rightarrow> string" where
  "text_or_empty v = (case v of None \<Rightarrow> '''' | Some s \<Rightarrow> s)"

definition coalesce :: "'a option \<Rightarrow> 'a \<Rightarrow> 'a option" where
  "coalesce v d = (case v of None \<Rightarrow> Some d | Some x \<Rightarrow> Some x)"

text \<open>\<^verbatim>\<open>expectOneRowErr\<close> on the number of rows an \<^verbatim>\<open>UPDATE\<close> matched.\<close>

definition expectOneRowErr :: "nat \<Rightarrow> err \<Rightarrow> unit wtx" where
  "expectOneRowErr changed noRowsErr = tx_guard (changed = 1) noRowsErr"

definition expectOneRow :: "nat \<Rightarrow> string \<Rightarrow> unit wtx" where
  "expectOneRow changed msg = expectOneRowErr changed (ErrText msg)"

text \<open>\<^verbatim>\<open>QueryRow(...).Scan\<close>: the first row, or \<^verbatim>\<open>sql.ErrNoRows\<close>.\<close>

definition query_row :: "(world \<Rightarrow> 'a list) \<Rightarrow> 'a wtx" where
  "query_row q w = (case q w of [] \<Rightarrow> Inl ErrNoRows | x # _ \<Rightarrow> Inr (x, w))"

definition query_opt :: "(world \<Rightarrow> 'a list) \<Rightarrow> 'a option wtx" where
  "query_opt q w = Inr (case q w of [] \<Rightarrow> None | x # _ \<Rightarrow> Some x, w)"

text \<open>\<^verbatim>\<open>LEFT JOIN\<close> of one row with at most one partner.\<close>

definition find_row :: "('a \<Rightarrow> bool) \<Rightarrow> 'a list \<Rightarrow> 'a option" where
  "find_row p xs = (case filter p xs of [] \<Rightarrow> None | x # _ \<Rightarrow> Some x)"

section \<open>Timestamps in SQL\<close>

text \<open>
  \<^verbatim>\<open>sqliteTimestampNanos\<close>: \<^verbatim>\<open>strftime('%s', ...)\<close> of the first nineteen bytes as UTC, and
  the first nine characters of the fraction (padded with zeros) cast to an integer.
\<close>

definition strftime_s :: "string \<Rightarrow> int option" where
  "strftime_s s =
     (if length s = 19 \<and> date_time_shape (s @ ''Z'')
         \<and> 1 \<le> number (take 2 (drop 5 s)) \<and> number (take 2 (drop 5 s)) \<le> 12
         \<and> 1 \<le> number (take 2 (drop 8 s)) \<and> number (take 2 (drop 8 s)) \<le> 31
         \<and> number (take 2 (drop 11 s)) \<le> 24 \<and> number (take 2 (drop 14 s)) \<le> 59
         \<and> number (take 2 (drop 17 s)) \<le> 59
      then Some ((day_number (number (take 4 s)) (number (take 2 (drop 5 s))) (number (take 2 (drop 8 s)))
                  - unix_epoch div day_nanos) * 86400
                 + number (take 2 (drop 11 s)) * 3600 + number (take 2 (drop 14 s)) * 60
                 + number (take 2 (drop 17 s)))
      else None)"

definition fraction_nanos :: "string \<Rightarrow> int" where
  "fraction_nanos s =
     (case dropWhile (\<lambda>c. c \<noteq> CHR ''.'') s of
        [] \<Rightarrow> 0
      | _ # rest \<Rightarrow> number (takeWhile is_digit (take 9 (butlast rest @ replicate 9 (CHR ''0'')))))"

definition sqliteTimestampNanos :: "string \<Rightarrow> int option" where
  "sqliteTimestampNanos s =
     map_option (\<lambda>secs. secs * 1000000000 + fraction_nanos s) (strftime_s (take 19 s))"

text \<open>The sort key of \<^verbatim>\<open>ORDER BY sqliteTimestampNanos(t), id\<close>; NULL sorts first.\<close>

definition nanos_key :: "string \<Rightarrow> int \<times> int" where
  "nanos_key s = (case sqliteTimestampNanos s of None \<Rightarrow> (0, 0) | Some n \<Rightarrow> (1, n))"

section \<open>Events\<close>

definition next_sequence :: "string \<Rightarrow> Event list \<Rightarrow> int" where
  "next_sequence sid es = list_max0 (map ev_sequence (filter (\<lambda>e. ev_session_id e = sid) es)) + 1"

definition insert_event :: "Event \<Rightarrow> unit wtx" where
  "insert_event e = tx_bind (tx_gets events) (\<lambda>es.
     tx_then (tx_guard (ev_id e \<notin> set (map ev_id es)) (ErrUnique ''events.id''))
       (tx_modify (\<lambda>w. w\<lparr>events := events w @ [e]\<rparr>)))"

text \<open>An empty payload text is \<open>None\<close>.\<close>

definition appendEventTx ::
  "string \<Rightarrow> string option \<Rightarrow> string \<Rightarrow> string \<Rightarrow> json option \<Rightarrow> string \<Rightarrow> Event wtx" where
  "appendEventTx sessionID runID traceID eventType payloadJSON createdAt =
     tx_bind (tx_gets (\<lambda>w. next_sequence sessionID (events w))) (\<lambda>sequence.
     tx_bind (ids_New ''evt'') (\<lambda>eid.
     let event = \<lparr>ev_id = eid, ev_session_id = sessionID, ev_run_id = runID, ev_trace_id = traceID,
           ev_sequence = sequence, ev_type = eventType,
           ev_payload = (case payloadJSON of None \<Rightarrow> JObj [] | Some p \<Rightarrow> p), ev_created_at = createdAt\<rparr>
     in tx_then (insert_event event) (tx_return event)))"

definition appendSessionEventTx :: "string \<Rightarrow> string \<Rightarrow> string \<Rightarrow> json option \<Rightarrow> string \<Rightarrow> Event wtx" where
  "appendSessionEventTx sessionID traceID eventType payloadJSON createdAt =
     appendEventTx sessionID None traceID eventType payloadJSON createdAt"

definition appendRunEventTx ::
  "string \<Rightarrow> string \<Rightarrow> string \<Rightarrow> string \<Rightarrow> json option \<Rightarrow> string \<Rightarrow> Event wtx" where
  "appendRunEventTx sessionID runID traceID eventType payloadJSON createdAt =
     appendEventTx sessionID (Some runID) traceID eventType payloadJSON createdAt"

record AppendEventInput =
  aei_session_id :: string
  aei_run_id :: string
  aei_trace_id :: string
  aei_type :: string
  aei_payload :: json

definition AppendEvent :: "AppendEventInput \<Rightarrow> Event wtx" where
  "AppendEvent input =
     tx_bind now_text (\<lambda>createdAt.
     tx_bind (tx_gets (\<lambda>w. next_sequence (aei_session_id input) (events w))) (\<lambda>next.
     tx_bind (ids_New ''evt'') (\<lambda>eid.
     let event = \<lparr>ev_id = eid, ev_session_id = aei_session_id input,
           ev_run_id = (if aei_run_id input \<noteq> '''' then Some (aei_run_id input) else None),
           ev_trace_id = aei_trace_id input, ev_sequence = next, ev_type = aei_type input,
           ev_payload = aei_payload input, ev_created_at = createdAt\<rparr>
     in tx_then (insert_event event) (tx_return event))))"

text \<open>\<^verbatim>\<open>GetSession\<close> finds only sessions that are not being deleted and rejects invalid rows.\<close>

definition validateSession :: "session \<Rightarrow> unit result" where
  "validateSession s =
     (if sess_title_origin s \<notin> set [''unset'', ''explicit'', ''derived''] then Inl ErrInvalidSessionTitleOrigin
      else if sess_status s \<notin> set [''active'', ''archived''] then Inl ErrInvalidSessionStatus
      else case ParseCanonical (sess_created_at s) of
             Inl _ \<Rightarrow> Inl ErrInvalidSessionTimestamp
           | Inr _ \<Rightarrow> (case ParseCanonical (sess_updated_at s) of
                         Inl _ \<Rightarrow> Inl ErrInvalidSessionTimestamp
                       | Inr _ \<Rightarrow> Inr ()))"

definition GetSession :: "string \<Rightarrow> session wtx" where
  "GetSession sessionID =
     tx_bind (query_row (\<lambda>w. filter (\<lambda>s. sess_id s = sessionID \<and> sess_deletion_state s = ''active'') (sessions w)))
       (\<lambda>s. tx_then (tx_lift (validateSession s)) (tx_return s))"

definition requireChatSessionTx :: "string \<Rightarrow> unit wtx" where
  "requireChatSessionTx sessionID =
     tx_bind (query_opt (\<lambda>w. filter (\<lambda>s. sess_id s = sessionID) (sessions w))) (\<lambda>found.
       case found of
         None \<Rightarrow> tx_fail ErrSessionNotFound
       | Some s \<Rightarrow>
           if sess_deletion_state s \<noteq> ''active'' then tx_fail ErrSessionDeleting
           else if sess_kind s \<noteq> ''chat'' then tx_fail ErrDelegationSessionReadOnly
           else tx_return ())"

definition requireActiveSessionTx :: "string \<Rightarrow> unit wtx" where
  "requireActiveSessionTx sessionID =
     tx_bind (query_opt (\<lambda>w. filter (\<lambda>s. sess_id s = sessionID) (sessions w))) (\<lambda>found.
       case found of
         None \<Rightarrow> tx_fail ErrSessionNotFound
       | Some s \<Rightarrow>
           if sess_deletion_state s \<noteq> ''active'' then tx_fail ErrSessionDeleting else tx_return ())"

text \<open>
  \<^verbatim>\<open>ReplayEvents\<close>: a page of a live session's log after a sequence, in order, and the latest
  sequence.
\<close>

definition ReplayEvents :: "string \<Rightarrow> int \<Rightarrow> int \<Rightarrow> (Event list \<times> int) wtx" where
  "ReplayEvents sessionID afterSequence limit0 =
     (let limit = (if limit0 \<le> 0 \<or> limit0 > 500 then 500 else limit0) in
      tx_then (tx_map_err (\<lambda>e. if e = ErrNoRows then ErrSessionNotFound else e) (GetSession sessionID))
        (tx_gets (\<lambda>w.
          (take (nat limit)
             (sort_key ev_sequence
               (filter (\<lambda>e. ev_session_id e = sessionID \<and> ev_sequence e > afterSequence) (events w))),
           list_max0 (map ev_sequence (filter (\<lambda>e. ev_session_id e = sessionID) (events w)))))))"

section \<open>Messages and session activity\<close>

definition nextSessionActivityTime :: "string \<Rightarrow> int \<Rightarrow> int list \<Rightarrow> int result" where
  "nextSessionActivityTime currentText candidate additionalAnchors =
     (case ParseCanonical currentText of
        Inl _ \<Rightarrow> Inl ErrInvalidSessionTimestamp
      | Inr current \<Rightarrow>
          Inr (foldl (\<lambda>c anchor. if \<not> c > anchor then anchor + 1 else c) candidate
                 (current # additionalAnchors)))"

definition nextSessionActivityTimeTx :: "string \<Rightarrow> int \<Rightarrow> int list \<Rightarrow> int wtx" where
  "nextSessionActivityTimeTx sessionID candidate anchors =
     tx_bind (query_row (\<lambda>w. filter (\<lambda>s. sess_id s = sessionID) (sessions w)))
       (\<lambda>s. tx_lift (nextSessionActivityTime (sess_updated_at s) candidate anchors))"

text \<open>
  The latest message by time then identifier. Its stored time is parsed with
  \<^verbatim>\<open>time.Parse(time.RFC3339Nano, ...)\<close>; text outside the approved shapes is a parse error here.
\<close>

definition latest_message :: "string \<Rightarrow> message list \<Rightarrow> message option" where
  "latest_message sid ms =
     (case rev (sort_key (\<lambda>m. (nanos_key (msg_created_at m), msg_id m))
                  (filter (\<lambda>m. msg_session_id m = sid) ms)) of
        [] \<Rightarrow> None | m # _ \<Rightarrow> Some m)"

definition time_Parse :: "string \<Rightarrow> int result" where
  "time_Parse s =
     (if approvedShape s then (case parse_rfc3339 s of None \<Rightarrow> Inl (ErrText ''parsing time'') | Some t \<Rightarrow> Inr t)
      else Inl (ErrText ''parsing time''))"

definition next_message_sequence :: "string \<Rightarrow> message list \<Rightarrow> int" where
  "next_message_sequence sid ms = list_max0 (map msg_sequence (filter (\<lambda>m. msg_session_id m = sid) ms)) + 1"

definition nextMessageSlotTx :: "string \<Rightarrow> int \<Rightarrow> (int \<times> int) wtx" where
  "nextMessageSlotTx sessionID candidate =
     tx_bind (tx_gets (\<lambda>w. next_message_sequence sessionID (messages w))) (\<lambda>next.
     tx_bind (tx_gets (\<lambda>w. latest_message sessionID (messages w))) (\<lambda>latest.
     tx_bind (case latest of
                None \<Rightarrow> tx_return []
              | Some m \<Rightarrow> if msg_created_at m = '''' then tx_return []
                          else tx_bind (tx_lift (time_Parse (msg_created_at m))) (\<lambda>t. tx_return [t]))
       (\<lambda>anchors.
     tx_bind (nextSessionActivityTimeTx sessionID candidate anchors) (\<lambda>created.
     tx_return (next, created)))))"

definition insert_message :: "message \<Rightarrow> unit wtx" where
  "insert_message m = tx_bind (tx_gets messages) (\<lambda>ms.
     tx_then (tx_guard (msg_id m \<notin> set (map msg_id ms)
         \<and> \<not> list_ex (\<lambda>x. msg_session_id x = msg_session_id m \<and> msg_sequence x = msg_sequence m) ms
         \<and> \<not> (msg_run_id m \<noteq> None \<and> msg_role m = ''assistant''
              \<and> list_ex (\<lambda>x. msg_run_id x = msg_run_id m \<and> msg_role x = ''assistant'') ms))
       (ErrUnique ''messages''))
       (tx_modify (\<lambda>w. w\<lparr>messages := messages w @ [m]\<rparr>)))"

definition touch_session :: "string \<Rightarrow> string \<Rightarrow> unit wtx" where
  "touch_session sessionID at =
     tx_modify (\<lambda>w. w\<lparr>sessions := update_where (\<lambda>s. sess_id s = sessionID)
       (\<lambda>s. s\<lparr>sess_updated_at := at\<rparr>) (sessions w)\<rparr>)"

definition insertSessionMessageTx :: "string \<Rightarrow> string \<Rightarrow> string \<Rightarrow> string \<Rightarrow> unit wtx" where
  "insertSessionMessageTx sessionID role contentType content =
     tx_bind time_Now (\<lambda>t.
     tx_bind (nextMessageSlotTx sessionID t) (\<lambda>(next, created).
     let createdAt = FormatTimestamp created in
     tx_bind (ids_New ''msg'') (\<lambda>mid.
     tx_then (insert_message \<lparr>msg_id = mid, msg_session_id = sessionID, msg_run_id = None, msg_role = role,
        msg_content = content, msg_content_type = contentType, msg_sequence = next, msg_created_at = createdAt\<rparr>)
       (touch_session sessionID createdAt))))"

section \<open>Audit log\<close>

definition recordAuditTx ::
  "string \<Rightarrow> string \<Rightarrow> string \<Rightarrow> string \<Rightarrow> string \<Rightarrow> json option \<Rightarrow> unit wtx" where
  "recordAuditTx correlationID actorType actorID action target payloadJSON =
     tx_bind (ids_New ''audit'') (\<lambda>aid.
     tx_bind now_text (\<lambda>at.
     tx_bind (tx_gets audit_logs) (\<lambda>rows.
     tx_then (tx_guard (aid \<notin> set (map au_id rows)) (ErrUnique ''audit_logs.id''))
       (tx_modify (\<lambda>w. w\<lparr>audit_logs := audit_logs w @ [\<lparr>au_id = aid,
          au_correlation_id = nullableText correlationID, au_actor_type = actorType,
          au_actor_id = nullableText actorID, au_action = action, au_target = nullableText target,
          au_payload = payloadJSON, au_created_at = at\<rparr>]\<rparr>)))))"

end
