(* ===== verification/RunLifecycle.thy ===== *)
theory RunLifecycle
  imports Store
begin

text \<open>
  The lifecycle vocabulary of \<^verbatim>\<open>run_state.go\<close>, the normative lifecycle/reason matrix, and the
  interface the rest of the development is proved against.

  \<open>run_step r r'\<close> says what one guarded lifecycle transition may do to a run row. The locale
  \<open>store_relation\<close> lists the elementary store changes every modelled operation is made of:
  changes that leave runs and events alone, appending an event with the next sequence, a guarded
  run step, inserting a queued run, and the steps of the approval machine. An operation proved to stay within an arbitrary
  \<open>store_relation\<close> stays within each of its interpretations.
\<close>

section \<open>Vocabulary\<close>

definition lifecycleQueued :: string where "lifecycleQueued = ''queued''"
definition lifecycleRunning :: string where "lifecycleRunning = ''running''"
definition lifecycleWaitingApproval :: string where "lifecycleWaitingApproval = ''waiting_approval''"
definition lifecycleRecovering :: string where "lifecycleRecovering = ''recovering''"
definition lifecycleCompleted :: string where "lifecycleCompleted = ''completed''"
definition lifecycleFailed :: string where "lifecycleFailed = ''failed''"
definition lifecycleCancelled :: string where "lifecycleCancelled = ''cancelled''"

lemmas lifecycle_defs =
  lifecycleQueued_def lifecycleRunning_def lifecycleWaitingApproval_def lifecycleRecovering_def
  lifecycleCompleted_def lifecycleFailed_def lifecycleCancelled_def

definition runStateChangedEventType :: string where
  "runStateChangedEventType = ''agent.run.state_changed''"

text \<open>The matrix; an absent key of the Go map is \<open>None\<close>.\<close>

definition allowedOutcomeReasons :: "string \<Rightarrow> Reason list option" where
  "allowedOutcomeReasons lifecycle = map_of [
     (lifecycleQueued, [ReasonNone]),
     (lifecycleRunning, [ReasonNone]),
     (lifecycleWaitingApproval, [ReasonNone]),
     (lifecycleRecovering, [ReasonNone]),
     (lifecycleCompleted, [ReasonNone, ReasonCompletedNoContent]),
     (lifecycleFailed, [ReasonExpired, ReasonContextLimit, ReasonProviderFailure, ReasonToolFailure,
        ReasonPolicyDenied, ReasonRetriesExhausted, ReasonRecoveryInterrupted, ReasonSideEffectUncertain,
        ReasonApprovalDeliveryFailed, ReasonInternalFailure]),
     (lifecycleCancelled, [ReasonUserCancelled, ReasonAbandoned])] lifecycle"

definition isTerminalLifecycle :: "string \<Rightarrow> bool" where
  "isTerminalLifecycle lifecycle \<longleftrightarrow>
     lifecycle = lifecycleCompleted \<or> lifecycle = lifecycleFailed \<or> lifecycle = lifecycleCancelled"

definition outcome_allowed :: "string \<Rightarrow> Reason \<Rightarrow> bool" where
  "outcome_allowed lifecycle reason =
     (case allowedOutcomeReasons lifecycle of None \<Rightarrow> False | Some rs \<Rightarrow> reason \<in> set rs)"

lemma isTerminalLifecycle_simps [simp]:
  "isTerminalLifecycle lifecycleCompleted" "isTerminalLifecycle lifecycleFailed"
  "isTerminalLifecycle lifecycleCancelled" "\<not> isTerminalLifecycle lifecycleQueued"
  "\<not> isTerminalLifecycle lifecycleRunning" "\<not> isTerminalLifecycle lifecycleWaitingApproval"
  "\<not> isTerminalLifecycle lifecycleRecovering"
  by (simp_all add: isTerminalLifecycle_def lifecycle_defs)

lemma outcome_allowed_failed: "outcome_allowed lifecycleFailed r \<longleftrightarrow> r \<in> set failed_reasons"
  by (simp add: outcome_allowed_def allowedOutcomeReasons_def lifecycle_defs failed_reasons_def)

lemma outcome_allowed_nonterminal:
  "outcome_allowed lc r \<Longrightarrow> \<not> isTerminalLifecycle lc \<Longrightarrow> r = ReasonNone"
  by (auto simp: outcome_allowed_def allowedOutcomeReasons_def isTerminalLifecycle_def split: if_splits option.splits)

section \<open>One lifecycle step of a run\<close>

definition same_identity :: "agent_run \<Rightarrow> agent_run \<Rightarrow> bool" where
  "same_identity r r' \<longleftrightarrow>
     run_id r' = run_id r \<and> run_session_id r' = run_session_id r \<and> run_trace_id r' = run_trace_id r
     \<and> run_user_message_id r' = run_user_message_id r
     \<and> run_assistant_message_id r' = run_assistant_message_id r
     \<and> run_continues_run_id r' = run_continues_run_id r"

text \<open>The columns only a lifecycle transition writes.\<close>

definition same_state :: "agent_run \<Rightarrow> agent_run \<Rightarrow> bool" where
  "same_state r r' \<longleftrightarrow>
     same_identity r r' \<and> run_status r' = run_status r \<and> run_outcome_reason r' = run_outcome_reason r
     \<and> run_state_version r' = run_state_version r \<and> run_state_updated_at r' = run_state_updated_at r
     \<and> run_finished_at r' = run_finished_at r
     \<and> run_assistant_content_sha256 r' = run_assistant_content_sha256 r
     \<and> run_queue_wait_reason r' = run_queue_wait_reason r
     \<and> run_queue_waited_ns r' = run_queue_waited_ns r \<and> run_queued_since_ns r' = run_queued_since_ns r"

lemma same_identity_refl [simp]: "same_identity r r"
  by (simp add: same_identity_def)

lemma same_state_refl [simp]: "same_state r r"
  by (simp add: same_state_def)

lemma same_identity_trans: "same_identity a b \<Longrightarrow> same_identity b c \<Longrightarrow> same_identity a c"
  by (simp add: same_identity_def)

lemma same_state_trans: "same_state a b \<Longrightarrow> same_state b c \<Longrightarrow> same_state a c"
  by (auto simp: same_state_def intro: same_identity_trans)

text \<open>The lifecycle graph.\<close>

definition lifecycle_edge :: "string \<Rightarrow> string \<Rightarrow> bool" where
  "lifecycle_edge from_lc to_lc \<longleftrightarrow>
     from_lc = lifecycleQueued \<and> to_lc \<in> set [lifecycleQueued, lifecycleRunning, lifecycleFailed, lifecycleCancelled]
     \<or> from_lc = lifecycleRunning \<and> to_lc \<in> set [lifecycleWaitingApproval, lifecycleRecovering, lifecycleQueued,
          lifecycleCompleted, lifecycleFailed, lifecycleCancelled]
     \<or> from_lc = lifecycleWaitingApproval \<and> to_lc \<in> set [lifecycleRunning, lifecycleRecovering,
          lifecycleCompleted, lifecycleFailed, lifecycleCancelled]
     \<or> from_lc = lifecycleRecovering \<and> to_lc \<in> set [lifecycleRunning, lifecycleQueued,
          lifecycleCompleted, lifecycleFailed, lifecycleCancelled]"

lemma lifecycle_edge_nonterminal: "lifecycle_edge a b \<Longrightarrow> \<not> isTerminalLifecycle a"
  by (auto simp: lifecycle_edge_def)

definition run_step :: "agent_run \<Rightarrow> agent_run \<Rightarrow> bool" where
  "run_step r r' \<longleftrightarrow>
     same_identity r r'
     \<and> \<not> isTerminalLifecycle (run_status r)
     \<and> lifecycle_edge (run_status r) (run_status r')
     \<and> outcome_allowed (run_status r') (run_outcome_reason r')
     \<and> 1 \<le> run_state_version r \<and> run_state_version r \<noteq> MaxInt64
     \<and> run_state_version r' = run_state_version r + 1
     \<and> (\<exists>now. NextStateTime now (run_state_updated_at r) = Inr (run_state_updated_at r'))
     \<and> run_finished_at r' = (if isTerminalLifecycle (run_status r')
                             then Some (run_state_updated_at r') else run_finished_at r)
     \<and> (\<not> isTerminalLifecycle (run_status r') \<longrightarrow>
          run_assistant_content_sha256 r' = run_assistant_content_sha256 r)
     \<and> run_queue_waited_ns r \<le> run_queue_waited_ns r'
     \<and> (if run_status r' = run_status r
            \<or> (run_status r \<noteq> lifecycleQueued \<and> run_status r' \<noteq> lifecycleQueued)
        then run_queue_waited_ns r' = run_queue_waited_ns r \<and> run_queued_since_ns r' = run_queued_since_ns r
        else if run_status r' = lifecycleQueued
        then run_queue_waited_ns r' = run_queue_waited_ns r \<and> run_queued_since_ns r' \<noteq> None
        else run_queued_since_ns r' = None)"

text \<open>A run as the orchestrator inserts it.\<close>

definition run_new :: "agent_run \<Rightarrow> bool" where
  "run_new r \<longleftrightarrow> run_status r = lifecycleQueued \<and> run_outcome_reason r = ReasonNone
     \<and> run_state_version r = 1 \<and> run_finished_at r = None \<and> run_queue_waited_ns r = 0
     \<and> run_queued_since_ns r \<noteq> None \<and> (\<exists>t. ParseCanonical (run_state_updated_at r) = Inr t)"

section \<open>Well-formed stores\<close>

text \<open>Primary keys, and delegations whose child run exists.\<close>

definition db_ok :: "world \<Rightarrow> bool" where
  "db_ok w \<longleftrightarrow> distinct (map run_id (agent_runs w)) \<and> distinct (map ap_id (approvals w))
     \<and> distinct (map tc_id (tool_calls w)) \<and> distinct (map job_id (jobs w))
     \<and> distinct (map msg_id (messages w)) \<and> distinct (map ev_id (events w))
     \<and> distinct (map dg_child_run_id (delegations w))
     \<and> set (map dg_child_run_id (delegations w)) \<subseteq> set (map run_id (agent_runs w))"

text \<open>Which run asked for a delegation, and which run works on it.\<close>

definition dg_link :: "delegation_row \<Rightarrow> string \<times> string \<times> string" where
  "dg_link d = (dg_id d, dg_parent_run_id d, dg_child_run_id d)"

text \<open>What a change that leaves runs and events alone has to keep of the keys.\<close>

definition same_keys :: "world \<Rightarrow> world \<Rightarrow> bool" where
  "same_keys w w' \<longleftrightarrow> map run_id (agent_runs w') = map run_id (agent_runs w)
     \<and> map ap_id (approvals w') = map ap_id (approvals w)
     \<and> map tc_id (tool_calls w') = map tc_id (tool_calls w) \<and> map job_id (jobs w') = map job_id (jobs w)
     \<and> map msg_id (messages w') = map msg_id (messages w) \<and> map ev_id (events w') = map ev_id (events w)
     \<and> map dg_link (delegations w') = map dg_link (delegations w)"

lemma map_dg_link_child:
  assumes "map dg_link ds' = map dg_link ds"
  shows "map dg_child_run_id ds' = map dg_child_run_id ds"
proof -
  have "map (snd \<circ> snd) (map dg_link ds') = map (snd \<circ> snd) (map dg_link ds)" using assms by simp
  then show ?thesis by (simp add: dg_link_def comp_def)
qed

lemma same_keys_db_ok: "same_keys w w' \<Longrightarrow> db_ok w \<Longrightarrow> db_ok w'"
  unfolding same_keys_def db_ok_def using map_dg_link_child by metis

definition under :: "(world \<Rightarrow> world \<Rightarrow> bool) \<Rightarrow> world \<Rightarrow> world \<Rightarrow> bool" where
  "under P w w' \<longleftrightarrow> (db_ok w \<longrightarrow> db_ok w' \<and> P w w')"

section \<open>The interface\<close>

text \<open>Work a run can still have open.\<close>

definition closed_approval :: "approval \<Rightarrow> bool" where
  "closed_approval a \<longleftrightarrow> ap_status a \<notin> set [''pending'', ''approved'']"

text \<open>
  The approval machine: what is asked never changes, a decision is taken once, and only an
  approved request is consumed. Recovery expires a consumed one whose effect it cannot prove.
\<close>

definition same_request :: "approval \<Rightarrow> approval \<Rightarrow> bool" where
  "same_request a a' \<longleftrightarrow> ap_id a' = ap_id a \<and> ap_run_id a' = ap_run_id a
     \<and> ap_tool_call_id a' = ap_tool_call_id a \<and> ap_agent_id a' = ap_agent_id a
     \<and> ap_tool_name a' = ap_tool_name a \<and> ap_args_json a' = ap_args_json a
     \<and> ap_args_hash a' = ap_args_hash a \<and> ap_expires_at a' = ap_expires_at a
     \<and> ap_created_at a' = ap_created_at a"

definition status_next :: "string \<Rightarrow> string \<Rightarrow> bool" where
  "status_next s s' \<longleftrightarrow> (s = ''pending'' \<and> s' \<in> set [''approved'', ''denied'', ''expired''])
     \<or> (s = ''approved'' \<and> s' \<in> set [''consumed'', ''expired''])
     \<or> (s = ''consumed'' \<and> s' = ''expired'')"

definition approval_ok :: "approval \<Rightarrow> bool" where
  "approval_ok a \<longleftrightarrow>
     ap_status a \<in> set [''pending'', ''approved'', ''denied'', ''expired'', ''consumed'']
     \<and> (ap_status a \<in> set [''pending'', ''denied'', ''expired''] \<longrightarrow> ap_jti a = None \<and> ap_token a = None)
     \<and> (ap_status a \<in> set [''approved'', ''consumed''] \<longrightarrow> ap_jti a = Some (ap_id a) \<and> ap_token a \<noteq> None)
     \<and> (ap_status a = ''pending'' \<longleftrightarrow> ap_decided_at a = None)
     \<and> (ap_status a = ''consumed'' \<longrightarrow> ap_consumed_at a \<noteq> None)
     \<and> (ap_consumed_at a \<noteq> None \<longrightarrow> ap_status a \<in> set [''consumed'', ''expired''])"

definition approval_step :: "approval \<Rightarrow> approval \<Rightarrow> bool" where
  "approval_step a a' \<longleftrightarrow> same_request a a' \<and> status_next (ap_status a) (ap_status a')
     \<and> (approval_ok a \<longrightarrow> approval_ok a')"

lemmas approval_step_defs = approval_step_def same_request_def status_next_def approval_ok_def

definition approval_new :: "approval \<Rightarrow> bool" where
  "approval_new a \<longleftrightarrow> ap_status a = ''pending'' \<and> approval_ok a"

definition closed_tool_call :: "tool_call \<Rightarrow> bool" where
  "closed_tool_call c \<longleftrightarrow> tc_status c \<notin> set [''requested'', ''allowed'', ''approval_required'']"

definition closed_job :: "job \<Rightarrow> bool" where
  "closed_job j \<longleftrightarrow> job_status j \<notin> set [''pending'', ''in_progress'']"

text \<open>
  The elementary changes a lifecycle transition is made of. A transition never opens an approval
  or a tool call; it closes what is open, and the only job it adds belongs to a run that is
  still to start.
\<close>

locale transition_relation = tx_relation R for R :: "world \<Rightarrow> world \<Rightarrow> bool" +
  assumes outside: "\<not> db_ok w \<Longrightarrow> R w w'"
    and quiet: "db_ok w \<Longrightarrow> db_ok w' \<Longrightarrow> list_all2 same_state (agent_runs w) (agent_runs w') \<Longrightarrow>
      events w' = events w \<Longrightarrow> approvals w' = approvals w \<Longrightarrow> tool_calls w' = tool_calls w \<Longrightarrow>
      jobs w' = jobs w \<Longrightarrow> map dg_link (delegations w') = map dg_link (delegations w) \<Longrightarrow> R w w'"
    and append: "db_ok w \<Longrightarrow> ev_sequence e = next_sequence (ev_session_id e) (events w) \<Longrightarrow>
      ev_id e \<notin> set (map ev_id (events w)) \<Longrightarrow> R w (w\<lparr>events := events w @ [e]\<rparr>)"
    and step: "db_ok w \<Longrightarrow> (\<And>r. r \<in> set (agent_runs w) \<Longrightarrow> p r \<Longrightarrow> run_step r (f r)) \<Longrightarrow>
      R w (w\<lparr>agent_runs := update_where p f (agent_runs w)\<rparr>)"
    and insert_run: "db_ok w \<Longrightarrow> run_id r \<notin> set (map run_id (agent_runs w)) \<Longrightarrow> run_new r \<Longrightarrow>
      R w (w\<lparr>agent_runs := agent_runs w @ [r]\<rparr>)"
    and close_approvals: "db_ok w \<Longrightarrow>
      (\<And>a. pa a \<Longrightarrow> approval_step a (fa a) \<and> closed_approval (fa a)) \<Longrightarrow>
      R w (w\<lparr>approvals := update_where pa fa (approvals w)\<rparr>)"
    and close_tool_calls: "db_ok w \<Longrightarrow>
      (\<And>c. pc c \<Longrightarrow> tc_id (fc c) = tc_id c \<and> tc_run_id (fc c) = tc_run_id c \<and> closed_tool_call (fc c)) \<Longrightarrow>
      R w (w\<lparr>tool_calls := update_where pc fc (tool_calls w)\<rparr>)"
    and close_jobs: "db_ok w \<Longrightarrow>
      (\<And>j. pj j \<Longrightarrow> job_id (fj j) = job_id j \<and> job_run_id (fj j) = job_run_id j \<and> closed_job (fj j)) \<Longrightarrow>
      R w (w\<lparr>jobs := update_where pj fj (jobs w)\<rparr>)"
    and insert_job: "db_ok w \<Longrightarrow> job_id j \<notin> set (map job_id (jobs w)) \<Longrightarrow>
      \<exists>r \<in> set (agent_runs w). run_id r = job_run_id j \<and> \<not> isTerminalLifecycle (run_status r) \<Longrightarrow>
      R w (w\<lparr>jobs := jobs w @ [j]\<rparr>)"
begin

lemma list_all2_same [simp]: "list_all2 same_state rs rs"
  by (simp add: list_all2_same)

text \<open>Changes of the remaining tables and of the environment.\<close>

lemma frame_keys:
  assumes "same_keys w w'" "list_all2 same_state (agent_runs w) (agent_runs w')" "events w' = events w"
    "approvals w' = approvals w" "tool_calls w' = tool_calls w" "jobs w' = jobs w"
  shows "R w w'"
proof (cases "db_ok w")
  case True
  show ?thesis
    by (rule quiet [OF True same_keys_db_ok [OF assms(1) True] assms(2-6)])
      (use assms(1) in \<open>simp add: same_keys_def\<close>)
qed (rule outside)

lemma frame_ok:
  assumes "db_ok w \<Longrightarrow> db_ok w'" "agent_runs w' = agent_runs w" "events w' = events w"
    "approvals w' = approvals w" "tool_calls w' = tool_calls w" "jobs w' = jobs w"
    "delegations w' = delegations w"
  shows "R w w'"
  using assms quiet outside by (metis list_all2_same)

lemma side_update:
  assumes "\<And>r. p r \<Longrightarrow> same_state r (f r)"
  shows "R w (w\<lparr>agent_runs := update_where p f (agent_runs w)\<rparr>)"
proof (rule frame_keys)
  have "map run_id (update_where p f (agent_runs w)) = map run_id (agent_runs w)"
    using assms by (intro map_update_where) (auto simp: same_state_def same_identity_def)
  then show "same_keys w (w\<lparr>agent_runs := update_where p f (agent_runs w)\<rparr>)" by (simp add: same_keys_def)
  show "list_all2 same_state (agent_runs w)
      (agent_runs (w\<lparr>agent_runs := update_where p f (agent_runs w)\<rparr>))"
    using assms by (auto simp: update_where_def list_all2_conv_all_nth)
qed simp_all

lemma within_close_approvals:
  assumes "\<And>a. p a \<Longrightarrow> approval_step a (f a) \<and> closed_approval (f a)"
  shows "tx_within R (tx_modify (\<lambda>w. w\<lparr>approvals := update_where p f (approvals w)\<rparr>))"
  using assms outside close_approvals [of _ p f] by (intro within_modify) blast

lemma within_close_tool_calls:
  assumes "\<And>c. p c \<Longrightarrow> tc_id (f c) = tc_id c \<and> tc_run_id (f c) = tc_run_id c \<and> closed_tool_call (f c)"
  shows "tx_within R (tx_modify (\<lambda>w. w\<lparr>tool_calls := update_where p f (tool_calls w)\<rparr>))"
  using assms outside close_tool_calls [of _ p f] by (intro within_modify) blast

lemma within_close_jobs:
  assumes "\<And>j. p j \<Longrightarrow> job_id (f j) = job_id j \<and> job_run_id (f j) = job_run_id j \<and> closed_job (f j)"
  shows "tx_within R (tx_modify (\<lambda>w. w\<lparr>jobs := update_where p f (jobs w)\<rparr>))"
  using assms outside close_jobs [of _ p f] by (intro within_modify) blast

lemma within_time_Now: "tx_within R time_Now"
  by (auto simp: tx_within_def time_Now_def intro!: frame_keys simp: same_keys_def)

lemma within_now_text: "tx_within R now_text"
  unfolding now_text_def by (intro within_bind within_time_Now within_return)

lemma within_ids_New: "tx_within R (ids_New p)"
  by (auto simp: tx_within_def ids_New_def intro!: frame_keys simp: same_keys_def)

lemma within_rand_nonce: "tx_within R rand_nonce"
  by (auto simp: tx_within_def rand_nonce_def intro!: frame_keys simp: same_keys_def)

lemma within_query_row: "tx_within R (query_row q)"
  by (auto simp: tx_within_def query_row_def step_refl split: list.splits)

lemma within_query_opt: "tx_within R (query_opt q)"
  by (auto simp: tx_within_def query_opt_def step_refl)

lemma within_expectOneRow: "tx_within R (expectOneRowErr n e)" "tx_within R (expectOneRow n m)"
  by (auto simp: expectOneRowErr_def expectOneRow_def intro: within_guard)

lemmas within_env =
  within_time_Now within_now_text within_ids_New within_rand_nonce within_query_row within_query_opt
  within_expectOneRow

lemma within_appendEventTx: "tx_within R (appendEventTx s r t ty p at)"
proof (rule tx_withinI)
  fix w e w' assume "appendEventTx s r t ty p at w = Inr (e, w')"
  then obtain w1 where w1: "w1 = w\<lparr>ulids_drawn := Suc (ulids_drawn w)\<rparr>"
    and e: "ev_sequence e = next_sequence (ev_session_id e) (events w1)" "ev_id e \<notin> set (map ev_id (events w1))"
    and w': "w' = w1\<lparr>events := events w1 @ [e]\<rparr>"
    by (auto simp: appendEventTx_def insert_event_def tx_simps ids_New_def Let_def split: if_splits)
  have "R w w1" unfolding w1 by (rule frame_keys) (auto simp: same_keys_def)
  moreover have "R w1 w'" unfolding w' using e append outside by blast
  ultimately show "R w w'" by (rule step_trans)
qed

lemma within_AppendEvent: "tx_within R (AppendEvent input)"
proof (rule tx_withinI)
  fix w e w' assume "AppendEvent input w = Inr (e, w')"
  then obtain w1 where w1: "w1 = w\<lparr>ticks := Suc (ticks w), ulids_drawn := Suc (ulids_drawn w)\<rparr>"
    and e: "ev_sequence e = next_sequence (ev_session_id e) (events w1)" "ev_id e \<notin> set (map ev_id (events w1))"
    and w': "w' = w1\<lparr>events := events w1 @ [e]\<rparr>"
    by (auto simp: AppendEvent_def insert_event_def tx_simps ids_New_def now_text_def time_Now_def
        Let_def split: if_splits)
  have "R w w1" unfolding w1 by (rule frame_keys) (auto simp: same_keys_def)
  moreover have "R w1 w'" unfolding w' using e append outside by blast
  ultimately show "R w w'" by (rule step_trans)
qed

lemma within_events: "tx_within R (appendRunEventTx s r' t ty p at)" "tx_within R (appendSessionEventTx s t ty p at)"
  by (simp_all add: appendRunEventTx_def appendSessionEventTx_def within_appendEventTx)

lemma within_touch_session: "tx_within R (touch_session s at)"
  unfolding touch_session_def by (intro within_modify frame_keys) (auto simp: same_keys_def)

lemma within_insert_message: "tx_within R (insert_message m)"
proof (rule tx_withinI)
  fix w u w' assume "insert_message m w = Inr (u, w')"
  then have w': "w' = w\<lparr>messages := messages w @ [m]\<rparr>" and "msg_id m \<notin> set (map msg_id (messages w))"
    by (auto simp: insert_message_def tx_simps split: if_splits)
  then show "R w w'" unfolding w' by (intro frame_ok) (auto simp: db_ok_def)
qed

lemma within_nextMessageSlotTx: "tx_within R (nextMessageSlotTx s t)"
  unfolding nextMessageSlotTx_def nextSessionActivityTimeTx_def
  by (intro within_intros within_env)

lemma within_insertSessionMessageTx: "tx_within R (insertSessionMessageTx s r ct c)"
  unfolding insertSessionMessageTx_def
  by (intro within_bind within_time_Now within_nextMessageSlotTx)
    (auto simp: Let_def intro!: within_bind within_then within_ids_New within_insert_message within_touch_session)

lemma within_recordAuditTx: "tx_within R (recordAuditTx a b c d e f)"
  unfolding recordAuditTx_def
  by (intro within_bind within_then within_ids_New within_now_text within_gets within_guard within_modify frame_keys)
    (auto simp: same_keys_def)

lemmas within_store =
  within_env within_events within_appendEventTx within_AppendEvent within_touch_session
  within_insert_message within_nextMessageSlotTx within_insertSessionMessageTx within_recordAuditTx

end

text \<open>
  The operations that are not lifecycle transitions may also open work: for a relation on runs,
  approvals and events alone, every change of the other tables is quiet.
\<close>

locale store_relation = transition_relation +
  assumes frame: "db_ok w \<Longrightarrow> db_ok w' \<Longrightarrow> list_all2 same_state (agent_runs w) (agent_runs w') \<Longrightarrow>
      events w' = events w \<Longrightarrow> approvals w' = approvals w \<Longrightarrow> R w w'"
    and step_approvals: "db_ok w \<Longrightarrow> (\<And>a. pa a \<Longrightarrow> approval_step a (fa a)) \<Longrightarrow>
      R w (w\<lparr>approvals := update_where pa fa (approvals w)\<rparr>)"
    and insert_approval: "db_ok w \<Longrightarrow> ap_id a \<notin> set (map ap_id (approvals w)) \<Longrightarrow> approval_new a \<Longrightarrow>
      R w (w\<lparr>approvals := approvals w @ [a]\<rparr>)"
begin

lemma any_keys:
  assumes "same_keys w w'" "list_all2 same_state (agent_runs w) (agent_runs w')" "events w' = events w"
    "approvals w' = approvals w"
  shows "R w w'"
  using assms frame outside same_keys_db_ok by blast

lemma any_ok:
  assumes "db_ok w \<Longrightarrow> db_ok w'" "agent_runs w' = agent_runs w" "events w' = events w"
    "approvals w' = approvals w"
  shows "R w w'"
  using assms frame outside by (metis list_all2_same)

lemma within_step_approvals:
  assumes "\<And>a. p a \<Longrightarrow> approval_step a (f a)"
  shows "tx_within R (tx_modify (\<lambda>w. w\<lparr>approvals := update_where p f (approvals w)\<rparr>))"
  using assms outside step_approvals [of _ p f] by (intro within_modify) blast

end

end
