(* ===== verification/StoreInvariants.thy ===== *)
theory StoreInvariants
  imports RunLifecycle
begin

text \<open>
  The interpretations of the store interface, one for each thing the store promises over time.

  \<open>step_laws\<close> states the laws of \<open>transition_relation\<close> for a relation that is only asked about
  well-formed stores and leaves the keys out: \<open>under P\<close> is then a \<open>transition_relation\<close>, because
  every elementary change keeps the primary keys. \<open>store_laws\<close> does the same for
  \<open>store_relation\<close>.

  \<^item> \<open>run_history\<close>: a run is never lost, keeps its identity, is frozen once terminal, and its
    version and state time grow together;
  \<^item> \<open>runs_ok\<close>: the lifecycle/reason matrix, the finish time and the queue clock of every run;
  \<^item> \<open>event_history\<close>: the event log is append-only;
  \<^item> \<open>sequences_ok\<close>: the events of a session are numbered 1, 2, 3 and so on without a gap;
  \<^item> \<open>lineage\<close>: on top of \<open>run_history\<close>, who delegated to whom does not change;
  \<^item> \<open>approval_history\<close> and \<open>approvals_ok\<close>: an approval only moves along the approval machine,
    and its token and times agree with its status;
  \<^item> \<open>sealed\<close>: a terminal run with no open work has no open work ever after.
\<close>

section \<open>From laws on well-formed stores to the interface\<close>

lemma db_ok_append:
  "db_ok w \<Longrightarrow> ev_id e \<notin> set (map ev_id (events w)) \<Longrightarrow> db_ok (w\<lparr>events := events w @ [e]\<rparr>)"
  by (simp add: db_ok_def)

lemma db_ok_insert_run:
  "db_ok w \<Longrightarrow> run_id r \<notin> set (map run_id (agent_runs w)) \<Longrightarrow> db_ok (w\<lparr>agent_runs := agent_runs w @ [r]\<rparr>)"
  by (auto simp: db_ok_def)

lemma db_ok_insert_job:
  "db_ok w \<Longrightarrow> job_id j \<notin> set (map job_id (jobs w)) \<Longrightarrow> db_ok (w\<lparr>jobs := jobs w @ [j]\<rparr>)"
  by (simp add: db_ok_def)

lemma map_update_where_in:
  "(\<And>r. r \<in> set rows \<Longrightarrow> p r \<Longrightarrow> g (f r) = g r) \<Longrightarrow> map g (update_where p f rows) = map g rows"
  by (simp add: update_where_def)

lemma db_ok_step:
  assumes "db_ok w" "\<And>r. r \<in> set (agent_runs w) \<Longrightarrow> p r \<Longrightarrow> run_step r (f r)"
  shows "db_ok (w\<lparr>agent_runs := update_where p f (agent_runs w)\<rparr>)"
proof -
  have "map run_id (update_where p f (agent_runs w)) = map run_id (agent_runs w)"
    by (rule map_update_where_in) (use assms(2) in \<open>simp add: run_step_def same_identity_def\<close>)
  then have "same_keys w (w\<lparr>agent_runs := update_where p f (agent_runs w)\<rparr>)" by (simp add: same_keys_def)
  then show ?thesis using assms(1) by (rule same_keys_db_ok)
qed

lemma db_ok_close:
  assumes "db_ok w"
  shows "(\<And>a. pa a \<Longrightarrow> ap_id (fa a) = ap_id a) \<Longrightarrow> db_ok (w\<lparr>approvals := update_where pa fa (approvals w)\<rparr>)"
    and "(\<And>c. pc c \<Longrightarrow> tc_id (fc c) = tc_id c) \<Longrightarrow> db_ok (w\<lparr>tool_calls := update_where pc fc (tool_calls w)\<rparr>)"
    and "(\<And>j. pj j \<Longrightarrow> job_id (fj j) = job_id j) \<Longrightarrow> db_ok (w\<lparr>jobs := update_where pj fj (jobs w)\<rparr>)"
  using assms by (simp_all add: db_ok_def map_update_where)

lemma approval_step_keys:
  "approval_step a a' \<Longrightarrow> ap_id a' = ap_id a" "approval_step a a' \<Longrightarrow> ap_run_id a' = ap_run_id a"
  by (simp_all add: approval_step_def same_request_def)

lemma db_ok_insert_approval:
  "db_ok w \<Longrightarrow> ap_id a \<notin> set (map ap_id (approvals w)) \<Longrightarrow> db_ok (w\<lparr>approvals := approvals w @ [a]\<rparr>)"
  by (simp add: db_ok_def)

locale step_laws =
  fixes P :: "world \<Rightarrow> world \<Rightarrow> bool"
  assumes P_refl: "P w w"
    and P_trans: "P w1 w2 \<Longrightarrow> P w2 w3 \<Longrightarrow> P w1 w3"
    and P_quiet: "db_ok w \<Longrightarrow> list_all2 same_state (agent_runs w) (agent_runs w') \<Longrightarrow>
      events w' = events w \<Longrightarrow> approvals w' = approvals w \<Longrightarrow> tool_calls w' = tool_calls w \<Longrightarrow>
      jobs w' = jobs w \<Longrightarrow> map dg_link (delegations w') = map dg_link (delegations w) \<Longrightarrow> P w w'"
    and P_append: "db_ok w \<Longrightarrow> ev_sequence e = next_sequence (ev_session_id e) (events w) \<Longrightarrow>
      P w (w\<lparr>events := events w @ [e]\<rparr>)"
    and P_step: "db_ok w \<Longrightarrow> (\<And>r. r \<in> set (agent_runs w) \<Longrightarrow> p r \<Longrightarrow> run_step r (f r)) \<Longrightarrow>
      P w (w\<lparr>agent_runs := update_where p f (agent_runs w)\<rparr>)"
    and P_insert_run: "db_ok w \<Longrightarrow> run_new r \<Longrightarrow> P w (w\<lparr>agent_runs := agent_runs w @ [r]\<rparr>)"
    and P_close_approvals: "db_ok w \<Longrightarrow>
      (\<And>a. pa a \<Longrightarrow> approval_step a (fa a) \<and> closed_approval (fa a)) \<Longrightarrow>
      P w (w\<lparr>approvals := update_where pa fa (approvals w)\<rparr>)"
    and P_close_tool_calls: "db_ok w \<Longrightarrow>
      (\<And>c. pc c \<Longrightarrow> tc_run_id (fc c) = tc_run_id c \<and> closed_tool_call (fc c)) \<Longrightarrow>
      P w (w\<lparr>tool_calls := update_where pc fc (tool_calls w)\<rparr>)"
    and P_close_jobs: "db_ok w \<Longrightarrow>
      (\<And>j. pj j \<Longrightarrow> job_run_id (fj j) = job_run_id j \<and> closed_job (fj j)) \<Longrightarrow>
      P w (w\<lparr>jobs := update_where pj fj (jobs w)\<rparr>)"
    and P_insert_job: "db_ok w \<Longrightarrow> r \<in> set (agent_runs w) \<Longrightarrow> run_id r = job_run_id j \<Longrightarrow>
      \<not> isTerminalLifecycle (run_status r) \<Longrightarrow> P w (w\<lparr>jobs := jobs w @ [j]\<rparr>)"

sublocale step_laws \<subseteq> transition_relation "under P"
proof unfold_locales
  show "under P w w" for w by (simp add: under_def P_refl)
  show "under P w1 w2 \<Longrightarrow> under P w2 w3 \<Longrightarrow> under P w1 w3" for w1 w2 w3
    unfolding under_def using P_trans by blast
  show "\<not> db_ok w \<Longrightarrow> under P w w'" for w w' by (simp add: under_def)
  show "db_ok w \<Longrightarrow> db_ok w' \<Longrightarrow> list_all2 same_state (agent_runs w) (agent_runs w') \<Longrightarrow>
      events w' = events w \<Longrightarrow> approvals w' = approvals w \<Longrightarrow> tool_calls w' = tool_calls w \<Longrightarrow>
      jobs w' = jobs w \<Longrightarrow> map dg_link (delegations w') = map dg_link (delegations w) \<Longrightarrow> under P w w'" for w w'
    unfolding under_def using P_quiet by metis
  show "db_ok w \<Longrightarrow> ev_sequence e = next_sequence (ev_session_id e) (events w) \<Longrightarrow>
      ev_id e \<notin> set (map ev_id (events w)) \<Longrightarrow> under P w (w\<lparr>events := events w @ [e]\<rparr>)" for w e
    unfolding under_def using P_append db_ok_append by blast
  show "db_ok w \<Longrightarrow> (\<And>r. r \<in> set (agent_runs w) \<Longrightarrow> p r \<Longrightarrow> run_step r (f r)) \<Longrightarrow>
      under P w (w\<lparr>agent_runs := update_where p f (agent_runs w)\<rparr>)" for w p f
    unfolding under_def using P_step db_ok_step by blast
  show "db_ok w \<Longrightarrow> run_id r \<notin> set (map run_id (agent_runs w)) \<Longrightarrow> run_new r \<Longrightarrow>
      under P w (w\<lparr>agent_runs := agent_runs w @ [r]\<rparr>)" for w r
    unfolding under_def using P_insert_run db_ok_insert_run by blast
  show "db_ok w \<Longrightarrow>
      (\<And>a. pa a \<Longrightarrow> approval_step a (fa a) \<and> closed_approval (fa a)) \<Longrightarrow>
      under P w (w\<lparr>approvals := update_where pa fa (approvals w)\<rparr>)" for w pa fa
    unfolding under_def
    using P_close_approvals [of w pa fa] db_ok_close(1) [of w pa fa] approval_step_keys by blast
  show "db_ok w \<Longrightarrow>
      (\<And>c. pc c \<Longrightarrow> tc_id (fc c) = tc_id c \<and> tc_run_id (fc c) = tc_run_id c \<and> closed_tool_call (fc c)) \<Longrightarrow>
      under P w (w\<lparr>tool_calls := update_where pc fc (tool_calls w)\<rparr>)" for w pc fc
    unfolding under_def using P_close_tool_calls [of w pc fc] db_ok_close(2) [of w pc fc] by blast
  show "db_ok w \<Longrightarrow>
      (\<And>j. pj j \<Longrightarrow> job_id (fj j) = job_id j \<and> job_run_id (fj j) = job_run_id j \<and> closed_job (fj j)) \<Longrightarrow>
      under P w (w\<lparr>jobs := update_where pj fj (jobs w)\<rparr>)" for w pj fj
    unfolding under_def using P_close_jobs [of w pj fj] db_ok_close(3) [of w pj fj] by blast
  show "db_ok w \<Longrightarrow> job_id j \<notin> set (map job_id (jobs w)) \<Longrightarrow>
      \<exists>r \<in> set (agent_runs w). run_id r = job_run_id j \<and> \<not> isTerminalLifecycle (run_status r) \<Longrightarrow>
      under P w (w\<lparr>jobs := jobs w @ [j]\<rparr>)" for w j
    unfolding under_def using P_insert_job [of w _ j] db_ok_insert_job by blast
qed

locale store_laws = step_laws +
  assumes P_frame: "db_ok w \<Longrightarrow> list_all2 same_state (agent_runs w) (agent_runs w') \<Longrightarrow>
      events w' = events w \<Longrightarrow> approvals w' = approvals w \<Longrightarrow> P w w'"
    and P_step_approvals: "db_ok w \<Longrightarrow> (\<And>a. pa a \<Longrightarrow> approval_step a (fa a)) \<Longrightarrow>
      P w (w\<lparr>approvals := update_where pa fa (approvals w)\<rparr>)"
    and P_insert_approval: "db_ok w \<Longrightarrow> approval_new a \<Longrightarrow> P w (w\<lparr>approvals := approvals w @ [a]\<rparr>)"

sublocale store_laws \<subseteq> store_relation "under P"
proof unfold_locales
  show "db_ok w \<Longrightarrow> db_ok w' \<Longrightarrow> list_all2 same_state (agent_runs w) (agent_runs w') \<Longrightarrow>
      events w' = events w \<Longrightarrow> approvals w' = approvals w \<Longrightarrow> under P w w'" for w w'
    unfolding under_def using P_frame by blast
  show "db_ok w \<Longrightarrow> (\<And>a. pa a \<Longrightarrow> approval_step a (fa a)) \<Longrightarrow>
      under P w (w\<lparr>approvals := update_where pa fa (approvals w)\<rparr>)" for w pa fa
    unfolding under_def
    using P_step_approvals [of w pa fa] db_ok_close(1) [of w pa fa] approval_step_keys by blast
  show "db_ok w \<Longrightarrow> ap_id a \<notin> set (map ap_id (approvals w)) \<Longrightarrow> approval_new a \<Longrightarrow>
      under P w (w\<lparr>approvals := approvals w @ [a]\<rparr>)" for w a
    unfolding under_def using P_insert_approval db_ok_insert_approval by blast
qed

lemma under_use: "tx_within (under P) m \<Longrightarrow> m w = Inr (x, w') \<Longrightarrow> db_ok w \<Longrightarrow> db_ok w' \<and> P w w'"
  by (auto simp: tx_within_def under_def)

section \<open>Runs over time\<close>

text \<open>What later transactions may have made of a run row.\<close>

definition run_later :: "agent_run \<Rightarrow> agent_run \<Rightarrow> bool" where
  "run_later r r' \<longleftrightarrow> same_identity r r'
     \<and> run_state_version r \<le> run_state_version r'
     \<and> (run_state_version r' = run_state_version r \<or> isTerminalLifecycle (run_status r) \<longrightarrow> same_state r r')
     \<and> (run_state_version r < run_state_version r' \<longrightarrow>
          (\<exists>p n. ParseLegacy (run_state_updated_at r) = Inr p \<and> ParseLegacy (run_state_updated_at r') = Inr n \<and> p < n))
     \<and> run_queue_waited_ns r \<le> run_queue_waited_ns r'"

lemma run_later_refl [simp]: "run_later r r"
  by (simp add: run_later_def)

lemma same_state_run_later: "same_state r r' \<Longrightarrow> run_later r r'"
  by (simp add: run_later_def same_state_def)

lemma run_later_trans:
  assumes "run_later a b" "run_later b c"
  shows "run_later a c"
proof (cases "run_state_version b = run_state_version a \<or> isTerminalLifecycle (run_status a)")
  case True
  then have ab: "same_state a b" using assms by (simp add: run_later_def)
  then show ?thesis using assms(2) same_state_trans [OF ab]
    by (auto simp: run_later_def same_state_def [of a b] intro: same_identity_trans)
next
  case lt: False
  show ?thesis
  proof (cases "run_state_version c = run_state_version b \<or> isTerminalLifecycle (run_status b)")
    case True
    then have "same_state b c" using assms by (simp add: run_later_def)
    then show ?thesis using assms(1) lt
      by (auto simp: run_later_def same_state_def [of b c] intro: same_identity_trans)
  next
    case False
    then show ?thesis using assms lt by (fastforce simp: run_later_def intro: same_identity_trans)
  qed
qed

lemma run_step_run_later:
  assumes "run_step r r'"
  shows "run_later r r'"
proof -
  obtain now where "NextStateTime now (run_state_updated_at r) = Inr (run_state_updated_at r')"
    using assms by (auto simp: run_step_def)
  then have "\<exists>p n. ParseLegacy (run_state_updated_at r) = Inr p \<and> ParseLegacy (run_state_updated_at r') = Inr n \<and> p < n"
    using NextStateTime_Inr ParseLegacy_Format by fastforce
  then show ?thesis using assms by (simp add: run_step_def run_later_def)
qed

text \<open>Later, along the lifecycle graph.\<close>

definition run_le :: "agent_run \<Rightarrow> agent_run \<Rightarrow> bool" where
  "run_le r r' \<longleftrightarrow> run_later r r' \<and> lifecycle_edge\<^sup>*\<^sup>* (run_status r) (run_status r')"

lemma run_le_refl [simp]: "run_le r r"
  by (simp add: run_le_def)

lemma same_state_run_le: "same_state r r' \<Longrightarrow> run_le r r'"
  by (simp add: run_le_def same_state_run_later same_state_def)

lemma run_le_trans: "run_le a b \<Longrightarrow> run_le b c \<Longrightarrow> run_le a c"
  unfolding run_le_def using run_later_trans rtranclp_trans by metis

lemma run_step_edge: "run_step r r' \<Longrightarrow> lifecycle_edge (run_status r) (run_status r')"
  by (simp add: run_step_def)

lemma run_step_run_le: "run_step r r' \<Longrightarrow> run_le r r'"
  unfolding run_le_def by (intro conjI run_step_run_later r_into_rtranclp run_step_edge)

definition run_history :: "world \<Rightarrow> world \<Rightarrow> bool" where
  "run_history w w' \<longleftrightarrow> (\<forall>r \<in> set (agent_runs w). \<exists>r' \<in> set (agent_runs w'). run_le r r')"

lemma run_history_list_all2:
  "list_all2 same_state (agent_runs w) (agent_runs w') \<Longrightarrow> run_history w w'"
  unfolding run_history_def by (metis list_all2_iff in_set_zip in_set_conv_nth list_all2_conv_all_nth same_state_run_le)

lemma run_history_subset: "set (agent_runs w) \<subseteq> set (agent_runs w') \<Longrightarrow> run_history w w'"
  unfolding run_history_def using run_le_refl by blast

lemma run_history_update:
  assumes "\<And>r. r \<in> set (agent_runs w) \<Longrightarrow> p r \<Longrightarrow> run_step r (f r)"
  shows "run_history w (w\<lparr>agent_runs := update_where p f (agent_runs w)\<rparr>)"
  unfolding run_history_def
proof
  fix r assume r: "r \<in> set (agent_runs w)"
  have "\<exists>r' \<in> set (update_where p f (agent_runs w)). run_le r r'"
  proof (cases "p r")
    case True
    then show ?thesis using run_step_run_le [OF assms [OF r True]] in_update_where_hit [of r _ p f, OF r True] by blast
  next
    case False
    then show ?thesis using in_update_where_miss [of r _ p f, OF r False] run_le_refl by blast
  qed
  then show "\<exists>r' \<in> set (agent_runs (w\<lparr>agent_runs := update_where p f (agent_runs w)\<rparr>)). run_le r r'" by simp
qed

interpretation history: store_laws run_history
proof unfold_locales
  show "run_history w w" for w unfolding run_history_def using run_le_refl by blast
  show "run_history w1 w2 \<Longrightarrow> run_history w2 w3 \<Longrightarrow> run_history w1 w3" for w1 w2 w3
    unfolding run_history_def using run_le_trans by meson
  show "db_ok w \<Longrightarrow> run_new r \<Longrightarrow> run_history w (w\<lparr>agent_runs := agent_runs w @ [r]\<rparr>)" for w r
    by (rule run_history_subset) auto
qed (simp_all add: run_history_list_all2 run_history_update run_history_subset)


section \<open>The state of a run\<close>

definition canonical_time :: "string \<Rightarrow> bool" where
  "canonical_time s \<longleftrightarrow> (case ParseCanonical s of Inr _ \<Rightarrow> True | Inl _ \<Rightarrow> False)"

definition run_ok :: "agent_run \<Rightarrow> bool" where
  "run_ok r \<longleftrightarrow> outcome_allowed (run_status r) (run_outcome_reason r)
     \<and> 1 \<le> run_state_version r \<and> run_state_version r \<le> MaxInt64
     \<and> canonical_time (run_state_updated_at r)
     \<and> run_finished_at r = (if isTerminalLifecycle (run_status r) then Some (run_state_updated_at r) else None)
     \<and> (run_queued_since_ns r \<noteq> None \<longleftrightarrow> run_status r = lifecycleQueued)
     \<and> 0 \<le> run_queue_waited_ns r"

definition runs_ok :: "world \<Rightarrow> bool" where
  "runs_ok w \<longleftrightarrow> list_all run_ok (agent_runs w)"

lemma outcome_allowed_queued [simp]: "outcome_allowed lifecycleQueued ReasonNone"
  by (simp add: outcome_allowed_def allowedOutcomeReasons_def)

lemma run_ok_same_state: "same_state r r' \<Longrightarrow> run_ok r \<Longrightarrow> run_ok r'"
  by (simp add: same_state_def run_ok_def)

lemma run_ok_step:
  assumes "run_step r r'" "run_ok r"
  shows "run_ok r'"
proof -
  obtain now where "NextStateTime now (run_state_updated_at r) = Inr (run_state_updated_at r')"
    using assms(1) by (auto simp: run_step_def)
  then have "canonical_time (run_state_updated_at r')"
    using NextStateTime_Inr ParseCanonical_Format by (fastforce simp: canonical_time_def)
  then show ?thesis using assms by (auto simp: run_step_def run_ok_def split: if_splits)
qed

lemma run_ok_new: "run_new r \<Longrightarrow> run_ok r"
  by (auto simp: run_new_def run_ok_def canonical_time_def MaxInt64_def)

lemma runs_ok_list_all2:
  "list_all2 same_state rs rs' \<Longrightarrow> list_all run_ok rs \<Longrightarrow> list_all run_ok rs'"
  by (induction rule: list_all2_induct) (simp_all, blast intro: run_ok_same_state)

lemma runs_ok_update:
  "(\<And>r. r \<in> set rs \<Longrightarrow> p r \<Longrightarrow> run_step r (f r)) \<Longrightarrow> list_all run_ok rs \<Longrightarrow>
   list_all run_ok (update_where p f rs)"
  unfolding list_all_iff by (blast elim: in_update_whereE intro: run_ok_step)

interpretation shape: store_laws "preserves runs_ok"
  by unfold_locales
    (simp_all add: preserves_def runs_ok_def runs_ok_list_all2 runs_ok_update run_ok_new)

section \<open>The event log\<close>

definition event_history :: "world \<Rightarrow> world \<Rightarrow> bool" where
  "event_history w w' \<longleftrightarrow> (\<exists>es. events w' = events w @ es)"

interpretation log: store_laws event_history
  by unfold_locales (auto simp: event_history_def)

definition session_sequences :: "string \<Rightarrow> Event list \<Rightarrow> int list" where
  "session_sequences sid es = map ev_sequence (filter (\<lambda>e. ev_session_id e = sid) es)"

text \<open>The events of a session are numbered from 1 in the order they were appended.\<close>

definition gap_free :: "int list \<Rightarrow> bool" where
  "gap_free ss \<longleftrightarrow> ss = map int [1..<Suc (length ss)]"

definition sequences_ok :: "world \<Rightarrow> bool" where
  "sequences_ok w \<longleftrightarrow> (\<forall>sid. gap_free (session_sequences sid (events w)))"

lemma list_max0_append: "list_max0 (xs @ [x]) = max (list_max0 xs) (max x 0)"
  by (induction xs) (simp_all add: list_max0_def max.commute max.left_commute)

lemma list_max0_gap_free: "list_max0 (map int [1..<Suc n]) = int n"
proof (induction n)
  case 0
  show ?case by (simp add: list_max0_def)
next
  case (Suc n)
  have "map int [1..<Suc (Suc n)] = map int [1..<Suc n] @ [int (Suc n)]" by simp
  then show ?case using Suc by (simp only: list_max0_append)
qed

lemma gap_free_next:
  assumes "gap_free ss"
  shows "gap_free (ss @ [list_max0 ss + 1])"
proof -
  have "list_max0 ss = int (length ss)" using assms list_max0_gap_free unfolding gap_free_def by metis
  then show ?thesis using assms by (simp add: gap_free_def)
qed

lemma sequences_ok_append:
  assumes "sequences_ok w" "ev_sequence e = next_sequence (ev_session_id e) (events w)"
  shows "sequences_ok (w\<lparr>events := events w @ [e]\<rparr>)"
  using assms gap_free_next
  by (auto simp: sequences_ok_def session_sequences_def next_sequence_def)

interpretation sequences: store_laws "preserves sequences_ok"
  by unfold_locales (simp_all add: preserves_def sequences_ok_append, simp_all add: sequences_ok_def)

section \<open>Delegations\<close>

definition lineage :: "world \<Rightarrow> world \<Rightarrow> bool" where
  "lineage w w' \<longleftrightarrow> run_history w w' \<and> map dg_link (delegations w') = map dg_link (delegations w)"

interpretation lines: step_laws lineage
proof unfold_locales
  show "lineage w1 w2 \<Longrightarrow> lineage w2 w3 \<Longrightarrow> lineage w1 w3" for w1 w2 w3
    unfolding lineage_def using history.P_trans [of w1 w2 w3] by simp
qed (simp_all add: lineage_def run_history_list_all2 run_history_update run_history_subset subset_insertI)

section \<open>Approvals over time\<close>

definition approval_le :: "approval \<Rightarrow> approval \<Rightarrow> bool" where
  "approval_le = approval_step\<^sup>*\<^sup>*"

definition approval_history :: "world \<Rightarrow> world \<Rightarrow> bool" where
  "approval_history w w' \<longleftrightarrow> (\<forall>a \<in> set (approvals w). \<exists>a' \<in> set (approvals w'). approval_le a a')"

lemma approval_history_same: "set (approvals w) \<subseteq> set (approvals w') \<Longrightarrow> approval_history w w'"
  by (auto simp: approval_history_def approval_le_def)

lemma approval_history_update:
  assumes "\<And>a. p a \<Longrightarrow> approval_step a (f a)"
  shows "approval_history w (w\<lparr>approvals := update_where p f (approvals w)\<rparr>)"
  unfolding approval_history_def
proof
  fix a assume a: "a \<in> set (approvals w)"
  have "\<exists>a' \<in> set (update_where p f (approvals w)). approval_le a a'"
  proof (cases "p a")
    case True
    then show ?thesis
      using in_update_where_hit [of a _ p f, OF a True] assms [OF True] by (auto simp: approval_le_def)
  next
    case False
    then show ?thesis
      using in_update_where_miss [of a _ p f, OF a False] by (auto simp: approval_le_def)
  qed
  then show "\<exists>a' \<in> set (approvals (w\<lparr>approvals := update_where p f (approvals w)\<rparr>)). approval_le a a'" by simp
qed

interpretation requests: store_laws approval_history
proof unfold_locales
  show "approval_history w1 w2 \<Longrightarrow> approval_history w2 w3 \<Longrightarrow> approval_history w1 w3" for w1 w2 w3
    unfolding approval_history_def approval_le_def by (meson rtranclp_trans)
qed (simp_all add: approval_history_same approval_history_update subset_insertI)

definition approvals_ok :: "world \<Rightarrow> bool" where
  "approvals_ok w \<longleftrightarrow> list_all approval_ok (approvals w)"

lemma approvals_ok_update:
  "(\<And>a. p a \<Longrightarrow> approval_step a (f a)) \<Longrightarrow> list_all approval_ok as \<Longrightarrow>
   list_all approval_ok (update_where p f as)"
  unfolding list_all_iff approval_step_def by (blast elim: in_update_whereE)

interpretation decisions: store_laws "preserves approvals_ok"
  by unfold_locales (simp_all add: preserves_def approvals_ok_def approvals_ok_update approval_new_def)

section \<open>Closed work\<close>

definition has_open_approval :: "string \<Rightarrow> world \<Rightarrow> bool" where
  "has_open_approval rid w \<longleftrightarrow> list_ex (\<lambda>a. ap_run_id a = rid \<and> \<not> closed_approval a) (approvals w)"

definition has_open_tool_call :: "string \<Rightarrow> world \<Rightarrow> bool" where
  "has_open_tool_call rid w \<longleftrightarrow> list_ex (\<lambda>c. tc_run_id c = rid \<and> \<not> closed_tool_call c) (tool_calls w)"

definition has_open_job :: "string \<Rightarrow> world \<Rightarrow> bool" where
  "has_open_job rid w \<longleftrightarrow> list_ex (\<lambda>j. job_run_id j = rid \<and> \<not> closed_job j) (jobs w)"

lemmas open_work_defs = has_open_approval_def has_open_tool_call_def has_open_job_def

definition terminal_run :: "string \<Rightarrow> world \<Rightarrow> bool" where
  "terminal_run rid w \<longleftrightarrow>
     list_ex (\<lambda>r. run_id r = rid \<and> isTerminalLifecycle (run_status r)) (agent_runs w)"

text \<open>A finished run with nothing left open.\<close>

definition sealed :: "string \<Rightarrow> world \<Rightarrow> bool" where
  "sealed rid w \<longleftrightarrow> terminal_run rid w \<and> \<not> has_open_approval rid w \<and> \<not> has_open_tool_call rid w
     \<and> \<not> has_open_job rid w"

definition stays_sealed :: "world \<Rightarrow> world \<Rightarrow> bool" where
  "stays_sealed w w' \<longleftrightarrow> (\<forall>rid. terminal_run rid w \<longrightarrow> terminal_run rid w'
     \<and> (has_open_approval rid w' \<longrightarrow> has_open_approval rid w)
     \<and> (has_open_tool_call rid w' \<longrightarrow> has_open_tool_call rid w)
     \<and> (has_open_job rid w' \<longrightarrow> has_open_job rid w))"

lemma stays_sealed_sealed: "stays_sealed w w' \<Longrightarrow> sealed rid w \<Longrightarrow> sealed rid w'"
  by (auto simp: stays_sealed_def sealed_def)

lemma run_history_terminal:
  assumes "run_history w w'" "terminal_run rid w"
  shows "terminal_run rid w'"
proof -
  obtain r where r: "r \<in> set (agent_runs w)" "run_id r = rid" "isTerminalLifecycle (run_status r)"
    using assms(2) unfolding terminal_run_def list_ex_iff by blast
  obtain r' where r': "r' \<in> set (agent_runs w')" "run_le r r'" using assms(1) r(1) unfolding run_history_def by blast
  have "run_id r' = rid" "isTerminalLifecycle (run_status r')"
    using r r'(2) by (simp_all add: run_le_def run_later_def same_state_def same_identity_def)
  then show ?thesis using r'(1) unfolding terminal_run_def list_ex_iff by blast
qed

lemma list_ex_update_where:
  "(\<And>x. p x \<Longrightarrow> \<not> q (f x)) \<Longrightarrow> list_ex q (update_where p f xs) \<Longrightarrow> list_ex q xs"
  by (induction xs) (auto simp: update_where_def split: if_splits)

lemma not_terminal_unique:
  assumes "db_ok w" "r \<in> set (agent_runs w)" "\<not> isTerminalLifecycle (run_status r)"
  shows "\<not> terminal_run (run_id r) w"
proof
  assume "terminal_run (run_id r) w"
  then obtain x where x: "x \<in> set (agent_runs w)" "run_id x = run_id r" "isTerminalLifecycle (run_status x)"
    unfolding terminal_run_def list_ex_iff by blast
  have "inj_on run_id (set (agent_runs w))" using assms(1) by (simp add: db_ok_def distinct_map)
  then have "x = r" using x(1,2) assms(2) by (simp add: inj_on_def)
  with x(3) assms(3) show False by simp
qed

lemma stays_sealed_frame:
  assumes "run_history w w'"
    and "\<And>rid. terminal_run rid w \<Longrightarrow> has_open_approval rid w' \<Longrightarrow> has_open_approval rid w"
    and "\<And>rid. terminal_run rid w \<Longrightarrow> has_open_tool_call rid w' \<Longrightarrow> has_open_tool_call rid w"
    and "\<And>rid. terminal_run rid w \<Longrightarrow> has_open_job rid w' \<Longrightarrow> has_open_job rid w"
  shows "stays_sealed w w'"
  using assms run_history_terminal unfolding stays_sealed_def by blast

interpretation seals: step_laws stays_sealed
proof unfold_locales
  show "stays_sealed w w" for w by (simp add: stays_sealed_def)
  show "stays_sealed w1 w2 \<Longrightarrow> stays_sealed w2 w3 \<Longrightarrow> stays_sealed w1 w3" for w1 w2 w3
    by (simp add: stays_sealed_def)
  show "db_ok w \<Longrightarrow> list_all2 same_state (agent_runs w) (agent_runs w') \<Longrightarrow>
      events w' = events w \<Longrightarrow> approvals w' = approvals w \<Longrightarrow> tool_calls w' = tool_calls w \<Longrightarrow>
      jobs w' = jobs w \<Longrightarrow> map dg_link (delegations w') = map dg_link (delegations w) \<Longrightarrow> stays_sealed w w'" for w w'
    by (rule stays_sealed_frame) (simp_all add: run_history_list_all2 open_work_defs)
  show "db_ok w \<Longrightarrow> (\<And>r. r \<in> set (agent_runs w) \<Longrightarrow> p r \<Longrightarrow> run_step r (f r)) \<Longrightarrow>
      stays_sealed w (w\<lparr>agent_runs := update_where p f (agent_runs w)\<rparr>)" for w p f
    by (rule stays_sealed_frame) (simp_all add: run_history_update open_work_defs)
  show "db_ok w \<Longrightarrow> run_new r \<Longrightarrow> stays_sealed w (w\<lparr>agent_runs := agent_runs w @ [r]\<rparr>)" for w r
    by (rule stays_sealed_frame) (auto simp: open_work_defs intro: run_history_subset)
  show "db_ok w \<Longrightarrow> (\<And>a. pa a \<Longrightarrow> approval_step a (fa a) \<and> closed_approval (fa a)) \<Longrightarrow>
      stays_sealed w (w\<lparr>approvals := update_where pa fa (approvals w)\<rparr>)" for w pa fa
    by (rule stays_sealed_frame) (auto simp: open_work_defs run_history_subset dest: list_ex_update_where [rotated])
  show "db_ok w \<Longrightarrow> (\<And>c. pc c \<Longrightarrow> tc_run_id (fc c) = tc_run_id c \<and> closed_tool_call (fc c)) \<Longrightarrow>
      stays_sealed w (w\<lparr>tool_calls := update_where pc fc (tool_calls w)\<rparr>)" for w pc fc
    by (rule stays_sealed_frame) (auto simp: open_work_defs run_history_subset dest: list_ex_update_where [rotated])
  show "db_ok w \<Longrightarrow> (\<And>j. pj j \<Longrightarrow> job_run_id (fj j) = job_run_id j \<and> closed_job (fj j)) \<Longrightarrow>
      stays_sealed w (w\<lparr>jobs := update_where pj fj (jobs w)\<rparr>)" for w pj fj
    by (rule stays_sealed_frame) (auto simp: open_work_defs run_history_subset dest: list_ex_update_where [rotated])
  show "db_ok w \<Longrightarrow> r \<in> set (agent_runs w) \<Longrightarrow> run_id r = job_run_id j \<Longrightarrow>
      \<not> isTerminalLifecycle (run_status r) \<Longrightarrow> stays_sealed w (w\<lparr>jobs := jobs w @ [j]\<rparr>)" for w r j
    by (rule stays_sealed_frame) (auto simp: open_work_defs run_history_subset dest: not_terminal_unique)
qed (simp add: stays_sealed_def open_work_defs terminal_run_def)

end
