(* ===== verification/RunState.thy ===== *)
theory RunState
  imports StoreInvariants RunCorrelation
begin

text \<open>
  The guarded lifecycle transition of \<^verbatim>\<open>internal/repository/run_state.go\<close>: the transition as
  data, the row it reads, the write-free duplicate rule, the guarded \<^verbatim>\<open>UPDATE\<close> and the one
  canonical event. \<^verbatim>\<open>applyRunTransitionTx\<close> is split at its two natural seams:
  \<open>apply_check\<close> is everything before the first write, \<open>apply_commit\<close> the writes up to the
  canonical event. The delegation effects that follow call back into the transition and are in
  the theories \<open>DelegationLifecycle\<close> and \<open>RunTransitions\<close>.

  A transition's \<^verbatim>\<open>extraSet\<close>/\<^verbatim>\<open>extraArgs\<close> is a function of the transition time and the old
  row, as the right-hand sides of an SQL \<^verbatim>\<open>UPDATE\<close> are.
\<close>

section \<open>Data\<close>

record RunState =
  rs_RunID :: string
  rs_UserMessageID :: string
  rs_AssistantMessageID :: string
  rs_Lifecycle :: string
  rs_OutcomeReason :: string
  rs_StateVersion :: int
  rs_StateUpdatedAt :: string
  rs_FinishedAt :: "string option"
  rs_HasDisplayableContent :: bool
  rs_ContentSHA256 :: string
  rs_QueueWaitReason :: string

record RunTransitionResult =
  tr_State :: RunState
  tr_Events :: "Event list"
  tr_Duplicate :: bool
  tr_Delegation :: "Event list"
  tr_StoppedTasks :: "string list"
  tr_ContinuationRunID :: string

record runTransitionIdentity =
  ti_workerID :: string
  ti_assignmentAttemptID :: string
  ti_approvalID :: string

definition no_identity :: runTransitionIdentity where
  "no_identity = \<lparr>ti_workerID = '''', ti_assignmentAttemptID = '''', ti_approvalID = ''''\<rparr>"

record runTerminalContent =
  tc_assistantMessageID :: string
  tc_content :: string
  tc_write :: bool
  tc_sha256 :: string
  tc_hasDisplayable :: bool

record runTransition =
  rt_runID :: string
  rt_expectedVersion :: int
  rt_transactionLocal :: bool
  rt_allowedFrom :: "string list"
  rt_to :: string
  rt_reason :: Reason
  rt_identity :: runTransitionIdentity
  rt_terminal :: "runTerminalContent option"
  rt_clearsOwnership :: bool
  rt_requiresAuthorizedApproval :: bool
  rt_durableApprovalIdentity :: bool
  rt_rejection :: "err option"
  rt_extraSet :: "string \<Rightarrow> agent_run \<Rightarrow> agent_run"
  rt_queueWaitReason :: string
  rt_eventType :: string
  rt_eventPayload :: "(string \<times> json) list"

definition unresolvedStateVersion :: int where "unresolvedStateVersion = 0"

text \<open>The Go zero value of the struct; the constructors set the fields a literal names.\<close>

definition zero_transition :: runTransition where
  "zero_transition = \<lparr>rt_runID = '''', rt_expectedVersion = 0, rt_transactionLocal = False,
     rt_allowedFrom = [], rt_to = '''', rt_reason = '''', rt_identity = no_identity, rt_terminal = None,
     rt_clearsOwnership = False, rt_requiresAuthorizedApproval = False,
     rt_durableApprovalIdentity = False, rt_rejection = None, rt_extraSet = (\<lambda>_ r. r),
     rt_queueWaitReason = '''', rt_eventType = '''', rt_eventPayload = []\<rparr>"

record runRow =
  rr_runID :: string
  rr_sessionID :: string
  rr_traceID :: string
  rr_userMessageID :: string
  rr_assistantMessageID :: string
  rr_lifecycle :: string
  rr_outcomeReason :: string
  rr_stateVersion :: int
  rr_stateUpdatedAt :: string
  rr_finishedAt :: "string option"
  rr_contentSHA256 :: string
  rr_queueWaitReason :: string
  rr_workerID :: string
  rr_attemptID :: string
  rr_messageID :: string
  rr_messageSessionID :: string
  rr_messageRunID :: string
  rr_messageRole :: string
  rr_messageContent :: string

section \<open>Reading a run\<close>

definition assistant_message :: "string \<Rightarrow> message list \<Rightarrow> message option" where
  "assistant_message rid ms = find_row (\<lambda>m. msg_run_id m = Some rid \<and> msg_role m = ''assistant'') ms"

definition run_row_of :: "agent_run \<Rightarrow> message option \<Rightarrow> runRow" where
  "run_row_of r m = \<lparr>rr_runID = run_id r, rr_sessionID = run_session_id r, rr_traceID = run_trace_id r,
     rr_userMessageID = run_user_message_id r,
     rr_assistantMessageID = text_or_empty (run_assistant_message_id r),
     rr_lifecycle = run_status r, rr_outcomeReason = run_outcome_reason r,
     rr_stateVersion = run_state_version r, rr_stateUpdatedAt = run_state_updated_at r,
     rr_finishedAt = run_finished_at r, rr_contentSHA256 = run_assistant_content_sha256 r,
     rr_queueWaitReason = run_queue_wait_reason r, rr_workerID = text_or_empty (run_worker_id r),
     rr_attemptID = text_or_empty (run_execution_attempt_id r),
     rr_messageID = (case m of None \<Rightarrow> '''' | Some x \<Rightarrow> msg_id x),
     rr_messageSessionID = (case m of None \<Rightarrow> '''' | Some x \<Rightarrow> msg_session_id x),
     rr_messageRunID = (case m of None \<Rightarrow> '''' | Some x \<Rightarrow> text_or_empty (msg_run_id x)),
     rr_messageRole = (case m of None \<Rightarrow> '''' | Some x \<Rightarrow> msg_role x),
     rr_messageContent = (case m of None \<Rightarrow> '''' | Some x \<Rightarrow> msg_content x)\<rparr>"

definition readRunRow :: "string \<Rightarrow> runRow wtx" where
  "readRunRow rid = query_row (\<lambda>w.
     map (\<lambda>r. run_row_of r (assistant_message (run_id r) (messages w)))
       (filter (\<lambda>r. run_id r = rid) (agent_runs w)))"

definition runRow_link :: "runRow \<Rightarrow> Link" where
  "runRow_link row = \<lparr>RunID = rr_runID row, RunSessionID = rr_sessionID row,
     RunAssistantMessageID = rr_assistantMessageID row, MessageID = rr_messageID row,
     MessageSessionID = rr_messageSessionID row, MessageRunID = rr_messageRunID row,
     MessageRole = rr_messageRole row\<rparr>"

definition runCorrelationLink :: "string \<Rightarrow> Link wtx" where
  "runCorrelationLink rid = tx_bind (readRunRow rid) (\<lambda>row. tx_return (runRow_link row))"

definition validateRunCorrelationLink :: "Link \<Rightarrow> unit result" where
  "validateRunCorrelationLink link = Validate link"

definition runRow_state :: "runRow \<Rightarrow> RunState" where
  "runRow_state row = \<lparr>rs_RunID = rr_runID row, rs_UserMessageID = rr_userMessageID row,
     rs_AssistantMessageID = rr_assistantMessageID row, rs_Lifecycle = rr_lifecycle row,
     rs_OutcomeReason = rr_outcomeReason row, rs_StateVersion = rr_stateVersion row,
     rs_StateUpdatedAt = rr_stateUpdatedAt row, rs_FinishedAt = rr_finishedAt row,
     rs_HasDisplayableContent = HasDisplayableContent (rr_messageContent row),
     rs_ContentSHA256 = rr_contentSHA256 row, rs_QueueWaitReason = rr_queueWaitReason row\<rparr>"

definition GetRunState :: "string \<Rightarrow> RunState wtx" where
  "GetRunState rid = tx_bind (readRunRow rid) (\<lambda>row. tx_return (runRow_state row))"

definition currentRunStateVersionTx :: "string \<Rightarrow> int wtx" where
  "currentRunStateVersionTx rid =
     query_row (\<lambda>w. map run_state_version (filter (\<lambda>r. run_id r = rid) (agent_runs w)))"

section \<open>The public projection\<close>

definition runStateSnapshot :: "RunState \<Rightarrow> json" where
  "runStateSnapshot state = JObj (
     [(''runId'', JStr (rs_RunID state)),
      (''userMessageId'', JStr (rs_UserMessageID state)),
      (''lifecycle'', JStr (rs_Lifecycle state)),
      (''outcomeReason'', JStr (rs_OutcomeReason state)),
      (''stateVersion'', JNum (rs_StateVersion state)),
      (''stateUpdatedAt'', JStr (rs_StateUpdatedAt state)),
      (''hasDisplayableContent'', JBool (rs_HasDisplayableContent state))]
     @ (if rs_AssistantMessageID state \<noteq> ''''
        then [(''assistantMessageId'', JStr (rs_AssistantMessageID state))] else [])
     @ (case rs_FinishedAt state of
          Some t \<Rightarrow> if t \<noteq> '''' then [(''finishedAt'', JStr t)] else []
        | None \<Rightarrow> [])
     @ (if rs_QueueWaitReason state \<noteq> '''' \<and> rs_QueueWaitReason state \<noteq> QueueWaitNone
        then [(''queueWaitReason'', JStr (rs_QueueWaitReason state))] else []))"

definition marshalRunStatePayload :: "(string \<times> json) list \<Rightarrow> RunState \<Rightarrow> json" where
  "marshalRunStatePayload payload state = JObj (map_set ''runState'' (runStateSnapshot state) payload)"

section \<open>The queue truth\<close>

definition nextQueueWaitReason :: "runRow \<Rightarrow> runTransition \<Rightarrow> string" where
  "nextQueueWaitReason row t =
     (if rt_queueWaitReason t \<noteq> '''' then rt_queueWaitReason t
      else if rr_lifecycle row = lifecycleQueued \<or> rt_to t = lifecycleQueued then QueueWaitNone
      else rr_queueWaitReason row)"

text \<open>The queue columns a transition sets, as a function of the old row.\<close>

definition queueClockUpdate :: "string \<Rightarrow> string \<Rightarrow> string \<Rightarrow> (agent_run \<Rightarrow> agent_run) result" where
  "queueClockUpdate from to at =
     (if from = to \<or> (from \<noteq> lifecycleQueued \<and> to \<noteq> lifecycleQueued) then Inr (\<lambda>r. r)
      else case ParseCanonical at of
             Inl e \<Rightarrow> Inl e
           | Inr instant \<Rightarrow>
               (let atNanos = UnixNano instant in
                if to = lifecycleQueued
                then Inr (\<lambda>r. r\<lparr>run_queued_since_ns := Some atNanos, run_queue_unroutable_since_ns := None\<rparr>)
                else Inr (\<lambda>r. r\<lparr>
                  run_queue_waited_ns := run_queue_waited_ns r
                    + max 0 (atNanos - (case run_queued_since_ns r of None \<Rightarrow> atNanos | Some s \<Rightarrow> s)),
                  run_queued_since_ns := None, run_queue_unroutable_since_ns := None\<rparr>)))"

section \<open>Identity and duplicates\<close>

definition transitionEventType :: "runTransition \<Rightarrow> string" where
  "transitionEventType t = (if rt_eventType t \<noteq> '''' then rt_eventType t else runStateChangedEventType)"

definition matchesTransitionIdentity :: "runRow \<Rightarrow> runTransitionIdentity \<Rightarrow> bool" where
  "matchesTransitionIdentity row idt \<longleftrightarrow>
     \<not> (ti_workerID idt \<noteq> '''' \<and> ti_workerID idt \<noteq> rr_workerID row)
     \<and> \<not> (ti_assignmentAttemptID idt \<noteq> '''' \<and> ti_assignmentAttemptID idt \<noteq> rr_attemptID row)"

definition isRunTransitionDuplicate :: "runRow \<Rightarrow> runTransition \<Rightarrow> int \<Rightarrow> bool" where
  "isRunTransitionDuplicate row t expected \<longleftrightarrow>
     \<not> (expected < 1 \<or> expected = MaxInt64)
     \<and> rr_stateVersion row = expected + 1
     \<and> rr_lifecycle row = rt_to t \<and> rr_outcomeReason row = rt_reason t
     \<and> (if rt_clearsOwnership t then rr_workerID row = '''' \<and> rr_attemptID row = ''''
        else matchesTransitionIdentity row (rt_identity t))
     \<and> (case rt_terminal t of
          None \<Rightarrow> True
        | Some content \<Rightarrow> tc_sha256 content = rr_contentSHA256 row
            \<and> tc_hasDisplayable content = HasDisplayableContent (rr_messageContent row))"

definition version_event :: "runTransition \<Rightarrow> int \<Rightarrow> Event \<Rightarrow> bool" where
  "version_event t version e \<longleftrightarrow>
     ev_run_id e = Some (rt_runID t) \<and> ev_type e = transitionEventType t
     \<and> json_extract [''runState'', ''stateVersion''] (ev_payload e) = Some (JNum version)"

definition approvalCommittedThisTriggerTx :: "runTransition \<Rightarrow> int \<Rightarrow> bool wtx" where
  "approvalCommittedThisTriggerTx t version =
     (if ti_approvalID (rt_identity t) = '''' then tx_return False
      else tx_gets (\<lambda>w. length (filter (\<lambda>e. version_event t version e
             \<and> json_extract [''approvalId''] (ev_payload e) = Some (JStr (ti_approvalID (rt_identity t))))
           (events w)) = 1))"

definition ownershipClearCommittedThisTriggerTx :: "runTransition \<Rightarrow> int \<Rightarrow> bool wtx" where
  "ownershipClearCommittedThisTriggerTx t version =
     (let idt = rt_identity t in
      if ti_workerID idt = '''' \<and> ti_assignmentAttemptID idt = '''' then tx_return True
      else tx_gets (\<lambda>w. length (filter (\<lambda>e. version_event t version e
             \<and> (ti_workerID idt = ''''
                \<or> json_extract [''workerId''] (ev_payload e) = Some (JStr (ti_workerID idt)))
             \<and> (ti_assignmentAttemptID idt = ''''
                \<or> json_extract [''assignmentAttemptId''] (ev_payload e) = Some (JStr (ti_assignmentAttemptID idt))))
           (events w)) = 1))"

definition transitionCommittedThisTriggerTx :: "runTransition \<Rightarrow> int \<Rightarrow> bool wtx" where
  "transitionCommittedThisTriggerTx t version =
     (if rt_durableApprovalIdentity t then approvalCommittedThisTriggerTx t version
      else if rt_clearsOwnership t then ownershipClearCommittedThisTriggerTx t version
      else tx_return True)"

definition ownershipTriggerIdentityPayload :: "runTransitionIdentity \<Rightarrow> (string \<times> json) list" where
  "ownershipTriggerIdentityPayload idt =
     (if ti_workerID idt \<noteq> '''' then [(''workerId'', JStr (ti_workerID idt))] else [])
     @ (if ti_assignmentAttemptID idt \<noteq> ''''
        then [(''assignmentAttemptId'', JStr (ti_assignmentAttemptID idt))] else [])"

definition runApprovalStatusTx :: "string \<Rightarrow> string \<Rightarrow> string wtx" where
  "runApprovalStatusTx rid approvalID =
     tx_bind (query_opt (\<lambda>w. filter (\<lambda>a. ap_id a = approvalID \<and> ap_run_id a = rid) (approvals w)))
       (\<lambda>found. tx_return (case found of None \<Rightarrow> '''' | Some a \<Rightarrow> ap_status a))"

definition approvalAuthorizesResume :: "string \<Rightarrow> bool" where
  "approvalAuthorizesResume status \<longleftrightarrow> status = ''approved'' \<or> status = ''consumed''"

section \<open>The transition up to its canonical event\<close>

text \<open>
  The approval a command names: it has to be one of this run's, and, where the transition demands
  an authorization, still stand as one.
\<close>

definition check_approval :: "runTransition \<Rightarrow> unit wtx" where
  "check_approval t =
     (if ti_approvalID (rt_identity t) \<noteq> '''' then
        tx_bind (runApprovalStatusTx (rt_runID t) (ti_approvalID (rt_identity t))) (\<lambda>approvalStatus.
          if approvalStatus = '''' then tx_fail ErrRunTransitionConflict
          else if rt_requiresAuthorizedApproval t \<and> \<not> approvalAuthorizesResume approvalStatus
          then tx_fail ErrRunTransitionConflict
          else tx_return ())
      else tx_return ())"

definition expected_version :: "runTransition \<Rightarrow> runRow \<Rightarrow> int" where
  "expected_version t row =
     (if rt_transactionLocal t
      then (if rr_lifecycle row \<notin> set (rt_allowedFrom t) then rr_stateVersion row - 1 else rr_stateVersion row)
      else rt_expectedVersion t)"

definition check_terminal_message :: "runTransition \<Rightarrow> runRow \<Rightarrow> unit wtx" where
  "check_terminal_message t row =
     (case rt_terminal t of
        None \<Rightarrow> tx_return ()
      | Some content \<Rightarrow>
          if tc_assistantMessageID content \<noteq> '''' \<and> tc_assistantMessageID content \<noteq> rr_assistantMessageID row
          then tx_fail ErrRunTransitionConflict else tx_return ())"

text \<open>
  The verdict on a row: a write-free repeat (\<open>True\<close>), a transition to commit (\<open>False\<close>), or a
  refusal.
\<close>

definition decide_transition :: "runTransition \<Rightarrow> runRow \<Rightarrow> bool wtx" where
  "decide_transition t row =
     (let expected = expected_version t row in
      if isRunTransitionDuplicate row t expected then
        tx_bind (transitionCommittedThisTriggerTx t (rr_stateVersion row)) (\<lambda>committed.
          if \<not> committed then tx_fail ErrRunTransitionConflict else tx_return True)
      else if rr_lifecycle row \<notin> set (rt_allowedFrom t) then
        tx_fail (case rt_rejection t of Some e \<Rightarrow> e | None \<Rightarrow> ErrRunTransitionConflict)
      else if expected < 1 then tx_fail ErrRunStateVersionInvalid
      else if rr_stateVersion row \<noteq> expected then tx_fail ErrRunTransitionConflict
      else if \<not> matchesTransitionIdentity row (rt_identity t) then tx_fail ErrRunTransitionConflict
      else if rr_stateVersion row = MaxInt64 then tx_fail ErrRunStateVersionExhausted
      else tx_return False)"

text \<open>Everything before the first write: the row, and whether the command is a write-free repeat.\<close>

definition apply_check :: "runTransition \<Rightarrow> (runRow \<times> bool) wtx" where
  "apply_check t =
     tx_then (tx_guard (outcome_allowed (rt_to t) (rt_reason t)) ErrRunTransitionUnsupported) (
     tx_then (tx_guard (\<not> (\<not> rt_transactionLocal t \<and> rt_expectedVersion t < 1)) ErrRunStateVersionInvalid) (
     tx_bind (readRunRow (rt_runID t)) (\<lambda>row.
     tx_then (tx_lift (validateRunCorrelationLink (runRow_link row))) (
     tx_then (check_approval t) (
     tx_then (check_terminal_message t row) (
     tx_bind (decide_transition t row) (\<lambda>dup.
     tx_return (row, dup))))))))"

definition write_content :: "runTransition \<Rightarrow> unit wtx" where
  "write_content t =
     (case rt_terminal t of
        None \<Rightarrow> tx_return ()
      | Some content \<Rightarrow>
          if tc_write content \<and> tc_assistantMessageID content \<noteq> '''' then
            (let p = (\<lambda>m. msg_id m = tc_assistantMessageID content \<and> msg_run_id m = Some (rt_runID t)
                          \<and> msg_role m = ''assistant'') in
             tx_bind (tx_gets (\<lambda>w. rows_affected p (messages w))) (\<lambda>n.
             tx_then (tx_modify (\<lambda>w. w\<lparr>messages :=
                 update_where p (\<lambda>m. m\<lparr>msg_content := tc_content content\<rparr>) (messages w)\<rparr>))
               (expectOneRow n ''assistant message not found'')))
          else tx_return ())"

text \<open>The column assignments of the one guarded \<^verbatim>\<open>UPDATE agent_runs\<close>.\<close>

definition transition_update ::
  "runTransition \<Rightarrow> runRow \<Rightarrow> string \<Rightarrow> (agent_run \<Rightarrow> agent_run) \<Rightarrow> agent_run \<Rightarrow> agent_run" where
  "transition_update t row at queueSet r =
     (let r1 = queueSet (rt_extraSet t at r);
          r2 = r1\<lparr>run_status := rt_to t, run_outcome_reason := rt_reason t,
                  run_state_version := rr_stateVersion row + 1, run_state_updated_at := at\<rparr>;
          r3 = (if isTerminalLifecycle (rt_to t) then r2\<lparr>run_finished_at := Some at\<rparr> else r2);
          r4 = (case rt_terminal t of
                  None \<Rightarrow> r3 | Some content \<Rightarrow> r3\<lparr>run_assistant_content_sha256 := tc_sha256 content\<rparr>);
          queueWaitReason = nextQueueWaitReason row t
      in if queueWaitReason \<noteq> rr_queueWaitReason row
         then r4\<lparr>run_queue_wait_reason := queueWaitReason\<rparr> else r4)"

definition guarded_row :: "runTransition \<Rightarrow> runRow \<Rightarrow> agent_run \<Rightarrow> bool" where
  "guarded_row t row r \<longleftrightarrow> run_id r = rt_runID t \<and> run_status r = rr_lifecycle row
     \<and> run_state_version r = rr_stateVersion row"

definition committed_state :: "runTransition \<Rightarrow> runRow \<Rightarrow> string \<Rightarrow> RunState" where
  "committed_state t row at =
     (let s1 = (runRow_state row)\<lparr>rs_Lifecycle := rt_to t, rs_OutcomeReason := rt_reason t,
                 rs_StateVersion := rr_stateVersion row + 1, rs_StateUpdatedAt := at\<rparr>;
          s2 = (if isTerminalLifecycle (rt_to t) then s1\<lparr>rs_FinishedAt := Some at\<rparr> else s1);
          s3 = s2\<lparr>rs_QueueWaitReason := nextQueueWaitReason row t\<rparr>
      in (case rt_terminal t of
            None \<Rightarrow> s3
          | Some content \<Rightarrow> s3\<lparr>rs_ContentSHA256 := tc_sha256 content,
                              rs_HasDisplayableContent := tc_hasDisplayable content\<rparr>))"

type_synonym subsidiary = "RunState \<Rightarrow> string \<Rightarrow> Event list wtx"

text \<open>The one guarded \<^verbatim>\<open>UPDATE\<close>, which has to hit exactly one row.\<close>

definition guarded_update ::
  "runTransition \<Rightarrow> runRow \<Rightarrow> string \<Rightarrow> (agent_run \<Rightarrow> agent_run) \<Rightarrow> unit wtx" where
  "guarded_update t row at queueSet =
     tx_bind (tx_gets (\<lambda>w. rows_affected (guarded_row t row) (agent_runs w))) (\<lambda>n.
     tx_then (tx_modify (\<lambda>w. w\<lparr>agent_runs :=
         update_where (guarded_row t row) (transition_update t row at queueSet) (agent_runs w)\<rparr>))
       (expectOneRowErr n ErrRunTransitionConflict))"

text \<open>The monotonic time, the content and the row; the result is the transition time.\<close>

definition commit_row :: "runTransition \<Rightarrow> runRow \<Rightarrow> string wtx" where
  "commit_row t row =
     tx_bind time_Now (\<lambda>now.
     tx_bind (tx_lift (NextStateTime now (rr_stateUpdatedAt row))) (\<lambda>at.
     tx_then (write_content t) (
     tx_bind (tx_lift (queueClockUpdate (rr_lifecycle row) (rt_to t) at)) (\<lambda>queueSet.
     tx_then (guarded_update t row at queueSet) (
     tx_return at)))))"

text \<open>The writes up to the canonical event: the committed state, its time, and the events.\<close>

definition apply_commit ::
  "runTransition \<Rightarrow> subsidiary \<Rightarrow> runRow \<Rightarrow> (RunState \<times> string \<times> Event list) wtx" where
  "apply_commit t subsidiary row =
     tx_bind (commit_row t row) (\<lambda>at.
     let committed = committed_state t row at in
     tx_bind (subsidiary committed at) (\<lambda>events0.
     tx_bind (appendRunEventTx (rr_sessionID row) (rt_runID t) (rr_traceID row) (transitionEventType t)
                (Some (marshalRunStatePayload (rt_eventPayload t) committed)) at) (\<lambda>event.
     tx_return (committed, at, events0 @ [event]))))"

section \<open>Transition constructors\<close>

definition fenceOwnershipTransition ::
  "string \<Rightarrow> int \<Rightarrow> runTransitionIdentity \<Rightarrow> string \<Rightarrow> runTransition" where
  "fenceOwnershipTransition rid expectedVersion idt executionState = zero_transition\<lparr>
     rt_runID := rid, rt_expectedVersion := expectedVersion,
     rt_allowedFrom := [lifecycleRunning, lifecycleWaitingApproval], rt_to := lifecycleRecovering,
     rt_reason := ReasonNone, rt_identity := idt,
     rt_extraSet := (\<lambda>_ r. r\<lparr>run_execution_state := executionState\<rparr>)\<rparr>"

definition fenceOwnershipTransitionInTx ::
  "string \<Rightarrow> runTransitionIdentity \<Rightarrow> string \<Rightarrow> runTransition" where
  "fenceOwnershipTransitionInTx rid idt executionState =
     (fenceOwnershipTransition rid unresolvedStateVersion idt executionState)\<lparr>rt_transactionLocal := True\<rparr>"

definition resumeRecoveringTransition ::
  "string \<Rightarrow> int \<Rightarrow> string \<Rightarrow> string \<Rightarrow> runTransition" where
  "resumeRecoveringTransition rid expectedVersion workerID attemptID = zero_transition\<lparr>
     rt_runID := rid, rt_expectedVersion := expectedVersion, rt_allowedFrom := [lifecycleRecovering],
     rt_to := lifecycleRunning, rt_reason := ReasonNone,
     rt_identity := no_identity\<lparr>ti_workerID := workerID, ti_assignmentAttemptID := attemptID\<rparr>,
     rt_extraSet := (\<lambda>_ r. r\<lparr>run_execution_state := ''delivered''\<rparr>)\<rparr>"

definition requeueTransition ::
  "string \<Rightarrow> int \<Rightarrow> string list \<Rightarrow> runTransitionIdentity \<Rightarrow> runTransition" where
  "requeueTransition rid expectedVersion allowedFrom idt = zero_transition\<lparr>
     rt_runID := rid, rt_expectedVersion := expectedVersion, rt_allowedFrom := allowedFrom,
     rt_to := lifecycleQueued, rt_reason := ReasonNone, rt_identity := idt, rt_clearsOwnership := True,
     rt_extraSet := (\<lambda>_ r. r\<lparr>run_started_at := None, run_worker_id := None, run_execution_active := False,
        run_execution_exit_acknowledged_at := None, run_execution_attempt_id := None,
        run_execution_state := ''none'', run_execution_lease_expires_at := None,
        run_execution_lease_expires_at_ns := None\<rparr>),
     rt_eventPayload := ownershipTriggerIdentityPayload idt\<rparr>"

definition requeueRecoveringTransition ::
  "string \<Rightarrow> int \<Rightarrow> runTransitionIdentity \<Rightarrow> runTransition" where
  "requeueRecoveringTransition rid expectedVersion idt =
     requeueTransition rid expectedVersion [lifecycleRecovering] idt"

definition requeueRecoveringTransitionInTx :: "string \<Rightarrow> runTransitionIdentity \<Rightarrow> runTransition" where
  "requeueRecoveringTransitionInTx rid idt =
     (requeueRecoveringTransition rid unresolvedStateVersion idt)\<lparr>rt_transactionLocal := True\<rparr>"

definition releaseRunningTransition ::
  "string \<Rightarrow> int \<Rightarrow> runTransitionIdentity \<Rightarrow> runTransition" where
  "releaseRunningTransition rid expectedVersion idt =
     requeueTransition rid expectedVersion [lifecycleRunning] idt"

definition releaseRunningTransitionInTx :: "string \<Rightarrow> runTransitionIdentity \<Rightarrow> runTransition" where
  "releaseRunningTransitionInTx rid idt =
     (requeueTransition rid unresolvedStateVersion [lifecycleRunning, lifecycleRecovering] idt)
       \<lparr>rt_transactionLocal := True\<rparr>"

section \<open>What the checks establish\<close>

text \<open>
  The transitions this package builds: they follow the lifecycle graph, carry content only
  to a terminal one, and their own columns are disjoint from the state the core writes.
\<close>

definition transition_ok :: "runTransition \<Rightarrow> bool" where
  "transition_ok t \<longleftrightarrow>
     (\<forall>lc \<in> set (rt_allowedFrom t). \<not> isTerminalLifecycle lc \<and> lifecycle_edge lc (rt_to t))
     \<and> (rt_terminal t \<noteq> None \<longrightarrow> isTerminalLifecycle (rt_to t))
     \<and> (\<forall>at r. same_state r (rt_extraSet t at r))"

lemma readRunRow_Inr:
  assumes "readRunRow rid w = Inr (row, w')"
  shows "w' = w \<and> (\<exists>r. r \<in> set (agent_runs w) \<and> run_id r = rid
    \<and> row = run_row_of r (assistant_message rid (messages w)))"
proof (cases "filter (\<lambda>r. run_id r = rid) (agent_runs w)")
  case Nil
  with assms show ?thesis by (simp add: readRunRow_def query_row_def)
next
  case (Cons r rs)
  have "r \<in> set (filter (\<lambda>r. run_id r = rid) (agent_runs w))" unfolding Cons by simp
  then have r: "r \<in> set (agent_runs w)" "run_id r = rid" by simp_all
  have "w' = w" "row = run_row_of r (assistant_message rid (messages w))"
    using assms r by (auto simp: readRunRow_def query_row_def Cons)
  with r show ?thesis by blast
qed

lemma run_row_of_simps [simp]:
  "rr_runID (run_row_of r m) = run_id r" "rr_sessionID (run_row_of r m) = run_session_id r"
  "rr_lifecycle (run_row_of r m) = run_status r" "rr_stateVersion (run_row_of r m) = run_state_version r"
  "rr_stateUpdatedAt (run_row_of r m) = run_state_updated_at r"
  "rr_queueWaitReason (run_row_of r m) = run_queue_wait_reason r"
  "rr_outcomeReason (run_row_of r m) = run_outcome_reason r"
  "rr_contentSHA256 (run_row_of r m) = run_assistant_content_sha256 r"
  "rr_finishedAt (run_row_of r m) = run_finished_at r" "rr_traceID (run_row_of r m) = run_trace_id r"
  "rr_assistantMessageID (run_row_of r m) = text_or_empty (run_assistant_message_id r)"
  "rr_userMessageID (run_row_of r m) = run_user_message_id r"
  "rr_workerID (run_row_of r m) = text_or_empty (run_worker_id r)"
  "rr_attemptID (run_row_of r m) = text_or_empty (run_execution_attempt_id r)"
  by (simp_all add: run_row_of_def)

lemma check_approval_same: "check_approval t w = Inr (u, w') \<Longrightarrow> w' = w"
  by (simp add: check_approval_def runApprovalStatusTx_def query_opt_def tx_bind_Inr_iff split: if_splits)

lemma check_terminal_message_same: "check_terminal_message t row w = Inr (u, w') \<Longrightarrow> w' = w"
  by (simp add: check_terminal_message_def split: option.splits if_splits)

lemma transitionCommitted_same: "transitionCommittedThisTriggerTx t v w = Inr (b, w') \<Longrightarrow> w' = w"
  by (simp add: transitionCommittedThisTriggerTx_def approvalCommittedThisTriggerTx_def
      ownershipClearCommittedThisTriggerTx_def Let_def split: if_splits)

lemma decide_transition_Inr:
  assumes "decide_transition t row w = Inr (dup, w')"
  shows "w' = w
    \<and> (dup \<longrightarrow> isRunTransitionDuplicate row t (expected_version t row)
         \<and> transitionCommittedThisTriggerTx t (rr_stateVersion row) w = Inr (True, w))
    \<and> (\<not> dup \<longrightarrow> rr_lifecycle row \<in> set (rt_allowedFrom t) \<and> 1 \<le> rr_stateVersion row
         \<and> rr_stateVersion row \<noteq> MaxInt64 \<and> rr_stateVersion row = expected_version t row
         \<and> matchesTransitionIdentity row (rt_identity t))"
proof (cases "isRunTransitionDuplicate row t (expected_version t row)")
  case True
  with assms obtain b w1 where b: "transitionCommittedThisTriggerTx t (rr_stateVersion row) w = Inr (b, w1)"
    and "(if \<not> b then tx_fail ErrRunTransitionConflict else tx_return True) w1 = Inr (dup, w')"
    by (simp add: decide_transition_def) (erule tx_bindE, blast)
  then have "b" "dup" "w' = w1" by (simp_all split: if_splits)
  then show ?thesis using True b transitionCommitted_same [OF b] by simp
next
  case False
  with assms show ?thesis by (simp add: decide_transition_def Let_def split: if_splits)
qed

lemma apply_check_Inr:
  assumes "apply_check t w = Inr ((row, dup), w')"
  shows "w' = w" "outcome_allowed (rt_to t) (rt_reason t)" "Validate (runRow_link row) = Inr ()"
    "readRunRow (rt_runID t) w = Inr (row, w)" "decide_transition t row w = Inr (dup, w)"
proof -
  from assms have "outcome_allowed (rt_to t) (rt_reason t)
     \<and> (\<exists>row0 w0 u1 w1 u2 w2 u3 w3 d w4. readRunRow (rt_runID t) w = Inr (row0, w0)
        \<and> tx_lift (Validate (runRow_link row0)) w0 = Inr (u1, w1) \<and> check_approval t w1 = Inr (u2, w2)
        \<and> check_terminal_message t row0 w2 = Inr (u3, w3) \<and> decide_transition t row0 w3 = Inr (d, w4)
        \<and> row0 = row \<and> d = dup \<and> w4 = w')"
    unfolding apply_check_def validateRunCorrelationLink_def
    unfolding tx_then_guard unfolding tx_bind_Inr_iff tx_then_Inr_iff by simp
  then obtain w0 u1 w1 u2 w2 u3 w3 where oa: "outcome_allowed (rt_to t) (rt_reason t)"
    and rd: "readRunRow (rt_runID t) w = Inr (row, w0)"
    and v: "tx_lift (Validate (runRow_link row)) w0 = Inr (u1, w1)"
    and a: "check_approval t w1 = Inr (u2, w2)" and m: "check_terminal_message t row w2 = Inr (u3, w3)"
    and d: "decide_transition t row w3 = Inr (dup, w')" by blast
  have w0: "w0 = w" using readRunRow_Inr [OF rd] by blast
  have val: "Validate (runRow_link row) = Inr ()" and w1: "w1 = w"
    using v w0 by (simp_all split: sum.splits)
  have w3: "w3 = w" using a m w1 check_approval_same check_terminal_message_same by blast
  have "w' = w" using decide_transition_Inr [OF d] w3 by blast
  then show "w' = w" "outcome_allowed (rt_to t) (rt_reason t)" "Validate (runRow_link row) = Inr ()"
    "readRunRow (rt_runID t) w = Inr (row, w)" "decide_transition t row w = Inr (dup, w)"
    using oa val rd w0 d w3 by simp_all
qed

section \<open>What the guarded update does to a row\<close>

lemma queueClockUpdate_cases:
  assumes "queueClockUpdate a b at = Inr f"
  shows "same_identity r (f r) \<and> run_queue_waited_ns r \<le> run_queue_waited_ns (f r)
    \<and> run_finished_at (f r) = run_finished_at r
    \<and> run_assistant_content_sha256 (f r) = run_assistant_content_sha256 r
    \<and> run_queue_wait_reason (f r) = run_queue_wait_reason r
    \<and> (if b = a \<or> (a \<noteq> lifecycleQueued \<and> b \<noteq> lifecycleQueued)
       then run_queue_waited_ns (f r) = run_queue_waited_ns r \<and> run_queued_since_ns (f r) = run_queued_since_ns r
       else if b = lifecycleQueued
       then run_queue_waited_ns (f r) = run_queue_waited_ns r \<and> run_queued_since_ns (f r) \<noteq> None
       else run_queued_since_ns (f r) = None)"
  using assms
  by (auto simp: queueClockUpdate_def same_identity_def Let_def split: if_splits sum.splits)

lemma transition_update_run_step:
  assumes ok: "transition_ok t" and row: "row = run_row_of r m"
    and from_ok: "run_status r \<in> set (rt_allowedFrom t)" and oa: "outcome_allowed (rt_to t) (rt_reason t)"
    and v: "1 \<le> run_state_version r" "run_state_version r \<noteq> MaxInt64"
    and at: "NextStateTime now (run_state_updated_at r) = Inr at"
    and q: "queueClockUpdate (run_status r) (rt_to t) at = Inr queueSet"
  shows "run_step r (transition_update t row at queueSet r)"
proof -
  define x where "x = rt_extraSet t at r"
  have x: "same_state r x" using ok by (simp add: transition_ok_def x_def)
  note y = queueClockUpdate_cases [OF q, of x]
  define r' where "r' = transition_update t row at queueSet r"
  have f: "same_identity (queueSet x) r'" "run_status r' = rt_to t" "run_outcome_reason r' = rt_reason t"
      "run_state_version r' = run_state_version r + 1" "run_state_updated_at r' = at"
      "run_finished_at r' = (if isTerminalLifecycle (rt_to t) then Some at else run_finished_at (queueSet x))"
      "rt_terminal t = None \<Longrightarrow> run_assistant_content_sha256 r' = run_assistant_content_sha256 (queueSet x)"
      "run_queue_waited_ns r' = run_queue_waited_ns (queueSet x)"
      "run_queued_since_ns r' = run_queued_since_ns (queueSet x)"
    unfolding r'_def transition_update_def x_def [symmetric]
    by (auto simp: Let_def row same_identity_def split: option.splits)
  have "same_identity r r'"
    using x y f(1) by (auto simp: same_state_def intro: same_identity_trans)
  moreover have "\<not> isTerminalLifecycle (run_status r)" "\<not> isTerminalLifecycle (rt_to t) \<Longrightarrow> rt_terminal t = None"
      "lifecycle_edge (run_status r) (rt_to t)"
    using ok from_ok by (auto simp: transition_ok_def)
  ultimately show ?thesis
    unfolding r'_def [symmetric] run_step_def using f v oa at x y
    by (auto simp: same_state_def)
qed

section \<open>Within any store relation\<close>

lemma write_content_runs: "write_content t w = Inr (u, w') \<Longrightarrow> agent_runs w' = agent_runs w \<and> events w' = events w"
  by (auto simp: write_content_def Let_def tx_simps expectOneRow_def expectOneRowErr_def
      split: option.splits if_splits)

lemma commit_row_Inr:
  assumes "commit_row t row w = Inr (at, w')"
  shows "\<exists>now w2 queueSet. now = clock w (ticks w)
    \<and> NextStateTime now (rr_stateUpdatedAt row) = Inr at
    \<and> write_content t (w\<lparr>ticks := Suc (ticks w)\<rparr>) = Inr ((), w2)
    \<and> queueClockUpdate (rr_lifecycle row) (rt_to t) at = Inr queueSet
    \<and> rows_affected (guarded_row t row) (agent_runs w2) = 1
    \<and> w' = w2\<lparr>agent_runs :=
         update_where (guarded_row t row) (transition_update t row at queueSet) (agent_runs w2)\<rparr>"
proof -
  from assms obtain at' w2 queueSet where at': "NextStateTime (clock w (ticks w)) (rr_stateUpdatedAt row) = Inr at'"
    and wc: "write_content t (w\<lparr>ticks := Suc (ticks w)\<rparr>) = Inr ((), w2)"
    and q: "queueClockUpdate (rr_lifecycle row) (rt_to t) at' = Inr queueSet"
    and g: "guarded_update t row at' queueSet w2 = Inr ((), w')" and "at' = at"
    unfolding commit_row_def time_Now_def
    by (elim tx_bindE tx_thenE) (simp split: sum.splits)
  moreover from g have "rows_affected (guarded_row t row) (agent_runs w2) = 1"
      "w' = w2\<lparr>agent_runs :=
         update_where (guarded_row t row) (transition_update t row at' queueSet) (agent_runs w2)\<rparr>"
    by (auto simp: guarded_update_def tx_simps expectOneRowErr_def split: if_splits)
  ultimately show ?thesis by blast
qed

context transition_relation
begin

lemma within_readRunRow: "tx_within R (readRunRow rid)"
  unfolding readRunRow_def by (rule within_query_row)

lemma within_write_content: "tx_within R (write_content t)"
  unfolding write_content_def Let_def
  by (intro within_case_option within_if within_bind within_then within_return within_gets within_expectOneRow
      within_modify frame_keys) (auto simp: same_keys_def map_update_where)

lemma commit_row_step:
  assumes chk: "apply_check t w = Inr ((row, False), w0)" and ok: "transition_ok t"
    and com: "commit_row t row w0 = Inr (at, w')"
  shows "R w w'"
proof (cases "db_ok w")
  case False
  then show ?thesis by (rule outside)
next
  case db: True
  note c = apply_check_Inr [OF chk]
  note d = decide_transition_Inr [OF c(5)]
  obtain r where r: "r \<in> set (agent_runs w)" "run_id r = rt_runID t"
    and row: "row = run_row_of r (assistant_message (rt_runID t) (messages w))"
    using readRunRow_Inr [OF c(4)] by blast
  let ?w1 = "w\<lparr>ticks := Suc (ticks w)\<rparr>"
  obtain now w2 queueSet where at: "NextStateTime now (rr_stateUpdatedAt row) = Inr at"
    and wc: "write_content t ?w1 = Inr ((), w2)"
    and q: "queueClockUpdate (rr_lifecycle row) (rt_to t) at = Inr queueSet"
    and w': "w' = w2\<lparr>agent_runs :=
         update_where (guarded_row t row) (transition_update t row at queueSet) (agent_runs w2)\<rparr>"
    using commit_row_Inr [OF com] unfolding c(1) by blast
  have runs: "agent_runs w2 = agent_runs w" using write_content_runs [OF wc] by simp
  have "R w ?w1" by (rule frame_keys) (simp_all add: same_keys_def)
  moreover have "R ?w1 w2" using within_write_content wc by (rule tx_withinD)
  moreover have "R w2 w'"
  proof (cases "db_ok w2")
    case True
    show ?thesis unfolding w'
    proof (rule step [OF True])
      fix x assume x: "x \<in> set (agent_runs w2)" "guarded_row t row x"
      then have "x = r" using r runs db by (auto simp: guarded_row_def db_ok_def distinct_map inj_on_def)
      then show "run_step x (transition_update t row at queueSet x)"
        using transition_update_run_step [OF ok row _ c(2), of now at queueSet] d at q row
        by simp
    qed
  next
    case False
    then show ?thesis by (rule outside)
  qed
  ultimately show ?thesis using step_trans by blast
qed

lemma apply_commit_step:
  assumes chk: "apply_check t w = Inr ((row, False), w0)" and ok: "transition_ok t"
    and sub: "\<And>st at. tx_within R (subsidiary st at)"
    and com: "apply_commit t subsidiary row w0 = Inr (res, w')"
  shows "R w w'"
proof -
  from com obtain at w1 where c: "commit_row t row w0 = Inr (at, w1)"
    and rest: "(let committed = committed_state t row at in
     tx_bind (subsidiary committed at) (\<lambda>events0.
     tx_bind (appendRunEventTx (rr_sessionID row) (rt_runID t) (rr_traceID row) (transitionEventType t)
                (Some (marshalRunStatePayload (rt_eventPayload t) committed)) at) (\<lambda>event.
     tx_return (committed, at, events0 @ [event])))) w1 = Inr (res, w')"
    unfolding apply_commit_def by (elim tx_bindE)
  have "R w w1" by (rule commit_row_step [OF chk ok c])
  moreover have "R w1 w'"
    using rest by (rule tx_withinD [rotated])
      (unfold Let_def, intro within_bind sub within_events within_return)
  ultimately show ?thesis by (rule step_trans)
qed

end

end
