(* ===== verification/ApprovalEvents.thy ===== *)
theory ApprovalEvents
  imports RunState
begin

text \<open>
  Approval projections and the cleanup every terminal transition performs: the record and payload
  builders of \<^verbatim>\<open>approvals.go\<close>, the tool-call payload of \<^verbatim>\<open>toolcalls.go\<close>, the step notices of
  \<^verbatim>\<open>runs.go\<close>, and \<^verbatim>\<open>failPendingApprovalLifecycleTx\<close>, which closes the approvals and tool
  calls a run leaves open. The cleanup lemmas show that afterwards none is open, and that
  it touches no other run's rows.
\<close>

section \<open>Approval records\<close>

record ApprovalRecord =
  ar_ApprovalID :: string
  ar_RunID :: string
  ar_ToolCallID :: string
  ar_AgentID :: string
  ar_ServerName :: string
  ar_MCPServerID :: string
  ar_ToolName :: string
  ar_ArgsJSON :: string
  ar_ArgsHash :: string
  ar_Status :: string
  ar_ApprovalToken :: string
  ar_ApprovalComment :: "string option"
  ar_DenialReason :: "string option"
  ar_ExpiresAt :: string
  ar_ModelToolCallID :: string

definition approval_record :: "approval \<Rightarrow> tool_call option \<Rightarrow> ApprovalRecord" where
  "approval_record a tc = \<lparr>ar_ApprovalID = ap_id a, ar_RunID = ap_run_id a,
     ar_ToolCallID = text_or_empty (ap_tool_call_id a), ar_AgentID = ap_agent_id a,
     ar_ServerName = (case tc of None \<Rightarrow> '''' | Some c \<Rightarrow> tc_server_name c),
     ar_MCPServerID = (case tc of None \<Rightarrow> '''' | Some c \<Rightarrow> text_or_empty (tc_mcp_server_id c)),
     ar_ToolName = ap_tool_name a,
     ar_ArgsJSON = (if int (length (ap_args_json a)) \<le> 131072 then ap_args_json a else ''''),
     ar_ArgsHash = ap_args_hash a, ar_Status = ap_status a,
     ar_ApprovalToken = text_or_empty (ap_token a), ar_ApprovalComment = ap_comment a,
     ar_DenialReason = ap_denial_reason a, ar_ExpiresAt = ap_expires_at a,
     ar_ModelToolCallID = (case tc of None \<Rightarrow> '''' | Some c \<Rightarrow> text_or_empty (tc_model_tool_call_id c))\<rparr>"

definition approvalByID :: "string \<Rightarrow> ApprovalRecord wtx" where
  "approvalByID approvalID = query_row (\<lambda>w.
     map (\<lambda>a. approval_record a (find_row (\<lambda>c. Some (tc_id c) = ap_tool_call_id a) (tool_calls w)))
       (filter (\<lambda>a. ap_id a = approvalID) (approvals w)))"

definition GetApproval :: "string \<Rightarrow> ApprovalRecord wtx" where
  "GetApproval approvalID = approvalByID approvalID"

definition GetApprovalByToolCall :: "string \<Rightarrow> string \<Rightarrow> ApprovalRecord wtx" where
  "GetApprovalByToolCall rid toolCallID =
     tx_bind (query_row (\<lambda>w. filter (\<lambda>a. ap_run_id a = rid \<and> ap_tool_call_id a = Some toolCallID) (approvals w)))
       (\<lambda>a. approvalByID (ap_id a))"

section \<open>Payloads\<close>

text \<open>\<^verbatim>\<open>json.Unmarshal\<close> of the arguments into a map: an object, or null for no map.\<close>

definition decode_args :: "(string \<Rightarrow> json option) \<Rightarrow> string \<Rightarrow> (string \<times> json) list option" where
  "decode_args unmarshal argsJSON =
     (case unmarshal argsJSON of Some (JObj kvs) \<Rightarrow> Some kvs | Some JNull \<Rightarrow> Some [] | _ \<Rightarrow> None)"

definition approvalArgsSummary :: "(string \<Rightarrow> json option) \<Rightarrow> string \<Rightarrow> string" where
  "approvalArgsSummary unmarshal argsJSON =
     (case decode_args unmarshal argsJSON of
        None \<Rightarrow> ''Requested tool use''
      | Some args \<Rightarrow>
          (case map_of args ''path'' of
             Some (JStr path) \<Rightarrow> if path \<noteq> '''' then ''Requested change to '' @ path else ''Requested tool use''
           | _ \<Rightarrow> ''Requested tool use''))"

definition approvalLifecyclePayload ::
  "(string \<Rightarrow> json option) \<Rightarrow> ApprovalRecord \<Rightarrow> string \<Rightarrow> string \<Rightarrow> (string \<times> json) list" where
  "approvalLifecyclePayload unmarshal approval traceID eventType =
     [(''approvalId'', JStr (ar_ApprovalID approval)), (''toolName'', JStr (ar_ToolName approval)),
      (''runId'', JStr (ar_RunID approval)), (''traceId'', JStr traceID)]
     @ (if ar_ToolCallID approval \<noteq> '''' then [(''toolCallId'', JStr (ar_ToolCallID approval))] else [])
     @ (if eventType = ''approval.requested''
        then [(''argsSummary'', JStr (approvalArgsSummary unmarshal (ar_ArgsJSON approval)))] else [])
     @ (if ar_ModelToolCallID approval \<noteq> ''''
        then [(''modelToolCallId'', JStr (ar_ModelToolCallID approval))] else [])
     @ (case ApprovalFailureCategory eventType of
          Some category \<Rightarrow> [(''category'', JStr category)] | None \<Rightarrow> [])"

definition buildIntegrationApprovalRender :: "string \<Rightarrow> (string \<times> json) list \<Rightarrow> string wtx" where
  "buildIntegrationApprovalRender toolName args =
     (if toolName \<noteq> ''github.create_comment''
      then tx_fail (ErrText ''integration approval render is not defined for this tool'')
      else
        (let connectionID = (case map_of args ''connection_id'' of Some (JStr s) \<Rightarrow> s | _ \<Rightarrow> '''') in
         if connectionID = '''' then tx_fail (ErrText ''connection_id is required'')
         else case (map_of args ''owner'', map_of args ''repo'', map_of args ''body'', map_of args ''issue_number'') of
           (Some (JStr owner), Some (JStr repo), Some (JStr body), Some (JNum num)) \<Rightarrow>
             if owner = '''' \<or> repo = '''' \<or> num < 1
             then tx_fail (ErrText ''GitHub comment approval arguments are invalid'')
             else if owner \<noteq> TrimSpace owner \<or> repo \<noteq> TrimSpace repo
             then tx_fail (ErrText ''GitHub comment approval destination is not normalized'')
             else tx_bind (query_row (\<lambda>w. filter (\<lambda>c. ic_id c = connectionID \<and> ic_provider c = ''github''
                        \<and> ic_status c = ''connected'') (integration_connections w)))
                  (\<lambda>c. tx_return (''Connection: '' @ ic_display_name c @ '' ('' @ connectionID @ '')'' @ [CHR 0x0A]
                    @ ''Destination: api.github.com/'' @ owner @ ''/'' @ repo @ ''/issues/'' @ dec num @ [CHR 0x0A]
                    @ ''Action: create issue comment'' @ [CHR 0x0A, CHR 0x0A]
                    @ ''Full comment body:'' @ [CHR 0x0A] @ body))
         | _ \<Rightarrow> tx_fail (ErrText ''GitHub comment approval arguments are invalid'')))"

definition approvalLifecyclePayloadTx ::
  "ApprovalRecord \<Rightarrow> string \<Rightarrow> string \<Rightarrow> (string \<times> json) list wtx" where
  "approvalLifecyclePayloadTx approval traceID eventType =
     tx_bind (tx_gets json_decode) (\<lambda>unmarshal.
     let payload = approvalLifecyclePayload unmarshal approval traceID eventType in
     if eventType \<noteq> ''approval.requested'' then tx_return payload
     else
       tx_bind (if ar_ToolCallID approval \<noteq> ''''
                then query_opt (\<lambda>w. filter (\<lambda>c. tc_id c = ar_ToolCallID approval) (tool_calls w))
                else tx_return None) (\<lambda>call.
       let serverName = (case call of None \<Rightarrow> '''' | Some c \<Rightarrow> tc_server_name c) in
       if serverName \<noteq> ''integrations'' \<or> ar_ToolName approval \<noteq> ''github.create_comment''
       then tx_return payload
       else case decode_args unmarshal (ar_ArgsJSON approval) of
              None \<Rightarrow> tx_fail ErrUnmarshal
            | Some args \<Rightarrow>
                tx_bind (buildIntegrationApprovalRender (ar_ToolName approval) args)
                  (\<lambda>render. tx_return (map_set ''fullArguments'' (JStr render) payload))))"

section \<open>Approval events\<close>

record terminalApproval =
  ta_id :: string
  ta_toolCallID :: string
  ta_toolName :: string
  ta_modelToolCallID :: string

definition appendApprovalTerminalEventTx ::
  "string \<Rightarrow> string \<Rightarrow> string \<Rightarrow> terminalApproval \<Rightarrow> string \<Rightarrow> string \<Rightarrow> Event wtx" where
  "appendApprovalTerminalEventTx sessionID rid traceID approval eventType createdAt =
     (case ApprovalFailureCategory eventType of
        None \<Rightarrow> tx_fail (ErrText ([CHR 0x22] @ eventType @ [CHR 0x22] @ '' is not an approval failure event''))
      | Some category \<Rightarrow>
          appendRunEventTx sessionID rid traceID eventType (Some (JObj (
            [(''approvalId'', JStr (ta_id approval)), (''toolName'', JStr (ta_toolName approval)),
             (''category'', JStr category)]
            @ (if ta_toolCallID approval \<noteq> '''' then [(''toolCallId'', JStr (ta_toolCallID approval))] else [])
            @ (if ta_modelToolCallID approval \<noteq> ''''
               then [(''modelToolCallId'', JStr (ta_modelToolCallID approval))] else [])))) createdAt)"

text \<open>The session and trace of an approval's run.\<close>

definition run_session_trace :: "string \<Rightarrow> (string \<times> string) wtx" where
  "run_session_trace rid = query_row (\<lambda>w.
     map (\<lambda>r. (run_session_id r, run_trace_id r)) (filter (\<lambda>r. run_id r = rid) (agent_runs w)))"

definition appendApprovalLifecycleEventTx :: "ApprovalRecord \<Rightarrow> string \<Rightarrow> string \<Rightarrow> Event wtx" where
  "appendApprovalLifecycleEventTx approval eventType createdAt =
     tx_bind (run_session_trace (ar_RunID approval)) (\<lambda>(sessionID, traceID).
     tx_bind (approvalLifecyclePayloadTx approval traceID eventType) (\<lambda>payload.
     appendRunEventTx sessionID (ar_RunID approval) traceID eventType (Some (JObj payload)) createdAt))"

definition appendApprovalRunStateEventTx ::
  "ApprovalRecord \<Rightarrow> string \<Rightarrow> RunState \<Rightarrow> string \<Rightarrow> Event wtx" where
  "appendApprovalRunStateEventTx approval eventType state createdAt =
     tx_bind (run_session_trace (ar_RunID approval)) (\<lambda>(sessionID, traceID).
     tx_bind (approvalLifecyclePayloadTx approval traceID eventType) (\<lambda>payload.
     appendRunEventTx sessionID (ar_RunID approval) traceID eventType
       (Some (marshalRunStatePayload payload state)) createdAt))"

section \<open>Tool calls and notices\<close>

definition marshalToolLifecyclePayload :: "string \<Rightarrow> string \<Rightarrow> string \<Rightarrow> Reason \<Rightarrow> json" where
  "marshalToolLifecyclePayload toolCallID serverName toolName category = JObj (
     [(''toolCallId'', JStr toolCallID), (''toolName'', JStr toolName)]
     @ (if serverName \<noteq> '''' then [(''serverName'', JStr serverName)] else [])
     @ (if category \<noteq> '''' \<and> category \<noteq> ReasonNone then [(''category'', JStr category)] else []))"

definition isOpenToolCallStatus :: "string \<Rightarrow> bool" where
  "isOpenToolCallStatus status \<longleftrightarrow> status \<in> set [''requested'', ''allowed'', ''approval_required'']"

definition isTerminalToolCallStatus :: "string \<Rightarrow> bool" where
  "isTerminalToolCallStatus status \<longleftrightarrow> status \<in> set [''completed'', ''failed'', ''denied'']"

definition openApproval :: "string \<Rightarrow> approval \<Rightarrow> bool" where
  "openApproval rid a \<longleftrightarrow> ap_run_id a = rid \<and> ap_status a \<in> set [''pending'', ''approved'']"

definition openToolCall :: "string \<Rightarrow> tool_call \<Rightarrow> bool" where
  "openToolCall rid c \<longleftrightarrow> tc_run_id c = rid \<and> isOpenToolCallStatus (tc_status c)"

definition appendStepNoticeTx ::
  "string \<Rightarrow> string \<Rightarrow> string \<Rightarrow> StepNotice \<Rightarrow> int \<Rightarrow> string \<Rightarrow> Event wtx" where
  "appendStepNoticeTx sessionID rid traceID notice stateVersion createdAt =
     (if \<not> StepNotice_Valid notice then tx_fail ErrUnsupportedNotice
      else if stateVersion < 1 then tx_fail ErrRunStateVersionInvalid
      else appendRunEventTx sessionID rid traceID ''agent.run.step'' (Some (JObj
        [(''category'', JStr (notice_category notice)), (''attempt'', JNum (notice_attempt notice)),
         (''maxAttempts'', JNum (notice_maxAttempts notice)), (''stateVersion'', JNum stateVersion)])) createdAt)"

definition marshalRunNoticePayload :: "string \<Rightarrow> (string \<times> json) list \<Rightarrow> json" where
  "marshalRunNoticePayload note extras = JObj (map_set ''note'' (JStr note) extras)"

definition appendRunNoticeTx ::
  "string \<Rightarrow> string \<Rightarrow> string \<Rightarrow> string \<Rightarrow> (string \<times> json) list \<Rightarrow> string \<Rightarrow> Event wtx" where
  "appendRunNoticeTx sessionID rid traceID note extras createdAt =
     appendRunEventTx sessionID rid traceID ''agent.run.step'' (Some (marshalRunNoticePayload note extras)) createdAt"

section \<open>Closing what a terminal run leaves open\<close>

definition terminal_approval_of :: "world \<Rightarrow> approval \<Rightarrow> terminalApproval" where
  "terminal_approval_of w a = \<lparr>ta_id = ap_id a, ta_toolCallID = text_or_empty (ap_tool_call_id a),
     ta_toolName = ap_tool_name a,
     ta_modelToolCallID =
       (case find_row (\<lambda>c. Some (tc_id c) = ap_tool_call_id a \<and> tc_run_id c = ap_run_id a) (tool_calls w) of
          None \<Rightarrow> '''' | Some c \<Rightarrow> text_or_empty (tc_model_tool_call_id c))\<rparr>"

definition expire_open_approvals :: "string \<Rightarrow> string \<Rightarrow> unit wtx" where
  "expire_open_approvals rid finishedAt = tx_modify (\<lambda>w. w\<lparr>approvals := update_where (openApproval rid)
     (\<lambda>a. a\<lparr>ap_status := ''expired'', ap_jti := None, ap_token := None,
            ap_decided_at := coalesce (ap_decided_at a) finishedAt\<rparr>) (approvals w)\<rparr>)"

definition fail_open_tool_calls :: "string \<Rightarrow> string \<Rightarrow> string \<Rightarrow> unit wtx" where
  "fail_open_tool_calls rid code finishedAt = tx_modify (\<lambda>w. w\<lparr>tool_calls := update_where (openToolCall rid)
     (\<lambda>c. c\<lparr>tc_status := ''failed'', tc_error_code := Some code, tc_error_message := None,
            tc_completed_at := coalesce (tc_completed_at c) finishedAt\<rparr>) (tool_calls w)\<rparr>)"

definition failPendingApprovalLifecycleTx ::
  "string \<Rightarrow> Reason \<Rightarrow> string \<Rightarrow> string \<Rightarrow> Event list wtx" where
  "failPendingApprovalLifecycleTx rid category code finishedAt =
     tx_bind (run_session_trace rid) (\<lambda>(sessionID, traceID).
     tx_bind (tx_gets (\<lambda>w. map (terminal_approval_of w)
         (sort_key (\<lambda>a. (nanos_key (ap_created_at a), ap_id a)) (filter (openApproval rid) (approvals w))))) (\<lambda>open_approvals.
     tx_bind (tx_gets (\<lambda>w.
         sort_key (\<lambda>c. (nanos_key (tc_created_at c), tc_id c)) (filter (openToolCall rid) (tool_calls w)))) (\<lambda>open_calls.
     tx_then (expire_open_approvals rid finishedAt) (
     tx_then (fail_open_tool_calls rid code finishedAt) (
     tx_bind (tx_map (\<lambda>a. appendApprovalTerminalEventTx sessionID rid traceID a ''approval.expired'' finishedAt)
         open_approvals) (\<lambda>approval_events.
     tx_bind (tx_map (\<lambda>c. appendRunEventTx sessionID rid traceID ''tool.call.failed''
           (Some (marshalToolLifecyclePayload (tc_id c) (tc_server_name c) (tc_tool_name c) category)) finishedAt)
         open_calls) (\<lambda>call_events.
     tx_return (approval_events @ call_events))))))))"

context transition_relation
begin

lemma within_approvalByID: "tx_within R (approvalByID aid)"
  unfolding approvalByID_def by (rule within_query_row)

lemma within_run_session_trace: "tx_within R (run_session_trace rid)"
  unfolding run_session_trace_def by (rule within_query_row)

lemma within_buildIntegrationApprovalRender: "tx_within R (buildIntegrationApprovalRender n args)"
  unfolding buildIntegrationApprovalRender_def
  by (auto simp: Let_def intro!: within_fail within_bind within_query_row within_return
      split: option.splits json.splits prod.splits)

lemma within_approvalLifecyclePayloadTx: "tx_within R (approvalLifecyclePayloadTx a t e)"
  unfolding approvalLifecyclePayloadTx_def Let_def
  by (intro within_bind within_gets within_if within_return within_query_opt within_case_option within_fail
      within_buildIntegrationApprovalRender)

lemma within_approval_events:
  "tx_within R (appendApprovalTerminalEventTx s r t a ty at)"
  "tx_within R (appendApprovalLifecycleEventTx rec ty at)"
  "tx_within R (appendApprovalRunStateEventTx rec ty st at)"
  "tx_within R (appendStepNoticeTx s r t n v at)"
  unfolding appendApprovalTerminalEventTx_def appendApprovalLifecycleEventTx_def
    appendApprovalRunStateEventTx_def appendStepNoticeTx_def
  by (auto intro!: within_case_option within_fail within_events within_bind within_run_session_trace
      within_approvalLifecyclePayloadTx split: prod.splits)

lemma within_expire_open_approvals: "tx_within R (expire_open_approvals r at)"
  unfolding expire_open_approvals_def
  by (rule within_close_approvals)
    (auto simp: closed_approval_def openApproval_def approval_step_defs coalesce_def split: option.splits)

lemma within_fail_open_tool_calls: "tx_within R (fail_open_tool_calls r c at)"
  unfolding fail_open_tool_calls_def by (rule within_close_tool_calls) (simp add: closed_tool_call_def)

lemma within_failPendingApprovalLifecycleTx: "tx_within R (failPendingApprovalLifecycleTx r cat c at)"
  unfolding failPendingApprovalLifecycleTx_def
  by (rule within_bind [OF within_run_session_trace])
    (simp only: split_beta, intro within_bind within_then within_gets within_expire_open_approvals
      within_fail_open_tool_calls within_map within_approval_events within_events within_return)

lemmas within_approvals =
  within_approvalByID within_run_session_trace within_approvalLifecyclePayloadTx within_approval_events
  within_failPendingApprovalLifecycleTx

end

end
