(* ===== verification/DelegationLifecycle.thy ===== *)
theory DelegationLifecycle
  imports ApprovalEvents EgressFraming
begin

text \<open>
  Delegated tasks (\<^verbatim>\<open>delegation_lifecycle.go\<close>, \<^verbatim>\<open>delegation_join.go\<close>, the queued-run writers of
  \<^verbatim>\<open>delegations.go\<close> and the frozen continuation of \<^verbatim>\<open>team_roster.go\<close>): a task's card and its
  \<^verbatim>\<open>delegation.updated\<close> report, the anchor and run the orchestrator queues on its own behalf,
  and the join that turns finished tasks into one continuation run.

  A delegation has no state of its own, it is read from its child run. There is one job per
  run; names frozen into a job are JSON strings.
\<close>

section \<open>The card of a task\<close>

definition DelegationWaitingConsent :: string where "DelegationWaitingConsent = ''waiting_consent''"
definition egressConsentPending :: string where "egressConsentPending = ''pending''"
definition egressConsentGranted :: string where "egressConsentGranted = ''granted''"
definition egressConsentDeclined :: string where "egressConsentDeclined = ''declined''"

record DelegationRecord =
  dr_ID :: string
  dr_ParentSessionID :: string
  dr_ParentRunID :: string
  dr_ChildSessionID :: string
  dr_ChildRunID :: string
  dr_ProfileID :: string
  dr_DisplayName :: string
  dr_Emoji :: string
  dr_Task :: string
  dr_State :: string
  dr_ApprovalID :: string
  dr_ErrorCode :: string
  dr_Joined :: bool
  dr_ContinuationRunID :: string
  dr_CreatedAt :: string
  dr_FinishedAt :: string
  dr_Summary :: string
  dr_EgressTools :: "string list"
  dr_EgressConsent :: string
  dr_EgressRequired :: bool
  dr_outcomeReason :: string

definition displayedState :: "string \<Rightarrow> string \<Rightarrow> string" where
  "displayedState status consent =
     (if status = lifecycleRecovering then lifecycleRunning
      else if status = lifecycleQueued \<and> consent = egressConsentPending then DelegationWaitingConsent
      else status)"

definition delegationStatePhrase :: "string \<Rightarrow> string \<Rightarrow> string \<Rightarrow> string" where
  "delegationStatePhrase state outcomeReason code =
     (if state = lifecycleQueued then ''is queued''
      else if state = DelegationWaitingConsent then ''is waiting for your consent''
      else if state = lifecycleRunning then ''is working''
      else if state = lifecycleWaitingApproval then ''is waiting for your approval''
      else if state = lifecycleCompleted then ''completed''
      else if state = lifecycleCancelled then
        (if outcomeReason = ReasonUserCancelled then ''was cancelled by you''
         else if code = CodeParentRunEnded then ''was stopped because Turing'' @ [CHR 0x27] @ ''s turn ended''
         else if code = CodeEgressConsentDeclined then ''was not run because you declined the tools it needs''
         else ''was cancelled ('' @ code @ '')'')
      else ''failed ('' @ code @ '')'')"

definition specialistName :: "string \<Rightarrow> string \<Rightarrow> string" where
  "specialistName emoji displayName = TrimSpace (emoji @ '' '' @ displayName)"

definition delegationSummary :: "string \<Rightarrow> string \<Rightarrow> string \<Rightarrow> string \<Rightarrow> string \<Rightarrow> string" where
  "delegationSummary emoji displayName state outcomeReason code =
     specialistName emoji displayName @ '' '' @ delegationStatePhrase state outcomeReason code"

text \<open>A text read with \<^verbatim>\<open>json_extract\<close> from the job of a run.\<close>

definition job_text :: "string list \<Rightarrow> string \<Rightarrow> world \<Rightarrow> string option" where
  "job_text path rid w =
     (case find_row (\<lambda>j. job_run_id j = rid) (jobs w) of
        None \<Rightarrow> None
      | Some j \<Rightarrow> (case json_extract path (job_payload j) of Some (JStr s) \<Rightarrow> Some s | _ \<Rightarrow> None))"

definition child_name :: "delegation_row \<Rightarrow> world \<Rightarrow> string" where
  "child_name d w = (case job_text [''agentProfile'', ''displayName''] (dg_child_run_id d) w of
     None \<Rightarrow> dg_profile_id d | Some s \<Rightarrow> s)"

definition child_emoji :: "delegation_row \<Rightarrow> world \<Rightarrow> string" where
  "child_emoji d w = text_or_empty (job_text [''agentProfile'', ''emoji''] (dg_child_run_id d) w)"

definition newest_pending_approval :: "string \<Rightarrow> world \<Rightarrow> string" where
  "newest_pending_approval rid w =
     (case rev (sort_key (\<lambda>a. (ap_created_at a, ap_id a))
                  (filter (\<lambda>a. ap_run_id a = rid \<and> ap_status a = ''pending'') (approvals w))) of
        [] \<Rightarrow> '''' | a # _ \<Rightarrow> ap_id a)"

text \<open>One row of \<^verbatim>\<open>delegationViewSelect\<close>, scanned; \<open>None\<close> when the tool list does not decode.\<close>

definition scanDelegationRecord :: "world \<Rightarrow> delegation_row \<Rightarrow> agent_run \<Rightarrow> DelegationRecord option" where
  "scanDelegationRecord w d child =
     (case decode_strings (dg_egress_tools d) of
        None \<Rightarrow> None
      | Some tools \<Rightarrow>
          (let code = (if run_status child = ''failed'' then text_or_empty (run_error_code child)
                       else if run_status child = ''cancelled'' then text_or_empty (run_cancellation_reason child)
                       else '''');
               state = displayedState (run_status child) (dg_egress_consent d) in
           Some \<lparr>dr_ID = dg_id d, dr_ParentSessionID = dg_parent_session_id d, dr_ParentRunID = dg_parent_run_id d,
             dr_ChildSessionID = dg_child_session_id d, dr_ChildRunID = dg_child_run_id d,
             dr_ProfileID = dg_profile_id d, dr_DisplayName = child_name d w, dr_Emoji = child_emoji d w,
             dr_Task = dg_task d, dr_State = state,
             dr_ApprovalID = (if run_status child = ''waiting_approval''
                              then newest_pending_approval (run_id child) w else ''''),
             dr_ErrorCode = code, dr_Joined = dg_joined d,
             dr_ContinuationRunID = (case find_row (\<lambda>c. run_continues_run_id c = Some (dg_parent_run_id d)) (agent_runs w) of
                None \<Rightarrow> '''' | Some c \<Rightarrow> run_id c),
             dr_CreatedAt = dg_created_at d, dr_FinishedAt = text_or_empty (run_finished_at child),
             dr_Summary = delegationSummary (child_emoji d w) (child_name d w) state (run_outcome_reason child) code,
             dr_EgressTools = tools, dr_EgressConsent = dg_egress_consent d,
             dr_EgressRequired = dg_egress_required d, dr_outcomeReason = run_outcome_reason child\<rparr>))"

text \<open>Delegations joined with their child runs.\<close>

definition delegation_view :: "(delegation_row \<Rightarrow> bool) \<Rightarrow> world \<Rightarrow> (delegation_row \<times> agent_run) list" where
  "delegation_view p w = concat (map (\<lambda>d.
     map (Pair d) (filter (\<lambda>r. run_id r = dg_child_run_id d) (agent_runs w))) (filter p (delegations w)))"

definition delegationByChildRunTx :: "string \<Rightarrow> DelegationRecord option wtx" where
  "delegationByChildRunTx childRunID w =
     (case delegation_view (\<lambda>d. dg_child_run_id d = childRunID) w of
        [] \<Rightarrow> Inr (None, w)
      | (d, child) # _ \<Rightarrow>
          (case scanDelegationRecord w d child of None \<Rightarrow> Inl ErrUnmarshal | Some rec \<Rightarrow> Inr (Some rec, w)))"

definition activeDelegationsTx :: "string \<Rightarrow> DelegationRecord list wtx" where
  "activeDelegationsTx parentSessionID w =
     (let rows = sort_key (\<lambda>(d, child). (dg_created_at d, dg_id d))
                   (delegation_view (\<lambda>d. dg_parent_session_id d = parentSessionID
                      \<and> list_ex (\<lambda>s. sess_id s = dg_parent_session_id d \<and> sess_deletion_state s = ''active'') (sessions w)) w)
      in case all_some (map (\<lambda>(d, child). scanDelegationRecord w d child) rows) of
           None \<Rightarrow> Inl ErrUnmarshal | Some recs \<Rightarrow> Inr (recs, w))"

definition ListDelegations :: "string \<Rightarrow> DelegationRecord list wtx" where
  "ListDelegations parentSessionID =
     tx_bind (query_opt (\<lambda>w. filter (\<lambda>s. sess_id s = parentSessionID \<and> sess_deletion_state s = ''active'') (sessions w)))
       (\<lambda>found. case found of
          None \<Rightarrow> tx_fail ErrSessionNotFound
        | Some s \<Rightarrow> if sess_kind s \<noteq> ''chat'' then tx_fail ErrSessionNotFound else activeDelegationsTx parentSessionID)"

definition GetDelegation :: "string \<Rightarrow> DelegationRecord wtx" where
  "GetDelegation delegationID w =
     (case delegation_view (\<lambda>d. dg_id d = delegationID
          \<and> list_ex (\<lambda>s. sess_id s = dg_parent_session_id d \<and> sess_deletion_state s = ''active'') (sessions w)) w of
        [] \<Rightarrow> Inl ErrDelegationNotFound
      | (d, child) # _ \<Rightarrow>
          (case scanDelegationRecord w d child of None \<Rightarrow> Inl ErrUnmarshal | Some rec \<Rightarrow> Inr (rec, w)))"

section \<open>Reporting a task\<close>

text \<open>A run joined with its session: the deletion state and the trace.\<close>

definition run_session_state :: "string \<Rightarrow> (string \<times> string \<times> string) wtx" where
  "run_session_state rid = query_row (\<lambda>w. concat (map (\<lambda>r.
     map (\<lambda>s. (sess_id s, sess_deletion_state s, run_trace_id r))
       (filter (\<lambda>s. sess_id s = run_session_id r) (sessions w)))
     (filter (\<lambda>r. run_id r = rid) (agent_runs w))))"

definition reportDelegationTx :: "string \<Rightarrow> string \<Rightarrow> Event list wtx" where
  "reportDelegationTx rid at =
     tx_bind (delegationByChildRunTx rid) (\<lambda>found.
     case found of
       None \<Rightarrow> tx_return []
     | Some rec \<Rightarrow>
         tx_bind (run_session_state (dr_ParentRunID rec)) (\<lambda>(sid, deletionState, traceID).
         if deletionState \<noteq> ''active'' then tx_return []
         else
           tx_bind (appendRunEventTx (dr_ParentSessionID rec) (dr_ParentRunID rec) traceID ''delegation.updated''
             (Some (JObj (
               [(''delegationId'', JStr (dr_ID rec)), (''parentRunId'', JStr (dr_ParentRunID rec)),
                (''childRunId'', JStr (dr_ChildRunID rec)), (''childSessionId'', JStr (dr_ChildSessionID rec)),
                (''profileId'', JStr (dr_ProfileID rec)), (''displayName'', JStr (dr_DisplayName rec)),
                (''emoji'', JStr (dr_Emoji rec)), (''state'', JStr (dr_State rec)),
                (''summary'', JStr (dr_Summary rec)), (''egressTools'', JArr (map JStr (dr_EgressTools rec))),
                (''egressConsent'', JStr (dr_EgressConsent rec)), (''egressRequired'', JBool (dr_EgressRequired rec))]
               @ (if dr_ApprovalID rec \<noteq> '''' then [(''approvalId'', JStr (dr_ApprovalID rec))] else [])))) at)
           (\<lambda>event. tx_return [event])))"

definition delegationUpdatedTx :: "string \<Rightarrow> string \<Rightarrow> string \<Rightarrow> string \<Rightarrow> Event list wtx" where
  "delegationUpdatedTx rid from to at =
     (if displayedState from '''' = displayedState to '''' then tx_return [] else reportDelegationTx rid at)"

section \<open>Runs the orchestrator queues itself\<close>

record sessionAnchor =
  sa_MessageID :: string
  sa_PlaceholderID :: string
  sa_CreatedAt :: string
  sa_created :: int

definition insertSessionAnchorTx ::
  "string \<Rightarrow> string \<Rightarrow> string \<Rightarrow> string \<Rightarrow> string \<Rightarrow> sessionAnchor wtx" where
  "insertSessionAnchorTx sessionID rid role contentType content =
     tx_bind time_Now (\<lambda>t.
     tx_bind (nextMessageSlotTx sessionID t) (\<lambda>(next, created).
     tx_bind (ids_New ''msg'') (\<lambda>mid.
     tx_bind (ids_New ''msg'') (\<lambda>pid.
     let anchor = \<lparr>sa_MessageID = mid, sa_PlaceholderID = pid, sa_CreatedAt = FormatTimestamp created,
                   sa_created = created\<rparr> in
     tx_then (insert_message \<lparr>msg_id = mid, msg_session_id = sessionID, msg_run_id = None, msg_role = role,
        msg_content = content, msg_content_type = contentType, msg_sequence = next,
        msg_created_at = sa_CreatedAt anchor\<rparr>) (
     tx_then (insert_message \<lparr>msg_id = pid, msg_session_id = sessionID, msg_run_id = Some rid,
        msg_role = ''assistant'', msg_content = '''', msg_content_type = ''text'', msg_sequence = next + 1,
        msg_created_at = FormatTimestamp (created + 1)\<rparr>) (
     tx_then (touch_session sessionID (sa_CreatedAt anchor)) (
     tx_return anchor)))))))"

record queuedRun =
  qr_runID :: string
  qr_sessionID :: string
  qr_anchor :: sessionAnchor
  qr_modelProvider :: string
  qr_model :: string
  qr_continuesRunID :: string
  qr_payload :: "(string \<times> json) list"

definition emptyAssistantContentSHA256 :: string where
  "emptyAssistantContentSHA256 = ''e3b0c44298fc1c149afbf4c8996fb92427ae41e4649b934ca495991b7852b855''"

definition insert_agent_run :: "agent_run \<Rightarrow> unit wtx" where
  "insert_agent_run r = tx_bind (tx_gets agent_runs) (\<lambda>rs.
     tx_then (tx_guard (run_id r \<notin> set (map run_id rs)
         \<and> \<not> (run_continues_run_id r \<noteq> None \<and> list_ex (\<lambda>x. run_continues_run_id x = run_continues_run_id r) rs)
         \<and> \<not> (run_assistant_message_id r \<noteq> None
              \<and> list_ex (\<lambda>x. run_assistant_message_id x = run_assistant_message_id r) rs))
       (ErrUnique ''agent_runs''))
       (tx_modify (\<lambda>w. w\<lparr>agent_runs := agent_runs w @ [r]\<rparr>)))"

definition insert_job_row :: "job \<Rightarrow> unit wtx" where
  "insert_job_row j = tx_bind (tx_gets jobs) (\<lambda>js.
     tx_then (tx_guard (job_id j \<notin> set (map job_id js)) (ErrUnique ''jobs.id''))
       (tx_modify (\<lambda>w. w\<lparr>jobs := jobs w @ [j]\<rparr>)))"

definition queued_run_row :: "queuedRun \<Rightarrow> string \<Rightarrow> int \<Rightarrow> agent_run" where
  "queued_run_row run traceID queuedSince = \<lparr>run_id = qr_runID run, run_session_id = qr_sessionID run,
     run_user_message_id = sa_MessageID (qr_anchor run),
     run_assistant_message_id = Some (sa_PlaceholderID (qr_anchor run)),
     run_agent_id = ''general_assistant'', run_trace_id = traceID, run_status = lifecycleQueued,
     run_model_provider = qr_modelProvider run, run_model_name = qr_model run, run_error_code = None,
     run_error_message = None, run_created_at = sa_CreatedAt (qr_anchor run), run_started_at = None,
     run_finished_at = None, run_cancellation_reason = None, run_worker_id = None,
     run_execution_active = False, run_execution_exit_acknowledged_at = None,
     run_execution_attempt_id = None, run_execution_state = ''none'',
     run_execution_lease_expires_at = None, run_execution_lease_expires_at_ns = None,
     run_input_tokens = None, run_output_tokens = None, run_state_version = 1,
     run_state_updated_at = sa_CreatedAt (qr_anchor run), run_outcome_reason = ReasonNone,
     run_assistant_content_sha256 = emptyAssistantContentSHA256, run_queue_waited_ns = 0,
     run_queued_since_ns = Some queuedSince, run_queue_unroutable_since_ns = None,
     run_queue_wait_reason = QueueWaitNone, run_continues_run_id = nullableText (qr_continuesRunID run),
     run_external_agent_name = None, run_external_agent_host = None\<rparr>"

text \<open>The job payload: what every queued run carries, overridden by the caller's own keys.\<close>

definition queued_job_row :: "queuedRun \<Rightarrow> string \<Rightarrow> string \<Rightarrow> job" where
  "queued_job_row run jobID traceID =
     (let payload = foldl (\<lambda>acc kv. map_set (fst kv) (snd kv) acc)
           [(''sessionId'', JStr (qr_sessionID run)),
            (''userMessageId'', JStr (sa_MessageID (qr_anchor run))),
            (''assistantMessageId'', JStr (sa_PlaceholderID (qr_anchor run))),
            (''traceId'', JStr traceID), (''modelProvider'', JStr (qr_modelProvider run)),
            (''model'', JStr (qr_model run))] (qr_payload run) in
      \<lparr>job_id = jobID, job_run_id = qr_runID run, job_agent_id = ''general_assistant'',
        job_status = ''pending'', job_attempt = 1, job_payload = JObj payload, job_picked_up_at = None,
        job_finished_at = None, job_error_code = None, job_error_message = None,
        job_created_at = sa_CreatedAt (qr_anchor run),
        job_created_at_ns = Some (UnixNano (sa_created (qr_anchor run))), job_lease_owner = None,
        job_lease_expires_at = None, job_lease_expires_at_ns = None, job_assignment_attempt_id = None\<rparr>)"

definition insertQueuedRunTx :: "queuedRun \<Rightarrow> Event wtx" where
  "insertQueuedRunTx run =
     tx_bind (tx_lift (ParseCanonical (sa_CreatedAt (qr_anchor run)))) (\<lambda>createdAtNanos.
     tx_bind (ids_New ''trace'') (\<lambda>traceID.
     tx_then (insert_agent_run (queued_run_row run traceID (UnixNano createdAtNanos))) (
     tx_bind (readRunRow (qr_runID run)) (\<lambda>queuedRow.
     tx_then (tx_lift (validateRunCorrelationLink (runRow_link queuedRow))) (
     tx_bind (ids_New ''job'') (\<lambda>jobID.
     tx_then (insert_job_row (queued_job_row run jobID traceID)) (
     appendRunEventTx (qr_sessionID run) (qr_runID run) traceID ''agent.run.queued''
       (Some (marshalRunStatePayload
         [(''runId'', JStr (qr_runID run)), (''jobId'', JStr jobID), (''status'', JStr ''queued''),
          (''agentId'', JStr ''general_assistant'')] (runRow_state queuedRow)))
       (sa_CreatedAt (qr_anchor run)))))))))"

section \<open>The join\<close>

record joinedDelegation =
  jd_id :: string
  jd_childSessionID :: string
  jd_childRunID :: string
  jd_profileID :: string
  jd_displayName :: string
  jd_emoji :: string
  jd_state :: string
  jd_outcomeReason :: string
  jd_errorCode :: string
  jd_cancellationCode :: string
  jd_finishedAt :: string
  jd_result :: string
  jd_egressConsent :: string
  jd_egressTools :: json

definition joined_delegation_of :: "world \<Rightarrow> delegation_row \<Rightarrow> agent_run \<Rightarrow> joinedDelegation" where
  "joined_delegation_of w d child = \<lparr>jd_id = dg_id d, jd_childSessionID = dg_child_session_id d,
     jd_childRunID = dg_child_run_id d, jd_profileID = dg_profile_id d,
     jd_displayName = child_name d w, jd_emoji = child_emoji d w,
     jd_state = run_status child, jd_outcomeReason = run_outcome_reason child,
     jd_errorCode = text_or_empty (run_error_code child),
     jd_cancellationCode = text_or_empty (run_cancellation_reason child),
     jd_finishedAt = text_or_empty (run_finished_at child),
     jd_result = (case find_row (\<lambda>m. Some (msg_id m) = run_assistant_message_id child) (messages w) of
        None \<Rightarrow> '''' | Some m \<Rightarrow> msg_content m),
     jd_egressConsent = dg_egress_consent d, jd_egressTools = dg_egress_tools d\<rparr>"

definition joinedDelegationsTx :: "string \<Rightarrow> joinedDelegation list wtx" where
  "joinedDelegationsTx parentRunID = tx_gets (\<lambda>w.
     map (\<lambda>(d, child). joined_delegation_of w d child)
       (sort_key (\<lambda>(d, child). (dg_created_at d, dg_id d))
         (delegation_view (\<lambda>d. dg_parent_run_id d = parentRunID \<and> \<not> dg_joined d) w)))"

definition joinedDelegation_code :: "joinedDelegation \<Rightarrow> string" where
  "joinedDelegation_code d =
     (if jd_state d = lifecycleFailed then jd_errorCode d
      else if jd_state d = lifecycleCancelled then jd_cancellationCode d else '''')"

definition joinedDelegation_outcome :: "joinedDelegation \<Rightarrow> string" where
  "joinedDelegation_outcome d =
     (let outcome = delegationStatePhrase (jd_state d) (jd_outcomeReason d) (joinedDelegation_code d) in
      if jd_egressConsent d = egressConsentDeclined \<and> joinedDelegation_code d \<noteq> CodeEgressConsentDeclined
      then (case decode_strings (jd_egressTools d) of
              None \<Rightarrow> outcome
            | Some declined \<Rightarrow>
                if declined \<noteq> [] then outcome @ ''; you declined its use of '' @ Join declined '', '' else outcome)
      else outcome)"

definition utf8Prefix :: "string \<Rightarrow> int \<Rightarrow> string" where
  "utf8Prefix s maxBytes =
     (if int (length s) \<le> maxBytes then s else take (rune_cut s (nat maxBytes)) s)"

definition newline :: string where "newline = [CHR 0x0A]"

definition result_entry :: "int \<Rightarrow> joinedDelegation \<Rightarrow> string" where
  "result_entry resultMaxBytes d =
     (let who = TrimSpace (utf8Prefix (jd_emoji d) 32 @ '' '' @ utf8Prefix (jd_displayName d) 256);
          result = utf8Prefix (jd_result d) resultMaxBytes
      in newline @ newline @ ''## '' @ who @ '' ('' @ utf8Prefix (jd_profileID d) 128 @ ''): ''
         @ utf8Prefix (joinedDelegation_outcome d) 256 @ newline
         @ (if TrimSpace (jd_result d) = '''' then ''(no result)''
            else if length result < length (jd_result d)
            then result @ newline @ ''[Result cut: '' @ dec (int (length result)) @ '' of ''
                 @ dec (int (length (jd_result d))) @ '' bytes kept.]''
            else result))"

definition delegationResultsContent :: "joinedDelegation list \<Rightarrow> int \<Rightarrow> string" where
  "delegationResultsContent ds resultMaxBytes =
     ''Results of the '' @ dec (int (length ds)) @ '' task(s) Turing delegated, in the order they were asked for.''
     @ concat (map (result_entry resultMaxBytes) ds)"

subsection \<open>What the continuation inherits\<close>

record TeamContinuation =
  tcn_Tools :: "string list"
  tcn_ResultMaxBytes :: int

definition decode_continuation :: "json \<Rightarrow> TeamContinuation option" where
  "decode_continuation j =
     (case j of
        JObj _ \<Rightarrow>
          (case (decode_field decode_strings [] ''tools'' j, decode_field decode_int 0 ''resultMaxBytes'' j) of
             (Some ts, Some n) \<Rightarrow> Some \<lparr>tcn_Tools = ts, tcn_ResultMaxBytes = n\<rparr> | _ \<Rightarrow> None)
      | _ \<Rightarrow> None)"

definition runTeamContinuation :: "string \<Rightarrow> TeamContinuation wtx" where
  "runTeamContinuation rid =
     tx_bind (query_row (\<lambda>w. filter (\<lambda>j. job_run_id j = rid) (jobs w))) (\<lambda>job.
     case json_extract [''teamContinuation''] (job_payload job) of
       None \<Rightarrow> tx_return \<lparr>tcn_Tools = [], tcn_ResultMaxBytes = 0\<rparr>
     | Some j \<Rightarrow> (case decode_continuation j of None \<Rightarrow> tx_fail ErrUnmarshal | Some c \<Rightarrow> tx_return c))"

record PinnedPersonaSnapshot =
  pp_PersonaID :: string
  pp_DisplayName :: string
  pp_Body :: string
  pp_ContentHash :: string
  pp_Withheld :: bool

record PinnedProfileSnapshot =
  pf_ProfileID :: string
  pf_Body :: string
  pf_ContentHash :: string
  pf_Withheld :: bool

definition decode_persona :: "json \<Rightarrow> PinnedPersonaSnapshot option" where
  "decode_persona j =
     (case j of
        JObj _ \<Rightarrow>
          (case (decode_field decode_string '''' ''personaId'' j, decode_field decode_string '''' ''displayName'' j,
                 decode_field decode_string '''' ''body'' j, decode_field decode_string '''' ''contentHash'' j,
                 decode_field decode_bool True ''withheld'' j) of
             (Some i, Some n, Some b, Some h, Some wh) \<Rightarrow> Some \<lparr>pp_PersonaID = i, pp_DisplayName = n,
                pp_Body = b, pp_ContentHash = h, pp_Withheld = wh\<rparr>
           | _ \<Rightarrow> None)
      | _ \<Rightarrow> None)"

definition decode_profile :: "json \<Rightarrow> PinnedProfileSnapshot option" where
  "decode_profile j =
     (case j of
        JObj _ \<Rightarrow>
          (case (decode_field decode_string '''' ''profileId'' j, decode_field decode_string '''' ''body'' j,
                 decode_field decode_string '''' ''contentHash'' j, decode_field decode_bool True ''withheld'' j) of
             (Some i, Some b, Some h, Some wh) \<Rightarrow> Some \<lparr>pf_ProfileID = i, pf_Body = b, pf_ContentHash = h,
                pf_Withheld = wh\<rparr>
           | _ \<Rightarrow> None)
      | _ \<Rightarrow> None)"

definition persona_json :: "PinnedPersonaSnapshot \<Rightarrow> json" where
  "persona_json p = JObj [(''personaId'', JStr (pp_PersonaID p)), (''displayName'', JStr (pp_DisplayName p)),
     (''body'', JStr (pp_Body p)), (''contentHash'', JStr (pp_ContentHash p)), (''withheld'', JBool (pp_Withheld p))]"

definition profile_json :: "PinnedProfileSnapshot \<Rightarrow> json" where
  "profile_json p = JObj [(''profileId'', JStr (pf_ProfileID p)), (''body'', JStr (pf_Body p)),
     (''contentHash'', JStr (pf_ContentHash p)), (''withheld'', JBool (pf_Withheld p))]"

definition continuationMemoryPreimage ::
  "PinnedPersonaSnapshot \<Rightarrow> PinnedProfileSnapshot \<Rightarrow> string list \<Rightarrow> MemorySnapshot" where
  "continuationMemoryPreimage persona profile tools = Canonical \<lparr>ms_PersonaID = pp_PersonaID persona,
     ms_PersonaDisplayName = pp_DisplayName persona, ms_PersonaBody = pp_Body persona,
     ms_PersonaContentHash = pp_ContentHash persona, ms_PersonaWithheld = pp_Withheld persona,
     ms_ProfileID = pf_ProfileID profile, ms_ProfileBody = pf_Body profile,
     ms_ProfileContentHash = pf_ContentHash profile, ms_ProfileWithheld = pf_Withheld profile,
     ms_MemoryToolsSelected = SelectedToolsIncludeMemory tools\<rparr>"

record continuationInheritance =
  ci_skills :: json
  ci_persona :: PinnedPersonaSnapshot
  ci_profile :: PinnedProfileSnapshot
  ci_fingerprint :: string
  ci_requiredContextTokens :: int

definition continuationInheritanceTx :: "string \<Rightarrow> string list \<Rightarrow> continuationInheritance wtx" where
  "continuationInheritanceTx parentRunID tools =
     tx_bind (query_row (\<lambda>w. filter (\<lambda>j. job_run_id j = parentRunID) (jobs w))) (\<lambda>job.
     let skills = (case json_extract [''skills''] (job_payload job) of None \<Rightarrow> JNull | Some s \<Rightarrow> s);
         persona = (case json_extract [''pinnedPersona''] (job_payload job) of
             None \<Rightarrow> Some \<lparr>pp_PersonaID = '''', pp_DisplayName = '''', pp_Body = '''', pp_ContentHash = '''', pp_Withheld = True\<rparr>
           | Some j \<Rightarrow> decode_persona j);
         profile = (case json_extract [''pinnedProfile''] (job_payload job) of
             None \<Rightarrow> Some \<lparr>pf_ProfileID = '''', pf_Body = '''', pf_ContentHash = '''', pf_Withheld = True\<rparr>
           | Some j \<Rightarrow> decode_profile j);
         tokens = (case json_extract [''requiredContextTokens''] (job_payload job) of
             None \<Rightarrow> Some 0 | Some (JNum n) \<Rightarrow> Some n | Some _ \<Rightarrow> None)
     in case (persona, profile, tokens) of
          (Some pe, Some pr, Some n) \<Rightarrow> tx_return \<lparr>ci_skills = skills, ci_persona = pe, ci_profile = pr,
             ci_fingerprint = MemorySnapshotFingerprint (continuationMemoryPreimage pe pr tools),
             ci_requiredContextTokens = n\<rparr>
        | _ \<Rightarrow> tx_fail ErrUnmarshal)"

subsection \<open>Joining\<close>

definition join_parent :: "string \<Rightarrow> string wtx" where
  "join_parent rid =
     tx_bind (query_opt (\<lambda>w. filter (\<lambda>d. dg_child_run_id d = rid) (delegations w)))
       (\<lambda>found. tx_return (case found of None \<Rightarrow> rid | Some d \<Rightarrow> dg_parent_run_id d))"

definition unfinished_child :: "string \<Rightarrow> world \<Rightarrow> bool" where
  "unfinished_child parentRunID w \<longleftrightarrow>
     list_ex (\<lambda>(d, child). \<not> isTerminalLifecycle (run_status child))
       (delegation_view (\<lambda>d. dg_parent_run_id d = parentRunID) w)"

text \<open>The parent run and its session, when there is both a run and a session.\<close>

definition join_parent_row :: "string \<Rightarrow> (agent_run \<times> session \<times> bool) option wtx" where
  "join_parent_row parentRunID = query_opt (\<lambda>w. concat (map (\<lambda>r.
     map (\<lambda>s. (r, s, unfinished_child parentRunID w)) (filter (\<lambda>s. sess_id s = run_session_id r) (sessions w)))
     (filter (\<lambda>r. run_id r = parentRunID) (agent_runs w))))"

definition mark_joined :: "joinedDelegation \<Rightarrow> unit wtx" where
  "mark_joined d = tx_modify (\<lambda>w. w\<lparr>delegations := update_where (\<lambda>x. dg_id x = jd_id d)
     (\<lambda>x. x\<lparr>dg_joined := True, dg_finished_at := nullableText (jd_finishedAt d),
            dg_result_bytes := Some (int (length (jd_result d))),
            dg_error_code := nullableText (joinedDelegation_code d)\<rparr>) (delegations w)\<rparr>)"

definition finish_delegation ::
  "string \<Rightarrow> string \<Rightarrow> string \<Rightarrow> string \<Rightarrow> string \<Rightarrow> joinedDelegation \<Rightarrow> Event wtx" where
  "finish_delegation sessionID parentRunID traceID continuationRunID at d =
     tx_then (mark_joined d)
       (appendRunEventTx sessionID parentRunID traceID ''delegation.finished'' (Some (JObj
         [(''delegationId'', JStr (jd_id d)), (''parentRunId'', JStr parentRunID),
          (''childRunId'', JStr (jd_childRunID d)), (''childSessionId'', JStr (jd_childSessionID d)),
          (''profileId'', JStr (jd_profileID d)), (''displayName'', JStr (jd_displayName d)),
          (''emoji'', JStr (jd_emoji d)), (''state'', JStr (jd_state d)),
          (''summary'', JStr (specialistName (jd_emoji d) (jd_displayName d) @ '' '' @ joinedDelegation_outcome d)),
          (''continuationRunId'', JStr continuationRunID)])) at)"

definition continuation_payload :: "string \<Rightarrow> string list \<Rightarrow> continuationInheritance \<Rightarrow> (string \<times> json) list" where
  "continuation_payload userText tools inherited =
     [(''userText'', JStr userText), (''requestedTools'', JArr (map JStr tools)),
      (''requiredContextTokens'', JNum (ci_requiredContextTokens inherited)),
      (''minimumWorkerMaxConcurrentRuns'', JNum 0), (''skills'', ci_skills inherited),
      (''externalAgent'', JNull), (''egressDecision'', JNull), (''selectedTools'', JArr (map JStr tools)),
      (''pinnedPersona'', persona_json (ci_persona inherited)),
      (''pinnedProfile'', profile_json (ci_profile inherited)),
      (''memorySnapshotFingerprint'', JStr (ci_fingerprint inherited)),
      (''enforceSelectedTools'', JBool True), (''skipAutomaticRecall'', JBool True),
      (''minimumTeamProtocolVersion'', JNum 1)]"

definition perform_join :: "string \<Rightarrow> agent_run \<Rightarrow> (string \<times> Event list) wtx" where
  "perform_join parentRunID parent =
     tx_bind (joinedDelegationsTx parentRunID) (\<lambda>ds.
     tx_bind (runTeamContinuation parentRunID) (\<lambda>continuation.
     let max0 = (if tcn_ResultMaxBytes continuation \<le> 0 then DefaultDelegationResultMaxBytes
                 else tcn_ResultMaxBytes continuation);
         resultMaxBytes = max (min max0 (DelegationResultBudget (int (length ds)))) 1;
         tools = tcn_Tools continuation;
         content = delegationResultsContent ds resultMaxBytes in
     tx_bind rand_nonce (\<lambda>nonce.
     tx_bind (tx_lift (FrameRetrievedContent DelegationResultsFraming nonce content)) (\<lambda>userText.
     tx_bind (ids_New ''run'') (\<lambda>continuationRunID.
     tx_bind (insertSessionAnchorTx (run_session_id parent) continuationRunID ''system''
                DelegationResultsContentType content) (\<lambda>anchor.
     tx_bind (tx_map (finish_delegation (run_session_id parent) parentRunID (run_trace_id parent)
                continuationRunID (sa_CreatedAt anchor)) ds) (\<lambda>events0.
     tx_bind (continuationInheritanceTx parentRunID tools) (\<lambda>inherited.
     tx_bind (insertQueuedRunTx \<lparr>qr_runID = continuationRunID, qr_sessionID = run_session_id parent,
                qr_anchor = anchor, qr_modelProvider = run_model_provider parent,
                qr_model = run_model_name parent, qr_continuesRunID = parentRunID,
                qr_payload = continuation_payload userText tools inherited\<rparr>) (\<lambda>queued.
     tx_return (continuationRunID, events0 @ [queued]))))))))))"

definition maybeJoinTx :: "string \<Rightarrow> (string \<times> Event list) wtx" where
  "maybeJoinTx rid =
     tx_bind (join_parent rid) (\<lambda>parentRunID.
     tx_bind (tx_gets (\<lambda>w. list_ex (\<lambda>d. dg_parent_run_id d = parentRunID \<and> \<not> dg_joined d) (delegations w))) (\<lambda>unjoined.
     if \<not> unjoined then tx_return ('''', [])
     else
       tx_bind (join_parent_row parentRunID) (\<lambda>found.
       case found of
         None \<Rightarrow> tx_return ('''', [])
       | Some (parent, session, outstanding) \<Rightarrow>
           if sess_deletion_state session \<noteq> ''active'' \<or> run_status parent \<noteq> lifecycleCompleted \<or> outstanding
           then tx_return ('''', [])
           else perform_join parentRunID parent)))"

section \<open>Within any transition relation\<close>

lemma insert_agent_run_Inr:
  "insert_agent_run r w = Inr (u, w') \<Longrightarrow>
     w' = w\<lparr>agent_runs := agent_runs w @ [r]\<rparr> \<and> run_id r \<notin> set (map run_id (agent_runs w))"
  by (auto simp: insert_agent_run_def tx_simps split: if_splits)

lemma insert_job_row_Inr:
  "insert_job_row j w = Inr (u, w') \<Longrightarrow>
     w' = w\<lparr>jobs := jobs w @ [j]\<rparr> \<and> job_id j \<notin> set (map job_id (jobs w))"
  by (auto simp: insert_job_row_def tx_simps split: if_splits)

lemma run_new_queued_run_row:
  "ParseCanonical (sa_CreatedAt (qr_anchor run)) = Inr t \<Longrightarrow> run_new (queued_run_row run tr s)"
  by (simp add: run_new_def queued_run_row_def)

context transition_relation
begin

lemma within_delegationByChildRunTx: "tx_within R (delegationByChildRunTx rid)"
proof (rule tx_withinI)
  fix w x w' assume "delegationByChildRunTx rid w = Inr (x, w')"
  then have "w' = w" unfolding delegationByChildRunTx_def
    by (cases "delegation_view (\<lambda>d. dg_child_run_id d = rid) w") (simp_all split: prod.splits option.splits)
  then show "R w w'" using step_refl by simp
qed

lemma within_run_session_state: "tx_within R (run_session_state rid)"
  unfolding run_session_state_def by (rule within_query_row)

lemma within_reportDelegationTx: "tx_within R (reportDelegationTx rid at)"
  unfolding reportDelegationTx_def
  by (intro within_bind within_delegationByChildRunTx within_case_option within_return within_case_prod
      within_run_session_state within_if within_events)

lemma within_delegationUpdatedTx: "tx_within R (delegationUpdatedTx rid f t at)"
  unfolding delegationUpdatedTx_def by (intro within_if within_return within_reportDelegationTx)

lemma within_insertSessionAnchorTx: "tx_within R (insertSessionAnchorTx s r ro ct c)"
  unfolding insertSessionAnchorTx_def Let_def
  by (intro within_bind within_time_Now within_nextMessageSlotTx within_case_prod within_then within_ids_New
      within_insert_message within_touch_session within_return)

text \<open>The queued run and its job: the job is for a run that was just inserted as queued.\<close>

lemma queued_run_and_job:
  assumes "run_new r" "run_id r \<notin> set (map run_id (agent_runs w))"
    and "job_id j \<notin> set (map job_id (jobs w))" and "job_run_id j = run_id r"
  shows "R w (w\<lparr>agent_runs := agent_runs w @ [r], jobs := jobs w @ [j]\<rparr>)"
proof (cases "db_ok w")
  case True
  let ?w1 = "w\<lparr>agent_runs := agent_runs w @ [r]\<rparr>"
  have "R w ?w1" using True assms insert_run by blast
  moreover have "R ?w1 (?w1\<lparr>jobs := jobs ?w1 @ [j]\<rparr>)"
  proof (cases "db_ok ?w1")
    case True
    have "\<exists>x \<in> set (agent_runs ?w1). run_id x = job_run_id j \<and> \<not> isTerminalLifecycle (run_status x)"
      using assms by (simp add: run_new_def)
    then show ?thesis using True assms(3) by (intro insert_job) simp_all
  next
    case False
    then show ?thesis by (rule outside)
  qed
  ultimately show ?thesis using step_trans by simp
next
  case False
  then show ?thesis by (rule outside)
qed

lemma within_insertQueuedRunTx: "tx_within R (insertQueuedRunTx run)"
proof (rule tx_withinI)
  fix w e w' assume run: "insertQueuedRunTx run w = Inr (e, w')"
  let ?at = "sa_CreatedAt (qr_anchor run)"
  from run have "\<exists>c w0 tr w1 u2 w2 row w3 u4 w4 jid w5 u6 w6 pl.
      tx_lift (ParseCanonical ?at) w = Inr (c, w0) \<and> ids_New ''trace'' w0 = Inr (tr, w1)
      \<and> insert_agent_run (queued_run_row run tr (UnixNano c)) w1 = Inr (u2, w2)
      \<and> readRunRow (qr_runID run) w2 = Inr (row, w3)
      \<and> tx_lift (validateRunCorrelationLink (runRow_link row)) w3 = Inr (u4, w4)
      \<and> ids_New ''job'' w4 = Inr (jid, w5) \<and> insert_job_row (queued_job_row run jid tr) w5 = Inr (u6, w6)
      \<and> appendRunEventTx (qr_sessionID run) (qr_runID run) tr ''agent.run.queued'' (Some pl) ?at w6 = Inr (e, w')"
    unfolding insertQueuedRunTx_def tx_bind_Inr_iff tx_then_Inr_iff by blast
  then obtain c w0 tr w1 u2 w2 row w3 u4 w4 jid w5 u6 w6 pl where
      c: "tx_lift (ParseCanonical ?at) w = Inr (c, w0)" and tr: "ids_New ''trace'' w0 = Inr (tr, w1)"
    and i: "insert_agent_run (queued_run_row run tr (UnixNano c)) w1 = Inr (u2, w2)"
    and rd: "readRunRow (qr_runID run) w2 = Inr (row, w3)"
    and v: "tx_lift (validateRunCorrelationLink (runRow_link row)) w3 = Inr (u4, w4)"
    and j: "ids_New ''job'' w4 = Inr (jid, w5)" and ij: "insert_job_row (queued_job_row run jid tr) w5 = Inr (u6, w6)"
    and ev: "appendRunEventTx (qr_sessionID run) (qr_runID run) tr ''agent.run.queued'' (Some pl) ?at w6 = Inr (e, w')"
    by blast
  let ?r = "queued_run_row run tr (UnixNano c)" and ?j = "queued_job_row run jid tr"
  have new: "run_new ?r" using c by (intro run_new_queued_run_row) (simp split: sum.splits)
  have w4: "w4 = w2" using readRunRow_Inr [OF rd] v by (simp split: sum.splits)
  note i' = insert_agent_run_Inr [OF i] and j' = insert_job_row_Inr [OF ij]
  let ?v = "w1\<lparr>ulids_drawn := Suc (ulids_drawn w1)\<rparr>"
  have w6: "w6 = ?v\<lparr>agent_runs := agent_runs ?v @ [?r], jobs := jobs ?v @ [?j]\<rparr>"
    and fresh: "job_id ?j \<notin> set (map job_id (jobs ?v))"
    using i' j' j w4 by (auto simp: ids_New_def)
  have "R w w1" using c tr within_ids_New by (auto dest: tx_withinD split: sum.splits)
  moreover have "R w1 ?v" by (rule frame_keys) (simp_all add: same_keys_def)
  moreover have "R ?v w6" unfolding w6 using i' fresh new
    by (intro queued_run_and_job) (simp_all add: queued_run_row_def queued_job_row_def)
  moreover have "R w6 w'" using within_events(1) ev by (rule tx_withinD)
  ultimately show "R w w'" using step_trans by blast
qed

lemma within_mark_joined: "tx_within R (mark_joined d)"
  unfolding mark_joined_def
  by (intro within_modify frame_keys) (simp_all add: same_keys_def map_update_where dg_link_def)

lemma within_continuation: "tx_within R (runTeamContinuation rid)" "tx_within R (continuationInheritanceTx rid ts)"
  unfolding runTeamContinuation_def continuationInheritanceTx_def Let_def
  by (intro within_bind within_query_row within_case_option within_return within_fail,
      intro within_bind within_query_row, auto intro: within_return within_fail split: option.splits)

lemma within_perform_join: "tx_within R (perform_join p r)"
  unfolding perform_join_def Let_def joinedDelegationsTx_def finish_delegation_def
  by (intro within_bind within_gets within_continuation within_rand_nonce within_lift within_ids_New
      within_insertSessionAnchorTx within_map within_then within_mark_joined within_events
      within_insertQueuedRunTx within_return)

lemma within_maybeJoinTx: "tx_within R (maybeJoinTx rid)"
  unfolding maybeJoinTx_def join_parent_def join_parent_row_def
  by (intro within_bind within_query_opt within_gets within_if within_return within_case_option
      within_case_prod within_perform_join)

lemmas within_delegation =
  within_reportDelegationTx within_delegationUpdatedTx within_insertSessionAnchorTx
  within_insertQueuedRunTx within_maybeJoinTx

end

end
