(* ===== verification/RunTransitions.thy ===== *)
theory RunTransitions
  imports DelegationLifecycle
begin

text \<open>
  The complete guarded transition and the writers built on it (\<^verbatim>\<open>run_state.go\<close>,
  \<^verbatim>\<open>run_terminal.go\<close>, \<^verbatim>\<open>runs.go\<close>, \<^verbatim>\<open>stopDelegatedTasksTx\<close> of \<^verbatim>\<open>delegation_lifecycle.go\<close>).

  A failed or cancelled run stops its delegated tasks, and each stop is itself a guarded
  transition, so \<^verbatim>\<open>applyRunTransitionTx\<close>, \<^verbatim>\<open>cancelRunTx\<close> and \<^verbatim>\<open>stopDelegatedTasksTx\<close> are
  mutually recursive. The recursion runs down the delegation tree; \<open>apply_fuel n\<close> allows
  \<open>n\<close> levels and \<^verbatim>\<open>applyRunTransitionTx\<close> supplies one more than the number of delegations,
  which the lemmas at the end show is always enough.
\<close>

section \<open>Terminal inputs\<close>

record RunTokenUsage =
  us_InputTokens :: "int option"
  us_OutputTokens :: "int option"

record CompleteRunInput =
  cri_RunID :: string
  cri_AssistantMessageID :: string
  cri_Content :: string
  cri_ExpectedStateVersion :: int
  cri_Usage :: "RunTokenUsage option"
  cri_resolveVersionInTx :: bool

record FailRunInput =
  fri_RunID :: string
  fri_AssistantMessageID :: string
  fri_ExpectedStateVersion :: int
  fri_Failure :: Failure
  fri_PreserveExecution :: bool
  fri_leaveExecutionUntouched :: bool
  fri_allowedFrom :: "string list"
  fri_resolveVersionInTx :: bool
  fri_queueWaitReason :: string

record CancelRunInput =
  xri_RunID :: string
  xri_AssistantMessageID :: string
  xri_ExpectedStateVersion :: int
  xri_Cancellation :: Cancellation
  xri_resolveVersionInTx :: bool
  xri_queueWaitReason :: string

definition terminalExpectation :: "int \<Rightarrow> bool \<Rightarrow> int result" where
  "terminalExpectation expected transactionLocal =
     (if transactionLocal then Inr unresolvedStateVersion
      else if expected < 1 then Inl ErrRunStateVersionInvalid else Inr expected)"

definition terminalContentIdentity :: "runRow \<Rightarrow> string \<Rightarrow> string \<Rightarrow> bool \<Rightarrow> runTerminalContent" where
  "terminalContentIdentity row assistantMessageID content write =
     (if write \<and> assistantMessageID \<noteq> ''''
      then \<lparr>tc_assistantMessageID = assistantMessageID, tc_content = content, tc_write = True,
            tc_sha256 = ContentSHA256 content, tc_hasDisplayable = HasDisplayableContent content\<rparr>
      else \<lparr>tc_assistantMessageID = assistantMessageID, tc_content = '''', tc_write = False,
            tc_sha256 = ContentSHA256 (rr_messageContent row),
            tc_hasDisplayable = HasDisplayableContent (rr_messageContent row)\<rparr>)"

definition nonterminal_lifecycles :: "string list" where
  "nonterminal_lifecycles = [lifecycleQueued, lifecycleRunning, lifecycleWaitingApproval, lifecycleRecovering]"

definition open_job :: "string \<Rightarrow> job \<Rightarrow> bool" where
  "open_job rid j \<longleftrightarrow> job_run_id j = rid \<and> job_status j \<in> set [''pending'', ''in_progress'']"

section \<open>Cancellation and the stop of delegated tasks\<close>

definition cancelTransition :: "CancelRunInput \<Rightarrow> int \<Rightarrow> runTerminalContent \<Rightarrow> runTransition" where
  "cancelTransition input expected content = zero_transition\<lparr>
     rt_runID := xri_RunID input, rt_expectedVersion := expected,
     rt_transactionLocal := xri_resolveVersionInTx input, rt_allowedFrom := nonterminal_lifecycles,
     rt_to := lifecycleCancelled, rt_reason := Cancellation_Reason (xri_Cancellation input),
     rt_terminal := Some content, rt_queueWaitReason := xri_queueWaitReason input,
     rt_rejection := Some ErrRunNotCancellable,
     rt_extraSet := (\<lambda>_ r. r\<lparr>run_cancellation_reason := Some (Cancellation_Code (xri_Cancellation input))\<rparr>),
     rt_eventType := ''agent.run.cancelled'',
     rt_eventPayload := [(''runId'', JStr (xri_RunID input)),
       (''reason'', JStr (Cancellation_Reason (xri_Cancellation input)))]\<rparr>"

definition cancelSubsidiary :: "CancelRunInput \<Rightarrow> subsidiary" where
  "cancelSubsidiary input state at =
     tx_bind (failPendingApprovalLifecycleTx (xri_RunID input) (Cancellation_Reason (xri_Cancellation input)) ''cancelled'' at) (\<lambda>evs.
     tx_then (tx_modify (\<lambda>w. w\<lparr>jobs := update_where (open_job (xri_RunID input))
       (\<lambda>j. j\<lparr>job_status := ''cancelled'', job_finished_at := Some at, job_error_code := Some ''cancelled'',
              job_error_message := nullableText (Cancellation_Code (xri_Cancellation input)),
              job_lease_owner := None, job_lease_expires_at := None, job_lease_expires_at_ns := None\<rparr>) (jobs w)\<rparr>))
     (tx_return evs))"

type_synonym apply_fun = "runTransition \<Rightarrow> subsidiary \<Rightarrow> RunTransitionResult wtx"

definition cancelRunWith :: "apply_fun \<Rightarrow> CancelRunInput \<Rightarrow> RunTransitionResult wtx" where
  "cancelRunWith app input =
     tx_bind (tx_lift (terminalExpectation (xri_ExpectedStateVersion input) (xri_resolveVersionInTx input))) (\<lambda>expected.
     tx_bind (readRunRow (xri_RunID input)) (\<lambda>row.
     app (cancelTransition input expected (terminalContentIdentity row (xri_AssistantMessageID input) '''' False))
       (cancelSubsidiary input)))"

definition parent_ended_input :: "string \<Rightarrow> CancelRunInput" where
  "parent_ended_input childRunID = \<lparr>xri_RunID = childRunID, xri_AssistantMessageID = '''',
     xri_ExpectedStateVersion = 0, xri_Cancellation = ParentEndedCancellation,
     xri_resolveVersionInTx = True, xri_queueWaitReason = ''''\<rparr>"

text \<open>The tasks to stop, in the order they were asked for.\<close>

definition unfinished_tasks :: "string \<Rightarrow> world \<Rightarrow> (string \<times> string) list" where
  "unfinished_tasks rid w =
     map (\<lambda>(d, child). (dg_child_run_id d, specialistName (child_emoji d w) (child_name d w)))
       (sort_key (\<lambda>(d, child). (dg_created_at d, dg_id d))
         (filter (\<lambda>(d, child). \<not> isTerminalLifecycle (run_status child))
           (delegation_view (\<lambda>d. dg_parent_run_id d = rid) w)))"

fun distinct_names :: "string list \<Rightarrow> string list \<Rightarrow> string list" where
  "distinct_names acc [] = acc"
| "distinct_names acc (n # ns) = distinct_names (if n \<in> set acc then acc else acc @ [n]) ns"

definition stop_tasks :: "apply_fun \<Rightarrow> string list \<Rightarrow> Event list list wtx" where
  "stop_tasks app = tx_map (\<lambda>child. tx_bind (cancelRunWith app (parent_ended_input child))
     (\<lambda>cancelled. tx_return (tr_Events cancelled)))"

definition stop_notice :: "string \<Rightarrow> string list \<Rightarrow> unit wtx" where
  "stop_notice rid names =
     tx_bind (run_session_state rid) (\<lambda>(sessionID, deletionState, _).
     if deletionState = ''active''
     then insertSessionMessageTx sessionID ''system'' DelegationNoticeContentType
       (''Turing'' @ [CHR 0x27] @ ''s turn ended before these specialists finished, so their work was stopped: ''
        @ Join (distinct_names [] names) '', '' @ ''.'')
     else tx_return ())"

definition stopDelegatedTasksWith :: "apply_fun \<Rightarrow> string \<Rightarrow> (string list \<times> Event list) wtx" where
  "stopDelegatedTasksWith app rid =
     tx_bind (tx_gets (unfinished_tasks rid)) (\<lambda>tasks.
     if tasks = [] then tx_return ([], [])
     else
       tx_bind (stop_tasks app (map fst tasks)) (\<lambda>evss.
       tx_then (stop_notice rid (map snd tasks))
         (tx_return (map fst tasks, concat evss))))"

section \<open>The transition\<close>

definition apply_delegation ::
  "apply_fun \<Rightarrow> runTransition \<Rightarrow> runRow \<Rightarrow> RunState \<times> string \<times> Event list \<Rightarrow> RunTransitionResult wtx" where
  "apply_delegation app t row = (\<lambda>(committed, at, events0).
     tx_bind (delegationUpdatedTx (rt_runID t) (rr_lifecycle row) (rt_to t) at) (\<lambda>updated.
     tx_bind (if rt_to t = lifecycleFailed \<or> rt_to t = lifecycleCancelled
              then stopDelegatedTasksWith app (rt_runID t) else tx_return ([], [])) (\<lambda>(stopped, stopping).
     tx_bind (if isTerminalLifecycle (rt_to t) then maybeJoinTx (rt_runID t) else tx_return ('''', [])) (\<lambda>(continuation, joined).
     tx_return \<lparr>tr_State = committed, tr_Events = events0 @ updated @ stopping @ joined, tr_Duplicate = False,
        tr_Delegation = updated @ stopping @ joined, tr_StoppedTasks = stopped,
        tr_ContinuationRunID = continuation\<rparr>))))"

definition applyWith :: "apply_fun \<Rightarrow> apply_fun" where
  "applyWith app t subsidiary =
     tx_bind (apply_check t) (\<lambda>(row, dup).
     if dup then tx_return \<lparr>tr_State = runRow_state row, tr_Events = [], tr_Duplicate = True,
        tr_Delegation = [], tr_StoppedTasks = [], tr_ContinuationRunID = ''''\<rparr>
     else tx_bind (apply_commit t subsidiary row) (apply_delegation app t row))"

fun apply_fuel :: "nat \<Rightarrow> apply_fun" where
  "apply_fuel 0 t subsidiary = tx_fail ErrDepthExhausted"
| "apply_fuel (Suc n) t subsidiary = applyWith (apply_fuel n) t subsidiary"

definition applyRunTransitionTx :: apply_fun where
  "applyRunTransitionTx t subsidiary w = apply_fuel (Suc (length (delegations w))) t subsidiary w"

definition no_subsidiary :: subsidiary where
  "no_subsidiary state at = tx_return []"

definition runInTransition :: apply_fun where
  "runInTransition t subsidiary = applyRunTransitionTx t subsidiary"

section \<open>Writers\<close>

definition FenceRunOwnership :: "string \<Rightarrow> int \<Rightarrow> string \<Rightarrow> string \<Rightarrow> RunTransitionResult wtx" where
  "FenceRunOwnership rid expectedVersion workerID attemptID =
     runInTransition (fenceOwnershipTransition rid expectedVersion
       (no_identity\<lparr>ti_workerID := workerID, ti_assignmentAttemptID := attemptID\<rparr>) ''uncertain'') no_subsidiary"

definition ResumeRecoveringRun :: "string \<Rightarrow> int \<Rightarrow> string \<Rightarrow> string \<Rightarrow> RunTransitionResult wtx" where
  "ResumeRecoveringRun rid expectedVersion workerID attemptID =
     runInTransition (resumeRecoveringTransition rid expectedVersion workerID attemptID) no_subsidiary"

definition RequeueRecoveringRun :: "string \<Rightarrow> int \<Rightarrow> string \<Rightarrow> RunTransitionResult wtx" where
  "RequeueRecoveringRun rid expectedVersion attemptID =
     runInTransition (requeueRecoveringTransition rid expectedVersion
       (no_identity\<lparr>ti_assignmentAttemptID := attemptID\<rparr>)) no_subsidiary"

definition markRunningTransition :: "string \<Rightarrow> runTransition" where
  "markRunningTransition rid = zero_transition\<lparr>rt_runID := rid,
     rt_expectedVersion := unresolvedStateVersion, rt_transactionLocal := True,
     rt_allowedFrom := [lifecycleQueued], rt_to := lifecycleRunning, rt_reason := ReasonNone,
     rt_extraSet := (\<lambda>at r. r\<lparr>run_started_at := coalesce (run_started_at r) at\<rparr>)\<rparr>"

definition MarkRunRunning :: "string \<Rightarrow> unit wtx" where
  "MarkRunRunning rid =
     tx_then (runInTransition (markRunningTransition rid) (\<lambda>state at.
       (let p = (\<lambda>j. job_run_id j = rid \<and> job_status j = ''pending'') in
        tx_bind (tx_gets (\<lambda>w. rows_affected p (jobs w))) (\<lambda>n.
        tx_then (tx_modify (\<lambda>w. w\<lparr>jobs := update_where p
            (\<lambda>j. j\<lparr>job_status := ''in_progress'', job_picked_up_at := Some at\<rparr>) (jobs w)\<rparr>)) (
        tx_then (expectOneRow n ''pending job not found for run'') (tx_return []))))))
     (tx_return ())"

definition nonNegativeNullInt64 :: "int option \<Rightarrow> int option" where
  "nonNegativeNullInt64 v = (case v of None \<Rightarrow> None | Some n \<Rightarrow> if n < 0 then None else Some n)"

definition appendRunMessageCompletedTx :: "runRow \<Rightarrow> string \<Rightarrow> string \<Rightarrow> string \<Rightarrow> Event wtx" where
  "appendRunMessageCompletedTx row assistantMessageID content at =
     appendRunEventTx (rr_sessionID row) (rr_runID row) (rr_traceID row) ''message.completed''
       (Some (JObj [(''messageId'', JStr assistantMessageID), (''content'', JStr content)])) at"

definition completeTransition :: "CompleteRunInput \<Rightarrow> int \<Rightarrow> runTerminalContent \<Rightarrow> runTransition" where
  "completeTransition input expected content = zero_transition\<lparr>
     rt_runID := cri_RunID input, rt_expectedVersion := expected,
     rt_transactionLocal := cri_resolveVersionInTx input,
     rt_allowedFrom := [lifecycleRunning, lifecycleWaitingApproval, lifecycleRecovering],
     rt_to := lifecycleCompleted,
     rt_reason := (if \<not> tc_hasDisplayable content then ReasonCompletedNoContent else ReasonNone),
     rt_terminal := Some content, rt_rejection := Some ErrRunNotCompletable,
     rt_extraSet := (\<lambda>at r. r\<lparr>
       run_input_tokens := (case cri_Usage input of None \<Rightarrow> None | Some u \<Rightarrow> nonNegativeNullInt64 (us_InputTokens u)),
       run_output_tokens := (case cri_Usage input of None \<Rightarrow> None | Some u \<Rightarrow> nonNegativeNullInt64 (us_OutputTokens u)),
       run_execution_active := False,
       run_execution_exit_acknowledged_at := coalesce (run_execution_exit_acknowledged_at r) at,
       run_execution_state := ''exited'', run_execution_lease_expires_at := None,
       run_execution_lease_expires_at_ns := None\<rparr>),
     rt_eventType := ''agent.run.completed'',
     rt_eventPayload := [(''runId'', JStr (cri_RunID input))]
       @ (if cri_AssistantMessageID input \<noteq> ''''
          then [(''assistantMessageId'', JStr (cri_AssistantMessageID input))] else [])\<rparr>"

definition completeSubsidiary :: "CompleteRunInput \<Rightarrow> runRow \<Rightarrow> subsidiary" where
  "completeSubsidiary input row state at =
     tx_then (tx_modify (\<lambda>w. w\<lparr>jobs := update_where (open_job (cri_RunID input))
       (\<lambda>j. j\<lparr>job_status := ''completed'', job_finished_at := Some at, job_lease_owner := None,
              job_lease_expires_at := None, job_lease_expires_at_ns := None\<rparr>) (jobs w)\<rparr>)) (
     tx_bind (failPendingApprovalLifecycleTx (cri_RunID input) ReasonToolFailure ''tool_call_failed'' at) (\<lambda>evs.
     if cri_AssistantMessageID input \<noteq> '''' \<and> rs_HasDisplayableContent state
     then tx_bind (appendRunMessageCompletedTx row (cri_AssistantMessageID input) (cri_Content input) at)
            (\<lambda>ev. tx_return (evs @ [ev]))
     else tx_return evs))"

definition completeRunTx :: "CompleteRunInput \<Rightarrow> RunTransitionResult wtx" where
  "completeRunTx input =
     tx_bind (tx_lift (terminalExpectation (cri_ExpectedStateVersion input) (cri_resolveVersionInTx input))) (\<lambda>expected.
     tx_bind (readRunRow (cri_RunID input)) (\<lambda>row.
     applyRunTransitionTx (completeTransition input expected
         (terminalContentIdentity row (cri_AssistantMessageID input) (cri_Content input) True))
       (completeSubsidiary input row)))"

definition CompleteRunCanonical :: "CompleteRunInput \<Rightarrow> RunTransitionResult wtx" where
  "CompleteRunCanonical input = completeRunTx input"

definition terminalFailurePayload :: "string \<Rightarrow> Failure \<Rightarrow> (string \<times> json) list" where
  "terminalFailurePayload rid failure =
     [(''runId'', JStr rid), (''code'', JStr (Failure_Code failure)), (''retryable'', JBool False)]"

text \<open>The execution columns of a failure: untouched, preserved for a live worker, or closed.\<close>

definition fail_execution :: "FailRunInput \<Rightarrow> string \<Rightarrow> agent_run \<Rightarrow> agent_run" where
  "fail_execution input at r =
     (let r1 = r\<lparr>run_error_code := Some (Failure_Code (fri_Failure input)), run_error_message := None\<rparr> in
      if fri_leaveExecutionUntouched input then r1
      else if fri_PreserveExecution input then
        r1\<lparr>run_execution_exit_acknowledged_at :=
             (if run_execution_active r then run_execution_exit_acknowledged_at r
              else coalesce (run_execution_exit_acknowledged_at r) at),
           run_execution_state := (if run_execution_active r then ''uncertain'' else ''exited''),
           run_execution_lease_expires_at :=
             (if run_execution_active r then run_execution_lease_expires_at r else None),
           run_execution_lease_expires_at_ns :=
             (if run_execution_active r then run_execution_lease_expires_at_ns r else None)\<rparr>
      else
        r1\<lparr>run_execution_active := False,
           run_execution_exit_acknowledged_at := coalesce (run_execution_exit_acknowledged_at r) at,
           run_execution_state := ''exited'', run_execution_lease_expires_at := None,
           run_execution_lease_expires_at_ns := None\<rparr>)"

definition failTransition :: "FailRunInput \<Rightarrow> int \<Rightarrow> runTerminalContent \<Rightarrow> runTransition" where
  "failTransition input expected content = zero_transition\<lparr>
     rt_runID := fri_RunID input, rt_expectedVersion := expected,
     rt_transactionLocal := fri_resolveVersionInTx input,
     rt_allowedFrom := (if fri_allowedFrom input = [] then nonterminal_lifecycles else fri_allowedFrom input),
     rt_to := lifecycleFailed, rt_reason := Failure_Reason (fri_Failure input),
     rt_terminal := Some content, rt_queueWaitReason := fri_queueWaitReason input,
     rt_rejection := Some ErrRunNotFailable, rt_extraSet := fail_execution input,
     rt_eventType := ''agent.run.failed'',
     rt_eventPayload := terminalFailurePayload (fri_RunID input) (fri_Failure input)\<rparr>"

definition failSubsidiary :: "FailRunInput \<Rightarrow> subsidiary" where
  "failSubsidiary input state at =
     tx_bind (failPendingApprovalLifecycleTx (fri_RunID input) (Failure_Reason (fri_Failure input))
         (Failure_Code (fri_Failure input)) at) (\<lambda>evs.
     tx_then (tx_modify (\<lambda>w. w\<lparr>jobs := update_where (open_job (fri_RunID input))
       (\<lambda>j. j\<lparr>job_status := ''failed'', job_finished_at := Some at,
              job_error_code := Some (Failure_Code (fri_Failure input)), job_error_message := None,
              job_lease_owner := None, job_lease_expires_at := None, job_lease_expires_at_ns := None\<rparr>) (jobs w)\<rparr>))
     (tx_return evs))"

definition failRunTx :: "FailRunInput \<Rightarrow> RunTransitionResult wtx" where
  "failRunTx input =
     tx_bind (tx_lift (terminalExpectation (fri_ExpectedStateVersion input) (fri_resolveVersionInTx input))) (\<lambda>expected.
     tx_bind (readRunRow (fri_RunID input)) (\<lambda>row.
     applyRunTransitionTx (failTransition input expected
         (terminalContentIdentity row (fri_AssistantMessageID input) '''' False))
       (failSubsidiary input)))"

definition FailRunCanonical :: "FailRunInput \<Rightarrow> RunTransitionResult wtx" where
  "FailRunCanonical input = failRunTx input"

definition cancelRunTx :: "CancelRunInput \<Rightarrow> RunTransitionResult wtx" where
  "cancelRunTx input = cancelRunWith applyRunTransitionTx input"

definition CancelRunCanonical :: "CancelRunInput \<Rightarrow> RunTransitionResult wtx" where
  "CancelRunCanonical input = cancelRunTx input"

definition AcknowledgeExecutionExit :: "string \<Rightarrow> unit wtx" where
  "AcknowledgeExecutionExit rid =
     tx_bind now_text (\<lambda>acknowledgedAt.
     let p = (\<lambda>r. run_id r = rid \<and> run_status r \<in> set [''completed'', ''failed'', ''cancelled'']
                  \<and> run_execution_active r) in
     tx_bind (tx_gets (\<lambda>w. rows_affected p (agent_runs w))) (\<lambda>changed.
     tx_then (tx_modify (\<lambda>w. w\<lparr>agent_runs := update_where p
         (\<lambda>r. r\<lparr>run_execution_active := False,
           run_execution_exit_acknowledged_at := coalesce (run_execution_exit_acknowledged_at r) acknowledgedAt,
           run_execution_state := ''exited'', run_execution_lease_expires_at := None,
           run_execution_lease_expires_at_ns := None\<rparr>) (agent_runs w)\<rparr>)) (
     if changed = 0 then
       tx_bind (query_row (\<lambda>w. filter (\<lambda>r. run_id r = rid) (agent_runs w))) (\<lambda>r.
       if run_status r \<notin> set [''completed'', ''failed'', ''cancelled''] then tx_fail ErrRunNotActive
       else tx_return ())
     else tx_return ())))"


section \<open>The constructors are well formed\<close>

lemmas transition_constructors =
  cancelTransition_def completeTransition_def failTransition_def fenceOwnershipTransition_def
  fenceOwnershipTransitionInTx_def resumeRecoveringTransition_def requeueTransition_def
  requeueRecoveringTransition_def requeueRecoveringTransitionInTx_def releaseRunningTransition_def
  releaseRunningTransitionInTx_def markRunningTransition_def zero_transition_def

lemma same_state_fail_execution: "same_state r (fail_execution input at r)"
  by (simp add: fail_execution_def same_state_def same_identity_def Let_def)

text \<open>A failure may narrow the lifecycles it starts from, never to a terminal one.\<close>

definition fail_input_ok :: "FailRunInput \<Rightarrow> bool" where
  "fail_input_ok input \<longleftrightarrow> list_all (\<lambda>lc. lc \<in> set nonterminal_lifecycles) (fri_allowedFrom input)"

lemma transition_ok_constructors [simp]:
  "transition_ok (cancelTransition ci v c)"
  "transition_ok (completeTransition co v c)"
  "transition_ok (fenceOwnershipTransition r v idt x)"
  "transition_ok (fenceOwnershipTransitionInTx r idt x)"
  "transition_ok (resumeRecoveringTransition r v wk at)"
  "transition_ok (requeueRecoveringTransition r v idt)"
  "transition_ok (requeueRecoveringTransitionInTx r idt)"
  "transition_ok (releaseRunningTransition r v idt)"
  "transition_ok (releaseRunningTransitionInTx r idt)"
  "transition_ok (markRunningTransition r)"
  by (simp_all add: transition_ok_def transition_constructors nonterminal_lifecycles_def
      same_state_def same_identity_def lifecycle_edge_def)

lemma transition_ok_failTransition [simp]:
  "fail_input_ok fi \<Longrightarrow> transition_ok (failTransition fi v c)"
  by (auto simp: transition_ok_def failTransition_def zero_transition_def nonterminal_lifecycles_def
      same_state_fail_execution fail_input_ok_def list_all_iff lifecycle_edge_def)

section \<open>Within any transition relation\<close>

definition apply_within :: "(world \<Rightarrow> world \<Rightarrow> bool) \<Rightarrow> apply_fun \<Rightarrow> bool" where
  "apply_within R app \<longleftrightarrow> (\<forall>t subsidiary. transition_ok t \<longrightarrow>
     (\<forall>st at. tx_within R (subsidiary st at)) \<longrightarrow> tx_within R (app t subsidiary))"

context transition_relation
begin

lemma within_cancelSubsidiary: "tx_within R (cancelSubsidiary input st at)"
  unfolding cancelSubsidiary_def
  by (intro within_bind within_failPendingApprovalLifecycleTx within_then within_return within_close_jobs)
    (simp add: closed_job_def)

lemma within_failSubsidiary: "tx_within R (failSubsidiary input st at)"
  unfolding failSubsidiary_def
  by (intro within_bind within_failPendingApprovalLifecycleTx within_then within_return within_close_jobs)
    (simp add: closed_job_def)

lemma within_completeSubsidiary: "tx_within R (completeSubsidiary input row st at)"
  unfolding completeSubsidiary_def appendRunMessageCompletedTx_def
  by (intro within_bind within_failPendingApprovalLifecycleTx within_then within_return within_if
      within_events within_close_jobs)
    (simp add: closed_job_def)

lemma within_cancelRunWith: "apply_within R app \<Longrightarrow> tx_within R (cancelRunWith app input)"
  unfolding cancelRunWith_def apply_within_def
  by (intro within_bind within_lift within_readRunRow) (simp add: within_cancelSubsidiary)

lemma within_stop_notice: "tx_within R (stop_notice rid names)"
  unfolding stop_notice_def
  by (intro within_bind within_run_session_state within_case_prod within_if within_insertSessionMessageTx within_return)

lemma within_stopDelegatedTasksWith: "apply_within R app \<Longrightarrow> tx_within R (stopDelegatedTasksWith app rid)"
  unfolding stopDelegatedTasksWith_def stop_tasks_def
  by (intro within_bind within_gets within_if within_return within_map within_cancelRunWith
      within_then within_stop_notice)

lemma within_apply_delegation: "apply_within R app \<Longrightarrow> tx_within R (apply_delegation app t row res)"
  unfolding apply_delegation_def
  by (intro within_case_prod within_bind within_delegation within_if within_return
      within_stopDelegatedTasksWith)

lemma within_applyWith:
  assumes "apply_within R app" "transition_ok t" "\<And>st at. tx_within R (subsidiary st at)"
  shows "tx_within R (applyWith app t subsidiary)"
proof (rule tx_withinI)
  fix w res w' assume run: "applyWith app t subsidiary w = Inr (res, w')"
  then obtain row dup w0 where chk: "apply_check t w = Inr ((row, dup), w0)"
    and rest: "(if dup then tx_return \<lparr>tr_State = runRow_state row, tr_Events = [], tr_Duplicate = True,
        tr_Delegation = [], tr_StoppedTasks = [], tr_ContinuationRunID = ''''\<rparr>
     else tx_bind (apply_commit t subsidiary row) (apply_delegation app t row)) w0 = Inr (res, w')"
    unfolding applyWith_def by (elim tx_bindE) (simp split: prod.splits)
  show "R w w'"
  proof (cases dup)
    case True
    then show ?thesis using rest apply_check_Inr(1) [OF chk] step_refl by simp
  next
    case False
    with rest obtain x w1 where c: "apply_commit t subsidiary row w0 = Inr (x, w1)"
      and d: "apply_delegation app t row x w1 = Inr (res, w')"
      by (auto elim!: tx_bindE)
    have "R w w1" using apply_commit_step [OF _ assms(2,3) c] chk False by simp
    moreover have "R w1 w'" using within_apply_delegation [OF assms(1)] d by (rule tx_withinD)
    ultimately show ?thesis by (rule step_trans)
  qed
qed

lemma apply_within_fuel: "apply_within R (apply_fuel n)"
proof (induction n)
  case 0
  show ?case by (simp add: apply_within_def tx_within_def)
next
  case (Suc n)
  then show ?case unfolding apply_within_def [of R "apply_fuel (Suc n)"] by (simp add: within_applyWith)
qed

lemma apply_within_applyRunTransitionTx: "apply_within R applyRunTransitionTx"
  using apply_within_fuel unfolding apply_within_def applyRunTransitionTx_def tx_within_def by blast

lemma within_applyRunTransitionTx:
  "transition_ok t \<Longrightarrow> (\<And>st at. tx_within R (subsidiary st at)) \<Longrightarrow>
   tx_within R (applyRunTransitionTx t subsidiary)"
  using apply_within_applyRunTransitionTx by (simp add: apply_within_def)

lemma within_no_subsidiary: "tx_within R (no_subsidiary st at)"
  unfolding no_subsidiary_def by (rule within_return)

lemma within_writers:
  "tx_within R (FenceRunOwnership rid v wk at)"
  "tx_within R (ResumeRecoveringRun rid v wk at)"
  "tx_within R (RequeueRecoveringRun rid v at)"
  unfolding FenceRunOwnership_def ResumeRecoveringRun_def RequeueRecoveringRun_def runInTransition_def
  by (simp_all add: within_applyRunTransitionTx within_no_subsidiary)

lemma within_completeRunTx: "tx_within R (completeRunTx input)"
  unfolding completeRunTx_def
  by (intro within_bind within_lift within_readRunRow within_applyRunTransitionTx within_completeSubsidiary) simp

lemma within_failRunTx: "fail_input_ok input \<Longrightarrow> tx_within R (failRunTx input)"
  unfolding failRunTx_def
  by (intro within_bind within_lift within_readRunRow within_applyRunTransitionTx within_failSubsidiary) simp

lemma within_cancelRunTx: "tx_within R (cancelRunTx input)"
  unfolding cancelRunTx_def by (rule within_cancelRunWith [OF apply_within_applyRunTransitionTx])

lemma within_AcknowledgeExecutionExit: "tx_within R (AcknowledgeExecutionExit rid)"
  unfolding AcknowledgeExecutionExit_def Let_def
  by (intro within_bind within_now_text within_gets within_then within_if within_query_row within_fail
      within_return within_modify side_update) (simp add: same_state_def same_identity_def)

lemmas within_terminal_writers =
  within_completeRunTx within_failRunTx within_cancelRunTx within_AcknowledgeExecutionExit

end

context store_relation
begin

lemma within_any_jobs:
  "(\<And>j. p j \<Longrightarrow> job_id (f j) = job_id j) \<Longrightarrow>
   tx_within R (tx_modify (\<lambda>w. w\<lparr>jobs := update_where p f (jobs w)\<rparr>))"
  by (intro within_modify any_keys) (simp_all add: same_keys_def map_update_where)

lemma within_MarkRunRunning: "tx_within R (MarkRunRunning rid)"
  unfolding MarkRunRunning_def runInTransition_def Let_def
  by (intro within_then within_return within_applyRunTransitionTx within_bind within_gets
      within_expectOneRow within_any_jobs) simp_all

end

end
