(* ===== verification/TransitionEffects.thy ===== *)
theory TransitionEffects
  imports RunTransitions
begin

text \<open>
  What a committed transition leaves behind: the row is in the new lifecycle, a terminal
  transition has closed the work of its run, a failed or cancelled run has no unfinished
  delegated task, and the recursion over the delegation tree never runs out of levels, so
  \<open>applyRunTransitionTx\<close> satisfies the equation the code is written as.
\<close>

section \<open>Congruence of transactions\<close>

lemma tx_bind_cong_state:
  assumes "m w = m' w" "\<And>x w1. m' w = Inr (x, w1) \<Longrightarrow> f x w1 = g x w1"
  shows "tx_bind m f w = tx_bind m' g w"
  using assms by (simp add: tx_bind_def split: sum.splits prod.splits)

lemma tx_map_cong_state:
  assumes "I w" "\<And>x w. x \<in> set xs \<Longrightarrow> I w \<Longrightarrow> f x w = g x w"
    and "\<And>x w y w'. x \<in> set xs \<Longrightarrow> I w \<Longrightarrow> g x w = Inr (y, w') \<Longrightarrow> I w'"
  shows "tx_map f xs w = tx_map g xs w"
  using assms
proof (induction xs arbitrary: w)
  case (Cons x xs)
  have "tx_bind (f x) (\<lambda>y. tx_bind (tx_map f xs) (\<lambda>ys. tx_return (y # ys))) w
      = tx_bind (g x) (\<lambda>y. tx_bind (tx_map g xs) (\<lambda>ys. tx_return (y # ys))) w"
  proof (rule tx_bind_cong_state)
    show "f x w = g x w" using Cons.prems by simp
    fix y w1 assume "g x w = Inr (y, w1)"
    then have "I w1" using Cons.prems by (meson list.set_intros(1))
    then have "tx_map f xs w1 = tx_map g xs w1" using Cons.prems(2,3) by (intro Cons.IH) (simp, simp, meson list.set_intros(2))
    then show "tx_bind (tx_map f xs) (\<lambda>ys. tx_return (y # ys)) w1
        = tx_bind (tx_map g xs) (\<lambda>ys. tx_return (y # ys)) w1" by (rule tx_bind_cong_state) simp
  qed
  then show ?case by simp
qed simp

section \<open>The committed row\<close>

lemma run_id_transition_update:
  assumes "transition_ok t" "queueClockUpdate a b at = Inr queueSet"
  shows "run_id (transition_update t row at queueSet r) = run_id r"
    "run_status (transition_update t row at queueSet r) = rt_to t"
    "run_outcome_reason (transition_update t row at queueSet r) = rt_reason t"
    "run_state_version (transition_update t row at queueSet r) = rr_stateVersion row + 1"
    "run_state_updated_at (transition_update t row at queueSet r) = at"
  using assms(1) queueClockUpdate_cases [OF assms(2), of "rt_extraSet t at r"]
  by (auto simp: transition_update_def Let_def transition_ok_def same_state_def same_identity_def
      split: option.splits)

definition run_in :: "string \<Rightarrow> string \<Rightarrow> world \<Rightarrow> bool" where
  "run_in rid lc w \<longleftrightarrow> list_ex (\<lambda>r. run_id r = rid \<and> run_status r = lc) (agent_runs w)"

lemma terminal_run_in: "run_in rid lc w \<Longrightarrow> isTerminalLifecycle lc \<Longrightarrow> terminal_run rid w"
  by (auto simp: run_in_def terminal_run_def list_ex_iff)

lemma commit_row_run_in:
  assumes com: "commit_row t row w = Inr (at, w')" and ok: "transition_ok t"
  shows "run_in (rt_runID t) (rt_to t) w'"
proof -
  obtain w2 queueSet where q: "queueClockUpdate (rr_lifecycle row) (rt_to t) at = Inr queueSet"
    and n: "rows_affected (guarded_row t row) (agent_runs w2) = 1"
    and w': "w' = w2\<lparr>agent_runs :=
         update_where (guarded_row t row) (transition_update t row at queueSet) (agent_runs w2)\<rparr>"
    using commit_row_Inr [OF com] by blast
  have "filter (guarded_row t row) (agent_runs w2) \<noteq> []" using n by (auto simp: rows_affected_def)
  then obtain r where r: "r \<in> set (agent_runs w2)" "guarded_row t row r"
    unfolding filter_empty_conv by blast
  have "transition_update t row at queueSet r \<in> set (agent_runs w')"
    using in_update_where_hit [of r "agent_runs w2" "guarded_row t row", OF r] by (simp add: w')
  moreover have "run_id (transition_update t row at queueSet r) = rt_runID t"
    using run_id_transition_update(1) [OF ok q] r(2) by (simp add: guarded_row_def)
  ultimately show ?thesis
    using run_id_transition_update(2) [OF ok q] unfolding run_in_def list_ex_iff by blast
qed

text \<open>The checks found the run nonterminal.\<close>

lemma apply_check_nonterminal:
  assumes "db_ok w" "apply_check t w = Inr ((row, False), w0)" "transition_ok t"
  shows "\<not> terminal_run (rt_runID t) w"
proof -
  note c = apply_check_Inr [OF assms(2)]
  obtain r where r: "r \<in> set (agent_runs w)" "run_id r = rt_runID t"
    and row: "row = run_row_of r (assistant_message (rt_runID t) (messages w))"
    using readRunRow_Inr [OF c(4)] by blast
  have "run_status r \<in> set (rt_allowedFrom t)" using decide_transition_Inr [OF c(5)] row by simp
  then have "\<not> isTerminalLifecycle (run_status r)" using assms(3) by (simp add: transition_ok_def)
  then show ?thesis using not_terminal_unique [OF assms(1) r(1)] r(2) by simp
qed

text \<open>What holds after \<open>apply_commit\<close> of a terminal transition.\<close>

lemma apply_commit_terminal:
  assumes db: "db_ok w" and chk: "apply_check t w = Inr ((row, False), w0)" and ok: "transition_ok t"
    and sub: "\<And>st at. tx_within (under lineage) (subsidiary st at)"
    and com: "apply_commit t subsidiary row w0 = Inr (res, w')" and tm: "isTerminalLifecycle (rt_to t)"
  shows "db_ok w'" "lineage w w'" "terminal_run (rt_runID t) w'"
proof -
  have "under lineage w w'" by (rule lines.apply_commit_step [OF chk ok sub com])
  then show "db_ok w'" "lineage w w'" using db by (simp_all add: under_def)
  from com obtain at w1 where c: "commit_row t row w0 = Inr (at, w1)"
    and rest: "(let committed = committed_state t row at in
     tx_bind (subsidiary committed at) (\<lambda>events0.
     tx_bind (appendRunEventTx (rr_sessionID row) (rt_runID t) (rr_traceID row) (transitionEventType t)
                (Some (marshalRunStatePayload (rt_eventPayload t) committed)) at) (\<lambda>event.
     tx_return (committed, at, events0 @ [event])))) w1 = Inr (res, w')"
    unfolding apply_commit_def by (elim tx_bindE)
  have "under lineage w w1" by (rule lines.commit_row_step [OF chk ok c])
  then have "db_ok w1" using db by (simp add: under_def)
  moreover have "under lineage w1 w'"
    using rest by (rule tx_withinD [rotated])
      (unfold Let_def, intro lines.within_bind sub lines.within_events lines.within_return)
  ultimately have "run_history w1 w'" by (simp add: under_def lineage_def)
  then show "terminal_run (rt_runID t) w'"
    using terminal_run_in [OF commit_row_run_in [OF c ok] tm] by (rule run_history_terminal)
qed

section \<open>The delegation tree bounds the recursion\<close>

definition live_delegations :: "world \<Rightarrow> nat" where
  "live_delegations w = length (filter (\<lambda>d. \<not> terminal_run (dg_child_run_id d) w) (delegations w))"

definition child_runs :: "world \<Rightarrow> string set" where
  "child_runs w = set (map dg_child_run_id (delegations w))"

lemma live_delegations_links:
  "live_delegations w = length (filter (\<lambda>l. \<not> terminal_run (snd (snd l)) w) (map dg_link (delegations w)))"
  by (simp add: live_delegations_def filter_map comp_def dg_link_def)

lemma length_filter_mono: "(\<And>x. x \<in> set xs \<Longrightarrow> P x \<Longrightarrow> Q x) \<Longrightarrow> length (filter P xs) \<le> length (filter Q xs)"
  by (induction xs) auto

lemma length_filter_less:
  assumes "\<And>x. x \<in> set xs \<Longrightarrow> P x \<Longrightarrow> Q x" "y \<in> set xs" "Q y" "\<not> P y"
  shows "length (filter P xs) < length (filter Q xs)"
  using assms
proof (induction xs)
  case (Cons x xs)
  show ?case
  proof (cases "x = y")
    case True
    then show ?thesis using Cons.prems length_filter_mono [of xs P Q] by simp
  next
    case False
    then show ?thesis using Cons by auto
  qed
qed simp

lemma lineage_child_runs: "lineage w w' \<Longrightarrow> child_runs w' = child_runs w"
  unfolding child_runs_def lineage_def by (metis map_dg_link_child)

lemma lineage_length: "lineage w w' \<Longrightarrow> length (delegations w') = length (delegations w)"
  unfolding lineage_def by (metis length_map)

lemma lineage_live: "lineage w w' \<Longrightarrow> live_delegations w' \<le> live_delegations w"
  unfolding live_delegations_links lineage_def
  using run_history_terminal by (metis (no_types, lifting) length_filter_mono)

lemma lineage_live_less:
  assumes "lineage w w'" "c \<in> child_runs w" "\<not> terminal_run c w" "terminal_run c w'"
  shows "live_delegations w' < live_delegations w"
proof -
  obtain d where d: "d \<in> set (delegations w)" "dg_child_run_id d = c" using assms(2) by (auto simp: child_runs_def)
  then have l: "dg_link d \<in> set (map dg_link (delegations w))" by simp
  have lin: "map dg_link (delegations w') = map dg_link (delegations w)" "run_history w w'"
    using assms(1) by (simp_all add: lineage_def)
  show ?thesis unfolding live_delegations_links lin(1)
  proof (rule length_filter_less [OF _ l])
    show "\<not> terminal_run (snd (snd x)) w" if "\<not> terminal_run (snd (snd x)) w'" for x
      using that run_history_terminal [OF lin(2)] by blast
  qed (use assms(3,4) d(2) in \<open>simp_all add: dg_link_def\<close>)
qed

lemma unfinished_tasks_child:
  assumes "db_ok w" "c \<in> set (map fst (unfinished_tasks rid w))"
  shows "c \<in> child_runs w" "\<not> terminal_run c w"
proof -
  obtain d r where d: "d \<in> set (delegations w)" "dg_child_run_id d = c" and r: "r \<in> set (agent_runs w)" "run_id r = c"
    and live: "\<not> isTerminalLifecycle (run_status r)"
    using assms(2) by (fastforce simp: unfinished_tasks_def delegation_view_def)
  show "c \<in> child_runs w" using d by (auto simp: child_runs_def)
  show "\<not> terminal_run c w" using not_terminal_unique [OF assms(1) r(1) live] r(2) by simp
qed

lemma no_live_no_tasks:
  assumes "db_ok w" "live_delegations w = 0"
  shows "unfinished_tasks rid w = []"
proof (rule ccontr)
  assume "unfinished_tasks rid w \<noteq> []"
  then obtain c where c: "c \<in> set (map fst (unfinished_tasks rid w))" by (cases "unfinished_tasks rid w") auto
  note u = unfinished_tasks_child [OF assms(1) c]
  then show False using assms(2) by (auto simp: live_delegations_def child_runs_def filter_empty_conv)
qed


lemma cancelRunWith_cong:
  assumes "\<And>v content. app (cancelTransition input v content) (cancelSubsidiary input) w
      = app' (cancelTransition input v content) (cancelSubsidiary input) w"
  shows "cancelRunWith app input w = cancelRunWith app' input w"
  unfolding cancelRunWith_def
proof (rule tx_bind_cong_state, rule refl, rule tx_bind_cong_state, rule refl)
  fix v w1 row w2
  assume "tx_lift (terminalExpectation (xri_ExpectedStateVersion input) (xri_resolveVersionInTx input)) w = Inr (v, w1)"
    and "readRunRow (xri_RunID input) w1 = Inr (row, w2)"
  then have "w2 = w" using readRunRow_Inr by (auto split: sum.splits)
  then show "app (cancelTransition input v (terminalContentIdentity row (xri_AssistantMessageID input) '''' False))
       (cancelSubsidiary input) w2
     = app' (cancelTransition input v (terminalContentIdentity row (xri_AssistantMessageID input) '''' False))
       (cancelSubsidiary input) w2" using assms by simp
qed

text \<open>
  Stopping the tasks of a run depends on the recursive call only at cancellations of child runs,
  in stores that descend from the present one.
\<close>

lemma stopDelegatedTasksWith_cong:
  assumes db: "db_ok w" and app': "apply_within (under lineage) app'"
    and eq: "\<And>c v. c \<in> set (map fst (unfinished_tasks rid w)) \<Longrightarrow> db_ok v \<Longrightarrow> lineage w v \<Longrightarrow>
      cancelRunWith app (parent_ended_input c) v = cancelRunWith app' (parent_ended_input c) v"
  shows "stopDelegatedTasksWith app rid w = stopDelegatedTasksWith app' rid w"
proof -
  let ?tasks = "unfinished_tasks rid w"
  let ?f = "\<lambda>app child. tx_bind (cancelRunWith app (parent_ended_input child)) (\<lambda>cancelled. tx_return (tr_Events cancelled))"
  have "stop_tasks app (map fst ?tasks) w = stop_tasks app' (map fst ?tasks) w"
    unfolding stop_tasks_def
  proof (rule tx_map_cong_state [where I = "\<lambda>v. db_ok v \<and> lineage w v"])
    show "db_ok w \<and> lineage w w" using db lines.P_refl by simp
    show "?f app c v = ?f app' c v" if "c \<in> set (map fst ?tasks)" "db_ok v \<and> lineage w v" for c v
      using that by (intro tx_bind_cong_state eq) simp_all
    fix c v y v' assume "db_ok v \<and> lineage w v" and run: "?f app' c v = Inr (y, v')"
    moreover have "tx_within (under lineage) (?f app' c)"
      by (intro lines.within_bind lines.within_cancelRunWith lines.within_return app')
    ultimately show "db_ok v' \<and> lineage w v'"
      using under_use [of lineage "?f app' c" v y v'] lines.P_trans [of w v v'] by blast
  qed
  then show ?thesis
    unfolding stopDelegatedTasksWith_def
    by (intro tx_bind_cong_state refl) (auto intro!: tx_bind_cong_state)
qed

lemma apply_delegation_cong:
  assumes "\<And>committed at events0 updated w2. res = (committed, at, events0) \<Longrightarrow>
      delegationUpdatedTx (rt_runID t) (rr_lifecycle row) (rt_to t) at w = Inr (updated, w2) \<Longrightarrow>
      isTerminalLifecycle (rt_to t) \<Longrightarrow>
      stopDelegatedTasksWith app (rt_runID t) w2 = stopDelegatedTasksWith app' (rt_runID t) w2"
  shows "apply_delegation app t row res w = apply_delegation app' t row res w"
proof -
  obtain committed at events0 where res: "res = (committed, at, events0)" by (cases res)
  show ?thesis unfolding res apply_delegation_def prod.case
    by (intro tx_bind_cong_state refl) (use assms [OF res] in \<open>auto simp: isTerminalLifecycle_def\<close>)
qed

lemma applyWith_cong:
  assumes db: "db_ok w" and ok: "transition_ok t"
    and sub: "\<And>st at. tx_within (under lineage) (subsidiary st at)"
    and eq: "\<And>v. db_ok v \<Longrightarrow> lineage w v \<Longrightarrow> \<not> terminal_run (rt_runID t) w \<Longrightarrow>
      terminal_run (rt_runID t) v \<Longrightarrow>
      stopDelegatedTasksWith app (rt_runID t) v = stopDelegatedTasksWith app' (rt_runID t) v"
  shows "applyWith app t subsidiary w = applyWith app' t subsidiary w"
proof -
  have "tx_bind (apply_commit t subsidiary row) (apply_delegation app t row) w0
      = tx_bind (apply_commit t subsidiary row) (apply_delegation app' t row) w0"
    if chk: "apply_check t w = Inr ((row, False), w0)" for row w0
  proof (rule tx_bind_cong_state [OF refl], rule apply_delegation_cong)
    fix res w1 committed at events0 updated w2
    assume com: "apply_commit t subsidiary row w0 = Inr (res, w1)" and tm: "isTerminalLifecycle (rt_to t)"
      and upd: "delegationUpdatedTx (rt_runID t) (rr_lifecycle row) (rt_to t) at w1 = Inr (updated, w2)"
    note c = apply_commit_terminal [OF db chk ok sub com tm]
    have u: "db_ok w2 \<and> lineage w1 w2" using under_use [OF lines.within_delegationUpdatedTx upd c(1)] .
    then have "terminal_run (rt_runID t) w2" using c(3) run_history_terminal by (auto simp: lineage_def)
    then show "stopDelegatedTasksWith app (rt_runID t) w2 = stopDelegatedTasksWith app' (rt_runID t) w2"
      using eq u lines.P_trans [OF c(2)] apply_check_nonterminal [OF db chk ok] by blast
  qed
  then show ?thesis unfolding applyWith_def by (intro tx_bind_cong_state refl) (auto split: prod.splits)
qed

lemma cancel_runID [simp]: "rt_runID (cancelTransition input v c) = xri_RunID input"
  "rt_to (cancelTransition input v c) = lifecycleCancelled"
  by (simp_all add: cancelTransition_def)

lemma stop_fuel:
  assumes "db_ok w" "live_delegations w \<le> n" "n \<le> m"
  shows "stopDelegatedTasksWith (apply_fuel n) rid w = stopDelegatedTasksWith (apply_fuel m) rid w"
  using assms
proof (induction n arbitrary: m rid w)
  case 0
  then show ?case using no_live_no_tasks by (simp add: stopDelegatedTasksWith_def tx_bind_def)
next
  case (Suc k)
  then obtain m' where m: "m = Suc m'" "k \<le> m'" by (cases m) auto
  show ?case
  proof (rule stopDelegatedTasksWith_cong [OF Suc.prems(1) lines.apply_within_fuel])
    fix c v assume c: "c \<in> set (map fst (unfinished_tasks rid w))" and v: "db_ok v" "lineage w v"
    have child: "c \<in> child_runs v"
      using unfinished_tasks_child(1) [OF Suc.prems(1) c] lineage_child_runs [OF v(2)] by simp
    show "cancelRunWith (apply_fuel (Suc k)) (parent_ended_input c) v
        = cancelRunWith (apply_fuel m) (parent_ended_input c) v"
    proof (rule cancelRunWith_cong)
      fix x content
      let ?t = "cancelTransition (parent_ended_input c) x content"
      have "applyWith (apply_fuel k) ?t (cancelSubsidiary (parent_ended_input c)) v
          = applyWith (apply_fuel m') ?t (cancelSubsidiary (parent_ended_input c)) v"
      proof (rule applyWith_cong [OF v(1)])
        fix u assume u: "db_ok u" "lineage v u" "\<not> terminal_run (rt_runID ?t) v" "terminal_run (rt_runID ?t) u"
        have "live_delegations u < live_delegations v"
          by (rule lineage_live_less [OF u(2) child]) (use u(3,4) in \<open>simp_all add: parent_ended_input_def\<close>)
        then have "live_delegations u \<le> k" using lineage_live [OF v(2)] Suc.prems(2) by simp
        then show "stopDelegatedTasksWith (apply_fuel k) (rt_runID ?t) u
            = stopDelegatedTasksWith (apply_fuel m') (rt_runID ?t) u"
          using Suc.IH u(1) m(2) by blast
      qed (simp_all add: lines.within_cancelSubsidiary)
      then show "apply_fuel (Suc k) ?t (cancelSubsidiary (parent_ended_input c)) v
          = apply_fuel m ?t (cancelSubsidiary (parent_ended_input c)) v" by (simp add: m(1))
    qed
  qed
qed

text \<open>
  One more level than there are delegations is therefore enough, and \<open>applyRunTransitionTx\<close>
  calls itself the way the code does.
\<close>

lemma live_le_length: "live_delegations w \<le> length (delegations w)"
  by (simp add: live_delegations_def)

lemma stop_applyRunTransitionTx:
  assumes "db_ok w" "length (delegations w) \<le> n"
  shows "stopDelegatedTasksWith (apply_fuel n) rid w = stopDelegatedTasksWith applyRunTransitionTx rid w"
proof -
  let ?L = "length (delegations w)"
  have "stopDelegatedTasksWith (apply_fuel n) rid w = stopDelegatedTasksWith (apply_fuel (Suc ?L)) rid w"
    using stop_fuel [OF assms(1) live_le_length, of n rid] stop_fuel [OF assms(1) live_le_length, of "Suc ?L" rid]
      stop_fuel [OF assms(1) live_le_length] assms(2) by (metis le_SucI order_refl)
  also have "\<dots> = stopDelegatedTasksWith applyRunTransitionTx rid w"
  proof (rule stopDelegatedTasksWith_cong [OF assms(1) lines.apply_within_applyRunTransitionTx])
    fix c v assume "lineage w v"
    then have "length (delegations v) = ?L" by (rule lineage_length)
    then show "cancelRunWith (apply_fuel (Suc ?L)) (parent_ended_input c) v
        = cancelRunWith applyRunTransitionTx (parent_ended_input c) v"
      by (intro cancelRunWith_cong) (simp add: applyRunTransitionTx_def)
  qed
  finally show ?thesis .
qed

lemma apply_fuel_enough:
  assumes "db_ok w" "transition_ok t" "\<And>st at. tx_within (under lineage) (subsidiary st at)"
    and "length (delegations w) \<le> n"
  shows "apply_fuel (Suc n) t subsidiary w = applyWith applyRunTransitionTx t subsidiary w"
  using assms lineage_length
  by (simp, intro applyWith_cong stop_applyRunTransitionTx) simp_all


section \<open>A terminal transition closes the work of its run\<close>

lemma update_where_no_open:
  "(\<And>x. q x \<Longrightarrow> p x) \<Longrightarrow> (\<And>x. p x \<Longrightarrow> \<not> q (f x)) \<Longrightarrow> \<not> list_ex q (update_where p f xs)"
  by (induction xs) (auto simp: update_where_def)

lemma openApproval_iff: "openApproval rid a \<longleftrightarrow> ap_run_id a = rid \<and> \<not> closed_approval a"
  by (simp add: openApproval_def closed_approval_def)

lemma openToolCall_iff: "openToolCall rid c \<longleftrightarrow> tc_run_id c = rid \<and> \<not> closed_tool_call c"
  by (auto simp: openToolCall_def closed_tool_call_def isOpenToolCallStatus_def)

lemma open_job_iff: "open_job rid j \<longleftrightarrow> job_run_id j = rid \<and> \<not> closed_job j"
  by (simp add: open_job_def closed_job_def)

text \<open>How far the closing of a finished run has got: its approvals, tool calls and jobs.\<close>

definition closing :: "bool \<Rightarrow> bool \<Rightarrow> bool \<Rightarrow> string \<Rightarrow> world \<Rightarrow> bool" where
  "closing a c j rid w \<longleftrightarrow> db_ok w \<and> terminal_run rid w \<and> (a \<longrightarrow> \<not> has_open_approval rid w)
     \<and> (c \<longrightarrow> \<not> has_open_tool_call rid w) \<and> (j \<longrightarrow> \<not> has_open_job rid w)"

lemma closing_frame:
  assumes "tx_within (under stays_sealed) m"
  shows "tx_hoare (closing a c j rid) m (\<lambda>_. closing a c j rid)"
  using assms unfolding tx_hoare_def closing_def stays_sealed_def tx_within_def under_def by blast

lemma closing_approvals:
  "tx_hoare (closing a c j rid) (expire_open_approvals rid at) (\<lambda>_. closing True c j rid)"
  unfolding expire_open_approvals_def
proof (rule hoare_modify)
  fix w
  let ?f = "\<lambda>a. a\<lparr>ap_status := ''expired'', ap_jti := None, ap_token := None, ap_decided_at := coalesce (ap_decided_at a) at\<rparr>"
  assume "closing a c j rid w"
  moreover have "\<not> list_ex (\<lambda>a. ap_run_id a = rid \<and> \<not> closed_approval a) (update_where (openApproval rid) ?f (approvals w))"
    by (rule update_where_no_open) (simp_all add: openApproval_iff closed_approval_def)
  moreover have "db_ok w \<Longrightarrow> db_ok (w\<lparr>approvals := update_where (openApproval rid) ?f (approvals w)\<rparr>)"
    by (rule db_ok_close(1)) simp_all
  ultimately show "closing True c j rid (w\<lparr>approvals := update_where (openApproval rid) ?f (approvals w)\<rparr>)"
    by (simp add: closing_def open_work_defs terminal_run_def)
qed

lemma closing_tool_calls:
  "tx_hoare (closing a c j rid) (fail_open_tool_calls rid code at) (\<lambda>_. closing a True j rid)"
  unfolding fail_open_tool_calls_def
proof (rule hoare_modify)
  fix w
  let ?f = "\<lambda>c. c\<lparr>tc_status := ''failed'', tc_error_code := Some code, tc_error_message := None,
            tc_completed_at := coalesce (tc_completed_at c) at\<rparr>"
  assume "closing a c j rid w"
  moreover have "\<not> list_ex (\<lambda>c. tc_run_id c = rid \<and> \<not> closed_tool_call c) (update_where (openToolCall rid) ?f (tool_calls w))"
    by (rule update_where_no_open) (simp_all add: openToolCall_iff closed_tool_call_def)
  moreover have "db_ok w \<Longrightarrow> db_ok (w\<lparr>tool_calls := update_where (openToolCall rid) ?f (tool_calls w)\<rparr>)"
    by (rule db_ok_close(2)) simp_all
  ultimately show "closing a True j rid (w\<lparr>tool_calls := update_where (openToolCall rid) ?f (tool_calls w)\<rparr>)"
    by (simp add: closing_def open_work_defs terminal_run_def)
qed

lemma closing_jobs:
  assumes "\<And>j. open_job rid j \<Longrightarrow> closed_job (f j) \<and> job_id (f j) = job_id j"
  shows "tx_hoare (closing a c j rid) (tx_modify (\<lambda>w. w\<lparr>jobs := update_where (open_job rid) f (jobs w)\<rparr>))
    (\<lambda>_. closing a c True rid)"
proof (rule hoare_modify)
  fix w assume "closing a c j rid w"
  moreover have "\<not> list_ex (\<lambda>j. job_run_id j = rid \<and> \<not> closed_job j) (update_where (open_job rid) f (jobs w))"
    by (rule update_where_no_open) (simp add: open_job_iff, use assms in blast)
  moreover have "db_ok w \<Longrightarrow> db_ok (w\<lparr>jobs := update_where (open_job rid) f (jobs w)\<rparr>)"
    by (rule db_ok_close(3)) (simp_all add: assms)
  ultimately show "closing a c True rid (w\<lparr>jobs := update_where (open_job rid) f (jobs w)\<rparr>)"
    by (simp add: closing_def open_work_defs terminal_run_def)
qed

lemma closing_failPending:
  "tx_hoare (closing a c j rid) (failPendingApprovalLifecycleTx rid category code at) (\<lambda>_. closing True True j rid)"
  unfolding failPendingApprovalLifecycleTx_def
  by (intro hoare_bind [OF closing_frame [OF seals.within_run_session_trace]] hoare_case_prod
      hoare_bind [OF hoare_gets] hoare_then [OF closing_approvals] hoare_then [OF closing_tool_calls]
      hoare_bind [OF closing_frame] hoare_return seals.within_map seals.within_approval_events seals.within_events)

lemma closing_cancelSubsidiary:
  "tx_hoare (closing False False False (xri_RunID input)) (cancelSubsidiary input st at)
     (\<lambda>_. closing True True True (xri_RunID input))"
  unfolding cancelSubsidiary_def
  by (intro hoare_bind [OF closing_failPending] hoare_then [OF closing_jobs] hoare_return)
    (simp_all add: closed_job_def)

lemma closing_failSubsidiary:
  "tx_hoare (closing False False False (fri_RunID input)) (failSubsidiary input st at)
     (\<lambda>_. closing True True True (fri_RunID input))"
  unfolding failSubsidiary_def
  by (intro hoare_bind [OF closing_failPending] hoare_then [OF closing_jobs] hoare_return)
    (simp_all add: closed_job_def)

lemma closing_completeSubsidiary:
  "tx_hoare (closing False False False (cri_RunID input)) (completeSubsidiary input row st at)
     (\<lambda>_. closing True True True (cri_RunID input))"
  unfolding completeSubsidiary_def appendRunMessageCompletedTx_def
  by (intro hoare_then [OF closing_jobs] hoare_bind [OF closing_failPending] hoare_if
      hoare_bind [OF closing_frame [OF seals.within_events(1)]] hoare_return)
    (simp_all add: closed_job_def)

section \<open>The effects of a successful command\<close>

text \<open>A repeat finds the run where the transition would have put it.\<close>

lemma apply_check_duplicate:
  assumes "apply_check t w = Inr ((row, True), w0)"
  shows "run_in (rt_runID t) (rt_to t) w"
proof -
  note c = apply_check_Inr [OF assms]
  obtain r where r: "r \<in> set (agent_runs w)" "run_id r = rt_runID t"
    and row: "row = run_row_of r (assistant_message (rt_runID t) (messages w))"
    using readRunRow_Inr [OF c(4)] by blast
  have "run_status r = rt_to t"
    using decide_transition_Inr [OF c(5)] row by (simp add: isRunTransitionDuplicate_def)
  with r show ?thesis unfolding run_in_def list_ex_iff by blast
qed

lemma applyWith_split:
  assumes "applyWith app t subsidiary w = Inr (res, w')"
  shows "(tr_Duplicate res \<and> w' = w \<and> tr_Events res = [] \<and> run_in (rt_runID t) (rt_to t) w)
    \<or> (\<not> tr_Duplicate res \<and> (\<exists>row w0 x w1. apply_check t w = Inr ((row, False), w0)
        \<and> apply_commit t subsidiary row w0 = Inr (x, w1) \<and> apply_delegation app t row x w1 = Inr (res, w')))"
proof -
  obtain row dup w0 where chk: "apply_check t w = Inr ((row, dup), w0)"
    and rest: "(if dup then tx_return \<lparr>tr_State = runRow_state row, tr_Events = [], tr_Duplicate = True,
        tr_Delegation = [], tr_StoppedTasks = [], tr_ContinuationRunID = []\<rparr>
     else tx_bind (apply_commit t subsidiary row) (apply_delegation app t row)) w0 = Inr (res, w')"
    using assms unfolding applyWith_def by (elim tx_bindE) (simp split: prod.splits)
  show ?thesis
  proof (cases dup)
    case True
    then show ?thesis using rest chk apply_check_Inr(1) [OF chk] apply_check_duplicate by auto
  next
    case False
    with rest obtain x w1 where x: "apply_commit t subsidiary row w0 = Inr (x, w1)"
      and d: "apply_delegation app t row x w1 = Inr (res, w')" by (auto elim!: tx_bindE)
    have "\<not> tr_Duplicate res"
      using d unfolding apply_delegation_def by (auto simp: tx_bind_Inr_iff split: prod.splits)
    moreover have "apply_check t w = Inr ((row, False), w0)" using chk False by simp
    ultimately show ?thesis using x d by blast
  qed
qed

lemma applyWith_terminal:
  assumes db: "db_ok w" and ok: "transition_ok t" and tm: "isTerminalLifecycle (rt_to t)"
    and sub: "\<And>st at. tx_within (under lineage) (subsidiary st at)" and app: "apply_within (under lineage) app"
    and run: "applyWith app t subsidiary w = Inr (res, w')"
  shows "terminal_run (rt_runID t) w'"
  using applyWith_split [OF run]
proof (elim disjE conjE exE)
  assume "w' = w" "run_in (rt_runID t) (rt_to t) w"
  then show ?thesis using terminal_run_in tm by blast
next
  fix row w0 x w1
  assume chk: "apply_check t w = Inr ((row, False), w0)" and com: "apply_commit t subsidiary row w0 = Inr (x, w1)"
    and del: "apply_delegation app t row x w1 = Inr (res, w')"
  note c = apply_commit_terminal [OF db chk ok sub com tm]
  have "lineage w1 w'" using under_use [OF lines.within_apply_delegation [OF app] del c(1)] by blast
  then show ?thesis using c(3) run_history_terminal by (auto simp: lineage_def)
qed

text \<open>A run that was asked to end has ended, and so has every task it delegated.\<close>

definition children_done :: "string \<Rightarrow> world \<Rightarrow> bool" where
  "children_done rid w \<longleftrightarrow>
     list_all (\<lambda>d. dg_parent_run_id d = rid \<longrightarrow> terminal_run (dg_child_run_id d) w) (delegations w)"

lemma children_done_links:
  "children_done rid w \<longleftrightarrow>
     list_all (\<lambda>l. fst (snd l) = rid \<longrightarrow> terminal_run (snd (snd l)) w) (map dg_link (delegations w))"
  by (simp add: children_done_def list_all_iff dg_link_def)

lemma children_done_lineage: "lineage w w' \<Longrightarrow> children_done rid w \<Longrightarrow> children_done rid w'"
  unfolding children_done_links lineage_def list_all_iff using run_history_terminal [of w w'] by simp

lemma unfinished_task_listed:
  assumes "db_ok w" "d \<in> set (delegations w)" "dg_parent_run_id d = rid"
    and "dg_child_run_id d \<notin> set (map fst (unfinished_tasks rid w))"
  shows "terminal_run (dg_child_run_id d) w"
proof -
  have "dg_child_run_id d \<in> set (map run_id (agent_runs w))" using assms(1,2) by (auto simp: db_ok_def)
  then obtain r where r: "r \<in> set (agent_runs w)" "run_id r = dg_child_run_id d" by auto
  have "(d, r) \<in> set (delegation_view (\<lambda>d. dg_parent_run_id d = rid) w)"
    using assms(2,3) r by (auto simp: delegation_view_def)
  then have "isTerminalLifecycle (run_status r)"
    using assms(4) by (force simp: unfinished_tasks_def image_iff)
  then show ?thesis using r unfolding terminal_run_def list_ex_iff by blast
qed


lemma apply_fuel_ends:
  assumes "db_ok v" "cancelRunWith (apply_fuel n) (parent_ended_input c) v = Inr (res, v')"
  shows "terminal_run c v'"
proof -
  obtain x content where run: "apply_fuel n (cancelTransition (parent_ended_input c) x content)
      (cancelSubsidiary (parent_ended_input c)) v = Inr (res, v')"
    using assms(2) unfolding cancelRunWith_def
    by (elim tx_bindE) (auto dest!: readRunRow_Inr split: sum.splits)
  then obtain k where n: "n = Suc k" by (cases n) auto
  have "terminal_run (rt_runID (cancelTransition (parent_ended_input c) x content)) v'"
    by (rule applyWith_terminal [OF assms(1) _ _ _ lines.apply_within_fuel])
      (use run n in \<open>simp_all add: lines.within_cancelSubsidiary\<close>)
  then show ?thesis by (simp add: parent_ended_input_def)
qed

lemma stop_loop_ends:
  assumes "db_ok v" "stop_tasks (apply_fuel n) cs v = Inr (ys, v')"
  shows "db_ok v' \<and> lineage v v' \<and> (\<forall>c \<in> set cs. terminal_run c v')"
  using assms
proof (induction cs arbitrary: v ys)
  case Nil
  then show ?case using lines.P_refl by (simp add: stop_tasks_def)
next
  case (Cons c cs)
  obtain y v1 ys' where y: "cancelRunWith (apply_fuel n) (parent_ended_input c) v = Inr (y, v1)"
    and ys': "stop_tasks (apply_fuel n) cs v1 = Inr (ys', v')"
    using Cons.prems(2) unfolding stop_tasks_def by (auto elim!: tx_bindE)
  have c: "terminal_run c v1" using apply_fuel_ends [OF Cons.prems(1) y] .
  have v1: "db_ok v1" "lineage v v1"
    using under_use [OF lines.within_cancelRunWith [OF lines.apply_within_fuel] y Cons.prems(1)] by simp_all
  note ih = Cons.IH [OF v1(1) ys']
  have "terminal_run c v'" using c ih run_history_terminal by (auto simp: lineage_def)
  then show ?case using ih lines.P_trans [OF v1(2)] by auto
qed

lemma stop_children_done:
  assumes db: "db_ok w" and run: "stopDelegatedTasksWith (apply_fuel n) rid w = Inr (x, w')"
  shows "children_done rid w'"
proof (cases "unfinished_tasks rid w = []")
  case True
  then have "w' = w" using run by (auto simp: stopDelegatedTasksWith_def elim!: tx_bindE)
  moreover have "children_done rid w"
    unfolding children_done_def list_all_iff using unfinished_task_listed [OF db, of _ rid] True by simp
  ultimately show ?thesis by simp
next
  case False
  from run False obtain evss w1 where loop: "stop_tasks (apply_fuel n) (map fst (unfinished_tasks rid w)) w = Inr (evss, w1)"
    and rest: "tx_then (stop_notice rid (map snd (unfinished_tasks rid w)))
         (tx_return (map fst (unfinished_tasks rid w), concat evss)) w1 = Inr (x, w')"
    unfolding stopDelegatedTasksWith_def by (auto elim!: tx_bindE)
  note e = stop_loop_ends [OF db loop]
  have "children_done rid w1"
    unfolding children_done_links list_all_iff
  proof (intro ballI impI)
    fix l assume l: "l \<in> set (map dg_link (delegations w1))" "fst (snd l) = rid"
    have "l \<in> set (map dg_link (delegations w))" using l(1) e unfolding lineage_def by metis
    then obtain d where d: "d \<in> set (delegations w)" "l = dg_link d" by auto
    have "terminal_run (dg_child_run_id d) w1"
    proof (cases "dg_child_run_id d \<in> set (map fst (unfinished_tasks rid w))")
      case True
      then show ?thesis using e by blast
    next
      case False
      then have "terminal_run (dg_child_run_id d) w"
        using unfinished_task_listed [OF db d(1)] l(2) d(2) by (simp add: dg_link_def)
      then show ?thesis using e run_history_terminal by (auto simp: lineage_def)
    qed
    then show "terminal_run (snd (snd l)) w1" using d(2) by (simp add: dg_link_def)
  qed
  moreover have "under lineage w1 w'"
    using rest by (rule tx_withinD [rotated])
      (intro lines.within_then lines.within_stop_notice lines.within_return)
  ultimately show ?thesis using e children_done_lineage by (auto simp: under_def)
qed

lemma apply_delegation_children_done:
  assumes db: "db_ok w" and to_end: "rt_to t = lifecycleFailed \<or> rt_to t = lifecycleCancelled"
    and run: "apply_delegation (apply_fuel n) t row res w = Inr (x, w')"
  shows "children_done (rt_runID t) w'"
proof -
  obtain committed at events0 where res: "res = (committed, at, events0)" by (cases res)
  obtain updated w1 stop w2 where u: "delegationUpdatedTx (rt_runID t) (rr_lifecycle row) (rt_to t) at w = Inr (updated, w1)"
    and s: "stopDelegatedTasksWith (apply_fuel n) (rt_runID t) w1 = Inr (stop, w2)"
    and m: "(case stop of (stopped, stopping) \<Rightarrow>
       tx_bind (if isTerminalLifecycle (rt_to t) then maybeJoinTx (rt_runID t) else tx_return ('''', [])) (\<lambda>(continuation, joined).
       tx_return \<lparr>tr_State = committed, tr_Events = events0 @ updated @ stopping @ joined, tr_Duplicate = False,
          tr_Delegation = updated @ stopping @ joined, tr_StoppedTasks = stopped,
          tr_ContinuationRunID = continuation\<rparr>)) w2 = Inr (x, w')"
    using run to_end unfolding res apply_delegation_def prod.case by (elim tx_bindE) simp
  have w1: "db_ok w1" using under_use [OF lines.within_delegationUpdatedTx u db] by simp
  have w2: "db_ok w2"
    using under_use [OF lines.within_stopDelegatedTasksWith [OF lines.apply_within_fuel] s w1] by simp
  have "under lineage w2 w'"
    using m by (rule tx_withinD [rotated])
      (intro lines.within_case_prod lines.within_bind lines.within_if lines.within_delegation lines.within_return)
  then show ?thesis
    using children_done_lineage stop_children_done [OF w1 s] w2 by (auto simp: under_def)
qed


text \<open>Everything a committed terminal transition guarantees.\<close>

lemma apply_commit_closing:
  assumes db: "db_ok w" and chk: "apply_check t w = Inr ((row, False), w0)" and ok: "transition_ok t"
    and close: "\<And>st at. tx_hoare (closing False False False (rt_runID t)) (subsidiary st at)
      (\<lambda>_. closing True True True (rt_runID t))"
    and com: "apply_commit t subsidiary row w0 = Inr (res, w')" and tm: "isTerminalLifecycle (rt_to t)"
  shows "closing True True True (rt_runID t) w'"
proof -
  from com obtain at w1 where c: "commit_row t row w0 = Inr (at, w1)"
    and rest: "(let committed = committed_state t row at in
     tx_bind (subsidiary committed at) (\<lambda>events0.
     tx_bind (appendRunEventTx (rr_sessionID row) (rt_runID t) (rr_traceID row) (transitionEventType t)
                (Some (marshalRunStatePayload (rt_eventPayload t) committed)) at) (\<lambda>event.
     tx_return (committed, at, events0 @ [event])))) w1 = Inr (res, w')"
    unfolding apply_commit_def by (elim tx_bindE)
  have "under lineage w w1" by (rule lines.commit_row_step [OF chk ok c])
  then have "closing False False False (rt_runID t) w1"
    using db terminal_run_in [OF commit_row_run_in [OF c ok] tm] by (simp add: closing_def under_def)
  then show ?thesis
    using rest unfolding Let_def
    by (rule tx_hoareD [rotated])
      (intro hoare_bind [OF close] hoare_bind [OF closing_frame [OF seals.within_events(1)]] hoare_return)
qed

lemma applyRunTransitionTx_ends:
  assumes db: "db_ok w" and ok: "transition_ok t" and tm: "isTerminalLifecycle (rt_to t)"
    and sub: "\<And>st at. tx_within (under lineage) (subsidiary st at)"
    and close: "\<And>st at. tx_hoare (closing False False False (rt_runID t)) (subsidiary st at)
      (\<lambda>_. closing True True True (rt_runID t))"
    and run: "applyRunTransitionTx t subsidiary w = Inr (res, w')" and fresh: "\<not> tr_Duplicate res"
  shows "db_ok w'" "sealed (rt_runID t) w'"
    "rt_to t = lifecycleFailed \<or> rt_to t = lifecycleCancelled \<Longrightarrow> children_done (rt_runID t) w'"
proof -
  let ?n = "length (delegations w)"
  obtain row w0 x w1 where chk: "apply_check t w = Inr ((row, False), w0)"
    and com: "apply_commit t subsidiary row w0 = Inr (x, w1)"
    and del: "apply_delegation (apply_fuel ?n) t row x w1 = Inr (res, w')"
    using applyWith_split [of "apply_fuel ?n" t subsidiary w res w'] run fresh
    by (auto simp: applyRunTransitionTx_def)
  have c: "closing True True True (rt_runID t) w1"
    by (rule apply_commit_closing [OF db chk ok close com tm])
  have "closing True True True (rt_runID t) w'"
    using closing_frame [OF seals.within_apply_delegation [OF seals.apply_within_fuel]] c del by (rule tx_hoareD)
  then show "db_ok w'" "sealed (rt_runID t) w'" by (simp_all add: closing_def sealed_def)
  show "rt_to t = lifecycleFailed \<or> rt_to t = lifecycleCancelled \<Longrightarrow> children_done (rt_runID t) w'"
    using apply_delegation_children_done [OF _ _ del] c by (simp add: closing_def)
qed

text \<open>The three terminal writers reach the transition with these subsidiaries.\<close>

lemma terminal_writers_apply:
  "completeRunTx ci w = Inr (res, w') \<Longrightarrow>
     \<exists>v row content. applyRunTransitionTx (completeTransition ci v content) (completeSubsidiary ci row) w = Inr (res, w')"
  "failRunTx fi w = Inr (res, w') \<Longrightarrow>
     \<exists>v content. applyRunTransitionTx (failTransition fi v content) (failSubsidiary fi) w = Inr (res, w')"
  "cancelRunTx xi w = Inr (res, w') \<Longrightarrow>
     \<exists>v content. applyRunTransitionTx (cancelTransition xi v content) (cancelSubsidiary xi) w = Inr (res, w')"
  unfolding completeRunTx_def failRunTx_def cancelRunTx_def cancelRunWith_def
  by (elim tx_bindE, auto dest!: readRunRow_Inr split: sum.splits)+

lemma terminal_transition_simps [simp]:
  "rt_runID (completeTransition ci v c) = cri_RunID ci" "rt_to (completeTransition ci v c) = lifecycleCompleted"
  "rt_runID (failTransition fi v c) = fri_RunID fi" "rt_to (failTransition fi v c) = lifecycleFailed"
  by (simp_all add: completeTransition_def failTransition_def)

lemma completeRunTx_seals:
  assumes "db_ok w" "completeRunTx ci w = Inr (res, w')" "\<not> tr_Duplicate res"
  shows "sealed (cri_RunID ci) w'"
proof -
  obtain v row content where run: "applyRunTransitionTx (completeTransition ci v content) (completeSubsidiary ci row) w = Inr (res, w')"
    using terminal_writers_apply(1) [OF assms(2)] by blast
  show ?thesis
    using applyRunTransitionTx_ends(2) [OF assms(1) _ _ _ _ run assms(3)]
    by (simp add: lines.within_completeSubsidiary closing_completeSubsidiary)
qed

lemma failRunTx_seals:
  assumes "db_ok w" "fail_input_ok fi" "failRunTx fi w = Inr (res, w')" "\<not> tr_Duplicate res"
  shows "sealed (fri_RunID fi) w' \<and> children_done (fri_RunID fi) w'"
proof -
  obtain v content where run: "applyRunTransitionTx (failTransition fi v content) (failSubsidiary fi) w = Inr (res, w')"
    using terminal_writers_apply(2) [OF assms(3)] by blast
  show ?thesis
    using applyRunTransitionTx_ends(2,3) [OF assms(1) _ _ _ _ run assms(4)] assms(2)
    by (simp add: lines.within_failSubsidiary closing_failSubsidiary)
qed

lemma cancelRunTx_seals:
  assumes "db_ok w" "cancelRunTx xi w = Inr (res, w')" "\<not> tr_Duplicate res"
  shows "sealed (xri_RunID xi) w' \<and> children_done (xri_RunID xi) w'"
proof -
  obtain v content where run: "applyRunTransitionTx (cancelTransition xi v content) (cancelSubsidiary xi) w = Inr (res, w')"
    using terminal_writers_apply(3) [OF assms(2)] by blast
  show ?thesis
    using applyRunTransitionTx_ends(2,3) [OF assms(1) _ _ _ _ run assms(3)]
    by (simp add: lines.within_cancelSubsidiary closing_cancelSubsidiary)
qed

end
