(* ===== verification/Example.thy ===== *)
theory Example
  imports TransitionEffects
begin

text \<open>
  A small concrete store on which the properties are instantiated: a conversation whose running
  turn waits for one approval, has one tool call open, and has delegated one task that is still
  queued in its own session.
\<close>

definition t0 :: string where "t0 = ''2025-03-01T12:00:00.000000000Z''"
definition t1 :: string where "t1 = ''2025-03-01T13:00:00.000000000Z''"

text \<open>Nanoseconds since the zero time at 2025-03-01T12:30:00Z.\<close>

definition demo_now :: int where "demo_now = (739310 * 86400 + 45000) * 1000000000"

definition demo_run :: "string \<Rightarrow> string \<Rightarrow> string \<Rightarrow> agent_run" where
  "demo_run rid sid status = \<lparr>run_id = rid, run_session_id = sid, run_user_message_id = ''u_'' @ rid,
     run_assistant_message_id = Some (''m_'' @ rid), run_agent_id = ''turing'', run_trace_id = ''trace'',
     run_status = status, run_model_provider = ''p'', run_model_name = ''m'', run_error_code = None,
     run_error_message = None, run_created_at = t0, run_started_at = None, run_finished_at = None,
     run_cancellation_reason = None, run_worker_id = Some ''worker'', run_execution_active = (status \<noteq> ''queued''),
     run_execution_exit_acknowledged_at = None, run_execution_attempt_id = Some ''attempt'',
     run_execution_state = ''delivered'', run_execution_lease_expires_at = None,
     run_execution_lease_expires_at_ns = None, run_input_tokens = None, run_output_tokens = None,
     run_state_version = 3, run_state_updated_at = t0, run_outcome_reason = ''none'',
     run_assistant_content_sha256 = emptyAssistantContentSHA256, run_queue_waited_ns = 0,
     run_queued_since_ns = (if status = ''queued'' then Some 1740830400000000000 else None),
     run_queue_unroutable_since_ns = None, run_queue_wait_reason = ''none'', run_continues_run_id = None,
     run_external_agent_name = None, run_external_agent_host = None\<rparr>"

definition demo_message :: "string \<Rightarrow> string \<Rightarrow> int \<Rightarrow> message" where
  "demo_message rid sid n = \<lparr>msg_id = ''m_'' @ rid, msg_session_id = sid, msg_run_id = Some rid,
     msg_role = ''assistant'', msg_content = '''', msg_content_type = ''text'', msg_sequence = n, msg_created_at = t0\<rparr>"

definition demo_job :: "string \<Rightarrow> string \<Rightarrow> job" where
  "demo_job rid status = \<lparr>job_id = ''j_'' @ rid, job_run_id = rid, job_agent_id = ''turing'', job_status = status,
     job_attempt = 1, job_payload = JObj [], job_picked_up_at = None, job_finished_at = None,
     job_error_code = None, job_error_message = None, job_created_at = t0, job_created_at_ns = None,
     job_lease_owner = None, job_lease_expires_at = None, job_lease_expires_at_ns = None,
     job_assignment_attempt_id = Some ''attempt''\<rparr>"

definition demo_session :: "string \<Rightarrow> string \<Rightarrow> session" where
  "demo_session sid kind = \<lparr>sess_id = sid, sess_kind = kind, sess_parent_id = None, sess_title = None,
     sess_title_origin = ''unset'', sess_status = ''active'', sess_created_at = t0, sess_updated_at = t0,
     sess_deletion_state = ''active''\<rparr>"

definition demo_approval :: approval where
  "demo_approval = \<lparr>ap_id = ''ap1'', ap_run_id = ''p'', ap_tool_call_id = Some ''tc1'', ap_agent_id = ''turing'',
     ap_tool_name = ''files/write'', ap_args_json = '''', ap_args_hash = ''h'', ap_status = ''pending'',
     ap_jti = None, ap_token = None, ap_expires_at = t1, ap_decided_at = None, ap_consumed_at = None,
     ap_created_at = t0, ap_comment = None, ap_denial_reason = None\<rparr>"

definition demo_tool_call :: tool_call where
  "demo_tool_call = \<lparr>tc_id = ''tc1'', tc_run_id = ''p'', tc_agent_id = ''turing'', tc_server_name = ''files'',
     tc_tool_name = ''files.write'', tc_args_json = '''', tc_args_hash = ''h'', tc_status = ''approval_required'',
     tc_result_summary = None, tc_error_code = None, tc_error_message = None, tc_approval_id = Some ''ap1'',
     tc_duration_ms = None, tc_created_at = t0, tc_completed_at = None, tc_model_tool_call_id = None,
     tc_mcp_server_id = None\<rparr>"

definition demo_delegation :: delegation_row where
  "demo_delegation = \<lparr>dg_id = ''d1'', dg_parent_session_id = ''s'', dg_parent_run_id = ''p'',
     dg_parent_tool_call_id = ''tc0'', dg_child_session_id = ''cs'', dg_child_run_id = ''c'',
     dg_profile_id = ''coder'', dg_profile_revision = ''1'', dg_args_hash = ''h'', dg_joined = False,
     dg_result_bytes = None, dg_error_code = None, dg_created_at = t0, dg_finished_at = None,
     dg_task = ''look'', dg_egress_tools = JArr [], dg_egress_consent = '''', dg_egress_required = False\<rparr>"

text \<open>Parsers that accept nothing.\<close>

definition no_network :: net_library where
  "no_network = \<lparr>url_Parse = (\<lambda>_. None), url_String = (\<lambda>_. ''''), netip_ParseAddr = (\<lambda>_. None),
     strings_ToLower = id\<rparr>"

definition demo :: "string \<Rightarrow> string \<Rightarrow> world" where
  "demo parent child = \<lparr>agent_runs = [demo_run ''p'' ''s'' parent, demo_run ''c'' ''cs'' child],
     messages = [demo_message ''p'' ''s'' 1, demo_message ''c'' ''cs'' 1],
     jobs = [demo_job ''p'' (if parent = ''queued'' then ''pending'' else ''in_progress''), demo_job ''c'' ''pending''],
     approvals = (if parent = ''waiting_approval'' then [demo_approval] else []),
     tool_calls = (if parent = ''waiting_approval'' then [demo_tool_call] else []), events = [],
     sessions = [demo_session ''s'' ''chat'', demo_session ''cs'' ''delegation''],
     delegations = [demo_delegation], receipts = [], audit_logs = [], approval_previews = [],
     session_deletions = [], integration_connections = [], mcp_servers = [], tool_rows = [],
     run_egress_decisions = [], send_message_idempotency = [], external_agents = [], session_external_agents = [],
     agent_profile_settings = [], settings_rows = [], sandbox_artifacts = [], vault_artifacts = [],
     automations = [], automation_allowed_tools = [], automation_runs = [], net_lib = no_network, json_decode = (\<lambda>_. None),
     clock = (\<lambda>n. demo_now + int n), ticks = 0, ulids = dec \<circ> int, ulids_drawn = 0,
     nonces = dec \<circ> int, nonces_drawn = 0\<rparr>"

end
