(* ===== verification/Approvals.thy ===== *)
theory Approvals
  imports TransitionEffects
begin

text \<open>
  The approval state machine (\<^verbatim>\<open>approvals.go\<close>, \<^verbatim>\<open>approval_previews.go\<close>): requesting an
  approval, deciding it, expiring it, consuming it, and the previews a decision is bound to.

  An approval is \<open>pending\<close>, then \<open>approved\<close>, \<open>denied\<close> or \<open>expired\<close>; an approved one is
  \<open>consumed\<close> or \<open>expired\<close>. \<open>approval_step\<close> is that machine as a relation on statuses; the
  lemmas show that every operation moves an approval along it and that consuming happens at most
  once.

  \<^verbatim>\<open>ConsumeApprovalWithEvent\<close> may return a committed expiry together with
  \<^verbatim>\<open>ErrApprovalExpired\<close>, so its result carries an optional error.
\<close>

section \<open>Results\<close>

record ApprovalTerminalization =
  at_Approval :: ApprovalRecord
  at_ApprovalEvent :: "Event option"
  at_ToolEvent :: "Event option"
  at_RunFailedEvent :: "Event option"
  at_DelegationEvents :: "Event list"
  at_StoppedTasks :: "string list"
  at_ContinuationRunID :: string
  at_Changed :: bool

definition unchanged_approval :: "ApprovalRecord \<Rightarrow> ApprovalTerminalization" where
  "unchanged_approval rec = \<lparr>at_Approval = rec, at_ApprovalEvent = None, at_ToolEvent = None,
     at_RunFailedEvent = None, at_DelegationEvents = [], at_StoppedTasks = [], at_ContinuationRunID = '''',
     at_Changed = False\<rparr>"

text \<open>\<^verbatim>\<open>if decidedAt == "" { decidedAt = now() }\<close>\<close>

definition at_or_now :: "string \<Rightarrow> string wtx" where
  "at_or_now at = (if at = '''' then now_text else tx_return at)"

section \<open>Requesting an approval\<close>

definition new_approval ::
  "string \<Rightarrow> string \<Rightarrow> string \<Rightarrow> string \<Rightarrow> string \<Rightarrow> string \<Rightarrow> string \<Rightarrow> string \<Rightarrow> string \<Rightarrow> approval" where
  "new_approval aid rid toolCallID agentID toolName argsJSON argsHash expiresAt createdAt =
     \<lparr>ap_id = aid, ap_run_id = rid, ap_tool_call_id = nullableText toolCallID, ap_agent_id = agentID,
      ap_tool_name = toolName, ap_args_json = argsJSON, ap_args_hash = argsHash, ap_status = ''pending'',
      ap_jti = None, ap_token = None, ap_expires_at = expiresAt, ap_decided_at = None, ap_consumed_at = None,
      ap_created_at = createdAt, ap_comment = None, ap_denial_reason = None\<rparr>"

text \<open>
  \<^verbatim>\<open>INSERT OR IGNORE INTO approvals\<close>: a repeated identifier or tool call is ignored; a missing
  run or tool call violates a foreign key. The result is the number of rows inserted.
\<close>

definition insert_approval :: "approval \<Rightarrow> nat wtx" where
  "insert_approval a =
     tx_bind (tx_gets (\<lambda>w. list_ex (\<lambda>x. ap_id x = ap_id a
         \<or> (ap_tool_call_id a \<noteq> None \<and> ap_tool_call_id x = ap_tool_call_id a)) (approvals w))) (\<lambda>conflict.
     if conflict then tx_return 0
     else
       tx_bind (tx_gets (\<lambda>w. list_ex (\<lambda>r. run_id r = ap_run_id a) (agent_runs w)
          \<and> (ap_tool_call_id a = None \<or> list_ex (\<lambda>c. Some (tc_id c) = ap_tool_call_id a) (tool_calls w)))) (\<lambda>referenced.
       if \<not> referenced then tx_fail (ErrText ''FOREIGN KEY constraint failed'')
       else tx_then (tx_modify (\<lambda>w. w\<lparr>approvals := approvals w @ [a]\<rparr>)) (tx_return 1)))"

definition awaitApprovalTransition :: "string \<Rightarrow> string \<Rightarrow> (string \<times> json) list option \<Rightarrow> runTransition" where
  "awaitApprovalTransition rid approvalID payload =
     (let t = zero_transition\<lparr>rt_runID := rid, rt_expectedVersion := unresolvedStateVersion,
        rt_transactionLocal := True, rt_allowedFrom := [lifecycleRunning], rt_to := lifecycleWaitingApproval,
        rt_reason := ReasonNone, rt_identity := no_identity\<lparr>ti_approvalID := approvalID\<rparr>\<rparr>
      in case payload of None \<Rightarrow> t
         | Some p \<Rightarrow> t\<lparr>rt_eventType := ''approval.requested'', rt_eventPayload := p\<rparr>)"

definition awaitApprovalTransitionTx ::
  "string \<Rightarrow> string \<Rightarrow> (string \<times> json) list option \<Rightarrow> RunTransitionResult wtx" where
  "awaitApprovalTransitionTx rid approvalID payload =
     applyRunTransitionTx (awaitApprovalTransition rid approvalID payload) no_subsidiary"

text \<open>An approval that exists already: returned unchanged if it is for the same call.\<close>

definition existing_approval :: "string \<Rightarrow> string \<Rightarrow> string \<Rightarrow> string \<Rightarrow> string \<Rightarrow> (ApprovalRecord \<times> Event list) wtx" where
  "existing_approval rid toolCallID agentID toolName argsHash =
     tx_bind (query_row (\<lambda>w. filter (\<lambda>a. ap_run_id a = rid \<and> ap_tool_call_id a = Some toolCallID) (approvals w))) (\<lambda>a.
     tx_bind (approvalByID (ap_id a)) (\<lambda>existing.
     if ar_AgentID existing \<noteq> agentID \<or> ar_ToolName existing \<noteq> toolName \<or> ar_ArgsHash existing \<noteq> argsHash
     then tx_fail (ErrText ''approval tool context conflicts with existing approval'')
     else tx_return (existing, [])))"

definition link_tool_call :: "string \<Rightarrow> string \<Rightarrow> string \<Rightarrow> unit wtx" where
  "link_tool_call aid toolCallID rid =
     (let p = (\<lambda>c. tc_id c = toolCallID \<and> tc_run_id c = rid) in
      tx_bind (tx_gets (\<lambda>w. rows_affected p (tool_calls w))) (\<lambda>n.
      tx_then (tx_modify (\<lambda>w. w\<lparr>tool_calls := update_where p
          (\<lambda>c. c\<lparr>tc_approval_id := Some aid, tc_status := ''approval_required''\<rparr>) (tool_calls w)\<rparr>))
        (expectOneRow n ''tool call not found'')))"

definition CreateApprovalWithEvents ::
  "string \<Rightarrow> string \<Rightarrow> string \<Rightarrow> string \<Rightarrow> string \<Rightarrow> string \<Rightarrow> string \<Rightarrow> (ApprovalRecord \<times> Event list) wtx" where
  "CreateApprovalWithEvents rid toolCallID agentID toolName argsJSON argsHash expiresAt =
     tx_bind now_text (\<lambda>createdAt.
     tx_bind (ids_New ''appr'') (\<lambda>aid.
     tx_bind (insert_approval (new_approval aid rid toolCallID agentID toolName argsJSON argsHash expiresAt createdAt)) (\<lambda>inserted.
     if inserted = 0 then existing_approval rid toolCallID agentID toolName argsHash
     else
       tx_then (if toolCallID \<noteq> '''' then link_tool_call aid toolCallID rid else tx_return ()) (
       tx_bind (approvalByID aid) (\<lambda>rec.
       tx_bind (query_row (\<lambda>w. map run_trace_id (filter (\<lambda>r. run_id r = rid) (agent_runs w)))) (\<lambda>requestTraceID.
       tx_bind (approvalLifecyclePayloadTx rec requestTraceID ''approval.requested'') (\<lambda>requestPayload.
       tx_bind (awaitApprovalTransitionTx rid (ar_ApprovalID rec) (Some requestPayload)) (\<lambda>transition.
       case tr_Events transition of
         event # _ \<Rightarrow> tx_return (rec, event # tr_Delegation transition)
       | [] \<Rightarrow>
           tx_bind (appendApprovalRunStateEventTx rec ''approval.requested'' (tr_State transition) createdAt) (\<lambda>event.
           tx_bind (reportDelegationTx rid createdAt) (\<lambda>reported.
           tx_return (rec, event # tr_Delegation transition @ reported)))))))))))"

definition CreateApprovalWithEvent ::
  "string \<Rightarrow> string \<Rightarrow> string \<Rightarrow> string \<Rightarrow> string \<Rightarrow> string \<Rightarrow> string \<Rightarrow> (ApprovalRecord \<times> Event option) wtx" where
  "CreateApprovalWithEvent rid toolCallID agentID toolName argsJSON argsHash expiresAt =
     tx_bind (CreateApprovalWithEvents rid toolCallID agentID toolName argsJSON argsHash expiresAt) (\<lambda>(rec, evs).
     tx_return (rec, case evs of [] \<Rightarrow> None | e # _ \<Rightarrow> Some e))"

section \<open>Resuming an approved run\<close>

record ResumeApprovedRunInput =
  ri_RunID :: string
  ri_ApprovalID :: string
  ri_WorkerID :: string
  ri_AssignmentAttemptID :: string
  ri_ExpectedStateVersion :: int

definition resumeApprovedTransition :: "ResumeApprovedRunInput \<Rightarrow> runTransition" where
  "resumeApprovedTransition input = zero_transition\<lparr>rt_runID := ri_RunID input,
     rt_expectedVersion := ri_ExpectedStateVersion input, rt_allowedFrom := [lifecycleWaitingApproval],
     rt_to := lifecycleRunning, rt_reason := ReasonNone,
     rt_identity := no_identity\<lparr>ti_workerID := ri_WorkerID input,
       ti_assignmentAttemptID := ri_AssignmentAttemptID input, ti_approvalID := ri_ApprovalID input\<rparr>,
     rt_requiresAuthorizedApproval := True, rt_durableApprovalIdentity := True,
     rt_eventPayload := [(''approvalId'', JStr (ri_ApprovalID input))]\<rparr>"

definition ResumeApprovedRun :: "ResumeApprovedRunInput \<Rightarrow> RunTransitionResult wtx" where
  "ResumeApprovedRun input = runInTransition (resumeApprovedTransition input) no_subsidiary"

section \<open>Deadlines and previews\<close>

definition approvalExpiredAtDecision :: "string \<Rightarrow> string \<Rightarrow> bool" where
  "approvalExpiredAtDecision expiresAt decidedAt =
     (case time_Parse expiresAt of
        Inl _ \<Rightarrow> True
      | Inr expiry \<Rightarrow> (case time_Parse decidedAt of Inl _ \<Rightarrow> True | Inr decision \<Rightarrow> \<not> expiry > decision))"

definition MaxSnapshotBytes :: int where "MaxSnapshotBytes = 2097152"

definition deletion_generation :: "string \<Rightarrow> world \<Rightarrow> int" where
  "deletion_generation sid w =
     (case find_row (\<lambda>d. sd_session_id d = sid) (session_deletions w) of None \<Rightarrow> 0 | Some d \<Rightarrow> sd_lifecycle_version d)"

text \<open>The approval, its run and its active session.\<close>

definition approval_session :: "string \<Rightarrow> world \<Rightarrow> (approval \<times> agent_run \<times> session) list" where
  "approval_session aid w = concat (map (\<lambda>a. concat (map (\<lambda>r. map (\<lambda>s. (a, r, s))
       (filter (\<lambda>s. sess_id s = run_session_id r \<and> sess_deletion_state s = ''active'') (sessions w)))
     (filter (\<lambda>r. run_id r = ap_run_id a) (agent_runs w)))) (filter (\<lambda>a. ap_id a = aid) (approvals w)))"

record ApprovalPreviewContext =
  pc_SessionID :: string
  pc_Generation :: int
  pc_Lifecycle :: string
  pc_ToolName :: string
  pc_ArgsHash :: string
  pc_AgentID :: string

definition GetApprovalPreviewContext :: "string \<Rightarrow> ApprovalPreviewContext wtx" where
  "GetApprovalPreviewContext aid = query_row (\<lambda>w. concat (map (\<lambda>(a, r, s).
     map (\<lambda>c. \<lparr>pc_SessionID = sess_id s, pc_Generation = deletion_generation (sess_id s) w,
               pc_Lifecycle = run_status r, pc_ToolName = tc_tool_name c, pc_ArgsHash = tc_args_hash c,
               pc_AgentID = tc_agent_id c\<rparr>)
       (filter (\<lambda>c. Some (tc_id c) = ap_tool_call_id a \<and> tc_run_id c = ap_run_id a) (tool_calls w)))
     (approval_session aid w)))"

definition GetApprovalPreview :: "string \<Rightarrow> approval_preview wtx" where
  "GetApprovalPreview aid = query_row (\<lambda>w. concat (map (\<lambda>p. map (\<lambda>_. p\<lparr>pv_snapshot_json :=
       (if int (length (pv_snapshot_json p)) \<le> MaxSnapshotBytes then pv_snapshot_json p else '''')\<rparr>)
     (filter (\<lambda>(a, r, s). deletion_generation (sess_id s) w = pv_generation p) (approval_session aid w)))
     (filter (\<lambda>p. pv_approval_id p = aid) (approval_previews w))))"

definition StoreApprovalPreview :: "approval_preview \<Rightarrow> bool \<Rightarrow> unit wtx" where
  "StoreApprovalPreview p refresh =
     (if int (length (pv_snapshot_json p)) > MaxSnapshotBytes \<or> pv_hash p = '''' then tx_fail (ErrText ''invalid preview'')
      else
        tx_bind (approvalByID (pv_approval_id p)) (\<lambda>a.
        tx_bind now_text (\<lambda>at.
        if approvalExpiredAtDecision (ar_ExpiresAt a) at then tx_fail ErrApprovalExpired
        else
          tx_bind (query_row (\<lambda>w. filter (\<lambda>(a, r, s). ap_status a = ''pending''
              \<and> run_status r \<in> set [''running'', ''waiting_approval'']
              \<and> deletion_generation (sess_id s) w = pv_generation p) (approval_session (pv_approval_id p) w))) (\<lambda>_.
          tx_modify (\<lambda>w. w\<lparr>approval_previews :=
            (if list_ex (\<lambda>x. pv_approval_id x = pv_approval_id p) (approval_previews w)
             then (if refresh then update_where (\<lambda>x. pv_approval_id x = pv_approval_id p) (\<lambda>_. p) (approval_previews w)
                   else approval_previews w)
             else approval_previews w @ [p])\<rparr>)))))"

definition checkPreviewDecision :: "string \<Rightarrow> string \<Rightarrow> unit wtx" where
  "checkPreviewDecision aid hash =
     tx_bind (tx_gets (\<lambda>w. list_ex (\<lambda>p. pv_approval_id p = aid \<and> pv_hash p = hash
         \<and> list_ex (\<lambda>(a, r, s). deletion_generation (sess_id s) w = pv_generation p
              \<and> run_status r \<in> set [''running'', ''waiting_approval'']) (approval_session aid w)) (approval_previews w)))
       (\<lambda>found. if found then tx_return () else tx_fail (ErrText ''preview changed or unavailable''))"

section \<open>Approving\<close>

definition approve_row :: "string \<Rightarrow> string \<Rightarrow> string option \<Rightarrow> string \<Rightarrow> unit wtx" where
  "approve_row aid token comment decidedAt =
     (let p = (\<lambda>a. ap_id a = aid \<and> ap_status a = ''pending'') in
      tx_bind (tx_gets (\<lambda>w. rows_affected p (approvals w))) (\<lambda>n.
      tx_then (tx_modify (\<lambda>w. w\<lparr>approvals := update_where p
          (\<lambda>a. a\<lparr>ap_status := ''approved'', ap_jti := Some aid, ap_token := Some token, ap_comment := comment,
                 ap_decided_at := Some decidedAt\<rparr>) (approvals w)\<rparr>))
        (expectOneRow n ''approval is not pending'')))"

definition ApproveApprovalWithEvent ::
  "string \<Rightarrow> string \<Rightarrow> string option \<Rightarrow> string \<Rightarrow> string list \<Rightarrow> ApprovalTerminalization wtx" where
  "ApproveApprovalWithEvent aid token comment decidedAt0 previewHashes =
     tx_bind (at_or_now decidedAt0) (\<lambda>decidedAt.
     tx_then (case previewHashes of [] \<Rightarrow> tx_return () | h # _ \<Rightarrow> checkPreviewDecision aid h) (
     tx_bind (approvalByID aid) (\<lambda>rec0.
     if ar_Status rec0 = ''approved'' then tx_return (unchanged_approval rec0)
     else if ar_Status rec0 \<noteq> ''pending'' then tx_fail (ErrText ''approval is not pending'')
     else if approvalExpiredAtDecision (ar_ExpiresAt rec0) decidedAt then tx_fail ErrApprovalExpired
     else
       tx_then (approve_row aid token comment decidedAt) (
       tx_bind (approvalByID aid) (\<lambda>rec.
       tx_bind (readRunRow (ar_RunID rec)) (\<lambda>row.
       if rr_lifecycle row \<noteq> lifecycleWaitingApproval \<and> rr_lifecycle row \<noteq> lifecycleRunning
       then tx_fail (ErrText ''run is not waiting for approval'')
       else
         tx_bind (appendApprovalRunStateEventTx rec ''approval.approved'' (runRow_state row) decidedAt) (\<lambda>event.
         tx_bind (if rr_lifecycle row = lifecycleWaitingApproval
                  then reportDelegationTx (ar_RunID rec) decidedAt else tx_return []) (\<lambda>delegation.
         tx_return ((unchanged_approval rec)\<lparr>at_ApprovalEvent := Some event, at_Changed := True,
           at_DelegationEvents := delegation\<rparr>)))))))))"


section \<open>Denying, expiring and failing delivery\<close>

text \<open>What a decision does: the status, the failure it ends the run with, and its event.\<close>

record decision =
  de_approvalStatus :: string
  de_failure :: Failure
  de_toolCallStatus :: string
  de_eventType :: string

definition expiry_decision :: decision where
  "expiry_decision = \<lparr>de_approvalStatus = ''expired'',
     de_failure = NormalizeFailure OriginApprovalExpiry ''approval_expired'' RetryClassNever,
     de_toolCallStatus = ''failed'', de_eventType = ''approval.expired''\<rparr>"

definition denial_decision :: decision where
  "denial_decision = \<lparr>de_approvalStatus = ''denied'',
     de_failure = NormalizeFailure OriginToolPolicy ''tool_policy_decision_failed'' RetryClassNever,
     de_toolCallStatus = ''denied'', de_eventType = ''approval.denied''\<rparr>"

definition delivery_decision :: decision where
  "delivery_decision = \<lparr>de_approvalStatus = ''denied'',
     de_failure = NormalizeFailure OriginApprovalTransport ''approval_delivery_failed'' RetryClassNever,
     de_toolCallStatus = ''failed'', de_eventType = ''approval.denied''\<rparr>"

definition inconsistent_failure :: err where
  "inconsistent_failure = ErrText ''run failed before approval terminalization is inconsistent''"

definition validateLateApprovalRuntimeFailure :: "ApprovalRecord \<Rightarrow> unit wtx" where
  "validateLateApprovalRuntimeFailure rec =
     tx_then (if ar_ToolCallID rec \<noteq> '''' then
         tx_bind (query_row (\<lambda>w. map tc_status (filter (\<lambda>c. tc_id c = ar_ToolCallID rec \<and> tc_run_id c = ar_RunID rec) (tool_calls w))))
           (\<lambda>status. tx_guard (status = ''failed'') inconsistent_failure)
       else tx_return ()) (
     tx_bind (query_row (\<lambda>w. map job_status (filter (\<lambda>j. job_run_id j = ar_RunID rec) (jobs w)))) (\<lambda>jobStatus.
     tx_then (tx_guard (jobStatus = ''failed'') inconsistent_failure) (
     tx_bind (tx_gets (\<lambda>w. rows_affected (\<lambda>e. ev_run_id e = Some (ar_RunID rec) \<and> ev_type e = ''agent.run.failed'') (events w))) (\<lambda>failedEvents.
     tx_guard (failedEvents = 1) inconsistent_failure))))"

text \<open>The columns of a closed approval; an expiry also revokes the token.\<close>

definition closed_row :: "string \<Rightarrow> string option \<Rightarrow> string \<Rightarrow> approval \<Rightarrow> approval" where
  "closed_row status reason at a = a\<lparr>ap_status := status,
     ap_jti := (if status = ''expired'' then None else ap_jti a),
     ap_token := (if status = ''expired'' then None else ap_token a),
     ap_denial_reason := (if status = ''denied'' then reason else None), ap_decided_at := Some at\<rparr>"

definition close_approval_row :: "string \<Rightarrow> string \<Rightarrow> string \<Rightarrow> string option \<Rightarrow> string \<Rightarrow> unit wtx" where
  "close_approval_row aid fromStatus status denialReason decidedAt =
     (let p = (\<lambda>a. ap_id a = aid \<and> ap_status a = fromStatus) in
      tx_bind (tx_gets (\<lambda>w. rows_affected p (approvals w))) (\<lambda>n.
      tx_then (tx_modify (\<lambda>w. w\<lparr>approvals := update_where p (closed_row status denialReason decidedAt) (approvals w)\<rparr>))
        (expectOneRow n ''approval is not pending'')))"

text \<open>The tool call of the approval: whether it changed, and the server it belongs to.\<close>

definition close_approval_tool_call :: "ApprovalRecord \<Rightarrow> string \<Rightarrow> string \<Rightarrow> string \<Rightarrow> (bool \<times> string) wtx" where
  "close_approval_tool_call rec status errorCode decidedAt =
     (if ar_ToolCallID rec = '''' then tx_return (False, '''')
      else
        (let q = (\<lambda>c. tc_id c = ar_ToolCallID rec \<and> tc_run_id c = ar_RunID rec);
             p = (\<lambda>c. q c \<and> isOpenToolCallStatus (tc_status c)) in
         tx_bind (tx_gets (\<lambda>w. rows_affected p (tool_calls w))) (\<lambda>changed.
         tx_then (tx_modify (\<lambda>w. w\<lparr>tool_calls := update_where p
             (\<lambda>c. c\<lparr>tc_status := status, tc_error_code := Some errorCode, tc_error_message := None,
                    tc_completed_at := Some decidedAt\<rparr>) (tool_calls w)\<rparr>)) (
         if changed \<noteq> 1 then
           tx_bind (query_row (\<lambda>w. map tc_status (filter q (tool_calls w)))) (\<lambda>currentStatus.
           tx_then (tx_guard (isTerminalToolCallStatus currentStatus) (ErrText ''tool call not found for approval''))
             (tx_return (False, '''')))
         else
           tx_bind (query_row (\<lambda>w. map tc_server_name (filter q (tool_calls w)))) (\<lambda>serverName.
           tx_return (True, serverName))))))"

definition approval_fail_input :: "string \<Rightarrow> Failure \<Rightarrow> bool \<Rightarrow> FailRunInput" where
  "approval_fail_input rid failure approvedExpiration = \<lparr>fri_RunID = rid, fri_AssistantMessageID = '''',
     fri_ExpectedStateVersion = 0, fri_Failure = failure, fri_PreserveExecution = False,
     fri_leaveExecutionUntouched = True,
     fri_allowedFrom = [lifecycleWaitingApproval, lifecycleRecovering]
       @ (if approvedExpiration then [lifecycleRunning] else []),
     fri_resolveVersionInTx = True, fri_queueWaitReason = ''''\<rparr>"

definition run_not_found :: "err \<Rightarrow> err" where
  "run_not_found e = (if e = ErrRunNotFailable \<or> e = ErrRunTransitionConflict
     then ErrText ''run not found for approval'' else e)"

text \<open>Ending the run, and the events and stopped tasks that came of it.\<close>

definition fail_approval_run ::
  "ApprovalRecord \<Rightarrow> Failure \<Rightarrow> bool \<Rightarrow> (Event option \<times> Event list \<times> string list \<times> string) wtx" where
  "fail_approval_run rec failure approvedExpiration =
     tx_bind (tx_map_err run_not_found (failRunTx (approval_fail_input (ar_RunID rec) failure approvedExpiration))) (\<lambda>terminal.
     tx_return (case rev (filter (\<lambda>e. ev_type e = ''agent.run.failed'') (tr_Events terminal)) of [] \<Rightarrow> None | e # _ \<Rightarrow> Some e,
       tr_Delegation terminal, tr_StoppedTasks terminal, tr_ContinuationRunID terminal))"

text \<open>The writes of a decision, once it is known to be admissible.\<close>

definition commit_decision ::
  "string \<Rightarrow> ApprovalRecord \<Rightarrow> string option \<Rightarrow> string \<Rightarrow> decision \<Rightarrow> bool \<Rightarrow> string \<Rightarrow> string \<Rightarrow> bool \<Rightarrow>
   ApprovalTerminalization wtx" where
  "commit_decision aid rec0 denialReason decidedAt d approvedExpiration sessionID traceID lateRuntimeFailure =
     tx_then (close_approval_row aid (if approvedExpiration then ''approved'' else ''pending'')
                (de_approvalStatus d) denialReason decidedAt) (
     tx_bind (close_approval_tool_call rec0 (de_toolCallStatus d) (Failure_Code (de_failure d)) decidedAt) (\<lambda>(toolCallChanged, serverName).
     tx_bind (approvalByID aid) (\<lambda>rec.
     tx_bind (if de_eventType d \<noteq> '''' then
                tx_bind (appendApprovalLifecycleEventTx rec (de_eventType d) decidedAt) (\<lambda>e. tx_return (Some e))
              else tx_return None) (\<lambda>approvalEvent.
     tx_bind (if toolCallChanged then
                tx_bind (appendRunEventTx sessionID (ar_RunID rec) traceID
                    (if de_toolCallStatus d = ''denied'' then ''tool.call.denied'' else ''tool.call.failed'')
                    (Some (marshalToolLifecyclePayload (ar_ToolCallID rec) serverName (ar_ToolName rec)
                       (Failure_Reason (de_failure d)))) decidedAt) (\<lambda>e. tx_return (Some e))
              else tx_return None) (\<lambda>toolEvent.
     tx_bind (if \<not> lateRuntimeFailure then fail_approval_run rec (de_failure d) approvedExpiration
              else tx_return (None, [], [], '''')) (\<lambda>(event, delegationEvents, stopped, continuation).
     tx_return \<lparr>at_Approval = rec, at_ApprovalEvent = approvalEvent, at_ToolEvent = toolEvent,
       at_RunFailedEvent = event, at_DelegationEvents = delegationEvents, at_StoppedTasks = stopped,
       at_ContinuationRunID = continuation, at_Changed = True\<rparr>))))))"

definition terminalizeApproval ::
  "string \<Rightarrow> string option \<Rightarrow> string \<Rightarrow> decision \<Rightarrow> bool \<Rightarrow> ApprovalTerminalization wtx" where
  "terminalizeApproval aid denialReason decidedAt0 d0 expireAtDeadline =
     tx_bind (at_or_now decidedAt0) (\<lambda>decidedAt.
     tx_bind (approvalByID aid) (\<lambda>rec.
     if ar_Status rec = de_approvalStatus d0 then tx_return (unchanged_approval rec)
     else
       let approvedExpiration = (de_approvalStatus d0 = ''expired'' \<and> ar_Status rec = ''approved'') in
       if ar_Status rec \<noteq> ''pending'' \<and> \<not> approvedExpiration then tx_fail (ErrText ''approval is not pending'')
       else
         let d = (if expireAtDeadline \<and> approvalExpiredAtDecision (ar_ExpiresAt rec) decidedAt
                  then expiry_decision else d0) in
         tx_bind (query_row (\<lambda>w. map (\<lambda>r. (run_session_id r, run_trace_id r, run_status r))
             (filter (\<lambda>r. run_id r = ar_RunID rec) (agent_runs w)))) (\<lambda>(sessionID, traceID, runStatus).
         let lateRuntimeFailure = (runStatus = lifecycleFailed);
             awaitingDecision = (runStatus = lifecycleWaitingApproval \<or> runStatus = lifecycleRecovering) in
         if \<not> awaitingDecision \<and> \<not> lateRuntimeFailure \<and> (\<not> approvedExpiration \<or> runStatus \<noteq> lifecycleRunning)
         then tx_fail (ErrText ''run not found for approval'')
         else
           tx_then (if lateRuntimeFailure then validateLateApprovalRuntimeFailure rec else tx_return ())
             (commit_decision aid rec denialReason decidedAt d approvedExpiration sessionID traceID lateRuntimeFailure))))"

definition ExpireApprovalWithEvent :: "string \<Rightarrow> string \<Rightarrow> ApprovalTerminalization wtx" where
  "ExpireApprovalWithEvent aid decidedAt = terminalizeApproval aid None decidedAt expiry_decision False"

definition DenyApprovalWithEvent :: "string \<Rightarrow> string option \<Rightarrow> string \<Rightarrow> ApprovalTerminalization wtx" where
  "DenyApprovalWithEvent aid denialReason decidedAt =
     terminalizeApproval aid denialReason decidedAt denial_decision True"

definition FailApprovalDeliveryWithEvent :: "string \<Rightarrow> string \<Rightarrow> ApprovalTerminalization wtx" where
  "FailApprovalDeliveryWithEvent aid decidedAt = terminalizeApproval aid None decidedAt delivery_decision False"

section \<open>Consuming\<close>

definition consumable :: "string \<Rightarrow> int \<Rightarrow> approval \<Rightarrow> bool" where
  "consumable aid consumedNanos a \<longleftrightarrow> ap_id a = aid \<and> ap_status a = ''approved''
     \<and> (case sqliteTimestampNanos (ap_expires_at a) of None \<Rightarrow> False | Some n \<Rightarrow> n > consumedNanos)"

definition ConsumeApprovalWithEvent :: "string \<Rightarrow> string \<Rightarrow> (ApprovalTerminalization \<times> err option) wtx" where
  "ConsumeApprovalWithEvent aid consumedAt0 =
     tx_bind (at_or_now consumedAt0) (\<lambda>consumedAt.
     tx_bind (tx_lift (time_Parse consumedAt)) (\<lambda>consumedTime.
     tx_bind (approvalByID aid) (\<lambda>current.
     if ar_Status current = ''consumed'' then tx_return (unchanged_approval current, Some ErrApprovalAlreadyConsumed)
     else if ar_Status current \<noteq> ''approved'' then tx_fail (ErrText ''approval is not approved'')
     else
       let p = consumable aid (UnixNano consumedTime) in
       tx_bind (tx_gets (\<lambda>w. rows_affected p (approvals w))) (\<lambda>changed.
       if changed \<noteq> 1 then
         (if approvalExpiredAtDecision (ar_ExpiresAt current) consumedAt then
            tx_bind (ExpireApprovalWithEvent aid consumedAt) (\<lambda>transition.
            tx_return (transition, Some ErrApprovalExpired))
          else tx_fail (ErrText ''approval is not approved''))
       else
         tx_then (tx_modify (\<lambda>w. w\<lparr>approvals := update_where p
             (\<lambda>a. a\<lparr>ap_status := ''consumed'', ap_consumed_at := Some consumedAt\<rparr>) (approvals w)\<rparr>)) (
         tx_bind (approvalByID aid) (\<lambda>rec.
         tx_bind (appendApprovalLifecycleEventTx rec ''approval.consumed'' consumedAt) (\<lambda>event.
         tx_return ((unchanged_approval rec)\<lparr>at_ApprovalEvent := Some event, at_Changed := True\<rparr>, None))))))))"


section \<open>Within the store relations\<close>

definition decision_ok :: "decision \<Rightarrow> bool" where
  "decision_ok d \<longleftrightarrow> de_approvalStatus d \<in> set [''denied'', ''expired''] \<and> de_toolCallStatus d \<in> set [''failed'', ''denied'']"

lemma decision_ok_decisions [simp]:
  "decision_ok expiry_decision" "decision_ok denial_decision" "decision_ok delivery_decision"
  "de_approvalStatus expiry_decision = ''expired''" "de_approvalStatus denial_decision = ''denied''"
  "de_approvalStatus delivery_decision = ''denied''"
  by (simp_all add: decision_ok_def expiry_decision_def denial_decision_def delivery_decision_def)

lemma approval_transitions_ok [simp]:
  "transition_ok (awaitApprovalTransition rid aid payload)" "transition_ok (resumeApprovedTransition ri)"
  by (simp_all add: transition_ok_def lifecycle_edge_def awaitApprovalTransition_def resumeApprovedTransition_def
      zero_transition_def Let_def split: option.splits)

lemma fail_input_ok_approval [simp]: "fail_input_ok (approval_fail_input rid f b)"
  by (simp add: fail_input_ok_def approval_fail_input_def nonterminal_lifecycles_def)

text \<open>The three ways a decision closes an approval.\<close>

lemma closed_row_step:
  assumes "(fromStatus, status) \<in> {(''pending'', ''denied''), (''pending'', ''expired''), (''approved'', ''expired'')}"
    and "ap_status a = fromStatus"
  shows "approval_step a (closed_row status reason at a) \<and> closed_approval (closed_row status reason at a)"
proof -
  consider "fromStatus = ''pending''" "status = ''denied''" | "fromStatus = ''pending''" "status = ''expired''"
    | "fromStatus = ''approved''" "status = ''expired''" using assms(1) by blast
  then show ?thesis using assms(2) by cases (simp_all add: closed_row_def approval_step_defs closed_approval_def)
qed

context transition_relation
begin

lemma within_at_or_now: "tx_within R (at_or_now at)"
  unfolding at_or_now_def by (intro within_if within_now_text within_return)

lemma within_close_approval_row:
  assumes "(fromStatus, status) \<in> {(''pending'', ''denied''), (''pending'', ''expired''), (''approved'', ''expired'')}"
  shows "tx_within R (close_approval_row aid fromStatus status reason at)"
  unfolding close_approval_row_def Let_def
  by (intro within_bind within_gets within_then within_expectOneRow within_close_approvals)
    (rule closed_row_step [OF assms], simp)

lemma within_close_approval_tool_call:
  assumes "status \<in> set [''failed'', ''denied'']"
  shows "tx_within R (close_approval_tool_call rec status code at)"
  unfolding close_approval_tool_call_def Let_def
  by (intro within_if within_return within_bind within_gets within_then within_query_row within_guard
      within_close_tool_calls)
    (use assms in \<open>auto simp: closed_tool_call_def\<close>)

lemma within_fail_approval_run: "tx_within R (fail_approval_run rec f b)"
  unfolding fail_approval_run_def
  by (intro within_bind within_map_err within_failRunTx within_return) simp

lemma within_validateLate: "tx_within R (validateLateApprovalRuntimeFailure rec)"
  unfolding validateLateApprovalRuntimeFailure_def
  by (intro within_then within_if within_bind within_query_row within_guard within_return within_gets)

lemma within_commit_decision:
  assumes "decision_ok d" "b \<longrightarrow> de_approvalStatus d = ''expired''"
  shows "tx_within R (commit_decision aid rec reason at d b sid tid late)"
proof -
  have "tx_within R (close_approval_row aid (if b then ''approved'' else ''pending'') (de_approvalStatus d) reason at)"
    by (rule within_close_approval_row) (use assms in \<open>auto simp: decision_ok_def\<close>)
  moreover have "tx_within R (close_approval_tool_call rec (de_toolCallStatus d) (Failure_Code (de_failure d)) at)"
    by (rule within_close_approval_tool_call) (use assms in \<open>simp add: decision_ok_def\<close>)
  ultimately show ?thesis
    unfolding commit_decision_def
    by (intro within_then within_bind within_case_prod within_if within_approvals within_events
        within_fail_approval_run within_return)
qed

lemma within_terminalizeApproval:
  assumes "decision_ok d"
  shows "tx_within R (terminalizeApproval aid reason at d b)"
  unfolding terminalizeApproval_def Let_def
  by (intro within_bind within_at_or_now within_approvalByID within_if within_return within_fail
      within_query_row within_case_prod within_then within_validateLate within_commit_decision)
    (use assms in auto)

lemma within_decisions:
  "tx_within R (ExpireApprovalWithEvent aid at)" "tx_within R (DenyApprovalWithEvent aid reason at)"
  "tx_within R (FailApprovalDeliveryWithEvent aid at)"
  by (simp_all add: ExpireApprovalWithEvent_def DenyApprovalWithEvent_def FailApprovalDeliveryWithEvent_def
      within_terminalizeApproval)

lemma within_ConsumeApprovalWithEvent: "tx_within R (ConsumeApprovalWithEvent aid at)"
  unfolding ConsumeApprovalWithEvent_def Let_def
  by (intro within_bind within_at_or_now within_lift within_approvalByID within_if within_return within_fail
      within_gets within_decisions within_then within_approval_events within_close_approvals)
    (auto simp: consumable_def approval_step_defs closed_approval_def)

lemma within_ResumeApprovedRun: "tx_within R (ResumeApprovedRun ri)"
  unfolding ResumeApprovedRun_def runInTransition_def
  by (simp add: within_applyRunTransitionTx within_no_subsidiary)

lemma within_awaitApprovalTransitionTx: "tx_within R (awaitApprovalTransitionTx rid aid payload)"
  unfolding awaitApprovalTransitionTx_def by (simp add: within_applyRunTransitionTx within_no_subsidiary)

end

context store_relation
begin

lemma within_insert_approval:
  assumes "approval_new a"
  shows "tx_within R (insert_approval a)"
proof (rule tx_withinI)
  fix w n w' assume "insert_approval a w = Inr (n, w')"
  then have "w' = w \<or> (w' = w\<lparr>approvals := approvals w @ [a]\<rparr> \<and> ap_id a \<notin> set (map ap_id (approvals w)))"
    by (auto simp: insert_approval_def tx_simps list_ex_iff split: if_splits)
  then show "R w w'" using step_refl outside insert_approval assms by metis
qed

lemma within_any_tool_calls:
  "(\<And>c. p c \<Longrightarrow> tc_id (f c) = tc_id c) \<Longrightarrow>
   tx_within R (tx_modify (\<lambda>w. w\<lparr>tool_calls := update_where p f (tool_calls w)\<rparr>))"
  by (intro within_modify any_keys) (simp_all add: same_keys_def map_update_where)

lemma within_link_tool_call: "tx_within R (link_tool_call aid tcid rid)"
  unfolding link_tool_call_def Let_def
  by (intro within_bind within_gets within_then within_expectOneRow within_any_tool_calls) simp

lemma within_CreateApprovalWithEvents: "tx_within R (CreateApprovalWithEvents rid tc ag tool args h ex)"
proof -
  have new: "approval_new (new_approval aid rid tc ag tool args h ex at)" for aid at
    by (simp add: approval_new_def new_approval_def approval_ok_def)
  show ?thesis
    unfolding CreateApprovalWithEvents_def existing_approval_def
    by (intro within_bind within_now_text within_ids_New within_insert_approval [OF new] within_if
        within_query_row within_approvalByID within_fail within_return within_then within_link_tool_call
        within_approvals within_awaitApprovalTransitionTx)
      (auto intro!: within_return within_bind within_approval_events within_delegation split: list.splits)
qed

lemma within_CreateApprovalWithEvent: "tx_within R (CreateApprovalWithEvent rid tc ag tool args h ex)"
  unfolding CreateApprovalWithEvent_def
  by (intro within_bind within_CreateApprovalWithEvents within_case_prod within_return)

lemma within_approve_row: "tx_within R (approve_row aid token comment at)"
  unfolding approve_row_def Let_def
  by (intro within_bind within_gets within_then within_expectOneRow within_step_approvals)
    (auto simp: approval_step_defs)

lemma within_checkPreviewDecision: "tx_within R (checkPreviewDecision aid h)"
  unfolding checkPreviewDecision_def by (intro within_bind within_gets within_if within_return within_fail)

lemma within_ApproveApprovalWithEvent: "tx_within R (ApproveApprovalWithEvent aid token comment at hashes)"
proof -
  have "tx_within R (case hashes of [] \<Rightarrow> tx_return () | h # _ \<Rightarrow> checkPreviewDecision aid h)"
    by (cases hashes) (simp_all add: within_return within_checkPreviewDecision)
  then show ?thesis
    unfolding ApproveApprovalWithEvent_def
    by (intro within_bind within_at_or_now within_then within_approvalByID within_if within_return within_fail
        within_approve_row within_readRunRow within_approval_events within_delegation)
qed

lemma within_StoreApprovalPreview: "tx_within R (StoreApprovalPreview p refresh)"
  unfolding StoreApprovalPreview_def
  by (intro within_if within_fail within_bind within_approvalByID within_now_text within_query_row
      within_modify any_keys) (simp_all add: same_keys_def)

lemmas within_approval_operations =
  within_CreateApprovalWithEvents within_CreateApprovalWithEvent within_ApproveApprovalWithEvent
  within_StoreApprovalPreview within_decisions within_ConsumeApprovalWithEvent within_ResumeApprovedRun

end

end
