(* ===== verification/ExplicitCancel.thy ===== *)
theory ExplicitCancel
  imports Approvals
begin

text \<open>
  The user's explicit cancellation (\<^verbatim>\<open>explicit_cancel.go\<close>): one guarded cancellation per
  idempotency key, with a receipt that answers every repeat of the key, and the recognition of a
  worker whose approved resume lost to the stop.

  The receipt stores the run state as JSON; encoding and decoding are inverse, so a repeat
  reports exactly what the first call reported.
\<close>

section \<open>The stored state\<close>

text \<open>\<^verbatim>\<open>json.Marshal\<close> of a \<^verbatim>\<open>RunState\<close>: the exported field names, and \<^verbatim>\<open>sql.NullString\<close> as a struct.\<close>

definition encode_run_state :: "RunState \<Rightarrow> json" where
  "encode_run_state s = JObj [(''RunID'', JStr (rs_RunID s)), (''UserMessageID'', JStr (rs_UserMessageID s)),
     (''AssistantMessageID'', JStr (rs_AssistantMessageID s)), (''Lifecycle'', JStr (rs_Lifecycle s)),
     (''OutcomeReason'', JStr (rs_OutcomeReason s)), (''StateVersion'', JNum (rs_StateVersion s)),
     (''StateUpdatedAt'', JStr (rs_StateUpdatedAt s)),
     (''FinishedAt'', JObj [(''String'', JStr (text_or_empty (rs_FinishedAt s))), (''Valid'', JBool (rs_FinishedAt s \<noteq> None))]),
     (''HasDisplayableContent'', JBool (rs_HasDisplayableContent s)), (''ContentSHA256'', JStr (rs_ContentSHA256 s)),
     (''QueueWaitReason'', JStr (rs_QueueWaitReason s))]"

definition decode_null_string :: "string option \<Rightarrow> json \<Rightarrow> string option option" where
  "decode_null_string old j =
     (case decode_field decode_string (text_or_empty old) ''String'' j of
        None \<Rightarrow> None
      | Some s \<Rightarrow> (case decode_field decode_bool (old \<noteq> None) ''Valid'' j of
          None \<Rightarrow> None | Some valid \<Rightarrow> Some (if valid then Some s else None)))"

text \<open>\<^verbatim>\<open>json.Unmarshal\<close> over the state the caller already holds.\<close>

definition decode_run_state :: "RunState \<Rightarrow> json \<Rightarrow> RunState option" where
  "decode_run_state old j =
     (case (decode_field decode_string (rs_RunID old) ''RunID'' j,
            decode_field decode_string (rs_UserMessageID old) ''UserMessageID'' j,
            decode_field decode_string (rs_AssistantMessageID old) ''AssistantMessageID'' j,
            decode_field decode_string (rs_Lifecycle old) ''Lifecycle'' j,
            decode_field decode_string (rs_OutcomeReason old) ''OutcomeReason'' j,
            decode_field decode_int (rs_StateVersion old) ''StateVersion'' j,
            decode_field decode_string (rs_StateUpdatedAt old) ''StateUpdatedAt'' j,
            decode_field (decode_null_string (rs_FinishedAt old)) (rs_FinishedAt old) ''FinishedAt'' j,
            decode_field decode_bool (rs_HasDisplayableContent old) ''HasDisplayableContent'' j,
            decode_field decode_string (rs_ContentSHA256 old) ''ContentSHA256'' j,
            decode_field decode_string (rs_QueueWaitReason old) ''QueueWaitReason'' j) of
       (Some rid, Some um, Some am, Some lc, Some reason, Some v, Some at, Some fin, Some disp, Some sha, Some q) \<Rightarrow>
         Some \<lparr>rs_RunID = rid, rs_UserMessageID = um, rs_AssistantMessageID = am, rs_Lifecycle = lc,
           rs_OutcomeReason = reason, rs_StateVersion = v, rs_StateUpdatedAt = at, rs_FinishedAt = fin,
           rs_HasDisplayableContent = disp, rs_ContentSHA256 = sha, rs_QueueWaitReason = q\<rparr>
     | _ \<Rightarrow> None)"

lemma decode_encode_run_state: "decode_run_state old (encode_run_state s) = Some s"
proof -
  have "decode_null_string old' (JObj [(''String'', JStr (text_or_empty x)), (''Valid'', JBool (x \<noteq> None))]) = Some x" for old' x
    by (cases x) (simp_all add: decode_null_string_def decode_field_def json_get_def decode_string_def
        decode_bool_def text_or_empty_def)
  then show ?thesis
    by (simp add: decode_run_state_def encode_run_state_def decode_field_def json_get_def decode_string_def
        decode_int_def decode_bool_def)
qed

section \<open>Cancelling\<close>

record RunCancellation =
  cn_State :: RunState
  cn_ExecutionActive :: bool

record CancelUserRunResult = RunCancellation +
  cu_Accepted :: bool
  cu_Events :: "Event list"
  cu_StoppedTasks :: "string list"

definition visibleCancellationRunTx :: "string \<Rightarrow> string \<Rightarrow> (runRow \<times> bool) wtx" where
  "visibleCancellationRunTx sid rid =
     tx_bind (query_row (\<lambda>w. map run_execution_active (filter (\<lambda>r. run_id r = rid \<and> run_session_id r = sid
         \<and> list_ex (\<lambda>s. sess_id s = run_session_id r \<and> sess_deletion_state s = ''active'') (sessions w)) (agent_runs w)))) (\<lambda>active.
     tx_bind (readRunRow rid) (\<lambda>row. tx_return (row, active)))"

definition ReadRunCancellation :: "string \<Rightarrow> string \<Rightarrow> RunCancellation wtx" where
  "ReadRunCancellation sid rid =
     tx_bind (visibleCancellationRunTx sid rid) (\<lambda>(row, active).
     tx_return \<lparr>cn_State = runRow_state row, cn_ExecutionActive = active\<rparr>)"

definition user_cancel_input :: "string \<Rightarrow> string \<Rightarrow> CancelRunInput" where
  "user_cancel_input rid assistantMessageID = \<lparr>xri_RunID = rid, xri_AssistantMessageID = assistantMessageID,
     xri_ExpectedStateVersion = 0, xri_Cancellation = UserCancellation, xri_resolveVersionInTx = True,
     xri_queueWaitReason = ''''\<rparr>"

definition find_receipt :: "string \<Rightarrow> world \<Rightarrow> cancellation_receipt option" where
  "find_receipt key w = find_row (\<lambda>rc. rc_idempotency_key rc = key) (receipts w)"

definition insert_receipt :: "cancellation_receipt \<Rightarrow> unit wtx" where
  "insert_receipt rc =
     tx_bind (tx_gets (find_receipt (rc_idempotency_key rc))) (\<lambda>found.
     tx_then (tx_guard (found = None) (ErrUnique ''run_cancellation_receipts''))
       (tx_modify (\<lambda>w. w\<lparr>receipts := receipts w @ [rc]\<rparr>)))"

definition valid_cancel_key :: "string \<Rightarrow> bool" where
  "valid_cancel_key key \<longleftrightarrow> \<not> (TrimSpace key = '''' \<or> length key > 128 \<or> \<not> ValidString key)"

text \<open>A key that was used before: the stored answer, for the same session and run.\<close>

definition replay_receipt :: "string \<Rightarrow> string \<Rightarrow> runRow \<Rightarrow> bool \<Rightarrow> cancellation_receipt \<Rightarrow> CancelUserRunResult wtx" where
  "replay_receipt sid rid row active rc =
     (if rc_session_id rc \<noteq> sid \<or> rc_run_id rc \<noteq> rid then tx_fail ErrCancelKeyConflict
      else (case decode_run_state (runRow_state row) (rc_run_state rc) of
              None \<Rightarrow> tx_fail ErrUnmarshal
            | Some state \<Rightarrow> tx_return \<lparr>cn_State = state, cn_ExecutionActive = active,
                cu_Accepted = rc_accepted rc, cu_Events = [], cu_StoppedTasks = []\<rparr>))"

text \<open>A new key: cancel the run unless it has ended already.\<close>

definition cancel_once :: "string \<Rightarrow> runRow \<Rightarrow> bool \<Rightarrow> CancelUserRunResult wtx" where
  "cancel_once rid row active =
     (if \<not> isTerminalLifecycle (rr_lifecycle row) then
        tx_bind (cancelRunTx (user_cancel_input rid (rr_assistantMessageID row))) (\<lambda>transition.
        tx_then (recordAuditTx rid ''client'' '''' ''run.cancel'' rid None)
          (tx_return \<lparr>cn_State = tr_State transition, cn_ExecutionActive = active, cu_Accepted = True,
             cu_Events = tr_Events transition, cu_StoppedTasks = tr_StoppedTasks transition\<rparr>))
      else tx_return \<lparr>cn_State = runRow_state row, cn_ExecutionActive = active, cu_Accepted = False,
             cu_Events = [], cu_StoppedTasks = []\<rparr>)"

definition cancel_with_receipt :: "string \<Rightarrow> string \<Rightarrow> string \<Rightarrow> runRow \<Rightarrow> bool \<Rightarrow> CancelUserRunResult wtx" where
  "cancel_with_receipt sid rid key row active =
     tx_bind (cancel_once rid row active) (\<lambda>result.
     tx_then (insert_receipt \<lparr>rc_idempotency_key = key, rc_session_id = sid, rc_run_id = rid,
         rc_accepted = cu_Accepted result, rc_run_state = encode_run_state (cn_State result)\<rparr>)
       (tx_return result))"

definition CancelUserRun :: "string \<Rightarrow> string \<Rightarrow> string \<Rightarrow> CancelUserRunResult wtx" where
  "CancelUserRun sid rid key =
     (if \<not> valid_cancel_key key then tx_fail ErrCancelKeyInvalid
      else
        tx_bind (visibleCancellationRunTx sid rid) (\<lambda>(row, active).
        tx_bind (tx_gets (find_receipt key)) (\<lambda>found.
        case found of
          Some rc \<Rightarrow> replay_receipt sid rid row active rc
        | None \<Rightarrow> cancel_with_receipt sid rid key row active)))"

section \<open>A resume that lost\<close>

definition lost_event :: "agent_run \<Rightarrow> string \<Rightarrow> int \<Rightarrow> Event \<Rightarrow> bool" where
  "lost_event r aid expectedVersion e \<longleftrightarrow>
     ev_run_id e = Some (run_id r)
     \<and> json_extract [''runState'', ''stateVersion''] (ev_payload e) = Some (JNum (run_state_version r - 1))
     \<and> ((ev_type e \<in> set [''approval.requested'', ''approval.approved'']
          \<and> json_extract [''runState'', ''lifecycle''] (ev_payload e) = Some (JStr ''waiting_approval'')
          \<and> run_state_version r - 1 = expectedVersion)
        \<or> (ev_type e = ''agent.run.state_changed''
          \<and> json_extract [''runState'', ''lifecycle''] (ev_payload e) = Some (JStr ''running'')
          \<and> json_extract [''approvalId''] (ev_payload e) = Some (JStr aid)
          \<and> run_state_version r - 2 = expectedVersion))"

definition approval_event :: "agent_run \<Rightarrow> string \<Rightarrow> string \<Rightarrow> Event \<Rightarrow> bool" where
  "approval_event r aid eventType e \<longleftrightarrow> ev_run_id e = Some (run_id r) \<and> ev_type e = eventType
     \<and> json_extract [''approvalId''] (ev_payload e) = Some (JStr aid)"

definition resume_lost :: "ResumeApprovedRunInput \<Rightarrow> world \<Rightarrow> agent_run \<Rightarrow> approval \<Rightarrow> bool" where
  "resume_lost input w r a \<longleftrightarrow>
     run_id r = ri_RunID input \<and> ap_id a = ri_ApprovalID input \<and> ap_run_id a = run_id r
     \<and> run_worker_id r = Some (ri_WorkerID input)
     \<and> run_execution_attempt_id r = Some (ri_AssignmentAttemptID input)
     \<and> run_status r = ''cancelled'' \<and> run_execution_active r
     \<and> (run_outcome_reason r = ReasonUserCancelled \<or> text_or_empty (run_cancellation_reason r) = CodeParentRunEnded)
     \<and> (ap_status a = ''consumed''
        \<or> (ap_status a = ''expired''
           \<and> list_ex (\<lambda>e. approval_event r (ap_id a) ''approval.expired'' e \<and> ev_created_at e = run_state_updated_at r) (events w)))
     \<and> list_ex (approval_event r (ap_id a) ''approval.approved'') (events w)
     \<and> list_ex (lost_event r (ap_id a) (ri_ExpectedStateVersion input)) (events w)"

definition ApprovalResumeLostToCancellation :: "ResumeApprovedRunInput \<Rightarrow> string wtx" where
  "ApprovalResumeLostToCancellation input =
     (if ri_RunID input = '''' \<or> ri_ApprovalID input = '''' \<or> ri_WorkerID input = ''''
         \<or> ri_AssignmentAttemptID input = '''' \<or> ri_ExpectedStateVersion input < 1
      then tx_return ''''
      else
        tx_bind (query_opt (\<lambda>w. map run_outcome_reason
            (filter (\<lambda>r. list_ex (resume_lost input w r) (approvals w)) (agent_runs w)))) (\<lambda>found.
        tx_return (case found of None \<Rightarrow> ''''
          | Some reason \<Rightarrow> if reason = ReasonUserCancelled then CodeUserCancelled else CodeParentRunEnded)))"

section \<open>Within the store relations\<close>

lemma visibleCancellationRunTx_same: "visibleCancellationRunTx sid rid w = Inr (x, w') \<Longrightarrow> w' = w"
  unfolding visibleCancellationRunTx_def
  by (elim tx_bindE) (auto simp: query_row_def dest!: readRunRow_Inr split: list.splits)

context transition_relation
begin

lemma within_visibleCancellationRunTx: "tx_within R (visibleCancellationRunTx sid rid)"
  unfolding visibleCancellationRunTx_def
  by (intro within_bind within_query_row within_readRunRow within_return)

lemma within_insert_receipt: "tx_within R (insert_receipt rc)"
  unfolding insert_receipt_def
  by (intro within_bind within_gets within_then within_guard within_modify frame_keys) (simp_all add: same_keys_def)

lemma within_CancelUserRun: "tx_within R (CancelUserRun sid rid key)"
  unfolding CancelUserRun_def replay_receipt_def cancel_with_receipt_def cancel_once_def
  by (intro within_if within_fail within_bind within_visibleCancellationRunTx within_case_prod within_gets
      within_case_option within_return within_cancelRunTx within_then within_recordAuditTx within_insert_receipt)

end

section \<open>Idempotency\<close>

text \<open>The first call with a key leaves a receipt of what it returned.\<close>

lemma insert_receipt_Inr:
  assumes "insert_receipt rc w = Inr (u, w')"
  shows "find_receipt (rc_idempotency_key rc) w' = Some rc"
proof -
  have none: "find_receipt (rc_idempotency_key rc) w = None" and w': "w' = w\<lparr>receipts := receipts w @ [rc]\<rparr>"
    using assms by (auto simp: insert_receipt_def tx_simps split: if_splits)
  have "filter (\<lambda>x. rc_idempotency_key x = rc_idempotency_key rc) (receipts w) = []"
    using none by (simp add: find_receipt_def find_row_def split: list.splits)
  then show ?thesis by (simp add: w' find_receipt_def find_row_def)
qed

lemma CancelUserRun_cases:
  assumes "CancelUserRun sid rid key w = Inr (res, w')"
  obtains row active where "visibleCancellationRunTx sid rid w = Inr ((row, active), w)" "valid_cancel_key key"
    "case find_receipt key w of Some rc \<Rightarrow> replay_receipt sid rid row active rc w = Inr (res, w')
      | None \<Rightarrow> cancel_with_receipt sid rid key row active w = Inr (res, w')"
proof -
  have key: "valid_cancel_key key" using assms by (simp add: CancelUserRun_def split: if_splits)
  obtain p w0 where p: "visibleCancellationRunTx sid rid w = Inr (p, w0)"
    and rest: "(case p of (row, active) \<Rightarrow> tx_bind (tx_gets (find_receipt key)) (\<lambda>found.
        case found of Some rc \<Rightarrow> replay_receipt sid rid row active rc
        | None \<Rightarrow> cancel_with_receipt sid rid key row active)) w0 = Inr (res, w')"
    using assms key unfolding CancelUserRun_def by (auto elim: tx_bindE)
  obtain row active where "p = (row, active)" by (cases p)
  moreover have "w0 = w" by (rule visibleCancellationRunTx_same [OF p])
  ultimately show ?thesis
    using p key rest by (intro that) (auto elim!: tx_bindE split: option.splits)
qed

lemma CancelUserRun_first:
  assumes run: "CancelUserRun sid rid key w = Inr (res, w')" and first: "find_receipt key w = None"
  shows "find_receipt key w' = Some \<lparr>rc_idempotency_key = key, rc_session_id = sid, rc_run_id = rid,
    rc_accepted = cu_Accepted res, rc_run_state = encode_run_state (cn_State res)\<rparr>"
proof -
  obtain row active where "cancel_with_receipt sid rid key row active w = Inr (res, w')"
    using run first by (auto elim!: CancelUserRun_cases)
  then obtain w1 u where "insert_receipt \<lparr>rc_idempotency_key = key, rc_session_id = sid, rc_run_id = rid,
      rc_accepted = cu_Accepted res, rc_run_state = encode_run_state (cn_State res)\<rparr> w1 = Inr (u, w')"
    unfolding cancel_with_receipt_def by (auto elim!: tx_bindE tx_thenE)
  from insert_receipt_Inr [OF this] show ?thesis by simp
qed

lemma CancelUserRun_replay:
  assumes run: "CancelUserRun sid rid key w = Inr (res, w')" and rc: "find_receipt key w = Some rc"
  shows "w' = w \<and> rc_session_id rc = sid \<and> rc_run_id rc = rid \<and> cu_Accepted res = rc_accepted rc
    \<and> cu_Events res = [] \<and> cu_StoppedTasks res = []
    \<and> (\<forall>s. rc_run_state rc = encode_run_state s \<longrightarrow> cn_State res = s)"
proof -
  obtain row active where "replay_receipt sid rid row active rc w = Inr (res, w')"
    using run rc by (auto elim!: CancelUserRun_cases)
  then show ?thesis
    by (auto simp: replay_receipt_def decode_encode_run_state split: if_splits option.splits)
qed

lemma CancelUserRun_conflict:
  assumes "visibleCancellationRunTx sid rid w = Inr (p, w1)" "find_receipt key w = Some rc"
    and "rc_session_id rc \<noteq> sid \<or> rc_run_id rc \<noteq> rid" "valid_cancel_key key"
  shows "CancelUserRun sid rid key w = Inl ErrCancelKeyConflict"
  using assms visibleCancellationRunTx_same [OF assms(1)]
  by (cases p) (auto simp: CancelUserRun_def replay_receipt_def tx_bind_def)

text \<open>A run that had not ended is cancelled, with nothing left open.\<close>

lemma cancel_once_ends:
  assumes db: "db_ok w" and vis: "visibleCancellationRunTx sid rid w = Inr ((row, active), w)"
    and run: "cancel_once rid row active w = Inr (res, w')" and live: "\<not> isTerminalLifecycle (rr_lifecycle row)"
  shows "db_ok w' \<and> cu_Accepted res \<and> terminal_run rid w'"
proof -
  obtain transition w1 u where c: "cancelRunTx (user_cancel_input rid (rr_assistantMessageID row)) w = Inr (transition, w1)"
    and a: "recordAuditTx rid ''client'' '''' ''run.cancel'' rid None w1 = Inr (u, w')" and "cu_Accepted res"
    using run live unfolding cancel_once_def by (auto elim!: tx_bindE tx_thenE)
  have w1: "db_ok w1 \<and> lineage w w1" using under_use [OF lines.within_cancelRunTx c db] .
  have w': "db_ok w' \<and> lineage w1 w'" using under_use [OF lines.within_recordAuditTx a] w1 by blast
  obtain v content where ap: "applyRunTransitionTx (cancelTransition (user_cancel_input rid (rr_assistantMessageID row)) v content)
      (cancelSubsidiary (user_cancel_input rid (rr_assistantMessageID row))) w = Inr (transition, w1)"
    using terminal_writers_apply(3) [OF c] by blast
  have "terminal_run rid w1"
    using applyWith_terminal [OF db _ _ _ lines.apply_within_fuel ap [unfolded applyRunTransitionTx_def apply_fuel.simps]]
    by (simp add: lines.within_cancelSubsidiary user_cancel_input_def)
  then have "terminal_run rid w'" using w' run_history_terminal by (auto simp: lineage_def)
  then show ?thesis using w' \<open>cu_Accepted res\<close> by blast
qed

end
