(* ===== verification/LiveTransitions.thy ===== *)
theory LiveTransitions
  imports TransitionEffects
begin

text \<open>
  The exact effect of a committed transition that does not end its run: one row of
  \<^verbatim>\<open>agent_runs\<close> changes, by the columns the transition names, and no job, approval, tool call,
  message, session or delegation does. Everything else it does is append events.
\<close>

section \<open>Appending events leaves the tables alone\<close>

definition calm :: "world \<Rightarrow> world \<Rightarrow> bool" where
  "calm w w' \<longleftrightarrow> agent_runs w' = agent_runs w \<and> jobs w' = jobs w \<and> approvals w' = approvals w
     \<and> tool_calls w' = tool_calls w \<and> messages w' = messages w \<and> delegations w' = delegations w
     \<and> sessions w' = sessions w"

interpretation calm: tx_relation calm
  by unfold_locales (simp_all add: calm_def)

lemma calm_query: "tx_within calm (query_row q)" "tx_within calm (query_opt q)" "tx_within calm now_text"
  "tx_within calm time_Now" "tx_within calm (ids_New p)"
  by (auto simp: tx_within_def calm_def query_row_def query_opt_def now_text_def time_Now_def ids_New_def
      tx_bind_def split: list.splits)

lemma query_row_Inr: "query_row q w = Inr (x, w') \<Longrightarrow> w' = w \<and> x \<in> set (q w)"
  by (cases "q w") (simp_all add: query_row_def)

lemma calm_appendEventTx: "tx_within calm (appendEventTx s r t ty p at)"
proof (rule tx_withinI)
  fix w e w' assume "appendEventTx s r t ty p at w = Inr (e, w')"
  then have "w' = w\<lparr>ulids_drawn := Suc (ulids_drawn w), events := events w @ [e]\<rparr>"
    by (auto simp: appendEventTx_def insert_event_def tx_simps ids_New_def Let_def split: if_splits)
  then show "calm w w'" by (simp add: calm_def)
qed

lemma calm_appendRunEventTx: "tx_within calm (appendRunEventTx s r t ty p at)"
  unfolding appendRunEventTx_def by (rule calm_appendEventTx)

lemma calm_delegationUpdatedTx: "tx_within calm (delegationUpdatedTx rid from to at)"
proof -
  have "tx_within calm (delegationByChildRunTx rid)"
    by (rule tx_withinI, simp add: delegationByChildRunTx_def split: list.splits prod.splits option.splits)
      (auto simp: calm_def)
  then show ?thesis
    unfolding delegationUpdatedTx_def reportDelegationTx_def run_session_state_def
    by (intro calm.within_if calm.within_return calm.within_bind calm.within_case_option calm.within_case_prod
        calm_query calm_appendRunEventTx)
qed

section \<open>The committed row, exactly\<close>

lemma tx_bind_return: "tx_bind (tx_return x) f = f x"
  by (rule ext) (simp add: tx_bind_def)

lemma tx_bind_returnE:
  assumes "tx_bind m (\<lambda>x. tx_return (f x)) w = Inr (y, w')"
  obtains x where "m w = Inr (x, w')" "y = f x"
  using assms by (auto simp: tx_bind_Inr_iff)

lemma commit_row_live:
  assumes "commit_row t row w = Inr (at, w')" "rt_terminal t = None"
  obtains queueSet where "queueClockUpdate (rr_lifecycle row) (rt_to t) at = Inr queueSet"
    "rows_affected (guarded_row t row) (agent_runs w) = 1"
    "calm (w\<lparr>agent_runs := update_where (guarded_row t row) (transition_update t row at queueSet) (agent_runs w)\<rparr>) w'"
proof -
  obtain w2 queueSet where wc: "write_content t (w\<lparr>ticks := Suc (ticks w)\<rparr>) = Inr ((), w2)"
    and q: "queueClockUpdate (rr_lifecycle row) (rt_to t) at = Inr queueSet"
    and n: "rows_affected (guarded_row t row) (agent_runs w2) = 1"
    and w': "w' = w2\<lparr>agent_runs :=
         update_where (guarded_row t row) (transition_update t row at queueSet) (agent_runs w2)\<rparr>"
    using commit_row_Inr [OF assms(1)] by blast
  have "w2 = w\<lparr>ticks := Suc (ticks w)\<rparr>" using wc assms(2) by (simp add: write_content_def)
  then show thesis using that [OF q] n w' by (simp add: calm_def)
qed

lemma live_commit:
  assumes com: "apply_commit t no_subsidiary row w = Inr ((committed, at, evs), w')" and live: "rt_terminal t = None"
  obtains queueSet where "queueClockUpdate (rr_lifecycle row) (rt_to t) at = Inr queueSet"
    "rows_affected (guarded_row t row) (agent_runs w) = 1" "committed = committed_state t row at" "length evs = 1"
    "calm (w\<lparr>agent_runs := update_where (guarded_row t row) (transition_update t row at queueSet) (agent_runs w)\<rparr>) w'"
proof -
  from com obtain at' w1 where c: "commit_row t row w = Inr (at', w1)"
    and rest: "(let committed = committed_state t row at' in
     tx_bind (no_subsidiary committed at') (\<lambda>events0.
     tx_bind (appendRunEventTx (rr_sessionID row) (rt_runID t) (rr_traceID row) (transitionEventType t)
                (Some (marshalRunStatePayload (rt_eventPayload t) committed)) at') (\<lambda>event.
     tx_return (committed, at', events0 @ [event])))) w1 = Inr ((committed, at, evs), w')"
    unfolding apply_commit_def by (elim tx_bindE)
  from rest obtain event where ev: "appendRunEventTx (rr_sessionID row) (rt_runID t) (rr_traceID row) (transitionEventType t)
        (Some (marshalRunStatePayload (rt_eventPayload t) (committed_state t row at'))) at' w1 = Inr (event, w')"
    and eq: "committed = committed_state t row at'" "at = at'" "evs = [event]"
    unfolding Let_def no_subsidiary_def tx_bind_return append_Nil
    by (rule tx_bind_returnE) (simp only: prod.inject)
  obtain queueSet where q: "queueClockUpdate (rr_lifecycle row) (rt_to t) at' = Inr queueSet"
    and n: "rows_affected (guarded_row t row) (agent_runs w) = 1"
    and cw: "calm (w\<lparr>agent_runs := update_where (guarded_row t row) (transition_update t row at' queueSet) (agent_runs w)\<rparr>) w1"
    using commit_row_live [OF c live] by blast
  have "calm w1 w'" using calm_appendRunEventTx ev by (rule tx_withinD)
  from calm.step_trans [OF cw this] show thesis using that [of queueSet] q n eq by simp
qed

lemma live_delegation:
  assumes run: "apply_delegation app t row (committed, at, evs) w = Inr (res, w')"
    and to_live: "\<not> isTerminalLifecycle (rt_to t)"
  shows "calm w w' \<and> tr_State res = committed \<and> tr_Events res = evs @ tr_Delegation res \<and> \<not> tr_Duplicate res"
proof -
  have "rt_to t \<noteq> lifecycleFailed" "rt_to t \<noteq> lifecycleCancelled"
    using to_live by (auto simp: isTerminalLifecycle_def)
  then obtain updated where u: "delegationUpdatedTx (rt_runID t) (rr_lifecycle row) (rt_to t) at w = Inr (updated, w')"
    and res: "res = \<lparr>tr_State = committed, tr_Events = evs @ updated, tr_Duplicate = False,
        tr_Delegation = updated, tr_StoppedTasks = [], tr_ContinuationRunID = ''''\<rparr>"
    using run to_live unfolding apply_delegation_def prod.case
    by (simp add: tx_bind_return) (erule tx_bindE, simp)
  have "calm w w'" using calm_delegationUpdatedTx u by (rule tx_withinD)
  then show ?thesis using res by simp
qed

text \<open>The effect of a live transition on the store \<open>w\<close> with the row it read.\<close>

definition live_effect :: "runTransition \<Rightarrow> RunTransitionResult \<Rightarrow> world \<Rightarrow> world \<Rightarrow> bool" where
  "live_effect t res w w' \<longleftrightarrow> (\<exists>r m at queueSet. r \<in> set (agent_runs w) \<and> run_id r = rt_runID t
     \<and> run_status r \<in> set (rt_allowedFrom t) \<and> matchesTransitionIdentity (run_row_of r m) (rt_identity t)
     \<and> queueClockUpdate (run_status r) (rt_to t) at = Inr queueSet
     \<and> tr_State res = committed_state t (run_row_of r m) at
     \<and> length (tr_Events res) = 1 + length (tr_Delegation res)
     \<and> calm (w\<lparr>agent_runs := update_where (guarded_row t (run_row_of r m))
          (transition_update t (run_row_of r m) at queueSet) (agent_runs w)\<rparr>) w')"

lemma live_transition:
  assumes ok: "transition_ok t" and to_live: "\<not> isTerminalLifecycle (rt_to t)"
    and run: "applyRunTransitionTx t no_subsidiary w = Inr (res, w')" and fresh: "\<not> tr_Duplicate res"
  shows "live_effect t res w w'"
proof -
  have live: "rt_terminal t = None" using ok to_live by (auto simp: transition_ok_def)
  have "applyWith (apply_fuel (length (delegations w))) t no_subsidiary w = Inr (res, w')"
    using run by (simp add: applyRunTransitionTx_def)
  from applyWith_split [OF this] fresh obtain row w0 x w1 where chk: "apply_check t w = Inr ((row, False), w0)"
    and com: "apply_commit t no_subsidiary row w0 = Inr (x, w1)"
    and del: "apply_delegation (apply_fuel (length (delegations w))) t row x w1 = Inr (res, w')" by blast
  obtain committed at evs where x: "x = (committed, at, evs)" by (cases x)
  note c = apply_check_Inr [OF chk]
  obtain r where r: "r \<in> set (agent_runs w)" "run_id r = rt_runID t"
    and row: "row = run_row_of r (assistant_message (rt_runID t) (messages w))"
    using readRunRow_Inr [OF c(4)] by blast
  note d = decide_transition_Inr [OF c(5)]
  obtain queueSet where q: "queueClockUpdate (rr_lifecycle row) (rt_to t) at = Inr queueSet"
    and st: "committed = committed_state t row at" "length evs = 1"
    and cw: "calm (w\<lparr>agent_runs := update_where (guarded_row t row) (transition_update t row at queueSet) (agent_runs w)\<rparr>) w1"
    using live_commit [OF com [unfolded x c(1)] live] by blast
  note e = live_delegation [OF del [unfolded x] to_live]
  show ?thesis
    unfolding live_effect_def
    by (rule exI [of _ r], rule exI [of _ "assistant_message (rt_runID t) (messages w)"], rule exI [of _ at],
        rule exI [of _ queueSet])
      (use r d e q st calm.step_trans [OF cw] in \<open>simp add: row\<close>)
qed

text \<open>What the row looks like afterwards.\<close>

lemma live_effect_row:
  assumes "live_effect t res w w'" "transition_ok t" "db_ok w"
  obtains r at queueSet m where "r \<in> set (agent_runs w)" "run_id r = rt_runID t" "run_status r \<in> set (rt_allowedFrom t)"
    "queueClockUpdate (run_status r) (rt_to t) at = Inr queueSet"
    "transition_update t (run_row_of r m) at queueSet r \<in> set (agent_runs w')"
    "rs_StateVersion (tr_State res) = run_state_version r + 1"
    "calm (w\<lparr>agent_runs := update_where (\<lambda>x. run_id x = rt_runID t) (transition_update t (run_row_of r m) at queueSet) (agent_runs w)\<rparr>) w'"
proof -
  obtain r m at queueSet where r: "r \<in> set (agent_runs w)" "run_id r = rt_runID t" "run_status r \<in> set (rt_allowedFrom t)"
    and q: "queueClockUpdate (run_status r) (rt_to t) at = Inr queueSet"
    and st: "tr_State res = committed_state t (run_row_of r m) at"
    and cw: "calm (w\<lparr>agent_runs := update_where (guarded_row t (run_row_of r m))
          (transition_update t (run_row_of r m) at queueSet) (agent_runs w)\<rparr>) w'"
    using assms(1) unfolding live_effect_def by blast
  have "x = r" if "x \<in> set (agent_runs w)" "run_id x = rt_runID t" for x
    using assms(3) r(1,2) that by (simp add: db_ok_def distinct_map inj_on_def)
  then have "update_where (guarded_row t (run_row_of r m)) f (agent_runs w)
      = update_where (\<lambda>x. run_id x = rt_runID t) f (agent_runs w)" for f
    unfolding update_where_def by (intro map_cong refl) (auto simp: guarded_row_def)
  with cw have cw': "calm (w\<lparr>agent_runs := update_where (\<lambda>x. run_id x = rt_runID t)
      (transition_update t (run_row_of r m) at queueSet) (agent_runs w)\<rparr>) w'" by simp
  have "transition_update t (run_row_of r m) at queueSet r \<in> set (agent_runs w')"
    using in_update_where_hit [of r "agent_runs w" "\<lambda>x. run_id x = rt_runID t", OF r(1,2)] cw' by (simp add: calm_def)
  moreover have "rs_StateVersion (tr_State res) = run_state_version r + 1"
    unfolding st by (simp add: committed_state_def Let_def split: option.splits)
  ultimately show thesis using that r q cw' by blast
qed

lemma live_run_in:
  assumes "transition_ok t" "\<not> isTerminalLifecycle (rt_to t)" "db_ok w"
    and run: "applyRunTransitionTx t no_subsidiary w = Inr (res, w')"
  shows "run_in (rt_runID t) (rt_to t) w'" "jobs w' = jobs w" "approvals w' = approvals w" "tool_calls w' = tool_calls w"
proof -
  have "run_in (rt_runID t) (rt_to t) w' \<and> jobs w' = jobs w \<and> approvals w' = approvals w \<and> tool_calls w' = tool_calls w"
  proof (cases "tr_Duplicate res")
    case True
    have "applyWith (apply_fuel (length (delegations w))) t no_subsidiary w = Inr (res, w')"
      using run by (simp add: applyRunTransitionTx_def)
    from applyWith_split [OF this] True show ?thesis by blast
  next
    case False
    obtain r at queueSet m where "r \<in> set (agent_runs w)" and r: "run_id r = rt_runID t"
      and "run_status r \<in> set (rt_allowedFrom t)"
      and q: "queueClockUpdate (run_status r) (rt_to t) at = Inr queueSet"
      and r': "transition_update t (run_row_of r m) at queueSet r \<in> set (agent_runs w')"
      and "rs_StateVersion (tr_State res) = run_state_version r + 1"
      and cw: "calm (w\<lparr>agent_runs := update_where (\<lambda>x. run_id x = rt_runID t)
        (transition_update t (run_row_of r m) at queueSet) (agent_runs w)\<rparr>) w'"
      by (rule live_effect_row [OF live_transition [OF assms(1,2) run False] assms(1,3)])
    have "run_in (rt_runID t) (rt_to t) w'"
      unfolding run_in_def list_ex_iff
      by (rule bexI [OF _ r']) (simp add: run_id_transition_update [OF assms(1) q] r)
    then show ?thesis using cw by (simp add: calm_def)
  qed
  then show "run_in (rt_runID t) (rt_to t) w'" "jobs w' = jobs w" "approvals w' = approvals w" "tool_calls w' = tool_calls w"
    by simp_all
qed

text \<open>A calm step keeps what is said of the tables.\<close>

lemma calm_keeps: "calm w w' \<Longrightarrow> run_in rid lc w' \<longleftrightarrow> run_in rid lc w" "calm w w' \<Longrightarrow> terminal_run rid w' \<longleftrightarrow> terminal_run rid w"
  by (simp_all add: calm_def run_in_def terminal_run_def)

text \<open>The execution columns are the ones the transition sets.\<close>

definition execution_columns ::
  "agent_run \<Rightarrow> string \<times> string option \<times> bool \<times> string option \<times> string \<times> int option" where
  "execution_columns r = (run_agent_id r, run_worker_id r, run_execution_active r, run_execution_attempt_id r,
     run_execution_state r, run_execution_lease_expires_at_ns r)"

lemma execution_columns_update:
  assumes "queueClockUpdate a b at = Inr queueSet"
  shows "execution_columns (transition_update t row at queueSet r) = execution_columns (rt_extraSet t at r)"
proof -
  have "execution_columns (queueSet x) = execution_columns x" for x
    using assms by (auto simp: queueClockUpdate_def execution_columns_def Let_def split: if_splits sum.splits)
  then show ?thesis
    unfolding transition_update_def Let_def by (simp add: execution_columns_def split: option.splits)
qed

end
