(* ===== verification/Retry.thy ===== *)
theory Retry
  imports LiveTransitions
begin

text \<open>
  Returning a run to the queue (\<^verbatim>\<open>jobs.go\<close>): the retry of a run that failed in a way another
  attempt could survive, the release of its in-progress job, the two lifecycle paths back to
  \<^verbatim>\<open>queued\<close> (through \<^verbatim>\<open>recovering\<close> when nobody can vouch for the run, directly when the
  owner is proven), and the delivery states of an assignment.

  The lemmas show when a retry is granted and when the attempt budget ends the run, that a
  requeue hands back exactly one job with its counter moved by one, and that every operation
  here stays within a store relation.
\<close>

section \<open>Data\<close>

record Assignment =
  as_JobID :: string
  as_RunID :: string
  as_WorkerID :: string
  as_AttemptID :: string

record RetryDecision =
  rd_Requeued :: bool
  rd_Events :: "Event list"
  rd_StoppedTasks :: "string list"

record RetryableRunFailureInput =
  ry_RunID :: string
  ry_ExpectedStateVersion :: int
  ry_WorkerID :: string
  ry_AssignmentAttemptID :: string
  ry_Failure :: Failure
  ry_MaxAttempts :: int

definition RetriesExhaustedCode :: string where "RetriesExhaustedCode = ''retries_exhausted''"

definition defaultAssignmentMaxAttempts :: int where "defaultAssignmentMaxAttempts = 3"

definition confirmedRelease :: "RetryableRunFailureInput \<Rightarrow> bool" where
  "confirmedRelease input \<longleftrightarrow> ry_WorkerID input \<noteq> '''' \<and> ry_AssignmentAttemptID input \<noteq> ''''"

definition retry_validate :: "RetryableRunFailureInput \<Rightarrow> unit result" where
  "retry_validate input =
     (if (ry_WorkerID input = '''') \<noteq> (ry_AssignmentAttemptID input = '''') then Inl ErrRetryIdentityIncomplete
      else if confirmedRelease input \<and> ry_ExpectedStateVersion input < 1 then Inl ErrRunStateVersionInvalid
      else Inr ())"

definition retry_identity :: "RetryableRunFailureInput \<Rightarrow> runTransitionIdentity" where
  "retry_identity input = no_identity\<lparr>ti_workerID := ry_WorkerID input,
     ti_assignmentAttemptID := ry_AssignmentAttemptID input\<rparr>"

definition assignmentIdentity :: "Assignment \<Rightarrow> runTransitionIdentity" where
  "assignmentIdentity a = no_identity\<lparr>ti_workerID := as_WorkerID a, ti_assignmentAttemptID := as_AttemptID a\<rparr>"

section \<open>Releasing the job\<close>

text \<open>An empty guard matches every row.\<close>

definition guard_matches :: "string \<Rightarrow> string \<Rightarrow> bool" where
  "guard_matches guard value \<longleftrightarrow> guard = '''' \<or> value = guard"

definition released_job :: "bool \<Rightarrow> job \<Rightarrow> job" where
  "released_job incrementAttempt j = j\<lparr>job_status := ''pending'', job_lease_owner := None,
     job_lease_expires_at := None, job_lease_expires_at_ns := None, job_picked_up_at := None,
     job_assignment_attempt_id := None,
     job_attempt := job_attempt j + (if incrementAttempt then 1 else 0)\<rparr>"

definition in_progress_job :: "string \<Rightarrow> string \<Rightarrow> string \<Rightarrow> job \<Rightarrow> bool" where
  "in_progress_job rid jobID attemptID j \<longleftrightarrow> job_run_id j = rid \<and> job_status j = ''in_progress''
     \<and> guard_matches jobID (job_id j)
     \<and> guard_matches attemptID (text_or_empty (job_assignment_attempt_id j))"

definition release_jobs :: "(job \<Rightarrow> bool) \<Rightarrow> bool \<Rightarrow> err \<Rightarrow> unit wtx" where
  "release_jobs p incrementAttempt noMatch =
     tx_bind (tx_gets (\<lambda>w. rows_affected p (jobs w))) (\<lambda>n.
     tx_then (tx_modify (\<lambda>w. w\<lparr>jobs := update_where p (released_job incrementAttempt) (jobs w)\<rparr>))
       (expectOneRowErr n noMatch))"

definition releaseJobToPendingTx :: "string \<Rightarrow> string \<Rightarrow> string \<Rightarrow> bool \<Rightarrow> unit wtx" where
  "releaseJobToPendingTx rid jobID attemptID incrementAttempt =
     release_jobs (in_progress_job rid jobID attemptID) incrementAttempt
       (if jobID \<noteq> '''' \<or> attemptID \<noteq> '''' then ErrAssignmentFenced
        else ErrText ''in-progress job not found for retry requeue'')"

section \<open>The way back to the queue\<close>

definition requeueRunLifecycleTx ::
  "string \<Rightarrow> runTransitionIdentity \<Rightarrow> string \<Rightarrow> (RunState \<times> Event list) wtx" where
  "requeueRunLifecycleTx rid idt fenceExecutionState =
     tx_bind (applyRunTransitionTx (fenceOwnershipTransitionInTx rid idt fenceExecutionState) no_subsidiary) (\<lambda>fenced.
     tx_bind (applyRunTransitionTx (requeueRecoveringTransitionInTx rid idt) no_subsidiary) (\<lambda>requeued.
     tx_return (tr_State requeued, tr_Events fenced @ tr_Events requeued)))"

definition requeueRunThroughRecoveryTx ::
  "string \<Rightarrow> string \<Rightarrow> runTransitionIdentity \<Rightarrow> bool \<Rightarrow> (RunState \<times> Event list) wtx" where
  "requeueRunThroughRecoveryTx rid jobID idt incrementAttempt =
     tx_then (releaseJobToPendingTx rid jobID (ti_assignmentAttemptID idt) incrementAttempt)
       (requeueRunLifecycleTx rid idt ''uncertain'')"

definition requeueUnsentRunLifecycleTx ::
  "string \<Rightarrow> runTransitionIdentity \<Rightarrow> (RunState \<times> Event list) wtx" where
  "requeueUnsentRunLifecycleTx rid idt =
     tx_bind (applyRunTransitionTx (releaseRunningTransitionInTx rid idt) no_subsidiary) (\<lambda>released.
     tx_return (tr_State released, tr_Events released))"

definition mapRequeueConflict :: "err \<Rightarrow> err" where
  "mapRequeueConflict e = (if e = ErrRunTransitionConflict then ErrAssignmentFenced else e)"

section \<open>Retry\<close>

definition newRetryNotice :: "NoticeCategory \<Rightarrow> int \<Rightarrow> int \<Rightarrow> StepNotice result" where
  "newRetryNotice category attempt maxAttempts =
     (if attempt < 1 \<or> maxAttempts < 1 \<or> attempt > maxAttempts \<or> maxAttempts > MaxNoticeAttempts
      then Inl ErrUnsupportedNotice else NewStepNotice category attempt maxAttempts)"

definition inProgressRetryJobTx :: "RetryableRunFailureInput \<Rightarrow> (int \<times> string) option wtx" where
  "inProgressRetryJobTx input =
     tx_bind (query_opt (\<lambda>w. filter (\<lambda>j. in_progress_job (ry_RunID input) '''' (ry_AssignmentAttemptID input) j
         \<and> guard_matches (ry_WorkerID input) (text_or_empty (job_lease_owner j))) (jobs w)))
       (\<lambda>found. tx_return (map_option (\<lambda>j. (job_attempt j, job_id j)) found))"

definition requeueRetryableRunTx :: "string \<Rightarrow> RetryableRunFailureInput \<Rightarrow> (RunState \<times> Event list) wtx" where
  "requeueRetryableRunTx jobID input =
     (if \<not> confirmedRelease input
      then requeueRunThroughRecoveryTx (ry_RunID input) '''' no_identity True
      else
        tx_then (releaseJobToPendingTx (ry_RunID input) jobID (ry_AssignmentAttemptID input) True)
          (tx_bind (tx_map_err mapRequeueConflict (applyRunTransitionTx
             (releaseRunningTransition (ry_RunID input) (ry_ExpectedStateVersion input) (retry_identity input))
             no_subsidiary)) (\<lambda>released.
           tx_return (tr_State released, tr_Events released))))"

text \<open>The notice that precedes giving up, anchored to the version the run still holds.\<close>

definition exhausted_notice :: "string \<Rightarrow> string \<Rightarrow> string \<Rightarrow> int \<Rightarrow> int \<Rightarrow> Event wtx" where
  "exhausted_notice rid sessionID traceID attempt maxAttempts =
     tx_bind (tx_lift (newRetryNotice NoticeRecoveryExhausted attempt maxAttempts)) (\<lambda>notice.
     tx_bind (currentRunStateVersionTx rid) (\<lambda>currentVersion.
     tx_bind now_text (\<lambda>at.
     appendStepNoticeTx sessionID rid traceID notice currentVersion at)))"

text \<open>The notice that follows a requeue, anchored to the version the requeue committed.\<close>

definition retry_notice ::
  "NoticeCategory \<Rightarrow> string \<Rightarrow> string \<Rightarrow> string \<Rightarrow> int \<Rightarrow> int \<Rightarrow> int \<Rightarrow> Event wtx" where
  "retry_notice category rid sessionID traceID attempt maxAttempts version =
     tx_bind (tx_lift (newRetryNotice category attempt maxAttempts)) (\<lambda>notice.
     tx_bind now_text (\<lambda>at.
     appendStepNoticeTx sessionID rid traceID notice version at))"

definition retry_fail_input :: "string \<Rightarrow> Failure \<Rightarrow> FailRunInput" where
  "retry_fail_input rid failure = \<lparr>fri_RunID = rid, fri_AssistantMessageID = '''',
     fri_ExpectedStateVersion = 0, fri_Failure = failure, fri_PreserveExecution = False,
     fri_leaveExecutionUntouched = False, fri_allowedFrom = [], fri_resolveVersionInTx = True,
     fri_queueWaitReason = ''''\<rparr>"

text \<open>The failure a run ends with when it cannot be requeued.\<close>

definition final_failure :: "bool \<Rightarrow> Failure \<Rightarrow> Failure" where
  "final_failure exhausted failure =
     (let f = (if exhausted then NormalizeFailure OriginDispatch RetriesExhaustedCode RetryClassNever else failure)
      in if Failure_Reason f = ReasonNone
         then NormalizeFailure OriginRecovery ''worker_unavailable'' RetryClassNever else f)"

definition requeue_with_notice ::
  "RetryableRunFailureInput \<Rightarrow> int \<Rightarrow> agent_run \<Rightarrow> int \<times> string \<Rightarrow> RetryDecision wtx" where
  "requeue_with_notice input maxAttempts r = (\<lambda>(attempt, jobID).
     tx_bind (requeueRetryableRunTx jobID input) (\<lambda>(requeued, requeueEvents).
     tx_bind (retry_notice NoticeDispatchRetry (ry_RunID input) (run_session_id r) (run_trace_id r)
         (attempt + 1) maxAttempts (rs_StateVersion requeued)) (\<lambda>noticeEvent.
     tx_return \<lparr>rd_Requeued = True, rd_Events = requeueEvents @ [noticeEvent], rd_StoppedTasks = []\<rparr>)))"

definition fail_retryable ::
  "RetryableRunFailureInput \<Rightarrow> int \<Rightarrow> agent_run \<Rightarrow> int option \<Rightarrow> RetryDecision wtx" where
  "fail_retryable input maxAttempts r exhausted =
     tx_bind (case exhausted of
         None \<Rightarrow> tx_return []
       | Some attempt \<Rightarrow> tx_bind (exhausted_notice (ry_RunID input) (run_session_id r) (run_trace_id r) attempt maxAttempts)
           (\<lambda>ev. tx_return [ev])) (\<lambda>evs.
     tx_bind (failRunTx (retry_fail_input (ry_RunID input) (final_failure (exhausted \<noteq> None) (ry_Failure input)))) (\<lambda>terminal.
     tx_return \<lparr>rd_Requeued = False, rd_Events = evs @ tr_Events terminal,
        rd_StoppedTasks = tr_StoppedTasks terminal\<rparr>))"

definition release_fenced :: "RetryableRunFailureInput \<Rightarrow> agent_run \<Rightarrow> bool" where
  "release_fenced input r \<longleftrightarrow> run_status r \<noteq> lifecycleRunning
     \<or> run_state_version r \<noteq> ry_ExpectedStateVersion input
     \<or> text_or_empty (run_worker_id r) \<noteq> ry_WorkerID input
     \<or> text_or_empty (run_execution_attempt_id r) \<noteq> ry_AssignmentAttemptID input"

definition retryable_lifecycle :: "RetryableRunFailureInput \<Rightarrow> agent_run \<Rightarrow> bool" where
  "retryable_lifecycle input r \<longleftrightarrow> confirmedRelease input \<or> run_status r = lifecycleRunning
     \<or> run_status r = lifecycleRecovering"

definition attempt_limit :: "int \<Rightarrow> int" where
  "attempt_limit n = (if n \<le> 0 then defaultAssignmentMaxAttempts else n)"

definition decide_retry :: "RetryableRunFailureInput \<Rightarrow> agent_run \<Rightarrow> (int \<times> string) option \<Rightarrow> RetryDecision wtx" where
  "decide_retry input r job =
     (let maxAttempts = attempt_limit (ry_MaxAttempts input) in
      case job of
        None \<Rightarrow> if confirmedRelease input then tx_fail ErrAssignmentFenced
                else fail_retryable input maxAttempts r None
      | Some (attempt, jobID) \<Rightarrow>
          if \<not> retryable_lifecycle input r then fail_retryable input maxAttempts r None
          else if attempt < maxAttempts then requeue_with_notice input maxAttempts r (attempt, jobID)
          else fail_retryable input maxAttempts r (Some attempt))"

definition RequeueOrFailRetryableRun :: "RetryableRunFailureInput \<Rightarrow> RetryDecision wtx" where
  "RequeueOrFailRetryableRun input =
     tx_then (tx_lift (retry_validate input)) (
     tx_bind (query_row (\<lambda>w. filter (\<lambda>r. run_id r = ry_RunID input) (agent_runs w))) (\<lambda>r.
     if confirmedRelease input \<and> release_fenced input r then tx_fail ErrAssignmentFenced
     else tx_bind (inProgressRetryJobTx input) (decide_retry input r)))"

section \<open>Assignments\<close>

text \<open>Whether an assignment still names the execution the run row holds.\<close>

definition requeue_fenced :: "Assignment \<Rightarrow> string \<Rightarrow> agent_run \<Rightarrow> bool" where
  "requeue_fenced a requiredExecutionState r \<longleftrightarrow>
     (as_AttemptID a \<noteq> '''' \<and> text_or_empty (run_execution_attempt_id r) \<noteq> as_AttemptID a)
     \<or> (as_WorkerID a \<noteq> '''' \<and> run_worker_id r \<noteq> Some (as_WorkerID a))
     \<or> (requiredExecutionState \<noteq> '''' \<and> run_execution_state r \<noteq> requiredExecutionState)
     \<or> (requiredExecutionState = '''' \<and> run_execution_state r \<in> set [''sending'', ''uncertain''])"

definition requeueAssignment :: "Assignment \<Rightarrow> string \<Rightarrow> bool \<Rightarrow> unit wtx" where
  "requeueAssignment a requiredExecutionState incrementAttempt =
     tx_bind (query_row (\<lambda>w. filter (\<lambda>r. run_id r = as_RunID a) (agent_runs w))) (\<lambda>r.
     if requeue_fenced a requiredExecutionState r then tx_fail ErrAssignmentFenced
     else
       tx_then (release_jobs (\<lambda>j. job_id j = as_JobID a \<and> job_run_id j = as_RunID a \<and> job_status j = ''in_progress'')
         incrementAttempt ErrAssignmentFenced) (
       tx_then (tx_map_err mapRequeueConflict (
         if requiredExecutionState = '''' \<and> run_execution_state r \<noteq> ''pending_send''
         then requeueRunLifecycleTx (as_RunID a) (assignmentIdentity a) ''uncertain''
         else requeueUnsentRunLifecycleTx (as_RunID a) (assignmentIdentity a)))
       (tx_return ())))"

definition RequeueClaimedJob :: "string \<Rightarrow> string \<Rightarrow> unit wtx" where
  "RequeueClaimedJob jobID rid =
     requeueAssignment \<lparr>as_JobID = jobID, as_RunID = rid, as_WorkerID = '''', as_AttemptID = ''''\<rparr> '''' True"

definition AbortPendingAssignment :: "Assignment \<Rightarrow> unit wtx" where
  "AbortPendingAssignment a = requeueAssignment a ''pending_send'' False"

definition AbortUnsentAssignment :: "Assignment \<Rightarrow> unit wtx" where
  "AbortUnsentAssignment a = requeueAssignment a ''sending'' False"

text \<open>An \<^verbatim>\<open>UPDATE agent_runs SET execution_state\<close> that has to hit exactly one row.\<close>

definition set_execution_state :: "(world \<Rightarrow> agent_run \<Rightarrow> bool) \<Rightarrow> string \<Rightarrow> unit wtx" where
  "set_execution_state p state =
     tx_bind (tx_gets (\<lambda>w. rows_affected (p w) (agent_runs w))) (\<lambda>n.
     tx_then (tx_modify (\<lambda>w. w\<lparr>agent_runs :=
         update_where (p w) (\<lambda>r. r\<lparr>run_execution_state := state\<rparr>) (agent_runs w)\<rparr>))
       (expectOneRowErr n ErrAssignmentFenced))"

definition executes :: "Assignment \<Rightarrow> agent_run \<Rightarrow> bool" where
  "executes a r \<longleftrightarrow> run_id r = as_RunID a \<and> run_worker_id r = Some (as_WorkerID a)
     \<and> run_execution_attempt_id r = Some (as_AttemptID a) \<and> run_execution_active r"

definition holds_job :: "Assignment \<Rightarrow> string \<Rightarrow> job \<Rightarrow> bool" where
  "holds_job a rid j \<longleftrightarrow> job_id j = as_JobID a \<and> job_run_id j = rid \<and> job_status j = ''in_progress''
     \<and> job_lease_owner j = Some (as_WorkerID a) \<and> job_assignment_attempt_id j = Some (as_AttemptID a)"

definition BeginAssignmentSend :: "Assignment \<Rightarrow> unit wtx" where
  "BeginAssignmentSend a = set_execution_state (\<lambda>w r. executes a r \<and> run_execution_state r = ''pending_send''
     \<and> run_status r = ''running'' \<and> list_ex (holds_job a (run_id r)) (jobs w)) ''sending''"

definition MarkAssignmentDelivered :: "Assignment \<Rightarrow> unit wtx" where
  "MarkAssignmentDelivered a = set_execution_state (\<lambda>w r. executes a r \<and> run_execution_state r = ''sending'') ''delivered''"

definition MarkAssignmentDeliveryUncertain :: "Assignment \<Rightarrow> unit wtx" where
  "MarkAssignmentDeliveryUncertain a = set_execution_state (\<lambda>w r. executes a r
     \<and> run_execution_state r \<in> set [''sending'', ''delivered'']) ''uncertain''"

section \<open>Within any store relation\<close>

lemma fail_input_ok_retry [simp]: "fail_input_ok (retry_fail_input rid f)"
  by (simp add: fail_input_ok_def retry_fail_input_def)

context transition_relation
begin

lemma within_currentRunStateVersionTx: "tx_within R (currentRunStateVersionTx rid)"
  unfolding currentRunStateVersionTx_def by (rule within_query_row)

lemma within_retry_notices:
  "tx_within R (exhausted_notice rid s t n m)" "tx_within R (retry_notice c rid s t n m v)"
  unfolding exhausted_notice_def retry_notice_def
  by (intro within_bind within_lift within_currentRunStateVersionTx within_now_text within_approval_events)+

lemma within_requeue_lifecycle:
  "tx_within R (requeueRunLifecycleTx rid idt st)" "tx_within R (requeueUnsentRunLifecycleTx rid idt)"
  unfolding requeueRunLifecycleTx_def requeueUnsentRunLifecycleTx_def
  by (intro within_bind within_applyRunTransitionTx within_no_subsidiary within_return, simp_all)+

lemma within_set_execution_state: "tx_within R (set_execution_state p st)"
  unfolding set_execution_state_def
  by (intro within_bind within_gets within_then within_expectOneRow within_modify side_update)
    (simp add: same_state_def same_identity_def)

lemma within_fail_retryable: "tx_within R (fail_retryable input m r x)"
  unfolding fail_retryable_def
  by (intro within_bind within_case_option within_return within_retry_notices within_failRunTx) simp

lemma within_delivery:
  "tx_within R (BeginAssignmentSend a)" "tx_within R (MarkAssignmentDelivered a)"
  "tx_within R (MarkAssignmentDeliveryUncertain a)"
  by (simp_all add: BeginAssignmentSend_def MarkAssignmentDelivered_def MarkAssignmentDeliveryUncertain_def
      within_set_execution_state)

end

context store_relation
begin

lemma within_release_jobs: "tx_within R (release_jobs p b e)"
  unfolding release_jobs_def
  by (intro within_bind within_gets within_then within_expectOneRow within_any_jobs) (simp add: released_job_def)

lemma within_releaseJobToPendingTx: "tx_within R (releaseJobToPendingTx rid j a b)"
  unfolding releaseJobToPendingTx_def by (rule within_release_jobs)

lemma within_requeueRunThroughRecoveryTx: "tx_within R (requeueRunThroughRecoveryTx rid j idt b)"
  unfolding requeueRunThroughRecoveryTx_def
  by (intro within_then within_releaseJobToPendingTx within_requeue_lifecycle)

lemma within_requeueRetryableRunTx: "tx_within R (requeueRetryableRunTx jobID input)"
  unfolding requeueRetryableRunTx_def
  by (intro within_if within_requeueRunThroughRecoveryTx within_then within_releaseJobToPendingTx within_bind
      within_map_err within_applyRunTransitionTx within_no_subsidiary within_return) simp

lemma within_RequeueOrFailRetryableRun: "tx_within R (RequeueOrFailRetryableRun input)"
  unfolding RequeueOrFailRetryableRun_def decide_retry_def requeue_with_notice_def Let_def inProgressRetryJobTx_def
  by (intro within_then within_lift within_bind within_query_row within_query_opt within_if within_fail within_return
      within_case_option within_case_prod within_fail_retryable within_requeueRetryableRunTx within_retry_notices)

lemma within_requeueAssignment: "tx_within R (requeueAssignment a st b)"
  unfolding requeueAssignment_def
  by (intro within_bind within_query_row within_if within_fail within_then within_release_jobs within_map_err
      within_requeue_lifecycle within_return)

lemma within_requeue_assignments:
  "tx_within R (RequeueClaimedJob j rid)" "tx_within R (AbortPendingAssignment a)" "tx_within R (AbortUnsentAssignment a)"
  by (simp_all add: RequeueClaimedJob_def AbortPendingAssignment_def AbortUnsentAssignment_def within_requeueAssignment)

end

section \<open>What a retry does\<close>

lemma calm_appendStepNoticeTx: "tx_within calm (appendStepNoticeTx s rid t n v at)"
  unfolding appendStepNoticeTx_def by (intro calm.within_if calm.within_fail calm_appendRunEventTx)

lemma calm_retry_notices: "tx_within calm (exhausted_notice rid s t n m)" "tx_within calm (retry_notice c rid s t n m v)"
  unfolding exhausted_notice_def retry_notice_def currentRunStateVersionTx_def
  by (intro calm.within_bind calm.within_lift calm_query calm_appendStepNoticeTx)+

lemma released_simps [simp]:
  "job_id (released_job b j) = job_id j" "job_run_id (released_job b j) = job_run_id j"
  "job_status (released_job b j) = ''pending''" "job_lease_owner (released_job b j) = None"
  "job_attempt (released_job b j) = job_attempt j + (if b then 1 else 0)"
  by (simp_all add: released_job_def)

text \<open>Exactly one job changes hands.\<close>

lemma release_jobs_Inr:
  assumes "release_jobs p b e w = Inr (u, w')"
  shows "w' = w\<lparr>jobs := update_where p (released_job b) (jobs w)\<rparr> \<and> rows_affected p (jobs w) = 1"
  using assms by (auto simp: release_jobs_def expectOneRowErr_def tx_simps split: if_splits)

lemma requeue_lifecycle_effect:
  assumes db: "db_ok w"
  shows "requeueRunLifecycleTx rid idt st w = Inr (x, w') \<Longrightarrow> run_in rid lifecycleQueued w' \<and> jobs w' = jobs w"
    and "requeueUnsentRunLifecycleTx rid idt w = Inr (x, w') \<Longrightarrow> run_in rid lifecycleQueued w' \<and> jobs w' = jobs w"
proof -
  have ids: "rt_runID (fenceOwnershipTransitionInTx rid idt st) = rid" "rt_to (fenceOwnershipTransitionInTx rid idt st) = lifecycleRecovering"
    "rt_runID (requeueRecoveringTransitionInTx rid idt) = rid" "rt_to (requeueRecoveringTransitionInTx rid idt) = lifecycleQueued"
    "rt_runID (releaseRunningTransitionInTx rid idt) = rid" "rt_to (releaseRunningTransitionInTx rid idt) = lifecycleQueued"
    by (simp_all add: transition_constructors)
  {
    assume "requeueRunLifecycleTx rid idt st w = Inr (x, w')"
    then obtain a w1 b where 1: "applyRunTransitionTx (fenceOwnershipTransitionInTx rid idt st) no_subsidiary w = Inr (a, w1)"
      and 2: "applyRunTransitionTx (requeueRecoveringTransitionInTx rid idt) no_subsidiary w1 = Inr (b, w')"
      unfolding requeueRunLifecycleTx_def by (elim tx_bindE) simp
    have "db_ok w1" using db tx_withinD [OF history.within_applyRunTransitionTx 1]
      by (simp add: under_def history.within_no_subsidiary)
    then show "run_in rid lifecycleQueued w' \<and> jobs w' = jobs w"
      using live_run_in(1,2) [OF _ _ _ 2] live_run_in(2) [OF _ _ db 1] by (simp add: ids)
  }
  {
    assume "requeueUnsentRunLifecycleTx rid idt w = Inr (x, w')"
    then obtain b where b: "applyRunTransitionTx (releaseRunningTransitionInTx rid idt) no_subsidiary w = Inr (b, w')"
      unfolding requeueUnsentRunLifecycleTx_def by (elim tx_bindE) simp
    then show "run_in rid lifecycleQueued w' \<and> jobs w' = jobs w"
      using live_run_in(1,2) [OF _ _ db b] by (simp add: ids)
  }
qed

lemma db_ok_release: "db_ok w \<Longrightarrow> db_ok (w\<lparr>jobs := update_where p (released_job b) (jobs w)\<rparr>)"
  by (rule db_ok_close(3)) simp_all

lemma requeueRetryableRunTx_effect:
  assumes db: "db_ok w" and run: "requeueRetryableRunTx jobID input w = Inr (x, w')"
  shows "run_in (ry_RunID input) lifecycleQueued w' \<and>
    (\<exists>p. (\<forall>j. p j \<longrightarrow> in_progress_job (ry_RunID input) '''' '''' j \<and> (confirmedRelease input \<longrightarrow> jobID \<noteq> '''' \<longrightarrow> job_id j = jobID))
      \<and> rows_affected p (jobs w) = 1 \<and> jobs w' = update_where p (released_job True) (jobs w))"
proof (cases "confirmedRelease input")
  case False
  obtain u w1 where rel: "releaseJobToPendingTx (ry_RunID input) '''' '''' True w = Inr (u, w1)"
    and req: "requeueRunLifecycleTx (ry_RunID input) no_identity ''uncertain'' w1 = Inr (x, w')"
    using run False unfolding requeueRetryableRunTx_def requeueRunThroughRecoveryTx_def
    by (auto simp: no_identity_def elim!: tx_thenE)
  note r = release_jobs_Inr [OF rel [unfolded releaseJobToPendingTx_def]]
  have "db_ok w1" using r db_ok_release [OF db] by simp
  from requeue_lifecycle_effect(1) [OF this req] r False show ?thesis
    by (intro conjI exI [of _ "in_progress_job (ry_RunID input) '''' ''''"]) simp_all
next
  case True
  obtain u w1 released where rel: "releaseJobToPendingTx (ry_RunID input) jobID (ry_AssignmentAttemptID input) True w = Inr (u, w1)"
    and app: "applyRunTransitionTx (releaseRunningTransition (ry_RunID input) (ry_ExpectedStateVersion input)
        (retry_identity input)) no_subsidiary w1 = Inr (released, w')"
    using run True unfolding requeueRetryableRunTx_def by (auto elim!: tx_thenE tx_bindE)
  have ids: "rt_runID (releaseRunningTransition rid v idt) = rid" "rt_to (releaseRunningTransition rid v idt) = lifecycleQueued" for rid v idt
    by (simp_all add: transition_constructors)
  note r = release_jobs_Inr [OF rel [unfolded releaseJobToPendingTx_def]]
  have db1: "db_ok w1" using r db_ok_release [OF db] by simp
  have "run_in (ry_RunID input) lifecycleQueued w' \<and> jobs w' = jobs w1"
    using live_run_in(1,2) [OF _ _ db1 app] by (simp add: ids)
  then show ?thesis using r
    by (intro conjI exI [of _ "in_progress_job (ry_RunID input) jobID (ry_AssignmentAttemptID input)"])
      (auto simp: in_progress_job_def guard_matches_def)
qed

lemma inProgressRetryJobTx_Inr:
  assumes "inProgressRetryJobTx input w = Inr (x, w')"
  shows "w' = w \<and> (case x of None \<Rightarrow> True | Some (attempt, jid) \<Rightarrow>
    \<exists>j \<in> set (jobs w). in_progress_job (ry_RunID input) '''' (ry_AssignmentAttemptID input) j
      \<and> guard_matches (ry_WorkerID input) (text_or_empty (job_lease_owner j)) \<and> attempt = job_attempt j \<and> jid = job_id j)"
proof -
  let ?js = "filter (\<lambda>j. in_progress_job (ry_RunID input) '''' (ry_AssignmentAttemptID input) j
    \<and> guard_matches (ry_WorkerID input) (text_or_empty (job_lease_owner j))) (jobs w)"
  have "set ?js \<subseteq> set (jobs w)" by auto
  then show ?thesis
    using assms unfolding inProgressRetryJobTx_def query_opt_def
    by (cases ?js) (auto simp: tx_bind_def dest!: filter_eq_ConsD)
qed

lemma RequeueOrFailRetryableRun_Inr:
  assumes "RequeueOrFailRetryableRun input w = Inr (d, w')"
  obtains r job where "r \<in> set (agent_runs w)" "run_id r = ry_RunID input" "retry_validate input = Inr ()"
    "confirmedRelease input \<longrightarrow> \<not> release_fenced input r" "inProgressRetryJobTx input w = Inr (job, w)"
    "decide_retry input r job w = Inr (d, w')"
proof -
  obtain u wa r wb where v: "tx_lift (retry_validate input) w = Inr (u, wa)"
    and r: "query_row (\<lambda>w. filter (\<lambda>r. run_id r = ry_RunID input) (agent_runs w)) wa = Inr (r, wb)"
    and rest: "(if confirmedRelease input \<and> release_fenced input r then tx_fail ErrAssignmentFenced
      else tx_bind (inProgressRetryJobTx input) (decide_retry input r)) wb = Inr (d, w')"
    using assms unfolding RequeueOrFailRetryableRun_def by (elim tx_bindE tx_thenE)
  have wa: "wa = w" "retry_validate input = Inr ()" using v by (auto split: sum.splits)
  have "wb = w" "r \<in> set (filter (\<lambda>r. run_id r = ry_RunID input) (agent_runs w))"
    using query_row_Inr [OF r] wa by simp_all
  moreover obtain job wc where "inProgressRetryJobTx input wb = Inr (job, wc)" "decide_retry input r job wc = Inr (d, w')"
    "\<not> (confirmedRelease input \<and> release_fenced input r)"
    using rest by (auto split: if_splits elim!: tx_bindE)
  moreover from inProgressRetryJobTx_Inr [OF this(1)] have "wc = wb" by simp
  ultimately show thesis using that [of r job] wa by simp
qed

lemma failRunTx_terminal:
  assumes db: "db_ok w" and ok: "fail_input_ok fi" and run: "failRunTx fi w = Inr (res, w')"
  shows "terminal_run (fri_RunID fi) w'"
proof -
  obtain v content where app: "applyRunTransitionTx (failTransition fi v content) (failSubsidiary fi) w = Inr (res, w')"
    using terminal_writers_apply(2) [OF run] by blast
  then have "applyWith (apply_fuel (length (delegations w))) (failTransition fi v content) (failSubsidiary fi) w = Inr (res, w')"
    by (simp add: applyRunTransitionTx_def)
  then have "terminal_run (rt_runID (failTransition fi v content)) w'"
    by (rule applyWith_terminal [OF db transition_ok_failTransition [OF ok], rotated -1])
      (simp_all add: lines.within_failSubsidiary lines.apply_within_fuel)
  then show ?thesis by simp
qed

lemma fail_retryable_terminal:
  assumes db: "db_ok w" and run: "fail_retryable input m r x w = Inr (d, w')"
  shows "\<not> rd_Requeued d \<and> terminal_run (ry_RunID input) w'"
proof -
  obtain evs w1 res where ev: "(case x of None \<Rightarrow> tx_return []
       | Some attempt \<Rightarrow> tx_bind (exhausted_notice (ry_RunID input) (run_session_id r) (run_trace_id r) attempt m)
           (\<lambda>ev. tx_return [ev])) w = Inr (evs, w1)"
    and f: "failRunTx (retry_fail_input (ry_RunID input) (final_failure (x \<noteq> None) (ry_Failure input))) w1 = Inr (res, w')"
    and d: "d = \<lparr>rd_Requeued = False, rd_Events = evs @ tr_Events res, rd_StoppedTasks = tr_StoppedTasks res\<rparr>"
    using run unfolding fail_retryable_def by (elim tx_bindE) simp
  have "tx_within (under run_history) (case x of None \<Rightarrow> tx_return []
       | Some attempt \<Rightarrow> tx_bind (exhausted_notice (ry_RunID input) (run_session_id r) (run_trace_id r) attempt m)
           (\<lambda>ev. tx_return [ev]))"
    by (intro history.within_case_option history.within_return history.within_bind history.within_retry_notices)
  from tx_withinD [OF this ev] db have "db_ok w1" by (simp add: under_def)
  from failRunTx_terminal [OF this _ f] d show ?thesis by (simp add: retry_fail_input_def fail_input_ok_def)
qed

text \<open>A granted retry and a refused one.\<close>

definition retry_granted :: "RetryableRunFailureInput \<Rightarrow> world \<Rightarrow> world \<Rightarrow> bool" where
  "retry_granted input w w' \<longleftrightarrow> run_in (ry_RunID input) lifecycleQueued w' \<and>
     (\<exists>j \<in> set (jobs w). job_run_id j = ry_RunID input \<and> job_status j = ''in_progress''
        \<and> job_attempt j < attempt_limit (ry_MaxAttempts input) \<and> released_job True j \<in> set (jobs w')
        \<and> (\<forall>k \<in> set (jobs w). k \<noteq> j \<longrightarrow> k \<in> set (jobs w')))"

text \<open>A run has at most one job in progress.\<close>

definition one_job_in_progress :: "string \<Rightarrow> world \<Rightarrow> bool" where
  "one_job_in_progress rid w \<longleftrightarrow> length (filter (in_progress_job rid '''' '''') (jobs w)) \<le> 1"

lemma single_filter: "length (filter p xs) \<le> 1 \<Longrightarrow> x \<in> set xs \<Longrightarrow> p x \<Longrightarrow> y \<in> set xs \<Longrightarrow> p y \<Longrightarrow> x = y"
proof (induction xs)
  case (Cons a xs)
  then show ?case by (auto split: if_splits simp: filter_empty_conv)
qed simp

lemma requeue_granted:
  assumes db: "db_ok w" and one: "one_job_in_progress (ry_RunID input) w"
    and j: "j \<in> set (jobs w)" "in_progress_job (ry_RunID input) '''' (ry_AssignmentAttemptID input) j"
      "job_attempt j < attempt_limit (ry_MaxAttempts input)"
    and run: "requeueRetryableRunTx (job_id j) input w = Inr (x, w')"
  shows "retry_granted input w w'"
proof -
  obtain p where q: "run_in (ry_RunID input) lifecycleQueued w'"
    and p: "\<And>k. p k \<Longrightarrow> in_progress_job (ry_RunID input) '''' '''' k" and n: "rows_affected p (jobs w) = 1"
    and js: "jobs w' = update_where p (released_job True) (jobs w)"
    using requeueRetryableRunTx_effect [OF db run] by blast
  obtain k where k: "k \<in> set (jobs w)" "p k"
  proof -
    have "filter p (jobs w) \<noteq> []" using n by (auto simp: rows_affected_def)
    then show ?thesis using that unfolding filter_empty_conv by blast
  qed
  have jp: "in_progress_job (ry_RunID input) '''' '''' j" using j(2) by (simp add: in_progress_job_def guard_matches_def)
  have "k = j" using single_filter [OF one [unfolded one_job_in_progress_def] k(1) p [OF k(2)] j(1) jp] .
  then have pj: "p j" using k by simp
  have others: "l \<in> set (jobs w')" if "l \<in> set (jobs w)" "l \<noteq> j" for l
  proof -
    have "\<not> p l" using single_filter [OF one [unfolded one_job_in_progress_def] that(1) p j(1) jp] that(2) by blast
    then show ?thesis unfolding js by (rule in_update_where_miss [OF that(1)])
  qed
  show ?thesis
    unfolding retry_granted_def
    using q j jp pj others in_update_where_hit [of j "jobs w" p "released_job True", OF j(1) pj] js
    by (intro conjI bexI [OF _ j(1)]) (simp_all add: in_progress_job_def)
qed

lemma retry_outcome:
  assumes db: "db_ok w" and one: "one_job_in_progress (ry_RunID input) w"
    and run: "RequeueOrFailRetryableRun input w = Inr (d, w')"
  shows "if rd_Requeued d then retry_granted input w w' else terminal_run (ry_RunID input) w'"
proof -
  obtain r job where job: "inProgressRetryJobTx input w = Inr (job, w)" and d: "decide_retry input r job w = Inr (d, w')"
    by (rule RequeueOrFailRetryableRun_Inr [OF run])
  show ?thesis
  proof (cases "\<exists>attempt jid. job = Some (attempt, jid) \<and> retryable_lifecycle input r \<and> attempt < attempt_limit (ry_MaxAttempts input)")
    case True
    then obtain attempt jid where a: "job = Some (attempt, jid)" "retryable_lifecycle input r" "attempt < attempt_limit (ry_MaxAttempts input)"
      by blast
    obtain j where j: "j \<in> set (jobs w)" "in_progress_job (ry_RunID input) '''' (ry_AssignmentAttemptID input) j"
      "attempt = job_attempt j" "jid = job_id j"
      using inProgressRetryJobTx_Inr [OF job] a(1) by auto
    obtain x w1 ev where req: "requeueRetryableRunTx jid input w = Inr (x, w1)"
      and n: "retry_notice NoticeDispatchRetry (ry_RunID input) (run_session_id r) (run_trace_id r)
         (attempt + 1) (attempt_limit (ry_MaxAttempts input)) (rs_StateVersion (fst x)) w1 = Inr (ev, w')" and rq: "rd_Requeued d"
      using d a unfolding decide_retry_def requeue_with_notice_def Let_def
      by (auto elim!: tx_bindE split: prod.splits)
    have "retry_granted input w w1"
      using requeue_granted [OF db one j(1,2) _ req [unfolded j(4)]] a(3) j(3) by simp
    moreover have "calm w1 w'" using calm_retry_notices(2) n by (rule tx_withinD)
    ultimately show ?thesis using rq by (simp add: retry_granted_def calm_keeps) (simp add: calm_def)
  next
    case False
    then obtain x where "fail_retryable input (attempt_limit (ry_MaxAttempts input)) r x w = Inr (d, w')"
      using d unfolding decide_retry_def Let_def by (auto split: option.splits if_splits)
    from fail_retryable_terminal [OF db this] show ?thesis by simp
  qed
qed

text \<open>
  A job past the limit cannot be given up: the notice that would explain it is refused, and the
  refusal fails the transaction.
\<close>

lemma exhausted_notice_refused: "maxAttempts < attempt \<Longrightarrow> exhausted_notice rid s t attempt maxAttempts w = Inl ErrUnsupportedNotice"
  by (simp add: exhausted_notice_def newRetryNotice_def tx_bind_def)

lemma retry_over_budget:
  assumes "retry_validate input = Inr ()" "filter (\<lambda>r. run_id r = ry_RunID input) (agent_runs w) = r # rs"
    and "confirmedRelease input \<longrightarrow> \<not> release_fenced input r" "retryable_lifecycle input r"
    and "inProgressRetryJobTx input w = Inr (Some (attempt, jid), w)"
    and "attempt_limit (ry_MaxAttempts input) < attempt"
  shows "RequeueOrFailRetryableRun input w = Inl ErrUnsupportedNotice"
  using assms
  by (simp add: RequeueOrFailRetryableRun_def tx_then_def tx_bind_def query_row_def decide_retry_def Let_def
      fail_retryable_def exhausted_notice_refused)

end
