(* ===== verification/Assignments.thy ===== *)
theory Assignments
  imports Retry
begin

text \<open>
  Reconciling an assignment with what the worker, or its silence, proves
  (\<^verbatim>\<open>internal/repository/assignments.go\<close>): lease renewal, the one reconciliation routine behind
  the reconnect, heartbeat, lease-expiry and startup paths, the two ways it ends a run whose
  attempt cannot be repeated, and the startup sweep.

  A reconciliation is one transaction. The startup sweep is one transaction per assignment, so a
  failure part of the way leaves what was committed before it; its result carries the error
  beside the events.
\<close>

section \<open>Data\<close>

record AssignmentReconciliation =
  ac_Requeued :: bool
  ac_Cleared :: bool
  ac_Fenced :: bool
  ac_AwaitingExit :: bool
  ac_Events :: "Event list"

definition no_reconciliation :: AssignmentReconciliation where
  "no_reconciliation = \<lparr>ac_Requeued = False, ac_Cleared = False, ac_Fenced = False,
     ac_AwaitingExit = False, ac_Events = []\<rparr>"

text \<open>\<^verbatim>\<open>COALESCE(execution_lease_expires_at_ns, \<dots>(execution_lease_expires_at))\<close>.\<close>

definition lease_nanos :: "agent_run \<Rightarrow> int option" where
  "lease_nanos r = (case run_execution_lease_expires_at_ns r of
     Some n \<Rightarrow> Some n | None \<Rightarrow> Option.bind (run_execution_lease_expires_at r) sqliteTimestampNanos)"

definition lease_after :: "int \<Rightarrow> agent_run \<Rightarrow> bool" where
  "lease_after instant r \<longleftrightarrow> (case lease_nanos r of None \<Rightarrow> False | Some n \<Rightarrow> n > UnixNano instant)"

section \<open>Leases\<close>

definition renewable :: "Assignment \<Rightarrow> world \<Rightarrow> agent_run \<Rightarrow> bool" where
  "renewable a w r \<longleftrightarrow> executes a r \<and> run_status r \<in> set [''running'', ''waiting_approval'']
     \<and> list_ex (holds_job a (run_id r)) (jobs w)"

definition renew_assignment :: "int \<Rightarrow> Assignment \<Rightarrow> bool wtx" where
  "renew_assignment leaseExpires a =
     (if as_JobID a = '''' \<or> as_RunID a = '''' \<or> as_WorkerID a = '''' \<or> as_AttemptID a = ''''
      then tx_fail (ErrText ''complete assignment identity is required for lease renewal'')
      else
        tx_bind (tx_gets (\<lambda>w. rows_affected (renewable a w) (agent_runs w))) (\<lambda>runRows.
        tx_then (tx_modify (\<lambda>w. w\<lparr>agent_runs := update_where (renewable a w)
          (\<lambda>r. r\<lparr>run_execution_lease_expires_at := Some (FormatTimestamp leaseExpires),
                 run_execution_lease_expires_at_ns := Some (UnixNano leaseExpires)\<rparr>) (agent_runs w)\<rparr>)) (
        if runRows = 0 then tx_return False
        else
          tx_bind (tx_gets (\<lambda>w. rows_affected (holds_job a (as_RunID a)) (jobs w))) (\<lambda>jobRows.
          tx_then (tx_modify (\<lambda>w. w\<lparr>jobs := update_where (holds_job a (as_RunID a))
            (\<lambda>j. j\<lparr>job_lease_expires_at := Some (FormatTimestamp leaseExpires),
                   job_lease_expires_at_ns := Some (UnixNano leaseExpires)\<rparr>) (jobs w)\<rparr>)) (
          if jobRows \<noteq> 1
          then tx_fail (ErrText (''renew assignment '' @ as_AttemptID a @ '': matching job disappeared''))
          else tx_return True)))))"

definition RenewAssignments :: "Assignment list \<Rightarrow> int \<Rightarrow> Assignment list wtx" where
  "RenewAssignments assignments leaseExpires =
     tx_bind (tx_map (\<lambda>a. tx_bind (renew_assignment leaseExpires a)
         (\<lambda>renewed. tx_return (if renewed then [a] else []))) assignments)
       (\<lambda>renewed. tx_return (concat renewed))"

section \<open>Queries\<close>

definition fenceExecutionTx :: "string \<Rightarrow> unit wtx" where
  "fenceExecutionTx rid = set_execution_state (\<lambda>_ r. run_id r = rid \<and> run_execution_active r) ''uncertain''"

definition hasPendingApprovalTx :: "string \<Rightarrow> bool wtx" where
  "hasPendingApprovalTx rid =
     tx_gets (\<lambda>w. 0 < length (filter (\<lambda>a. ap_run_id a = rid \<and> ap_status a = ''pending'') (approvals w)))"

definition authorized_approval :: "string \<Rightarrow> approval \<Rightarrow> bool" where
  "authorized_approval rid a \<longleftrightarrow> ap_run_id a = rid \<and> ap_status a \<in> set [''approved'', ''consumed'']"

definition hasAuthorizedApprovalTx :: "string \<Rightarrow> bool wtx" where
  "hasAuthorizedApprovalTx rid = tx_gets (\<lambda>w. 0 < length (filter (authorized_approval rid) (approvals w)))"

definition inProgressJobIDTx :: "string \<Rightarrow> string \<Rightarrow> string wtx" where
  "inProgressJobIDTx rid jobID =
     (if jobID \<noteq> '''' then tx_return jobID
      else tx_bind (query_row (\<lambda>w. filter (\<lambda>j. job_run_id j = rid \<and> job_status j = ''in_progress'') (jobs w)))
             (\<lambda>j. tx_return (job_id j)))"

definition requeueAssignmentTx :: "string \<Rightarrow> string \<Rightarrow> string \<Rightarrow> bool \<Rightarrow> (RunState \<times> Event list) wtx" where
  "requeueAssignmentTx rid jobID attemptID incrementAttempt =
     tx_bind (inProgressJobIDTx rid jobID) (\<lambda>jid.
     tx_map_err mapRequeueConflict (requeueRunThroughRecoveryTx rid jid
       (no_identity\<lparr>ti_assignmentAttemptID := attemptID\<rparr>) incrementAttempt))"

definition requeueUnsentAssignmentTx ::
  "string \<Rightarrow> string \<Rightarrow> string \<Rightarrow> bool \<Rightarrow> (RunState \<times> Event list) wtx" where
  "requeueUnsentAssignmentTx rid jobID attemptID incrementAttempt =
     tx_bind (inProgressJobIDTx rid jobID) (\<lambda>jid.
     tx_map_err mapRequeueConflict (
       tx_then (releaseJobToPendingTx rid jid attemptID incrementAttempt)
         (requeueUnsentRunLifecycleTx rid (no_identity\<lparr>ti_assignmentAttemptID := attemptID\<rparr>))))"

text \<open>A run that left its lifecycle meanwhile is fenced, not failed.\<close>

definition fenced_conflict :: "err \<Rightarrow> err" where
  "fenced_conflict e = (if e = ErrRunNotFailable \<or> e = ErrRunTransitionConflict then ErrAssignmentFenced else e)"

section \<open>Ending a run whose attempt cannot be repeated\<close>

definition terminalizeExhaustedAssignmentTx ::
  "string \<Rightarrow> string \<Rightarrow> string \<Rightarrow> string \<Rightarrow> string \<Rightarrow> int \<Rightarrow> (AssignmentReconciliation option \<times> int) wtx" where
  "terminalizeExhaustedAssignmentTx rid jobID attemptID sessionID traceID maxAttempts =
     tx_bind (query_opt (\<lambda>w. filter (in_progress_job rid jobID attemptID) (jobs w))) (\<lambda>found.
     case found of
       None \<Rightarrow> tx_fail ErrAssignmentFenced
     | Some j \<Rightarrow>
         if job_attempt j < maxAttempts then tx_return (None, job_attempt j)
         else
           tx_bind (exhausted_notice rid sessionID traceID (job_attempt j) maxAttempts) (\<lambda>giveUp.
           tx_bind (tx_map_err fenced_conflict (failRunTx (retry_fail_input rid
               (NormalizeFailure OriginRecovery ''job_timeout'' RetryClassNever)))) (\<lambda>terminal.
           tx_return (Some (no_reconciliation\<lparr>ac_Cleared := True, ac_Events := giveUp # tr_Events terminal\<rparr>),
             job_attempt j))))"

definition open_tool_calls :: "string \<Rightarrow> tool_call list wtx" where
  "open_tool_calls rid = tx_gets (\<lambda>w.
     sort_key (\<lambda>c. (nanos_key (tc_created_at c), tc_id c)) (filter (openToolCall rid) (tool_calls w)))"

definition tool_failed_events ::
  "string \<Rightarrow> string \<Rightarrow> string \<Rightarrow> Reason \<Rightarrow> string \<Rightarrow> tool_call list \<Rightarrow> Event list wtx" where
  "tool_failed_events sessionID rid traceID category at = tx_map (\<lambda>c.
     appendRunEventTx sessionID rid traceID ''tool.call.failed''
       (Some (marshalToolLifecyclePayload (tc_id c) (tc_server_name c) (tc_tool_name c) category)) at)"

definition expire_authorizations :: "string \<Rightarrow> string \<Rightarrow> unit wtx" where
  "expire_authorizations rid at = tx_modify (\<lambda>w. w\<lparr>approvals := update_where (authorized_approval rid)
     (\<lambda>a. a\<lparr>ap_status := ''expired'', ap_jti := None, ap_token := None,
            ap_decided_at := coalesce (ap_decided_at a) at\<rparr>) (approvals w)\<rparr>)"

definition uncertain_failure :: Failure where
  "uncertain_failure = NormalizeFailure OriginRecovery ''side_effect_uncertain'' RetryClassNever"

definition close_authorizations ::
  "string \<Rightarrow> string \<Rightarrow> string \<Rightarrow> terminalApproval list \<Rightarrow> tool_call list \<Rightarrow> string \<Rightarrow> Event list wtx" where
  "close_authorizations rid sessionID traceID authorized calls at =
     tx_then (expire_authorizations rid at) (
     tx_then (fail_open_tool_calls rid (Failure_Code uncertain_failure) at) (
     tx_bind (tx_map (\<lambda>a. appendApprovalTerminalEventTx sessionID rid traceID a ''approval.expired'' at) authorized) (\<lambda>evs.
     tx_bind (tool_failed_events sessionID rid traceID (Failure_Reason uncertain_failure) at calls) (\<lambda>evs'.
     tx_return (evs @ evs')))))"

definition terminalizeStaleApprovedAuthorizationTx ::
  "string \<Rightarrow> string \<Rightarrow> string \<Rightarrow> AssignmentReconciliation option wtx" where
  "terminalizeStaleApprovedAuthorizationTx rid sessionID traceID =
     tx_bind (tx_gets (\<lambda>w. map (terminal_approval_of w)
         (sort_key (\<lambda>a. (nanos_key (ap_created_at a), ap_id a)) (filter (authorized_approval rid) (approvals w))))) (\<lambda>authorized.
     if authorized = [] then tx_return None
     else
       tx_bind (open_tool_calls rid) (\<lambda>calls.
       tx_bind now_text (\<lambda>finishedAt.
       tx_bind (close_authorizations rid sessionID traceID authorized calls finishedAt) (\<lambda>evs.
       tx_bind (tx_map_err fenced_conflict (failRunTx (retry_fail_input rid uncertain_failure))) (\<lambda>terminal.
       tx_return (Some (no_reconciliation\<lparr>ac_Cleared := True, ac_Events := evs @ tr_Events terminal\<rparr>)))))))"

definition delivery_failure :: Failure where
  "delivery_failure = NormalizeFailure OriginApprovalTransport ''approval_delivery_failed'' RetryClassNever"

text \<open>The latest pending approval of a run, denied; its record for the event.\<close>

definition deny_latest_pending :: "string \<Rightarrow> string \<Rightarrow> ApprovalRecord option wtx" where
  "deny_latest_pending rid at =
     tx_bind (tx_gets (\<lambda>w. sort_key (\<lambda>a. (nanos_key (ap_created_at a), ap_id a))
         (filter (\<lambda>a. ap_run_id a = rid \<and> ap_status a = ''pending'') (approvals w)))) (\<lambda>pending.
     if pending = [] then tx_return None
     else
       tx_bind (approvalByID (ap_id (last pending))) (\<lambda>rec.
       tx_then (tx_modify (\<lambda>w. w\<lparr>approvals := update_where
           (\<lambda>a. ap_id a = ap_id (last pending) \<and> ap_status a = ''pending'')
           (\<lambda>a. a\<lparr>ap_status := ''denied'', ap_decided_at := Some at\<rparr>) (approvals w)\<rparr>))
       (tx_return (Some rec))))"

definition waiting_fail_input :: "string \<Rightarrow> bool \<Rightarrow> FailRunInput" where
  "waiting_fail_input rid preserveExecution = (retry_fail_input rid delivery_failure)\<lparr>
     fri_PreserveExecution := preserveExecution,
     fri_allowedFrom := [lifecycleWaitingApproval, lifecycleRecovering]\<rparr>"

definition close_waiting ::
  "string \<Rightarrow> string \<Rightarrow> string \<Rightarrow> ApprovalRecord option \<Rightarrow> tool_call list \<Rightarrow> string \<Rightarrow> Event list wtx" where
  "close_waiting rid sessionID traceID rec calls at =
     tx_then (fail_open_tool_calls rid (Failure_Code delivery_failure) at) (
     tx_bind (case rec of
         None \<Rightarrow> tx_return []
       | Some approval \<Rightarrow>
           tx_bind (appendApprovalLifecycleEventTx (approval\<lparr>ar_Status := ''denied''\<rparr>) ''approval.denied'' at)
             (\<lambda>ev. tx_return [ev])) (\<lambda>evs.
     tx_bind (tool_failed_events sessionID rid traceID (Failure_Reason delivery_failure) at calls) (\<lambda>evs'.
     tx_return (evs @ evs'))))"

definition reconcileWaitingApprovalTx ::
  "string \<Rightarrow> string \<Rightarrow> string \<Rightarrow> bool \<Rightarrow> AssignmentReconciliation wtx" where
  "reconcileWaitingApprovalTx rid sessionID traceID preserveExecution =
     tx_bind now_text (\<lambda>finishedAt.
     tx_bind (deny_latest_pending rid finishedAt) (\<lambda>rec.
     tx_bind (open_tool_calls rid) (\<lambda>calls.
     tx_bind (close_waiting rid sessionID traceID rec calls finishedAt) (\<lambda>evs.
     tx_bind (tx_map_err fenced_conflict (failRunTx (waiting_fail_input rid preserveExecution))) (\<lambda>terminal.
     tx_return (no_reconciliation\<lparr>ac_Cleared := \<not> preserveExecution, ac_Fenced := preserveExecution,
       ac_Events := evs @ tr_Events terminal\<rparr>))))))"

section \<open>The reconciliation\<close>

definition committedStop :: "agent_run \<Rightarrow> bool" where
  "committedStop r \<longleftrightarrow> run_status r = lifecycleCancelled
     \<and> (run_outcome_reason r = ReasonUserCancelled
        \<or> text_or_empty (run_cancellation_reason r) = CodeParentRunEnded)"

text \<open>A delivered stop whose lease the recovery instant has not reached.\<close>

definition stop_still_leased :: "bool \<Rightarrow> int option \<Rightarrow> agent_run \<Rightarrow> bool wtx" where
  "stop_still_leased staleRecovery cutoff r =
     (if staleRecovery \<and> run_execution_active r \<and> committedStop r \<and> run_execution_state r \<noteq> ''pending_send''
      then tx_bind time_Now (\<lambda>now. tx_return (lease_after (case cutoff of None \<Rightarrow> now | Some c \<Rightarrow> c) r))
      else tx_return False)"

definition lease_holds :: "int option \<Rightarrow> agent_run \<Rightarrow> bool" where
  "lease_holds cutoff r \<longleftrightarrow> (case cutoff of
     None \<Rightarrow> False
   | Some c \<Rightarrow> run_execution_active r
       \<and> run_status r \<in> set [lifecycleRunning, lifecycleWaitingApproval, lifecycleRecovering]
       \<and> run_execution_state r \<noteq> ''fenced'' \<and> lease_after c r)"

definition reconcile_terminal :: "string \<Rightarrow> bool \<Rightarrow> agent_run \<Rightarrow> AssignmentReconciliation wtx" where
  "reconcile_terminal rid staleRecovery r =
     (if \<not> staleRecovery \<and> run_execution_active r
      then tx_then (fenceExecutionTx rid) (tx_return (no_reconciliation\<lparr>ac_Fenced := True\<rparr>))
      else
        tx_bind now_text (\<lambda>at.
        tx_then (tx_modify (\<lambda>w. w\<lparr>agent_runs := update_where (\<lambda>x. run_id x = rid)
          (\<lambda>x. x\<lparr>run_execution_active := False,
                 run_execution_exit_acknowledged_at := coalesce (run_execution_exit_acknowledged_at x) at,
                 run_execution_state := ''exited'', run_execution_lease_expires_at := None,
                 run_execution_lease_expires_at_ns := None\<rparr>) (agent_runs w)\<rparr>))
        (tx_return (no_reconciliation\<lparr>ac_Cleared := True\<rparr>))))"

text \<open>Losing an attempt: requeued with a notice, or ended once the budget is spent.\<close>

definition repeat_attempt :: "Assignment \<Rightarrow> int \<Rightarrow> agent_run \<Rightarrow> AssignmentReconciliation wtx" where
  "repeat_attempt a maxAttempts r =
     tx_bind (terminalizeExhaustedAssignmentTx (as_RunID a) (as_JobID a) (text_or_empty (run_execution_attempt_id r))
         (run_session_id r) (run_trace_id r) maxAttempts) (\<lambda>(ended, attempt).
     case ended of
       Some reconciliation \<Rightarrow> tx_return reconciliation
     | None \<Rightarrow>
         tx_bind (requeueAssignmentTx (as_RunID a) (as_JobID a) (text_or_empty (run_execution_attempt_id r)) True) (\<lambda>(requeued, evs).
         tx_bind (retry_notice NoticeRecoveryRetry (as_RunID a) (run_session_id r) (run_trace_id r)
             (attempt + 1) maxAttempts (rs_StateVersion requeued)) (\<lambda>notice.
         tx_return (no_reconciliation\<lparr>ac_Requeued := True, ac_Events := evs @ [notice]\<rparr>))))"

definition reconcile_owner :: "Assignment \<Rightarrow> bool \<Rightarrow> int \<Rightarrow> agent_run \<Rightarrow> AssignmentReconciliation wtx" where
  "reconcile_owner a staleRecovery maxAttempts r =
     (if \<not> staleRecovery \<and> run_execution_state r \<noteq> ''pending_send'' then
        if \<not> run_execution_active r then tx_fail ErrAssignmentFenced
        else tx_bind (applyRunTransitionTx (fenceOwnershipTransitionInTx (as_RunID a) (assignmentIdentity a) ''uncertain'')
               no_subsidiary) (\<lambda>fenced. tx_return (no_reconciliation\<lparr>ac_Fenced := True, ac_Events := tr_Events fenced\<rparr>))
      else if \<not> run_execution_active r \<and> \<not> staleRecovery then tx_return (no_reconciliation\<lparr>ac_Fenced := True\<rparr>)
      else
        tx_bind (if staleRecovery
                 then terminalizeStaleApprovedAuthorizationTx (as_RunID a) (run_session_id r) (run_trace_id r)
                 else tx_return None) (\<lambda>ended.
        case ended of
          Some reconciliation \<Rightarrow> tx_return reconciliation
        | None \<Rightarrow>
            if run_execution_state r = ''pending_send'' then
              tx_bind (requeueUnsentAssignmentTx (as_RunID a) (as_JobID a) (text_or_empty (run_execution_attempt_id r)) False)
                (\<lambda>(requeued, evs). tx_return (no_reconciliation\<lparr>ac_Requeued := True, ac_Events := evs\<rparr>))
            else repeat_attempt a maxAttempts r))"

definition reconcile_active :: "Assignment \<Rightarrow> bool \<Rightarrow> int \<Rightarrow> agent_run \<Rightarrow> AssignmentReconciliation wtx" where
  "reconcile_active a staleRecovery maxAttempts r =
     tx_bind (if run_status r = lifecycleWaitingApproval
              then tx_bind (hasAuthorizedApprovalTx (as_RunID a)) (\<lambda>authorized. tx_return (\<not> authorized))
              else if run_status r = lifecycleRecovering then hasPendingApprovalTx (as_RunID a)
              else tx_return False) (\<lambda>undelivered.
     if undelivered
     then reconcileWaitingApprovalTx (as_RunID a) (run_session_id r) (run_trace_id r)
            (\<not> staleRecovery \<and> run_execution_active r)
     else reconcile_owner a staleRecovery maxAttempts r)"

definition reconcile_queued :: "string \<Rightarrow> agent_run \<Rightarrow> AssignmentReconciliation wtx" where
  "reconcile_queued rid r =
     (if run_execution_active r
      then tx_then (tx_modify (\<lambda>w. w\<lparr>agent_runs := update_where
             (\<lambda>x. run_id x = rid \<and> run_status x = ''queued'' \<and> run_execution_active x)
             (\<lambda>x. x\<lparr>run_execution_active := False, run_execution_exit_acknowledged_at := None,
                    run_execution_attempt_id := None, run_execution_state := ''none'',
                    run_execution_lease_expires_at := None, run_execution_lease_expires_at_ns := None\<rparr>) (agent_runs w)\<rparr>))
           (tx_return (no_reconciliation\<lparr>ac_Cleared := True\<rparr>))
      else tx_return no_reconciliation)"

definition reconcile_lifecycle :: "Assignment \<Rightarrow> bool \<Rightarrow> int \<Rightarrow> agent_run \<Rightarrow> AssignmentReconciliation wtx" where
  "reconcile_lifecycle a staleRecovery maxAttempts r =
     (if run_status r \<in> set [lifecycleCompleted, lifecycleFailed, lifecycleCancelled]
      then reconcile_terminal (as_RunID a) staleRecovery r
      else if run_status r \<in> set [lifecycleWaitingApproval, lifecycleRunning, lifecycleRecovering]
      then reconcile_active a staleRecovery maxAttempts r
      else if run_status r = lifecycleQueued then reconcile_queued (as_RunID a) r
      else tx_fail ErrAssignmentFenced)"

text \<open>An assignment that names another execution than the row holds.\<close>

definition superseded :: "Assignment \<Rightarrow> agent_run \<Rightarrow> bool" where
  "superseded a r \<longleftrightarrow> (as_AttemptID a \<noteq> '''' \<and> as_AttemptID a \<noteq> text_or_empty (run_execution_attempt_id r))
     \<or> (as_WorkerID a \<noteq> '''' \<and> run_worker_id r \<noteq> Some (as_WorkerID a))"

definition reconcileAssignment ::
  "Assignment \<Rightarrow> bool \<Rightarrow> int option \<Rightarrow> int \<Rightarrow> bool \<Rightarrow> AssignmentReconciliation wtx" where
  "reconcileAssignment a staleRecovery cutoff maxAttempts liveWorker =
     tx_bind (query_row (\<lambda>w. filter (\<lambda>r. run_id r = as_RunID a) (agent_runs w))) (\<lambda>r.
     if superseded a r then tx_return (no_reconciliation\<lparr>ac_Fenced := True\<rparr>)
     else if liveWorker \<and> run_execution_active r \<and> committedStop r
     then tx_return (no_reconciliation\<lparr>ac_AwaitingExit := True\<rparr>)
     else
       tx_bind (stop_still_leased staleRecovery cutoff r) (\<lambda>held.
       if held then tx_then (fenceExecutionTx (as_RunID a)) (tx_return (no_reconciliation\<lparr>ac_AwaitingExit := True\<rparr>))
       else if lease_holds cutoff r then tx_return (no_reconciliation\<lparr>ac_Fenced := True\<rparr>)
       else reconcile_lifecycle a staleRecovery (attempt_limit maxAttempts) r))"

definition ReconcileAssignmentWithLimit :: "Assignment \<Rightarrow> int \<Rightarrow> AssignmentReconciliation wtx" where
  "ReconcileAssignmentWithLimit a maxAttempts = reconcileAssignment a False None maxAttempts False"

definition RecoverAssignmentWithLimit :: "Assignment \<Rightarrow> int \<Rightarrow> AssignmentReconciliation wtx" where
  "RecoverAssignmentWithLimit a maxAttempts = reconcileAssignment a True None maxAttempts False"

definition ReconcileHeartbeatAssignment :: "Assignment \<Rightarrow> int \<Rightarrow> AssignmentReconciliation wtx" where
  "ReconcileHeartbeatAssignment a maxAttempts = reconcileAssignment a True None maxAttempts True"

definition RecoverAssignmentAtCutoffWithLimit :: "Assignment \<Rightarrow> int \<Rightarrow> int \<Rightarrow> AssignmentReconciliation wtx" where
  "RecoverAssignmentAtCutoffWithLimit a cutoff maxAttempts = reconcileAssignment a True (Some cutoff) maxAttempts False"

section \<open>Sweeps\<close>

text \<open>\<^verbatim>\<open>LEFT JOIN jobs\<close> on the in-progress job, one assignment for each joined row.\<close>

definition run_assignments :: "(agent_run \<Rightarrow> bool) \<Rightarrow> world \<Rightarrow> Assignment list" where
  "run_assignments p w = concat (map (\<lambda>r.
     map (\<lambda>jid. \<lparr>as_JobID = jid, as_RunID = run_id r, as_WorkerID = text_or_empty (run_worker_id r),
                 as_AttemptID = text_or_empty (run_execution_attempt_id r)\<rparr>)
       (case filter (\<lambda>j. job_run_id j = run_id r \<and> job_status j = ''in_progress'') (jobs w) of
          [] \<Rightarrow> [''''] | js \<Rightarrow> map job_id js))
     (sort_key (\<lambda>r. (nanos_key (run_created_at r), run_id r)) (filter p (agent_runs w))))"

definition lease_reached :: "int \<Rightarrow> agent_run \<Rightarrow> bool" where
  "lease_reached cutoff r \<longleftrightarrow> run_execution_lease_expires_at r = None
     \<or> (case lease_nanos r of None \<Rightarrow> False | Some n \<Rightarrow> n \<le> UnixNano cutoff)"

definition recoverable :: "int \<Rightarrow> agent_run \<Rightarrow> bool" where
  "recoverable cutoff r \<longleftrightarrow> run_execution_active r \<and>
     (run_status r = ''queued''
      \<or> (run_status r \<in> set [''completed'', ''failed'', ''cancelled'']
         \<and> (run_execution_state r \<noteq> ''uncertain'' \<or> lease_reached cutoff r))
      \<or> (run_status r \<in> set [''running'', ''waiting_approval'', ''recovering'']
         \<and> (run_execution_state r = ''fenced'' \<or> lease_reached cutoff r)))"

definition RecoverableAssignments :: "int \<Rightarrow> Assignment list wtx" where
  "RecoverableAssignments cutoff = tx_gets (run_assignments (recoverable cutoff))"

definition startupRecoveryAssignments :: "Assignment list wtx" where
  "startupRecoveryAssignments = tx_gets (run_assignments (\<lambda>r. run_execution_active r
     \<or> run_status r \<in> set [''running'', ''waiting_approval'', ''recovering'']))"

fun recoverAssignments :: "Assignment list \<Rightarrow> int \<Rightarrow> (Event list \<times> err option) wtx" where
  "recoverAssignments [] maxAttempts = tx_return ([], None)"
| "recoverAssignments (a # rest) maxAttempts = (\<lambda>w.
     case RecoverAssignmentWithLimit a maxAttempts w of
       Inl e \<Rightarrow> Inr (([], Some e), w)
     | Inr (reconciliation, w1) \<Rightarrow>
         tx_bind (recoverAssignments rest maxAttempts)
           (\<lambda>(evs, e). tx_return (ac_Events reconciliation @ evs, e)) w1)"

definition fence_all_active :: "unit wtx" where
  "fence_all_active = tx_modify (\<lambda>w. w\<lparr>agent_runs := update_where
     (\<lambda>r. run_status r \<in> set [''running'', ''waiting_approval'', ''recovering''])
     (\<lambda>r. r\<lparr>run_execution_state := ''fenced''\<rparr>) (agent_runs w)\<rparr>)"

definition RecoverAllActiveAssignmentsWithLimit :: "int \<Rightarrow> (Event list \<times> err option) wtx" where
  "RecoverAllActiveAssignmentsWithLimit maxAttempts =
     tx_then fence_all_active (
     tx_bind startupRecoveryAssignments (\<lambda>assignments. recoverAssignments assignments maxAttempts))"

section \<open>Within any store relation\<close>

lemma fail_input_ok_waiting [simp]: "fail_input_ok (waiting_fail_input rid b)"
  by (simp add: fail_input_ok_def waiting_fail_input_def nonterminal_lifecycles_def)

context transition_relation
begin

lemma within_expire_authorizations: "tx_within R (expire_authorizations rid at)"
  unfolding expire_authorizations_def
  by (rule within_close_approvals)
    (auto simp: closed_approval_def authorized_approval_def approval_step_defs coalesce_def split: option.splits)

lemma within_deny_latest_pending: "tx_within R (deny_latest_pending rid at)"
  unfolding deny_latest_pending_def
  by (intro within_bind within_gets within_if within_return within_approvalByID within_then within_close_approvals)
    (simp add: closed_approval_def approval_step_defs)

lemma within_closing_events:
  "tx_within R (tool_failed_events s rid t c at calls)"
  "tx_within R (close_authorizations rid s t auths calls at)"
  "tx_within R (close_waiting rid s t rec calls at)"
  unfolding tool_failed_events_def close_authorizations_def close_waiting_def
  by (intro within_map within_events within_then within_expire_authorizations within_fail_open_tool_calls
      within_bind within_approval_events within_return within_case_option)+

lemma within_open_tool_calls: "tx_within R (open_tool_calls rid)"
  unfolding open_tool_calls_def by (rule within_gets)

lemma within_terminalizing:
  "tx_within R (terminalizeExhaustedAssignmentTx rid j a s t m)"
  "tx_within R (terminalizeStaleApprovedAuthorizationTx rid s t)"
  "tx_within R (reconcileWaitingApprovalTx rid s t b)"
  unfolding terminalizeExhaustedAssignmentTx_def terminalizeStaleApprovedAuthorizationTx_def
    reconcileWaitingApprovalTx_def
  by (intro within_bind within_query_opt within_case_option within_fail within_if within_return within_retry_notices
      within_map_err within_failRunTx within_gets within_open_tool_calls within_now_text within_closing_events
      within_deny_latest_pending, simp_all)+

lemma within_fenceExecutionTx: "tx_within R (fenceExecutionTx rid)"
  unfolding fenceExecutionTx_def by (rule within_set_execution_state)

lemma within_reconcile_terminal: "tx_within R (reconcile_terminal rid b r)"
  unfolding reconcile_terminal_def
  by (intro within_if within_then within_fenceExecutionTx within_return within_bind within_now_text within_modify
      side_update) (simp add: same_state_def same_identity_def)

lemma within_reconcile_queued: "tx_within R (reconcile_queued rid r)"
  unfolding reconcile_queued_def
  by (intro within_if within_then within_return within_modify side_update)
    (simp add: same_state_def same_identity_def)

end

context store_relation
begin

lemma within_requeue_assignment_txs:
  "tx_within R (requeueAssignmentTx rid j a b)" "tx_within R (requeueUnsentAssignmentTx rid j a b)"
  unfolding requeueAssignmentTx_def requeueUnsentAssignmentTx_def inProgressJobIDTx_def
  by (intro within_bind within_if within_return within_query_row within_map_err within_requeueRunThroughRecoveryTx
      within_then within_releaseJobToPendingTx within_requeue_lifecycle)+

lemma within_repeat_attempt: "tx_within R (repeat_attempt a m r)"
  unfolding repeat_attempt_def
  by (intro within_bind within_terminalizing within_case_prod within_case_option within_return
      within_requeue_assignment_txs within_retry_notices)

lemma within_reconcile_owner: "tx_within R (reconcile_owner a st m r)"
  unfolding reconcile_owner_def
  by (intro within_if within_fail within_bind within_applyRunTransitionTx within_no_subsidiary within_return
      within_terminalizing within_case_option within_requeue_assignment_txs within_case_prod within_repeat_attempt)
    simp

lemma within_reconcile_active: "tx_within R (reconcile_active a st m r)"
  unfolding reconcile_active_def hasAuthorizedApprovalTx_def hasPendingApprovalTx_def
  by (intro within_bind within_if within_gets within_return within_terminalizing within_reconcile_owner)

lemma within_reconcileAssignment: "tx_within R (reconcileAssignment a st c m l)"
  unfolding reconcileAssignment_def reconcile_lifecycle_def stop_still_leased_def
  by (intro within_bind within_query_row within_if within_return within_time_Now within_then within_fenceExecutionTx
      within_reconcile_terminal within_reconcile_active within_reconcile_queued within_fail)

lemma within_reconciliations:
  "tx_within R (ReconcileAssignmentWithLimit a m)" "tx_within R (RecoverAssignmentWithLimit a m)"
  "tx_within R (ReconcileHeartbeatAssignment a m)" "tx_within R (RecoverAssignmentAtCutoffWithLimit a c m)"
  by (simp_all add: ReconcileAssignmentWithLimit_def RecoverAssignmentWithLimit_def
      ReconcileHeartbeatAssignment_def RecoverAssignmentAtCutoffWithLimit_def within_reconcileAssignment)

lemma within_renew_assignment: "tx_within R (renew_assignment t a)"
  unfolding renew_assignment_def
  by (intro within_if within_fail within_bind within_gets within_then within_return within_any_jobs
      within_modify side_update) (simp_all add: same_state_def same_identity_def)

lemma within_RenewAssignments: "tx_within R (RenewAssignments as t)"
  unfolding RenewAssignments_def by (intro within_bind within_map within_renew_assignment within_return)

lemma within_recoverAssignments: "tx_within R (recoverAssignments as m)"
proof (induction as)
  case (Cons a as)
  show ?case
  proof (rule tx_withinI)
    fix w x w' assume run: "recoverAssignments (a # as) m w = Inr (x, w')"
    show "R w w'"
    proof (cases "RecoverAssignmentWithLimit a m w")
      case (Inl e)
      then show ?thesis using run step_refl by simp
    next
      case (Inr y)
      then obtain rec w1 where y: "RecoverAssignmentWithLimit a m w = Inr (rec, w1)" by (cases y) simp
      then obtain z where z: "recoverAssignments as m w1 = Inr (z, w')"
        using run by (auto elim!: tx_bindE split: prod.splits)
      show ?thesis
        using step_trans [OF tx_withinD [OF within_reconciliations(2) y] tx_withinD [OF Cons.IH z]] .
    qed
  qed
qed (simp add: tx_within_def step_refl)

lemma within_RecoverAllActiveAssignmentsWithLimit: "tx_within R (RecoverAllActiveAssignmentsWithLimit m)"
  unfolding RecoverAllActiveAssignmentsWithLimit_def fence_all_active_def startupRecoveryAssignments_def
  by (intro within_then within_bind within_gets within_recoverAssignments within_modify side_update)
    (simp add: same_state_def same_identity_def)

end

section \<open>What a reconciliation does\<close>

text \<open>A recovery of a job past the limit fails, and with it the startup sweep.\<close>

lemma repeat_over_budget:
  assumes "filter (in_progress_job (as_RunID a) (as_JobID a) (text_or_empty (run_execution_attempt_id r))) (jobs w) = j # js"
    and "maxAttempts < job_attempt j"
  shows "repeat_attempt a maxAttempts r w = Inl ErrUnsupportedNotice"
  using assms
  by (simp add: repeat_attempt_def terminalizeExhaustedAssignmentTx_def tx_bind_def query_opt_def
      exhausted_notice_refused)

text \<open>A report under another attempt or worker than the row holds changes nothing.\<close>

lemma superseded_write_free:
  assumes "filter (\<lambda>r. run_id r = as_RunID a) (agent_runs w) = r # rs" "superseded a r"
  shows "reconcileAssignment a st c m l w = Inr (no_reconciliation\<lparr>ac_Fenced := True\<rparr>, w)"
  using assms by (simp add: reconcileAssignment_def tx_bind_def query_row_def)

lemma live_lease_write_free:
  assumes "filter (\<lambda>r. run_id r = as_RunID a) (agent_runs w) = r # rs" "\<not> superseded a r"
    and "run_status r \<noteq> lifecycleCancelled" "lease_holds (Some c) r"
  shows "RecoverAssignmentAtCutoffWithLimit a c m w = Inr (no_reconciliation\<lparr>ac_Fenced := True\<rparr>, w)"
  using assms by (simp add: RecoverAssignmentAtCutoffWithLimit_def reconcileAssignment_def tx_bind_def query_row_def
      stop_still_leased_def committedStop_def)

text \<open>A run that nobody executes: waiting in the queue, or over.\<close>

definition settled :: "string \<Rightarrow> world \<Rightarrow> bool" where
  "settled rid w \<longleftrightarrow> run_in rid lifecycleQueued w \<or> terminal_run rid w"

lemma hoare_db: "tx_within (under run_history) m \<Longrightarrow> tx_hoare db_ok m (\<lambda>_. db_ok)"
  by (auto simp: tx_hoare_def tx_within_def under_def)

lemma hoare_fail_settles:
  "fail_input_ok fi \<Longrightarrow> tx_hoare db_ok (tx_map_err g (failRunTx fi)) (\<lambda>_. settled (fri_RunID fi))"
  using failRunTx_terminal by (auto simp: tx_hoare_def settled_def)

lemma fail_input_runs [simp]: "fri_RunID (retry_fail_input rid f) = rid" "fri_RunID (waiting_fail_input rid b) = rid"
  by (simp_all add: retry_fail_input_def waiting_fail_input_def)

lemma reconcileWaiting_settles: "tx_hoare db_ok (reconcileWaitingApprovalTx rid s t b) (\<lambda>_. settled rid)"
  unfolding reconcileWaitingApprovalTx_def
  by (intro hoare_bind [OF hoare_db [OF history.within_now_text]] hoare_bind [OF hoare_db [OF history.within_deny_latest_pending]]
      hoare_bind [OF hoare_db [OF history.within_open_tool_calls]] hoare_bind [OF hoare_db [OF history.within_closing_events(3)]]
      hoare_bind [OF hoare_fail_settles [of "waiting_fail_input rid b", simplified]] hoare_return)

lemma terminalizeStale_settles:
  assumes db: "db_ok w" and run: "terminalizeStaleApprovedAuthorizationTx rid s t w = Inr (x, w')"
  shows "if x = None then w' = w else settled rid w'"
proof -
  let ?auths = "map (terminal_approval_of w)
    (sort_key (\<lambda>a. (nanos_key (ap_created_at a), ap_id a)) (filter (authorized_approval rid) (approvals w)))"
  have "tx_hoare db_ok
      (tx_bind (open_tool_calls rid) (\<lambda>calls. tx_bind now_text (\<lambda>finishedAt.
       tx_bind (close_authorizations rid s t ?auths calls finishedAt) (\<lambda>evs.
       tx_bind (tx_map_err fenced_conflict (failRunTx (retry_fail_input rid uncertain_failure))) (\<lambda>terminal.
       tx_return (Some (no_reconciliation\<lparr>ac_Cleared := True, ac_Events := evs @ tr_Events terminal\<rparr>))))))) (\<lambda>x w. x \<noteq> None \<and> settled rid w)"
    by (intro hoare_bind [OF hoare_db [OF history.within_open_tool_calls]] hoare_bind [OF hoare_db [OF history.within_now_text]]
        hoare_bind [OF hoare_db [OF history.within_closing_events(2)]]
        hoare_bind [OF hoare_fail_settles [of "retry_fail_input rid uncertain_failure", simplified]] hoare_return) simp
  from tx_hoareD [OF this db] run show ?thesis
    unfolding terminalizeStaleApprovedAuthorizationTx_def tx_bind_def tx_gets_def
    by (simp split: if_splits) blast
qed

lemma terminalizeExhausted_settles:
  assumes db: "db_ok w" and run: "terminalizeExhaustedAssignmentTx rid j a s t m w = Inr ((x, n), w')"
  shows "if x = None then w' = w \<and> n < m else settled rid w'"
proof (cases "filter (in_progress_job rid j a) (jobs w)")
  case Nil
  then show ?thesis using run by (simp add: terminalizeExhaustedAssignmentTx_def tx_bind_def query_opt_def)
next
  case (Cons k ks)
  have h: "tx_hoare db_ok
      (tx_bind (exhausted_notice rid s t (job_attempt k) m) (\<lambda>giveUp.
           tx_bind (tx_map_err fenced_conflict (failRunTx (retry_fail_input rid
               (NormalizeFailure OriginRecovery ''job_timeout'' RetryClassNever)))) (\<lambda>terminal.
           tx_return (Some (no_reconciliation\<lparr>ac_Cleared := True, ac_Events := giveUp # tr_Events terminal\<rparr>),
             job_attempt k)))) (\<lambda>x w. fst x \<noteq> None \<and> settled rid w)"
    by (intro hoare_bind [OF hoare_db [OF history.within_retry_notices(1)]]
        hoare_bind [OF hoare_fail_settles [of "retry_fail_input rid f" for f, simplified]] hoare_return) simp
  show ?thesis
  proof (cases "job_attempt k < m")
    case True
    then show ?thesis using run Cons by (simp add: terminalizeExhaustedAssignmentTx_def tx_bind_def query_opt_def)
  next
    case False
    then show ?thesis
      using run Cons tx_hoareD [OF h db] unfolding terminalizeExhaustedAssignmentTx_def query_opt_def
      by (fastforce simp: tx_bind_Inr_iff [of "\<lambda>w. Inr (case filter (in_progress_job rid j a) (jobs w) of [] \<Rightarrow> None | x # _ \<Rightarrow> Some x, w)"])
  qed
qed

lemma requeue_assignment_settles:
  assumes db: "db_ok w"
  shows "requeueAssignmentTx rid j a b w = Inr (x, w') \<Longrightarrow> run_in rid lifecycleQueued w'"
    and "requeueUnsentAssignmentTx rid j a b w = Inr (x, w') \<Longrightarrow> run_in rid lifecycleQueued w'"
proof -
  have job: "w1 = w" if "inProgressJobIDTx rid j w = Inr (jid, w1)" for jid w1
    using that by (auto simp: inProgressJobIDTx_def dest!: query_row_Inr split: if_splits elim!: tx_bindE)
  have rel: "db_ok w2" if "releaseJobToPendingTx rid jid a b w = Inr (u, w2)" for jid u w2
    using release_jobs_Inr [OF that [unfolded releaseJobToPendingTx_def]] db_ok_release [OF db] by simp
  {
    assume "requeueAssignmentTx rid j a b w = Inr (x, w')"
    then obtain jid u w2 where "releaseJobToPendingTx rid jid a b w = Inr (u, w2)"
      "requeueRunLifecycleTx rid (no_identity\<lparr>ti_assignmentAttemptID := a\<rparr>) ''uncertain'' w2 = Inr (x, w')"
      unfolding requeueAssignmentTx_def requeueRunThroughRecoveryTx_def
      by (elim tx_bindE) (auto dest: job elim!: tx_thenE)
    then show "run_in rid lifecycleQueued w'" using requeue_lifecycle_effect(1) rel by blast
  }
  {
    assume "requeueUnsentAssignmentTx rid j a b w = Inr (x, w')"
    then obtain jid u w2 where "releaseJobToPendingTx rid jid a b w = Inr (u, w2)"
      "requeueUnsentRunLifecycleTx rid (no_identity\<lparr>ti_assignmentAttemptID := a\<rparr>) w2 = Inr (x, w')"
      unfolding requeueUnsentAssignmentTx_def
      by (elim tx_bindE) (auto dest: job elim!: tx_thenE)
    then show "run_in rid lifecycleQueued w'" using requeue_lifecycle_effect(2) rel by blast
  }
qed

lemma repeat_attempt_settles:
  assumes db: "db_ok w" and run: "repeat_attempt a m r w = Inr (rec, w')"
  shows "settled (as_RunID a) w'"
proof -
  obtain x n w1 where ended: "terminalizeExhaustedAssignmentTx (as_RunID a) (as_JobID a) (text_or_empty (run_execution_attempt_id r))
         (run_session_id r) (run_trace_id r) m w = Inr ((x, n), w1)"
    and rest: "(case x of
       Some reconciliation \<Rightarrow> tx_return reconciliation
     | None \<Rightarrow>
         tx_bind (requeueAssignmentTx (as_RunID a) (as_JobID a) (text_or_empty (run_execution_attempt_id r)) True) (\<lambda>(requeued, evs).
         tx_bind (retry_notice NoticeRecoveryRetry (as_RunID a) (run_session_id r) (run_trace_id r)
             (n + 1) m (rs_StateVersion requeued)) (\<lambda>notice.
         tx_return (no_reconciliation\<lparr>ac_Requeued := True, ac_Events := evs @ [notice]\<rparr>)))) w1 = Inr (rec, w')"
    using run unfolding repeat_attempt_def by (elim tx_bindE) (simp split: prod.splits)
  show ?thesis
  proof (cases x)
    case None
    then have "w1 = w" using terminalizeExhausted_settles [OF db ended] by simp
    with None rest obtain y w2 ev where req: "requeueAssignmentTx (as_RunID a) (as_JobID a) (text_or_empty (run_execution_attempt_id r)) True w = Inr (y, w2)"
      and n: "retry_notice NoticeRecoveryRetry (as_RunID a) (run_session_id r) (run_trace_id r)
             (n + 1) m (rs_StateVersion (fst y)) w2 = Inr (ev, w')"
      by (auto elim!: tx_bindE split: prod.splits)
    have "calm w2 w'" using calm_retry_notices(2) n by (rule tx_withinD)
    then show ?thesis using requeue_assignment_settles(1) [OF db req] by (simp add: settled_def calm_keeps)
  next
    case (Some y)
    then show ?thesis using terminalizeExhausted_settles [OF db ended] rest by simp
  qed
qed

lemma reconcile_owner_settles:
  assumes db: "db_ok w" and run: "reconcile_owner a True m r w = Inr (rec, w')"
  shows "settled (as_RunID a) w'"
proof -
  obtain x w1 where st: "terminalizeStaleApprovedAuthorizationTx (as_RunID a) (run_session_id r) (run_trace_id r) w = Inr (x, w1)"
    and rest: "(case x of
          Some reconciliation \<Rightarrow> tx_return reconciliation
        | None \<Rightarrow>
            if run_execution_state r = ''pending_send'' then
              tx_bind (requeueUnsentAssignmentTx (as_RunID a) (as_JobID a) (text_or_empty (run_execution_attempt_id r)) False)
                (\<lambda>(requeued, evs). tx_return (no_reconciliation\<lparr>ac_Requeued := True, ac_Events := evs\<rparr>))
            else repeat_attempt a m r) w1 = Inr (rec, w')"
    using run unfolding reconcile_owner_def by (simp add: tx_bind_Inr_iff) blast
  show ?thesis
  proof (cases x)
    case None
    then have w1: "w1 = w" using terminalizeStale_settles [OF db st] by simp
    show ?thesis
    proof (cases "run_execution_state r = ''pending_send''")
      case True
      then obtain y where "requeueUnsentAssignmentTx (as_RunID a) (as_JobID a) (text_or_empty (run_execution_attempt_id r)) False w = Inr (y, w')"
        using rest None w1 by (auto elim!: tx_bindE split: prod.splits)
      then show ?thesis using requeue_assignment_settles(2) [OF db] by (simp add: settled_def)
    next
      case False
      then show ?thesis using rest None w1 repeat_attempt_settles [OF db] by simp
    qed
  next
    case (Some y)
    then show ?thesis using terminalizeStale_settles [OF db st] rest by simp
  qed
qed

lemma reconcile_active_settles:
  assumes db: "db_ok w" and run: "reconcile_active a True m r w = Inr (rec, w')"
  shows "settled (as_RunID a) w'"
proof -
  obtain u w1 where u: "(if run_status r = lifecycleWaitingApproval
              then tx_bind (hasAuthorizedApprovalTx (as_RunID a)) (\<lambda>authorized. tx_return (\<not> authorized))
              else if run_status r = lifecycleRecovering then hasPendingApprovalTx (as_RunID a)
              else tx_return False) w = Inr (u, w1)"
    and rest: "(if u then reconcileWaitingApprovalTx (as_RunID a) (run_session_id r) (run_trace_id r)
            (\<not> True \<and> run_execution_active r)
     else reconcile_owner a True m r) w1 = Inr (rec, w')"
    using run unfolding reconcile_active_def by (elim tx_bindE)
  have "w1 = w" using u by (auto simp: hasAuthorizedApprovalTx_def hasPendingApprovalTx_def tx_bind_def split: if_splits)
  then show ?thesis
    using rest tx_hoareD [OF reconcileWaiting_settles db] reconcile_owner_settles [OF db] by (cases u) simp_all
qed

lemma reconcile_terminal_settles:
  assumes db: "db_ok w" and r: "r \<in> set (agent_runs w)" "run_id r = rid" "isTerminalLifecycle (run_status r)"
    and run: "reconcile_terminal rid b r w = Inr (rec, w')"
  shows "settled rid w'"
proof -
  have "run_history w w'" using tx_withinD [OF history.within_reconcile_terminal run] db by (simp add: under_def)
  moreover have "terminal_run rid w" using r by (auto simp: terminal_run_def list_ex_iff)
  ultimately show ?thesis using run_history_terminal by (simp add: settled_def)
qed

lemma reconcile_queued_settles:
  assumes r: "r \<in> set (agent_runs w)" "run_id r = rid" "run_status r = lifecycleQueued"
    and run: "reconcile_queued rid r w = Inr (rec, w')"
  shows "settled rid w'"
proof -
  have q: "run_in rid lifecycleQueued w" unfolding run_in_def list_ex_iff by (rule bexI [OF _ r(1)]) (simp add: r)
  have ex: "list_ex (\<lambda>r. run_id r = rid \<and> run_status r = lifecycleQueued)
      (update_where p (\<lambda>x. x\<lparr>run_execution_active := False, run_execution_exit_acknowledged_at := None,
         run_execution_attempt_id := None, run_execution_state := ''none'', run_execution_lease_expires_at := None,
         run_execution_lease_expires_at_ns := None\<rparr>) rs) \<longleftrightarrow>
      list_ex (\<lambda>r. run_id r = rid \<and> run_status r = lifecycleQueued) rs" for p rs
    by (induction rs) (simp_all add: update_where_def)
  show ?thesis
  proof (cases "run_execution_active r")
    case True
    with run have "agent_runs w' = update_where (\<lambda>x. run_id x = rid \<and> run_status x = ''queued'' \<and> run_execution_active x)
        (\<lambda>x. x\<lparr>run_execution_active := False, run_execution_exit_acknowledged_at := None,
         run_execution_attempt_id := None, run_execution_state := ''none'', run_execution_lease_expires_at := None,
         run_execution_lease_expires_at_ns := None\<rparr>) (agent_runs w)"
      unfolding reconcile_queued_def by (simp add: tx_then_def tx_bind_def) (drule conjunct2, drule sym, simp)
    then show ?thesis using q unfolding settled_def run_in_def by (simp only: ex simp_thms)
  next
    case False
    then show ?thesis using run q by (simp add: reconcile_queued_def settled_def)
  qed
qed

lemma recovery_settles:
  assumes db: "db_ok w" and run: "RecoverAssignmentWithLimit a m w = Inr (rec, w')"
    and verdict: "\<not> ac_Fenced rec" "\<not> ac_AwaitingExit rec"
  shows "settled (as_RunID a) w'"
proof -
  obtain r w1 where q: "query_row (\<lambda>w. filter (\<lambda>r. run_id r = as_RunID a) (agent_runs w)) w = Inr (r, w1)"
    and rest: "(if superseded a r then tx_return (no_reconciliation\<lparr>ac_Fenced := True\<rparr>)
     else if False \<and> run_execution_active r \<and> committedStop r
     then tx_return (no_reconciliation\<lparr>ac_AwaitingExit := True\<rparr>)
     else
       tx_bind (stop_still_leased True None r) (\<lambda>held.
       if held then tx_then (fenceExecutionTx (as_RunID a)) (tx_return (no_reconciliation\<lparr>ac_AwaitingExit := True\<rparr>))
       else if lease_holds None r then tx_return (no_reconciliation\<lparr>ac_Fenced := True\<rparr>)
       else reconcile_lifecycle a True (attempt_limit m) r)) w1 = Inr (rec, w')"
    using run unfolding RecoverAssignmentWithLimit_def reconcileAssignment_def by (elim tx_bindE)
  have r: "w1 = w" "r \<in> set (agent_runs w)" "run_id r = as_RunID a" using query_row_Inr [OF q] by auto
  have "\<not> superseded a r" using rest verdict(1) by (auto simp: no_reconciliation_def)
  then obtain held w2 where h: "stop_still_leased True None r w = Inr (held, w2)"
    and rest2: "(if held then tx_then (fenceExecutionTx (as_RunID a)) (tx_return (no_reconciliation\<lparr>ac_AwaitingExit := True\<rparr>))
       else if lease_holds None r then tx_return (no_reconciliation\<lparr>ac_Fenced := True\<rparr>)
       else reconcile_lifecycle a True (attempt_limit m) r) w2 = Inr (rec, w')"
    using rest r(1) by (auto elim!: tx_bindE)
  have "tx_within calm (stop_still_leased True None r)"
    unfolding stop_still_leased_def by (intro calm.within_if calm.within_bind calm_query calm.within_return)
  then have w2: "calm w w2" using h by (rule tx_withinD)
  have "tx_within (under run_history) (stop_still_leased True None r)"
    unfolding stop_still_leased_def by (intro history.within_if history.within_bind history.within_time_Now history.within_return)
  from tx_withinD [OF this h] db have db2: "db_ok w2" by (simp add: under_def)
  have "\<not> held" using rest2 verdict(2) by (auto simp: no_reconciliation_def elim!: tx_thenE)
  then have run2: "reconcile_lifecycle a True (attempt_limit m) r w2 = Inr (rec, w')" using rest2 by (simp add: lease_holds_def)
  have r2: "r \<in> set (agent_runs w2)" using r w2 by (simp add: calm_def)
  show ?thesis
    using run2 reconcile_terminal_settles [OF db2 r2 r(3)] reconcile_active_settles [OF db2] reconcile_queued_settles [OF r2 r(3)]
    by (auto simp: reconcile_lifecycle_def split: if_splits)
qed

end
