(* ===== verification/Routing.thy ===== *)
theory Routing
  imports Store
begin

text \<open>
  Which worker may run which job. The runtime service keeps the capabilities a worker advertised
  and decides in Go (\<^verbatim>\<open>workerCapabilitiesSupportRoute\<close>, \<^verbatim>\<open>service/runtime/capabilities.go\<close>);
  the repository's claim query decides the same question in SQL over the queued payload
  (\<^verbatim>\<open>claimRoutingFilterSQL\<close>, \<^verbatim>\<open>jobs.go\<close>) and looks at one candidate only, so a row the SQL
  lets through and the Go check refuses would block the queue behind it, and a row the SQL hides
  would wait for nothing. The main result is that the two agree.

  A payload is the JSON value of the column. The model of the SQL casts covers integer members,
  which is what \<^verbatim>\<open>json.Marshal\<close> writes for them.
\<close>

section \<open>Requirements and capabilities\<close>

record RoutingRequirements =
  rq_AgentID :: string
  rq_ModelProvider :: string
  rq_Model :: string
  rq_RequestedTools :: "string list"
  rq_SelectedTools :: "string list"
  rq_RequiredContextTokens :: int
  rq_MinimumWorkerMaxConcurrentRuns :: int
  rq_ExternalAgent :: bool
  rq_ExternalAgentCredentialRef :: string
  rq_RemoteEgressDecision :: bool
  rq_MinimumTeamProtocolVersion :: int

record RoutingModelCapability =
  mc_Provider :: string
  mc_Model :: string
  mc_MaxContextTokens :: int

record WorkerRoutingCapabilities =
  wc_Models :: "RoutingModelCapability list"
  wc_Tools :: "string list"
  wc_MaxConcurrentRuns :: int
  wc_ExternalAgentCredentialRefs :: "string list"
  wc_RemoteEgressDecisionVersion :: int
  wc_TeamProtocolVersion :: int

text \<open>A Go set is a list without repetitions.\<close>

record registeredModelCapability =
  rm_provider :: string
  rm_model :: string
  rm_maxContextTokens :: int
  rm_engine :: string

record registeredWorkerCapabilities =
  rw_models :: "registeredModelCapability list"
  rw_agentIDs :: "string list"
  rw_tools :: "string list"
  rw_externalAgentCredentialRefs :: "string list"
  rw_maxConcurrentRuns :: int
  rw_remoteEgressDecisionVersion :: int
  rw_teamProtocolVersion :: int

definition RunEgressDecisionVersion :: int where "RunEgressDecisionVersion = 3"

section \<open>The check in Go\<close>

definition routeNeedsEgressAwareWorker :: "RoutingRequirements \<Rightarrow> bool" where
  "routeNeedsEgressAwareWorker route \<longleftrightarrow>
     rq_RemoteEgressDecision route \<or> rq_ModelProvider route = ''openai_compatible'' \<or> rq_ExternalAgent route"

definition serves_model :: "RoutingRequirements \<Rightarrow> registeredModelCapability \<Rightarrow> bool" where
  "serves_model route m \<longleftrightarrow> rm_provider m = rq_ModelProvider route \<and> rm_model m = rq_Model route
     \<and> (rq_RequiredContextTokens route \<le> 0 \<or> rm_maxContextTokens m \<ge> rq_RequiredContextTokens route)"

definition serves_destination :: "registeredWorkerCapabilities \<Rightarrow> RoutingRequirements \<Rightarrow> bool" where
  "serves_destination caps route =
     (if rq_ExternalAgent route
      then rq_ExternalAgentCredentialRef route \<in> set (rw_externalAgentCredentialRefs caps)
           \<and> \<not> rq_RequiredContextTokens route > 0
      else list_ex (serves_model route) (rw_models caps))"

definition minimum_capacity :: "int \<Rightarrow> int" where
  "minimum_capacity n = (if n \<le> 0 then 1 else n)"

definition workerCapabilitiesSupportRoute ::
  "registeredWorkerCapabilities option \<Rightarrow> RoutingRequirements \<Rightarrow> bool" where
  "workerCapabilitiesSupportRoute capabilities route =
     (case capabilities of
        None \<Rightarrow> False
      | Some caps \<Rightarrow>
          if routeNeedsEgressAwareWorker route \<and> rw_remoteEgressDecisionVersion caps < RunEgressDecisionVersion then False
          else if rw_teamProtocolVersion caps < rq_MinimumTeamProtocolVersion route then False
          else if rq_AgentID route \<notin> set (rw_agentIDs caps) then False
          else if \<not> serves_destination caps route then False
          else if \<not> list_all (\<lambda>t. t \<in> set (rw_tools caps)) (rq_RequestedTools route) then False
          else if \<not> list_all (\<lambda>t. t \<in> set (rw_tools caps)) (rq_SelectedTools route) then False
          else rw_maxConcurrentRuns caps \<ge> minimum_capacity (rq_MinimumWorkerMaxConcurrentRuns route))"

definition repositoryRoutingCapabilities ::
  "registeredWorkerCapabilities option \<Rightarrow> WorkerRoutingCapabilities" where
  "repositoryRoutingCapabilities capabilities =
     (case capabilities of
        None \<Rightarrow> \<lparr>wc_Models = [], wc_Tools = [], wc_MaxConcurrentRuns = 0, wc_ExternalAgentCredentialRefs = [],
                 wc_RemoteEgressDecisionVersion = 0, wc_TeamProtocolVersion = 0\<rparr>
      | Some caps \<Rightarrow>
          \<lparr>wc_Models = map (\<lambda>m. \<lparr>mc_Provider = rm_provider m, mc_Model = rm_model m,
                                mc_MaxContextTokens = rm_maxContextTokens m\<rparr>) (rw_models caps),
           wc_Tools = sort (rw_tools caps), wc_MaxConcurrentRuns = rw_maxConcurrentRuns caps,
           wc_ExternalAgentCredentialRefs = sort (rw_externalAgentCredentialRefs caps),
           wc_RemoteEgressDecisionVersion = rw_remoteEgressDecisionVersion caps,
           wc_TeamProtocolVersion = rw_teamProtocolVersion caps\<rparr>)"

section \<open>Advertised capabilities\<close>

datatype AgentId = AGENT_ID_GENERAL_ASSISTANT | AGENT_ID_OTHER int
datatype ModelProvider = MODEL_PROVIDER_OLLAMA | MODEL_PROVIDER_OPENAI_COMPATIBLE | MODEL_PROVIDER_OTHER int

record ModelCapability =
  pm_Provider :: ModelProvider
  pm_Model :: string
  pm_MaxContextTokens :: int
  pm_Engine :: string

record DiscoveredTool =
  dt_ServerName :: string
  dt_ToolName :: string

record WorkerCapabilities =
  pc_Models :: "ModelCapability list"
  pc_AgentIds :: "AgentId list"
  pc_Tools :: "DiscoveredTool list"
  pc_MaxConcurrentRuns :: int
  pc_ExternalAgentCredentialRefs :: "string list"
  pc_RemoteEgressDecisionVersion :: int
  pc_TeamProtocolVersion :: int

definition maxWorkerConcurrentRuns :: int where "maxWorkerConcurrentRuns = 128"

definition agentIDName :: "AgentId \<Rightarrow> string" where
  "agentIDName a = (case a of AGENT_ID_GENERAL_ASSISTANT \<Rightarrow> ''general_assistant'' | AGENT_ID_OTHER _ \<Rightarrow> '''')"

definition modelProviderName :: "ModelProvider \<Rightarrow> string" where
  "modelProviderName p = (case p of MODEL_PROVIDER_OLLAMA \<Rightarrow> ''ollama''
     | MODEL_PROVIDER_OPENAI_COMPATIBLE \<Rightarrow> ''openai_compatible'' | MODEL_PROVIDER_OTHER _ \<Rightarrow> '''')"

text \<open>Error texts leave out the offending value. \<open>engine_ok\<close> is \<^verbatim>\<open>egress.ValidateEngineLabel\<close>, whose notion of printable is a Unicode table.\<close>

fun decode_models ::
  "(string \<Rightarrow> bool) \<Rightarrow> (string \<times> string) list \<Rightarrow> ModelCapability list \<Rightarrow> registeredModelCapability list result" where
  "decode_models engine_ok seen [] = Inr []"
| "decode_models engine_ok seen (m # ms) =
     (let provider = modelProviderName (pm_Provider m); model = TrimSpace (pm_Model m) in
      if provider = '''' then Inl (ErrText ''model provider is unsupported'')
      else if model = '''' then Inl (ErrText ''model name is required'')
      else if pm_MaxContextTokens m < 0 then Inl (ErrText ''max_context_tokens must be non-negative'')
      else if pm_Engine m \<noteq> '''' \<and> \<not> engine_ok (pm_Engine m) then Inl (ErrText ''model capability engine label is invalid'')
      else if (provider, model) \<in> set seen then Inl (ErrText ''model capability is duplicated'')
      else case decode_models engine_ok ((provider, model) # seen) ms of
             Inl e \<Rightarrow> Inl e
           | Inr rest \<Rightarrow> Inr (\<lparr>rm_provider = provider, rm_model = model,
                              rm_maxContextTokens = pm_MaxContextTokens m, rm_engine = pm_Engine m\<rparr> # rest))"

fun decodeDiscoveredTools :: "(string \<times> string) list \<Rightarrow> DiscoveredTool list \<Rightarrow> DiscoveredTool list result" where
  "decodeDiscoveredTools seen [] = Inr []"
| "decodeDiscoveredTools seen (t # ts) =
     (if dt_ServerName t = '''' \<or> dt_ServerName t \<noteq> TrimSpace (dt_ServerName t)
         \<or> dt_ToolName t = '''' \<or> dt_ToolName t \<noteq> TrimSpace (dt_ToolName t)
      then Inl (ErrText ''tool identity and schema are required'')
      else if (dt_ServerName t, dt_ToolName t) \<in> set seen then Inl (ErrText ''duplicate discovered tool'')
      else case decodeDiscoveredTools ((dt_ServerName t, dt_ToolName t) # seen) ts of
             Inl e \<Rightarrow> Inl e | Inr rest \<Rightarrow> Inr (t # rest))"

fun decode_refs :: "string list \<Rightarrow> string list \<Rightarrow> string list result" where
  "decode_refs seen [] = Inr []"
| "decode_refs seen (x # xs) =
     (if TrimSpace x = '''' then Inl (ErrText ''external-agent credential ref is required'')
      else if TrimSpace x \<noteq> x then Inl (ErrText ''external-agent credential ref is not normalized'')
      else if x \<in> set seen then Inl (ErrText ''external-agent credential ref is duplicated'')
      else case decode_refs (x # seen) xs of Inl e \<Rightarrow> Inl e | Inr rest \<Rightarrow> Inr (x # rest))"

definition decodeWorkerCapabilities ::
  "(string \<Rightarrow> bool) \<Rightarrow> WorkerCapabilities option \<Rightarrow> (registeredWorkerCapabilities \<times> DiscoveredTool list) result" where
  "decodeWorkerCapabilities engine_ok snapshot =
     (case snapshot of
        None \<Rightarrow> Inl (ErrText ''capabilities are required'')
      | Some s \<Rightarrow>
          if pc_MaxConcurrentRuns s < 1 \<or> pc_MaxConcurrentRuns s > maxWorkerConcurrentRuns
          then Inl (ErrText ''max_concurrent_runs must be between 1 and 128'')
          else if pc_AgentIds s = [] then Inl (ErrText ''at least one agent_id is required'')
          else if list_ex (\<lambda>a. agentIDName a = '''') (pc_AgentIds s) then Inl (ErrText ''agent_id is unsupported'')
          else if pc_Models s = [] \<and> pc_ExternalAgentCredentialRefs s = []
          then Inl (ErrText ''at least one model or external-agent credential ref is required'')
          else case decode_models engine_ok [] (pc_Models s) of
                 Inl e \<Rightarrow> Inl e
               | Inr models \<Rightarrow>
                   (case decodeDiscoveredTools [] (pc_Tools s) of
                      Inl e \<Rightarrow> Inl e
                    | Inr discovered \<Rightarrow>
                        (case decode_refs [] (pc_ExternalAgentCredentialRefs s) of
                           Inl e \<Rightarrow> Inl e
                         | Inr refs \<Rightarrow>
                             Inr (\<lparr>rw_models = sort_key (\<lambda>m. (rm_provider m, rm_model m)) models,
                                   rw_agentIDs = remdups (map agentIDName (pc_AgentIds s)),
                                   rw_tools = remdups (map (\<lambda>t. dt_ServerName t @ ''/'' @ dt_ToolName t) discovered),
                                   rw_externalAgentCredentialRefs = refs,
                                   rw_maxConcurrentRuns = pc_MaxConcurrentRuns s,
                                   rw_remoteEgressDecisionVersion = pc_RemoteEgressDecisionVersion s,
                                   rw_teamProtocolVersion = pc_TeamProtocolVersion s\<rparr>, discovered))))"

section \<open>The queued payload\<close>

text \<open>
  The members the claim looks into are decoded; the frozen snapshots it only carries stay JSON.
  A pointer member is absent or null, or an object.
\<close>

record queuedJobPayload =
  qp_userText :: string
  qp_requestedTools :: "string list"
  qp_requiredContextTokens :: int
  qp_minimumWorkerMaxConcurrentRuns :: int
  qp_minimumTeamProtocolVersion :: int
  qp_skills :: "json option"
  qp_externalAgent :: "json option"
  qp_egressDecision :: "json option"
  qp_selectedTools :: "string list"
  qp_pinnedPersona :: "json option"
  qp_pinnedProfile :: "json option"
  qp_memorySnapshotFingerprint :: string
  qp_agentProfile :: "json option"
  qp_enforceSelectedTools :: bool
  qp_skipAutomaticRecall :: bool

definition decode_pointer :: "json \<Rightarrow> json option option" where
  "decode_pointer j = (case j of JObj _ \<Rightarrow> Some (Some j) | JNull \<Rightarrow> Some None | _ \<Rightarrow> None)"

definition decode_slice :: "json \<Rightarrow> json option option" where
  "decode_slice j = (case j of JArr _ \<Rightarrow> Some (Some j) | JNull \<Rightarrow> Some None | _ \<Rightarrow> None)"

definition decode_payload :: "json \<Rightarrow> queuedJobPayload option" where
  "decode_payload j =
     (case (decode_field decode_string '''' ''userText'' j, decode_field decode_strings [] ''requestedTools'' j,
            decode_field decode_int 0 ''requiredContextTokens'' j,
            decode_field decode_int 0 ''minimumWorkerMaxConcurrentRuns'' j,
            decode_field decode_int 0 ''minimumTeamProtocolVersion'' j,
            decode_field decode_slice None ''skills'' j, decode_field decode_pointer None ''externalAgent'' j,
            decode_field decode_pointer None ''egressDecision'' j, decode_field decode_strings [] ''selectedTools'' j,
            decode_field decode_pointer None ''pinnedPersona'' j, decode_field decode_pointer None ''pinnedProfile'' j,
            decode_field decode_string '''' ''memorySnapshotFingerprint'' j,
            decode_field decode_pointer None ''agentProfile'' j, decode_field decode_bool False ''enforceSelectedTools'' j,
            decode_field decode_bool False ''skipAutomaticRecall'' j) of
        (Some ut, Some rt, Some ct, Some mw, Some mt, Some sk, Some ea, Some ed, Some st, Some pp, Some pf,
         Some fp, Some ap, Some en, Some sr) \<Rightarrow>
          Some \<lparr>qp_userText = ut, qp_requestedTools = rt, qp_requiredContextTokens = ct,
            qp_minimumWorkerMaxConcurrentRuns = mw, qp_minimumTeamProtocolVersion = mt, qp_skills = sk,
            qp_externalAgent = ea, qp_egressDecision = ed, qp_selectedTools = st, qp_pinnedPersona = pp,
            qp_pinnedProfile = pf, qp_memorySnapshotFingerprint = fp, qp_agentProfile = ap,
            qp_enforceSelectedTools = en, qp_skipAutomaticRecall = sr\<rparr>
      | _ \<Rightarrow> None)"

definition credential_ref :: "json option \<Rightarrow> string" where
  "credential_ref agent = (case agent of
     None \<Rightarrow> ''''
   | Some a \<Rightarrow> (case decode_field decode_string '''' ''credentialRef'' a of None \<Rightarrow> '''' | Some s \<Rightarrow> s))"

text \<open>The requirements of a queued job, as the claim and the routing sweep build them.\<close>

definition payload_requirements :: "string \<Rightarrow> string \<Rightarrow> string \<Rightarrow> queuedJobPayload \<Rightarrow> RoutingRequirements" where
  "payload_requirements agentID provider model p = \<lparr>rq_AgentID = agentID, rq_ModelProvider = provider, rq_Model = model,
     rq_RequestedTools = qp_requestedTools p, rq_SelectedTools = qp_selectedTools p,
     rq_RequiredContextTokens = qp_requiredContextTokens p,
     rq_MinimumWorkerMaxConcurrentRuns = qp_minimumWorkerMaxConcurrentRuns p,
     rq_ExternalAgent = (qp_externalAgent p \<noteq> None),
     rq_ExternalAgentCredentialRef = credential_ref (qp_externalAgent p),
     rq_RemoteEgressDecision = (qp_egressDecision p \<noteq> None),
     rq_MinimumTeamProtocolVersion = qp_minimumTeamProtocolVersion p\<rparr>"

section \<open>The filter in SQL\<close>

definition is_object :: "json option \<Rightarrow> bool" where
  "is_object j \<longleftrightarrow> (case j of Some (JObj _) \<Rightarrow> True | _ \<Rightarrow> False)"

definition sql_int :: "string \<Rightarrow> json \<Rightarrow> int" where
  "sql_int k payload = (case json_extract [k] payload of Some (JNum n) \<Rightarrow> n | _ \<Rightarrow> 0)"

definition json_each :: "string \<Rightarrow> json \<Rightarrow> json list" where
  "json_each k payload = (case json_extract [k] payload of
     None \<Rightarrow> [] | Some (JArr xs) \<Rightarrow> xs | Some (JObj kvs) \<Rightarrow> map snd kvs | Some v \<Rightarrow> [v])"

text \<open>\<^verbatim>\<open>value NOT IN (\<dots>)\<close>, which is NULL, hence not true, for a JSON null.\<close>

definition not_in :: "string list \<Rightarrow> json \<Rightarrow> bool" where
  "not_in tools v \<longleftrightarrow> (case v of JNull \<Rightarrow> False | JStr s \<Rightarrow> s \<notin> set tools | _ \<Rightarrow> True)"

definition destination_filter :: "WorkerRoutingCapabilities \<Rightarrow> string \<Rightarrow> string \<Rightarrow> json \<Rightarrow> bool" where
  "destination_filter caps provider model payload \<longleftrightarrow>
     (let egressAware = wc_RemoteEgressDecisionVersion caps \<ge> RunEgressDecisionVersion;
          external = is_object (json_get ''externalAgent'' payload) in
      (egressAware \<and> external
         \<and> (case json_extract [''externalAgent'', ''credentialRef''] payload of
              Some (JStr ref) \<Rightarrow> ref \<in> set (wc_ExternalAgentCredentialRefs caps) | _ \<Rightarrow> False)
         \<and> sql_int ''requiredContextTokens'' payload \<le> 0)
      \<or> list_ex (\<lambda>m. (mc_Provider m = ''openai_compatible'' \<longrightarrow> egressAware) \<and> \<not> external
           \<and> provider = mc_Provider m \<and> model = mc_Model m
           \<and> sql_int ''requiredContextTokens'' payload \<le> mc_MaxContextTokens m) (wc_Models caps))"

definition tool_filter :: "string list \<Rightarrow> string \<Rightarrow> json \<Rightarrow> bool" where
  "tool_filter tools k payload =
     (if tools = [] then json_each k payload = []
      else \<not> list_ex (not_in tools) (json_each k payload))"

definition claimRoutingFilterSQL ::
  "WorkerRoutingCapabilities option \<Rightarrow> string \<Rightarrow> string \<Rightarrow> json \<Rightarrow> bool" where
  "claimRoutingFilterSQL capabilities provider model payload =
     (case capabilities of
        None \<Rightarrow> True
      | Some caps \<Rightarrow>
          destination_filter caps provider model payload
          \<and> max (sql_int ''minimumWorkerMaxConcurrentRuns'' payload) 1 \<le> wc_MaxConcurrentRuns caps
          \<and> sql_int ''minimumTeamProtocolVersion'' payload \<le> wc_TeamProtocolVersion caps
          \<and> (wc_RemoteEgressDecisionVersion caps < RunEgressDecisionVersion \<longrightarrow>
               \<not> is_object (json_get ''egressDecision'' payload))
          \<and> tool_filter (wc_Tools caps) ''requestedTools'' payload
          \<and> tool_filter (wc_Tools caps) ''selectedTools'' payload)"

section \<open>The two checks agree\<close>

lemma decode_field_iff:
  "decode_field dec0 d k j = Some x \<longleftrightarrow>
     (case json_extract [k] j of None \<Rightarrow> x = d | Some v \<Rightarrow> dec0 v = Some x)"
  by (auto simp: decode_field_def split: option.splits)

lemma sql_int_decode: "decode_field decode_int 0 k j = Some n \<Longrightarrow> sql_int k j = n"
  unfolding decode_field_iff sql_int_def by (auto simp: decode_int_def split: option.splits json.splits if_splits)

lemma all_some_strings:
  "all_some (map decode_string xs) = Some ts \<Longrightarrow> list_all (\<lambda>v. v \<noteq> JNull) xs \<Longrightarrow> xs = map JStr ts"
proof (induction xs arbitrary: ts)
  case (Cons x xs)
  then show ?case by (cases x) (auto simp: decode_string_def)
qed simp

lemma json_each_decode:
  assumes "decode_field decode_strings [] k j = Some ts" "list_all (\<lambda>v. v \<noteq> JNull) (json_each k j)"
  shows "json_each k j = map JStr ts"
  using assms all_some_strings unfolding decode_field_iff json_each_def
  by (auto simp: decode_strings_def split: option.splits json.splits if_splits)

lemma tool_filter_decode:
  assumes "decode_field decode_strings [] k j = Some ts" "list_all (\<lambda>v. v \<noteq> JNull) (json_each k j)"
  shows "tool_filter (sort tools) k j \<longleftrightarrow> list_all (\<lambda>t. t \<in> set tools) ts"
  unfolding tool_filter_def json_each_decode [OF assms]
  by (cases tools; cases ts) (auto simp: list_all_iff list_ex_iff not_in_def set_insort_key)

lemma is_object_decode:
  "decode_field decode_pointer None k j = Some x \<Longrightarrow> is_object (json_get k j) \<longleftrightarrow> x \<noteq> None"
  "decode_field decode_pointer None k j = Some (Some v) \<Longrightarrow> json_get k j = Some v"
  by (cases "json_get k j"; auto simp: decode_field_def is_object_def decode_pointer_def
      split: option.splits json.splits if_splits)+

text \<open>Members of a frozen external agent have the types the code writes.\<close>

definition plain_payload :: "json \<Rightarrow> bool" where
  "plain_payload j \<longleftrightarrow> list_all (\<lambda>v. v \<noteq> JNull) (json_each ''requestedTools'' j)
     \<and> list_all (\<lambda>v. v \<noteq> JNull) (json_each ''selectedTools'' j)
     \<and> (case json_extract [''externalAgent'', ''credentialRef''] j of
          None \<Rightarrow> True | Some (JStr _) \<Rightarrow> True | _ \<Rightarrow> False)"

lemma credential_ref_decode:
  assumes "decode_field decode_pointer None ''externalAgent'' j = Some (Some a)" "plain_payload j" "'''' \<notin> set refs"
  shows "(case json_extract [''externalAgent'', ''credentialRef''] j of Some (JStr ref) \<Rightarrow> ref \<in> set refs | _ \<Rightarrow> False)
    \<longleftrightarrow> credential_ref (Some a) \<in> set refs"
proof -
  have a: "json_extract [''externalAgent'', ''credentialRef''] j = json_extract [''credentialRef''] a"
    using is_object_decode(2) [OF assms(1)] by simp
  show ?thesis
  proof (cases "json_extract [''credentialRef''] a")
    case None
    then have "credential_ref (Some a) = ''''"
      by (auto simp: credential_ref_def decode_field_def split: option.splits if_splits)
    then show ?thesis using None a assms(3) by simp
  next
    case (Some v)
    then obtain s where v: "v = JStr s" using assms(2) a by (auto simp: plain_payload_def split: json.splits)
    then have "credential_ref (Some a) = s"
      using Some by (auto simp: credential_ref_def decode_field_def decode_string_def split: option.splits if_splits)
    then show ?thesis using Some v a by simp
  qed
qed

lemma decode_payload_fields:
  assumes "decode_payload j = Some p"
  shows "decode_field decode_strings [] ''requestedTools'' j = Some (qp_requestedTools p)"
    "decode_field decode_strings [] ''selectedTools'' j = Some (qp_selectedTools p)"
    "decode_field decode_int 0 ''requiredContextTokens'' j = Some (qp_requiredContextTokens p)"
    "decode_field decode_int 0 ''minimumWorkerMaxConcurrentRuns'' j = Some (qp_minimumWorkerMaxConcurrentRuns p)"
    "decode_field decode_int 0 ''minimumTeamProtocolVersion'' j = Some (qp_minimumTeamProtocolVersion p)"
    "decode_field decode_pointer None ''externalAgent'' j = Some (qp_externalAgent p)"
    "decode_field decode_pointer None ''egressDecision'' j = Some (qp_egressDecision p)"
  using assms unfolding decode_payload_def by (auto split: option.splits)

text \<open>What decoding guarantees of a registered worker.\<close>

definition registered_ok :: "registeredWorkerCapabilities \<Rightarrow> bool" where
  "registered_ok caps \<longleftrightarrow> list_all (\<lambda>m. 0 \<le> rm_maxContextTokens m) (rw_models caps)
     \<and> '''' \<notin> set (rw_externalAgentCredentialRefs caps) \<and> distinct (rw_externalAgentCredentialRefs caps)
     \<and> distinct (map (\<lambda>m. (rm_provider m, rm_model m)) (rw_models caps))
     \<and> rw_agentIDs caps \<noteq> [] \<and> 1 \<le> rw_maxConcurrentRuns caps \<and> rw_maxConcurrentRuns caps \<le> maxWorkerConcurrentRuns"

lemma decode_models_ok:
  "decode_models e seen ms = Inr xs \<Longrightarrow> list_all (\<lambda>m. 0 \<le> rm_maxContextTokens m) xs
     \<and> distinct (map (\<lambda>m. (rm_provider m, rm_model m)) xs)
     \<and> set (map (\<lambda>m. (rm_provider m, rm_model m)) xs) \<inter> set seen = {}"
proof (induction ms arbitrary: seen xs)
  case (Cons m ms)
  then obtain ys where ys: "decode_models e ((modelProviderName (pm_Provider m), TrimSpace (pm_Model m)) # seen) ms = Inr ys"
    and xs: "xs = \<lparr>rm_provider = modelProviderName (pm_Provider m), rm_model = TrimSpace (pm_Model m),
      rm_maxContextTokens = pm_MaxContextTokens m, rm_engine = pm_Engine m\<rparr> # ys"
    and ok: "0 \<le> pm_MaxContextTokens m" "(modelProviderName (pm_Provider m), TrimSpace (pm_Model m)) \<notin> set seen"
    by (auto simp: Let_def split: if_splits sum.splits)
  show ?case using Cons.IH [OF ys] ok by (simp add: xs)
qed simp

lemma decode_refs_ok: "decode_refs seen xs = Inr ys \<Longrightarrow> ys = xs \<and> '''' \<notin> set xs \<and> distinct xs \<and> set xs \<inter> set seen = {}"
proof (induction xs arbitrary: seen ys)
  case (Cons x xs)
  then obtain zs where zs: "decode_refs (x # seen) xs = Inr zs" and ys: "ys = x # zs"
    and ok: "TrimSpace x = x" "x \<noteq> ''''" "x \<notin> set seen"
    by (auto split: if_splits sum.splits)
  show ?case using Cons.IH [OF zs] ok ys by auto
qed simp

lemma decodeWorkerCapabilities_ok:
  assumes "decodeWorkerCapabilities engine_ok snapshot = Inr (caps, discovered)"
  shows "registered_ok caps"
proof -
  obtain s where s: "snapshot = Some s" using assms by (cases snapshot) (simp_all add: decodeWorkerCapabilities_def)
  obtain models refs where m: "decode_models engine_ok [] (pc_Models s) = Inr models"
    and r: "decode_refs [] (pc_ExternalAgentCredentialRefs s) = Inr refs"
    and n: "1 \<le> pc_MaxConcurrentRuns s" "pc_MaxConcurrentRuns s \<le> maxWorkerConcurrentRuns" "pc_AgentIds s \<noteq> []"
    and c: "rw_models caps = sort_key (\<lambda>m. (rm_provider m, rm_model m)) models"
      "rw_externalAgentCredentialRefs caps = refs" "rw_maxConcurrentRuns caps = pc_MaxConcurrentRuns s"
      "rw_agentIDs caps = remdups (map agentIDName (pc_AgentIds s))"
    using assms unfolding s decodeWorkerCapabilities_def option.case
    by (auto split: if_splits sum.splits)
  have "distinct (map (\<lambda>m. (rm_provider m, rm_model m)) (rw_models caps))"
    using decode_models_ok [OF m] c(1) by (simp add: distinct_map)
  then show ?thesis
    using decode_models_ok [OF m] decode_refs_ok [OF r] n c by (simp add: registered_ok_def list_all_iff)
qed

lemma repository_capabilities [simp]:
  "wc_Models (repositoryRoutingCapabilities (Some caps)) = map (\<lambda>m. \<lparr>mc_Provider = rm_provider m,
     mc_Model = rm_model m, mc_MaxContextTokens = rm_maxContextTokens m\<rparr>) (rw_models caps)"
  "wc_Tools (repositoryRoutingCapabilities (Some caps)) = sort (rw_tools caps)"
  "wc_MaxConcurrentRuns (repositoryRoutingCapabilities (Some caps)) = rw_maxConcurrentRuns caps"
  "set (wc_ExternalAgentCredentialRefs (repositoryRoutingCapabilities (Some caps))) = set (rw_externalAgentCredentialRefs caps)"
  "wc_RemoteEgressDecisionVersion (repositoryRoutingCapabilities (Some caps)) = rw_remoteEgressDecisionVersion caps"
  "wc_TeamProtocolVersion (repositoryRoutingCapabilities (Some caps)) = rw_teamProtocolVersion caps"
  by (simp_all add: repositoryRoutingCapabilities_def)

lemma destination_agrees:
  assumes ok: "registered_ok caps" and p: "decode_payload payload = Some p" and plain: "plain_payload payload"
  shows "destination_filter (repositoryRoutingCapabilities (Some caps)) provider model payload \<longleftrightarrow>
    serves_destination caps (payload_requirements agentID provider model p)
    \<and> ((qp_externalAgent p \<noteq> None \<or> provider = ''openai_compatible'') \<longrightarrow>
         RunEgressDecisionVersion \<le> rw_remoteEgressDecisionVersion caps)"
proof -
  note f = decode_payload_fields [OF p]
  have ctx: "sql_int ''requiredContextTokens'' payload = qp_requiredContextTokens p" by (rule sql_int_decode [OF f(3)])
  have ext: "is_object (json_get ''externalAgent'' payload) \<longleftrightarrow> qp_externalAgent p \<noteq> None" by (rule is_object_decode(1) [OF f(6)])
  have cap: "0 \<le> rm_maxContextTokens m" if "m \<in> set (rw_models caps)" for m
    using ok that by (simp add: registered_ok_def list_all_iff)
  show ?thesis
  proof (cases "qp_externalAgent p")
    case None
    have "list_ex (\<lambda>m. (rm_provider m = ''openai_compatible'' \<longrightarrow> RunEgressDecisionVersion \<le> rw_remoteEgressDecisionVersion caps)
        \<and> provider = rm_provider m \<and> model = rm_model m \<and> qp_requiredContextTokens p \<le> rm_maxContextTokens m) (rw_models caps)
      \<longleftrightarrow> list_ex (serves_model (payload_requirements agentID provider model p)) (rw_models caps)
        \<and> (provider = ''openai_compatible'' \<longrightarrow> RunEgressDecisionVersion \<le> rw_remoteEgressDecisionVersion caps)"
      using cap by (fastforce simp: list_ex_iff serves_model_def payload_requirements_def)
    then show ?thesis
      using None by (simp add: destination_filter_def Let_def ext ctx
          serves_destination_def payload_requirements_def list_ex_iff)
  next
    case (Some a)
    have "'''' \<notin> set (rw_externalAgentCredentialRefs caps)" using ok by (simp add: registered_ok_def)
    from credential_ref_decode [OF _ plain this, of a] f(6) Some
    have "(case json_extract [''externalAgent'', ''credentialRef''] payload of
        Some (JStr ref) \<Rightarrow> ref \<in> set (rw_externalAgentCredentialRefs caps) | _ \<Rightarrow> False)
      \<longleftrightarrow> credential_ref (qp_externalAgent p) \<in> set (rw_externalAgentCredentialRefs caps)" by simp
    then show ?thesis
      using Some unfolding destination_filter_def repository_capabilities(4)
      by (simp add: Let_def ext ctx serves_destination_def payload_requirements_def list_ex_iff not_less
          del: json_extract.simps) blast
  qed
qed

lemma routing_agrees:
  assumes ok: "registered_ok caps" and p: "decode_payload payload = Some p" and plain: "plain_payload payload"
    and agent: "agentID \<in> set (rw_agentIDs caps)"
  shows "claimRoutingFilterSQL (Some (repositoryRoutingCapabilities (Some caps))) provider model payload \<longleftrightarrow>
    workerCapabilitiesSupportRoute (Some caps) (payload_requirements agentID provider model p)"
proof -
  note f = decode_payload_fields [OF p]
  note dest = destination_agrees [OF ok p plain, of provider model agentID]
  have tools: "tool_filter (wc_Tools (repositoryRoutingCapabilities (Some caps))) ''requestedTools'' payload
      \<longleftrightarrow> list_all (\<lambda>t. t \<in> set (rw_tools caps)) (qp_requestedTools p)"
    "tool_filter (wc_Tools (repositoryRoutingCapabilities (Some caps))) ''selectedTools'' payload
      \<longleftrightarrow> list_all (\<lambda>t. t \<in> set (rw_tools caps)) (qp_selectedTools p)"
    using tool_filter_decode [OF f(1)] tool_filter_decode [OF f(2)] plain
    by (simp_all add: plain_payload_def)
  have ints: "max (sql_int ''minimumWorkerMaxConcurrentRuns'' payload) 1 = minimum_capacity (qp_minimumWorkerMaxConcurrentRuns p)"
    "sql_int ''minimumTeamProtocolVersion'' payload = qp_minimumTeamProtocolVersion p"
    using sql_int_decode [OF f(4)] sql_int_decode [OF f(5)] by (simp_all add: minimum_capacity_def)
  show ?thesis
    using agent is_object_decode(1) [OF f(7)]
    unfolding claimRoutingFilterSQL_def option.case dest tools ints
    by (simp add: workerCapabilitiesSupportRoute_def routeNeedsEgressAwareWorker_def payload_requirements_def) (auto simp: not_le)
qed

end
