(* ===== verification/QueueWait.thy ===== *)
theory QueueWait
  imports TransitionEffects
begin

text \<open>
  Queue truth and queue bounds (\<^verbatim>\<open>queue_wait.go\<close>): the durable clock of a waiting run, the
  observer that records whether any worker could serve it, and the bounded outcome of a run that
  waited too long.

  The lemmas show that the observer writes only when its observation differs from the stored
  one, that expiring touches only a run that is still queued with a pending job, and that the
  reason a terminal run carries is the one the bound asserted.
\<close>

section \<open>The clock\<close>

record QueueWaitClock =
  qc_Reason :: string
  qc_WaitedNanos :: int
  qc_QueuedSinceNanos :: "int option"
  qc_UnroutableSinceNanos :: "int option"

definition TotalWaitedNanos :: "QueueWaitClock \<Rightarrow> int \<Rightarrow> int" where
  "TotalWaitedNanos c nowNanos =
     (case qc_QueuedSinceNanos c of
        Some since \<Rightarrow> if nowNanos > since then wrap64 (qc_WaitedNanos c + wrap64 (nowNanos - since))
                      else qc_WaitedNanos c
      | None \<Rightarrow> qc_WaitedNanos c)"

definition UnroutableForNanos :: "QueueWaitClock \<Rightarrow> int \<Rightarrow> int" where
  "UnroutableForNanos c nowNanos =
     (case qc_UnroutableSinceNanos c of
        None \<Rightarrow> 0
      | Some since \<Rightarrow> if nowNanos \<le> since then 0 else wrap64 (nowNanos - since))"

section \<open>Observing\<close>

definition queuedPendingWaitReasonTx :: "string \<Rightarrow> string wtx" where
  "queuedPendingWaitReasonTx rid =
     tx_bind (query_opt (\<lambda>w. map run_queue_wait_reason (filter (\<lambda>r. run_id r = rid \<and> run_status r = ''queued''
         \<and> list_ex (\<lambda>j. job_run_id j = run_id r \<and> job_status j = ''pending'') (jobs w)) (agent_runs w)))) (\<lambda>found.
     case found of None \<Rightarrow> tx_fail ErrQueueWaitNotApplicable | Some reason \<Rightarrow> tx_return reason)"

definition observeTransition :: "string \<Rightarrow> string \<Rightarrow> int \<Rightarrow> runTransition" where
  "observeTransition rid reason unroutableAtNanos = zero_transition\<lparr>rt_runID := rid,
     rt_expectedVersion := unresolvedStateVersion, rt_transactionLocal := True,
     rt_allowedFrom := [lifecycleQueued], rt_to := lifecycleQueued, rt_reason := ReasonNone,
     rt_queueWaitReason := reason, rt_rejection := Some ErrQueueWaitNotApplicable,
     rt_extraSet := (\<lambda>_ r. r\<lparr>run_queue_unroutable_since_ns :=
        (if reason = QueueWaitNoCompatibleWorker
         then coalesce (run_queue_unroutable_since_ns r) unroutableAtNanos else None)\<rparr>),
     rt_eventPayload := [(''runId'', JStr rid)]\<rparr>"

text \<open>The result is the committed transition, or nothing when there was nothing to say.\<close>

definition ObserveQueuedRunRouting :: "string \<Rightarrow> string \<Rightarrow> int \<Rightarrow> RunTransitionResult option wtx" where
  "ObserveQueuedRunRouting rid reason unroutableAtNanos =
     (if reason \<noteq> QueueWaitNone \<and> reason \<noteq> QueueWaitNoCompatibleWorker then tx_fail ErrUnsupportedQueueOutcome
      else (\<lambda>w.
        case queuedPendingWaitReasonTx rid w of
          Inl e \<Rightarrow> if e = ErrQueueWaitNotApplicable then Inr (None, w) else Inl e
        | Inr (stored, w1) \<Rightarrow>
            if stored = reason then Inr (None, w1)
            else tx_bind (applyRunTransitionTx (observeTransition rid reason unroutableAtNanos) no_subsidiary)
                   (\<lambda>result. tx_return (Some result)) w1))"

section \<open>Expiring\<close>

record ExpireQueuedRunInput =
  eq_RunID :: string
  eq_Policy :: string
  eq_Code :: string

definition queue_cancel_input :: "string \<Rightarrow> Cancellation \<Rightarrow> string \<Rightarrow> CancelRunInput" where
  "queue_cancel_input rid cancellation reason = \<lparr>xri_RunID = rid, xri_AssistantMessageID = '''',
     xri_ExpectedStateVersion = 0, xri_Cancellation = cancellation, xri_resolveVersionInTx = True,
     xri_queueWaitReason = reason\<rparr>"

definition queue_fail_input :: "string \<Rightarrow> Failure \<Rightarrow> string \<Rightarrow> FailRunInput" where
  "queue_fail_input rid failure reason = \<lparr>fri_RunID = rid, fri_AssistantMessageID = '''',
     fri_ExpectedStateVersion = 0, fri_Failure = failure, fri_PreserveExecution = False,
     fri_leaveExecutionUntouched = False, fri_allowedFrom = [lifecycleQueued],
     fri_resolveVersionInTx = True, fri_queueWaitReason = reason\<rparr>"

definition terminal_queue_reason :: "string \<Rightarrow> string" where
  "terminal_queue_reason code =
     (if code = CodeQueueWaitExpired then QueueWaitQueueTimeout else QueueWaitNoCompatibleWorker)"

definition ExpireQueuedRun :: "ExpireQueuedRunInput \<Rightarrow> RunTransitionResult wtx" where
  "ExpireQueuedRun input =
     (if \<not> KnownQueueTimeoutPolicy (eq_Policy input) then tx_fail ErrUnsupportedQueueOutcome
      else if eq_Code input \<noteq> CodeQueueWaitExpired \<and> eq_Code input \<noteq> CodeQueueNoCompatibleWorker
      then tx_fail ErrUnsupportedQueueOutcome
      else
        tx_bind (queuedPendingWaitReasonTx (eq_RunID input)) (\<lambda>_.
        let terminalReason = terminal_queue_reason (eq_Code input) in
        if eq_Policy input = QueueTimeoutPolicyCancel then
          tx_bind (tx_lift (QueueTimeoutCancellation (eq_Code input))) (\<lambda>cancellation.
          cancelRunTx (queue_cancel_input (eq_RunID input) cancellation terminalReason))
        else
          tx_bind (tx_lift (QueueTimeoutFailure (eq_Code input))) (\<lambda>failure.
          failRunTx (queue_fail_input (eq_RunID input) failure terminalReason))))"

section \<open>Within the store relations\<close>

lemma transition_ok_observe [simp]: "transition_ok (observeTransition rid reason n)"
  by (simp add: transition_ok_def lifecycle_edge_def observeTransition_def zero_transition_def same_state_def same_identity_def)

lemma queuedPendingWaitReasonTx_same: "queuedPendingWaitReasonTx rid w = Inr (x, w') \<Longrightarrow> w' = w"
  by (auto simp: queuedPendingWaitReasonTx_def query_opt_def tx_simps split: option.splits list.splits)

context transition_relation
begin

lemma within_queuedPendingWaitReasonTx: "tx_within R (queuedPendingWaitReasonTx rid)"
  unfolding queuedPendingWaitReasonTx_def
  by (intro within_bind within_query_opt within_case_option within_fail within_return)

lemma within_ObserveQueuedRunRouting: "tx_within R (ObserveQueuedRunRouting rid reason n)"
proof (rule tx_withinI)
  fix w x w' assume run: "ObserveQueuedRunRouting rid reason n w = Inr (x, w')"
  have t: "tx_within R (tx_bind (applyRunTransitionTx (observeTransition rid reason n) no_subsidiary)
      (\<lambda>result. tx_return (Some result)))"
    by (intro within_bind within_applyRunTransitionTx within_no_subsidiary within_return) simp
  show "R w w'"
  proof (cases "queuedPendingWaitReasonTx rid w")
    case (Inl e)
    then have "w' = w" using run by (simp add: ObserveQueuedRunRouting_def split: if_splits)
    then show ?thesis using step_refl by simp
  next
    case (Inr p)
    then obtain stored w1 where p: "queuedPendingWaitReasonTx rid w = Inr (stored, w1)" by (cases p) simp
    have "w1 = w" by (rule queuedPendingWaitReasonTx_same [OF p])
    then show ?thesis
      using run p step_refl tx_withinD [OF t] by (auto simp: ObserveQueuedRunRouting_def split: if_splits)
  qed
qed

lemma within_ExpireQueuedRun: "tx_within R (ExpireQueuedRun input)"
  unfolding ExpireQueuedRun_def Let_def
  by (intro within_if within_fail within_bind within_queuedPendingWaitReasonTx within_lift
      within_terminal_writers) (simp add: fail_input_ok_def queue_fail_input_def nonterminal_lifecycles_def)

end

section \<open>What the clock says\<close>

text \<open>A run's queue age never shrinks as time passes, and a clock set back adds nothing.\<close>

lemma TotalWaitedNanos_mono:
  assumes "0 \<le> qc_WaitedNanos c" "now1 \<le> now2"
    and "\<And>since. qc_QueuedSinceNanos c = Some since \<Longrightarrow> 0 \<le> since \<and> qc_WaitedNanos c + (now2 - since) \<le> MaxInt64
      \<and> now2 \<le> MaxInt64"
  shows "qc_WaitedNanos c \<le> TotalWaitedNanos c now1 \<and> TotalWaitedNanos c now1 \<le> TotalWaitedNanos c now2"
proof (cases "qc_QueuedSinceNanos c")
  case None
  then show ?thesis by (simp add: TotalWaitedNanos_def)
next
  case (Some since)
  have w: "TotalWaitedNanos c n = (if n > since then qc_WaitedNanos c + (n - since) else qc_WaitedNanos c)"
    if "n \<le> now2" for n
    using assms Some that by (auto simp: TotalWaitedNanos_def wrap64_id)
  show ?thesis using assms(2) w [of now1] w [of now2] by simp
qed

text \<open>Observing an unchanged reason writes nothing.\<close>

lemma Observe_unchanged:
  "queuedPendingWaitReasonTx rid w = Inr (reason, w1) \<Longrightarrow> reason = QueueWaitNone \<or> reason = QueueWaitNoCompatibleWorker \<Longrightarrow>
   ObserveQueuedRunRouting rid reason n w = Inr (None, w)"
  using queuedPendingWaitReasonTx_same by (auto simp: ObserveQueuedRunRouting_def)

end
