(* ===== verification/Dispatch.thy ===== *)
theory Dispatch
  imports Routing Retry QueueWait
begin

text \<open>
  Claiming work (\<^verbatim>\<open>ClaimNextCompatibleJobWithLimit\<close> and \<^verbatim>\<open>ListPendingRoutingWorkPage\<close> of
  \<^verbatim>\<open>jobs.go\<close>, \<^verbatim>\<open>routingRequirementsForJob\<close> of the runtime service): the candidate query with its
  turn-order and consent guards, the claim of the job and the transition to \<^verbatim>\<open>running\<close>, and
  the page of pending work the routing sweep reads. The worker's check in Go is an argument of
  the claim, as it is in the source.

  The lemmas show that a claim takes a pending job of a queued run that nothing in its
  conversation precedes, leaves it leased to the claiming worker under a new attempt with its run
  active, and never exceeds the concurrency limit.
\<close>

section \<open>Jobs\<close>

record Job =
  jb_JobID :: string
  jb_RunID :: string
  jb_SessionID :: string
  jb_UserMessageID :: string
  jb_AssistantMessageID :: string
  jb_AgentID :: string
  jb_TraceID :: string
  jb_ModelProvider :: string
  jb_Model :: string
  jb_Payload :: queuedJobPayload
  jb_Attempt :: int
  jb_AssignmentAttemptID :: string
  jb_ExpectedStateVersion :: int
  jb_StartedEvent :: "Event option"
  jb_DelegationEvents :: "Event list"

definition claimed_job :: "job \<Rightarrow> agent_run \<Rightarrow> queuedJobPayload \<Rightarrow> Job" where
  "claimed_job j r p = \<lparr>jb_JobID = job_id j, jb_RunID = job_run_id j, jb_SessionID = run_session_id r,
     jb_UserMessageID = run_user_message_id r,
     jb_AssistantMessageID = text_or_empty (run_assistant_message_id r), jb_AgentID = job_agent_id j,
     jb_TraceID = run_trace_id r, jb_ModelProvider = run_model_provider r, jb_Model = run_model_name r,
     jb_Payload = p, jb_Attempt = job_attempt j, jb_AssignmentAttemptID = '''', jb_ExpectedStateVersion = 0,
     jb_StartedEvent = None, jb_DelegationEvents = []\<rparr>"

text \<open>The requirements the service rebuilds from a claimed job; the egress decision is not among them.\<close>

definition routingRequirementsForJob :: "Job \<Rightarrow> RoutingRequirements" where
  "routingRequirementsForJob j =
     (payload_requirements (jb_AgentID j) (jb_ModelProvider j) (jb_Model j) (jb_Payload j))
       \<lparr>rq_RemoteEgressDecision := False\<rparr>"

section \<open>Candidates\<close>

text \<open>An earlier turn of the conversation that still executes, is not over, or has an open job.\<close>

definition unfinished_turn :: "world \<Rightarrow> agent_run \<Rightarrow> bool" where
  "unfinished_turn w r \<longleftrightarrow> run_execution_active r
     \<or> run_status r \<notin> set [''completed'', ''failed'', ''cancelled'']
     \<or> list_ex (\<lambda>j. job_run_id j = run_id r \<and> job_status j \<notin> set [''completed'', ''failed'', ''cancelled'']) (jobs w)"

definition precedes :: "world \<Rightarrow> agent_run \<Rightarrow> agent_run \<Rightarrow> bool" where
  "precedes w earlier r \<longleftrightarrow> run_session_id earlier = run_session_id r
     \<and> list_ex (\<lambda>eu. msg_id eu = run_user_message_id earlier
         \<and> list_ex (\<lambda>cu. msg_id cu = run_user_message_id r \<and> msg_sequence eu < msg_sequence cu) (messages w)) (messages w)"

definition turn_blocked :: "world \<Rightarrow> agent_run \<Rightarrow> bool" where
  "turn_blocked w r \<longleftrightarrow> list_ex (\<lambda>earlier. precedes w earlier r \<and> unfinished_turn w earlier) (agent_runs w)"

definition consent_pending :: "world \<Rightarrow> agent_run \<Rightarrow> bool" where
  "consent_pending w r \<longleftrightarrow>
     list_ex (\<lambda>d. dg_child_run_id d = run_id r \<and> dg_egress_consent d = ''pending'') (delegations w)"

definition claimable :: "string \<Rightarrow> WorkerRoutingCapabilities option \<Rightarrow> world \<Rightarrow> job \<times> agent_run \<Rightarrow> bool" where
  "claimable agentID capabilities w = (\<lambda>(j, r). run_id r = job_run_id j \<and> job_agent_id j = agentID
     \<and> job_status j = ''pending'' \<and> run_status r = ''queued''
     \<and> \<not> turn_blocked w r \<and> \<not> consent_pending w r
     \<and> claimRoutingFilterSQL capabilities (run_model_provider r) (run_model_name r) (job_payload j))"

text \<open>\<^verbatim>\<open>ORDER BY created_at_ns, id\<close>, NULL first.\<close>

definition queue_key :: "job \<times> agent_run \<Rightarrow> (int \<times> int) \<times> string" where
  "queue_key = (\<lambda>(j, r). (case job_created_at_ns j of None \<Rightarrow> (0, 0) | Some n \<Rightarrow> (1, n), job_id j))"

definition job_runs :: "world \<Rightarrow> (job \<times> agent_run) list" where
  "job_runs w = List.product (jobs w) (agent_runs w)"

definition next_candidate ::
  "string \<Rightarrow> WorkerRoutingCapabilities option \<Rightarrow> world \<Rightarrow> (job \<times> agent_run) option" where
  "next_candidate agentID capabilities w =
     (case sort_key queue_key (filter (claimable agentID capabilities w) (job_runs w)) of
        [] \<Rightarrow> None | c # _ \<Rightarrow> Some c)"

section \<open>The claim\<close>

record Lease =
  le_pickedUpAt :: string
  le_owner :: string
  le_expires :: int
  le_attemptID :: string

definition claim_job_row :: "string \<Rightarrow> Lease \<Rightarrow> unit wtx" where
  "claim_job_row jobID lease =
     (let p = (\<lambda>j. job_id j = jobID \<and> job_status j = ''pending'') in
      tx_bind (tx_gets (\<lambda>w. rows_affected p (jobs w))) (\<lambda>n.
      tx_then (tx_modify (\<lambda>w. w\<lparr>jobs := update_where p
        (\<lambda>j. j\<lparr>job_status := ''in_progress'', job_lease_owner := Some (le_owner lease),
               job_lease_expires_at := Some (FormatTimestamp (le_expires lease)),
               job_lease_expires_at_ns := Some (UnixNano (le_expires lease)),
               job_picked_up_at := Some (le_pickedUpAt lease),
               job_assignment_attempt_id := Some (le_attemptID lease)\<rparr>) (jobs w)\<rparr>))
      (expectOneRow n ''pending job not found for claim'')))"

definition claimTransition :: "string \<Rightarrow> Job \<Rightarrow> Lease \<Rightarrow> runTransition" where
  "claimTransition agentID j lease = zero_transition\<lparr>rt_runID := jb_RunID j,
     rt_expectedVersion := unresolvedStateVersion, rt_transactionLocal := True,
     rt_allowedFrom := [lifecycleQueued], rt_to := lifecycleRunning, rt_reason := ReasonNone,
     rt_extraSet := (\<lambda>_ r. r\<lparr>run_started_at := coalesce (run_started_at r) (le_pickedUpAt lease),
        run_worker_id := Some (le_owner lease), run_execution_active := True,
        run_execution_exit_acknowledged_at := None, run_execution_attempt_id := Some (le_attemptID lease),
        run_execution_state := ''pending_send'',
        run_execution_lease_expires_at := Some (FormatTimestamp (le_expires lease)),
        run_execution_lease_expires_at_ns := Some (UnixNano (le_expires lease))\<rparr>),
     rt_eventType := ''agent.run.started'',
     rt_eventPayload := [(''runId'', JStr (jb_RunID j)), (''jobId'', JStr (jb_JobID j)),
       (''status'', JStr ''running''), (''agentId'', JStr agentID), (''attempt'', JNum (jb_Attempt j)),
       (''assignmentAttemptId'', JStr (le_attemptID lease))]\<rparr>"

definition not_queued :: "err \<Rightarrow> err" where
  "not_queued e = (if e = ErrRunTransitionConflict then ErrText ''run is not queued'' else e)"

definition start_claimed :: "string \<Rightarrow> Job \<Rightarrow> Lease \<Rightarrow> Job option wtx" where
  "start_claimed agentID j lease =
     tx_then (claim_job_row (jb_JobID j) lease) (
     tx_bind (tx_map_err not_queued (applyRunTransitionTx (claimTransition agentID j lease) no_subsidiary)) (\<lambda>started.
     if tr_Duplicate started \<or> length (tr_Events started) \<noteq> 1 + length (tr_Delegation started)
     then tx_fail (ErrText ''run is not queued'')
     else tx_return (Some (j\<lparr>jb_AssignmentAttemptID := le_attemptID lease,
            jb_ExpectedStateVersion := rs_StateVersion (tr_State started),
            jb_StartedEvent := Some (hd (tr_Events started)), jb_DelegationEvents := tr_Delegation started\<rparr>))))"

definition compatible_job :: "(RoutingRequirements \<Rightarrow> bool) option \<Rightarrow> Job \<Rightarrow> bool" where
  "compatible_job compatible j = (case compatible of
     None \<Rightarrow> True
   | Some ok \<Rightarrow> ok (payload_requirements (jb_AgentID j) (jb_ModelProvider j) (jb_Model j) (jb_Payload j)))"

definition claim_candidate ::
  "string \<Rightarrow> (RoutingRequirements \<Rightarrow> bool) option \<Rightarrow> Lease \<Rightarrow> job \<times> agent_run \<Rightarrow> Job option wtx" where
  "claim_candidate agentID compatible lease = (\<lambda>(j, r).
     case decode_payload (job_payload j) of
       None \<Rightarrow> tx_fail ErrUnmarshal
     | Some p \<Rightarrow>
         if compatible_job compatible (claimed_job j r p) then start_claimed agentID (claimed_job j r p) lease
         else tx_return None)"

definition active_executions :: "string \<Rightarrow> world \<Rightarrow> int" where
  "active_executions agentID w = int (length (filter (\<lambda>r. run_agent_id r = agentID \<and> run_execution_active r) (agent_runs w)))"

definition lease_duration :: "int \<Rightarrow> int" where
  "lease_duration d = (if d \<le> 0 then 5 * 60 * 1000000000 else d)"

text \<open>No job to claim is \<open>None\<close>, the zero \<^verbatim>\<open>Job\<close> of the source.\<close>

definition ClaimNextCompatibleJobWithLimit ::
  "string \<Rightarrow> string \<Rightarrow> int \<Rightarrow> int \<Rightarrow> WorkerRoutingCapabilities option \<Rightarrow> (RoutingRequirements \<Rightarrow> bool) option \<Rightarrow> Job option wtx" where
  "ClaimNextCompatibleJobWithLimit agentID leaseOwner globalLimit leaseDuration capabilities compatible =
     tx_bind now_text (\<lambda>pickedUpAt.
     tx_bind time_Now (\<lambda>now.
     tx_bind (ids_New ''attempt'') (\<lambda>attemptID.
     tx_bind (tx_gets (active_executions agentID)) (\<lambda>active.
     if globalLimit > 0 \<and> active \<ge> globalLimit then tx_return None
     else
       tx_bind (tx_gets (next_candidate agentID capabilities)) (\<lambda>candidate.
       case candidate of
         None \<Rightarrow> tx_return None
       | Some c \<Rightarrow> claim_candidate agentID compatible
           \<lparr>le_pickedUpAt = pickedUpAt, le_owner = leaseOwner, le_expires = now + lease_duration leaseDuration,
            le_attemptID = attemptID\<rparr> c)))))"

section \<open>Pending work\<close>

record PendingRoutingWork =
  pw_RunID :: string
  pw_Requirements :: RoutingRequirements
  pw_Clock :: QueueWaitClock

record PendingRoutingCursor =
  cu_CreatedAtNanos :: int
  cu_JobID :: string

definition after_cursor :: "PendingRoutingCursor \<Rightarrow> job \<Rightarrow> bool" where
  "after_cursor after j \<longleftrightarrow> cu_JobID after = ''''
     \<or> (case job_created_at_ns j of
          None \<Rightarrow> False
        | Some n \<Rightarrow> n > cu_CreatedAtNanos after \<or> (n = cu_CreatedAtNanos after \<and> job_id j > cu_JobID after))"

definition pending_rows :: "PendingRoutingCursor \<Rightarrow> world \<Rightarrow> (job \<times> agent_run) list" where
  "pending_rows after w = sort_key queue_key (filter (\<lambda>(j, r). run_id r = job_run_id j
     \<and> job_status j = ''pending'' \<and> run_status r = ''queued'' \<and> after_cursor after j) (job_runs w))"

definition run_clock :: "agent_run \<Rightarrow> QueueWaitClock" where
  "run_clock r = \<lparr>qc_Reason = run_queue_wait_reason r, qc_WaitedNanos = run_queue_waited_ns r,
     qc_QueuedSinceNanos = run_queued_since_ns r, qc_UnroutableSinceNanos = run_queue_unroutable_since_ns r\<rparr>"

text \<open>One row; a NULL \<^verbatim>\<open>created_at_ns\<close> does not scan into the cursor.\<close>

definition pending_item :: "job \<times> agent_run \<Rightarrow> (PendingRoutingWork \<times> PendingRoutingCursor) wtx" where
  "pending_item = (\<lambda>(j, r).
     case job_created_at_ns j of
       None \<Rightarrow> tx_fail (ErrText ''converting NULL to int64 is unsupported'')
     | Some n \<Rightarrow>
         (case decode_payload (job_payload j) of
            None \<Rightarrow> tx_fail ErrUnmarshal
          | Some p \<Rightarrow> tx_return (\<lparr>pw_RunID = job_run_id j,
              pw_Requirements = payload_requirements (job_agent_id j) (run_model_provider r) (run_model_name r) p,
              pw_Clock = run_clock r\<rparr>, \<lparr>cu_CreatedAtNanos = n, cu_JobID = job_id j\<rparr>)))"

definition ListPendingRoutingWorkPage ::
  "PendingRoutingCursor \<Rightarrow> int \<Rightarrow> (PendingRoutingWork list \<times> PendingRoutingCursor) wtx" where
  "ListPendingRoutingWorkPage after limit =
     (if limit < 1 then tx_fail (ErrText ''pending routing page limit must be positive'')
      else
        tx_bind (tx_gets (\<lambda>w. take (nat limit) (pending_rows after w))) (\<lambda>rows.
        tx_bind (tx_map pending_item rows) (\<lambda>items.
        tx_return (map fst items, if items = [] then after else snd (last items)))))"

section \<open>Within any store relation\<close>

lemma transition_ok_claim [simp]: "transition_ok (claimTransition agentID j lease)"
  by (simp add: transition_ok_def lifecycle_edge_def claimTransition_def zero_transition_def same_state_def same_identity_def)

context store_relation
begin

lemma within_claim_job_row: "tx_within R (claim_job_row jobID lease)"
  unfolding claim_job_row_def Let_def
  by (intro within_bind within_gets within_then within_expectOneRow within_any_jobs) simp

lemma within_start_claimed: "tx_within R (start_claimed agentID j lease)"
  unfolding start_claimed_def
  by (intro within_then within_claim_job_row within_bind within_map_err within_applyRunTransitionTx
      within_no_subsidiary within_if within_fail within_return) simp

lemma within_ClaimNextCompatibleJobWithLimit: "tx_within R (ClaimNextCompatibleJobWithLimit a lo n d caps ok)"
  unfolding ClaimNextCompatibleJobWithLimit_def claim_candidate_def
  by (intro within_bind within_now_text within_time_Now within_ids_New within_gets within_if within_return
      within_case_option within_case_prod within_fail within_start_claimed)

end

section \<open>What a claim does\<close>

lemma calm_candidates:
  assumes "calm w w'"
  shows "next_candidate a c w' = next_candidate a c w" "active_executions a w' = active_executions a w"
proof -
  have eq: "agent_runs w' = agent_runs w" "jobs w' = jobs w" "messages w' = messages w" "delegations w' = delegations w"
    using assms by (simp_all add: calm_def)
  have "claimable a c w' = claimable a c w"
    unfolding claimable_def turn_blocked_def precedes_def unfinished_turn_def consent_pending_def eq by (rule refl)
  then show "next_candidate a c w' = next_candidate a c w" by (simp add: next_candidate_def job_runs_def eq)
  show "active_executions a w' = active_executions a w" by (simp add: active_executions_def eq)
qed

lemma next_candidate_Some:
  assumes "next_candidate a c w = Some (j, r)"
  shows "j \<in> set (jobs w)" "r \<in> set (agent_runs w)" "claimable a c w (j, r)"
proof -
  obtain rest where "sort_key queue_key (filter (claimable a c w) (job_runs w)) = (j, r) # rest"
    using assms by (auto simp: next_candidate_def split: list.splits)
  then have "(j, r) \<in> set (sort_key queue_key (filter (claimable a c w) (job_runs w)))" by (simp only: list.set_intros)
  then show "j \<in> set (jobs w)" "r \<in> set (agent_runs w)" "claimable a c w (j, r)"
    by (simp_all add: job_runs_def)
qed

text \<open>A worker holds the run: its row and its job name the worker and the attempt.\<close>

definition run_held_by :: "string \<Rightarrow> string \<Rightarrow> string \<Rightarrow> string \<Rightarrow> world \<Rightarrow> bool" where
  "run_held_by rid jobID worker attempt w \<longleftrightarrow>
     list_ex (\<lambda>r. run_id r = rid \<and> run_status r = lifecycleRunning \<and> run_worker_id r = Some worker
       \<and> run_execution_active r \<and> run_execution_attempt_id r = Some attempt \<and> run_execution_state r = ''pending_send'') (agent_runs w)
     \<and> list_ex (\<lambda>j. job_id j = jobID \<and> job_status j = ''in_progress'' \<and> job_lease_owner j = Some worker
       \<and> job_assignment_attempt_id j = Some attempt) (jobs w)"

lemma claim_job_row_Inr:
  assumes "claim_job_row jid lease w = Inr (u, w')"
  shows "db_ok w \<Longrightarrow> db_ok w'" "agent_runs w' = agent_runs w"
    "list_ex (\<lambda>j. job_id j = jid \<and> job_status j = ''in_progress'' \<and> job_lease_owner j = Some (le_owner lease)
       \<and> job_assignment_attempt_id j = Some (le_attemptID lease)) (jobs w')"
proof -
  let ?p = "\<lambda>j. job_id j = jid \<and> job_status j = ''pending''"
  let ?f = "\<lambda>j. j\<lparr>job_status := ''in_progress'', job_lease_owner := Some (le_owner lease),
               job_lease_expires_at := Some (FormatTimestamp (le_expires lease)),
               job_lease_expires_at_ns := Some (UnixNano (le_expires lease)),
               job_picked_up_at := Some (le_pickedUpAt lease),
               job_assignment_attempt_id := Some (le_attemptID lease)\<rparr>"
  have w': "w' = w\<lparr>jobs := update_where ?p ?f (jobs w)\<rparr>" and n: "rows_affected ?p (jobs w) = 1"
    using assms by (auto simp: claim_job_row_def Let_def expectOneRow_def expectOneRowErr_def tx_simps split: if_splits)
  show "db_ok w'" if "db_ok w" unfolding w' by (rule db_ok_close(3) [OF that]) simp
  show "agent_runs w' = agent_runs w" unfolding w' by simp
  have "filter ?p (jobs w) \<noteq> []" using n by (auto simp: rows_affected_def)
  then obtain j where j: "j \<in> set (jobs w)" "?p j" unfolding filter_empty_conv by blast
  have "?f j \<in> set (jobs w')" using in_update_where_hit [of j "jobs w" ?p ?f, OF j] by (simp add: w')
  then show "list_ex (\<lambda>j. job_id j = jid \<and> job_status j = ''in_progress'' \<and> job_lease_owner j = Some (le_owner lease)
       \<and> job_assignment_attempt_id j = Some (le_attemptID lease)) (jobs w')"
    unfolding list_ex_iff by (rule bexI [rotated]) (simp add: j)
qed

lemma update_where_active_le:
  assumes "distinct (map run_id rs)"
  shows "length (filter q (update_where (\<lambda>x. run_id x = rid) f rs)) \<le> Suc (length (filter q rs))"
  using assms
proof (induction rs)
  case (Cons r rs)
  have "rid \<notin> set (map run_id rs) \<Longrightarrow> update_where (\<lambda>x. run_id x = rid) f rs = rs"
    unfolding update_where_def by (rule map_idI) auto
  with Cons show ?case by (cases "run_id r = rid") (auto simp: update_where_def)
qed (simp add: update_where_def)

lemma start_claimed_effect:
  assumes db: "db_ok w" and run: "start_claimed a j lease w = Inr (Some claimed, w')"
  shows "jb_JobID claimed = jb_JobID j" "jb_RunID claimed = jb_RunID j" "jb_AssignmentAttemptID claimed = le_attemptID lease"
    "run_held_by (jb_RunID j) (jb_JobID j) (le_owner lease) (le_attemptID lease) w'"
    "active_executions a w' \<le> active_executions a w + 1"
proof -
  let ?t = "claimTransition a j lease"
  obtain u w1 started where job: "claim_job_row (jb_JobID j) lease w = Inr (u, w1)"
    and app: "applyRunTransitionTx ?t no_subsidiary w1 = Inr (started, w')"
    and fresh: "\<not> tr_Duplicate started"
    and claimed: "claimed = j\<lparr>jb_AssignmentAttemptID := le_attemptID lease,
            jb_ExpectedStateVersion := rs_StateVersion (tr_State started),
            jb_StartedEvent := Some (hd (tr_Events started)), jb_DelegationEvents := tr_Delegation started\<rparr>"
    using run unfolding start_claimed_def by (elim tx_bindE tx_thenE) (simp split: if_splits)
  note cj = claim_job_row_Inr [OF job]
  have t: "rt_runID ?t = jb_RunID j" "rt_to ?t = lifecycleRunning" by (simp_all add: claimTransition_def zero_transition_def)
  have db1: "db_ok w1" using cj(1) db by simp
  obtain r at queueSet m where "r \<in> set (agent_runs w1)" and r: "run_id r = rt_runID ?t"
    and "run_status r \<in> set (rt_allowedFrom ?t)"
    and q: "queueClockUpdate (run_status r) (rt_to ?t) at = Inr queueSet"
    and r': "transition_update ?t (run_row_of r m) at queueSet r \<in> set (agent_runs w')"
    and "rs_StateVersion (tr_State started) = run_state_version r + 1"
    and cw: "calm (w1\<lparr>agent_runs := update_where (\<lambda>x. run_id x = rt_runID ?t)
      (transition_update ?t (run_row_of r m) at queueSet) (agent_runs w1)\<rparr>) w'"
    by (rule live_effect_row [OF live_transition [OF _ _ app fresh] _ db1]) (simp_all add: t)
  let ?r' = "transition_update ?t (run_row_of r m) at queueSet r"
  have "execution_columns ?r' = (run_agent_id r, Some (le_owner lease), True, Some (le_attemptID lease), ''pending_send'',
      Some (UnixNano (le_expires lease)))"
    unfolding execution_columns_update [OF q] by (simp add: execution_columns_def claimTransition_def zero_transition_def)
  then have "list_ex (\<lambda>r. run_id r = jb_RunID j \<and> run_status r = lifecycleRunning \<and> run_worker_id r = Some (le_owner lease)
       \<and> run_execution_active r \<and> run_execution_attempt_id r = Some (le_attemptID lease) \<and> run_execution_state r = ''pending_send'') (agent_runs w')"
    unfolding list_ex_iff using run_id_transition_update [OF transition_ok_claim q] r t
    by (intro bexI [OF _ r']) (simp add: execution_columns_def)
  moreover have "jobs w' = jobs w1" using cw by (simp add: calm_def)
  ultimately show "run_held_by (jb_RunID j) (jb_JobID j) (le_owner lease) (le_attemptID lease) w'"
    using cj(3) by (simp add: run_held_by_def)
  show "jb_JobID claimed = jb_JobID j" "jb_RunID claimed = jb_RunID j" "jb_AssignmentAttemptID claimed = le_attemptID lease"
    by (simp_all add: claimed)
  have eq: "agent_runs w' = update_where (\<lambda>x. run_id x = rt_runID ?t)
      (transition_update ?t (run_row_of r m) at queueSet) (agent_runs w)" using cw cj(2) by (simp add: calm_def)
  have dist: "distinct (map run_id (agent_runs w))" using db by (simp add: db_ok_def)
  have "length (filter (\<lambda>r. run_agent_id r = a \<and> run_execution_active r) (agent_runs w'))
      \<le> Suc (length (filter (\<lambda>r. run_agent_id r = a \<and> run_execution_active r) (agent_runs w)))"
    unfolding eq by (rule update_where_active_le [OF dist])
  then show "active_executions a w' \<le> active_executions a w + 1" unfolding active_executions_def by linarith
qed

text \<open>What a successful claim took.\<close>

definition claim_outcome ::
  "string \<Rightarrow> string \<Rightarrow> int \<Rightarrow> WorkerRoutingCapabilities option \<Rightarrow> (RoutingRequirements \<Rightarrow> bool) option \<Rightarrow> Job \<Rightarrow> world \<Rightarrow> world \<Rightarrow> bool" where
  "claim_outcome a owner limit caps compatible claimed w w' \<longleftrightarrow>
     (\<exists>j \<in> set (jobs w). \<exists>r \<in> set (agent_runs w). claimable a caps w (j, r)
        \<and> jb_JobID claimed = job_id j \<and> jb_RunID claimed = run_id r)
     \<and> run_held_by (jb_RunID claimed) (jb_JobID claimed) owner (jb_AssignmentAttemptID claimed) w'
     \<and> (0 < limit \<longrightarrow> active_executions a w' \<le> limit)"

lemma ClaimNext_outcome:
  assumes db: "db_ok w" and run: "ClaimNextCompatibleJobWithLimit a owner limit d caps compatible w = Inr (Some claimed, w')"
  shows "claim_outcome a owner limit caps compatible claimed w w'"
proof -
  obtain t0 w1 t1 w2 aid w3 where e: "now_text w = Inr (t0, w1)" "time_Now w1 = Inr (t1, w2)" "ids_New ''attempt'' w2 = Inr (aid, w3)"
    and rest: "tx_bind (tx_gets (active_executions a)) (\<lambda>active.
     if limit > 0 \<and> active \<ge> limit then tx_return None
     else
       tx_bind (tx_gets (next_candidate a caps)) (\<lambda>candidate.
       case candidate of
         None \<Rightarrow> tx_return None
       | Some c \<Rightarrow> claim_candidate a compatible
           \<lparr>le_pickedUpAt = t0, le_owner = owner, le_expires = t1 + lease_duration d, le_attemptID = aid\<rparr> c)) w3 = Inr (Some claimed, w')"
    using run unfolding ClaimNextCompatibleJobWithLimit_def
    by - (erule tx_bindE, erule tx_bindE, erule tx_bindE, rule that)
  have c: "calm w w3" using calm_query(3-5) [THEN tx_withinD] e calm.step_trans by meson
  have db3: "db_ok w3"
    using db tx_withinD [OF history.within_now_text e(1)] tx_withinD [OF history.within_time_Now e(2)]
      tx_withinD [OF history.within_ids_New e(3)] by (simp add: under_def)
  let ?lease = "\<lparr>le_pickedUpAt = t0, le_owner = owner, le_expires = t1 + lease_duration d, le_attemptID = aid\<rparr>"
  have limit: "limit \<le> 0 \<or> active_executions a w3 < limit"
    using rest by (auto simp: tx_bind_def split: if_splits)
  then obtain j r where cand: "next_candidate a caps w3 = Some (j, r)"
    and claim: "claim_candidate a compatible ?lease (j, r) w3 = Inr (Some claimed, w')"
    using rest by (auto simp: tx_bind_def split: option.splits)
  from claim obtain p where st: "start_claimed a (claimed_job j r p) ?lease w3 = Inr (Some claimed, w')"
    by (auto simp: claim_candidate_def split: option.splits if_splits)
  note eff = start_claimed_effect [OF db3 st]
  note nc = next_candidate_Some [OF cand [unfolded calm_candidates(1) [OF c]]]
  have "run_id r = job_run_id j" using nc(3) by (simp add: claimable_def)
  moreover have "0 < limit \<longrightarrow> active_executions a w' \<le> limit"
    using eff(5) limit by linarith
  ultimately show ?thesis
    unfolding claim_outcome_def using eff(1-4)
    by (intro conjI bexI [OF _ nc(1)] bexI [OF _ nc(2)] nc(3)) (simp_all add: claimed_job_def)
qed

end
