(* ===== verification/ToolCalls.thy ===== *)
theory ToolCalls
  imports Approvals LiveTransitions
begin

text \<open>
  Tool-call bookkeeping (\<^verbatim>\<open>internal/repository/toolcalls.go\<close>): the record a worker makes before a
  call, bound to the run, the arguments and the server's identity at that moment, and the report
  it makes afterwards.

  The lemmas show that a repeated announcement returns the stored record without a write, that a
  report moves a call out of an open status once, that a call which needs an approval completes
  only under a consumed one, and that a refused or repeated report writes nothing.
\<close>

section \<open>Data\<close>

record ToolCallRecord =
  tcr_ToolCallID :: string
  tcr_RunID :: string
  tcr_Status :: string
  tcr_ApprovalID :: string
  tcr_ModelToolCallID :: string

record ToolCallBeforeResult =
  tcb_Record :: ToolCallRecord
  tcb_Inserted :: bool

record ToolCallBeforeEvent =
  tce_SessionID :: string
  tce_TraceID :: string
  tce_Type :: string
  tce_Payload :: "json option"

record ToolCallAfterRecord =
  tca_ToolCallID :: string
  tca_RunID :: string
  tca_ServerName :: string
  tca_ToolName :: string
  tca_ModelToolCallID :: string
  tca_ArgsHash :: string
  tca_WorkerID :: string
  tca_Status :: string
  tca_ResultSummary :: string
  tca_ErrorCode :: string
  tca_ErrorMessage :: string
  tca_DurationMS :: int

section \<open>Before the call\<close>

definition lookupMCPServerIDByNameTx :: "string \<Rightarrow> string option wtx" where
  "lookupMCPServerIDByNameTx serverName =
     tx_bind (query_opt (\<lambda>w. filter (\<lambda>s. mv_name s = serverName) (mcp_servers w)))
       (\<lambda>found. tx_return (map_option mv_id found))"

text \<open>What the caller says of a call, beside its record.\<close>

record tool_call_request =
  tq_agentID :: string
  tq_serverName :: string
  tq_toolName :: string
  tq_argsJSON :: string
  tq_argsHash :: string

definition same_call :: "ToolCallRecord \<Rightarrow> tool_call_request \<Rightarrow> tool_call \<Rightarrow> bool" where
  "same_call record q c \<longleftrightarrow> tc_run_id c = tcr_RunID record \<and> tc_agent_id c = tq_agentID q
     \<and> tc_server_name c = tq_serverName q \<and> tc_tool_name c = tq_toolName q \<and> tc_args_hash c = tq_argsHash q
     \<and> text_or_empty (tc_model_tool_call_id c) = tcr_ModelToolCallID record"

definition requested_status :: "string \<Rightarrow> string" where
  "requested_status status = (if status = '''' then ''requested'' else status)"

definition new_tool_call :: "ToolCallRecord \<Rightarrow> tool_call_request \<Rightarrow> string option \<Rightarrow> string \<Rightarrow> tool_call" where
  "new_tool_call record q mcpServerID at = \<lparr>tc_id = tcr_ToolCallID record, tc_run_id = tcr_RunID record,
     tc_agent_id = tq_agentID q, tc_server_name = tq_serverName q, tc_tool_name = tq_toolName q,
     tc_args_json = tq_argsJSON q, tc_args_hash = tq_argsHash q, tc_status = requested_status (tcr_Status record),
     tc_result_summary = None, tc_error_code = None, tc_error_message = None,
     tc_approval_id = nullableText (tcr_ApprovalID record), tc_duration_ms = None, tc_created_at = at,
     tc_completed_at = None, tc_model_tool_call_id = nullableText (tcr_ModelToolCallID record),
     tc_mcp_server_id = mcpServerID\<rparr>"

definition insert_tool_call :: "tool_call \<Rightarrow> unit wtx" where
  "insert_tool_call c =
     tx_bind (tx_gets tool_calls) (\<lambda>cs.
     tx_then (tx_guard (tc_id c \<notin> set (map tc_id cs)) (ErrUnique ''tool_calls.id''))
       (tx_modify (\<lambda>w. w\<lparr>tool_calls := tool_calls w @ [c]\<rparr>)))"

definition recordToolCallBeforeTx :: "ToolCallRecord \<Rightarrow> tool_call_request \<Rightarrow> ToolCallBeforeResult wtx" where
  "recordToolCallBeforeTx record q =
     tx_bind (query_opt (\<lambda>w. filter (\<lambda>c. tc_id c = tcr_ToolCallID record) (tool_calls w))) (\<lambda>existing.
     case existing of
       Some c \<Rightarrow>
         if same_call record q c
         then tx_return \<lparr>tcb_Record = record\<lparr>tcr_Status := tc_status c,
                tcr_ApprovalID := text_or_empty (tc_approval_id c)\<rparr>, tcb_Inserted = False\<rparr>
         else tx_fail ErrToolCallConflict
     | None \<Rightarrow>
         tx_bind (lookupMCPServerIDByNameTx (tq_serverName q)) (\<lambda>mcpServerID.
         tx_bind now_text (\<lambda>at.
         tx_then (insert_tool_call (new_tool_call record q mcpServerID at))
           (tx_return \<lparr>tcb_Record = record\<lparr>tcr_Status := requested_status (tcr_Status record)\<rparr>, tcb_Inserted = True\<rparr>))))"

definition RecordToolCallBeforeNew :: "ToolCallRecord \<Rightarrow> tool_call_request \<Rightarrow> ToolCallBeforeResult wtx" where
  "RecordToolCallBeforeNew record q = recordToolCallBeforeTx record q"

definition RecordToolCallBefore :: "ToolCallRecord \<Rightarrow> tool_call_request \<Rightarrow> unit wtx" where
  "RecordToolCallBefore record q = tx_bind (RecordToolCallBeforeNew record q) (\<lambda>_. tx_return ())"

text \<open>
  Scanning event payloads for one that names the call. A payload that is not an object or null
  does not unmarshal; a member that is not a string reads as empty.
\<close>

definition recorded_tool_call :: "(string \<times> json) list \<Rightarrow> string" where
  "recorded_tool_call kvs = (case map_of kvs ''toolCallId'' of Some (JStr s) \<Rightarrow> s | _ \<Rightarrow> '''')"

fun names_tool_call :: "string \<Rightarrow> json list \<Rightarrow> bool result" where
  "names_tool_call toolCallID [] = Inr False"
| "names_tool_call toolCallID (p # ps) =
     (case p of
        JObj kvs \<Rightarrow> if recorded_tool_call kvs = toolCallID then Inr True else names_tool_call toolCallID ps
      | JNull \<Rightarrow> if toolCallID = '''' then Inr True else names_tool_call toolCallID ps
      | _ \<Rightarrow> Inl ErrUnmarshal)"

definition toolCallEventExistsTx :: "string \<Rightarrow> string \<Rightarrow> string \<Rightarrow> bool wtx" where
  "toolCallEventExistsTx rid eventType toolCallID =
     tx_bind (tx_gets (\<lambda>w. map ev_payload (filter (\<lambda>e. ev_run_id e = Some rid \<and> ev_type e = eventType) (events w))))
       (\<lambda>payloads. tx_lift (names_tool_call toolCallID payloads))"

definition RecordToolCallBeforeWithEvent ::
  "ToolCallRecord \<Rightarrow> tool_call_request \<Rightarrow> ToolCallBeforeEvent \<Rightarrow> (ToolCallBeforeResult \<times> Event option) wtx" where
  "RecordToolCallBeforeWithEvent record q e =
     tx_bind (recordToolCallBeforeTx record q) (\<lambda>result.
     let rec = tcb_Record result in
     tx_bind (toolCallEventExistsTx (tcr_RunID rec) (tce_Type e) (tcr_ToolCallID rec)) (\<lambda>exists0.
     if exists0 then tx_return (result, None)
     else
       tx_bind now_text (\<lambda>at.
       tx_bind (appendRunEventTx (tce_SessionID e) (tcr_RunID rec) (tce_TraceID e) (tce_Type e) (tce_Payload e) at)
         (\<lambda>event. tx_return (result, Some event)))))"

section \<open>After the call\<close>

definition approval_status :: "string option \<Rightarrow> string option wtx" where
  "approval_status approvalID =
     (case approvalID of
        None \<Rightarrow> tx_return None
      | Some aid \<Rightarrow>
          tx_bind (query_opt (\<lambda>w. filter (\<lambda>a. ap_id a = aid) (approvals w)))
            (\<lambda>found. tx_return (map_option ap_status found)))"

definition approvalAllowsCompletion :: "string option \<Rightarrow> bool wtx" where
  "approvalAllowsCompletion approvalID =
     tx_bind (approval_status approvalID) (\<lambda>status. tx_return (status = Some ''consumed''))"

definition terminalApprovalCleanupAllowed :: "tool_call \<Rightarrow> string \<Rightarrow> bool wtx" where
  "terminalApprovalCleanupAllowed c recordStatus =
     (if recordStatus \<noteq> ''failed'' \<or> tc_approval_id c = None then tx_return False
      else tx_bind (approval_status (tc_approval_id c)) (\<lambda>status.
        tx_return (case status of
          None \<Rightarrow> False
        | Some s \<Rightarrow> (tc_status c = ''denied'' \<and> s = ''denied'') \<or> (tc_status c = ''failed'' \<and> s = ''expired''))))"

definition toolCallCanComplete :: "string \<Rightarrow> bool" where
  "toolCallCanComplete status \<longleftrightarrow> status = ''allowed'' \<or> status = ''approval_required''"

text \<open>The worker that held a run which ended in the same instant its call was failed.\<close>

definition failed_with_run :: "ToolCallAfterRecord \<Rightarrow> tool_call \<Rightarrow> agent_run \<Rightarrow> bool" where
  "failed_with_run record c r \<longleftrightarrow> tc_status c = ''failed'' \<and> tca_WorkerID record \<noteq> ''''
     \<and> tca_WorkerID record = text_or_empty (run_worker_id r) \<and> text_or_empty (tc_completed_at c) \<noteq> ''''
     \<and> text_or_empty (tc_completed_at c) = text_or_empty (run_finished_at r)
     \<and> run_status r \<in> set [''completed'', ''failed'', ''cancelled'']"

definition terminalSafeToolCallCleanupAllowed :: "ToolCallAfterRecord \<Rightarrow> tool_call \<Rightarrow> agent_run \<Rightarrow> bool wtx" where
  "terminalSafeToolCallCleanupAllowed record c r =
     (if tc_approval_id c = None \<and> tca_Status record = ''failed'' \<and> failed_with_run record c r
         \<and> tca_ResultSummary record = text_or_empty (tc_result_summary c)
      then toolCallEventExistsTx (tca_RunID record) ''tool.call.failed'' (tca_ToolCallID record)
      else tx_return False)"

definition terminalCommittedToolCallCorrectionAllowed :: "ToolCallAfterRecord \<Rightarrow> tool_call \<Rightarrow> agent_run \<Rightarrow> bool wtx" where
  "terminalCommittedToolCallCorrectionAllowed record c r =
     (if tc_approval_id c \<noteq> None \<and> tca_Status record = ''completed'' \<and> failed_with_run record c r
      then tx_bind (approvalAllowsCompletion (tc_approval_id c)) (\<lambda>allowed.
        if \<not> allowed then tx_return False
        else toolCallEventExistsTx (tca_RunID record) ''tool.call.failed'' (tca_ToolCallID record))
      else tx_return False)"

text \<open>The \<^verbatim>\<open>UPDATE tool_calls\<close> of a report and its event.\<close>

definition finish_tool_call ::
  "ToolCallAfterRecord \<Rightarrow> agent_run \<Rightarrow> (string \<Rightarrow> bool) \<Rightarrow> (string \<Rightarrow> tool_call \<Rightarrow> tool_call) \<Rightarrow> string \<Rightarrow> json option \<Rightarrow> (bool \<times> Event option) wtx" where
  "finish_tool_call record r from set_columns eventType payload =
     tx_bind now_text (\<lambda>completedAt.
     let p = (\<lambda>c. tc_id c = tca_ToolCallID record \<and> tc_run_id c = tca_RunID record \<and> from (tc_status c)) in
     tx_bind (tx_gets (\<lambda>w. rows_affected p (tool_calls w))) (\<lambda>n.
     tx_then (tx_modify (\<lambda>w. w\<lparr>tool_calls := update_where p (set_columns completedAt) (tool_calls w)\<rparr>)) (
     tx_then (expectOneRowErr n ErrToolCallInvalidTransition) (
     tx_bind now_text (\<lambda>at.
     tx_bind (appendRunEventTx (run_session_id r) (tca_RunID record) (run_trace_id r) eventType payload at)
       (\<lambda>event. tx_return (True, Some event)))))))"

definition corrected_columns :: "ToolCallAfterRecord \<Rightarrow> string \<Rightarrow> tool_call \<Rightarrow> tool_call" where
  "corrected_columns record at c = c\<lparr>tc_status := ''completed'', tc_result_summary := nullableText (tca_ResultSummary record),
     tc_error_code := None, tc_error_message := None, tc_duration_ms := Some (tca_DurationMS record),
     tc_completed_at := Some at\<rparr>"

definition reported_columns :: "ToolCallAfterRecord \<Rightarrow> string \<Rightarrow> tool_call \<Rightarrow> tool_call" where
  "reported_columns record at c = c\<lparr>tc_status := tca_Status record, tc_result_summary := nullableText (tca_ResultSummary record),
     tc_error_code := nullableText (tca_ErrorCode record), tc_error_message := nullableText (tca_ErrorMessage record),
     tc_duration_ms := Some (tca_DurationMS record), tc_completed_at := Some at\<rparr>"

definition report_matches :: "ToolCallAfterRecord \<Rightarrow> tool_call \<Rightarrow> agent_run \<Rightarrow> bool" where
  "report_matches record c r \<longleftrightarrow> tc_server_name c = tca_ServerName record \<and> tc_tool_name c = tca_ToolName record
     \<and> text_or_empty (tc_model_tool_call_id c) = tca_ModelToolCallID record
     \<and> (tca_ArgsHash record = '''' \<or> tc_args_hash c = tca_ArgsHash record)
     \<and> (tca_WorkerID record = '''' \<or> text_or_empty (run_worker_id r) = tca_WorkerID record)"

definition report_repeats :: "ToolCallAfterRecord \<Rightarrow> tool_call \<Rightarrow> bool" where
  "report_repeats record c \<longleftrightarrow> tc_status c = tca_Status record
     \<and> text_or_empty (tc_result_summary c) = tca_ResultSummary record
     \<and> text_or_empty (tc_error_code c) = tca_ErrorCode record
     \<and> text_or_empty (tc_error_message c) = tca_ErrorMessage record
     \<and> (case tc_duration_ms c of None \<Rightarrow> 0 | Some n \<Rightarrow> n) = tca_DurationMS record"

text \<open>The report on a call no cleanup rule covers.\<close>

definition report_open_call ::
  "ToolCallAfterRecord \<Rightarrow> tool_call \<Rightarrow> agent_run \<Rightarrow> string \<Rightarrow> json option \<Rightarrow> (bool \<times> Event option) wtx" where
  "report_open_call record c r eventType payload =
     (if \<not> isOpenToolCallStatus (tc_status c) then
        if report_repeats record c then tx_return (False, None) else tx_fail ErrToolCallInvalidTransition
      else if tca_Status record = ''completed'' \<and> \<not> toolCallCanComplete (tc_status c)
      then tx_fail ErrToolCallInvalidTransition
      else if run_status r \<notin> set [lifecycleRunning, lifecycleWaitingApproval, lifecycleRecovering]
      then tx_fail ErrToolCallInvalidTransition
      else
        tx_bind (if tc_status c = ''approval_required'' \<and> tca_Status record = ''completed''
                 then approvalAllowsCompletion (tc_approval_id c) else tx_return True) (\<lambda>allowed.
        if \<not> allowed then tx_fail ErrToolCallInvalidTransition
        else finish_tool_call record r isOpenToolCallStatus (reported_columns record) eventType payload))"

definition report_tool_call ::
  "ToolCallAfterRecord \<Rightarrow> tool_call \<Rightarrow> agent_run \<Rightarrow> string \<Rightarrow> json option \<Rightarrow> (bool \<times> Event option) wtx" where
  "report_tool_call record c r eventType payload =
     tx_bind (terminalApprovalCleanupAllowed c (tca_Status record)) (\<lambda>cleanup.
     if cleanup then tx_return (False, None)
     else
       tx_bind (terminalSafeToolCallCleanupAllowed record c r) (\<lambda>safeCleanup.
       if safeCleanup then tx_return (False, None)
       else
         tx_bind (terminalCommittedToolCallCorrectionAllowed record c r) (\<lambda>correction.
         if correction
         then finish_tool_call record r (\<lambda>s. s = ''failed'') (corrected_columns record) eventType payload
         else report_open_call record c r eventType payload)))"

definition default_completed :: "ToolCallAfterRecord \<Rightarrow> ToolCallAfterRecord" where
  "default_completed record = (if tca_Status record = '''' then record\<lparr>tca_Status := ''completed''\<rparr> else record)"

definition call_of_run :: "ToolCallAfterRecord \<Rightarrow> world \<Rightarrow> (tool_call \<times> agent_run) list" where
  "call_of_run record w = filter (\<lambda>(c, r). run_id r = tc_run_id c \<and> tc_id c = tca_ToolCallID record
     \<and> tc_run_id c = tca_RunID record) (List.product (tool_calls w) (agent_runs w))"

definition RecordToolCallAfterWithEvent ::
  "ToolCallAfterRecord \<Rightarrow> string \<Rightarrow> json option \<Rightarrow> (bool \<times> Event option) wtx" where
  "RecordToolCallAfterWithEvent input eventType payload =
     (let record = default_completed input in
      tx_bind (query_opt (call_of_run record)) (\<lambda>found.
      case found of
        None \<Rightarrow> tx_fail ErrToolCallNotFound
      | Some (c, r) \<Rightarrow>
          if \<not> report_matches record c r then tx_fail ErrToolCallInvalidTransition
          else report_tool_call record c r eventType payload))"

section \<open>Within any store relation\<close>

context store_relation
begin

lemma within_insert_tool_call: "tx_within R (insert_tool_call c)"
proof (rule tx_withinI)
  fix w u w' assume "insert_tool_call c w = Inr (u, w')"
  then have w': "w' = w\<lparr>tool_calls := tool_calls w @ [c]\<rparr>" and "tc_id c \<notin> set (map tc_id (tool_calls w))"
    by (auto simp: insert_tool_call_def tx_simps split: if_splits)
  then show "R w w'" unfolding w' by (intro any_ok) (auto simp: db_ok_def)
qed

lemma within_recordToolCallBeforeTx: "tx_within R (recordToolCallBeforeTx rec q)"
  unfolding recordToolCallBeforeTx_def lookupMCPServerIDByNameTx_def
  by (intro within_bind within_query_opt within_case_option within_if within_return within_fail within_now_text
      within_then within_insert_tool_call)

lemma within_toolCallEventExistsTx: "tx_within R (toolCallEventExistsTx rid ty tid)"
  unfolding toolCallEventExistsTx_def by (intro within_bind within_gets within_lift)

lemma within_tool_calls_before:
  "tx_within R (RecordToolCallBeforeNew rec q)" "tx_within R (RecordToolCallBefore rec q)"
  "tx_within R (RecordToolCallBeforeWithEvent rec q e)"
  unfolding RecordToolCallBeforeNew_def RecordToolCallBefore_def RecordToolCallBeforeWithEvent_def Let_def
  by (intro within_bind within_recordToolCallBeforeTx within_return within_toolCallEventExistsTx within_if
      within_now_text within_events)+

lemma within_tool_call_checks:
  "tx_within R (approvalAllowsCompletion a)" "tx_within R (terminalApprovalCleanupAllowed c s)"
  "tx_within R (terminalSafeToolCallCleanupAllowed rec c r)"
  "tx_within R (terminalCommittedToolCallCorrectionAllowed rec c r)"
  unfolding approvalAllowsCompletion_def terminalApprovalCleanupAllowed_def terminalSafeToolCallCleanupAllowed_def
    terminalCommittedToolCallCorrectionAllowed_def approval_status_def
  by (intro within_if within_return within_bind within_case_option within_query_opt within_toolCallEventExistsTx)+

lemma within_finish_tool_call:
  "(\<And>at c. tc_id (f at c) = tc_id c) \<Longrightarrow> tx_within R (finish_tool_call rec r from f ty p)"
  unfolding finish_tool_call_def Let_def
  by (intro within_bind within_now_text within_gets within_then within_any_tool_calls within_expectOneRow
      within_events within_return) simp

lemma within_RecordToolCallAfterWithEvent: "tx_within R (RecordToolCallAfterWithEvent rec ty p)"
  unfolding RecordToolCallAfterWithEvent_def report_tool_call_def report_open_call_def Let_def
  by (intro within_bind within_query_opt within_case_option within_case_prod within_if within_fail within_return
      within_tool_call_checks within_finish_tool_call) (simp_all add: corrected_columns_def reported_columns_def)

lemmas within_tool_calls = within_tool_calls_before within_RecordToolCallAfterWithEvent

end

section \<open>What the operations do\<close>

lemma check_same:
  "approvalAllowsCompletion a w = Inr (b, w') \<Longrightarrow> w' = w"
  "terminalApprovalCleanupAllowed c s w = Inr (b, w') \<Longrightarrow> w' = w"
  "terminalSafeToolCallCleanupAllowed rec c r w = Inr (b, w') \<Longrightarrow> w' = w"
  "terminalCommittedToolCallCorrectionAllowed rec c r w = Inr (b, w') \<Longrightarrow> w' = w"
  unfolding approvalAllowsCompletion_def terminalApprovalCleanupAllowed_def terminalSafeToolCallCleanupAllowed_def
    terminalCommittedToolCallCorrectionAllowed_def approval_status_def toolCallEventExistsTx_def query_opt_def
  by (auto simp: tx_simps split: if_splits option.splits sum.splits)

lemma approvalAllowsCompletion_consumed:
  assumes "approvalAllowsCompletion aid w = Inr (True, w')"
  shows "\<exists>a \<in> set (approvals w). Some (ap_id a) = aid \<and> ap_status a = ''consumed''"
proof -
  obtain x where x: "aid = Some x" and s: "map_option ap_status (case filter (\<lambda>a. ap_id a = x) (approvals w) of
      [] \<Rightarrow> None | a # _ \<Rightarrow> Some a) = Some ''consumed''"
    using assms by (cases aid) (auto simp: approvalAllowsCompletion_def approval_status_def query_opt_def tx_simps)
  then obtain a rest where f: "filter (\<lambda>a. ap_id a = x) (approvals w) = a # rest" "ap_status a = ''consumed''"
    by (auto split: list.splits)
  then have "a \<in> set (filter (\<lambda>a. ap_id a = x) (approvals w))" by simp
  then show ?thesis using f(2) x by auto
qed

lemma finish_tool_call_Inr:
  assumes "finish_tool_call rec r from f ty p w = Inr ((b, ev), w')"
  shows "b \<and> ev \<noteq> None \<and> (\<exists>at. rows_affected (\<lambda>c. tc_id c = tca_ToolCallID rec \<and> tc_run_id c = tca_RunID rec \<and> from (tc_status c)) (tool_calls w) = 1
    \<and> tool_calls w' = update_where (\<lambda>c. tc_id c = tca_ToolCallID rec \<and> tc_run_id c = tca_RunID rec \<and> from (tc_status c)) (f at) (tool_calls w))
    \<and> approvals w' = approvals w \<and> agent_runs w' = agent_runs w \<and> jobs w' = jobs w"
proof -
  let ?p = "\<lambda>c. tc_id c = tca_ToolCallID rec \<and> tc_run_id c = tca_RunID rec \<and> from (tc_status c)"
  obtain at w1 w2 at2 w3 e where 1: "now_text w = Inr (at, w1)" and n: "rows_affected ?p (tool_calls w1) = 1"
    and w2: "w2 = w1\<lparr>tool_calls := update_where ?p (f at) (tool_calls w1)\<rparr>"
    and 3: "now_text w2 = Inr (at2, w3)"
    and 4: "appendRunEventTx (run_session_id r) (tca_RunID rec) (run_trace_id r) ty p at2 w3 = Inr (e, w')"
    and out: "b" "ev = Some e"
    using assms unfolding finish_tool_call_def Let_def
    by (elim tx_bindE tx_thenE) (simp add: expectOneRowErr_def split: if_splits)
  have c: "calm w w1" "calm w2 w'"
    using calm_query(3) [THEN tx_withinD, OF 1] calm_query(3) [THEN tx_withinD, OF 3]
      calm_appendRunEventTx [THEN tx_withinD, OF 4] calm.step_trans by blast+
  show ?thesis using out n c unfolding w2 by (auto simp: calm_def)
qed

text \<open>A report reaches the store only through the row it names.\<close>

lemma RecordToolCallAfter_cases:
  assumes "RecordToolCallAfterWithEvent input ty p w = Inr (x, w')"
  obtains c r where "(c, r) \<in> set (call_of_run (default_completed input) w)"
    "report_matches (default_completed input) c r" "report_tool_call (default_completed input) c r ty p w = Inr (x, w')"
proof (cases "call_of_run (default_completed input) w")
  case Nil
  then show ?thesis using assms by (simp add: RecordToolCallAfterWithEvent_def Let_def query_opt_def tx_bind_def)
next
  case (Cons cr rest)
  obtain c r where cr: "cr = (c, r)" by (cases cr)
  have "(c, r) \<in> set (call_of_run (default_completed input) w)" using Cons cr by simp
  moreover have "report_matches (default_completed input) c r" "report_tool_call (default_completed input) c r ty p w = Inr (x, w')"
    using assms Cons cr by (auto simp: RecordToolCallAfterWithEvent_def Let_def query_opt_def tx_bind_def split: if_splits)
  ultimately show ?thesis using that by blast
qed

lemma report_tool_call_cases:
  assumes "report_tool_call rec c r ty p w = Inr (x, w')"
  shows "(x = (False, None) \<and> w' = w)
    \<or> (\<exists>w1. terminalCommittedToolCallCorrectionAllowed rec c r w = Inr (True, w)
        \<and> finish_tool_call rec r (\<lambda>s. s = ''failed'') (corrected_columns rec) ty p w = Inr (x, w'))
    \<or> report_open_call rec c r ty p w = Inr (x, w')"
proof -
  obtain b1 w1 where 1: "terminalApprovalCleanupAllowed c (tca_Status rec) w = Inr (b1, w1)"
    and r1: "(if b1 then tx_return (False, None)
     else
       tx_bind (terminalSafeToolCallCleanupAllowed rec c r) (\<lambda>safeCleanup.
       if safeCleanup then tx_return (False, None)
       else
         tx_bind (terminalCommittedToolCallCorrectionAllowed rec c r) (\<lambda>correction.
         if correction
         then finish_tool_call rec r (\<lambda>s. s = ''failed'') (corrected_columns rec) ty p
         else report_open_call rec c r ty p))) w1 = Inr (x, w')"
    using assms unfolding report_tool_call_def by (elim tx_bindE)
  have w1: "w1 = w" by (rule check_same(2) [OF 1])
  show ?thesis
  proof (cases b1)
    case True
    then show ?thesis using r1 w1 by simp
  next
    case False
    with r1 w1 obtain b2 w2 where 2: "terminalSafeToolCallCleanupAllowed rec c r w = Inr (b2, w2)"
      and r2: "(if b2 then tx_return (False, None)
       else
         tx_bind (terminalCommittedToolCallCorrectionAllowed rec c r) (\<lambda>correction.
         if correction
         then finish_tool_call rec r (\<lambda>s. s = ''failed'') (corrected_columns rec) ty p
         else report_open_call rec c r ty p)) w2 = Inr (x, w')"
      by (auto elim!: tx_bindE)
    have w2: "w2 = w" by (rule check_same(3) [OF 2])
    show ?thesis
    proof (cases b2)
      case True
      then show ?thesis using r2 w2 by simp
    next
      case False
      with r2 w2 obtain b3 w3 where 3: "terminalCommittedToolCallCorrectionAllowed rec c r w = Inr (b3, w3)"
        and r3: "(if b3 then finish_tool_call rec r (\<lambda>s. s = ''failed'') (corrected_columns rec) ty p
           else report_open_call rec c r ty p) w3 = Inr (x, w')"
        by (auto elim!: tx_bindE)
      have "w3 = w" by (rule check_same(4) [OF 3])
      then show ?thesis using 3 r3 by (cases b3) simp_all
    qed
  qed
qed

lemma report_open_call_cases:
  assumes "report_open_call rec c r ty p w = Inr (x, w')"
  shows "(x = (False, None) \<and> w' = w \<and> report_repeats rec c)
    \<or> (isOpenToolCallStatus (tc_status c) \<and> run_status r \<in> set [lifecycleRunning, lifecycleWaitingApproval, lifecycleRecovering]
       \<and> (tca_Status rec = ''completed'' \<longrightarrow> toolCallCanComplete (tc_status c))
       \<and> (tc_status c = ''approval_required'' \<and> tca_Status rec = ''completed'' \<longrightarrow>
            approvalAllowsCompletion (tc_approval_id c) w = Inr (True, w))
       \<and> finish_tool_call rec r isOpenToolCallStatus (reported_columns rec) ty p w = Inr (x, w'))"
proof (cases "isOpenToolCallStatus (tc_status c)")
  case False
  then show ?thesis using assms by (auto simp: report_open_call_def split: if_splits)
next
  case True
  have g: "\<not> (tca_Status rec = ''completed'' \<and> \<not> toolCallCanComplete (tc_status c))"
      "run_status r \<in> set [lifecycleRunning, lifecycleWaitingApproval, lifecycleRecovering]"
    using assms True by (auto simp: report_open_call_def split: if_splits)
  then have "tx_bind (if tc_status c = ''approval_required'' \<and> tca_Status rec = ''completed''
      then approvalAllowsCompletion (tc_approval_id c) else tx_return True) (\<lambda>allowed.
      if \<not> allowed then tx_fail ErrToolCallInvalidTransition
      else finish_tool_call rec r isOpenToolCallStatus (reported_columns rec) ty p) w = Inr (x, w')"
    using assms True unfolding report_open_call_def by (simp only: if_False if_True simp_thms)
  then obtain b w1 where b: "(if tc_status c = ''approval_required'' \<and> tca_Status rec = ''completed''
                 then approvalAllowsCompletion (tc_approval_id c) else tx_return True) w = Inr (b, w1)"
    and rest: "(if \<not> b then tx_fail ErrToolCallInvalidTransition
        else finish_tool_call rec r isOpenToolCallStatus (reported_columns rec) ty p) w1 = Inr (x, w')"
    by (rule tx_bindE)
  have "b" using rest by (auto split: if_splits)
  moreover have "w1 = w" using b check_same(1) by (auto split: if_splits)
  ultimately show ?thesis using True g b rest by (auto split: if_splits)
qed

lemma report_write_free:
  assumes "RecordToolCallAfterWithEvent input ty p w = Inr ((False, ev), w')"
  shows "w' = w \<and> ev = None"
proof -
  obtain c r where run: "report_tool_call (default_completed input) c r ty p w = Inr ((False, ev), w')"
    by (rule RecordToolCallAfter_cases [OF assms])
  from report_tool_call_cases [OF run] consider "ev = None" "w' = w"
    | q f where "finish_tool_call (default_completed input) r q f ty p w = Inr ((False, ev), w')"
    | "report_open_call (default_completed input) c r ty p w = Inr ((False, ev), w')" by auto
  then show ?thesis
  proof cases
    case 2
    from finish_tool_call_Inr [OF this] show ?thesis by simp
  next
    case 3
    from report_open_call_cases [OF this] show ?thesis using finish_tool_call_Inr by fastforce
  qed simp
qed

text \<open>The call the report is about, before and after.\<close>

lemma report_completes_under_consumption:
  assumes db: "db_ok w" and run: "RecordToolCallAfterWithEvent input ty p w = Inr ((True, ev), w')"
    and c: "c \<in> set (tool_calls w)" "tc_id c = tca_ToolCallID input"
    and completed: "tca_Status (default_completed input) = ''completed''" and "tc_status c \<noteq> ''allowed''"
  shows "\<exists>a \<in> set (approvals w). Some (ap_id a) = tc_approval_id c \<and> ap_status a = ''consumed''"
proof -
  obtain c' r where cr: "(c', r) \<in> set (call_of_run (default_completed input) w)"
    and rep: "report_tool_call (default_completed input) c' r ty p w = Inr ((True, ev), w')"
    by (rule RecordToolCallAfter_cases [OF run])
  have "c' \<in> set (tool_calls w)" "tc_id c' = tc_id c"
    using cr c(2) by (auto simp: call_of_run_def default_completed_def split: if_splits)
  then have "c' = c" using db c(1) by (simp add: db_ok_def distinct_map inj_on_def)
  from report_tool_call_cases [OF rep] consider
      "terminalCommittedToolCallCorrectionAllowed (default_completed input) c r w = Inr (True, w)"
    | "report_open_call (default_completed input) c r ty p w = Inr ((True, ev), w')" using \<open>c' = c\<close> by auto
  then show ?thesis
  proof cases
    case 1
    then have "approvalAllowsCompletion (tc_approval_id c) w = Inr (True, w)"
      unfolding terminalCommittedToolCallCorrectionAllowed_def
      by (auto split: if_splits elim!: tx_bindE dest: check_same(1))
    then show ?thesis by (rule approvalAllowsCompletion_consumed)
  next
    case 2
    from report_open_call_cases [OF this] completed assms(6)
    have "approvalAllowsCompletion (tc_approval_id c) w = Inr (True, w)" by (auto simp: toolCallCanComplete_def)
    then show ?thesis by (rule approvalAllowsCompletion_consumed)
  qed
qed

end
