(* ===== verification/GoRunes.thy ===== *)
theory GoRunes
  imports GoStrings
begin

text \<open>
  Rune slices: the conversion \<^verbatim>\<open>string([]rune)\<close>, that decoding inverts it, and the functions of
  Go's \<^verbatim>\<open>strings\<close> that cut text into words (\<^verbatim>\<open>Fields\<close>, \<^verbatim>\<open>LastIndex\<close>, \<^verbatim>\<open>TrimRight\<close>, \<^verbatim>\<open>Cut\<close>).
\<close>

section \<open>Encoding\<close>

definition valid_rune :: "int \<Rightarrow> bool" where
  "valid_rune r \<longleftrightarrow> (0 \<le> r \<and> r < 0xD800) \<or> (0xE000 \<le> r \<and> r \<le> 0x10FFFF)"

text \<open>\<^verbatim>\<open>utf8.AppendRune\<close>: a value that is no Unicode scalar is encoded as the replacement rune.\<close>

definition encode_scalar :: "int \<Rightarrow> string" where
  "encode_scalar r =
     (if r < 0x80 then [byte_char r]
      else if r < 0x800 then [byte_char (0xC0 + r div 64), byte_char (0x80 + r mod 64)]
      else if r < 0x10000 then
        [byte_char (0xE0 + r div 4096), byte_char (0x80 + r div 64 mod 64), byte_char (0x80 + r mod 64)]
      else [byte_char (0xF0 + r div 262144), byte_char (0x80 + r div 4096 mod 64),
            byte_char (0x80 + r div 64 mod 64), byte_char (0x80 + r mod 64)])"

definition encode_rune :: "int \<Rightarrow> string" where
  "encode_rune r = encode_scalar (if valid_rune r then r else RuneError)"

definition encode_runes :: "int list \<Rightarrow> string" where
  "encode_runes rs = concat (map encode_rune rs)"

lemma encode_runes_simps [simp]:
  "encode_runes [] = []" "encode_runes (r # rs) = encode_rune r @ encode_runes rs"
  "encode_runes (rs @ ss) = encode_runes rs @ encode_runes ss"
  by (simp_all add: encode_runes_def)

lemma byte_byte_char: "0 \<le> n \<Longrightarrow> n < 256 \<Longrightarrow> byte (byte_char n) = n"
  by (simp add: byte_def byte_char_def)

lemma runes_ascii: "byte c < 0x80 \<Longrightarrow> runes (c # s) = byte c # runes s"
  by simp

lemma runes_multi: "\<not> byte c < 0x80 \<Longrightarrow> decode_multi (byte c) bs = Some (r, rest) \<Longrightarrow> runes (c # bs) = r # runes rest"
  by simp

lemma runes_encode2:
  assumes "0x80 \<le> r" "r < 0x800"
  shows "runes (encode_scalar r @ s) = r # runes s"
proof -
  define a c where ac: "a = r div 64" "c = r mod 64"
  have r: "r = 64 * a + c" "0 \<le> c" "c < 64" using ac by simp_all
  have a: "2 \<le> a" "a < 32" using r assms by linarith+
  have b: "byte (byte_char (0xC0 + a)) = 0xC0 + a" "byte (byte_char (0x80 + c)) = 0x80 + c"
    using r a by (simp_all add: byte_byte_char)
  have "decode_multi (0xC0 + a) (byte_char (0x80 + c) # s) = Some (r, s)"
    using a r b(2) by (simp add: decode_multi_def second_ok_def cont_byte_def)
  then show ?thesis using assms a b by (simp add: encode_scalar_def ac [symmetric])
qed

lemma runes_encode3:
  assumes "0x800 \<le> r" "r < 0x10000" "valid_rune r"
  shows "runes (encode_scalar r @ s) = r # runes s"
proof -
  define a b c where abc: "a = r div 4096" "b = r div 64 mod 64" "c = r mod 64"
  have "r div 64 div 64 = r div 4096" by (simp add: zdiv_zmult2_eq [symmetric])
  moreover have "r div 64 = 64 * (r div 64 div 64) + r div 64 mod 64" "r = 64 * (r div 64) + r mod 64" by simp_all
  ultimately have r: "r = 4096 * a + 64 * b + c" unfolding abc by linarith
  have bc: "0 \<le> b" "b < 64" "0 \<le> c" "c < 64" using abc by simp_all
  have a: "0 \<le> a" "a < 16" using r bc assms by linarith+
  have e0: "a = 0 \<Longrightarrow> 32 \<le> b" using r bc assms(1) by linarith
  have ed: "a = 13 \<Longrightarrow> b < 32" using r bc assms(3) by (auto simp: valid_rune_def)
  have y: "byte (byte_char (0xE0 + a)) = 0xE0 + a" "byte (byte_char (0x80 + b)) = 0x80 + b"
    "byte (byte_char (0x80 + c)) = 0x80 + c"
    using a bc by (simp_all add: byte_byte_char)
  have "second_ok (0xE0 + a) (0x80 + b)" using a bc e0 ed by (auto simp: second_ok_def cont_byte_def)
  then have "decode_multi (0xE0 + a) (byte_char (0x80 + b) # byte_char (0x80 + c) # s) = Some (r, s)"
    using a bc r y by (simp add: decode_multi_def cont_byte_def)
  then show ?thesis using assms a y by (simp add: encode_scalar_def abc [symmetric])
qed

lemma runes_encode4:
  assumes "0x10000 \<le> r" "r \<le> 0x10FFFF"
  shows "runes (encode_scalar r @ s) = r # runes s"
proof -
  define a b c d where abcd: "a = r div 262144" "b = r div 4096 mod 64" "c = r div 64 mod 64" "d = r mod 64"
  have "r div 4096 div 64 = r div 262144" "r div 64 div 64 = r div 4096" by (simp_all add: zdiv_zmult2_eq [symmetric])
  moreover have "r div 4096 = 64 * (r div 4096 div 64) + r div 4096 mod 64" "r div 64 = 64 * (r div 64 div 64) + r div 64 mod 64"
    "r = 64 * (r div 64) + r mod 64" by simp_all
  ultimately have r: "r = 262144 * a + 4096 * b + 64 * c + d" unfolding abcd by linarith
  have bc: "0 \<le> b" "b < 64" "0 \<le> c" "c < 64" "0 \<le> d" "d < 64" using abcd by simp_all
  have a: "0 \<le> a" "a < 5" using r bc assms by linarith+
  have f0: "a = 0 \<Longrightarrow> 16 \<le> b" using r bc assms(1) by linarith
  have f4: "a = 4 \<Longrightarrow> b < 16" using r bc assms(2) by linarith
  have y: "byte (byte_char (0xF0 + a)) = 0xF0 + a" "byte (byte_char (0x80 + b)) = 0x80 + b"
    "byte (byte_char (0x80 + c)) = 0x80 + c" "byte (byte_char (0x80 + d)) = 0x80 + d"
    using a bc by (simp_all add: byte_byte_char)
  have "second_ok (0xF0 + a) (0x80 + b)" using a bc f0 f4 by (auto simp: second_ok_def cont_byte_def)
  then have "decode_multi (0xF0 + a) (byte_char (0x80 + b) # byte_char (0x80 + c) # byte_char (0x80 + d) # s) = Some (r, s)"
    using a bc r y by (simp add: decode_multi_def cont_byte_def)
  then show ?thesis using assms a y by (simp add: encode_scalar_def abcd [symmetric])
qed

lemma runes_encode_rune: "valid_rune r \<Longrightarrow> runes (encode_rune r @ s) = r # runes s"
proof -
  assume v: "valid_rune r"
  then have r: "0 \<le> r" "r \<le> 0x10FFFF" by (auto simp: valid_rune_def)
  consider "r < 0x80" | "0x80 \<le> r" "r < 0x800" | "0x800 \<le> r" "r < 0x10000" | "0x10000 \<le> r" by linarith
  then show ?thesis
  proof cases
    case 1
    then show ?thesis using v r by (simp add: encode_rune_def encode_scalar_def byte_byte_char)
  next
    case 2
    then show ?thesis using v runes_encode2 by (simp add: encode_rune_def)
  next
    case 3
    then show ?thesis using v runes_encode3 by (simp add: encode_rune_def)
  next
    case 4
    then show ?thesis using v r runes_encode4 by (simp add: encode_rune_def)
  qed
qed

lemma runes_encode_append: "list_all valid_rune rs \<Longrightarrow> runes (encode_runes rs @ s) = rs @ runes s"
  by (induction rs) (simp_all add: runes_encode_rune)

lemma runes_encode_runes: "list_all valid_rune rs \<Longrightarrow> runes (encode_runes rs) = rs"
  using runes_encode_append [of rs "[]"] by simp

lemma decode_multi_valid:
  assumes "decode_multi x bs = Some (r, rest)"
  shows "valid_rune r"
proof -
  from assms consider
      (two) y where "0xC2 \<le> x" "x \<le> 0xDF" "second_ok x y" "r = (x - 0xC0) * 64 + (y - 0x80)"
    | (three) y z where "0xE0 \<le> x" "x \<le> 0xEF" "second_ok x y" "cont_byte z"
        "r = (x - 0xE0) * 4096 + (y - 0x80) * 64 + (z - 0x80)"
    | (four) y z u where "0xF0 \<le> x" "x \<le> 0xF4" "second_ok x y" "cont_byte z" "cont_byte u"
        "r = (x - 0xF0) * 262144 + (y - 0x80) * 4096 + (z - 0x80) * 64 + (u - 0x80)"
    unfolding decode_multi_def by (auto split: if_splits list.splits)
  then show ?thesis
  proof cases
    case two
    then have "0x80 \<le> y" "y \<le> 0xBF" by (simp_all add: second_ok_def cont_byte_def)
    then have "0 \<le> r" "r < 0xD800" using two by simp_all
    then show ?thesis by (simp add: valid_rune_def)
  next
    case three
    then have "0x80 \<le> y" "y \<le> 0xBF" "x = 0xED \<Longrightarrow> y \<le> 0x9F"
      by (simp_all add: second_ok_def cont_byte_def split: if_splits)
    then have "0 \<le> r" "x < 0xED \<Longrightarrow> r < 0xD800" "x = 0xED \<Longrightarrow> r < 0xD800" "0xED < x \<Longrightarrow> 0xE000 \<le> r" "r \<le> 0x10FFFF"
      using three unfolding cont_byte_def by simp_all
    then show ?thesis by (cases x "0xED::int" rule: linorder_cases) (simp_all add: valid_rune_def)
  next
    case four
    then have "0x80 \<le> y" "y \<le> 0xBF" "x = 0xF4 \<Longrightarrow> y \<le> 0x8F" "x = 0xF0 \<Longrightarrow> 0x90 \<le> y"
      by (simp_all add: second_ok_def cont_byte_def split: if_splits)
    then have "0xE000 \<le> r" "r \<le> 0x10FFFF"
      using four unfolding cont_byte_def by (cases "x = 0xF4"; cases "x = 0xF0"; simp)+
    then show ?thesis by (simp add: valid_rune_def)
  qed
qed

lemma runes_valid: "list_all valid_rune (runes s)"
proof (induction s rule: runes.induct)
  case 1
  then show ?case by simp
next
  case (2 b bs)
  then show ?case
    using byte_range(1) [of b] by (auto simp: valid_rune_def RuneError_def dest: decode_multi_valid split: option.splits)
qed

text \<open>An ASCII byte of an encoding is a rune of its own.\<close>

lemma encode_scalar_bytes:
  assumes "0x80 \<le> r" "r \<le> 0x10FFFF" "c \<in> set (encode_scalar r)"
  shows "0x80 \<le> byte c"
proof -
  have "0 \<le> r div 64" "0 \<le> r div 4096" "0 \<le> r div 262144" "r < 0x800 \<Longrightarrow> r div 64 < 32"
    "r < 0x10000 \<Longrightarrow> r div 4096 < 16" "r div 262144 < 5" using assms(1,2) by linarith+
  moreover have "0 \<le> r mod 64" "r mod 64 < 64" "0 \<le> r div 64 mod 64" "r div 64 mod 64 < 64"
    "0 \<le> r div 4096 mod 64" "r div 4096 mod 64 < 64" by simp_all
  ultimately show ?thesis
    using assms(1,3) by (auto simp: encode_scalar_def byte_byte_char split: if_splits)
qed

lemma encode_runes_cut:
  assumes "list_all valid_rune rs" "encode_runes rs = a @ c # b" "byte c < 0x80"
  shows "\<exists>rs1 rs2. rs = rs1 @ byte c # rs2 \<and> a = encode_runes rs1 \<and> b = encode_runes rs2"
  using assms(1,2)
proof (induction rs arbitrary: a)
  case Nil
  then show ?case by simp
next
  case (Cons r rs)
  have v: "valid_rune r" "0 \<le> r" "r \<le> 0x10FFFF" using Cons.prems(1) by (auto simp: valid_rune_def)
  have split: "encode_scalar r @ encode_runes rs = a @ c # b" using Cons.prems(2) v(1) by (simp add: encode_rune_def)
  show ?case
  proof (cases "length (encode_scalar r) \<le> length a")
    case True
    then obtain a' where a: "a = encode_scalar r @ a'" using split by (metis append_eq_append_conv_if append_take_drop_id)
    then have "encode_runes rs = a' @ c # b" using split by simp
    then obtain rs1 rs2 where "rs = rs1 @ byte c # rs2" "a' = encode_runes rs1" "b = encode_runes rs2"
      using Cons.IH Cons.prems(1) by auto
    then have "r # rs = (r # rs1) @ byte c # rs2 \<and> a = encode_runes (r # rs1) \<and> b = encode_runes rs2"
      using a v(1) by (simp add: encode_rune_def)
    then show ?thesis by blast
  next
    case False
    then have "c \<in> set (encode_scalar r)"
      using split by (metis append_eq_append_conv_if in_set_conv_decomp list.set_intros(1) nth_append_length nth_mem nth_append not_le)
    then have small: "r < 0x80" using encode_scalar_bytes [of r c] v assms(3) by force
    then have "encode_scalar r = [byte_char r]" by (simp add: encode_scalar_def)
    then have "a = []" "c = byte_char r" "b = encode_runes rs" using split False by (auto simp: Cons_eq_append_conv)
    then show ?thesis using small v byte_byte_char [of r] by (intro exI [of _ "[]"] exI [of _ rs]) simp
  qed
qed

section \<open>Words\<close>

text \<open>\<^verbatim>\<open>strings.Fields\<close>: the maximal runs of text between white space.\<close>

definition flush :: "string \<Rightarrow> string list" where
  "flush cur = (if cur = [] then [] else [cur])"

function fields :: "string \<Rightarrow> string \<Rightarrow> string list" where
  "fields cur [] = flush cur"
| "fields cur (b # bs) =
     (if byte b < 0x80 then (if IsSpace (byte b) then flush cur @ fields [] bs else fields (cur @ [b]) bs)
      else (case decode_multi (byte b) bs of
              Some (r, rest) \<Rightarrow>
                if IsSpace r then flush cur @ fields [] rest
                else fields (cur @ b # take (length bs - length rest) bs) rest
            | None \<Rightarrow> fields (cur @ [b]) bs))"
  by pat_completeness auto
termination
  by (relation "measure (\<lambda>(cur, s). length s)") (auto dest: decode_multi_length)

definition Fields :: "string \<Rightarrow> string list" where
  "Fields s = fields [] s"

text \<open>The index of the last occurrence of a byte, as \<^verbatim>\<open>strings.LastIndex\<close> of a one-byte needle.\<close>

definition LastIndexByte :: "string \<Rightarrow> char \<Rightarrow> int" where
  "LastIndexByte s c = int (length s) - int (length (takeWhile (\<lambda>x. x \<noteq> c) (rev s))) - 1"

text \<open>\<^verbatim>\<open>strings.TrimRight\<close> with a one-byte cutset.\<close>

definition TrimRightByte :: "string \<Rightarrow> char \<Rightarrow> string" where
  "TrimRightByte s c = rev (dropWhile (\<lambda>x. x = c) (rev s))"

text \<open>\<^verbatim>\<open>strings.Cut\<close> at a one-byte separator.\<close>

definition CutByte :: "string \<Rightarrow> char \<Rightarrow> string \<times> string \<times> bool" where
  "CutByte s c = (let before = takeWhile (\<lambda>x. x \<noteq> c) s in
     if length before < length s then (before, drop (Suc (length before)) s, True) else (s, [], False))"

lemma LastIndexByte_split:
  assumes "LastIndexByte s c = int n"
  shows "\<exists>b. s = take n s @ c # b"
proof -
  define u where "u = takeWhile (\<lambda>x. x \<noteq> c) (rev s)"
  have len: "length s = Suc n + length u" using assms unfolding LastIndexByte_def u_def [symmetric] by linarith
  have "length u < length (rev s)" using len by simp
  then have "rev s ! length u = c" unfolding u_def using nth_length_takeWhile by blast
  moreover have "rev s ! length u = s ! n" using len by (simp add: rev_nth)
  ultimately have "s ! n = c" by simp
  moreover have "s = take n s @ s ! n # drop (Suc n) s" using len by (intro id_take_nth_drop) simp
  ultimately show ?thesis by metis
qed

lemma TrimRightByte_prefix: "\<exists>k. s = TrimRightByte s c @ replicate k c"
proof -
  have "rev s = takeWhile (\<lambda>x. x = c) (rev s) @ dropWhile (\<lambda>x. x = c) (rev s)" by simp
  then have "s = TrimRightByte s c @ rev (takeWhile (\<lambda>x. x = c) (rev s))"
    unfolding TrimRightByte_def by (metis rev_append rev_rev_ident)
  moreover have "rev (takeWhile (\<lambda>x. x = c) (rev s)) = replicate (length (takeWhile (\<lambda>x. x = c) (rev s))) c"
    by (rule replicate_eqI) (auto dest: set_takeWhileD)
  ultimately show ?thesis by metis
qed

end
