(* ===== verification/EgressDecision.thy ===== *)
theory EgressDecision
  imports GoRunes EgressFraming Store
begin

text \<open>
  Consent to remote egress: endpoints (\<^verbatim>\<open>internal/egress/endpoint.go\<close>), the skill snapshot
  fingerprint and display names (\<^verbatim>\<open>internal/egress/context.go\<close>), and the decision a run carries when
  its data may leave the machine (\<^verbatim>\<open>internal/repository/egress.go\<close>).
\<close>

section \<open>Endpoints\<close>

datatype EndpointClass = EndpointHTTPS | EndpointLoopbackHTTP | EndpointHTTP

record Endpoint =
  ep_Canonical :: string
  ep_Host :: string
  ep_Class :: EndpointClass

text \<open>\<^verbatim>\<open>URL.Hostname\<close> and \<^verbatim>\<open>URL.Port\<close> (\<^verbatim>\<open>splitHostPort\<close> of \<^verbatim>\<open>net/url\<close>).\<close>

definition splitHostPort :: "string \<Rightarrow> string \<times> string" where
  "splitHostPort hostPort =
     (let colon = LastIndexByte hostPort (CHR '':'');
          port = drop (nat (colon + 1)) hostPort;
          (host, p) = (if colon \<noteq> -1 \<and> list_all is_digit port then (take (nat colon) hostPort, port)
                       else (hostPort, '''')) in
      (if host \<noteq> [] \<and> hd host = CHR ''['' \<and> last host = CHR '']'' then butlast (tl host) else host, p))"

definition Hostname :: "URL \<Rightarrow> string" where "Hostname u = fst (splitHostPort (url_Host u))"
definition Port :: "URL \<Rightarrow> string" where "Port u = snd (splitHostPort (url_Host u))"

text \<open>The default port of a scheme is dropped; a port out of range is refused.\<close>

definition canonical_port :: "string \<Rightarrow> string \<Rightarrow> string option" where
  "canonical_port scheme port =
     (if port = '''' then Some ''''
      else let n = number port in
        if n \<le> 0 \<or> n > 65535 then None
        else if (scheme = ''https'' \<and> n = 443) \<or> (scheme = ''http'' \<and> n = 80) then Some ''''
        else Some (dec n))"

text \<open>The host as a URL writes it, and whether it is this machine.\<close>

definition canonical_host :: "net_library \<Rightarrow> string \<Rightarrow> string \<times> bool" where
  "canonical_host lib hostname =
     (case netip_ParseAddr lib hostname of
        None \<Rightarrow> (hostname, hostname = ''localhost'')
      | Some a \<Rightarrow> (if addr_Is6 a then ''['' @ addr_String a @ '']'' else addr_String a, addr_IsLoopback a))"

definition plain_url :: "URL \<Rightarrow> bool" where
  "plain_url u \<longleftrightarrow> url_Opaque u = '''' \<and> url_Scheme u \<noteq> '''' \<and> Hostname u \<noteq> '''' \<and> \<not> url_User u
     \<and> url_RawQuery u = '''' \<and> \<not> url_ForceQuery u \<and> url_Fragment u = ''''"

definition canonical_url :: "net_library \<Rightarrow> string \<Rightarrow> string \<Rightarrow> URL \<Rightarrow> string" where
  "canonical_url lib scheme host u =
     TrimRightByte (url_String lib \<lparr>url_Scheme = scheme, url_Opaque = '''', url_User = False, url_Host = host,
       url_Path = url_Path u, url_RawPath = url_RawPath u, url_ForceQuery = False, url_RawQuery = '''',
       url_Fragment = ''''\<rparr>) (CHR ''/'')"

definition parseEndpoint :: "net_library \<Rightarrow> string \<Rightarrow> bool \<Rightarrow> Endpoint result" where
  "parseEndpoint lib raw keyed =
     (if raw = '''' \<or> raw \<noteq> TrimSpace raw \<or> CHR ''#'' \<in> set raw then Inl ErrInvalidKeyedEndpoint
      else case url_Parse lib raw of
        None \<Rightarrow> Inl ErrInvalidKeyedEndpoint
      | Some u \<Rightarrow>
          if \<not> plain_url u then Inl ErrInvalidKeyedEndpoint
          else let scheme = strings_ToLower lib (url_Scheme u); hostname = strings_ToLower lib (Hostname u) in
          if scheme \<noteq> ''http'' \<and> scheme \<noteq> ''https'' then Inl ErrInvalidKeyedEndpoint
          else if CHR '':'' \<in> set hostname \<and> netip_ParseAddr lib hostname = None then Inl ErrInvalidKeyedEndpoint
          else case canonical_port scheme (Port u) of
            None \<Rightarrow> Inl ErrInvalidKeyedEndpoint
          | Some port \<Rightarrow>
              let (host, loopback) = canonical_host lib hostname;
                  hostForURL = (if port \<noteq> '''' then host @ '':'' @ port else host);
                  canonical = canonical_url lib scheme hostForURL u;
                  cls = (if scheme = ''http'' then (if loopback then EndpointLoopbackHTTP else EndpointHTTP)
                         else EndpointHTTPS) in
              if scheme = ''http'' \<and> keyed \<and> \<not> loopback then Inl ErrInvalidKeyedEndpoint
              else if canonical = scheme @ '':'' then Inl ErrInvalidKeyedEndpoint
              else Inr \<lparr>ep_Canonical = canonical, ep_Host = hostForURL, ep_Class = cls\<rparr>)"

definition ParseKeyedEndpoint :: "net_library \<Rightarrow> string \<Rightarrow> Endpoint result" where
  "ParseKeyedEndpoint lib raw = parseEndpoint lib raw True"

definition ParseUnkeyedEndpoint :: "net_library \<Rightarrow> string \<Rightarrow> Endpoint result" where
  "ParseUnkeyedEndpoint lib raw = parseEndpoint lib raw False"

definition ParseLocalEndpoint :: "net_library \<Rightarrow> string \<Rightarrow> Endpoint result" where
  "ParseLocalEndpoint lib raw =
     (case parseEndpoint lib raw False of
        Inl _ \<Rightarrow> Inl ErrInvalidLocalEndpoint
      | Inr endpoint \<Rightarrow>
          (case url_Parse lib (ep_Canonical endpoint) of
             None \<Rightarrow> Inl ErrInvalidLocalEndpoint
           | Some u \<Rightarrow>
               let hostname = strings_ToLower lib (Hostname u) in
               if hostname = ''localhost'' \<or> hostname = ''host.docker.internal'' then Inr endpoint
               else case netip_ParseAddr lib hostname of
                 None \<Rightarrow> Inl ErrInvalidLocalEndpoint
               | Some a \<Rightarrow> if addr_IsLoopback a then Inr endpoint else Inl ErrInvalidLocalEndpoint))"

section \<open>Skill snapshots\<close>

definition DecisionVersion :: int where "DecisionVersion = 3"

record SkillSnapshot =
  sk_SkillID :: string
  sk_Name :: string
  sk_Description :: string
  sk_Category :: string
  sk_Body :: string
  sk_References :: "(string \<times> string) list"
  sk_Withheld :: bool
  sk_MissingCapabilities :: "string list"
  sk_Instructions :: string

text \<open>
  \<^verbatim>\<open>json.Marshal\<close> of the canonical snapshots: members in the order of the struct, the keys of the
  reference map sorted, an empty map or slice as \<^verbatim>\<open>null\<close>.
\<close>

definition json_object :: "(string \<times> string) list \<Rightarrow> string" where
  "json_object members = ''{'' @ Join (map (\<lambda>(k, v). json_quote k @ '':'' @ v) members) '','' @ ''}''"

definition json_array :: "string list \<Rightarrow> string" where
  "json_array xs = ''['' @ Join xs '','' @ '']''"

definition json_strings_or_null :: "string list \<Rightarrow> string" where
  "json_strings_or_null xs = (if xs = [] then ''null'' else json_array (map json_quote xs))"

definition skillSnapshotCanonical :: "SkillSnapshot \<Rightarrow> string" where
  "skillSnapshotCanonical s =
     json_object [(''skill_id'', json_quote (sk_SkillID s)), (''name'', json_quote (sk_Name s)),
       (''description'', json_quote (sk_Description s)), (''category'', json_quote (sk_Category s)),
       (''instructions'', json_quote (if sk_Body s = '''' then sk_Instructions s else sk_Body s)),
       (''references'', if sk_References s = [] then ''null''
          else json_object (map (\<lambda>(k, v). (k, json_quote v)) (sort_key fst (sk_References s)))),
       (''withheld'', json_bool (sk_Withheld s)),
       (''missing_capabilities'', json_strings_or_null (sort (sk_MissingCapabilities s)))]"

definition skillSnapshotFingerprint :: "SkillSnapshot list \<Rightarrow> string" where
  "skillSnapshotFingerprint snapshots = sha256_hex (json_array (map skillSnapshotCanonical snapshots))"

text \<open>Names shown in a disclosure: control and format characters go, white space is collapsed.\<close>

definition IsControl :: "int \<Rightarrow> bool" where
  "IsControl r \<longleftrightarrow> (0 \<le> r \<and> r < 0x20) \<or> (0x7F \<le> r \<and> r < 0xA0)"

definition in_Cf :: "int \<Rightarrow> bool" where
  "in_Cf r \<longleftrightarrow> list_ex (\<lambda>(lo, hi). lo \<le> r \<and> r \<le> hi)
     [(0xAD, 0xAD), (0x600, 0x605), (0x61C, 0x61C), (0x6DD, 0x6DD), (0x70F, 0x70F), (0x890, 0x891),
      (0x8E2, 0x8E2), (0x180E, 0x180E), (0x200B, 0x200F), (0x202A, 0x202E), (0x2060, 0x2064),
      (0x2066, 0x206F), (0xFEFF, 0xFEFF), (0xFFF9, 0xFFFB), (0x110BD, 0x110BD), (0x110CD, 0x110CD),
      (0x13430, 0x1343F), (0x1BCA0, 0x1BCA3), (0x1D173, 0x1D17A), (0xE0001, 0xE0001), (0xE0020, 0xE007F)]"

definition ellipsis :: string where "ellipsis = [CHR 0xE2, CHR 0x80, CHR 0xA6]"

definition sanitizeSkillDisplayText :: "string \<Rightarrow> string" where
  "sanitizeSkillDisplayText value =
     Join (Fields (encode_runes (map (\<lambda>r. if IsSpace r then 0x20 else r)
       (filter (\<lambda>r. IsSpace r \<or> \<not> (IsControl r \<or> in_Cf r)) (runes value))))) '' ''"

definition isEmptySkillDisplayName :: "string \<Rightarrow> bool" where
  "isEmptySkillDisplayName value \<longleftrightarrow> list_all (\<lambda>c. c \<in> set [CHR ''/'', CHR 0x5C, CHR 0x20]) value"

definition maxSkillDisplayNameRunes :: nat where "maxSkillDisplayNameRunes = 80"

definition SanitizeSkillDisplayName :: "string \<Rightarrow> string \<Rightarrow> string" where
  "SanitizeSkillDisplayName displayName skillID =
     (let s0 = sanitizeSkillDisplayText displayName;
          s1 = (if isEmptySkillDisplayName s0 then sanitizeSkillDisplayText skillID else s0);
          sanitized = (if isEmptySkillDisplayName s1 then ''(unnamed)'' else s1);
          rs = runes sanitized in
      if length rs > maxSkillDisplayNameRunes
      then encode_runes (take (maxSkillDisplayNameRunes - 1) rs) @ ellipsis else sanitized)"

definition HashCredentialReference :: "string \<Rightarrow> string" where
  "HashCredentialReference reference = sha256_hex reference"

section \<open>Pending decisions\<close>

definition LocalProvider :: string where "LocalProvider = ''ollama''"
definition GitHubIntegrationEndpoint :: string where "GitHubIntegrationEndpoint = ''https://api.github.com''"
definition GitHubIntegrationEndpointHost :: string where "GitHubIntegrationEndpointHost = ''api.github.com''"
definition MaxIntegrationEndpoints :: nat where "MaxIntegrationEndpoints = 16"
definition MaxIntegrationEndpointEntryBytes :: int where "MaxIntegrationEndpointEntryBytes = 768"
definition maxIntegrationDisplayNameRunes :: nat where "maxIntegrationDisplayNameRunes = 64"

definition validEgressDataCategories :: "(string \<times> int) list" where
  "validEgressDataCategories =
     [(''EGRESS_DATA_CATEGORY_CURRENT_MESSAGE'', 1), (''EGRESS_DATA_CATEGORY_CONVERSATION_HISTORY'', 2),
      (''EGRESS_DATA_CATEGORY_CROSS_SESSION_RECALL'', 3), (''EGRESS_DATA_CATEGORY_MEMORY_PROFILE'', 4),
      (''EGRESS_DATA_CATEGORY_SKILL_CONTENT'', 5), (''EGRESS_DATA_CATEGORY_TOOL_SCHEMAS'', 6),
      (''EGRESS_DATA_CATEGORY_TOOL_ARGUMENTS'', 7), (''EGRESS_DATA_CATEGORY_TOOL_RESULTS'', 8),
      (''EGRESS_DATA_CATEGORY_ATTACHMENTS'', 9)]"

record PendingEgressDecision =
  pd_Version :: int
  pd_ChallengeNonce :: string
  pd_ChallengeFingerprint :: string
  pd_RequestDigest :: string
  pd_Provider :: string
  pd_Model :: string
  pd_ExternalAgentID :: string
  pd_ExternalCredentialRefHash :: string
  pd_Endpoint :: string
  pd_EndpointHost :: string
  pd_DataCategories :: "string list"
  pd_SelectedTools :: "string list"
  pd_SkillSnapshotFingerprint :: string
  pd_RecallApplicable :: bool
  pd_MemoryProfileApplicable :: bool
  pd_MemorySnapshotFingerprint :: string
  pd_ConsentGrantedAt :: string
  pd_RemoteMCPServers :: "RemoteMCPServerEgress list"
  pd_IntegrationEndpoints :: "IntegrationEndpointEgress list"

fun hasEmptyOrDuplicate :: "string list \<Rightarrow> bool" where
  "hasEmptyOrDuplicate [] = False"
| "hasEmptyOrDuplicate [v] = (TrimSpace v = '''')"
| "hasEmptyOrDuplicate (v # u # vs) = (TrimSpace v = '''' \<or> v = u \<or> hasEmptyOrDuplicate (u # vs))"

definition integration_key :: "IntegrationEndpointEgress \<Rightarrow> string \<times> string" where
  "integration_key e = (ie_Endpoint e, ie_ConnectionID e)"

definition cloneIntegrationEndpoints :: "IntegrationEndpointEgress list \<Rightarrow> IntegrationEndpointEgress list" where
  "cloneIntegrationEndpoints input = map (\<lambda>e. e\<lparr>ie_Tools := sort (ie_Tools e)\<rparr>) input"

definition sortIntegrationEndpoints :: "IntegrationEndpointEgress list \<Rightarrow> IntegrationEndpointEgress list" where
  "sortIntegrationEndpoints input = sort_key integration_key input"

definition validIntegrationEndpoint :: "IntegrationEndpointEgress \<Rightarrow> bool" where
  "validIntegrationEndpoint e \<longleftrightarrow> ie_Endpoint e = GitHubIntegrationEndpoint \<and> ie_EndpointHost e = GitHubIntegrationEndpointHost
     \<and> ie_ConnectionID e \<noteq> '''' \<and> ie_DisplayName e \<noteq> '''' \<and> ie_Tools e \<noteq> []
     \<and> \<not> hasEmptyOrDuplicate (ie_Tools e) \<and> sorted (ie_Tools e)
     \<and> length (runes (ie_DisplayName e)) \<le> maxIntegrationDisplayNameRunes"

text \<open>\<^verbatim>\<open>json.Marshal\<close> of an endpoint entry; its tools are never nil where its size is taken.\<close>

definition IntegrationEndpointEntrySize :: "IntegrationEndpointEgress \<Rightarrow> int" where
  "IntegrationEndpointEntrySize e =
     int (length (json_object [(''endpoint'', json_quote (ie_Endpoint e)), (''endpoint_host'', json_quote (ie_EndpointHost e)),
       (''connection_id'', json_quote (ie_ConnectionID e)), (''display_name'', json_quote (ie_DisplayName e)),
       (''tools'', json_array (map json_quote (ie_Tools e)))]))"

text \<open>The copies \<^verbatim>\<open>clonePendingEgressDecision\<close> and the normalization start from.\<close>

definition clonePendingEgressDecision :: "PendingEgressDecision \<Rightarrow> PendingEgressDecision" where
  "clonePendingEgressDecision p = p\<lparr>pd_SelectedTools := sort (pd_SelectedTools p),
     pd_RemoteMCPServers := sort_key re_ServerName (pd_RemoteMCPServers p),
     pd_IntegrationEndpoints := sortIntegrationEndpoints (cloneIntegrationEndpoints (pd_IntegrationEndpoints p))\<rparr>"

definition complete_decision :: "PendingEgressDecision \<Rightarrow> bool" where
  "complete_decision p \<longleftrightarrow> pd_Version p = DecisionVersion \<and> pd_ChallengeNonce p \<noteq> '''' \<and> pd_ChallengeFingerprint p \<noteq> ''''
     \<and> pd_RequestDigest p \<noteq> '''' \<and> (pd_Provider p = ''openai_compatible'' \<or> pd_Provider p = LocalProvider)
     \<and> pd_Model p \<noteq> '''' \<and> (pd_ExternalAgentID p = '''' \<longleftrightarrow> pd_ExternalCredentialRefHash p = '''')
     \<and> pd_SkillSnapshotFingerprint p \<noteq> '''' \<and> pd_MemorySnapshotFingerprint p \<noteq> '''' \<and> pd_ConsentGrantedAt p \<noteq> ''''
     \<and> \<not> hasEmptyOrDuplicate (pd_SelectedTools p)"

text \<open>A remote model has an endpoint; a local one has none, and a reason to ask: a tool that leaves.\<close>

definition destination_stated :: "PendingEgressDecision \<Rightarrow> bool" where
  "destination_stated p \<longleftrightarrow>
     (if pd_Provider p = ''openai_compatible'' then pd_Endpoint p \<noteq> '''' \<and> pd_EndpointHost p \<noteq> ''''
      else pd_Endpoint p = '''' \<and> pd_EndpointHost p = '''' \<and> pd_ExternalAgentID p = '''' \<and> pd_ExternalCredentialRefHash p = ''''
        \<and> (pd_RemoteMCPServers p \<noteq> [] \<or> pd_IntegrationEndpoints p \<noteq> []))"

fun categories_ascend :: "int \<Rightarrow> string list \<Rightarrow> bool" where
  "categories_ascend previous [] = True"
| "categories_ascend previous (c # cs) =
     (case map_of validEgressDataCategories c of
        None \<Rightarrow> False
      | Some order \<Rightarrow> previous < order \<and> categories_ascend order cs)"

definition canonical_endpoint :: "net_library \<Rightarrow> string \<Rightarrow> string \<Rightarrow> bool" where
  "canonical_endpoint lib endpoint host =
     (case ParseKeyedEndpoint lib endpoint of Inl _ \<Rightarrow> False | Inr e \<Rightarrow> ep_Canonical e = endpoint \<and> ep_Host e = host)"

fun remote_servers_ok :: "net_library \<Rightarrow> RemoteMCPServerEgress list \<Rightarrow> bool" where
  "remote_servers_ok lib [] = True"
| "remote_servers_ok lib (d # ds) =
     (re_ServerName d \<noteq> '''' \<and> (ds = [] \<or> re_ServerName (hd ds) \<noteq> re_ServerName d)
      \<and> canonical_endpoint lib (re_Endpoint d) (re_EndpointHost d) \<and> remote_servers_ok lib ds)"

fun integrations_ok :: "IntegrationEndpointEgress list \<Rightarrow> bool" where
  "integrations_ok [] = True"
| "integrations_ok (d # ds) =
     (validIntegrationEndpoint d \<and> (ds = [] \<or> integration_key d < integration_key (hd ds))
      \<and> IntegrationEndpointEntrySize d \<le> MaxIntegrationEndpointEntryBytes \<and> integrations_ok ds)"

definition normalizePendingEgressDecision ::
  "net_library \<Rightarrow> PendingEgressDecision option \<Rightarrow> PendingEgressDecision option result" where
  "normalizePendingEgressDecision lib input =
     (case input of
        None \<Rightarrow> Inr None
      | Some pending \<Rightarrow>
          let p = clonePendingEgressDecision pending in
          if complete_decision p \<and> destination_stated p \<and> pd_DataCategories p \<noteq> [] \<and> categories_ascend 0 (pd_DataCategories p)
             \<and> (pd_Endpoint p \<noteq> '''' \<longrightarrow> canonical_endpoint lib (pd_Endpoint p) (pd_EndpointHost p))
             \<and> remote_servers_ok lib (pd_RemoteMCPServers p)
             \<and> length (pd_IntegrationEndpoints p) \<le> MaxIntegrationEndpoints \<and> integrations_ok (pd_IntegrationEndpoints p)
             \<and> (case time_Parse (pd_ConsentGrantedAt p) of Inl _ \<Rightarrow> False | Inr _ \<Rightarrow> True)
          then Inr (Some p) else Inl ErrEgressDecisionInvalid)"

definition egressDecisionSelectedTools :: "PendingEgressDecision option \<Rightarrow> string list \<Rightarrow> string list" where
  "egressDecisionSelectedTools decision fallback =
     (case decision of Some d \<Rightarrow> pd_SelectedTools d | None \<Rightarrow> remdups_adj (sort fallback))"

section \<open>Stored decisions\<close>

definition stored_decision :: "string \<Rightarrow> string \<Rightarrow> PendingEgressDecision \<Rightarrow> RunEgressDecision" where
  "stored_decision decisionID runID p = \<lparr>ed_DecisionID = decisionID, ed_RunID = runID, ed_Version = pd_Version p,
     ed_ChallengeNonce = pd_ChallengeNonce p, ed_ChallengeFingerprint = pd_ChallengeFingerprint p,
     ed_RequestDigest = pd_RequestDigest p, ed_Provider = pd_Provider p, ed_Model = pd_Model p,
     ed_ExternalAgentID = pd_ExternalAgentID p, ed_ExternalCredentialRefHash = pd_ExternalCredentialRefHash p,
     ed_Endpoint = pd_Endpoint p, ed_EndpointHost = pd_EndpointHost p, ed_DataCategories = pd_DataCategories p,
     ed_SelectedTools = pd_SelectedTools p, ed_SkillSnapshotFingerprint = pd_SkillSnapshotFingerprint p,
     ed_RecallApplicable = pd_RecallApplicable p, ed_MemoryProfileApplicable = pd_MemoryProfileApplicable p,
     ed_MemorySnapshotFingerprint = pd_MemorySnapshotFingerprint p, ed_ConsentGrantedAt = pd_ConsentGrantedAt p,
     ed_RemoteMCPServers = pd_RemoteMCPServers p,
     ed_IntegrationEndpoints = cloneIntegrationEndpoints (pd_IntegrationEndpoints p)\<rparr>"

text \<open>
  The unique keys of the table are the decision, the run and the challenge nonce; the column checks
  of the schema repeat what the normalization has already required.
\<close>

definition insertRunEgressDecisionTx :: "string \<Rightarrow> PendingEgressDecision \<Rightarrow> RunEgressDecision wtx" where
  "insertRunEgressDecisionTx runID pending =
     tx_bind (ids_New ''egress'') (\<lambda>did.
     let decision = stored_decision did runID pending in
     tx_bind (tx_gets run_egress_decisions) (\<lambda>rows.
     tx_then (tx_guard (did \<notin> set (map ed_DecisionID rows) \<and> runID \<notin> set (map ed_RunID rows))
       (ErrUnique ''run_egress_decisions'')) (
     tx_then (tx_guard (ed_ChallengeNonce decision \<notin> set (map ed_ChallengeNonce rows)) ErrEgressChallengeAlreadyUsed) (
     tx_then (tx_modify (\<lambda>w. w\<lparr>run_egress_decisions := run_egress_decisions w @ [decision]\<rparr>)) (
     tx_return decision)))))"

definition GetRunEgressDecision :: "string \<Rightarrow> RunEgressDecision wtx" where
  "GetRunEgressDecision runID = query_row (\<lambda>w. filter (\<lambda>d. ed_RunID d = runID) (run_egress_decisions w))"

text \<open>\<^verbatim>\<open>sql.ErrNoRows\<close> is the only error the query has.\<close>

definition decision_of :: "string \<Rightarrow> RunEgressDecision option wtx" where
  "decision_of runID = query_opt (\<lambda>w. filter (\<lambda>d. ed_RunID d = runID) (run_egress_decisions w))"

definition shares_tool_data :: "RunEgressDecision \<Rightarrow> bool" where
  "shares_tool_data d \<longleftrightarrow> ''EGRESS_DATA_CATEGORY_TOOL_ARGUMENTS'' \<in> set (ed_DataCategories d)
     \<and> ''EGRESS_DATA_CATEGORY_TOOL_RESULTS'' \<in> set (ed_DataCategories d)"

definition RunAllowsIntegration :: "string \<Rightarrow> string \<Rightarrow> string \<Rightarrow> string \<Rightarrow> bool wtx" where
  "RunAllowsIntegration runID endpoint connectionID toolName =
     tx_bind (decision_of runID) (\<lambda>decision. tx_return (case decision of
       None \<Rightarrow> False
     | Some d \<Rightarrow> ''integrations/'' @ toolName \<in> set (ed_SelectedTools d) \<and> shares_tool_data d
         \<and> list_ex (\<lambda>e. ie_Endpoint e = endpoint \<and> ie_ConnectionID e = connectionID \<and> toolName \<in> set (ie_Tools e))
             (ed_IntegrationEndpoints d)))"

definition RunAllowsMemory :: "string \<Rightarrow> string \<Rightarrow> bool wtx" where
  "RunAllowsMemory runID toolName =
     tx_bind (decision_of runID) (\<lambda>decision. tx_return (case decision of
       None \<Rightarrow> True
     | Some d \<Rightarrow> MemoryServerName @ ''/'' @ toolName \<in> set (ed_SelectedTools d)))"

definition RunAllowsRemoteMCP :: "string \<Rightarrow> string \<Rightarrow> string \<Rightarrow> string \<Rightarrow> bool wtx" where
  "RunAllowsRemoteMCP runID serverName endpoint toolName =
     tx_bind (decision_of runID) (\<lambda>decision. tx_return (case decision of
       None \<Rightarrow> False
     | Some d \<Rightarrow> serverName @ ''/'' @ toolName \<in> set (ed_SelectedTools d) \<and> shares_tool_data d
         \<and> list_ex (\<lambda>s. re_ServerName s = serverName \<and> re_Endpoint s = endpoint) (ed_RemoteMCPServers d)))"

section \<open>Integration endpoints of a tool set\<close>

definition PseudoServerToolAvailable :: "string \<Rightarrow> string \<Rightarrow> bool wtx" where
  "PseudoServerToolAvailable serverName toolName =
     tx_bind (query_opt (\<lambda>w. filter (\<lambda>t. tl_server_name t = serverName \<and> tl_tool_name t = toolName
       \<and> tl_mcp_server_id t = None) (tool_rows w))) (\<lambda>row.
     tx_return (case row of None \<Rightarrow> True | Some t \<Rightarrow> tl_policy t \<noteq> ''disabled''))"

definition integrationDisplayName :: "string \<Rightarrow> string \<Rightarrow> string" where
  "integrationDisplayName displayName connectionID =
     (let rs = runes displayName in
      if length rs \<le> maxIntegrationDisplayNameRunes then displayName
      else let discriminator = drop (length connectionID - 8) connectionID;
               suffix = runes (ellipsis @ '' ('' @ discriminator @ '')'') in
        encode_runes (take (maxIntegrationDisplayNameRunes - length suffix) rs) @ encode_runes suffix)"

definition integration_tool :: "string \<Rightarrow> string option wtx" where
  "integration_tool selected =
     (let (serverName, toolName, found) = CutByte selected (CHR ''/'') in
      if \<not> found \<or> serverName \<noteq> ''integrations'' \<or> toolName = '''' then tx_return None
      else tx_bind (PseudoServerToolAvailable serverName toolName) (\<lambda>available.
        tx_return (if available then Some toolName else None)))"

definition IntegrationEndpointsForTools :: "string list \<Rightarrow> IntegrationEndpointEgress list wtx" where
  "IntegrationEndpointsForTools selectedTools =
     tx_bind (tx_map integration_tool selectedTools) (\<lambda>found.
     let toolNames = remdups_adj (sort (List.map_filter id found)) in
     if toolNames = [] then tx_return []
     else tx_bind (tx_gets integration_connections) (\<lambda>rows.
       tx_return (sortIntegrationEndpoints (map (\<lambda>c. \<lparr>ie_Endpoint = GitHubIntegrationEndpoint,
           ie_EndpointHost = GitHubIntegrationEndpointHost, ie_ConnectionID = ic_id c,
           ie_DisplayName = integrationDisplayName (ic_display_name c) (ic_id c), ie_Tools = toolNames\<rparr>)
         (sort_key ic_id (filter (\<lambda>c. ic_provider c = ''github'' \<and> ic_status c = ''connected''
            \<and> ic_credential_ciphertext c \<noteq> None) rows))))))"

end
