(* ===== verification/EgressConsent.thy ===== *)
theory EgressConsent
  imports EgressDecision DelegationLifecycle
begin

text \<open>
  What a send freezes about consent: the pinned memory it may disclose
  (\<^verbatim>\<open>memory_egress_snapshot.go\<close>, \<^verbatim>\<open>memory_settings.go\<close>), the notice and audit row of a consent
  (\<^verbatim>\<open>recordEgressConsentTx\<close>), and the JSON a queued job carries.
\<close>

section \<open>Pinned memory\<close>

text \<open>
  The two pinned documents of the vault as they read at one moment. The files are read by the
  caller: \<open>pins\<close> is what the vault returned, \<open>None\<close> when the orchestrator has no vault.
\<close>

record MemoryPinnedDocument =
  md_RelPath :: string
  md_Content :: string
  md_ContentHash :: string
  md_Truncated :: bool
  md_Available :: bool
  md_Reason :: string
  md_Detail :: string

record MemoryEgressSnapshot =
  mg_Enabled :: bool
  mg_Persona :: MemoryPinnedDocument
  mg_Profile :: MemoryPinnedDocument

definition withheldPinnedDocument :: "string \<Rightarrow> string \<Rightarrow> MemoryPinnedDocument" where
  "withheldPinnedDocument relPath reason = \<lparr>md_RelPath = relPath, md_Content = '''', md_ContentHash = '''',
     md_Truncated = False, md_Available = False, md_Reason = reason, md_Detail = ''''\<rparr>"

definition no_memory :: MemoryEgressSnapshot where
  "no_memory = \<lparr>mg_Enabled = False, mg_Persona = withheldPinnedDocument '''' '''',
     mg_Profile = withheldPinnedDocument '''' ''''\<rparr>"

definition Preimage :: "MemoryEgressSnapshot \<Rightarrow> string list \<Rightarrow> MemorySnapshot" where
  "Preimage s selectedTools = Canonical \<lparr>ms_PersonaID = md_RelPath (mg_Persona s),
     ms_PersonaDisplayName = md_RelPath (mg_Persona s), ms_PersonaBody = md_Content (mg_Persona s),
     ms_PersonaContentHash = md_ContentHash (mg_Persona s), ms_PersonaWithheld = (\<not> md_Available (mg_Persona s)),
     ms_ProfileID = md_RelPath (mg_Profile s), ms_ProfileBody = md_Content (mg_Profile s),
     ms_ProfileContentHash = md_ContentHash (mg_Profile s), ms_ProfileWithheld = (\<not> md_Available (mg_Profile s)),
     ms_MemoryToolsSelected = SelectedToolsIncludeMemory selectedTools\<rparr>"

definition memoryEnabledSettingKey :: string where "memoryEnabledSettingKey = ''memory_enabled''"

definition memory_setting :: "(string \<times> string) list \<Rightarrow> bool result" where
  "memory_setting rows = (case map_of rows memoryEnabledSettingKey of
     None \<Rightarrow> Inr True
   | Some v \<Rightarrow> if v = ''true'' then Inr True else if v = ''false'' then Inr False else Inl ErrMemorySettingCorrupt)"

definition memoryEnabledTx :: "bool wtx" where
  "memoryEnabledTx = tx_bind (tx_gets settings_rows) (\<lambda>rows. tx_lift (memory_setting rows))"

definition SetMemoryEnabled :: "bool \<Rightarrow> bool wtx" where
  "SetMemoryEnabled enabled =
     tx_bind (tx_gets settings_rows) (\<lambda>rows.
     tx_bind now_text (\<lambda>_.
     tx_then (tx_modify (\<lambda>w. w\<lparr>settings_rows := map_set memoryEnabledSettingKey (json_bool enabled) rows\<rparr>)) (
     tx_return (case memory_setting rows of Inl _ \<Rightarrow> True | Inr previous \<Rightarrow> previous \<noteq> enabled))))"

definition PersonaFileName :: string where "PersonaFileName = ''persona.md''"
definition ProfileFileName :: string where "ProfileFileName = ''profile.md''"

definition egressMemorySnapshotTx :: "(MemoryPinnedDocument \<times> MemoryPinnedDocument) option \<Rightarrow> MemoryEgressSnapshot wtx" where
  "egressMemorySnapshotTx pins =
     tx_bind memoryEnabledTx (\<lambda>enabled.
     tx_return (
       if \<not> enabled then \<lparr>mg_Enabled = False, mg_Persona = withheldPinnedDocument PersonaFileName ''disabled'',
         mg_Profile = withheldPinnedDocument ProfileFileName ''disabled''\<rparr>
       else case pins of
         None \<Rightarrow> \<lparr>mg_Enabled = True, mg_Persona = withheldPinnedDocument PersonaFileName ''vault_missing'',
           mg_Profile = withheldPinnedDocument ProfileFileName ''vault_missing''\<rparr>
       | Some (persona, profile) \<Rightarrow> \<lparr>mg_Enabled = True, mg_Persona = persona, mg_Profile = profile\<rparr>))"

section \<open>Recording consent\<close>

definition egressCategoryLabel :: "string \<Rightarrow> string" where
  "egressCategoryLabel category =
     (case map_of [(''EGRESS_DATA_CATEGORY_CURRENT_MESSAGE'', ''Current message''),
        (''EGRESS_DATA_CATEGORY_CONVERSATION_HISTORY'', ''Conversation history''),
        (''EGRESS_DATA_CATEGORY_CROSS_SESSION_RECALL'', ''Cross-session recall''),
        (''EGRESS_DATA_CATEGORY_MEMORY_PROFILE'', ''Memory and profile''),
        (''EGRESS_DATA_CATEGORY_SKILL_CONTENT'', ''Enabled skill content''),
        (''EGRESS_DATA_CATEGORY_TOOL_SCHEMAS'', ''Tool schemas''),
        (''EGRESS_DATA_CATEGORY_TOOL_ARGUMENTS'', ''Tool arguments''),
        (''EGRESS_DATA_CATEGORY_TOOL_RESULTS'', ''Tool results''),
        (''EGRESS_DATA_CATEGORY_ATTACHMENTS'', ''Attachments'')] category of
      Some l \<Rightarrow> l | None \<Rightarrow> ''Unknown data category'')"

text \<open>The hosts a decision names, each once: the model's first, then tool servers, then integrations.\<close>

definition egress_destinations :: "RunEgressDecision \<Rightarrow> string list" where
  "egress_destinations d =
     foldl (\<lambda>acc host. if host \<in> set acc then acc else acc @ [host])
       (if ed_EndpointHost d \<noteq> '''' then [ed_EndpointHost d] else [])
       (map re_EndpointHost (ed_RemoteMCPServers d) @ map ie_EndpointHost (ed_IntegrationEndpoints d))"

definition dash :: string where "dash = '' '' @ encode_runes [0x2014] @ '' ''"

definition recordEgressConsentTx ::
  "string \<Rightarrow> string \<Rightarrow> string \<Rightarrow> RunEgressDecision \<Rightarrow> string \<Rightarrow> string \<Rightarrow> string \<Rightarrow> string \<Rightarrow> Event wtx" where
  "recordEgressConsentTx sessionID rid traceID d lead detail outcome at =
     (let destination = Join (egress_destinations d) '', ''; categories = map egressCategoryLabel (ed_DataCategories d) in
      tx_bind (appendRunNoticeTx sessionID rid traceID
          (lead @ destination @ dash @ ''disclosed data categories: '' @ Join categories '', '' @ detail @ ''. '' @ outcome)
          [(''provider'', JStr (ed_Provider d)), (''endpoint'', JStr destination), (''model'', JStr (ed_Model d)),
           (''dataCategories'', JArr (map JStr (ed_DataCategories d))), (''decisionVersion'', JNum (ed_Version d))] at) (\<lambda>notice.
      tx_then (recordAuditTx rid ''client'' '''' ''egress.consent.recorded'' rid (Some (JObj
          [(''consentGrantedAt'', JStr (ed_ConsentGrantedAt d)), (''dataCategories'', JArr (map JStr (ed_DataCategories d))),
           (''decisionVersion'', JNum (ed_Version d)), (''endpointHost'', JStr destination), (''provider'', JStr (ed_Provider d))])))
        (tx_return notice)))"

section \<open>JSON of frozen decisions and skills\<close>

definition strings_json :: "string list \<Rightarrow> json" where
  "strings_json xs = JArr (map JStr xs)"

text \<open>A nil slice is \<^verbatim>\<open>null\<close>.\<close>

definition slice_json :: "string list \<Rightarrow> json" where
  "slice_json xs = (if xs = [] then JNull else strings_json xs)"

definition omit_empty :: "string \<Rightarrow> string \<Rightarrow> (string \<times> json) list" where
  "omit_empty k v = (if v = '''' then [] else [(k, JStr v)])"

definition remote_mcp_json :: "RemoteMCPServerEgress \<Rightarrow> json" where
  "remote_mcp_json s = JObj [(''serverName'', JStr (re_ServerName s)), (''endpoint'', JStr (re_Endpoint s)),
     (''endpointHost'', JStr (re_EndpointHost s))]"

definition integration_json :: "IntegrationEndpointEgress \<Rightarrow> json" where
  "integration_json e = JObj [(''endpoint'', JStr (ie_Endpoint e)), (''endpoint_host'', JStr (ie_EndpointHost e)),
     (''connection_id'', JStr (ie_ConnectionID e)), (''display_name'', JStr (ie_DisplayName e)),
     (''tools'', strings_json (ie_Tools e))]"

definition decision_json :: "RunEgressDecision \<Rightarrow> json" where
  "decision_json d = JObj ([(''decisionId'', JStr (ed_DecisionID d)), (''runId'', JStr (ed_RunID d)),
     (''version'', JNum (ed_Version d)), (''challengeNonce'', JStr (ed_ChallengeNonce d)),
     (''challengeFingerprint'', JStr (ed_ChallengeFingerprint d)), (''requestDigest'', JStr (ed_RequestDigest d)),
     (''provider'', JStr (ed_Provider d)), (''model'', JStr (ed_Model d))]
     @ omit_empty ''externalAgentId'' (ed_ExternalAgentID d)
     @ omit_empty ''externalCredentialRefHash'' (ed_ExternalCredentialRefHash d)
     @ [(''endpoint'', JStr (ed_Endpoint d)), (''endpointHost'', JStr (ed_EndpointHost d)),
     (''dataCategories'', slice_json (ed_DataCategories d)), (''selectedTools'', slice_json (ed_SelectedTools d)),
     (''skillSnapshotFingerprint'', JStr (ed_SkillSnapshotFingerprint d)),
     (''recallApplicable'', JBool (ed_RecallApplicable d)),
     (''memoryProfileApplicable'', JBool (ed_MemoryProfileApplicable d)),
     (''memorySnapshotFingerprint'', JStr (ed_MemorySnapshotFingerprint d)),
     (''consentGrantedAt'', JStr (ed_ConsentGrantedAt d)),
     (''remoteMcpServers'', JArr (map remote_mcp_json (ed_RemoteMCPServers d))),
     (''integrationEndpoints'', JArr (map integration_json (ed_IntegrationEndpoints d)))])"

definition skill_json :: "SkillSnapshot \<Rightarrow> json" where
  "skill_json s = JObj (omit_empty ''skillId'' (sk_SkillID s) @ [(''name'', JStr (sk_Name s))]
     @ omit_empty ''description'' (sk_Description s) @ omit_empty ''category'' (sk_Category s)
     @ omit_empty ''body'' (sk_Body s)
     @ (if sk_References s = [] then [] else [(''references'', JObj (map (\<lambda>(k, v). (k, JStr v)) (sk_References s)))])
     @ (if sk_Withheld s then [(''withheld'', JBool True)] else [])
     @ (if sk_MissingCapabilities s = [] then [] else [(''missingCapabilities'', strings_json (sk_MissingCapabilities s))])
     @ omit_empty ''instructions'' (sk_Instructions s))"

definition decode_references :: "json \<Rightarrow> (string \<times> string) list option" where
  "decode_references j = (case j of
     JObj ms \<Rightarrow> all_some (map (\<lambda>(k, v). map_option (Pair k) (decode_string v)) ms)
   | JNull \<Rightarrow> Some [] | _ \<Rightarrow> None)"

definition decode_skill :: "json \<Rightarrow> SkillSnapshot option" where
  "decode_skill j =
     (case j of
        JObj _ \<Rightarrow>
          (case (decode_field decode_string '''' ''skillId'' j, decode_field decode_string '''' ''name'' j,
                 decode_field decode_string '''' ''description'' j, decode_field decode_string '''' ''category'' j,
                 decode_field decode_string '''' ''body'' j, decode_field decode_references [] ''references'' j,
                 decode_field decode_bool False ''withheld'' j,
                 decode_field decode_strings [] ''missingCapabilities'' j,
                 decode_field decode_string '''' ''instructions'' j) of
             (Some i, Some n, Some d, Some c, Some b, Some r, Some wh, Some m, Some ins) \<Rightarrow>
               Some \<lparr>sk_SkillID = i, sk_Name = n, sk_Description = d, sk_Category = c, sk_Body = b,
                 sk_References = r, sk_Withheld = wh, sk_MissingCapabilities = m, sk_Instructions = ins\<rparr>
           | _ \<Rightarrow> None)
      | JNull \<Rightarrow> Some \<lparr>sk_SkillID = '''', sk_Name = '''', sk_Description = '''', sk_Category = '''', sk_Body = '''',
                 sk_References = [], sk_Withheld = False, sk_MissingCapabilities = [], sk_Instructions = ''''\<rparr>
      | _ \<Rightarrow> None)"

definition decode_skills :: "json option \<Rightarrow> SkillSnapshot list option" where
  "decode_skills j = (case j of Some (JArr xs) \<Rightarrow> all_some (map decode_skill xs) | None \<Rightarrow> Some [] | _ \<Rightarrow> None)"

definition pinnedPersonaSnapshot :: "MemorySnapshot \<Rightarrow> PinnedPersonaSnapshot" where
  "pinnedPersonaSnapshot p = \<lparr>pp_PersonaID = ms_PersonaID p, pp_DisplayName = ms_PersonaDisplayName p,
     pp_Body = ms_PersonaBody p, pp_ContentHash = ms_PersonaContentHash p, pp_Withheld = ms_PersonaWithheld p\<rparr>"

definition pinnedProfileSnapshot :: "MemorySnapshot \<Rightarrow> PinnedProfileSnapshot" where
  "pinnedProfileSnapshot p = \<lparr>pf_ProfileID = ms_ProfileID p, pf_Body = ms_ProfileBody p,
     pf_ContentHash = ms_ProfileContentHash p, pf_Withheld = ms_ProfileWithheld p\<rparr>"

lemma memory_bindings_agree:
  "continuationMemoryPreimage (pinnedPersonaSnapshot (Preimage s tools)) (pinnedProfileSnapshot (Preimage s tools)) tools = Preimage s tools"
  by (simp add: continuationMemoryPreimage_def pinnedPersonaSnapshot_def pinnedProfileSnapshot_def Preimage_def
      Canonical_def Let_def)

end
