(* ===== verification/Sessions.thy ===== *)
theory Sessions
  imports GoRunes RunState
begin

text \<open>
  Conversations: titles derived from the first message (\<^verbatim>\<open>session_title.go\<close>), renaming, archiving
  and restoring (\<^verbatim>\<open>session_lifecycle.go\<close>), creating and paging through sessions and their history
  (\<^verbatim>\<open>sessions.go\<close>).
\<close>

section \<open>Titles\<close>

definition maxTitleRunes :: nat where "maxTitleRunes = 60"
definition minWordBoundaryRunes :: nat where "minWordBoundaryRunes = 30"

definition title_ellipsis :: string where "title_ellipsis = encode_runes [0x2026]"

text \<open>Cutting back to the last space, when enough is left.\<close>

definition word_boundary :: "string \<Rightarrow> string" where
  "word_boundary truncated =
     (let idx = LastIndexByte truncated (CHR 0x20) in
      if 0 < idx \<and> minWordBoundaryRunes \<le> length (runes (take (nat idx) truncated))
      then take (nat idx) truncated else truncated)"

definition DeriveSessionTitle :: "string \<Rightarrow> string" where
  "DeriveSessionTitle content =
     (let collapsed = Join (Fields content) '' '' in
      if collapsed = '''' then ''''
      else let rs = runes collapsed in
        if length rs \<le> maxTitleRunes then collapsed
        else TrimRightByte (word_boundary (encode_runes (take maxTitleRunes rs))) (CHR 0x20) @ title_ellipsis)"

text \<open>The first user message, by sequence, that gives a title.\<close>

definition first_title :: "string \<Rightarrow> message list \<Rightarrow> string option" where
  "first_title sid ms =
     (case filter (\<lambda>t. t \<noteq> '''') (map (DeriveSessionTitle \<circ> msg_content)
             (sort_key msg_sequence (filter (\<lambda>m. msg_session_id m = sid \<and> msg_role m = ''user'') ms))) of
        [] \<Rightarrow> None | t # _ \<Rightarrow> Some t)"

definition untitled :: "session \<Rightarrow> bool" where
  "untitled s \<longleftrightarrow> sess_title_origin s = ''unset'' \<and> sess_kind s = ''chat''"

definition BackfillSessionTitles :: "int wtx" where
  "BackfillSessionTitles =
     tx_bind (tx_gets (\<lambda>w. int (length (filter (\<lambda>s. untitled s \<and> first_title (sess_id s) (messages w) \<noteq> None) (sessions w))))) (\<lambda>n.
     tx_then (tx_modify (\<lambda>w. w\<lparr>sessions := update_where untitled
       (\<lambda>s. case first_title (sess_id s) (messages w) of
              None \<Rightarrow> s | Some t \<Rightarrow> s\<lparr>sess_title := Some t, sess_title_origin := ''derived''\<rparr>) (sessions w)\<rparr>))
     (tx_return n))"

section \<open>Mutations\<close>

record SessionMutationResult =
  sm_Session :: session
  sm_Event :: "Event option"
  sm_Changed :: bool

definition getSessionTx :: "string \<Rightarrow> session wtx" where
  "getSessionTx sessionID =
     tx_bind (query_row (\<lambda>w. filter (\<lambda>s. sess_id s = sessionID) (sessions w)))
       (\<lambda>s. tx_then (tx_lift (validateSession s)) (tx_return s))"

definition session_payload :: "session \<Rightarrow> json" where
  "session_payload s = JObj [(''title'', JStr (text_or_empty (sess_title s))), (''status'', JStr (sess_status s)),
     (''updatedAt'', JStr (sess_updated_at s))]"

definition write_session :: "string \<Rightarrow> session \<Rightarrow> unit wtx" where
  "write_session sessionID s =
     (let p = (\<lambda>x. sess_id x = sessionID \<and> sess_deletion_state x = ''active'') in
      tx_bind (tx_gets (\<lambda>w. rows_affected p (sessions w))) (\<lambda>n.
      tx_then (tx_modify (\<lambda>w. w\<lparr>sessions := update_where p (\<lambda>x. x\<lparr>sess_title := sess_title s,
          sess_title_origin := sess_title_origin s, sess_status := sess_status s,
          sess_updated_at := sess_updated_at s\<rparr>) (sessions w)\<rparr>))
        (expectOneRow n ''session not found during lifecycle mutation'')))"

definition not_found_session :: "err \<Rightarrow> err" where
  "not_found_session e = (if e = ErrNoRows then ErrSessionNotFound else e)"

text \<open>The write half: the new activity time, the row, and the event that announces it.\<close>

definition commit_session :: "string \<Rightarrow> session \<Rightarrow> session \<Rightarrow> SessionMutationResult wtx" where
  "commit_session sessionID current changed_session =
     tx_bind time_Now (\<lambda>t.
     tx_bind (tx_lift (nextSessionActivityTime (sess_updated_at current) t [])) (\<lambda>activityTime.
     let next = changed_session\<lparr>sess_updated_at := FormatTimestamp activityTime\<rparr> in
     tx_then (write_session sessionID next) (
     tx_bind (ids_New ''trace'') (\<lambda>traceID.
     tx_bind (appendSessionEventTx sessionID traceID ''session.updated'' (Some (session_payload next))
         (sess_updated_at next)) (\<lambda>event.
     tx_return \<lparr>sm_Session = next, sm_Event = Some event, sm_Changed = True\<rparr>)))))"

definition mutateSession :: "string \<Rightarrow> (session \<Rightarrow> session \<times> bool) \<Rightarrow> SessionMutationResult wtx" where
  "mutateSession sessionID mutate =
     tx_then (requireChatSessionTx sessionID) (
     tx_bind (tx_map_err not_found_session (getSessionTx sessionID)) (\<lambda>current.
     let (changed_session, changed) = mutate current in
     if \<not> changed then tx_return \<lparr>sm_Session = current, sm_Event = None, sm_Changed = False\<rparr>
     else commit_session sessionID current changed_session))"

definition MaxSessionTitleRunes :: nat where "MaxSessionTitleRunes = 120"

definition rename_mutation :: "string \<Rightarrow> session \<Rightarrow> session \<times> bool" where
  "rename_mutation normalized current =
     (if sess_title current = Some normalized \<and> sess_title_origin current = ''explicit'' then (current, False)
      else (current\<lparr>sess_title := Some normalized, sess_title_origin := ''explicit''\<rparr>, True))"

definition RenameSession :: "string \<Rightarrow> string \<Rightarrow> SessionMutationResult wtx" where
  "RenameSession sessionID title =
     (let normalized = TrimSpace title in
      if normalized = '''' \<or> \<not> ValidString normalized \<or> length (runes normalized) > MaxSessionTitleRunes
      then tx_fail ErrInvalidSessionTitle
      else mutateSession sessionID (rename_mutation normalized))"

definition status_mutation :: "string \<Rightarrow> session \<Rightarrow> session \<times> bool" where
  "status_mutation target current =
     (if sess_status current = target then (current, False) else (current\<lparr>sess_status := target\<rparr>, True))"

definition setSessionStatus :: "string \<Rightarrow> string \<Rightarrow> SessionMutationResult wtx" where
  "setSessionStatus sessionID target = mutateSession sessionID (status_mutation target)"

definition ArchiveSession :: "string \<Rightarrow> SessionMutationResult wtx" where
  "ArchiveSession sessionID = setSessionStatus sessionID ''archived''"

definition RestoreSession :: "string \<Rightarrow> SessionMutationResult wtx" where
  "RestoreSession sessionID = setSessionStatus sessionID ''active''"

section \<open>Creating and listing\<close>

definition insert_session :: "session \<Rightarrow> unit wtx" where
  "insert_session s = tx_bind (tx_gets sessions) (\<lambda>rows.
     tx_then (tx_guard (sess_id s \<notin> set (map sess_id rows)) (ErrUnique ''sessions.id''))
       (tx_modify (\<lambda>w. w\<lparr>sessions := sessions w @ [s]\<rparr>)))"

definition CreateSession :: "string \<Rightarrow> session wtx" where
  "CreateSession title =
     tx_bind now_text (\<lambda>createdAt.
     tx_bind (ids_New ''sess'') (\<lambda>sid.
     let s = \<lparr>sess_id = sid, sess_kind = ''chat'', sess_parent_id = None,
           sess_title = (if title \<noteq> '''' then Some title else None),
           sess_title_origin = (if title \<noteq> '''' then ''explicit'' else ''unset''), sess_status = ''active'',
           sess_created_at = createdAt, sess_updated_at = createdAt, sess_deletion_state = ''active''\<rparr> in
     tx_then (insert_session s) (tx_return s)))"

record SessionCursor =
  scu_UpdatedAt :: string
  scu_SessionID :: string

record ListSessionsInput =
  ls_Filter :: string
  ls_After :: "SessionCursor option"
  ls_Limit :: int

definition session_key :: "session \<Rightarrow> string \<times> string" where
  "session_key s = (sess_updated_at s, sess_id s)"

definition listed :: "string \<Rightarrow> session \<Rightarrow> bool" where
  "listed flt s \<longleftrightarrow> sess_deletion_state s = ''active'' \<and> sess_kind s = ''chat'' \<and> (flt = ''all'' \<or> sess_status s = flt)"

definition after_session :: "SessionCursor option \<Rightarrow> session \<Rightarrow> bool" where
  "after_session cursor s = (case cursor of None \<Rightarrow> True | Some c \<Rightarrow> session_key s < (scu_UpdatedAt c, scu_SessionID c))"

definition check_session_page :: "ListSessionsInput \<Rightarrow> unit result" where
  "check_session_page input =
     (if ls_Limit input \<le> 0 then Inl ErrInvalidSessionPage
      else if ls_Filter input \<notin> set [''active'', ''archived'', ''all''] then Inl ErrInvalidSessionFilter
      else case ls_After input of
             None \<Rightarrow> Inr ()
           | Some c \<Rightarrow>
               if scu_SessionID c = '''' then Inl ErrInvalidSessionPage
               else (case ParseCanonical (scu_UpdatedAt c) of Inl _ \<Rightarrow> Inl ErrInvalidSessionPage | Inr _ \<Rightarrow> Inr ()))"

definition session_page :: "ListSessionsInput \<Rightarrow> session list \<Rightarrow> session list" where
  "session_page input rows = take (nat (ls_Limit input))
     (rev (sort_key session_key (filter (\<lambda>s. listed (ls_Filter input) s \<and> after_session (ls_After input) s) rows)))"

definition ListSessionsPage :: "ListSessionsInput \<Rightarrow> session list wtx" where
  "ListSessionsPage input =
     tx_then (tx_lift (check_session_page input)) (
     tx_bind (tx_gets (\<lambda>w. session_page input (sessions w))) (\<lambda>page.
     tx_map (\<lambda>s. tx_then (tx_lift (validateSession s)) (tx_return s)) page))"

definition ListSessions :: "int \<Rightarrow> session list wtx" where
  "ListSessions limit =
     ListSessionsPage \<lparr>ls_Filter = ''active'', ls_After = None, ls_Limit = (if limit \<le> 0 then 50 else limit)\<rparr>"

section \<open>History\<close>

record Message =
  hm_MessageID :: string
  hm_RunID :: string
  hm_Role :: string
  hm_Content :: string
  hm_ContentType :: string
  hm_Sequence :: int
  hm_CreatedAt :: string
  hm_RunState :: "RunState option"

definition history_link :: "agent_run \<Rightarrow> message \<Rightarrow> Link" where
  "history_link r m = \<lparr>RunID = run_id r, RunSessionID = run_session_id r,
     RunAssistantMessageID = text_or_empty (run_assistant_message_id r), MessageID = msg_id m,
     MessageSessionID = msg_session_id m, MessageRunID = text_or_empty (msg_run_id m), MessageRole = msg_role m\<rparr>"

definition history_state :: "agent_run \<Rightarrow> message \<Rightarrow> RunState" where
  "history_state r m = \<lparr>rs_RunID = run_id r, rs_UserMessageID = run_user_message_id r,
     rs_AssistantMessageID = text_or_empty (run_assistant_message_id r), rs_Lifecycle = run_status r,
     rs_OutcomeReason = run_outcome_reason r, rs_StateVersion = run_state_version r,
     rs_StateUpdatedAt = run_state_updated_at r, rs_FinishedAt = run_finished_at r,
     rs_HasDisplayableContent = HasDisplayableContent (msg_content m), rs_ContentSHA256 = '''',
     rs_QueueWaitReason = run_queue_wait_reason r\<rparr>"

text \<open>The run that joins on the message's run, when both directions of the link agree.\<close>

definition owning_state :: "world \<Rightarrow> message \<Rightarrow> RunState option" where
  "owning_state w m =
     (case filter (\<lambda>r. Some (run_id r) = msg_run_id m) (agent_runs w) of
        [] \<Rightarrow> None
      | r # _ \<Rightarrow> if run_id r \<noteq> '''' \<and> validateRunCorrelationLink (history_link r m) = Inr ()
                 then Some (history_state r m) else None)"

definition ambiguous :: "world \<Rightarrow> message \<Rightarrow> bool" where
  "ambiguous w m \<longleftrightarrow>
     (msg_run_id m \<noteq> None \<and> 1 < length (filter (\<lambda>c. msg_run_id c = msg_run_id m \<and> msg_role c = AssistantRole) (messages w)))
     \<or> 1 < length (filter (\<lambda>r. run_assistant_message_id r = Some (msg_id m)) (agent_runs w))"

definition scan_message :: "message \<Rightarrow> Message wtx" where
  "scan_message m =
     tx_bind (tx_gets (\<lambda>w. ambiguous w m)) (\<lambda>bad.
     if bad then tx_fail ErrConflict
     else tx_gets (\<lambda>w. \<lparr>hm_MessageID = msg_id m, hm_RunID = text_or_empty (msg_run_id m), hm_Role = msg_role m,
       hm_Content = msg_content m, hm_ContentType = msg_content_type m, hm_Sequence = msg_sequence m,
       hm_CreatedAt = msg_created_at m, hm_RunState = owning_state w m\<rparr>))"

definition history_page :: "string \<Rightarrow> int option \<Rightarrow> int \<Rightarrow> Message list wtx" where
  "history_page sessionID boundary limit =
     tx_then (query_row (\<lambda>w. filter (\<lambda>s. sess_id s = sessionID \<and> sess_deletion_state s = ''active'') (sessions w))) (
     tx_bind (tx_gets (\<lambda>w. take (nat limit) (rev (sort_key (\<lambda>m. (msg_sequence m, msg_id m))
         (filter (\<lambda>m. msg_session_id m = sessionID \<and> (case boundary of None \<Rightarrow> True | Some b \<Rightarrow> msg_sequence m < b))
           (messages w)))))) (\<lambda>page.
     tx_bind (tx_map scan_message page) (\<lambda>reversed. tx_return (rev reversed))))"

definition ListMessages :: "string \<Rightarrow> int \<Rightarrow> Message list wtx" where
  "ListMessages sessionID limit = history_page sessionID None (if limit \<le> 0 then 50 else limit)"

definition ListMessagesBefore :: "string \<Rightarrow> string \<Rightarrow> int \<Rightarrow> Message list wtx" where
  "ListMessagesBefore sessionID beforeMessageID limit0 =
     (let limit = (if limit0 \<le> 0 then 50 else limit0) in
      if beforeMessageID = '''' then ListMessages sessionID limit
      else tx_bind (query_row (\<lambda>w. [msg_sequence m. m \<leftarrow> messages w,
               msg_session_id m = sessionID \<and> msg_id m = beforeMessageID
               \<and> list_ex (\<lambda>s. sess_id s = sessionID \<and> sess_deletion_state s = ''active'') (sessions w)]))
             (\<lambda>b. history_page sessionID (Some b) limit))"

section \<open>What a title is\<close>

lemma word_boundary_runes:
  assumes "list_all valid_rune rs"
  shows "\<exists>ss. word_boundary (encode_runes rs) = encode_runes ss \<and> list_all valid_rune ss \<and> length ss \<le> length rs"
proof (cases "0 < LastIndexByte (encode_runes rs) (CHR 0x20)")
  case True
  then obtain n where n: "LastIndexByte (encode_runes rs) (CHR 0x20) = int n"
    by (metis less_imp_le nonneg_eq_int)
  have pos: "0 < n" using True n by simp
  obtain b where "encode_runes rs = take n (encode_runes rs) @ CHR 0x20 # b"
    using LastIndexByte_split [OF n] by blast
  from encode_runes_cut [OF assms this] obtain rs1 rs2 where
    "rs = rs1 @ byte (CHR 0x20) # rs2" "take n (encode_runes rs) = encode_runes rs1"
    by (auto simp: byte_def)
  then show ?thesis using assms n pos
    by (intro exI [of _ "if minWordBoundaryRunes \<le> length (runes (take n (encode_runes rs))) then rs1 else rs"])
      (auto simp: word_boundary_def Let_def)
next
  case False
  then show ?thesis using assms by (intro exI [of _ rs]) (simp add: word_boundary_def Let_def)
qed

lemma trimmed_runes:
  assumes "list_all valid_rune rs"
  shows "\<exists>ss. TrimRightByte (encode_runes rs) (CHR 0x20) = encode_runes ss \<and> list_all valid_rune ss \<and> length ss \<le> length rs"
proof -
  obtain k where k: "encode_runes rs = TrimRightByte (encode_runes rs) (CHR 0x20) @ replicate k (CHR 0x20)"
    using TrimRightByte_prefix by blast
  show ?thesis
  proof (cases k)
    case 0
    then show ?thesis using k assms by (intro exI [of _ rs]) simp
  next
    case (Suc j)
    have c: "byte (CHR 0x20) < 0x80" by (simp add: byte_def)
    have "encode_runes rs = TrimRightByte (encode_runes rs) (CHR 0x20) @ CHR 0x20 # replicate j (CHR 0x20)"
      using k Suc by simp
    from encode_runes_cut [OF assms this c] obtain rs1 rs2 where
      "rs = rs1 @ byte (CHR 0x20) # rs2" "TrimRightByte (encode_runes rs) (CHR 0x20) = encode_runes rs1" by blast
    then show ?thesis using assms by (intro exI [of _ rs1]) auto
  qed
qed

lemma title_length: "length (runes (DeriveSessionTitle content)) \<le> Suc maxTitleRunes"
proof -
  define rs where "rs = take maxTitleRunes (runes (Join (Fields content) '' ''))"
  have rs: "list_all valid_rune rs" "length rs \<le> maxTitleRunes"
    using runes_valid [of "Join (Fields content) '' ''"]
    by (auto simp: rs_def list_all_iff dest: in_set_takeD)
  obtain ss where ss: "word_boundary (encode_runes rs) = encode_runes ss" "list_all valid_rune ss" "length ss \<le> length rs"
    using word_boundary_runes [OF rs(1)] by blast
  obtain ts where ts: "TrimRightByte (encode_runes ss) (CHR 0x20) = encode_runes ts" "list_all valid_rune ts"
    "length ts \<le> length ss" using trimmed_runes [OF ss(2)] by blast
  have "length (runes (encode_runes ts @ title_ellipsis)) = Suc (length ts)"
    using ts(2) runes_encode_append [of ts "encode_runes [0x2026]"] runes_encode_runes [of "[0x2026]"]
    by (simp add: title_ellipsis_def valid_rune_def)
  then show ?thesis
    using ss ts rs(2) unfolding DeriveSessionTitle_def Let_def rs_def [symmetric] by simp
qed

section \<open>What a page is\<close>

text \<open>The rows below the last key of a page are exactly the rows after it.\<close>

lemma below_last_of_page:
  fixes k :: "'a \<Rightarrow> 'b::linorder"
  assumes "sorted_wrt (\<lambda>x y. k y < k x) xs" "0 < n" "n \<le> length xs"
  shows "filter (\<lambda>x. k x < k (last (take n xs))) xs = drop n xs"
proof -
  define c where "c = last (take n xs)"
  have ne: "take n xs \<noteq> []" using assms(2,3) by auto
  have "sorted_wrt (\<lambda>x y. k y < k x) (take n xs @ drop n xs)" using assms(1) by (simp only: append_take_drop_id)
  then have sw: "sorted_wrt (\<lambda>x y. k y < k x) (take n xs)" "\<forall>x \<in> set (take n xs). \<forall>y \<in> set (drop n xs). k y < k x"
    unfolding sorted_wrt_append by blast+
  have eq: "take n xs = butlast (take n xs) @ [c]" using append_butlast_last_id [OF ne] by (simp add: c_def)
  have "sorted_wrt (\<lambda>x y. k y < k x) (butlast (take n xs) @ [c])" by (subst eq [symmetric]) (rule sw(1))
  then have "\<forall>x \<in> set (butlast (take n xs)). k c < k x" by (simp add: sorted_wrt_append)
  moreover have "set (take n xs) = insert c (set (butlast (take n xs)))" by (subst eq) simp
  ultimately have above: "\<forall>x \<in> set (take n xs). \<not> k x < k c" by (auto dest: less_asym)
  have below: "\<forall>y \<in> set (drop n xs). k y < k c" using sw(2) ne by (simp add: c_def)
  have "filter (\<lambda>x. k x < k c) (take n xs) = []" "filter (\<lambda>x. k x < k c) (drop n xs) = drop n xs"
    using above below by (simp_all add: filter_empty_conv filter_id_conv)
  then have "filter (\<lambda>x. k x < k c) (take n xs @ drop n xs) = drop n xs" by (simp only: filter_append append_Nil)
  then show ?thesis by (simp add: c_def)
qed

lemma sorted_key_strict:
  assumes "distinct (map k xs)"
  shows "sorted_wrt (\<lambda>x y. k y < k x) (rev (sort_key k xs))"
proof -
  have "sorted (map k (sort_key k xs))" by simp
  moreover have "distinct (map k (sort_key k xs))" using assms by (simp add: distinct_map)
  ultimately have "sorted_wrt (<) (map k (sort_key k xs))" by (simp add: strict_sorted_iff)
  then show ?thesis by (simp add: sorted_wrt_rev sorted_wrt_map)
qed

lemma filter_rev_sort_key:
  "filter P (rev (sort_key k xs)) = rev (sort_key k (filter P xs))"
  by (simp add: rev_filter [symmetric] filter_sort)

lemma session_page_next:
  assumes "distinct (map sess_id rows)" "0 < ls_Limit input" "ls_After input = None"
    and full: "nat (ls_Limit input) \<le> length (session_page input rows)"
    and c: "c = last (session_page input rows)"
  shows "session_page (input\<lparr>ls_After := Some \<lparr>scu_UpdatedAt = sess_updated_at c, scu_SessionID = sess_id c\<rparr>\<rparr>) rows
    = take (nat (ls_Limit input)) (drop (nat (ls_Limit input))
        (rev (sort_key session_key (filter (listed (ls_Filter input)) rows))))"
proof -
  let ?n = "nat (ls_Limit input)"
  define xs where "xs = rev (sort_key session_key (filter (listed (ls_Filter input)) rows))"
  have p: "session_page input rows = take ?n xs"
    using assms(3) by (simp add: session_page_def after_session_def xs_def)
  have "distinct (map session_key (filter (listed (ls_Filter input)) rows))"
    using assms(1) by (auto simp: distinct_map session_key_def intro!: inj_onI dest: inj_onD)
  then have sw: "sorted_wrt (\<lambda>x y. session_key y < session_key x) xs" unfolding xs_def by (rule sorted_key_strict)
  have "?n \<le> length xs" using full unfolding p by simp
  then have "filter (\<lambda>x. session_key x < session_key c) xs = drop ?n xs"
    using below_last_of_page [OF sw, of ?n] assms(2) c p by simp
  then have "rev (sort_key session_key (filter (\<lambda>x. session_key x < session_key c) (filter (listed (ls_Filter input)) rows))) = drop ?n xs"
    unfolding xs_def filter_rev_sort_key .
  then show ?thesis
    unfolding session_page_def xs_def [symmetric]
    by (simp add: after_session_def session_key_def [of c] conj_commute)
qed

section \<open>What history shows\<close>

lemma scan_message_Inr:
  assumes "scan_message m w = Inr (h, w')"
  shows "w' = w \<and> \<not> ambiguous w m \<and> hm_MessageID h = msg_id m \<and> hm_Sequence h = msg_sequence m \<and> hm_RunState h = owning_state w m"
  using assms by (auto simp: scan_message_def tx_simps split: if_splits)

lemma tx_map_readonly:
  assumes "tx_map f xs w = Inr (ys, w')" "\<And>x y w w'. x \<in> set xs \<Longrightarrow> f x w = Inr (y, w') \<Longrightarrow> w' = w"
  shows "w' = w \<and> list_all2 (\<lambda>x y. f x w = Inr (y, w)) xs ys"
  using assms
proof (induction xs arbitrary: ys w w')
  case Nil
  then show ?case by simp
next
  case (Cons x xs)
  from Cons.prems(1) obtain y w1 zs w2 where f: "f x w = Inr (y, w1)" and r: "tx_map f xs w1 = Inr (zs, w2)"
    and e: "ys = y # zs" "w' = w2" by (auto simp: tx_bind_Inr_iff)
  have "w1 = w" using Cons.prems(2) f by auto
  then show ?case using Cons.IH [OF r] Cons.prems(2) f e by auto
qed

lemma owning_state_link:
  assumes "owning_state w m = Some s"
  shows "\<exists>r \<in> set (agent_runs w). run_id r = rs_RunID s \<and> msg_run_id m = Some (run_id r)
     \<and> run_assistant_message_id r = Some (msg_id m) \<and> run_session_id r = msg_session_id m
     \<and> rs_Lifecycle s = run_status r \<and> rs_OutcomeReason s = run_outcome_reason r"
proof -
  obtain r rs where r: "filter (\<lambda>r. Some (run_id r) = msg_run_id m) (agent_runs w) = r # rs"
    and ok: "validateRunCorrelationLink (history_link r m) = Inr ()" and s: "s = history_state r m"
    using assms unfolding owning_state_def by (auto split: list.splits if_splits)
  have "r \<in> set (filter (\<lambda>r. Some (run_id r) = msg_run_id m) (agent_runs w))" unfolding r by simp
  then have "r \<in> set (agent_runs w)" "Some (run_id r) = msg_run_id m" by simp_all
  then show ?thesis
    using ok s by (auto simp: validateRunCorrelationLink_def Validate_iff history_link_def history_state_def text_or_empty_def
        split: option.splits)
qed

lemma history_page_Inr:
  assumes "history_page sid b limit w = Inr (hs, w')"
  obtains page w1 zs where "tx_map scan_message page w = Inr (zs, w1)" "hs = rev zs" "w' = w1"
    "set page \<subseteq> {m \<in> set (messages w). msg_session_id m = sid}"
proof -
  obtain s w0 where q: "query_row (\<lambda>w. filter (\<lambda>s. sess_id s = sid \<and> sess_deletion_state s = ''active'') (sessions w)) w = Inr (s, w0)"
    and rest: "tx_bind (tx_gets (\<lambda>w. take (nat limit) (rev (sort_key (\<lambda>m. (msg_sequence m, msg_id m))
         (filter (\<lambda>m. msg_session_id m = sid \<and> (case b of None \<Rightarrow> True | Some b \<Rightarrow> msg_sequence m < b))
           (messages w)))))) (\<lambda>page. tx_bind (tx_map scan_message page) (\<lambda>reversed. tx_return (rev reversed))) w0 = Inr (hs, w')"
    using assms unfolding history_page_def by (rule tx_thenE)
  have "w0 = w" using q by (simp add: query_row_def split: list.splits)
  with rest show thesis
    by (auto simp: tx_bind_Inr_iff intro!: that dest!: in_set_takeD)
qed

lemma history_page_shows:
  assumes "history_page sid b limit w = Inr (hs, w')" "h \<in> set hs"
  shows "w' = w \<and> (\<exists>m \<in> set (messages w). msg_session_id m = sid \<and> \<not> ambiguous w m \<and> hm_MessageID h = msg_id m
    \<and> hm_RunState h = owning_state w m)"
proof -
  obtain page w1 zs where p: "tx_map scan_message page w = Inr (zs, w1)" "hs = rev zs" "w' = w1"
    and sub: "set page \<subseteq> {m \<in> set (messages w). msg_session_id m = sid}"
    by (rule history_page_Inr [OF assms(1)])
  have "w1 = w \<and> list_all2 (\<lambda>x y. scan_message x w = Inr (y, w)) page zs"
    using tx_map_readonly [OF p(1)] scan_message_Inr by blast
  then show ?thesis using p(2,3) assms(2) sub scan_message_Inr by (fastforce simp: list_all2_conv_all_nth in_set_conv_nth)
qed

text \<open>A page is read as it is, or refused; two pages in a row are one listing.\<close>

lemma ListSessionsPage_Inr:
  assumes "ListSessionsPage input w = Inr (page, w')"
  shows "0 < ls_Limit input \<and> page = session_page input (sessions w)"
proof -
  let ?f = "\<lambda>s. tx_then (tx_lift (validateSession s)) (tx_return s) :: session wtx"
  have keeps: "?f x v = Inr (y, v') \<Longrightarrow> v' = v \<and> y = x" for x y v v' by (auto simp: tx_then_Inr_iff split: sum.splits)
  obtain u w1 where c: "tx_lift (check_session_page input) w = Inr (u, w1)"
    and m: "tx_map ?f (session_page input (sessions w1)) w1 = Inr (page, w')"
    using assms unfolding ListSessionsPage_def by (auto simp: tx_then_Inr_iff tx_bind_Inr_iff)
  have "list_all2 (\<lambda>x y. ?f x w1 = Inr (y, w1)) (session_page input (sessions w1)) page"
    using tx_map_readonly [OF m] keeps by blast
  then have "list_all2 (=) (session_page input (sessions w1)) page" by (rule list_all2_mono) (use keeps in blast)
  then show ?thesis using c by (auto simp: list.rel_eq check_session_page_def split: sum.splits if_splits)
qed

lemma two_pages:
  assumes "distinct (map sess_id (sessions w))" "ls_After input = None"
    and "ListSessionsPage input w = Inr (page, w1)" "int (length page) = ls_Limit input"
    and "ListSessionsPage (input\<lparr>ls_After := Some \<lparr>scu_UpdatedAt = sess_updated_at (last page), scu_SessionID = sess_id (last page)\<rparr>\<rparr>) w
      = Inr (page2, w2)"
  shows "page @ page2 = take (nat (2 * ls_Limit input)) (rev (sort_key session_key (filter (listed (ls_Filter input)) (sessions w))))"
proof -
  let ?n = "nat (ls_Limit input)" and ?xs = "rev (sort_key session_key (filter (listed (ls_Filter input)) (sessions w)))"
  have p: "0 < ls_Limit input" "page = session_page input (sessions w)" using ListSessionsPage_Inr [OF assms(3)] by simp_all
  have first: "page = take ?n ?xs" using p(2) assms(2) by (simp add: session_page_def after_session_def)
  have "page2 = take ?n (drop ?n ?xs)"
    using ListSessionsPage_Inr [OF assms(5)] session_page_next [OF assms(1) p(1) assms(2), of "last page"] p assms(4) by simp
  moreover have "nat (2 * ls_Limit input) = ?n + ?n" using p(1) by simp
  ultimately show ?thesis using first by (simp only: take_add)
qed

section \<open>What a mutation changes\<close>

lemma activity_time_advances:
  assumes "nextSessionActivityTime current candidate [] = Inr t"
  shows "\<exists>c. ParseCanonical current = Inr c \<and> c < t \<and> candidate \<le> t"
  using assms by (auto simp: nextSessionActivityTime_def split: sum.splits if_splits)

lemma requireChatSessionTx_Inr:
  assumes "requireChatSessionTx sid w = Inr (u, w')"
  shows "w' = w \<and> (\<exists>s ss. filter (\<lambda>s. sess_id s = sid) (sessions w) = s # ss \<and> sess_kind s = ''chat''
    \<and> sess_deletion_state s = ''active'')"
  using assms by (auto simp: requireChatSessionTx_def query_opt_def tx_simps split: list.splits if_splits option.splits)

lemma getSessionTx_Inr:
  assumes "tx_map_err g (getSessionTx sid) w = Inr (s, w')"
  shows "w' = w \<and> (\<exists>ss. filter (\<lambda>s. sess_id s = sid) (sessions w) = s # ss)"
  using assms by (auto simp: getSessionTx_def query_row_def tx_simps split: list.splits sum.splits)

lemma write_session_Inr:
  assumes "write_session sid s w = Inr (u, w')"
  shows "w' = w\<lparr>sessions := update_where (\<lambda>x. sess_id x = sid \<and> sess_deletion_state x = ''active'')
    (\<lambda>x. x\<lparr>sess_title := sess_title s, sess_title_origin := sess_title_origin s, sess_status := sess_status s,
           sess_updated_at := sess_updated_at s\<rparr>) (sessions w)\<rparr>"
  using assms by (auto simp: write_session_def Let_def tx_simps expectOneRow_def expectOneRowErr_def split: if_splits)

lemma appendSessionEventTx_Inr:
  assumes "appendSessionEventTx sid t ty p at w = Inr (e, w')"
  shows "sessions w' = sessions w \<and> events w' = events w @ [e] \<and> ev_session_id e = sid \<and> ev_type e = ty"
  using assms by (auto simp: appendSessionEventTx_def appendEventTx_def insert_event_def ids_New_def tx_simps Let_def split: if_splits)

text \<open>
  A mutation answered as no change has written nothing. One that takes effect appends one
  \<^verbatim>\<open>session.updated\<close> event, and no session but the named one changes.
\<close>

lemma mutateSession_cases:
  assumes "mutateSession sid f w = Inr (res, w')"
  obtains (unchanged) "w' = w" "sm_Event res = None" "\<not> sm_Changed res"
  | (changed) current where "current \<in> set (sessions w)" "sess_id current = sid" "snd (f current)"
      "commit_session sid current (fst (f current)) w = Inr (res, w')"
proof -
  from assms obtain u w1 where req: "requireChatSessionTx sid w = Inr (u, w1)"
    and rest: "tx_bind (tx_map_err not_found_session (getSessionTx sid)) (\<lambda>current.
     let (changed_session, changed) = f current in
     if \<not> changed then tx_return \<lparr>sm_Session = current, sm_Event = None, sm_Changed = False\<rparr>
     else commit_session sid current changed_session) w1 = Inr (res, w')"
    unfolding mutateSession_def by (rule tx_thenE)
  have w1: "w1 = w" using requireChatSessionTx_Inr [OF req] by blast
  from rest [unfolded w1] obtain current w2 where get: "tx_map_err not_found_session (getSessionTx sid) w = Inr (current, w2)"
    and rest2: "(let (changed_session, changed) = f current in
     if \<not> changed then tx_return \<lparr>sm_Session = current, sm_Event = None, sm_Changed = False\<rparr>
     else commit_session sid current changed_session) w2 = Inr (res, w')" by (rule tx_bindE)
  obtain ss where w2: "w2 = w" and ss: "filter (\<lambda>s. sess_id s = sid) (sessions w) = current # ss"
    using getSessionTx_Inr [OF get] by blast
  have "current \<in> set (filter (\<lambda>s. sess_id s = sid) (sessions w))" unfolding ss by simp
  then have cur: "current \<in> set (sessions w)" "sess_id current = sid" by simp_all
  show thesis
    using rest2 cur unfolding w2
    by (cases "f current"; cases "snd (f current)") (auto intro: unchanged changed)
qed

lemma commit_session_Inr:
  assumes "commit_session sid current next0 w = Inr (res, w')"
  obtains t t' e where "ParseCanonical (sess_updated_at current) = Inr t" "t < t'" "sm_Changed res"
    "sm_Session res = next0\<lparr>sess_updated_at := FormatTimestamp t'\<rparr>"
    "events w' = events w @ [e]" "ev_type e = ''session.updated''" "ev_session_id e = sid"
    "sessions w' = update_where (\<lambda>x. sess_id x = sid \<and> sess_deletion_state x = ''active'')
      (\<lambda>x. x\<lparr>sess_title := sess_title next0, sess_title_origin := sess_title_origin next0,
             sess_status := sess_status next0, sess_updated_at := FormatTimestamp t'\<rparr>) (sessions w)"
proof -
  obtain now w3 at w4 u w5 tr w6 e w7 where now: "time_Now w = Inr (now, w3)"
    and act: "tx_lift (nextSessionActivityTime (sess_updated_at current) now []) w3 = Inr (at, w4)"
    and wr: "write_session sid (next0\<lparr>sess_updated_at := FormatTimestamp at\<rparr>) w4 = Inr (u, w5)"
    and tr: "ids_New ''trace'' w5 = Inr (tr, w6)"
    and ev: "appendSessionEventTx sid tr ''session.updated'' (Some (session_payload (next0\<lparr>sess_updated_at := FormatTimestamp at\<rparr>)))
           (sess_updated_at (next0\<lparr>sess_updated_at := FormatTimestamp at\<rparr>)) w6 = Inr (e, w7)"
    and res: "res = \<lparr>sm_Session = next0\<lparr>sess_updated_at := FormatTimestamp at\<rparr>, sm_Event = Some e, sm_Changed = True\<rparr>" "w' = w7"
    using assms unfolding commit_session_def Let_def tx_bind_Inr_iff tx_then_Inr_iff by auto
  have same: "sessions w3 = sessions w" "events w3 = events w" using now by (auto simp: time_Now_def)
  have act: "nextSessionActivityTime (sess_updated_at current) now [] = Inr at" "w4 = w3"
    using act by (simp_all split: sum.splits)
  have same6: "sessions w6 = sessions w5" "events w6 = events w5" using tr by (auto simp: ids_New_def)
  obtain t where t: "ParseCanonical (sess_updated_at current) = Inr t" "t < at" using activity_time_advances [OF act(1)] by blast
  show thesis
    using write_session_Inr [OF wr] appendSessionEventTx_Inr [OF ev] same same6 act(2) res t
    by (intro that [of t at e]) simp_all
qed

section \<open>Within the store relations\<close>

context transition_relation
begin

lemma within_requireChatSessionTx: "tx_within R (requireChatSessionTx sid)"
  unfolding requireChatSessionTx_def by (intro within_intros within_env)

lemma within_insert_session: "tx_within R (insert_session s)"
  unfolding insert_session_def
  by (intro within_bind within_gets within_then within_guard within_modify frame_keys) (simp_all add: same_keys_def)

lemma within_mutateSession: "tx_within R (mutateSession sid f)"
  unfolding mutateSession_def commit_session_def getSessionTx_def write_session_def Let_def
  by (intro within_then within_requireChatSessionTx within_bind within_map_err within_env within_lift within_return
      within_case_prod within_if within_gets within_modify frame_keys within_events) (simp_all add: same_keys_def)

lemma within_session_operations:
  "tx_within R (RenameSession sid title)" "tx_within R (ArchiveSession sid)" "tx_within R (RestoreSession sid)"
  "tx_within R (CreateSession title)" "tx_within R BackfillSessionTitles"
  unfolding RenameSession_def ArchiveSession_def RestoreSession_def setSessionStatus_def CreateSession_def
    BackfillSessionTitles_def Let_def
  by (intro within_if within_fail within_mutateSession within_bind within_env within_then within_insert_session
      within_return within_gets within_modify frame_keys; simp add: same_keys_def)+

end

end
