(* ===== verification/Delegations.thy ===== *)
theory Delegations
  imports EgressConsent Sessions RunTransitions Routing
begin

text \<open>
  Delegating a task to a specialist (\<^verbatim>\<open>delegations.go\<close>) and the user's consent to tools of the task
  that leave the machine (\<^verbatim>\<open>delegation_egress.go\<close>), with the gates of \<^verbatim>\<open>tools.go\<close> and the skill
  patterns of \<^verbatim>\<open>teamfiles/loader.go\<close> they consult.
\<close>

section \<open>Gates\<close>

definition DelegationCount :: "string \<Rightarrow> int wtx" where
  "DelegationCount rid = tx_gets (\<lambda>w. int (length (filter (\<lambda>d. dg_parent_run_id d = rid) (delegations w))))"

definition session_active :: "world \<Rightarrow> string \<Rightarrow> bool" where
  "session_active w sid \<longleftrightarrow> list_ex (\<lambda>s. sess_id s = sid \<and> sess_deletion_state s = ''active'') (sessions w)"

definition delegationAssignmentCurrent :: "string \<Rightarrow> string \<Rightarrow> bool wtx" where
  "delegationAssignmentCurrent rid attemptID = tx_gets (\<lambda>w.
     list_ex (\<lambda>r. run_id r = rid \<and> attemptID \<noteq> '''' \<and> run_execution_attempt_id r = Some attemptID
       \<and> run_execution_active r \<and> run_status r = ''running'' \<and> session_active w (run_session_id r)
       \<and> list_ex (\<lambda>j. job_run_id j = rid \<and> job_status j = ''in_progress'' \<and> job_assignment_attempt_id j = Some attemptID)
           (jobs w)) (agent_runs w))"

definition pseudoServerDispatchActive :: "string \<Rightarrow> string \<Rightarrow> string \<Rightarrow> string \<Rightarrow> bool wtx" where
  "pseudoServerDispatchActive serverName rid toolName expectedPolicy = tx_gets (\<lambda>w.
     list_ex (\<lambda>t. tl_server_name t = serverName \<and> tl_tool_name t = toolName \<and> tl_policy t = expectedPolicy
       \<and> tl_mcp_server_id t = None) (tool_rows w)
     \<and> list_ex (\<lambda>r. run_id r = rid \<and> run_execution_active r \<and> run_status r = ''running'' \<and> session_active w (run_session_id r))
         (agent_runs w))"

text \<open>SQLite's \<^verbatim>\<open>lower\<close> folds ASCII letters only.\<close>

definition lower_byte :: "char \<Rightarrow> char" where
  "lower_byte c = (if 65 \<le> byte c \<and> byte c \<le> 90 then byte_char (byte c + 32) else c)"

definition TeamServerCollisionReason :: string where
  "TeamServerCollisionReason =
     ''Delegation is off: an MCP server named `team` exists. Remove it and register it under another name.''"

definition TeamToolCollisionReason :: "string \<Rightarrow> string \<Rightarrow> string" where
  "TeamToolCollisionReason serverName toolName =
     ''Delegation is off: `'' @ serverName @ ''` provides a tool named `'' @ toolName @ ''`.''"

definition colliding_tools :: "world \<Rightarrow> tool_row list" where
  "colliding_tools w = sort_key (\<lambda>t. (tl_server_name t, tl_tool_name t))
     (filter (\<lambda>t. tl_present t \<and> tl_server_name t \<noteq> ''team'' \<and> map lower_byte (take 5 (tl_tool_name t)) = ''team.'') (tool_rows w))"

definition teamNameCollision :: "string wtx" where
  "teamNameCollision = tx_gets (\<lambda>w.
     if list_ex (\<lambda>s. map lower_byte (mv_name s) = ''team'') (mcp_servers w) then TeamServerCollisionReason
     else case colliding_tools w of
       [] \<Rightarrow> '''' | t # _ \<Rightarrow> TeamToolCollisionReason (tl_server_name t) (tl_tool_name t))"

definition MatchPattern :: "string \<Rightarrow> string \<Rightarrow> bool" where
  "MatchPattern pattern name =
     (if pattern \<noteq> '''' \<and> last pattern = CHR ''*'' then has_prefix name (butlast pattern) else pattern = name)"

definition MatchAny :: "string list \<Rightarrow> string \<Rightarrow> bool" where
  "MatchAny patterns name = list_ex (\<lambda>p. MatchPattern p name) patterns"

section \<open>Creating a delegation\<close>

record Delegation =
  dl_ID :: string
  dl_ParentSessionID :: string
  dl_ParentRunID :: string
  dl_ChildSessionID :: string
  dl_ChildRunID :: string
  dl_ProfileID :: string
  dl_ArgsHash :: string
  dl_State :: string

definition delegation_of :: "delegation_row \<Rightarrow> agent_run \<Rightarrow> Delegation" where
  "delegation_of d child = \<lparr>dl_ID = dg_id d, dl_ParentSessionID = dg_parent_session_id d,
     dl_ParentRunID = dg_parent_run_id d, dl_ChildSessionID = dg_child_session_id d, dl_ChildRunID = dg_child_run_id d,
     dl_ProfileID = dg_profile_id d, dl_ArgsHash = dg_args_hash d,
     dl_State = displayedState (run_status child) (dg_egress_consent d)\<rparr>"

definition delegationForToolCall :: "string \<Rightarrow> string \<Rightarrow> Delegation option wtx" where
  "delegationForToolCall parentRunID toolCallID =
     query_opt (\<lambda>w. [delegation_of d r. d \<leftarrow> delegations w, dg_parent_run_id d = parentRunID \<and> dg_parent_tool_call_id d = toolCallID,
       r \<leftarrow> agent_runs w, run_id r = dg_child_run_id d])"

record AgentProfileSnapshot =
  ag_ProfileID :: string
  ag_Revision :: string
  ag_DisplayName :: string
  ag_Emoji :: string
  ag_Instructions :: string
  ag_MaxToolCalls :: int

definition profile_snapshot_json :: "AgentProfileSnapshot \<Rightarrow> json" where
  "profile_snapshot_json p = JObj [(''profileId'', JStr (ag_ProfileID p)), (''revision'', JStr (ag_Revision p)),
     (''displayName'', JStr (ag_DisplayName p)), (''emoji'', JStr (ag_Emoji p)),
     (''instructions'', JStr (ag_Instructions p)), (''maxToolCalls'', JNum (ag_MaxToolCalls p))]"

record CreateDelegationInput =
  cd_ParentRunID :: string
  cd_AssignmentAttemptID :: string
  cd_ToolCallID :: string
  cd_ArgsHash :: string
  cd_Policy :: string
  cd_MaxPerRun :: int
  cd_Profile :: AgentProfileSnapshot
  cd_SkillPatterns :: "string list"
  cd_ModelProvider :: string
  cd_Model :: string
  cd_SelectedTools :: "string list"
  cd_Brief :: string
  cd_Task :: string
  cd_EgressTools :: "string list"
  cd_EgressRequired :: bool

record CreateDelegationResult =
  cr_Delegation :: Delegation
  cr_Replayed :: bool
  cr_Events :: "Event list"

text \<open>Everything the database holds that an approval wait could outlast, read again in the code's order.\<close>

definition profile_granted :: "AgentProfileSnapshot \<Rightarrow> bool wtx" where
  "profile_granted p = tx_gets (\<lambda>w. list_ex (\<lambda>s. ps_profile_id s = ag_ProfileID p \<and> ps_enabled s
     \<and> ps_granted_revision s = Some (ag_Revision p)) (agent_profile_settings w))"

definition admit_delegation :: "CreateDelegationInput \<Rightarrow> unit wtx" where
  "admit_delegation input =
     tx_bind (pseudoServerDispatchActive ''team'' (cd_ParentRunID input) ''team.delegate'' (cd_Policy input)) (\<lambda>active.
     tx_then (tx_guard active ErrDelegationPolicyChanged) (
     tx_bind (profile_granted (cd_Profile input)) (\<lambda>granted.
     tx_then (tx_guard granted ErrDelegationProfileChanged) (
     tx_bind teamNameCollision (\<lambda>collision.
     tx_then (tx_guard (collision = '''') (ErrTeamNameCollision collision)) (
     tx_bind (DelegationCount (cd_ParentRunID input)) (\<lambda>delegated.
     tx_guard (delegated < cd_MaxPerRun input) ErrDelegationCapReached)))))))"

definition delegation_skills :: "SkillSnapshot list result \<Rightarrow> string list \<Rightarrow> SkillSnapshot list result" where
  "delegation_skills skills patterns =
     (if patterns = [] then Inr []
      else case skills of
        Inl e \<Rightarrow> Inl e
      | Inr xs \<Rightarrow> Inr (filter (\<lambda>s. \<not> sk_Withheld s \<and> MatchAny patterns (sk_SkillID s)) xs))"

definition skills_json :: "SkillSnapshot list \<Rightarrow> json" where
  "skills_json xs = (if xs = [] then JNull else JArr (map skill_json xs))"

definition specialist_payload :: "CreateDelegationInput \<Rightarrow> SkillSnapshot list \<Rightarrow> (string \<times> json) list" where
  "specialist_payload input skills =
     (let preimage = Preimage no_memory (cd_SelectedTools input) in
      [(''userText'', JStr (cd_Brief input)), (''requestedTools'', slice_json (cd_SelectedTools input)),
       (''requiredContextTokens'', JNum 0), (''minimumWorkerMaxConcurrentRuns'', JNum 0),
       (''skills'', skills_json skills), (''externalAgent'', JNull), (''egressDecision'', JNull),
       (''selectedTools'', slice_json (cd_SelectedTools input)),
       (''pinnedPersona'', persona_json (pinnedPersonaSnapshot preimage)),
       (''pinnedProfile'', profile_json (pinnedProfileSnapshot preimage)),
       (''memorySnapshotFingerprint'', JStr (MemorySnapshotFingerprint preimage)),
       (''agentProfile'', profile_snapshot_json (cd_Profile input)), (''enforceSelectedTools'', JBool True),
       (''skipAutomaticRecall'', JBool True), (''minimumTeamProtocolVersion'', JNum 1)])"

definition insert_delegation :: "delegation_row \<Rightarrow> unit wtx" where
  "insert_delegation d = tx_bind (tx_gets delegations) (\<lambda>rows.
     tx_then (tx_guard (dg_id d \<notin> set (map dg_id rows) \<and> dg_child_session_id d \<notin> set (map dg_child_session_id rows)
         \<and> dg_child_run_id d \<notin> set (map dg_child_run_id rows)
         \<and> (dg_parent_run_id d, dg_parent_tool_call_id d) \<notin> set (map (\<lambda>x. (dg_parent_run_id x, dg_parent_tool_call_id x)) rows))
       (ErrUnique ''delegations''))
       (tx_modify (\<lambda>w. w\<lparr>delegations := delegations w @ [d]\<rparr>)))"

definition delegation_title :: "AgentProfileSnapshot \<Rightarrow> string" where
  "delegation_title p = TrimSpace (ag_Emoji p @ '' '' @ ag_DisplayName p)"

definition started_payload :: "CreateDelegationInput \<Rightarrow> Delegation \<Rightarrow> string list \<Rightarrow> string \<Rightarrow> json" where
  "started_payload input d egressTools consent = JObj
     [(''childRunId'', JStr (dl_ChildRunID d)), (''childSessionId'', JStr (dl_ChildSessionID d)),
      (''delegationId'', JStr (dl_ID d)), (''displayName'', JStr (ag_DisplayName (cd_Profile input))),
      (''egressConsent'', JStr consent), (''egressRequired'', JBool (egressTools \<noteq> [] \<and> cd_EgressRequired input)),
      (''egressTools'', strings_json egressTools), (''emoji'', JStr (ag_Emoji (cd_Profile input))),
      (''parentRunId'', JStr (cd_ParentRunID input)), (''profileId'', JStr (ag_ProfileID (cd_Profile input))),
      (''state'', JStr (dl_State d)), (''summary'', JStr (''Asked '' @ delegation_title (cd_Profile input))),
      (''task'', JStr (cd_Task input))]"

definition child_session :: "CreateDelegationInput \<Rightarrow> Delegation \<Rightarrow> string \<Rightarrow> session" where
  "child_session input d at = \<lparr>sess_id = dl_ChildSessionID d, sess_kind = ''delegation'',
     sess_parent_id = Some (dl_ParentSessionID d), sess_title = Some (delegation_title (cd_Profile input)),
     sess_title_origin = ''explicit'', sess_status = ''active'', sess_created_at = at, sess_updated_at = at,
     sess_deletion_state = ''active''\<rparr>"

definition new_delegation_row :: "CreateDelegationInput \<Rightarrow> Delegation \<Rightarrow> string list \<Rightarrow> string \<Rightarrow> string \<Rightarrow> delegation_row" where
  "new_delegation_row input d egressTools consent at = \<lparr>dg_id = dl_ID d, dg_parent_session_id = dl_ParentSessionID d,
     dg_parent_run_id = cd_ParentRunID input, dg_parent_tool_call_id = cd_ToolCallID input,
     dg_child_session_id = dl_ChildSessionID d, dg_child_run_id = dl_ChildRunID d,
     dg_profile_id = ag_ProfileID (cd_Profile input), dg_profile_revision = ag_Revision (cd_Profile input),
     dg_args_hash = cd_ArgsHash input, dg_joined = False, dg_result_bytes = None, dg_error_code = None,
     dg_created_at = at, dg_finished_at = None, dg_task = cd_Task input, dg_egress_tools = strings_json egressTools,
     dg_egress_consent = consent, dg_egress_required = (egressTools \<noteq> [] \<and> cd_EgressRequired input)\<rparr>"

text \<open>The hidden session of the task, its anchor, and its queued run.\<close>

definition queue_specialist :: "CreateDelegationInput \<Rightarrow> SkillSnapshot list \<Rightarrow> Delegation \<Rightarrow> (sessionAnchor \<times> Event) wtx" where
  "queue_specialist input skills d =
     tx_bind now_text (\<lambda>sessionCreatedAt.
     tx_then (insert_session (child_session input d sessionCreatedAt)) (
     tx_bind (insertSessionAnchorTx (dl_ChildSessionID d) (dl_ChildRunID d) ''user'' DelegationBriefContentType (cd_Brief input)) (\<lambda>anchor.
     tx_bind (insertQueuedRunTx \<lparr>qr_runID = dl_ChildRunID d, qr_sessionID = dl_ChildSessionID d, qr_anchor = anchor,
         qr_modelProvider = cd_ModelProvider input, qr_model = cd_Model input, qr_continuesRunID = '''',
         qr_payload = specialist_payload input skills\<rparr>) (\<lambda>queuedEvent.
     tx_return (anchor, queuedEvent)))))"

definition delegation_consent :: "CreateDelegationInput \<Rightarrow> string list \<times> string \<times> string" where
  "delegation_consent input =
     (let egressTools = remdups_adj (sort (cd_EgressTools input)) in
      if egressTools = [] then (egressTools, '''', lifecycleQueued)
      else (egressTools, egressConsentPending, DelegationWaitingConsent))"

definition start_delegation :: "CreateDelegationInput \<Rightarrow> SkillSnapshot list \<Rightarrow> string \<Rightarrow> string \<Rightarrow> CreateDelegationResult wtx" where
  "start_delegation input skills parentSessionID parentTraceID =
     (let (egressTools, consent, state) = delegation_consent input in
      tx_bind (ids_New ''dlg'') (\<lambda>did.
      tx_bind (ids_New ''sess'') (\<lambda>csid.
      tx_bind (ids_New ''run'') (\<lambda>crid.
      let d = \<lparr>dl_ID = did, dl_ParentSessionID = parentSessionID, dl_ParentRunID = cd_ParentRunID input,
            dl_ChildSessionID = csid, dl_ChildRunID = crid, dl_ProfileID = ag_ProfileID (cd_Profile input),
            dl_ArgsHash = cd_ArgsHash input, dl_State = state\<rparr> in
      tx_bind (queue_specialist input skills d) (\<lambda>(anchor, queuedEvent).
      tx_then (insert_delegation (new_delegation_row input d egressTools consent (sa_CreatedAt anchor))) (
      tx_bind (appendRunEventTx parentSessionID (cd_ParentRunID input) parentTraceID ''delegation.started''
          (Some (started_payload input d egressTools consent)) (sa_CreatedAt anchor)) (\<lambda>started.
      tx_return \<lparr>cr_Delegation = d, cr_Replayed = False, cr_Events = [queuedEvent, started]\<rparr>)))))))"

definition CreateDelegation :: "SkillSnapshot list result \<Rightarrow> CreateDelegationInput \<Rightarrow> CreateDelegationResult wtx" where
  "CreateDelegation enabledSkills input =
     tx_bind (delegationAssignmentCurrent (cd_ParentRunID input) (cd_AssignmentAttemptID input)) (\<lambda>current.
     tx_then (tx_guard current ErrAssignmentFenced) (
     tx_bind (delegationForToolCall (cd_ParentRunID input) (cd_ToolCallID input)) (\<lambda>existing.
     case existing of
       Some d \<Rightarrow>
         if dl_ArgsHash d \<noteq> cd_ArgsHash input then tx_fail ErrDelegationArgumentsChanged
         else tx_return \<lparr>cr_Delegation = d, cr_Replayed = True, cr_Events = []\<rparr>
     | None \<Rightarrow>
         tx_then (admit_delegation input) (
         tx_bind (query_row (\<lambda>w. filter (\<lambda>r. run_id r = cd_ParentRunID input) (agent_runs w))) (\<lambda>parent.
         tx_bind (tx_lift (delegation_skills enabledSkills (cd_SkillPatterns input))) (\<lambda>skills.
         start_delegation input skills (run_session_id parent) (run_trace_id parent)))))))"

section \<open>Consent for one task\<close>

record DelegationEgress =
  de_DelegationID :: string
  de_ChildSessionID :: string
  de_ChildRunID :: string
  de_Model :: string
  de_EgressTools :: "string list"
  de_SelectedTools :: "string list"
  de_Required :: bool
  de_SkillSnapshotFingerprint :: string
  de_MemorySnapshotFingerprint :: string

record DelegationEgressResult =
  der_Events :: "Event list"
  der_ContinuationRunID :: string

definition DelegationsWaitingForConsent :: "int wtx" where
  "DelegationsWaitingForConsent = tx_gets (\<lambda>w. int (length [d. d \<leftarrow> delegations w, r \<leftarrow> agent_runs w,
     run_id r = dg_child_run_id d \<and> dg_egress_consent d = egressConsentPending \<and> run_status r = lifecycleQueued]))"

text \<open>A delegation with its child's run and job, while the parent's conversation is not being deleted.\<close>

definition consent_rows :: "string \<Rightarrow> world \<Rightarrow> (delegation_row \<times> agent_run \<times> job) list" where
  "consent_rows did w = [(d, r, j). d \<leftarrow> delegations w, dg_id d = did \<and> session_active w (dg_parent_session_id d),
     r \<leftarrow> agent_runs w, run_id r = dg_child_run_id d, j \<leftarrow> jobs w, job_run_id j = run_id r]"

definition json_members :: "json \<Rightarrow> (string \<times> json) list option" where
  "json_members j = (case j of JObj ms \<Rightarrow> Some ms | JNull \<Rightarrow> Some [] | _ \<Rightarrow> None)"

definition delegation_egress :: "delegation_row \<Rightarrow> agent_run \<Rightarrow> job \<Rightarrow> (DelegationEgress \<times> (string \<times> json) list) option" where
  "delegation_egress d r j =
     (case (decode_strings (dg_egress_tools d), json_members (job_payload j), decode_payload (job_payload j)) of
        (Some egressTools, Some raw, Some payload) \<Rightarrow>
          (case decode_skills (qp_skills payload) of
             None \<Rightarrow> None
           | Some skills \<Rightarrow>
               let selected = remdups_adj (sort (qp_selectedTools payload @ egressTools)) in
               Some (\<lparr>de_DelegationID = dg_id d, de_ChildSessionID = dg_child_session_id d,
                 de_ChildRunID = dg_child_run_id d, de_Model = run_model_name r, de_EgressTools = egressTools,
                 de_SelectedTools = selected, de_Required = dg_egress_required d,
                 de_SkillSnapshotFingerprint = skillSnapshotFingerprint skills,
                 de_MemorySnapshotFingerprint = MemorySnapshotFingerprint (Preimage no_memory selected)\<rparr>, raw))
      | _ \<Rightarrow> None)"

definition pendingDelegationEgressTx :: "string \<Rightarrow> (DelegationEgress \<times> (string \<times> json) list) wtx" where
  "pendingDelegationEgressTx delegationID =
     tx_bind (query_opt (consent_rows delegationID)) (\<lambda>found.
     case found of
       None \<Rightarrow> tx_fail ErrDelegationNotFound
     | Some (d, r, j) \<Rightarrow>
         if dg_egress_consent d \<noteq> egressConsentPending \<or> run_status r \<noteq> lifecycleQueued
         then tx_fail ErrDelegationEgressNotPending
         else case delegation_egress d r j of None \<Rightarrow> tx_fail ErrUnmarshal | Some e \<Rightarrow> tx_return e)"

definition DelegationEgressContext :: "string \<Rightarrow> DelegationEgress wtx" where
  "DelegationEgressContext delegationID = tx_bind (pendingDelegationEgressTx delegationID) (\<lambda>(e, _). tx_return e)"

text \<open>The decision must describe the task as it stands: a local model, its whole tool set, its bindings.\<close>

definition decision_fits :: "DelegationEgress \<Rightarrow> PendingEgressDecision \<Rightarrow> unit result" where
  "decision_fits e p =
     (if pd_Provider p \<noteq> LocalProvider \<or> pd_Model p \<noteq> de_Model e \<or> pd_RecallApplicable p \<or> pd_MemoryProfileApplicable p
         \<or> pd_SelectedTools p \<noteq> de_SelectedTools e then Inl ErrEgressDecisionInvalid
      else if pd_SkillSnapshotFingerprint p \<noteq> de_SkillSnapshotFingerprint e then Inl ErrEgressSkillSnapshotChanged
      else if pd_MemorySnapshotFingerprint p \<noteq> de_MemorySnapshotFingerprint e then Inl ErrEgressMemorySnapshotChanged
      else Inr ())"

definition granted_payload :: "DelegationEgress \<Rightarrow> RunEgressDecision \<Rightarrow> (string \<times> json) list \<Rightarrow> json" where
  "granted_payload e stored raw =
     (let preimage = Preimage no_memory (de_SelectedTools e) in
      JObj (foldl (\<lambda>acc kv. map_set (fst kv) (snd kv) acc) raw
        [(''selectedTools'', slice_json (de_SelectedTools e)), (''requestedTools'', slice_json (de_SelectedTools e)),
         (''egressDecision'', decision_json stored),
         (''pinnedPersona'', persona_json (pinnedPersonaSnapshot preimage)),
         (''pinnedProfile'', profile_json (pinnedProfileSnapshot preimage)),
         (''memorySnapshotFingerprint'', JStr (de_MemorySnapshotFingerprint e))]))"

definition widen_job :: "string \<Rightarrow> json \<Rightarrow> unit wtx" where
  "widen_job rid payload = tx_modify (\<lambda>w. w\<lparr>jobs := update_where (\<lambda>j. job_run_id j = rid \<and> job_status j = ''pending'')
     (\<lambda>j. j\<lparr>job_payload := payload\<rparr>) (jobs w)\<rparr>)"

definition set_consent :: "string \<Rightarrow> string \<Rightarrow> unit wtx" where
  "set_consent did consent = tx_modify (\<lambda>w. w\<lparr>delegations := update_where (\<lambda>d. dg_id d = did)
     (\<lambda>d. d\<lparr>dg_egress_consent := consent\<rparr>) (delegations w)\<rparr>)"

definition GrantDelegationEgress :: "string \<Rightarrow> PendingEgressDecision option \<Rightarrow> DelegationEgressResult wtx" where
  "GrantDelegationEgress delegationID pending =
     tx_bind (pendingDelegationEgressTx delegationID) (\<lambda>(e, raw).
     tx_bind (tx_gets net_lib) (\<lambda>lib.
     tx_bind (tx_lift (normalizePendingEgressDecision lib pending)) (\<lambda>normalized.
     case normalized of
       None \<Rightarrow> tx_fail (ErrText ''panic: nil pointer dereference'')
     | Some decision \<Rightarrow>
         tx_then (tx_lift (decision_fits e decision)) (
         tx_bind (insertRunEgressDecisionTx (de_ChildRunID e) decision) (\<lambda>stored.
         tx_then (widen_job (de_ChildRunID e) (granted_payload e stored raw)) (
         tx_then (set_consent delegationID egressConsentGranted) (
         tx_bind now_text (\<lambda>at.
         tx_bind (query_row (\<lambda>w. map run_trace_id (filter (\<lambda>r. run_id r = de_ChildRunID e) (agent_runs w)))) (\<lambda>childTraceID.
         tx_bind (recordEgressConsentTx (de_ChildSessionID e) (de_ChildRunID e) childTraceID stored
             ''Tool calls may go to '' '''' ''Data leaves your machine if this task calls one of those tools'' at) (\<lambda>notice.
         tx_bind (reportDelegationTx (de_ChildRunID e) at) (\<lambda>reported.
         tx_return \<lparr>der_Events = notice # reported, der_ContinuationRunID = ''''\<rparr>)))))))))))"

definition declined_cancel :: "string \<Rightarrow> CancelRunInput" where
  "declined_cancel rid = \<lparr>xri_RunID = rid, xri_AssistantMessageID = '''', xri_ExpectedStateVersion = 0,
     xri_Cancellation = EgressConsentDeclinedCancellation, xri_resolveVersionInTx = True, xri_queueWaitReason = ''''\<rparr>"

definition DeclineDelegationEgress :: "string \<Rightarrow> DelegationEgressResult wtx" where
  "DeclineDelegationEgress delegationID =
     tx_bind (pendingDelegationEgressTx delegationID) (\<lambda>(e, _).
     tx_then (set_consent delegationID egressConsentDeclined) (
     if de_Required e then
       tx_bind (cancelRunTx (declined_cancel (de_ChildRunID e))) (\<lambda>transition.
       tx_return \<lparr>der_Events = tr_Events transition, der_ContinuationRunID = tr_ContinuationRunID transition\<rparr>)
     else
       tx_bind now_text (\<lambda>at.
       tx_bind (reportDelegationTx (de_ChildRunID e) at) (\<lambda>reported.
       tx_return \<lparr>der_Events = reported, der_ContinuationRunID = ''''\<rparr>))))"

section \<open>What starting a task writes\<close>

lemma query_opt_Some: "query_opt q w = Inr (Some x, w') \<Longrightarrow> x \<in> set (q w) \<and> w' = w"
  by (auto simp: query_opt_def split: list.splits)

text \<open>Statements that leave runs, jobs and delegations alone.\<close>

definition same_work :: "world \<Rightarrow> world \<Rightarrow> bool" where
  "same_work w w' \<longleftrightarrow> agent_runs w' = agent_runs w \<and> delegations w' = delegations w \<and> jobs w' = jobs w"

interpretation idle: tx_relation same_work
  by unfold_locales (simp_all add: same_work_def)

lemma idle_env:
  "tx_within same_work time_Now" "tx_within same_work now_text" "tx_within same_work (ids_New k)"
  "tx_within same_work (query_row q)" "tx_within same_work (query_opt qo)"
  "tx_within same_work (touch_session sid at)" "tx_within same_work (insert_message m)"
  "tx_within same_work (insert_session s)"
  by (auto simp: tx_within_def same_work_def time_Now_def now_text_def ids_New_def query_row_def query_opt_def
      touch_session_def insert_message_def insert_session_def tx_simps split: list.splits if_splits)

lemma idle_appendEventTx: "tx_within same_work (appendEventTx sid r t ty p at)"
  by (auto simp: tx_within_def same_work_def appendEventTx_def insert_event_def ids_New_def tx_simps Let_def split: if_splits)

lemma idle_insertSessionAnchorTx: "tx_within same_work (insertSessionAnchorTx sid rid role ct c)"
  unfolding insertSessionAnchorTx_def nextMessageSlotTx_def nextSessionActivityTimeTx_def Let_def
  by (intro idle.within_intros idle_env)

lemma insertQueuedRunTx_Inr:
  assumes "insertQueuedRunTx run w = Inr (e, w')"
  obtains tr c jid where "agent_runs w' = agent_runs w @ [queued_run_row run tr c]"
    "jobs w' = jobs w @ [queued_job_row run jid tr]" "delegations w' = delegations w"
    "qr_runID run \<notin> set (map run_id (agent_runs w))"
proof -
  obtain c w0 tr w1 u2 w2 row w3 u4 w4 jid w5 u6 w6 pl where
      c: "tx_lift (ParseCanonical (sa_CreatedAt (qr_anchor run))) w = Inr (c, w0)" and tr: "ids_New ''trace'' w0 = Inr (tr, w1)"
    and i: "insert_agent_run (queued_run_row run tr (UnixNano c)) w1 = Inr (u2, w2)"
    and rd: "readRunRow (qr_runID run) w2 = Inr (row, w3)"
    and v: "tx_lift (validateRunCorrelationLink (runRow_link row)) w3 = Inr (u4, w4)"
    and j: "ids_New ''job'' w4 = Inr (jid, w5)" and ij: "insert_job_row (queued_job_row run jid tr) w5 = Inr (u6, w6)"
    and ev: "appendRunEventTx (qr_sessionID run) (qr_runID run) tr ''agent.run.queued'' (Some pl) (sa_CreatedAt (qr_anchor run)) w6 = Inr (e, w')"
    using assms unfolding insertQueuedRunTx_def tx_bind_Inr_iff tx_then_Inr_iff by blast
  have w4: "w4 = w2" using readRunRow_Inr [OF rd] v by (simp split: sum.splits)
  have "same_work w w1" using c tr by (auto simp: ids_New_def same_work_def split: sum.splits)
  moreover have "same_work w4 w5" using j by (auto simp: ids_New_def same_work_def)
  moreover have "same_work w6 w'" using ev idle_appendEventTx unfolding appendRunEventTx_def by (rule tx_withinD [rotated])
  ultimately show thesis
    using insert_agent_run_Inr [OF i] insert_job_row_Inr [OF ij] w4
    by (intro that [of tr "UnixNano c" jid]) (simp_all add: same_work_def queued_run_row_def)
qed

lemma queued_row_fields:
  "run_id (queued_run_row run tr c) = qr_runID run" "run_status (queued_run_row run tr c) = lifecycleQueued"
  "run_session_id (queued_run_row run tr c) = qr_sessionID run"
  "job_run_id (queued_job_row run jid tr) = qr_runID run" "job_status (queued_job_row run jid tr) = ''pending''"
  by (simp_all add: queued_run_row_def queued_job_row_def Let_def)

lemma queue_specialist_Inr:
  assumes "queue_specialist input skills d w = Inr ((anchor, ev), w')"
  obtains r j where "agent_runs w' = agent_runs w @ [r]" "jobs w' = jobs w @ [j]" "delegations w' = delegations w"
    "run_id r = dl_ChildRunID d" "run_status r = lifecycleQueued" "run_session_id r = dl_ChildSessionID d"
    "job_run_id j = dl_ChildRunID d" "job_status j = ''pending''" "dl_ChildRunID d \<notin> set (map run_id (agent_runs w))"
proof -
  define qr where "qr a = \<lparr>qr_runID = dl_ChildRunID d, qr_sessionID = dl_ChildSessionID d, qr_anchor = a,
         qr_modelProvider = cd_ModelProvider input, qr_model = cd_Model input, qr_continuesRunID = '''',
         qr_payload = specialist_payload input skills\<rparr>" for a
  obtain at w1 u w2 w3 e w4 where now: "now_text w = Inr (at, w1)" and ins: "insert_session (child_session input d at) w1 = Inr (u, w2)"
    and an: "insertSessionAnchorTx (dl_ChildSessionID d) (dl_ChildRunID d) ''user'' DelegationBriefContentType (cd_Brief input) w2 = Inr (anchor, w3)"
    and q: "insertQueuedRunTx (qr anchor) w3 = Inr (e, w')"
    using assms unfolding queue_specialist_def tx_bind_Inr_iff tx_then_Inr_iff by (auto simp: qr_def)
  have "same_work w w3"
    using tx_withinD [OF idle_env(2) now] tx_withinD [OF idle_env(8) ins] tx_withinD [OF idle_insertSessionAnchorTx an]
    by (simp add: same_work_def)
  moreover obtain tr c jid where "agent_runs w' = agent_runs w3 @ [queued_run_row (qr anchor) tr c]"
    "jobs w' = jobs w3 @ [queued_job_row (qr anchor) jid tr]" "delegations w' = delegations w3"
    "qr_runID (qr anchor) \<notin> set (map run_id (agent_runs w3))" by (rule insertQueuedRunTx_Inr [OF q])
  moreover have "qr_runID (qr anchor) = dl_ChildRunID d" "qr_sessionID (qr anchor) = dl_ChildSessionID d" by (simp_all add: qr_def)
  ultimately show thesis
    by (intro that [of "queued_run_row (qr anchor) tr c" "queued_job_row (qr anchor) jid tr"])
      (simp_all add: same_work_def queued_row_fields)
qed

lemma sort_empty: "sort (xs :: string list) = [] \<longleftrightarrow> xs = []"
  by (metis length_0_conv length_sort)

text \<open>A task that was started: its queued run, its pending job and its delegation, all new.\<close>

lemma start_delegation_Inr:
  assumes "start_delegation input skills psid ptr w = Inr (res, w')"
  obtains d r j egressTools where "\<not> cr_Replayed res" "delegations w' = delegations w @ [d]"
    "agent_runs w' = agent_runs w @ [r]" "jobs w' = jobs w @ [j]"
    "run_id r = dg_child_run_id d" "run_status r = lifecycleQueued" "run_session_id r = dg_child_session_id d"
    "job_run_id j = dg_child_run_id d" "job_status j = ''pending''"
    "dg_child_run_id d \<notin> set (map run_id (agent_runs w))" "dg_child_run_id d \<notin> set (map dg_child_run_id (delegations w))"
    "dg_parent_run_id d = cd_ParentRunID input" "dg_parent_tool_call_id d = cd_ToolCallID input" "dg_args_hash d = cd_ArgsHash input"
    "dg_egress_consent d = (if cd_EgressTools input = [] then '''' else egressConsentPending)"
    "cr_Delegation res = delegation_of d r"
proof -
  obtain egressTools consent state where con: "delegation_consent input = (egressTools, consent, state)"
    by (cases "delegation_consent input") blast
  define dl where "dl did csid crid = \<lparr>dl_ID = did, dl_ParentSessionID = psid, dl_ParentRunID = cd_ParentRunID input,
            dl_ChildSessionID = csid, dl_ChildRunID = crid, dl_ProfileID = ag_ProfileID (cd_Profile input),
            dl_ArgsHash = cd_ArgsHash input, dl_State = state\<rparr>" for did csid crid
  obtain did w1 csid w2 crid w3 anchor ev w4 u w5 started w6 where i1: "ids_New ''dlg'' w = Inr (did, w1)"
    and i2: "ids_New ''sess'' w1 = Inr (csid, w2)" and i3: "ids_New ''run'' w2 = Inr (crid, w3)"
    and q: "queue_specialist input skills (dl did csid crid) w3 = Inr ((anchor, ev), w4)"
    and ins: "insert_delegation (new_delegation_row input (dl did csid crid) egressTools consent (sa_CreatedAt anchor)) w4 = Inr (u, w5)"
    and evt: "appendRunEventTx psid (cd_ParentRunID input) ptr ''delegation.started''
          (Some (started_payload input (dl did csid crid) egressTools consent)) (sa_CreatedAt anchor) w5 = Inr (started, w6)"
    and res: "res = \<lparr>cr_Delegation = dl did csid crid, cr_Replayed = False, cr_Events = [ev, started]\<rparr>" "w' = w6"
    using assms unfolding start_delegation_def con Let_def prod.case dl_def [symmetric]
    by (auto simp: tx_bind_Inr_iff tx_then_Inr_iff split: prod.splits)
  have s3: "same_work w w3" using i1 i2 i3 by (auto simp: ids_New_def same_work_def)
  have s6: "same_work w5 w6" using evt idle_appendEventTx unfolding appendRunEventTx_def by (rule tx_withinD [rotated])
  obtain r j where rj: "agent_runs w4 = agent_runs w3 @ [r]" "jobs w4 = jobs w3 @ [j]" "delegations w4 = delegations w3"
    "run_id r = crid" "run_status r = lifecycleQueued" "run_session_id r = csid" "job_run_id j = crid" "job_status j = ''pending''"
    "crid \<notin> set (map run_id (agent_runs w3))"
    by (rule queue_specialist_Inr [OF q]) (simp add: dl_def)
  define d where "d = new_delegation_row input (dl did csid crid) egressTools consent (sa_CreatedAt anchor)"
  have d: "w5 = w4\<lparr>delegations := delegations w4 @ [d]\<rparr>" "dg_child_run_id d \<notin> set (map dg_child_run_id (delegations w4))"
    using ins by (auto simp: insert_delegation_def tx_simps d_def split: if_splits)
  have tools: "egressTools = [] \<longleftrightarrow> cd_EgressTools input = []"
    and st: "consent = (if egressTools = [] then '''' else egressConsentPending)"
      "state = (if egressTools = [] then lifecycleQueued else DelegationWaitingConsent)"
    using con by (auto simp: delegation_consent_def Let_def sort_empty split: if_splits)
  have fields: "dg_child_run_id d = crid" "dg_child_session_id d = csid" "dg_parent_run_id d = cd_ParentRunID input"
    "dg_parent_tool_call_id d = cd_ToolCallID input" "dg_args_hash d = cd_ArgsHash input" "dg_egress_consent d = consent"
    "dg_id d = did" "dg_parent_session_id d = psid" "dg_profile_id d = ag_ProfileID (cd_Profile input)"
    by (simp_all add: d_def new_delegation_row_def dl_def)
  have "displayedState lifecycleQueued consent = state"
    using st by (simp add: displayedState_def egressConsentPending_def lifecycleQueued_def lifecycleRecovering_def)
  then have "dl did csid crid = delegation_of d r" using fields rj by (simp add: dl_def delegation_of_def)
  then show thesis
    using s3 s6 rj d fields tools st res
    by (intro that [of d r j]) (simp_all add: same_work_def)
qed

section \<open>Admission, replay and consent\<close>

lemma CreateDelegation_cases:
  assumes "CreateDelegation skills input w = Inr (res, w')"
  obtains (replayed) d r where "w' = w" "cr_Replayed res" "d \<in> set (delegations w)" "r \<in> set (agent_runs w)"
      "run_id r = dg_child_run_id d" "cr_Delegation res = delegation_of d r" "cr_Events res = []"
      "dg_parent_run_id d = cd_ParentRunID input" "dg_parent_tool_call_id d = cd_ToolCallID input" "dg_args_hash d = cd_ArgsHash input"
  | (started) parent xs where "admit_delegation input w = Inr ((), w)" "parent \<in> set (agent_runs w)"
      "start_delegation input xs (run_session_id parent) (run_trace_id parent) w = Inr (res, w')"
proof -
  obtain existing where ex: "delegationForToolCall (cd_ParentRunID input) (cd_ToolCallID input) w = Inr (existing, w)"
    and rest: "(case existing of
       Some d \<Rightarrow>
         if dl_ArgsHash d \<noteq> cd_ArgsHash input then tx_fail ErrDelegationArgumentsChanged
         else tx_return \<lparr>cr_Delegation = d, cr_Replayed = True, cr_Events = []\<rparr>
     | None \<Rightarrow>
         tx_then (admit_delegation input) (
         tx_bind (query_row (\<lambda>w. filter (\<lambda>r. run_id r = cd_ParentRunID input) (agent_runs w))) (\<lambda>parent.
         tx_bind (tx_lift (delegation_skills skills (cd_SkillPatterns input))) (\<lambda>skills.
         start_delegation input skills (run_session_id parent) (run_trace_id parent))))) w = Inr (res, w')"
    using assms unfolding CreateDelegation_def delegationAssignmentCurrent_def delegationForToolCall_def query_opt_def
    by (auto simp: tx_bind_Inr_iff tx_then_guard split: list.splits)
  show thesis
  proof (cases existing)
    case None
    obtain u w1 parent w2 xs w3 where ad: "admit_delegation input w = Inr (u, w1)"
      and p: "query_row (\<lambda>w. filter (\<lambda>r. run_id r = cd_ParentRunID input) (agent_runs w)) w1 = Inr (parent, w2)"
      and k: "tx_lift (delegation_skills skills (cd_SkillPatterns input)) w2 = Inr (xs, w3)"
      and st: "start_delegation input xs (run_session_id parent) (run_trace_id parent) w3 = Inr (res, w')"
      using rest unfolding None option.case tx_bind_Inr_iff tx_then_Inr_iff by blast
    have w1: "w1 = w" using ad
      by (auto simp: admit_delegation_def pseudoServerDispatchActive_def profile_granted_def teamNameCollision_def
          DelegationCount_def tx_bind_Inr_iff tx_then_guard split: if_splits)
    obtain ps where ps: "filter (\<lambda>r. run_id r = cd_ParentRunID input) (agent_runs w) = parent # ps" and w2: "w2 = w"
      using p w1 by (auto simp: query_row_def split: list.splits)
    have "parent \<in> set (filter (\<lambda>r. run_id r = cd_ParentRunID input) (agent_runs w))" unfolding ps by simp
    moreover have "w3 = w" using k w2 by (simp split: sum.splits)
    ultimately show thesis using ad w1 st by (intro started [of parent xs]) simp_all
  next
    case (Some dl)
    then have dl: "dl_ArgsHash dl = cd_ArgsHash input" "w' = w" "res = \<lparr>cr_Delegation = dl, cr_Replayed = True, cr_Events = []\<rparr>"
      using rest by (auto split: if_splits)
    have "dl \<in> set [delegation_of d r. d \<leftarrow> delegations w, dg_parent_run_id d = cd_ParentRunID input \<and> dg_parent_tool_call_id d = cd_ToolCallID input,
       r \<leftarrow> agent_runs w, run_id r = dg_child_run_id d]"
      using query_opt_Some ex unfolding Some delegationForToolCall_def by fast
    then obtain d r where "d \<in> set (delegations w)" "r \<in> set (agent_runs w)" "run_id r = dg_child_run_id d"
      "dg_parent_run_id d = cd_ParentRunID input" "dg_parent_tool_call_id d = cd_ToolCallID input" "dl = delegation_of d r"
      by (auto split: if_splits)
    then show thesis using dl by (intro replayed [of d r]) (simp_all add: delegation_of_def)
  qed
qed

text \<open>Which gates an admitted call has passed.\<close>

lemma admit_delegation_Inr:
  assumes "admit_delegation input w = Inr ((), w)"
  shows "int (length (filter (\<lambda>d. dg_parent_run_id d = cd_ParentRunID input) (delegations w))) < cd_MaxPerRun input"
    and "\<exists>s \<in> set (agent_profile_settings w). ps_profile_id s = ag_ProfileID (cd_Profile input) \<and> ps_enabled s
      \<and> ps_granted_revision s = Some (ag_Revision (cd_Profile input))"
    and "\<exists>t \<in> set (tool_rows w). tl_server_name t = ''team'' \<and> tl_tool_name t = ''team.delegate'' \<and> tl_policy t = cd_Policy input"
  using assms
  by (auto simp: admit_delegation_def pseudoServerDispatchActive_def profile_granted_def teamNameCollision_def
      DelegationCount_def tx_bind_Inr_iff tx_then_guard list_ex_iff split: if_splits)

lemma CreateDelegation_owner:
  assumes "CreateDelegation skills input w = Inr (res, w')"
  shows "\<exists>r \<in> set (agent_runs w). run_id r = cd_ParentRunID input \<and> run_status r = ''running'' \<and> run_execution_active r
    \<and> run_execution_attempt_id r = Some (cd_AssignmentAttemptID input)"
  using assms by (auto simp: CreateDelegation_def delegationAssignmentCurrent_def tx_bind_Inr_iff tx_then_guard list_ex_iff)

lemma pendingDelegationEgressTx_Inr:
  assumes "pendingDelegationEgressTx did w = Inr ((e, raw), w')"
  obtains d r j where "w' = w" "d \<in> set (delegations w)" "r \<in> set (agent_runs w)" "j \<in> set (jobs w)" "dg_id d = did"
    "run_id r = dg_child_run_id d" "job_run_id j = run_id r" "dg_egress_consent d = egressConsentPending"
    "run_status r = lifecycleQueued" "delegation_egress d r j = Some (e, raw)" "de_ChildRunID e = run_id r"
proof -
  obtain d r j where ex: "query_opt (consent_rows did) w = Inr (Some (d, r, j), w)"
    and w': "w' = w" and st: "dg_egress_consent d = egressConsentPending" "run_status r = lifecycleQueued"
    and de: "delegation_egress d r j = Some (e, raw)"
    using assms unfolding pendingDelegationEgressTx_def
    by (auto simp: tx_bind_Inr_iff query_opt_def split: list.splits if_splits option.splits)
  have "(d, r, j) \<in> set (consent_rows did w)"
    using query_opt_Some [OF ex] by blast
  then have dr: "d \<in> set (delegations w)" "r \<in> set (agent_runs w)" "j \<in> set (jobs w)" "dg_id d = did"
    "run_id r = dg_child_run_id d" "job_run_id j = run_id r" by (auto simp: consent_rows_def split: if_splits)
  have "de_ChildRunID e = dg_child_run_id d"
    using de by (auto simp: delegation_egress_def Let_def split: option.splits)
  then have "de_ChildRunID e = run_id r" using dr(5) by simp
  then show thesis using w' st de dr by (intro that [of d r j]) blast+
qed

section \<open>Within the store relations\<close>

context store_relation
begin

lemma within_insert_delegation:
  assumes "insert_delegation d w = Inr (u, w')" "dg_child_run_id d \<in> set (map run_id (agent_runs w))"
  shows "R w w'"
proof -
  have w': "w' = w\<lparr>delegations := delegations w @ [d]\<rparr>" and "dg_child_run_id d \<notin> set (map dg_child_run_id (delegations w))"
    using assms(1) by (auto simp: insert_delegation_def tx_simps split: if_splits)
  then show ?thesis unfolding w' using assms(2) by (intro any_ok) (auto simp: db_ok_def)
qed

lemma within_queue_specialist: "tx_within R (queue_specialist input skills d)"
  unfolding queue_specialist_def
  by (intro within_bind within_env within_then within_insert_session within_insertSessionAnchorTx within_insertQueuedRunTx within_return)

lemma within_recordEgressConsentTx: "tx_within R (recordEgressConsentTx s r t d l de out a)"
  unfolding recordEgressConsentTx_def appendRunNoticeTx_def Let_def
  by (intro within_bind within_then within_events within_recordAuditTx within_return)

lemma within_insertRunEgressDecisionTx: "tx_within R (insertRunEgressDecisionTx rid p)"
  unfolding insertRunEgressDecisionTx_def Let_def
  by (intro within_bind within_env within_gets within_then within_guard within_modify frame_keys within_return)
    (simp_all add: same_keys_def)

lemma within_set_consent: "tx_within R (set_consent did c)"
  unfolding set_consent_def
  by (intro within_modify frame_keys) (simp_all add: same_keys_def map_update_where dg_link_def)

end

context store_relation
begin

lemma within_widen_job: "tx_within R (widen_job rid p)"
  unfolding widen_job_def
  by (intro within_modify any_keys) (simp_all add: same_keys_def map_update_where list_all2_same same_state_refl)

lemma within_start_delegation: "tx_within R (start_delegation input skills psid ptr)"
proof (rule tx_withinI)
  fix w res w' assume run: "start_delegation input skills psid ptr w = Inr (res, w')"
  obtain egressTools consent state where con: "delegation_consent input = (egressTools, consent, state)"
    by (cases "delegation_consent input") blast
  define dl where "dl did csid crid = \<lparr>dl_ID = did, dl_ParentSessionID = psid, dl_ParentRunID = cd_ParentRunID input,
            dl_ChildSessionID = csid, dl_ChildRunID = crid, dl_ProfileID = ag_ProfileID (cd_Profile input),
            dl_ArgsHash = cd_ArgsHash input, dl_State = state\<rparr>" for did csid crid
  obtain did w1 csid w2 crid w3 anchor ev w4 u w5 started w6 where i: "ids_New ''dlg'' w = Inr (did, w1)"
      "ids_New ''sess'' w1 = Inr (csid, w2)" "ids_New ''run'' w2 = Inr (crid, w3)"
    and q: "queue_specialist input skills (dl did csid crid) w3 = Inr ((anchor, ev), w4)"
    and ins: "insert_delegation (new_delegation_row input (dl did csid crid) egressTools consent (sa_CreatedAt anchor)) w4 = Inr (u, w5)"
    and evt: "appendRunEventTx psid (cd_ParentRunID input) ptr ''delegation.started''
          (Some (started_payload input (dl did csid crid) egressTools consent)) (sa_CreatedAt anchor) w5 = Inr (started, w6)"
    and w': "w' = w6"
    using run unfolding start_delegation_def con Let_def prod.case dl_def [symmetric]
    by (auto simp: tx_bind_Inr_iff tx_then_Inr_iff split: prod.splits)
  obtain r where "agent_runs w4 = agent_runs w3 @ [r]" "run_id r = crid"
    by (rule queue_specialist_Inr [OF q]) (simp add: dl_def)
  then have known: "dg_child_run_id (new_delegation_row input (dl did csid crid) egressTools consent (sa_CreatedAt anchor))
      \<in> set (map run_id (agent_runs w4))" by (simp add: new_delegation_row_def dl_def)
  have "R w w3" using i within_ids_New step_trans by (blast dest: tx_withinD)
  moreover have "R w3 w4" using within_queue_specialist q by (rule tx_withinD)
  moreover have "R w4 w5" by (rule within_insert_delegation [OF ins known])
  moreover have "R w5 w6" using within_events(1) evt by (rule tx_withinD)
  ultimately show "R w w'" using step_trans w' by blast
qed

lemma within_admission:
  "tx_within R (admit_delegation input)" "tx_within R (pendingDelegationEgressTx did)"
  unfolding admit_delegation_def pendingDelegationEgressTx_def pseudoServerDispatchActive_def profile_granted_def
    teamNameCollision_def DelegationCount_def
  by (intro within_bind within_gets within_then within_guard within_query_opt within_case_option within_fail
      within_case_prod within_if within_return)+

lemma within_delegations:
  "tx_within R (CreateDelegation skills input)" "tx_within R (GrantDelegationEgress did pending)"
  "tx_within R (DeclineDelegationEgress did)" "tx_within R (SetMemoryEnabled b)"
  unfolding CreateDelegation_def GrantDelegationEgress_def DeclineDelegationEgress_def delegationAssignmentCurrent_def
    delegationForToolCall_def SetMemoryEnabled_def
  by (intro within_bind within_gets within_then within_guard within_query_opt within_query_row within_case_option
      within_if within_fail within_return within_admission within_lift within_start_delegation within_case_prod
      within_insertRunEgressDecisionTx within_widen_job within_set_consent within_now_text
      within_recordEgressConsentTx within_reportDelegationTx within_cancelRunTx within_modify frame_keys;
      simp add: same_keys_def)+

end

end
