(* ===== verification/Enqueue.thy ===== *)
theory Enqueue
  imports Delegations
begin

text \<open>
  A user message arrives and a run is queued (\<^verbatim>\<open>EnqueueUserMessage\<close> and what it calls in
  \<^verbatim>\<open>jobs.go\<close>, \<^verbatim>\<open>team_roster.go\<close>, \<^verbatim>\<open>egress.go\<close> and \<^verbatim>\<open>external_agents.go\<close>): resolving the route,
  checking the egress decision against it, writing the turn, freezing the job, and answering a
  repeated request from its idempotency record.

  The enabled skills and the pinned documents are files the orchestrator reads on the way; what was
  read is an argument.
\<close>

section \<open>The request\<close>

record TeamRosterEntry =
  tre_ProfileID :: string
  tre_Revision :: string
  tre_Name :: string
  tre_Emoji :: string
  tre_Description :: string
  tre_Tools :: "string list"

record EnqueueUserMessageInput =
  ei_SessionID :: string
  ei_Content :: string
  ei_ContentType :: string
  ei_AgentID :: string
  ei_ModelProvider :: string
  ei_Model :: string
  ei_RequestedModel :: string
  ei_ExecutionModel :: string
  ei_IdempotencyKey :: string
  ei_RequestedTools :: "string list"
  ei_SelectedTools :: "string list"
  ei_RequiredContextTokens :: int
  ei_MinimumWorkerMaxConcurrentRuns :: int
  ei_EgressDecision :: "PendingEgressDecision option"
  ei_TeamRoster :: "TeamRosterEntry list"
  ei_TeamContinuation :: TeamContinuation
  ei_ValidateRouting :: "(RoutingRequirements \<Rightarrow> err option) option"

definition normalizeEnqueueUserMessageInput :: "EnqueueUserMessageInput \<Rightarrow> EnqueueUserMessageInput" where
  "normalizeEnqueueUserMessageInput input = input\<lparr>
     ei_ContentType := (if ei_ContentType input = '''' then ''text'' else ei_ContentType input),
     ei_RequestedTools := remdups_adj (sort (ei_RequestedTools input)),
     ei_SelectedTools := remdups_adj (sort (ei_SelectedTools input)),
     ei_EgressDecision := map_option clonePendingEgressDecision (ei_EgressDecision input)\<rparr>"

section \<open>Fingerprint of a request\<close>

definition remote_mcp_text :: "RemoteMCPServerEgress \<Rightarrow> string" where
  "remote_mcp_text s = json_object [(''serverName'', json_quote (re_ServerName s)), (''endpoint'', json_quote (re_Endpoint s)),
     (''endpointHost'', json_quote (re_EndpointHost s))]"

definition integration_text :: "IntegrationEndpointEgress \<Rightarrow> string" where
  "integration_text e = json_object [(''endpoint'', json_quote (ie_Endpoint e)), (''endpoint_host'', json_quote (ie_EndpointHost e)),
     (''connection_id'', json_quote (ie_ConnectionID e)), (''display_name'', json_quote (ie_DisplayName e)),
     (''tools'', json_array (map json_quote (ie_Tools e)))]"

definition egress_fingerprint_text :: "PendingEgressDecision \<Rightarrow> string" where
  "egress_fingerprint_text p = json_object
     [(''version'', dec (pd_Version p)), (''provider'', json_quote (pd_Provider p)), (''model'', json_quote (pd_Model p)),
      (''request_digest'', json_quote (pd_RequestDigest p)), (''external_agent_id'', json_quote (pd_ExternalAgentID p)),
      (''external_credential_ref_hash'', json_quote (pd_ExternalCredentialRefHash p)),
      (''endpoint'', json_quote (pd_Endpoint p)), (''endpoint_host'', json_quote (pd_EndpointHost p)),
      (''data_categories'', json_strings_or_null (pd_DataCategories p)),
      (''selected_tools'', json_strings_or_null (pd_SelectedTools p)),
      (''skill_snapshot_fingerprint'', json_quote (pd_SkillSnapshotFingerprint p)),
      (''recall_applicable'', json_bool (pd_RecallApplicable p)),
      (''memory_profile_applicable'', json_bool (pd_MemoryProfileApplicable p)),
      (''memory_snapshot_fingerprint'', json_quote (pd_MemorySnapshotFingerprint p)),
      (''remote_mcp_servers'', if pd_RemoteMCPServers p = [] then ''null''
         else json_array (map remote_mcp_text (pd_RemoteMCPServers p))),
      (''integration_endpoints'', json_array (map integration_text (cloneIntegrationEndpoints (pd_IntegrationEndpoints p))))]"

definition enqueue_request_text :: "EnqueueUserMessageInput \<Rightarrow> string" where
  "enqueue_request_text input =
     (let requestedModel = (if ei_EgressDecision input = None then '''' else ei_RequestedModel input) in
      json_object ([(''version'', dec (if ei_EgressDecision input = None then 2 else 6)),
        (''session_id'', json_quote (ei_SessionID input)), (''content'', json_quote (ei_Content input)),
        (''content_type'', json_quote (ei_ContentType input)), (''agent_id'', json_quote (ei_AgentID input)),
        (''model_provider'', json_quote (ei_ModelProvider input)), (''model'', json_quote (ei_Model input))]
        @ (if requestedModel = '''' then [] else [(''requested_model'', json_quote requestedModel)])
        @ [(''requested_tools'', json_array (map json_quote (ei_RequestedTools input))),
        (''required_context_tokens'', dec (ei_RequiredContextTokens input)),
        (''minimum_worker_max_concurrent_runs'', dec (ei_MinimumWorkerMaxConcurrentRuns input))]
        @ (case ei_EgressDecision input of None \<Rightarrow> [] | Some p \<Rightarrow> [(''egress_decision'', egress_fingerprint_text p)])))"

definition enqueueRequestFingerprint :: "EnqueueUserMessageInput \<Rightarrow> string" where
  "enqueueRequestFingerprint input = sha256_hex (enqueue_request_text input)"

section \<open>Routing a message\<close>

definition EnqueueRoutingRequirements :: "EnqueueUserMessageInput \<Rightarrow> RoutingRequirements" where
  "EnqueueRoutingRequirements input = \<lparr>rq_AgentID = ei_AgentID input, rq_ModelProvider = ei_ModelProvider input,
     rq_Model = (if ei_ExecutionModel input \<noteq> '''' then ei_ExecutionModel input else ei_Model input),
     rq_RequestedTools = ei_RequestedTools input, rq_SelectedTools = ei_SelectedTools input,
     rq_RequiredContextTokens = ei_RequiredContextTokens input,
     rq_MinimumWorkerMaxConcurrentRuns = ei_MinimumWorkerMaxConcurrentRuns input, rq_ExternalAgent = False,
     rq_ExternalAgentCredentialRef = '''', rq_RemoteEgressDecision = (ei_EgressDecision input \<noteq> None),
     rq_MinimumTeamProtocolVersion = 0\<rparr>"

record ExternalAgentTarget =
  et_AgentID :: string
  et_DisplayName :: string
  et_BaseURL :: string
  et_CredentialRef :: string

record resolvedEnqueueRoute =
  er_requirements :: RoutingRequirements
  er_externalTarget :: "ExternalAgentTarget option"
  er_externalAgentHost :: "string option"

definition sessionExternalAgentTx :: "string \<Rightarrow> ExternalAgent option wtx" where
  "sessionExternalAgentTx sid = query_opt (\<lambda>w. [a. r \<leftarrow> session_external_agents w, sx_session_id r = sid,
     a \<leftarrow> external_agents w, xa_AgentID a = sx_agent_id r])"

definition resolveEnqueueRouteTx :: "EnqueueUserMessageInput \<Rightarrow> resolvedEnqueueRoute wtx" where
  "resolveEnqueueRouteTx input =
     tx_bind (sessionExternalAgentTx (ei_SessionID input)) (\<lambda>routed.
     case routed of
       None \<Rightarrow> tx_return \<lparr>er_requirements = EnqueueRoutingRequirements input, er_externalTarget = None, er_externalAgentHost = None\<rparr>
     | Some agent \<Rightarrow>
         tx_bind (tx_gets net_lib) (\<lambda>lib.
         case ParseKeyedEndpoint lib (xa_BaseURL agent) of
           Inl _ \<Rightarrow> tx_fail ErrExternalAgentBaseURLInsecure
         | Inr endpoint \<Rightarrow> tx_return \<lparr>
             er_requirements = (EnqueueRoutingRequirements input)\<lparr>rq_ModelProvider := ''openai_compatible'',
               rq_Model := xa_Model agent, rq_ExternalAgent := True, rq_ExternalAgentCredentialRef := xa_CredentialRef agent\<rparr>,
             er_externalTarget = Some \<lparr>et_AgentID = xa_AgentID agent, et_DisplayName = xa_DisplayName agent,
               et_BaseURL = ep_Canonical endpoint, et_CredentialRef = xa_CredentialRef agent\<rparr>,
             er_externalAgentHost = Some (ep_Host endpoint)\<rparr>))"

definition TeamDelegateTool :: string where "TeamDelegateTool = ''team/team.delegate''"

definition teamRosterForRoute :: "EnqueueUserMessageInput \<Rightarrow> RoutingRequirements \<Rightarrow> TeamRosterEntry list" where
  "teamRosterForRoute input route =
     (if ei_TeamRoster input = [] \<or> rq_ModelProvider route = ''openai_compatible'' then []
      else case ei_EgressDecision input of
        None \<Rightarrow> ei_TeamRoster input
      | Some d \<Rightarrow> if TeamDelegateTool \<in> set (pd_SelectedTools d) then ei_TeamRoster input else [])"

definition sessionHasDelegationsTx :: "string \<Rightarrow> bool wtx" where
  "sessionHasDelegationsTx sid = tx_gets (\<lambda>w. list_ex (\<lambda>d. dg_parent_session_id d = sid) (delegations w))"

definition frozenTeamContinuation :: "TeamContinuation \<Rightarrow> bool \<Rightarrow> string list \<Rightarrow> TeamContinuation" where
  "frozenTeamContinuation continuation frozen selectedTools =
     continuation\<lparr>tcn_Tools := filter (\<lambda>t. \<not> frozen \<or> t \<in> set selectedTools) (tcn_Tools continuation)\<rparr>"

text \<open>
  Routing validation: the team is optional, so a route refused for its team minimum alone is tried
  again without the team, unless the conversation has delegated before.
\<close>

definition validate_route ::
  "EnqueueUserMessageInput \<Rightarrow> bool \<Rightarrow> TeamRosterEntry list \<Rightarrow> RoutingRequirements \<Rightarrow> (TeamRosterEntry list \<times> RoutingRequirements) result" where
  "validate_route input delegated roster route =
     (case ei_ValidateRouting input of
        None \<Rightarrow> Inr (roster, route)
      | Some validate \<Rightarrow>
          (case validate route of
             None \<Rightarrow> Inr (roster, route)
           | Some e \<Rightarrow>
               if roster \<noteq> [] \<and> \<not> delegated then
                 let plain = route\<lparr>rq_MinimumTeamProtocolVersion := 0\<rparr> in
                 (case validate plain of None \<Rightarrow> Inr ([], plain) | Some e2 \<Rightarrow> Inl e2)
               else Inl e))"

definition enqueue_route :: "EnqueueUserMessageInput \<Rightarrow> (resolvedEnqueueRoute \<times> TeamRosterEntry list) wtx" where
  "enqueue_route input =
     tx_bind (resolveEnqueueRouteTx input) (\<lambda>resolved.
     tx_bind (sessionHasDelegationsTx (ei_SessionID input)) (\<lambda>delegated.
     let r0 = er_requirements resolved;
         r1 = (if delegated then r0\<lparr>rq_MinimumTeamProtocolVersion := 1\<rparr> else r0);
         roster = teamRosterForRoute input r1;
         r2 = (if roster \<noteq> [] then r1\<lparr>rq_MinimumTeamProtocolVersion := 1\<rparr> else r1) in
     tx_bind (tx_lift (validate_route input delegated roster r2)) (\<lambda>(kept, route).
     tx_return (resolved\<lparr>er_requirements := route\<rparr>, kept))))"

section \<open>The decision of a send\<close>

text \<open>A remote run needs a decision, a local one only for tools that leave, and it must name this route.\<close>

definition decision_for_route :: "resolvedEnqueueRoute \<Rightarrow> PendingEgressDecision option \<Rightarrow> unit result" where
  "decision_for_route resolved decision =
     (let route = er_requirements resolved in
      case decision of
        None \<Rightarrow> if rq_ModelProvider route = ''openai_compatible'' then Inl ErrRemoteEgressConsentRequired else Inr ()
      | Some d \<Rightarrow>
          if rq_ModelProvider route \<noteq> ''openai_compatible'' \<and> pd_RemoteMCPServers d = [] \<and> pd_IntegrationEndpoints d = []
          then Inl ErrLocalEgressDecisionForbidden
          else if pd_Provider d \<noteq> rq_ModelProvider route \<or> pd_Model d \<noteq> rq_Model route then Inl ErrEgressDecisionInvalid
          else if rq_ExternalAgent route then
            (case er_externalTarget resolved of
               None \<Rightarrow> Inl ErrEgressDecisionInvalid
             | Some t \<Rightarrow>
                 if pd_ExternalAgentID d \<noteq> et_AgentID t
                    \<or> pd_ExternalCredentialRefHash d \<noteq> HashCredentialReference (et_CredentialRef t)
                    \<or> pd_Endpoint d \<noteq> et_BaseURL t
                 then Inl ErrEgressDecisionInvalid else Inr ())
          else if pd_ExternalAgentID d \<noteq> '''' \<or> pd_ExternalCredentialRefHash d \<noteq> '''' then Inl ErrEgressDecisionInvalid
          else Inr ())"

definition enqueue_decision :: "EnqueueUserMessageInput \<Rightarrow> resolvedEnqueueRoute \<Rightarrow> PendingEgressDecision option wtx" where
  "enqueue_decision input resolved =
     tx_bind (tx_gets net_lib) (\<lambda>lib.
     tx_bind (tx_lift (normalizePendingEgressDecision lib (ei_EgressDecision input))) (\<lambda>decision.
     tx_then (tx_lift (decision_for_route resolved decision)) (tx_return decision)))"

text \<open>The snapshots a decision was granted over must still be what the run would carry.\<close>

definition check_skills :: "PendingEgressDecision option \<Rightarrow> SkillSnapshot list \<Rightarrow> unit result" where
  "check_skills decision skills =
     (case decision of
        None \<Rightarrow> Inr ()
      | Some d \<Rightarrow> if skillSnapshotFingerprint skills \<noteq> pd_SkillSnapshotFingerprint d then Inl ErrEgressSkillSnapshotChanged else Inr ())"

definition check_memory :: "PendingEgressDecision option \<Rightarrow> MemorySnapshot \<Rightarrow> unit result" where
  "check_memory decision preimage =
     (case decision of
        None \<Rightarrow> Inr ()
      | Some d \<Rightarrow> if MemorySnapshotFingerprint preimage \<noteq> pd_MemorySnapshotFingerprint d then Inl ErrEgressMemorySnapshotChanged else Inr ())"

section \<open>Writing the turn\<close>

record EnqueueUserMessageResult =
  eu_SessionID :: string
  eu_UserMessageID :: string
  eu_AssistantMessageID :: string
  eu_RunID :: string
  eu_JobID :: string
  eu_TraceID :: string
  eu_Status :: string
  eu_SessionUpdatedEvent :: "Event option"
  eu_QueuedEvent :: Event
  eu_Replayed :: bool
  eu_RoutingEvents :: "Event list"

definition turn_run_row :: "EnqueueUserMessageInput \<Rightarrow> resolvedEnqueueRoute \<Rightarrow> string \<Rightarrow> sessionAnchor \<Rightarrow> string \<Rightarrow> int \<Rightarrow> agent_run" where
  "turn_run_row input resolved rid anchor traceID queuedSince =
     (queued_run_row \<lparr>qr_runID = rid, qr_sessionID = ei_SessionID input, qr_anchor = anchor,
        qr_modelProvider = rq_ModelProvider (er_requirements resolved), qr_model = rq_Model (er_requirements resolved),
        qr_continuesRunID = '''', qr_payload = []\<rparr> traceID queuedSince)
       \<lparr>run_agent_id := ei_AgentID input,
        run_external_agent_name := map_option et_DisplayName (er_externalTarget resolved),
        run_external_agent_host := er_externalAgentHost resolved\<rparr>"

text \<open>The two messages and the run, with both directions of their link read back and checked.\<close>

definition insert_turn ::
  "EnqueueUserMessageInput \<Rightarrow> resolvedEnqueueRoute \<Rightarrow> string \<Rightarrow> sessionAnchor \<Rightarrow> string \<Rightarrow> int \<Rightarrow> runRow wtx" where
  "insert_turn input resolved rid anchor traceID seqno =
     tx_then (insert_message \<lparr>msg_id = sa_MessageID anchor, msg_session_id = ei_SessionID input, msg_run_id = None,
        msg_role = ''user'', msg_content = ei_Content input, msg_content_type = ei_ContentType input,
        msg_sequence = seqno, msg_created_at = sa_CreatedAt anchor\<rparr>) (
     tx_then (insert_message \<lparr>msg_id = sa_PlaceholderID anchor, msg_session_id = ei_SessionID input, msg_run_id = Some rid,
        msg_role = ''assistant'', msg_content = '''', msg_content_type = ei_ContentType input,
        msg_sequence = seqno + 1, msg_created_at = FormatTimestamp (sa_created anchor + 1)\<rparr>) (
     tx_bind (tx_lift (ParseCanonical (sa_CreatedAt anchor))) (\<lambda>createdAtNanos.
     tx_then (insert_agent_run (turn_run_row input resolved rid anchor traceID (UnixNano createdAtNanos))) (
     tx_bind (readRunRow rid) (\<lambda>queuedRow.
     tx_then (tx_lift (validateRunCorrelationLink (runRow_link queuedRow))) (tx_return queuedRow))))))"

definition name_session :: "string \<Rightarrow> string \<Rightarrow> string \<Rightarrow> unit wtx" where
  "name_session sid derivedTitle at = tx_modify (\<lambda>w. w\<lparr>sessions := update_where (\<lambda>s. sess_id s = sid)
     (\<lambda>s. let fresh = (sess_title_origin s = ''unset'' \<and> derivedTitle \<noteq> '''') in
        s\<lparr>sess_title := (if fresh then Some derivedTitle else sess_title s),
          sess_title_origin := (if fresh then ''derived'' else sess_title_origin s), sess_updated_at := at\<rparr>) (sessions w)\<rparr>)"

definition announce_session :: "string \<Rightarrow> string \<Rightarrow> string \<Rightarrow> Event wtx" where
  "announce_session sid traceID at =
     tx_bind (query_row (\<lambda>w. filter (\<lambda>s. sess_id s = sid) (sessions w))) (\<lambda>s.
     appendSessionEventTx sid traceID ''session.updated'' (Some (JObj [(''status'', JStr (sess_status s)),
       (''title'', JStr (text_or_empty (sess_title s))), (''updatedAt'', JStr at)])) at)"

definition roster_json :: "TeamRosterEntry \<Rightarrow> json" where
  "roster_json t = JObj [(''profileId'', JStr (tre_ProfileID t)), (''revision'', JStr (tre_Revision t)),
     (''name'', JStr (tre_Name t)), (''emoji'', JStr (tre_Emoji t)), (''description'', JStr (tre_Description t)),
     (''tools'', slice_json (tre_Tools t))]"

definition continuation_json :: "TeamContinuation \<Rightarrow> json" where
  "continuation_json c = JObj [(''tools'', strings_json (tcn_Tools c)), (''resultMaxBytes'', JNum (tcn_ResultMaxBytes c))]"

definition target_json :: "ExternalAgentTarget \<Rightarrow> json" where
  "target_json t = JObj [(''agentId'', JStr (et_AgentID t)), (''displayName'', JStr (et_DisplayName t)),
     (''baseUrl'', JStr (et_BaseURL t)), (''credentialRef'', JStr (et_CredentialRef t))]"

definition turn_payload ::
  "EnqueueUserMessageInput \<Rightarrow> resolvedEnqueueRoute \<Rightarrow> TeamRosterEntry list \<Rightarrow> sessionAnchor \<Rightarrow> string \<Rightarrow> SkillSnapshot list
   \<Rightarrow> RunEgressDecision option \<Rightarrow> bool \<Rightarrow> string list \<Rightarrow> MemorySnapshot \<Rightarrow> json" where
  "turn_payload input resolved roster anchor traceID skills stored frozen selectedTools preimage =
     (let route = er_requirements resolved in JObj (
      [(''userText'', JStr (ei_Content input)), (''sessionId'', JStr (ei_SessionID input)),
       (''userMessageId'', JStr (sa_MessageID anchor)), (''assistantMessageId'', JStr (sa_PlaceholderID anchor)),
       (''traceId'', JStr traceID), (''modelProvider'', JStr (rq_ModelProvider route)), (''model'', JStr (rq_Model route)),
       (''requestedTools'', strings_json (ei_RequestedTools input)),
       (''requiredContextTokens'', JNum (ei_RequiredContextTokens input)),
       (''minimumWorkerMaxConcurrentRuns'', JNum (ei_MinimumWorkerMaxConcurrentRuns input)),
       (''skills'', skills_json skills),
       (''externalAgent'', case er_externalTarget resolved of None \<Rightarrow> JNull | Some t \<Rightarrow> target_json t),
       (''egressDecision'', case stored of None \<Rightarrow> JNull | Some d \<Rightarrow> decision_json d),
       (''selectedTools'', slice_json selectedTools),
       (''pinnedPersona'', persona_json (pinnedPersonaSnapshot preimage)),
       (''pinnedProfile'', profile_json (pinnedProfileSnapshot preimage)),
       (''memorySnapshotFingerprint'', JStr (MemorySnapshotFingerprint preimage))]
      @ (if rq_MinimumTeamProtocolVersion route > 0
         then [(''minimumTeamProtocolVersion'', JNum (rq_MinimumTeamProtocolVersion route))] else [])
      @ (if roster \<noteq> [] then [(''teamRoster'', JArr (map roster_json roster)),
           (''teamContinuation'', continuation_json (frozenTeamContinuation (ei_TeamContinuation input) frozen selectedTools))]
         else [])))"

definition turn_job_row :: "EnqueueUserMessageInput \<Rightarrow> string \<Rightarrow> string \<Rightarrow> sessionAnchor \<Rightarrow> json \<Rightarrow> job" where
  "turn_job_row input rid jobID anchor payload = \<lparr>job_id = jobID, job_run_id = rid, job_agent_id = ei_AgentID input,
     job_status = ''pending'', job_attempt = 1, job_payload = payload, job_picked_up_at = None,
     job_finished_at = None, job_error_code = None, job_error_message = None, job_created_at = sa_CreatedAt anchor,
     job_created_at_ns = Some (UnixNano (sa_created anchor)), job_lease_owner = None, job_lease_expires_at = None,
     job_lease_expires_at_ns = None, job_assignment_attempt_id = None\<rparr>"

definition skill_notice :: "SkillSnapshot list \<Rightarrow> RunEgressDecision \<Rightarrow> string" where
  "skill_notice skills d =
     (if skills = [] \<or> ''EGRESS_DATA_CATEGORY_SKILL_CONTENT'' \<notin> set (ed_DataCategories d) then ''''
      else ''. Skills that may be sent: ''
        @ Join (map (\<lambda>s. SanitizeSkillDisplayName (sk_Name s) (sk_SkillID s)) (take 8 skills)) '', ''
        @ (if length skills > 8 then '' (+'' @ dec (int (length skills) - 8) @ '' more)'' else ''''))"

text \<open>The identifiers of a turn and its place in the conversation.\<close>

record turn =
  tu_runID :: string
  tu_jobID :: string
  tu_traceID :: string
  tu_next :: int
  tu_anchor :: sessionAnchor

definition new_turn :: "string \<Rightarrow> turn wtx" where
  "new_turn sid =
     tx_bind time_Now (\<lambda>t.
     tx_bind (ids_New ''msg'') (\<lambda>mid.
     tx_bind (ids_New ''msg'') (\<lambda>pid.
     tx_bind (ids_New ''run'') (\<lambda>rid.
     tx_bind (ids_New ''job'') (\<lambda>jobID.
     tx_bind (ids_New ''trace'') (\<lambda>traceID.
     tx_bind (nextMessageSlotTx sid t) (\<lambda>(next, created).
     tx_return \<lparr>tu_runID = rid, tu_jobID = jobID, tu_traceID = traceID, tu_next = next,
       tu_anchor = \<lparr>sa_MessageID = mid, sa_PlaceholderID = pid, sa_CreatedAt = FormatTimestamp created, sa_created = created\<rparr>\<rparr>)))))))"

definition store_decision :: "string \<Rightarrow> PendingEgressDecision option \<Rightarrow> RunEgressDecision option wtx" where
  "store_decision rid decision =
     (case decision of
        None \<Rightarrow> tx_return None
      | Some d \<Rightarrow> tx_bind (insertRunEgressDecisionTx rid d) (\<lambda>stored. tx_return (Some stored)))"

text \<open>Skills and pinned documents are read inside the transaction and checked against the decision.\<close>

definition freeze_job ::
  "SkillSnapshot list result \<Rightarrow> (MemoryPinnedDocument \<times> MemoryPinnedDocument) option \<Rightarrow> PendingEgressDecision option \<Rightarrow> string list
   \<Rightarrow> (SkillSnapshot list \<times> MemorySnapshot) wtx" where
  "freeze_job enabledSkills pins decision selectedTools =
     tx_bind (tx_lift enabledSkills) (\<lambda>skills.
     tx_then (tx_lift (check_skills decision skills)) (
     tx_bind (egressMemorySnapshotTx pins) (\<lambda>memorySnapshot.
     let preimage = Preimage memorySnapshot selectedTools in
     tx_then (tx_lift (check_memory decision preimage)) (tx_return (skills, preimage)))))"

definition routing_notice :: "EnqueueUserMessageInput \<Rightarrow> turn \<Rightarrow> SkillSnapshot list \<Rightarrow> RunEgressDecision option \<Rightarrow> Event list wtx" where
  "routing_notice input t skills stored =
     (case stored of
        None \<Rightarrow> tx_return []
      | Some d \<Rightarrow> tx_bind (recordEgressConsentTx (ei_SessionID input) (tu_runID t) (tu_traceID t) d ''Sending to '' (skill_notice skills d)
            ''Data leaves your machine if this run reaches a remote destination'' (sa_CreatedAt (tu_anchor t))) (\<lambda>notice.
          tx_return [notice]))"

definition queued_event :: "EnqueueUserMessageInput \<Rightarrow> turn \<Rightarrow> runRow \<Rightarrow> Event wtx" where
  "queued_event input t row = appendRunEventTx (ei_SessionID input) (tu_runID t) (tu_traceID t) ''agent.run.queued''
     (Some (marshalRunStatePayload [(''runId'', JStr (tu_runID t)), (''jobId'', JStr (tu_jobID t)), (''status'', JStr ''queued''),
        (''agentId'', JStr (ei_AgentID input))] (runRow_state row))) (sa_CreatedAt (tu_anchor t))"

text \<open>Everything after the checks: the turn, its decision, the session's name, the job and the events.\<close>

definition accept_turn ::
  "SkillSnapshot list result \<Rightarrow> (MemoryPinnedDocument \<times> MemoryPinnedDocument) option \<Rightarrow> EnqueueUserMessageInput \<Rightarrow> resolvedEnqueueRoute
   \<Rightarrow> TeamRosterEntry list \<Rightarrow> PendingEgressDecision option \<Rightarrow> turn \<Rightarrow> EnqueueUserMessageResult wtx" where
  "accept_turn enabledSkills pins input resolved roster decision t =
     (let sid = ei_SessionID input; at = sa_CreatedAt (tu_anchor t); selectedTools = egressDecisionSelectedTools decision (ei_SelectedTools input) in
      tx_bind (insert_turn input resolved (tu_runID t) (tu_anchor t) (tu_traceID t) (tu_next t)) (\<lambda>row.
      tx_bind (store_decision (tu_runID t) decision) (\<lambda>stored.
      tx_then (name_session sid (DeriveSessionTitle (ei_Content input)) at) (
      tx_bind (announce_session sid (tu_traceID t) at) (\<lambda>updated.
      tx_bind (freeze_job enabledSkills pins decision selectedTools) (\<lambda>(skills, preimage).
      tx_then (insert_job_row (turn_job_row input (tu_runID t) (tu_jobID t) (tu_anchor t)
          (turn_payload input resolved roster (tu_anchor t) (tu_traceID t) skills stored (decision \<noteq> None) selectedTools preimage))) (
      tx_bind (queued_event input t row) (\<lambda>queued.
      tx_bind (routing_notice input t skills stored) (\<lambda>routing.
      tx_return \<lparr>eu_SessionID = sid, eu_UserMessageID = sa_MessageID (tu_anchor t), eu_AssistantMessageID = sa_PlaceholderID (tu_anchor t),
        eu_RunID = tu_runID t, eu_JobID = tu_jobID t, eu_TraceID = tu_traceID t, eu_Status = ''queued'', eu_SessionUpdatedEvent = Some updated,
        eu_QueuedEvent = queued, eu_Replayed = False, eu_RoutingEvents = routing\<rparr>)))))))))"

definition enqueueUserMessageTx ::
  "SkillSnapshot list result \<Rightarrow> (MemoryPinnedDocument \<times> MemoryPinnedDocument) option \<Rightarrow> EnqueueUserMessageInput
   \<Rightarrow> EnqueueUserMessageResult wtx" where
  "enqueueUserMessageTx enabledSkills pins input0 =
     (let input = normalizeEnqueueUserMessageInput input0 in
      tx_then (requireChatSessionTx (ei_SessionID input)) (
      tx_bind (enqueue_route input) (\<lambda>(resolved, roster).
      tx_bind (enqueue_decision input resolved) (\<lambda>decision.
      tx_bind (new_turn (ei_SessionID input)) (\<lambda>t.
      accept_turn enabledSkills pins input resolved roster decision t)))))"

section \<open>Repeated requests\<close>

definition findSendMessageIdempotencyTx :: "string \<Rightarrow> sendMessageIdempotencyRecord option wtx" where
  "findSendMessageIdempotencyTx key = query_opt (\<lambda>w. filter (\<lambda>r. si_idempotency_key r = key) (send_message_idempotency w))"

definition record_result :: "sendMessageIdempotencyRecord \<Rightarrow> EnqueueUserMessageResult" where
  "record_result r = \<lparr>eu_SessionID = si_SessionID r, eu_UserMessageID = si_UserMessageID r,
     eu_AssistantMessageID = si_AssistantMessageID r, eu_RunID = si_RunID r, eu_JobID = si_JobID r, eu_TraceID = si_TraceID r,
     eu_Status = ''queued'', eu_SessionUpdatedEvent = None,
     eu_QueuedEvent = \<lparr>ev_id = '''', ev_session_id = si_SessionID r, ev_run_id = Some (si_RunID r), ev_trace_id = si_TraceID r,
       ev_sequence = si_QueuedEventSequence r, ev_type = ''agent.run.queued'', ev_payload = JNull, ev_created_at = si_CreatedAt r\<rparr>,
     eu_Replayed = True, eu_RoutingEvents = []\<rparr>"

definition insert_idempotency :: "sendMessageIdempotencyRecord \<Rightarrow> unit wtx" where
  "insert_idempotency r = tx_bind (tx_gets send_message_idempotency) (\<lambda>rows.
     tx_then (tx_guard (si_idempotency_key r \<notin> set (map si_idempotency_key rows)) (ErrUnique ''send_message_idempotency''))
       (tx_modify (\<lambda>w. w\<lparr>send_message_idempotency := send_message_idempotency w @ [r]\<rparr>)))"

definition idempotency_record :: "EnqueueUserMessageInput \<Rightarrow> string \<Rightarrow> EnqueueUserMessageResult \<Rightarrow> sendMessageIdempotencyRecord" where
  "idempotency_record input fingerprint res = \<lparr>si_idempotency_key = ei_IdempotencyKey input, si_SessionID = ei_SessionID input,
     si_RequestFingerprint = fingerprint, si_UserMessageID = eu_UserMessageID res, si_AssistantMessageID = eu_AssistantMessageID res,
     si_RunID = eu_RunID res, si_JobID = eu_JobID res, si_TraceID = eu_TraceID res,
     si_QueuedEventSequence = ev_sequence (eu_QueuedEvent res), si_CreatedAt = ev_created_at (eu_QueuedEvent res)\<rparr>"

definition EnqueueUserMessage ::
  "SkillSnapshot list result \<Rightarrow> (MemoryPinnedDocument \<times> MemoryPinnedDocument) option \<Rightarrow> EnqueueUserMessageInput
   \<Rightarrow> EnqueueUserMessageResult wtx" where
  "EnqueueUserMessage enabledSkills pins input0 =
     (let input = normalizeEnqueueUserMessageInput input0; key = ei_IdempotencyKey input; fingerprint = enqueueRequestFingerprint input in
      tx_then (requireChatSessionTx (ei_SessionID input)) (
      if key = '''' then enqueueUserMessageTx enabledSkills pins input
      else
        tx_bind (findSendMessageIdempotencyTx key) (\<lambda>found.
        case found of
          Some r \<Rightarrow> if si_RequestFingerprint r \<noteq> fingerprint then tx_fail ErrIdempotencyConflict else tx_return (record_result r)
        | None \<Rightarrow>
            tx_bind (enqueueUserMessageTx enabledSkills pins input) (\<lambda>res.
            tx_then (insert_idempotency (idempotency_record input fingerprint res)) (tx_return res)))))"

definition EnqueueRequestFingerprint :: "EnqueueUserMessageInput \<Rightarrow> string" where
  "EnqueueRequestFingerprint input = enqueueRequestFingerprint (normalizeEnqueueUserMessageInput input)"

definition SendMessageIdempotencyExists :: "string \<Rightarrow> bool wtx" where
  "SendMessageIdempotencyExists key =
     (if key = '''' then tx_return False
      else tx_gets (\<lambda>w. list_ex (\<lambda>r. si_idempotency_key r = key) (send_message_idempotency w)))"

definition LookupSendMessageReplay :: "string \<Rightarrow> string \<Rightarrow> EnqueueUserMessageResult option wtx" where
  "LookupSendMessageReplay key fingerprint =
     (if key = '''' then tx_return None
      else tx_bind (findSendMessageIdempotencyTx key) (\<lambda>found.
        case found of
          None \<Rightarrow> tx_return None
        | Some r \<Rightarrow> if si_RequestFingerprint r \<noteq> fingerprint then tx_fail ErrIdempotencyConflict
                    else tx_return (Some (record_result r))))"

section \<open>What a turn writes\<close>

interpretation dry: tx_relation "\<lambda>w w'. w' = w"
  by unfold_locales simp_all

lemma dry_requireChatSessionTx: "tx_within (\<lambda>w w'. w' = w) (requireChatSessionTx sid)"
  unfolding requireChatSessionTx_def
  by (intro dry.within_intros) (auto simp: tx_within_def query_opt_def split: list.splits)

lemma dry_enqueue_route: "tx_within (\<lambda>w w'. w' = w) (enqueue_route input)"
  unfolding enqueue_route_def resolveEnqueueRouteTx_def sessionExternalAgentTx_def sessionHasDelegationsTx_def Let_def
  by (intro dry.within_intros) (auto simp: tx_within_def query_opt_def split: list.splits sum.splits)

lemma dry_enqueue_decision: "tx_within (\<lambda>w w'. w' = w) (enqueue_decision input resolved)"
  unfolding enqueue_decision_def by (intro dry.within_intros)

lemma idle_insertRunEgressDecisionTx: "tx_within same_work (insertRunEgressDecisionTx rid p)"
  by (auto simp: tx_within_def same_work_def insertRunEgressDecisionTx_def ids_New_def tx_simps Let_def split: if_splits)

lemma idle_recordEgressConsentTx: "tx_within same_work (recordEgressConsentTx s r t d l de out a)"
  unfolding recordEgressConsentTx_def appendRunNoticeTx_def recordAuditTx_def appendRunEventTx_def Let_def
  by (intro idle.within_intros idle_env idle_appendEventTx) (auto simp: tx_within_def same_work_def)

lemma idle_turn:
  "tx_within same_work (new_turn sid)" "tx_within same_work (store_decision rid decision)"
  "tx_within same_work (name_session sid ttl at)" "tx_within same_work (announce_session sid tr at)"
  "tx_within same_work (freeze_job skills pins decision tools)" "tx_within same_work (queued_event input t row)"
  "tx_within same_work (routing_notice input t ss stored)"
  unfolding new_turn_def store_decision_def name_session_def announce_session_def freeze_job_def queued_event_def routing_notice_def
    nextMessageSlotTx_def nextSessionActivityTimeTx_def egressMemorySnapshotTx_def memoryEnabledTx_def
    appendSessionEventTx_def appendRunEventTx_def Let_def
  by (intro idle.within_intros idle.within_modify idle_env idle_appendEventTx idle_insertRunEgressDecisionTx idle_recordEgressConsentTx;
      simp add: same_work_def)+

lemma turn_run_row_fields [simp]:
  "run_id (turn_run_row input resolved rid anchor tr c) = rid"
  "run_status (turn_run_row input resolved rid anchor tr c) = lifecycleQueued"
  "run_session_id (turn_run_row input resolved rid anchor tr c) = ei_SessionID input"
  "run_model_provider (turn_run_row input resolved rid anchor tr c) = rq_ModelProvider (er_requirements resolved)"
  by (simp_all add: turn_run_row_def queued_run_row_def)

lemma turn_job_row_fields [simp]:
  "job_id (turn_job_row input rid jid anchor p) = jid" "job_run_id (turn_job_row input rid jid anchor p) = rid"
  "job_status (turn_job_row input rid jid anchor p) = ''pending''" "job_payload (turn_job_row input rid jid anchor p) = p"
  by (simp_all add: turn_job_row_def)

lemma insert_turn_Inr:
  assumes "insert_turn input resolved rid anchor tr n w = Inr (row, w')"
  obtains c m1 m2 where "ParseCanonical (sa_CreatedAt anchor) = Inr c" "rid \<notin> set (map run_id (agent_runs w))"
    "insert_message m1 w = Inr ((), w\<lparr>messages := messages w @ [m1]\<rparr>)"
    "w' = w\<lparr>messages := messages w @ [m1, m2], agent_runs := agent_runs w @ [turn_run_row input resolved rid anchor tr (UnixNano c)]\<rparr>"
proof -
  obtain m1 u1 w1 m2 u2 w2 c w3 u4 w4 w5 u6 where m: "insert_message m1 w = Inr (u1, w1)" "insert_message m2 w1 = Inr (u2, w2)"
    and c: "tx_lift (ParseCanonical (sa_CreatedAt anchor)) w2 = Inr (c, w3)"
    and i: "insert_agent_run (turn_run_row input resolved rid anchor tr (UnixNano c)) w3 = Inr (u4, w4)"
    and rd: "readRunRow rid w4 = Inr (row, w5)" and v: "tx_lift (validateRunCorrelationLink (runRow_link row)) w5 = Inr (u6, w')"
    using assms unfolding insert_turn_def tx_bind_Inr_iff tx_then_Inr_iff by auto
  have c': "ParseCanonical (sa_CreatedAt anchor) = Inr c" "w3 = w2" using c by (auto split: sum.splits)
  have "w' = w4" using readRunRow_Inr [OF rd] v by (auto split: sum.splits)
  moreover have "w1 = w\<lparr>messages := messages w @ [m1]\<rparr>" "w2 = w1\<lparr>messages := messages w1 @ [m2]\<rparr>"
    using m by (auto simp: insert_message_def tx_simps split: if_splits)
  ultimately show thesis using insert_agent_run_Inr [OF i] m c' by (intro that [of c m1 m2]) simp_all
qed

lemma run_new_turn: "ParseCanonical (sa_CreatedAt anchor) = Inr t \<Longrightarrow> run_new (turn_run_row input resolved rid anchor tr c)"
  by (simp add: run_new_def turn_run_row_def queued_run_row_def)

text \<open>The writes of an accepted turn, in order, with the states between them.\<close>

lemma accept_turn_Inr:
  assumes "accept_turn skills pins input resolved roster decision t w = Inr (res, w')"
  obtains row w1 stored w2 u3 w3 e w4 fz w5 u6 w6 q w7 ns where
    "insert_turn input resolved (tu_runID t) (tu_anchor t) (tu_traceID t) (tu_next t) w = Inr (row, w1)"
    "store_decision (tu_runID t) decision w1 = Inr (stored, w2)"
    "name_session (ei_SessionID input) (DeriveSessionTitle (ei_Content input)) (sa_CreatedAt (tu_anchor t)) w2 = Inr (u3, w3)"
    "announce_session (ei_SessionID input) (tu_traceID t) (sa_CreatedAt (tu_anchor t)) w3 = Inr (e, w4)"
    "freeze_job skills pins decision (egressDecisionSelectedTools decision (ei_SelectedTools input)) w4 = Inr (fz, w5)"
    "insert_job_row (turn_job_row input (tu_runID t) (tu_jobID t) (tu_anchor t)
       (turn_payload input resolved roster (tu_anchor t) (tu_traceID t) (fst fz) stored (decision \<noteq> None)
         (egressDecisionSelectedTools decision (ei_SelectedTools input)) (snd fz))) w5 = Inr (u6, w6)"
    "queued_event input t row w6 = Inr (q, w7)" "routing_notice input t (fst fz) stored w7 = Inr (ns, w')"
    "res = \<lparr>eu_SessionID = ei_SessionID input, eu_UserMessageID = sa_MessageID (tu_anchor t), eu_AssistantMessageID = sa_PlaceholderID (tu_anchor t),
        eu_RunID = tu_runID t, eu_JobID = tu_jobID t, eu_TraceID = tu_traceID t, eu_Status = ''queued'', eu_SessionUpdatedEvent = Some e,
        eu_QueuedEvent = q, eu_Replayed = False, eu_RoutingEvents = ns\<rparr>"
  using assms unfolding accept_turn_def Let_def tx_bind_Inr_iff tx_then_Inr_iff case_prod_beta tx_return_def sum.inject prod.inject
  by blast

lemma store_decision_Inr:
  assumes "store_decision rid decision w = Inr (stored, w')"
  shows "map_option ed_ChallengeNonce stored = map_option pd_ChallengeNonce decision"
    and "case stored of None \<Rightarrow> run_egress_decisions w' = run_egress_decisions w
      | Some d \<Rightarrow> run_egress_decisions w' = run_egress_decisions w @ [d] \<and> ed_RunID d = rid
          \<and> ed_ChallengeNonce d \<notin> set (map ed_ChallengeNonce (run_egress_decisions w))"
  using assms
  by (auto simp: store_decision_def insertRunEgressDecisionTx_def stored_decision_def ids_New_def tx_simps Let_def
      split: option.splits if_splits)

text \<open>A turn adds exactly one queued run and one pending job for it.\<close>

lemma accept_turn_work:
  assumes "accept_turn skills pins input resolved roster decision t w = Inr (res, w')"
  obtains r j where "agent_runs w' = agent_runs w @ [r]" "jobs w' = jobs w @ [j]" "delegations w' = delegations w"
    "run_id r = eu_RunID res" "run_status r = lifecycleQueued" "run_session_id r = ei_SessionID input"
    "run_model_provider r = rq_ModelProvider (er_requirements resolved)"
    "job_id j = eu_JobID res" "job_run_id j = run_id r" "job_status j = ''pending''" "\<not> eu_Replayed res"
    "eu_RunID res \<notin> set (map run_id (agent_runs w))"
proof -
  from assms obtain row w1 stored w2 u3 w3 e w4 fz w5 u6 w6 q w7 ns p where
    it: "insert_turn input resolved (tu_runID t) (tu_anchor t) (tu_traceID t) (tu_next t) w = Inr (row, w1)"
    and s: "store_decision (tu_runID t) decision w1 = Inr (stored, w2)"
    "name_session (ei_SessionID input) (DeriveSessionTitle (ei_Content input)) (sa_CreatedAt (tu_anchor t)) w2 = Inr (u3, w3)"
    "announce_session (ei_SessionID input) (tu_traceID t) (sa_CreatedAt (tu_anchor t)) w3 = Inr (e, w4)"
    "freeze_job skills pins decision (egressDecisionSelectedTools decision (ei_SelectedTools input)) w4 = Inr (fz, w5)"
    and j: "insert_job_row (turn_job_row input (tu_runID t) (tu_jobID t) (tu_anchor t) p) w5 = Inr (u6, w6)"
    and q: "queued_event input t row w6 = Inr (q, w7)" "routing_notice input t (fst fz) stored w7 = Inr (ns, w')"
    and res: "eu_RunID res = tu_runID t" "eu_JobID res = tu_jobID t" "\<not> eu_Replayed res"
    by (rule accept_turn_Inr) simp
  obtain c m1 m2 where c: "tu_runID t \<notin> set (map run_id (agent_runs w))"
    "w1 = w\<lparr>messages := messages w @ [m1, m2],
       agent_runs := agent_runs w @ [turn_run_row input resolved (tu_runID t) (tu_anchor t) (tu_traceID t) (UnixNano c)]\<rparr>"
    by (rule insert_turn_Inr [OF it])
  have "same_work w1 w5" using s(1) [THEN tx_withinD [OF idle_turn(2)]] s(2) [THEN tx_withinD [OF idle_turn(3)]]
      s(3) [THEN tx_withinD [OF idle_turn(4)]] s(4) [THEN tx_withinD [OF idle_turn(5)]]
    by (simp add: same_work_def)
  moreover have "same_work w6 w'" using q(1) [THEN tx_withinD [OF idle_turn(6)]] q(2) [THEN tx_withinD [OF idle_turn(7)]]
    by (simp add: same_work_def)
  ultimately show thesis using c insert_job_row_Inr [OF j] res
    by (intro that [of "turn_run_row input resolved (tu_runID t) (tu_anchor t) (tu_traceID t) (UnixNano c)"
        "turn_job_row input (tu_runID t) (tu_jobID t) (tu_anchor t) p"]) (simp_all add: same_work_def)
qed

lemma enqueueUserMessageTx_Inr:
  assumes "enqueueUserMessageTx skills pins input w = Inr (res, w')"
  obtains resolved roster decision t w1 where
    "requireChatSessionTx (ei_SessionID input) w = Inr ((), w)"
    "enqueue_route (normalizeEnqueueUserMessageInput input) w = Inr ((resolved, roster), w)"
    "enqueue_decision (normalizeEnqueueUserMessageInput input) resolved w = Inr (decision, w)"
    "new_turn (ei_SessionID input) w = Inr (t, w1)"
    "accept_turn skills pins (normalizeEnqueueUserMessageInput input) resolved roster decision t w1 = Inr (res, w')"
proof -
  let ?i = "normalizeEnqueueUserMessageInput input"
  have sid: "ei_SessionID ?i = ei_SessionID input" by (simp add: normalizeEnqueueUserMessageInput_def)
  obtain u w0 rr w2 decision w3 t w1 where a: "requireChatSessionTx (ei_SessionID input) w = Inr (u, w0)"
    and b: "enqueue_route ?i w0 = Inr (rr, w2)" and c: "enqueue_decision ?i (fst rr) w2 = Inr (decision, w3)"
    and d: "new_turn (ei_SessionID input) w3 = Inr (t, w1)"
    and e: "accept_turn skills pins ?i (fst rr) (snd rr) decision t w1 = Inr (res, w')"
    using assms unfolding enqueueUserMessageTx_def Let_def sid tx_bind_Inr_iff tx_then_Inr_iff case_prod_beta
    by blast
  have "w0 = w" using a by (rule tx_withinD [OF dry_requireChatSessionTx])
  moreover have "w2 = w0" using b by (rule tx_withinD [OF dry_enqueue_route])
  moreover have "w3 = w2" using c by (rule tx_withinD [OF dry_enqueue_decision])
  ultimately show thesis using a b c d e by (intro that [of "fst rr" "snd rr" decision t w1]) simp_all
qed

section \<open>Replay and consent\<close>

lemma EnqueueUserMessage_cases:
  assumes "EnqueueUserMessage skills pins input w = Inr (res, w')"
  obtains (replayed) rec where "w' = w" "rec \<in> set (send_message_idempotency w)" "si_idempotency_key rec = ei_IdempotencyKey input"
      "si_RequestFingerprint rec = EnqueueRequestFingerprint input" "res = record_result rec" "ei_IdempotencyKey input \<noteq> ''''"
  | (queued) w1 where "enqueueUserMessageTx skills pins (normalizeEnqueueUserMessageInput input) w = Inr (res, w1)"
      "ei_IdempotencyKey input = '''' \<and> w' = w1
       \<or> ei_IdempotencyKey input \<notin> set (map si_idempotency_key (send_message_idempotency w)) \<and> ei_IdempotencyKey input \<noteq> ''''
         \<and> insert_idempotency (idempotency_record (normalizeEnqueueUserMessageInput input) (EnqueueRequestFingerprint input) res) w1 = Inr ((), w')"
proof -
  let ?i = "normalizeEnqueueUserMessageInput input" and ?k = "ei_IdempotencyKey input"
  have key: "ei_IdempotencyKey ?i = ?k" by (simp add: normalizeEnqueueUserMessageInput_def)
  obtain u w0 where a: "requireChatSessionTx (ei_SessionID ?i) w = Inr (u, w0)"
    and rest: "(if ?k = '''' then enqueueUserMessageTx skills pins ?i
      else tx_bind (findSendMessageIdempotencyTx ?k) (\<lambda>found. case found of
          Some r \<Rightarrow> if si_RequestFingerprint r \<noteq> EnqueueRequestFingerprint input then tx_fail ErrIdempotencyConflict
                    else tx_return (record_result r)
        | None \<Rightarrow> tx_bind (enqueueUserMessageTx skills pins ?i) (\<lambda>res.
            tx_then (insert_idempotency (idempotency_record ?i (EnqueueRequestFingerprint input) res)) (tx_return res)))) w0 = Inr (res, w')"
    using assms unfolding EnqueueUserMessage_def Let_def key EnqueueRequestFingerprint_def [symmetric] tx_then_Inr_iff by blast
  have w0: "w0 = w" using a by (rule tx_withinD [OF dry_requireChatSessionTx])
  show thesis
  proof (cases "?k = ''''")
    case True
    then show thesis using rest w0 by (intro queued [of w']) simp_all
  next
    case False
    then obtain found w2 where f: "findSendMessageIdempotencyTx ?k w = Inr (found, w2)"
      and rest': "(case found of
          Some r \<Rightarrow> if si_RequestFingerprint r \<noteq> EnqueueRequestFingerprint input then tx_fail ErrIdempotencyConflict
                    else tx_return (record_result r)
        | None \<Rightarrow> tx_bind (enqueueUserMessageTx skills pins ?i) (\<lambda>res.
            tx_then (insert_idempotency (idempotency_record ?i (EnqueueRequestFingerprint input) res)) (tx_return res))) w2 = Inr (res, w')"
      using rest w0 by (auto simp: tx_bind_Inr_iff)
    show thesis
    proof (cases found)
      case None
      then have fresh: "?k \<notin> set (map si_idempotency_key (send_message_idempotency w))" "w2 = w"
        using f by (auto simp: findSendMessageIdempotencyTx_def query_opt_def filter_empty_conv split: list.splits)
      obtain w1 u3 where "enqueueUserMessageTx skills pins ?i w = Inr (res, w1)"
        "insert_idempotency (idempotency_record ?i (EnqueueRequestFingerprint input) res) w1 = Inr (u3, w')"
        using rest' fresh(2) unfolding None option.case tx_bind_Inr_iff tx_then_Inr_iff tx_return_def by auto
      then show thesis using fresh False by (intro queued [of w1]) auto
    next
      case (Some rec)
      have "rec \<in> set (filter (\<lambda>r. si_idempotency_key r = ?k) (send_message_idempotency w))" "w2 = w"
        using query_opt_Some f unfolding Some findSendMessageIdempotencyTx_def by fast+
      then show thesis using rest' Some False by (intro replayed [of rec]) (auto split: if_splits)
    qed
  qed
qed

lemma normalize_Some: "normalizePendingEgressDecision lib (Some p) = Inr d \<Longrightarrow> d \<noteq> None"
  by (auto simp: normalizePendingEgressDecision_def Let_def split: if_splits sum.splits)

lemma enqueue_decision_consents:
  assumes "enqueue_decision input resolved w = Inr (decision, w')"
    and "rq_ModelProvider (er_requirements resolved) = ''openai_compatible''"
  shows "\<exists>d. decision = Some d \<and> pd_Provider d = ''openai_compatible'' \<and> pd_Model d = rq_Model (er_requirements resolved)
    \<and> (\<forall>t. er_externalTarget resolved = Some t \<and> rq_ExternalAgent (er_requirements resolved) \<longrightarrow>
         pd_ExternalAgentID d = et_AgentID t \<and> pd_Endpoint d = et_BaseURL t)"
  using assms
  by (auto simp: enqueue_decision_def decision_for_route_def Let_def tx_bind_Inr_iff tx_then_Inr_iff
      split: option.splits if_splits sum.splits)

section \<open>Within the store relations\<close>

context store_relation
begin

lemma within_turn:
  "tx_within R (new_turn sid)" "tx_within R (store_decision rid decision)"
  "tx_within R (name_session sid ttl at)" "tx_within R (announce_session sid tr at)"
  "tx_within R (freeze_job skills pins decision tools)" "tx_within R (queued_event input t row)"
  "tx_within R (routing_notice input t ss stored)"
  unfolding new_turn_def store_decision_def name_session_def announce_session_def freeze_job_def queued_event_def routing_notice_def
    egressMemorySnapshotTx_def memoryEnabledTx_def Let_def
  by (intro within_intros within_env within_query_row within_nextMessageSlotTx within_events within_insertRunEgressDecisionTx
      within_recordEgressConsentTx within_modify frame_keys; simp add: same_keys_def map_update_where)+

lemma within_insert_turn: "tx_within R (insert_turn input resolved rid anchor tr n)"
proof (rule tx_withinI)
  fix w row w' assume run: "insert_turn input resolved rid anchor tr n w = Inr (row, w')"
  obtain m1 u1 w1 m2 u2 w2 c w3 u4 w4 w5 u6 where m: "insert_message m1 w = Inr (u1, w1)" "insert_message m2 w1 = Inr (u2, w2)"
    and c: "tx_lift (ParseCanonical (sa_CreatedAt anchor)) w2 = Inr (c, w3)"
    and i: "insert_agent_run (turn_run_row input resolved rid anchor tr (UnixNano c)) w3 = Inr (u4, w4)"
    and rd: "readRunRow rid w4 = Inr (row, w5)" and v: "tx_lift (validateRunCorrelationLink (runRow_link row)) w5 = Inr (u6, w')"
    using run unfolding insert_turn_def tx_bind_Inr_iff tx_then_Inr_iff by auto
  have c': "ParseCanonical (sa_CreatedAt anchor) = Inr c" "w3 = w2" using c by (auto split: sum.splits)
  have "w' = w4" using readRunRow_Inr [OF rd] v by (auto split: sum.splits)
  moreover have "R w w2" using tx_withinD [OF within_insert_message m(1)] tx_withinD [OF within_insert_message m(2)] step_trans by blast
  moreover have "R w2 w4" using insert_agent_run_Inr [OF i] c' run_new_turn insert_run outside by (cases "db_ok w2") auto
  ultimately show "R w w'" using step_trans by blast
qed

text \<open>The job's run was inserted by the same transaction, so it is there and queued.\<close>

lemma within_accept_turn: "tx_within R (accept_turn skills pins input resolved roster decision t)"
proof (rule tx_withinI)
  fix w res w' assume run: "accept_turn skills pins input resolved roster decision t w = Inr (res, w')"
  then obtain row w1 stored w2 u3 w3 e w4 fz w5 u6 w6 q w7 ns p where
    it: "insert_turn input resolved (tu_runID t) (tu_anchor t) (tu_traceID t) (tu_next t) w = Inr (row, w1)"
    and s: "store_decision (tu_runID t) decision w1 = Inr (stored, w2)"
    "name_session (ei_SessionID input) (DeriveSessionTitle (ei_Content input)) (sa_CreatedAt (tu_anchor t)) w2 = Inr (u3, w3)"
    "announce_session (ei_SessionID input) (tu_traceID t) (sa_CreatedAt (tu_anchor t)) w3 = Inr (e, w4)"
    "freeze_job skills pins decision (egressDecisionSelectedTools decision (ei_SelectedTools input)) w4 = Inr (fz, w5)"
    and j: "insert_job_row (turn_job_row input (tu_runID t) (tu_jobID t) (tu_anchor t) p) w5 = Inr (u6, w6)"
    and q: "queued_event input t row w6 = Inr (q, w7)" "routing_notice input t (fst fz) stored w7 = Inr (ns, w')"
    by (rule accept_turn_Inr)
  obtain c m1 m2 where c: "w1 = w\<lparr>messages := messages w @ [m1, m2],
       agent_runs := agent_runs w @ [turn_run_row input resolved (tu_runID t) (tu_anchor t) (tu_traceID t) (UnixNano c)]\<rparr>"
    by (rule insert_turn_Inr [OF it])
  have idle: "same_work w1 w5" using s(1) [THEN tx_withinD [OF idle_turn(2)]] s(2) [THEN tx_withinD [OF idle_turn(3)]]
      s(3) [THEN tx_withinD [OF idle_turn(4)]] s(4) [THEN tx_withinD [OF idle_turn(5)]]
    by (simp add: same_work_def)
  have "R w w1" using within_insert_turn it by (rule tx_withinD)
  moreover have "R w1 w5" using s(1) [THEN within_turn(2) [THEN tx_withinD]] s(2) [THEN within_turn(3) [THEN tx_withinD]]
      s(3) [THEN within_turn(4) [THEN tx_withinD]] s(4) [THEN within_turn(5) [THEN tx_withinD]] step_trans by blast
  moreover have "R w5 w6"
  proof (cases "db_ok w5")
    case True
    let ?j = "turn_job_row input (tu_runID t) (tu_jobID t) (tu_anchor t) p"
    have "\<exists>x \<in> set (agent_runs w5). run_id x = job_run_id ?j \<and> \<not> isTerminalLifecycle (run_status x)"
      using idle c by (auto simp: same_work_def)
    then show ?thesis using True insert_job_row_Inr [OF j] insert_job by blast
  next
    case False
    then show ?thesis by (rule outside)
  qed
  moreover have "R w6 w'" using q(1) [THEN within_turn(6) [THEN tx_withinD]] q(2) [THEN within_turn(7) [THEN tx_withinD]] step_trans by blast
  ultimately show "R w w'" using step_trans by blast
qed

lemma within_enqueueUserMessageTx: "tx_within R (enqueueUserMessageTx skills pins input)"
proof (rule tx_withinI)
  fix w res w' assume "enqueueUserMessageTx skills pins input w = Inr (res, w')"
  then obtain resolved roster decision t w1 where "new_turn (ei_SessionID input) w = Inr (t, w1)"
    "accept_turn skills pins (normalizeEnqueueUserMessageInput input) resolved roster decision t w1 = Inr (res, w')"
    by (rule enqueueUserMessageTx_Inr)
  then show "R w w'" using within_turn(1) within_accept_turn step_trans by (blast dest: tx_withinD)
qed

lemma within_EnqueueUserMessage: "tx_within R (EnqueueUserMessage skills pins input)"
  unfolding EnqueueUserMessage_def findSendMessageIdempotencyTx_def insert_idempotency_def Let_def
  by (intro within_intros within_requireChatSessionTx within_enqueueUserMessageTx within_env within_modify frame_keys)
    (simp_all add: same_keys_def)

end

end
