(* ===== verification/TurnOutcomes.thy ===== *)
theory TurnOutcomes
  imports Enqueue Dispatch
begin

text \<open>
  What a send and a delegated task leave behind: the consent a remote turn was accepted under, the
  answer to a repeated request, the gates a delegation has passed, and the task that waits for consent.
\<close>

section \<open>Endpoints\<close>

text \<open>A keyed endpoint is a single origin over HTTPS, or over HTTP on this machine.\<close>

definition this_machine :: "net_library \<Rightarrow> string \<Rightarrow> bool" where
  "this_machine lib hostname \<longleftrightarrow> hostname = ''localhost''
     \<or> (case netip_ParseAddr lib hostname of None \<Rightarrow> False | Some a \<Rightarrow> addr_IsLoopback a)"

lemma canonical_host_loopback: "canonical_host lib hostname = (host, loopback) \<Longrightarrow> loopback \<Longrightarrow> this_machine lib hostname"
  by (auto simp: canonical_host_def this_machine_def split: option.splits)

lemma parseEndpoint_url:
  assumes "parseEndpoint lib raw True = Inr e"
  shows "\<exists>u. url_Parse lib raw = Some u \<and> plain_url u
    \<and> (strings_ToLower lib (url_Scheme u) = ''https''
       \<or> strings_ToLower lib (url_Scheme u) = ''http'' \<and> this_machine lib (strings_ToLower lib (Hostname u)))"
proof (cases "url_Parse lib raw")
  case None
  then show ?thesis using assms by (simp add: parseEndpoint_def split: if_splits)
next
  case (Some u)
  obtain host loopback where h: "canonical_host lib (strings_ToLower lib (Hostname u)) = (host, loopback)" by fastforce
  show ?thesis using assms canonical_host_loopback [OF h]
    unfolding parseEndpoint_def Some option.case Let_def h prod.case by (auto split: if_splits option.splits)
qed

section \<open>Tables a turn does not touch\<close>

definition same_ledger :: "world \<Rightarrow> world \<Rightarrow> bool" where
  "same_ledger w w' \<longleftrightarrow> run_egress_decisions w' = run_egress_decisions w
     \<and> send_message_idempotency w' = send_message_idempotency w"

interpretation ledger: tx_relation same_ledger
  by unfold_locales (simp_all add: same_ledger_def)

lemma ledger_env:
  "tx_within same_ledger time_Now" "tx_within same_ledger (ids_New k)" "tx_within same_ledger (query_row q)"
  "tx_within same_ledger (insert_message m)" "tx_within same_ledger (insert_agent_run r)"
  "tx_within same_ledger (insert_job_row j)" "tx_within same_ledger (readRunRow rid)"
  by (auto simp: tx_within_def same_ledger_def time_Now_def ids_New_def query_row_def insert_message_def insert_agent_run_def
      insert_job_row_def tx_simps dest: readRunRow_Inr split: list.splits if_splits)

lemma ledger_appendEventTx: "tx_within same_ledger (appendEventTx sid r t ty p at)"
  by (auto simp: tx_within_def same_ledger_def appendEventTx_def insert_event_def ids_New_def tx_simps Let_def split: if_splits)

lemma ledger_recordEgressConsentTx: "tx_within same_ledger (recordEgressConsentTx s r t d l de out a)"
  unfolding recordEgressConsentTx_def appendRunNoticeTx_def recordAuditTx_def appendRunEventTx_def Let_def
  by (intro ledger.within_intros idle_env ledger_env ledger_appendEventTx) (auto simp: tx_within_def same_ledger_def now_text_def ids_New_def time_Now_def tx_simps)

lemma ledger_turn:
  "tx_within same_ledger (new_turn sid)" "tx_within same_ledger (insert_turn input resolved rid anchor tr n)"
  "tx_within same_ledger (name_session sid ttl at)" "tx_within same_ledger (announce_session sid tr at)"
  "tx_within same_ledger (freeze_job skills pins decision tools)" "tx_within same_ledger (queued_event input t row)"
  "tx_within same_ledger (routing_notice input t ss stored)"
  unfolding new_turn_def insert_turn_def name_session_def announce_session_def freeze_job_def queued_event_def routing_notice_def
    nextMessageSlotTx_def nextSessionActivityTimeTx_def egressMemorySnapshotTx_def memoryEnabledTx_def
    appendSessionEventTx_def appendRunEventTx_def Let_def
  by (intro ledger.within_intros ledger.within_modify ledger_env ledger_appendEventTx ledger_recordEgressConsentTx;
      simp add: same_ledger_def)+

section \<open>Consent of a remote turn\<close>

lemma turn_run_model: "run_model_name (turn_run_row input resolved rid anchor tr c) = rq_Model (er_requirements resolved)"
  by (simp add: turn_run_row_def queued_run_row_def)

lemma store_decision_Some:
  assumes "store_decision rid (Some p) w = Inr (stored, w')"
  obtains did where "stored = Some (stored_decision did rid p)"
    "run_egress_decisions w' = run_egress_decisions w @ [stored_decision did rid p]"
    "pd_ChallengeNonce p \<notin> set (map ed_ChallengeNonce (run_egress_decisions w))"
  using assms
  by (auto simp: store_decision_def insertRunEgressDecisionTx_def stored_decision_def ids_New_def tx_simps Let_def
      split: if_splits)

lemma accept_turn_ledger:
  assumes "accept_turn skills pins input resolved roster decision t w = Inr (res, w')"
  shows "send_message_idempotency w' = send_message_idempotency w"
    and "decision = Some p \<Longrightarrow> \<exists>did. run_egress_decisions w' = run_egress_decisions w @ [stored_decision did (eu_RunID res) p]
      \<and> pd_ChallengeNonce p \<notin> set (map ed_ChallengeNonce (run_egress_decisions w))"
proof -
  from assms obtain row w1 stored w2 u3 w3 e w4 fz w5 u6 w6 q w7 ns j where
    it: "insert_turn input resolved (tu_runID t) (tu_anchor t) (tu_traceID t) (tu_next t) w = Inr (row, w1)"
    and sd: "store_decision (tu_runID t) decision w1 = Inr (stored, w2)"
    and s: "name_session (ei_SessionID input) (DeriveSessionTitle (ei_Content input)) (sa_CreatedAt (tu_anchor t)) w2 = Inr (u3, w3)"
    "announce_session (ei_SessionID input) (tu_traceID t) (sa_CreatedAt (tu_anchor t)) w3 = Inr (e, w4)"
    "freeze_job skills pins decision (egressDecisionSelectedTools decision (ei_SelectedTools input)) w4 = Inr (fz, w5)"
    "insert_job_row j w5 = Inr (u6, w6)"
    "queued_event input t row w6 = Inr (q, w7)" "routing_notice input t (fst fz) stored w7 = Inr (ns, w')"
    and res: "eu_RunID res = tu_runID t"
    by (rule accept_turn_Inr) simp
  have a: "same_ledger w w1" using ledger_turn(2) it by (rule tx_withinD)
  have b: "same_ledger w2 w'"
    using s(1) [THEN tx_withinD [OF ledger_turn(3)]] s(2) [THEN tx_withinD [OF ledger_turn(4)]] s(3) [THEN tx_withinD [OF ledger_turn(5)]]
      s(4) [THEN tx_withinD [OF ledger_env(6)]] s(5) [THEN tx_withinD [OF ledger_turn(6)]] s(6) [THEN tx_withinD [OF ledger_turn(7)]]
    by (simp add: same_ledger_def)
  have "send_message_idempotency w2 = send_message_idempotency w1" using sd
    by (auto simp: store_decision_def insertRunEgressDecisionTx_def ids_New_def tx_simps Let_def split: option.splits if_splits)
  then show "send_message_idempotency w' = send_message_idempotency w" using a b by (simp add: same_ledger_def)
  assume "decision = Some p"
  then obtain did where "run_egress_decisions w2 = run_egress_decisions w1 @ [stored_decision did (tu_runID t) p]"
    "pd_ChallengeNonce p \<notin> set (map ed_ChallengeNonce (run_egress_decisions w1))"
    using sd by (auto elim: store_decision_Some)
  then show "\<exists>did. run_egress_decisions w' = run_egress_decisions w @ [stored_decision did (eu_RunID res) p]
      \<and> pd_ChallengeNonce p \<notin> set (map ed_ChallengeNonce (run_egress_decisions w))"
    using a b res by (auto simp: same_ledger_def)
qed

text \<open>The run of an accepted turn carries the model of the route its decision was checked against.\<close>

lemma accept_turn_run:
  assumes "accept_turn skills pins input resolved roster decision t w = Inr (res, w')"
    and "r \<in> set (agent_runs w')" "run_id r = eu_RunID res"
  shows "run_model_provider r = rq_ModelProvider (er_requirements resolved) \<and> run_model_name r = rq_Model (er_requirements resolved)
    \<and> run_session_id r = ei_SessionID input \<and> run_status r = lifecycleQueued"
proof -
  from assms(1) obtain row w1 where
    it: "insert_turn input resolved (tu_runID t) (tu_anchor t) (tu_traceID t) (tu_next t) w = Inr (row, w1)"
    and res: "eu_RunID res = tu_runID t" by (rule accept_turn_Inr) simp
  obtain r0 where r0: "agent_runs w' = agent_runs w @ [r0]" "eu_RunID res \<notin> set (map run_id (agent_runs w))"
    by (rule accept_turn_work [OF assms(1)])
  obtain c m1 m2 where "agent_runs w1 = agent_runs w @ [turn_run_row input resolved (tu_runID t) (tu_anchor t) (tu_traceID t) (UnixNano c)]"
    by (rule insert_turn_Inr [OF it]) simp
  moreover have "agent_runs w' = agent_runs w1"
    using assms(1) it
    by (elim accept_turn_Inr) (auto dest!: idle_turn [THEN tx_withinD] insert_job_row_Inr simp: same_work_def)
  ultimately have "r \<in> set (agent_runs w) \<or> r = turn_run_row input resolved (tu_runID t) (tu_anchor t) (tu_traceID t) (UnixNano c)"
    using assms(2) by auto
  moreover have "r \<notin> set (agent_runs w)" using r0(2) assms(3) by force
  ultimately show ?thesis by (auto simp: turn_run_model)
qed

lemma normalize_session [simp]:
  "ei_SessionID (normalizeEnqueueUserMessageInput input) = ei_SessionID input"
  "ei_IdempotencyKey (normalizeEnqueueUserMessageInput input) = ei_IdempotencyKey input"
  by (simp_all add: normalizeEnqueueUserMessageInput_def)

lemma remote_consent:
  assumes "enqueueUserMessageTx skills pins input w = Inr (res, w')" "r \<in> set (agent_runs w')" "run_id r = eu_RunID res"
    and remote: "run_model_provider r = ''openai_compatible''"
  shows "\<exists>d \<in> set (run_egress_decisions w'). ed_RunID d = run_id r \<and> ed_Provider d = run_model_provider r
    \<and> ed_Model d = run_model_name r \<and> ed_ChallengeNonce d \<notin> set (map ed_ChallengeNonce (run_egress_decisions w))"
proof -
  from assms(1) obtain resolved roster decision t w1 where
    d: "enqueue_decision (normalizeEnqueueUserMessageInput input) resolved w = Inr (decision, w)"
    and n: "new_turn (ei_SessionID input) w = Inr (t, w1)"
    and a: "accept_turn skills pins (normalizeEnqueueUserMessageInput input) resolved roster decision t w1 = Inr (res, w')"
    by (rule enqueueUserMessageTx_Inr)
  have r: "run_model_provider r = rq_ModelProvider (er_requirements resolved)" "run_model_name r = rq_Model (er_requirements resolved)"
    using accept_turn_run [OF a assms(2,3)] by simp_all
  obtain p where p: "decision = Some p" "pd_Provider p = ''openai_compatible''" "pd_Model p = rq_Model (er_requirements resolved)"
    using enqueue_decision_consents [OF d] remote r(1) by auto
  obtain did where "run_egress_decisions w' = run_egress_decisions w1 @ [stored_decision did (eu_RunID res) p]"
    "pd_ChallengeNonce p \<notin> set (map ed_ChallengeNonce (run_egress_decisions w1))"
    using accept_turn_ledger(2) [OF a p(1)] by blast
  moreover have "same_ledger w w1" using ledger_turn(1) n by (rule tx_withinD)
  ultimately show ?thesis using p r remote assms(3) by (simp add: same_ledger_def stored_decision_def)
qed

section \<open>Repeated sends\<close>

lemma EnqueueUserMessage_recorded:
  assumes "EnqueueUserMessage skills pins input w = Inr (res, w')" "ei_IdempotencyKey input \<noteq> ''''"
  obtains rec where "rec \<in> set (send_message_idempotency w')" "si_idempotency_key rec = ei_IdempotencyKey input"
    "si_RequestFingerprint rec = EnqueueRequestFingerprint input" "si_RunID rec = eu_RunID res" "si_JobID rec = eu_JobID res"
    "si_UserMessageID rec = eu_UserMessageID res" "si_AssistantMessageID rec = eu_AssistantMessageID res" "si_TraceID rec = eu_TraceID res"
  using assms
proof (cases rule: EnqueueUserMessage_cases)
  case (replayed rec)
  then show thesis by (intro that [of rec]) (simp_all add: record_result_def)
next
  case (queued w1)
  let ?rec = "idempotency_record (normalizeEnqueueUserMessageInput input) (EnqueueRequestFingerprint input) res"
  have "insert_idempotency ?rec w1 = Inr ((), w')" using queued(2) assms(2) by blast
  then have "?rec \<in> set (send_message_idempotency w')" by (auto simp: insert_idempotency_def tx_simps split: if_splits)
  then show thesis by (rule that) (simp_all add: idempotency_record_def)
qed

lemma filter_distinct_key: "distinct (map f xs) \<Longrightarrow> x \<in> set xs \<Longrightarrow> filter (\<lambda>y. f y = f x) xs = [x]"
proof (induction xs)
  case (Cons a xs)
  have "f y \<noteq> f a" if "y \<in> set xs" for y using Cons.prems(1) that by (metis distinct.simps(2) image_eqI list.set_map list.simps(9))
  then have "filter (\<lambda>y. f y = f a) xs = []" by (auto simp: filter_empty_conv)
  then show ?case using Cons by auto
qed simp

lemma find_recorded:
  assumes "rec \<in> set (send_message_idempotency w)" "distinct (map si_idempotency_key (send_message_idempotency w))"
  shows "findSendMessageIdempotencyTx (si_idempotency_key rec) w = Inr (Some rec, w)"
  by (simp add: findSendMessageIdempotencyTx_def query_opt_def filter_distinct_key [OF assms(2,1)])

lemma EnqueueUserMessage_known:
  assumes "requireChatSessionTx (ei_SessionID input) w = Inr ((), w)" "ei_IdempotencyKey input \<noteq> ''''"
    and "findSendMessageIdempotencyTx (ei_IdempotencyKey input) w = Inr (Some rec, w)"
  shows "EnqueueUserMessage skills pins input w =
    (if si_RequestFingerprint rec = EnqueueRequestFingerprint input then Inr (record_result rec, w) else Inl ErrIdempotencyConflict)"
  using assms by (simp add: EnqueueUserMessage_def Let_def tx_then_def tx_bind_def EnqueueRequestFingerprint_def)

section \<open>Delegated tasks\<close>

text \<open>The task, its run and its job, all new and linked.\<close>

definition task_started :: "CreateDelegationInput \<Rightarrow> delegation_row \<Rightarrow> agent_run \<Rightarrow> job \<Rightarrow> bool" where
  "task_started input d r j \<longleftrightarrow> dg_parent_run_id d = cd_ParentRunID input \<and> dg_child_run_id d = run_id r
     \<and> run_status r = lifecycleQueued \<and> run_session_id r = dg_child_session_id d \<and> job_run_id j = run_id r
     \<and> job_status j = ''pending'' \<and> (dg_egress_consent d = egressConsentPending \<longleftrightarrow> cd_EgressTools input \<noteq> [])"

lemma CreateDelegation_started:
  assumes "CreateDelegation skills input w = Inr (res, w')" "\<not> cr_Replayed res"
  obtains d r j where "delegations w' = delegations w @ [d]" "agent_runs w' = agent_runs w @ [r]" "jobs w' = jobs w @ [j]"
    "task_started input d r j" "dl_ChildRunID (cr_Delegation res) = run_id r" "run_id r \<notin> set (map run_id (agent_runs w))"
    "admit_delegation input w = Inr ((), w)"
  using assms(1)
proof (cases rule: CreateDelegation_cases)
  case (replayed d r)
  then show thesis using assms(2) by simp
next
  case (started parent xs)
  from started(3) obtain d r j where a: "delegations w' = delegations w @ [d]" "agent_runs w' = agent_runs w @ [r]" "jobs w' = jobs w @ [j]"
    and b: "run_id r = dg_child_run_id d" "run_status r = lifecycleQueued" "run_session_id r = dg_child_session_id d"
    "job_run_id j = dg_child_run_id d" "job_status j = ''pending''" "dg_child_run_id d \<notin> set (map run_id (agent_runs w))"
    "dg_parent_run_id d = cd_ParentRunID input" "dg_egress_consent d = (if cd_EgressTools input = [] then '''' else egressConsentPending)"
    "cr_Delegation res = delegation_of d r"
    by (rule start_delegation_Inr)
  have "task_started input d r j" using b by (simp add: task_started_def egressConsentPending_def)
  then show thesis using a b started(1) by (intro that [of d r j]) (simp_all add: delegation_of_def)
qed

lemma consent_keeps_from_claims:
  assumes "d \<in> set (delegations w)" "dg_egress_consent d = egressConsentPending" "job_run_id j = dg_child_run_id d"
  shows "\<not> claimable agentID caps w (j, r)"
  using assms by (auto simp: claimable_def consent_pending_def list_ex_iff egressConsentPending_def)

text \<open>Granting: the decision is stored for the child, its pending job carries it, and the wait is over.\<close>

lemma quiet_lookup: "tx_within same_work (delegationByChildRunTx rid)" "tx_within same_ledger (delegationByChildRunTx rid)"
  by (auto simp: tx_within_def delegationByChildRunTx_def same_work_def same_ledger_def split: list.splits option.splits)

lemma quiet_report: "tx_within same_work (reportDelegationTx rid at)" "tx_within same_ledger (reportDelegationTx rid at)"
  unfolding reportDelegationTx_def run_session_state_def appendRunEventTx_def
  by (intro idle.within_intros quiet_lookup idle_env idle_appendEventTx,
      intro ledger.within_intros quiet_lookup ledger_env ledger_appendEventTx)

lemma ledger_now_text: "tx_within same_ledger now_text"
  by (auto simp: tx_within_def same_ledger_def now_text_def time_Now_def tx_simps)

lemma GrantDelegationEgress_Inr:
  assumes "GrantDelegationEgress did pending w = Inr (res, w')"
  obtains e raw decision stored w1 w2 w3 where "pendingDelegationEgressTx did w = Inr ((e, raw), w)"
    "normalizePendingEgressDecision (net_lib w) pending = Inr (Some decision)" "decision_fits e decision = Inr ()"
    "insertRunEgressDecisionTx (de_ChildRunID e) decision w = Inr (stored, w1)"
    "widen_job (de_ChildRunID e) (granted_payload e stored raw) w1 = Inr ((), w2)"
    "set_consent did egressConsentGranted w2 = Inr ((), w3)" "same_work w3 w'" "same_ledger w3 w'"
proof -
  obtain e raw w0 norm wn where pe: "pendingDelegationEgressTx did w = Inr ((e, raw), w0)"
    and nm: "tx_lift (normalizePendingEgressDecision (net_lib w0) pending) w0 = Inr (norm, wn)"
    and rest: "(case norm of
       None \<Rightarrow> tx_fail (ErrText ''panic: nil pointer dereference'')
     | Some decision \<Rightarrow>
         tx_then (tx_lift (decision_fits e decision)) (
         tx_bind (insertRunEgressDecisionTx (de_ChildRunID e) decision) (\<lambda>stored.
         tx_then (widen_job (de_ChildRunID e) (granted_payload e stored raw)) (
         tx_then (set_consent did egressConsentGranted) (
         tx_bind now_text (\<lambda>at.
         tx_bind (query_row (\<lambda>w. map run_trace_id (filter (\<lambda>r. run_id r = de_ChildRunID e) (agent_runs w)))) (\<lambda>childTraceID.
         tx_bind (recordEgressConsentTx (de_ChildSessionID e) (de_ChildRunID e) childTraceID stored
             ''Tool calls may go to '' '''' ''Data leaves your machine if this task calls one of those tools'' at) (\<lambda>notice.
         tx_bind (reportDelegationTx (de_ChildRunID e) at) (\<lambda>reported.
         tx_return \<lparr>der_Events = notice # reported, der_ContinuationRunID = ''''\<rparr>))))))))) wn = Inr (res, w')"
    using assms unfolding GrantDelegationEgress_def tx_bind_Inr_iff by (auto simp: tx_bind_Inr_iff split: prod.splits)
  obtain w0: "w0 = w" by (rule pendingDelegationEgressTx_Inr [OF pe])
  have wn: "wn = w" and nm': "normalizePendingEgressDecision (net_lib w) pending = Inr norm"
    using nm w0 by (auto split: sum.splits)
  obtain decision where norm: "norm = Some decision" using rest by (cases norm) simp_all
  obtain u4 w4 stored w1 u2 w2 u3 w3 at w5 tr w6 n w7 rp where
    fit: "tx_lift (decision_fits e decision) w = Inr (u4, w4)"
    and i: "insertRunEgressDecisionTx (de_ChildRunID e) decision w4 = Inr (stored, w1)"
    and j: "widen_job (de_ChildRunID e) (granted_payload e stored raw) w1 = Inr (u2, w2)"
    and c: "set_consent did egressConsentGranted w2 = Inr (u3, w3)"
    and q: "now_text w3 = Inr (at, w5)"
      "query_row (\<lambda>w. map run_trace_id (filter (\<lambda>r. run_id r = de_ChildRunID e) (agent_runs w))) w5 = Inr (tr, w6)"
      "recordEgressConsentTx (de_ChildSessionID e) (de_ChildRunID e) tr stored
             ''Tool calls may go to '' '''' ''Data leaves your machine if this task calls one of those tools'' at w6 = Inr (n, w7)"
      "reportDelegationTx (de_ChildRunID e) at w7 = Inr (rp, w')"
    using rest unfolding norm wn option.case tx_bind_Inr_iff tx_then_Inr_iff tx_return_def sum.inject prod.inject by blast
  have w4: "w4 = w" "decision_fits e decision = Inr ()" using fit by (auto split: sum.splits)
  have "same_work w3 w'" "same_ledger w3 w'"
    using q(1) [THEN tx_withinD [OF idle_env(2)]] q(2) [THEN tx_withinD [OF idle_env(4)]]
      q(3) [THEN tx_withinD [OF idle_recordEgressConsentTx]] q(4) [THEN tx_withinD [OF quiet_report(1)]]
      q(1) [THEN tx_withinD [OF ledger_now_text]] q(2) [THEN tx_withinD [OF ledger_env(3)]]
      q(3) [THEN tx_withinD [OF ledger_recordEgressConsentTx]] q(4) [THEN tx_withinD [OF quiet_report(2)]]
    by (simp_all add: same_work_def same_ledger_def)
  then show thesis using pe w0 nm' norm w4 i j c by (intro that [of e raw decision stored w1 w2 w3]) simp_all
qed

lemma update_where_cases:
  assumes "x \<in> set (update_where p f xs)" "\<And>y. p y \<Longrightarrow> P (f y)" "\<And>y. \<not> p y \<Longrightarrow> P y"
  shows "P x"
  using assms by (auto simp: update_where_def split: if_splits)

lemma granted_task:
  assumes "GrantDelegationEgress did pending w = Inr (res, w')"
  obtains d r stored where "d \<in> set (delegations w)" "dg_id d = did" "dg_egress_consent d = egressConsentPending"
    "r \<in> set (agent_runs w)" "run_id r = dg_child_run_id d" "agent_runs w' = agent_runs w"
    "run_egress_decisions w' = run_egress_decisions w @ [stored]" "ed_RunID stored = dg_child_run_id d"
    "ed_Provider stored = LocalProvider" "ed_Model stored = run_model_name r"
    "\<forall>j \<in> set (jobs w'). job_run_id j = dg_child_run_id d \<and> job_status j = ''pending'' \<longrightarrow>
       (\<exists>ms. job_payload j = JObj ms \<and> map_of ms ''egressDecision'' = Some (decision_json stored))"
    "\<forall>x \<in> set (delegations w'). dg_id x = did \<longrightarrow> dg_egress_consent x = egressConsentGranted"
proof -
  from assms obtain e raw decision stored w1 w2 w3 where pe: "pendingDelegationEgressTx did w = Inr ((e, raw), w)"
    and fit: "decision_fits e decision = Inr ()"
    and i: "insertRunEgressDecisionTx (de_ChildRunID e) decision w = Inr (stored, w1)"
    and j: "widen_job (de_ChildRunID e) (granted_payload e stored raw) w1 = Inr ((), w2)"
    and c: "set_consent did egressConsentGranted w2 = Inr ((), w3)" and s: "same_work w3 w'" "same_ledger w3 w'"
    by (rule GrantDelegationEgress_Inr)
  obtain d r j0 where d: "d \<in> set (delegations w)" "r \<in> set (agent_runs w)" "dg_id d = did" "run_id r = dg_child_run_id d"
    "dg_egress_consent d = egressConsentPending" "delegation_egress d r j0 = Some (e, raw)" "de_ChildRunID e = run_id r"
    by (rule pendingDelegationEgressTx_Inr [OF pe])
  have model: "de_Model e = run_model_name r" using d(6)
    by (auto simp: delegation_egress_def Let_def split: option.splits)
  have st: "stored = stored_decision (ed_DecisionID stored) (run_id r) decision"
    "run_egress_decisions w1 = run_egress_decisions w @ [stored]" "agent_runs w1 = agent_runs w" "delegations w1 = delegations w" "jobs w1 = jobs w"
    using i d(7) by (auto simp: insertRunEgressDecisionTx_def stored_decision_def ids_New_def tx_simps Let_def split: if_splits)
  have f: "ed_RunID stored = run_id r" "ed_Provider stored = pd_Provider decision" "ed_Model stored = pd_Model decision"
    by (subst st(1), simp add: stored_decision_def)+
  have dec: "pd_Provider decision = LocalProvider" "pd_Model decision = de_Model e" using fit by (auto simp: decision_fits_def split: if_splits)
  have w2: "w2 = w1\<lparr>jobs := update_where (\<lambda>j. job_run_id j = run_id r \<and> job_status j = ''pending'')
     (\<lambda>j. j\<lparr>job_payload := granted_payload e stored raw\<rparr>) (jobs w1)\<rparr>" using j d(7) by (simp add: widen_job_def tx_simps)
  have w3: "w3 = w2\<lparr>delegations := update_where (\<lambda>d. dg_id d = did) (\<lambda>d. d\<lparr>dg_egress_consent := egressConsentGranted\<rparr>) (delegations w2)\<rparr>"
    using c by (simp add: set_consent_def tx_simps)
  have pl: "\<exists>ms. granted_payload e stored raw = JObj ms \<and> map_of ms ''egressDecision'' = Some (decision_json stored)"
    by (simp add: granted_payload_def Let_def map_of_map_set)
  have jobs': "jobs w' = update_where (\<lambda>j. job_run_id j = run_id r \<and> job_status j = ''pending'')
     (\<lambda>j. j\<lparr>job_payload := granted_payload e stored raw\<rparr>) (jobs w1)" using s(1) unfolding same_work_def w3 w2 by simp
  have dels': "delegations w' = update_where (\<lambda>d. dg_id d = did) (\<lambda>d. d\<lparr>dg_egress_consent := egressConsentGranted\<rparr>) (delegations w1)"
    using s(1) unfolding same_work_def w3 w2 by simp
  show thesis
  proof (rule that [of d r stored])
    show "\<forall>j \<in> set (jobs w'). job_run_id j = dg_child_run_id d \<and> job_status j = ''pending'' \<longrightarrow>
       (\<exists>ms. job_payload j = JObj ms \<and> map_of ms ''egressDecision'' = Some (decision_json stored))"
    proof
      fix x assume "x \<in> set (jobs w')"
      then show "job_run_id x = dg_child_run_id d \<and> job_status x = ''pending'' \<longrightarrow>
        (\<exists>ms. job_payload x = JObj ms \<and> map_of ms ''egressDecision'' = Some (decision_json stored))"
        unfolding jobs' by (rule update_where_cases) (simp add: pl, metis d(4))
    qed
    show "\<forall>x \<in> set (delegations w'). dg_id x = did \<longrightarrow> dg_egress_consent x = egressConsentGranted"
    proof
      fix x assume "x \<in> set (delegations w')"
      then show "dg_id x = did \<longrightarrow> dg_egress_consent x = egressConsentGranted"
        unfolding dels' by (rule update_where_cases) simp_all
    qed
    show "ed_RunID stored = dg_child_run_id d" using f(1) d(4) by simp
    show "ed_Provider stored = LocalProvider" using f(2) dec(1) by simp
    show "ed_Model stored = run_model_name r" using f(3) dec(2) model by simp
    show "agent_runs w' = agent_runs w" using s(1) st(3) unfolding same_work_def w3 w2 by simp
    show "run_egress_decisions w' = run_egress_decisions w @ [stored]" using s(2) st(2) unfolding same_ledger_def w3 w2 by simp
  qed (fact d)+
qed

end
