(* ===== verification/ExternalAgents.thy ===== *)
theory ExternalAgents
  imports TurnOutcomes
begin

text \<open>
  Assistants that do not run on this machine, and the conversations routed to them
  (\<^verbatim>\<open>external_agents.go\<close>).
\<close>

section \<open>Validation\<close>

record ExternalAgentInput =
  xi_DisplayName :: string
  xi_Provider :: string
  xi_BaseURL :: string
  xi_Model :: string
  xi_CredentialRef :: string

definition maxExternalAgentNameRunes :: nat where "maxExternalAgentNameRunes = 120"
definition maxExternalAgentModelRunes :: nat where "maxExternalAgentModelRunes = 200"
definition maxExternalAgentBaseURLRunes :: nat where "maxExternalAgentBaseURLRunes = 500"
definition maxExternalAgentCredentialRefRunes :: nat where "maxExternalAgentCredentialRefRunes = 64"

definition externalAgentProviders :: "string list" where
  "externalAgentProviders = [''anthropic'', ''openai'', ''google'', ''xai'', ''other'']"

definition validateExternalAgentBaseURL :: "net_library \<Rightarrow> string \<Rightarrow> string result" where
  "validateExternalAgentBaseURL lib baseURL =
     (if baseURL = '''' then Inl (ErrExternalAgent ErrExternalAgentBaseURLEmpty)
      else if length (runes baseURL) > maxExternalAgentBaseURLRunes then Inl (ErrExternalAgent ErrExternalAgentBaseURLTooLong)
      else case url_Parse lib baseURL of
        None \<Rightarrow> Inl (ErrExternalAgent ErrExternalAgentBaseURLInvalid)
      | Some parsed \<Rightarrow>
          let scheme = strings_ToLower lib (url_Scheme parsed) in
          if url_Scheme parsed = '''' \<or> Hostname parsed = '''' \<or> (scheme \<noteq> ''http'' \<and> scheme \<noteq> ''https'')
             \<or> url_RawQuery parsed \<noteq> '''' \<or> url_ForceQuery parsed \<or> url_Fragment parsed \<noteq> ''''
          then Inl (ErrExternalAgent ErrExternalAgentBaseURLInvalid)
          else if url_User parsed then Inl (ErrExternalAgent ErrExternalAgentBaseURLCredentials)
          else case ParseKeyedEndpoint lib baseURL of
            Inl _ \<Rightarrow> Inl (if scheme = ''http'' then ErrExternalAgentBaseURLInsecure
                           else ErrExternalAgent ErrExternalAgentBaseURLInvalid)
          | Inr endpoint \<Rightarrow> Inr (ep_Canonical endpoint))"

definition credential_rune :: "int \<Rightarrow> bool" where
  "credential_rune r \<longleftrightarrow> (97 \<le> r \<and> r \<le> 122) \<or> (65 \<le> r \<and> r \<le> 90) \<or> (48 \<le> r \<and> r \<le> 57) \<or> r \<in> {95, 45, 46}"

definition validateCredentialRef :: "string \<Rightarrow> unit result" where
  "validateCredentialRef ref =
     (if ref = '''' then Inl (ErrExternalAgent ErrExternalAgentCredentialRefEmpty)
      else if length (runes ref) > maxExternalAgentCredentialRefRunes then Inl (ErrExternalAgent ErrExternalAgentCredentialRefLong)
      else if list_all credential_rune (runes ref) then Inr ()
      else Inl (ErrExternalAgent ErrExternalAgentCredentialRefFormat))"

definition validateExternalAgent :: "net_library \<Rightarrow> ExternalAgentInput \<Rightarrow> ExternalAgentInput result" where
  "validateExternalAgent lib input =
     (let cleaned = \<lparr>xi_DisplayName = TrimSpace (xi_DisplayName input),
            xi_Provider = TrimSpace (strings_ToLower lib (xi_Provider input)), xi_BaseURL = TrimSpace (xi_BaseURL input),
            xi_Model = TrimSpace (xi_Model input), xi_CredentialRef = TrimSpace (xi_CredentialRef input)\<rparr> in
      if xi_DisplayName cleaned = '''' then Inl (ErrExternalAgent ErrExternalAgentNameEmpty)
      else if length (runes (xi_DisplayName cleaned)) > maxExternalAgentNameRunes then Inl (ErrExternalAgent ErrExternalAgentNameTooLong)
      else if xi_Model cleaned = '''' then Inl (ErrExternalAgent ErrExternalAgentModelEmpty)
      else if length (runes (xi_Model cleaned)) > maxExternalAgentModelRunes then Inl (ErrExternalAgent ErrExternalAgentModelTooLong)
      else if xi_Provider cleaned \<notin> set externalAgentProviders then Inl (ErrExternalAgent ErrExternalAgentProviderInvalid)
      else case validateExternalAgentBaseURL lib (xi_BaseURL cleaned) of
        Inl e \<Rightarrow> Inl e
      | Inr canonicalBaseURL \<Rightarrow>
          (case validateCredentialRef (xi_CredentialRef cleaned) of
             Inl e \<Rightarrow> Inl e
           | Inr _ \<Rightarrow> Inr (cleaned\<lparr>xi_BaseURL := canonicalBaseURL\<rparr>)))"

section \<open>The agents\<close>

text \<open>Display names are unique up to the case of ASCII letters (\<^verbatim>\<open>COLLATE NOCASE\<close>).\<close>

definition nocase :: "string \<Rightarrow> string" where "nocase s = map lower_byte s"

definition CreateExternalAgent :: "ExternalAgentInput \<Rightarrow> ExternalAgent wtx" where
  "CreateExternalAgent input =
     tx_bind (tx_gets net_lib) (\<lambda>lib.
     tx_bind (tx_lift (validateExternalAgent lib input)) (\<lambda>cleaned.
     tx_bind now_text (\<lambda>createdAt.
     tx_bind (ids_New ''agent'') (\<lambda>aid.
     let agent = \<lparr>xa_AgentID = aid, xa_DisplayName = xi_DisplayName cleaned, xa_Provider = xi_Provider cleaned,
           xa_BaseURL = xi_BaseURL cleaned, xa_Model = xi_Model cleaned, xa_CredentialRef = xi_CredentialRef cleaned,
           xa_CreatedAt = createdAt, xa_UpdatedAt = createdAt\<rparr> in
     tx_bind (tx_gets external_agents) (\<lambda>rows.
     tx_then (tx_guard (aid \<notin> set (map xa_AgentID rows)
         \<and> nocase (xa_DisplayName agent) \<notin> set (map (nocase \<circ> xa_DisplayName) rows)) (ErrExternalAgent ErrExternalAgentNameTaken)) (
     tx_then (tx_modify (\<lambda>w. w\<lparr>external_agents := external_agents w @ [agent]\<rparr>)) (tx_return agent)))))))"

definition GetExternalAgent :: "string \<Rightarrow> ExternalAgent wtx" where
  "GetExternalAgent aid =
     tx_map_err (\<lambda>e. if e = ErrNoRows then ErrExternalAgent ErrExternalAgentNotFound else e)
       (query_row (\<lambda>w. filter (\<lambda>a. xa_AgentID a = aid) (external_agents w)))"

definition UpdateExternalAgent :: "string \<Rightarrow> ExternalAgentInput \<Rightarrow> ExternalAgent wtx" where
  "UpdateExternalAgent aid input =
     tx_bind (tx_gets net_lib) (\<lambda>lib.
     tx_bind (tx_lift (validateExternalAgent lib input)) (\<lambda>cleaned.
     tx_bind now_text (\<lambda>at.
     tx_bind (tx_gets external_agents) (\<lambda>rows.
     tx_then (tx_guard (list_ex (\<lambda>a. xa_AgentID a = aid) rows \<longrightarrow>
         \<not> list_ex (\<lambda>a. xa_AgentID a \<noteq> aid \<and> nocase (xa_DisplayName a) = nocase (xi_DisplayName cleaned)) rows)
       (ErrExternalAgent ErrExternalAgentNameTaken)) (
     tx_then (tx_guard (list_ex (\<lambda>a. xa_AgentID a = aid) rows) (ErrExternalAgent ErrExternalAgentNotFound)) (
     tx_then (tx_modify (\<lambda>w. w\<lparr>external_agents := update_where (\<lambda>a. xa_AgentID a = aid)
         (\<lambda>a. a\<lparr>xa_DisplayName := xi_DisplayName cleaned, xa_Provider := xi_Provider cleaned, xa_BaseURL := xi_BaseURL cleaned,
            xa_Model := xi_Model cleaned, xa_CredentialRef := xi_CredentialRef cleaned, xa_UpdatedAt := at\<rparr>) (external_agents w)\<rparr>)) (
     GetExternalAgent aid)))))))"

text \<open>Deleting an agent drops its routes with it (\<^verbatim>\<open>ON DELETE CASCADE\<close>).\<close>

definition DeleteExternalAgent :: "string \<Rightarrow> unit wtx" where
  "DeleteExternalAgent aid =
     tx_bind (tx_gets external_agents) (\<lambda>rows.
     tx_then (tx_guard (list_ex (\<lambda>a. xa_AgentID a = aid) rows) (ErrExternalAgent ErrExternalAgentNotFound))
       (tx_modify (\<lambda>w. w\<lparr>external_agents := filter (\<lambda>a. xa_AgentID a \<noteq> aid) (external_agents w),
          session_external_agents := filter (\<lambda>r. sx_agent_id r \<noteq> aid) (session_external_agents w)\<rparr>)))"

definition ListExternalAgents :: "ExternalAgent list wtx" where
  "ListExternalAgents = tx_gets (\<lambda>w. sort_key (\<lambda>a. (nocase (xa_DisplayName a), xa_AgentID a)) (external_agents w))"

section \<open>Routes\<close>

definition ExternalAgentEndpointHost :: "net_library \<Rightarrow> string \<Rightarrow> string" where
  "ExternalAgentEndpointHost lib baseURL =
     (case url_Parse lib baseURL of None \<Rightarrow> baseURL | Some u \<Rightarrow> if url_Host u = '''' then baseURL else url_Host u)"

text \<open>
  The upsert of a route, whose foreign keys are the conversation and the agent; the conversation was
  checked by the same transaction, so the missing side is the agent.
\<close>

definition missingRouteSideTx :: "string \<Rightarrow> unit wtx" where
  "missingRouteSideTx sid = tx_bind (query_opt (\<lambda>w. filter (\<lambda>s. sess_id s = sid) (sessions w))) (\<lambda>found.
     case found of None \<Rightarrow> tx_fail ErrSessionNotFound | Some _ \<Rightarrow> tx_fail (ErrExternalAgent ErrExternalAgentNotFound))"

definition upsert_route :: "string \<Rightarrow> string \<Rightarrow> string \<Rightarrow> unit wtx" where
  "upsert_route sid aid at =
     tx_bind (tx_gets (\<lambda>w. list_ex (\<lambda>s. sess_id s = sid) (sessions w) \<and> list_ex (\<lambda>a. xa_AgentID a = aid) (external_agents w))) (\<lambda>linked.
     if \<not> linked then missingRouteSideTx sid
     else tx_modify (\<lambda>w. w\<lparr>session_external_agents :=
       (if list_ex (\<lambda>r. sx_session_id r = sid) (session_external_agents w)
        then update_where (\<lambda>r. sx_session_id r = sid) (\<lambda>r. r\<lparr>sx_agent_id := aid, sx_routed_at := at\<rparr>) (session_external_agents w)
        else session_external_agents w @ [\<lparr>sx_session_id = sid, sx_agent_id = aid, sx_routed_at = at\<rparr>])\<rparr>))"

definition SetSessionAgent :: "string \<Rightarrow> string \<Rightarrow> ExternalAgent wtx" where
  "SetSessionAgent sid aid =
     tx_then (requireChatSessionTx sid) (
     tx_bind now_text (\<lambda>at.
     tx_then (upsert_route sid aid at) (
     tx_bind (GetExternalAgent aid) (\<lambda>agent.
     tx_bind (tx_gets net_lib) (\<lambda>lib.
     tx_then (recordAuditTx '''' ''client'' '''' ''session.routed'' sid (Some (JObj
         [(''agent'', JStr (xa_DisplayName agent)), (''agentId'', JStr (xa_AgentID agent)),
          (''endpoint'', JStr (ExternalAgentEndpointHost lib (xa_BaseURL agent))), (''model'', JStr (xa_Model agent))]))) (
     tx_return agent))))))"

definition ClearSessionAgent :: "string \<Rightarrow> unit wtx" where
  "ClearSessionAgent sid =
     tx_then (requireActiveSessionTx sid) (
     tx_then (requireChatSessionTx sid) (
     tx_bind (tx_gets (\<lambda>w. list_ex (\<lambda>r. sx_session_id r = sid) (session_external_agents w))) (\<lambda>routed.
     tx_then (tx_modify (\<lambda>w. w\<lparr>session_external_agents := filter (\<lambda>r. sx_session_id r \<noteq> sid) (session_external_agents w)\<rparr>)) (
     if routed then recordAuditTx '''' ''client'' '''' ''session.unrouted'' sid (Some (JObj [])) else tx_return ()))))"

definition GetSessionAgent :: "string \<Rightarrow> ExternalAgent option wtx" where
  "GetSessionAgent sid = tx_then (requireActiveSessionTx sid) (sessionExternalAgentTx sid)"

section \<open>What they keep\<close>

text \<open>A valid agent has a usable name, a canonical secure endpoint and a plain credential name.\<close>

definition agent_ok :: "net_library \<Rightarrow> ExternalAgent \<Rightarrow> bool" where
  "agent_ok lib a \<longleftrightarrow> xa_DisplayName a \<noteq> '''' \<and> length (runes (xa_DisplayName a)) \<le> maxExternalAgentNameRunes
     \<and> xa_Model a \<noteq> '''' \<and> xa_Provider a \<in> set externalAgentProviders
     \<and> (\<exists>raw e. ParseKeyedEndpoint lib raw = Inr e \<and> xa_BaseURL a = ep_Canonical e)
     \<and> xa_CredentialRef a \<noteq> '''' \<and> list_all credential_rune (runes (xa_CredentialRef a))"

definition agents_ok :: "world \<Rightarrow> bool" where
  "agents_ok w \<longleftrightarrow> distinct (map xa_AgentID (external_agents w)) \<and> distinct (map (nocase \<circ> xa_DisplayName) (external_agents w))
     \<and> list_all (agent_ok (net_lib w)) (external_agents w)
     \<and> distinct (map sx_session_id (session_external_agents w))
     \<and> set (map sx_agent_id (session_external_agents w)) \<subseteq> set (map xa_AgentID (external_agents w))"

lemma validateExternalAgent_ok:
  assumes "validateExternalAgent lib input = Inr c"
    and "xa_DisplayName a = xi_DisplayName c" "xa_Provider a = xi_Provider c" "xa_BaseURL a = xi_BaseURL c"
      "xa_Model a = xi_Model c" "xa_CredentialRef a = xi_CredentialRef c"
  shows "agent_ok lib a"
proof -
  have "\<exists>raw e. ParseKeyedEndpoint lib raw = Inr e \<and> u = ep_Canonical e" if "validateExternalAgentBaseURL lib b = Inr u" for b u
    using that by (auto simp: validateExternalAgentBaseURL_def Let_def split: if_splits option.splits sum.splits)
  then show ?thesis
    using assms by (auto simp: validateExternalAgent_def agent_ok_def validateCredentialRef_def Let_def split: if_splits sum.splits)
qed

text \<open>The invariant reads only these tables.\<close>

definition same_agents :: "world \<Rightarrow> world \<Rightarrow> bool" where
  "same_agents w w' \<longleftrightarrow> external_agents w' = external_agents w \<and> session_external_agents w' = session_external_agents w
     \<and> net_lib w' = net_lib w"

lemma agents_ok_same: "agents_ok w \<Longrightarrow> same_agents w w' \<Longrightarrow> agents_ok w'"
  by (simp add: agents_ok_def same_agents_def)

interpretation roster: tx_relation same_agents
  by unfold_locales (simp_all add: same_agents_def)

lemma roster_env:
  "tx_within same_agents now_text" "tx_within same_agents (ids_New k)" "tx_within same_agents (query_row q)"
  "tx_within same_agents (query_opt qo)"
  by (auto simp: tx_within_def same_agents_def now_text_def time_Now_def ids_New_def query_row_def query_opt_def tx_simps split: list.splits)

lemma roster_recordAuditTx: "tx_within same_agents (recordAuditTx c ty aid act tgt p)"
  unfolding recordAuditTx_def
  by (intro roster.within_intros roster.within_modify roster_env) (simp add: same_agents_def)

lemma roster_reads:
  "tx_within same_agents (requireChatSessionTx sid)" "tx_within same_agents (requireActiveSessionTx sid)"
  "tx_within same_agents (GetExternalAgent aid)"
  unfolding requireChatSessionTx_def requireActiveSessionTx_def GetExternalAgent_def
  by (intro roster.within_intros roster_env)+

lemma CreateExternalAgent_Inr:
  assumes "CreateExternalAgent input w = Inr (agent, w')"
  obtains w1 where "same_agents w w1" "w' = w1\<lparr>external_agents := external_agents w1 @ [agent]\<rparr>" "agent_ok (net_lib w) agent"
    "xa_AgentID agent \<notin> set (map xa_AgentID (external_agents w))"
    "nocase (xa_DisplayName agent) \<notin> set (map (nocase \<circ> xa_DisplayName) (external_agents w))"
proof -
  obtain cleaned w0 at wa aid w1 where v: "tx_lift (validateExternalAgent (net_lib w) input) w = Inr (cleaned, w0)"
    and n: "now_text w0 = Inr (at, wa)" and i: "ids_New ''agent'' wa = Inr (aid, w1)"
    and agent: "agent = \<lparr>xa_AgentID = aid, xa_DisplayName = xi_DisplayName cleaned, xa_Provider = xi_Provider cleaned,
           xa_BaseURL = xi_BaseURL cleaned, xa_Model = xi_Model cleaned, xa_CredentialRef = xi_CredentialRef cleaned,
           xa_CreatedAt = at, xa_UpdatedAt = at\<rparr>"
    and g: "aid \<notin> set (map xa_AgentID (external_agents w1))"
      "nocase (xa_DisplayName agent) \<notin> set (map (nocase \<circ> xa_DisplayName) (external_agents w1))"
    and w': "w' = w1\<lparr>external_agents := external_agents w1 @ [agent]\<rparr>"
    using assms unfolding CreateExternalAgent_def Let_def by (auto simp: tx_bind_Inr_iff tx_then_guard tx_then_Inr_iff split: if_splits)
  have w0: "w0 = w" "validateExternalAgent (net_lib w) input = Inr cleaned" using v by (auto split: sum.splits)
  have s: "same_agents w w1" using tx_withinD [OF roster_env(1) n] tx_withinD [OF roster_env(2) i] w0(1) by (simp add: same_agents_def)
  moreover have "agent_ok (net_lib w) agent" by (rule validateExternalAgent_ok [OF w0(2)]) (simp_all add: agent)
  ultimately show thesis using w' g agent by (intro that [of w1]) (simp_all add: same_agents_def)
qed

lemma agents_ok_append:
  assumes "agents_ok w" "same_agents w w1" "agent_ok (net_lib w) a" "xa_AgentID a \<notin> set (map xa_AgentID (external_agents w))"
    "nocase (xa_DisplayName a) \<notin> set (map (nocase \<circ> xa_DisplayName) (external_agents w))"
  shows "agents_ok (w1\<lparr>external_agents := external_agents w1 @ [a]\<rparr>)"
  using assms by (auto simp: agents_ok_def same_agents_def)

lemma agents_ok_delete:
  "agents_ok w \<Longrightarrow> agents_ok (w\<lparr>external_agents := filter (\<lambda>a. xa_AgentID a \<noteq> aid) (external_agents w),
     session_external_agents := filter (\<lambda>r. sx_agent_id r \<noteq> aid) (session_external_agents w)\<rparr>)"
  by (auto simp: agents_ok_def distinct_map_filter list_all_iff)

text \<open>A unique name stays unique when one keyed row takes a name nobody else has.\<close>

lemma distinct_renamed:
  assumes "distinct (map key rows)" "distinct (map name rows)" "\<And>a. a \<in> set rows \<Longrightarrow> key a \<noteq> k \<Longrightarrow> name a \<noteq> n" "\<And>a. name (f a) = n"
  shows "distinct (map name (update_where (\<lambda>a. key a = k) f rows))"
  using assms
proof (induction rows)
  case (Cons x xs)
  have ih: "distinct (map name (update_where (\<lambda>a. key a = k) f xs))" using Cons by simp
  have "name (if key x = k then f x else x) \<noteq> name (if key y = k then f y else y)" if y: "y \<in> set xs" for y
  proof -
    have "key y \<noteq> key x" "name y \<noteq> name x" using Cons.prems(1,2) y by (metis distinct.simps(2) image_eqI list.set_map list.simps(9))+
    then show ?thesis using Cons.prems(3) [of x] Cons.prems(3) [of y] Cons.prems(4) y by auto
  qed
  then have "name (if key x = k then f x else x) \<notin> (\<lambda>y. name (if key y = k then f y else y)) ` set xs" by blast
  then show ?case using ih by (simp add: update_where_def split del: if_split)
qed (simp add: update_where_def)

lemma agents_ok_update:
  assumes "agents_ok w" "same_agents w w1" and v: "validateExternalAgent (net_lib w) input = Inr c"
    and "\<not> list_ex (\<lambda>a. xa_AgentID a \<noteq> aid \<and> nocase (xa_DisplayName a) = nocase (xi_DisplayName c)) (external_agents w)"
  shows "agents_ok (w1\<lparr>external_agents := update_where (\<lambda>a. xa_AgentID a = aid)
     (\<lambda>a. a\<lparr>xa_DisplayName := xi_DisplayName c, xa_Provider := xi_Provider c, xa_BaseURL := xi_BaseURL c,
        xa_Model := xi_Model c, xa_CredentialRef := xi_CredentialRef c, xa_UpdatedAt := at\<rparr>) (external_agents w1)\<rparr>)"
proof -
  let ?f = "\<lambda>a. a\<lparr>xa_DisplayName := xi_DisplayName c, xa_Provider := xi_Provider c, xa_BaseURL := xi_BaseURL c,
        xa_Model := xi_Model c, xa_CredentialRef := xi_CredentialRef c, xa_UpdatedAt := at\<rparr>"
  let ?rows = "external_agents w" and ?new = "update_where (\<lambda>a. xa_AgentID a = aid) ?f (external_agents w)"
  have ids: "map xa_AgentID ?new = map xa_AgentID ?rows" by (simp add: update_where_def)
  have ok: "agent_ok (net_lib w) (?f a)" for a :: ExternalAgent by (rule validateExternalAgent_ok [OF v]) simp_all
  have "list_all (agent_ok (net_lib w)) ?new" using assms(1) ok by (auto simp: agents_ok_def list_all_iff update_where_def)
  moreover have "distinct (map (nocase \<circ> xa_DisplayName) ?new)"
  proof -
    have d: "distinct (map xa_AgentID ?rows)" "distinct (map (nocase \<circ> xa_DisplayName) ?rows)" using assms(1) by (simp_all add: agents_ok_def)
    have other: "a \<in> set ?rows \<Longrightarrow> xa_AgentID a \<noteq> aid \<Longrightarrow> nocase (xa_DisplayName a) \<noteq> nocase (xi_DisplayName c)" for a
      using assms(4) by (auto simp: list_ex_iff)
    show ?thesis using d other by (intro distinct_renamed) (simp_all add: nocase_def)
  qed
  ultimately show ?thesis using assms(1,2) ids by (simp add: agents_ok_def same_agents_def)
qed

lemma agents_ok_route:
  assumes "agents_ok w" "upsert_route sid aid at w = Inr (u, w')"
  shows "agents_ok w' \<and> list_ex (\<lambda>r. sx_session_id r = sid \<and> sx_agent_id r = aid) (session_external_agents w')"
proof -
  let ?rows = "session_external_agents w"
  have l: "list_ex (\<lambda>a. xa_AgentID a = aid) (external_agents w)"
    and w': "w' = w\<lparr>session_external_agents := (if list_ex (\<lambda>r. sx_session_id r = sid) ?rows
        then update_where (\<lambda>r. sx_session_id r = sid) (\<lambda>r. r\<lparr>sx_agent_id := aid, sx_routed_at := at\<rparr>) ?rows
        else ?rows @ [\<lparr>sx_session_id = sid, sx_agent_id = aid, sx_routed_at = at\<rparr>])\<rparr>"
    using assms(2) by (auto simp: upsert_route_def missingRouteSideTx_def query_opt_def tx_bind_def tx_simps split: if_splits list.splits option.splits)
  have keys: "map sx_session_id (update_where (\<lambda>r. sx_session_id r = sid) (\<lambda>r. r\<lparr>sx_agent_id := aid, sx_routed_at := at\<rparr>) ?rows)
      = map sx_session_id ?rows" by (simp add: update_where_def)
  have a: "aid \<in> set (map xa_AgentID (external_agents w))" using l by (auto simp: list_ex_iff)
  have d: "distinct (map sx_session_id (session_external_agents w'))"
    using assms(1) keys by (auto simp: w' agents_ok_def list_ex_iff)
  have s: "set (map sx_agent_id (session_external_agents w')) \<subseteq> set (map xa_AgentID (external_agents w))"
    using assms(1) a by (auto simp: w' agents_ok_def update_where_def)
  have e: "list_ex (\<lambda>r. sx_session_id r = sid \<and> sx_agent_id r = aid) (session_external_agents w')"
  proof (cases "list_ex (\<lambda>r. sx_session_id r = sid) ?rows")
    case True
    then obtain r where r: "r \<in> set ?rows" "sx_session_id r = sid" by (auto simp: list_ex_iff)
    then have "r\<lparr>sx_agent_id := aid, sx_routed_at := at\<rparr> \<in> set (session_external_agents w')"
      using True by (auto simp: w' update_where_def)
    then show ?thesis unfolding list_ex_iff by (rule bexI [rotated]) (simp add: r(2))
  qed (simp add: w')
  have r: "external_agents w' = external_agents w" "net_lib w' = net_lib w" by (simp_all add: w')
  show ?thesis using assms(1) d s e unfolding agents_ok_def r by blast
qed

lemma agents_ok_ops:
  assumes "agents_ok w"
  shows "CreateExternalAgent input w = Inr (a, w') \<Longrightarrow> agents_ok w'"
    and "UpdateExternalAgent aid input w = Inr (a, w') \<Longrightarrow> agents_ok w'"
    and "DeleteExternalAgent aid w = Inr (u, w') \<Longrightarrow> agents_ok w'"
    and "SetSessionAgent sid aid w = Inr (a, w') \<Longrightarrow> agents_ok w'"
    and "ClearSessionAgent sid w = Inr (u, w') \<Longrightarrow> agents_ok w'"
proof -
  show "agents_ok w'" if "CreateExternalAgent input w = Inr (a, w')"
    using that assms agents_ok_append by (elim CreateExternalAgent_Inr) blast
  show "agents_ok w'" if "DeleteExternalAgent aid w = Inr (u, w')"
    using that agents_ok_delete [OF assms, of aid] by (auto simp: DeleteExternalAgent_def tx_bind_Inr_iff tx_then_guard split: if_splits)
  show "agents_ok w'" if run: "UpdateExternalAgent aid input w = Inr (a, w')"
  proof -
    obtain c w0 at w1 u w2 where v: "tx_lift (validateExternalAgent (net_lib w) input) w = Inr (c, w0)" and n: "now_text w0 = Inr (at, w1)"
      and g: "\<not> list_ex (\<lambda>a. xa_AgentID a \<noteq> aid \<and> nocase (xa_DisplayName a) = nocase (xi_DisplayName c)) (external_agents w1)"
      and m: "tx_modify (\<lambda>w. w\<lparr>external_agents := update_where (\<lambda>a. xa_AgentID a = aid)
         (\<lambda>a. a\<lparr>xa_DisplayName := xi_DisplayName c, xa_Provider := xi_Provider c, xa_BaseURL := xi_BaseURL c,
            xa_Model := xi_Model c, xa_CredentialRef := xi_CredentialRef c, xa_UpdatedAt := at\<rparr>) (external_agents w)\<rparr>) w1 = Inr (u, w2)"
      and get: "GetExternalAgent aid w2 = Inr (a, w')"
      using run unfolding UpdateExternalAgent_def by (auto simp: tx_bind_Inr_iff tx_then_guard tx_then_Inr_iff split: if_splits)
    have w0: "w0 = w" "validateExternalAgent (net_lib w) input = Inr c" using v by (auto split: sum.splits)
    have s: "same_agents w w1" using tx_withinD [OF roster_env(1) n] w0 by simp
    have "agents_ok w2" using agents_ok_update [OF assms s w0(2), of aid at] g m s by (simp add: same_agents_def tx_simps)
    then show ?thesis using agents_ok_same tx_withinD [OF roster_reads(3) get] by blast
  qed
  show "agents_ok w'" if run: "SetSessionAgent sid aid w = Inr (a, w')"
  proof -
    obtain u w1 at w2 u3 w3 w4 u5 where r: "requireChatSessionTx sid w = Inr (u, w1)" "now_text w1 = Inr (at, w2)"
      "upsert_route sid aid at w2 = Inr (u3, w3)" "GetExternalAgent aid w3 = Inr (a, w4)"
      and au: "recordAuditTx '''' ''client'' '''' ''session.routed'' sid (Some (JObj
         [(''agent'', JStr (xa_DisplayName a)), (''agentId'', JStr (xa_AgentID a)),
          (''endpoint'', JStr (ExternalAgentEndpointHost (net_lib w4) (xa_BaseURL a))), (''model'', JStr (xa_Model a))])) w4 = Inr (u5, w')"
      using run unfolding SetSessionAgent_def by (auto simp: tx_bind_Inr_iff tx_then_Inr_iff)
    have "agents_ok w2" using assms agents_ok_same tx_withinD [OF roster_reads(1) r(1)] tx_withinD [OF roster_env(1) r(2)] by blast
    then have "agents_ok w3" using agents_ok_route r(3) by blast
    then show ?thesis using agents_ok_same tx_withinD [OF roster_reads(3) r(4)] tx_withinD [OF roster_recordAuditTx au] by blast
  qed
  show "agents_ok w'" if run: "ClearSessionAgent sid w = Inr (u, w')"
  proof -
    obtain u1 w1 u2 w2 where r: "requireActiveSessionTx sid w = Inr (u1, w1)" "requireChatSessionTx sid w1 = Inr (u2, w2)"
      and m: "(if list_ex (\<lambda>r. sx_session_id r = sid) (session_external_agents w2)
         then recordAuditTx '''' ''client'' '''' ''session.unrouted'' sid (Some (JObj [])) else tx_return ())
           (w2\<lparr>session_external_agents := filter (\<lambda>r. sx_session_id r \<noteq> sid) (session_external_agents w2)\<rparr>) = Inr (u, w')"
      using run unfolding ClearSessionAgent_def by (auto simp: tx_bind_Inr_iff tx_then_Inr_iff)
    have "agents_ok w2" using assms agents_ok_same tx_withinD [OF roster_reads(2) r(1)] tx_withinD [OF roster_reads(1) r(2)] by blast
    then have "agents_ok (w2\<lparr>session_external_agents := filter (\<lambda>r. sx_session_id r \<noteq> sid) (session_external_agents w2)\<rparr>)"
      by (auto simp: agents_ok_def distinct_map_filter)
    then show ?thesis using m agents_ok_same tx_withinD [OF roster_recordAuditTx] by (auto split: if_splits)
  qed
qed

text \<open>Edits of agents and routes, in any order.\<close>

inductive agent_edit :: "world \<Rightarrow> world \<Rightarrow> bool" where
  create: "CreateExternalAgent input w = Inr (a, w') \<Longrightarrow> agent_edit w w'"
| update: "UpdateExternalAgent aid input w = Inr (a, w') \<Longrightarrow> agent_edit w w'"
| delete: "DeleteExternalAgent aid w = Inr (u, w') \<Longrightarrow> agent_edit w w'"
| route: "SetSessionAgent sid aid w = Inr (a, w') \<Longrightarrow> agent_edit w w'"
| unroute: "ClearSessionAgent sid w = Inr (u, w') \<Longrightarrow> agent_edit w w'"

lemma agents_ok_edits: "agent_edit\<^sup>*\<^sup>* w w' \<Longrightarrow> agents_ok w \<Longrightarrow> agents_ok w'"
  by (induction rule: rtranclp_induct) (auto elim!: agent_edit.cases intro: agents_ok_ops)

section \<open>Within the store relations\<close>

context transition_relation
begin

lemma within_external_agents:
  "tx_within R (CreateExternalAgent xin)" "tx_within R (UpdateExternalAgent aid xin)" "tx_within R (DeleteExternalAgent aid)"
  "tx_within R (SetSessionAgent sid aid)" "tx_within R (ClearSessionAgent sid)"
  unfolding CreateExternalAgent_def UpdateExternalAgent_def DeleteExternalAgent_def SetSessionAgent_def ClearSessionAgent_def
    GetExternalAgent_def upsert_route_def missingRouteSideTx_def requireActiveSessionTx_def Let_def
  by (intro within_intros within_env within_requireChatSessionTx within_recordAuditTx within_modify frame_keys;
      simp add: same_keys_def)+

end

end
