(* ===== verification/AutomationSchedule.thy ===== *)
theory AutomationSchedule
  imports Store
begin

text \<open>
  When an automation fires (\<^verbatim>\<open>automation_schedule.go\<close>): the two kinds of schedule, their validation,
  the first due time of a schedule that was just armed, and the next one after a firing. Durations
  are \<^verbatim>\<open>int64\<close> nanoseconds: a difference of instants saturates and a product wraps.
\<close>

section \<open>The schedule\<close>

record Schedule =
  sc_Kind :: string
  sc_Interval :: int
  sc_DailyMinuteUTC :: int

definition ScheduleInterval :: string where "ScheduleInterval = ''interval''"
definition ScheduleDaily :: string where "ScheduleDaily = ''daily''"

definition second_nanos :: int where "second_nanos = 1000000000"
definition minute_nanos :: int where "minute_nanos = 60000000000"

definition MinAutomationInterval :: int where "MinAutomationInterval = minute_nanos"
definition MaxAutomationInterval :: int where "MaxAutomationInterval = 7 * day_nanos"
definition minutesPerDay :: int where "minutesPerDay = 1440"

definition Schedule_Validate :: "Schedule \<Rightarrow> unit result" where
  "Schedule_Validate s =
     (if sc_Kind s = ScheduleInterval then
        (if sc_Interval s < MinAutomationInterval \<or> sc_Interval s > MaxAutomationInterval
         then Inl (ErrAutomation ErrScheduleIntervalRange) else Inr ())
      else if sc_Kind s = ScheduleDaily then
        (if sc_DailyMinuteUTC s < 0 \<or> sc_DailyMinuteUTC s \<ge> minutesPerDay
         then Inl (ErrAutomation ErrScheduleDailyMinute) else Inr ())
      else Inl (ErrAutomation ErrScheduleKindUnknown))"

text \<open>\<^verbatim>\<open>Time.Sub\<close> saturates, and \<^verbatim>\<open>AddDate(0, 0, 1)\<close> is the same time of the following civil day.\<close>

definition time_Sub :: "int \<Rightarrow> int \<Rightarrow> int" where
  "time_Sub t u = (if t - u > MaxInt64 then MaxInt64 else if t - u < - MaxInt64 - 1 then - MaxInt64 - 1 else t - u)"

definition time_midnight :: "int \<Rightarrow> int" where
  "time_midnight t = (case civil (t div day_nanos) of (y, m, d) \<Rightarrow> day_number y m d * day_nanos)"

definition AddDate_day :: "int \<Rightarrow> int" where
  "AddDate_day t = (case civil (t div day_nanos) of (y, m, d) \<Rightarrow> day_number y m (d + 1) * day_nanos + t mod day_nanos)"

definition nextDailyAfter :: "int \<Rightarrow> int \<Rightarrow> int" where
  "nextDailyAfter from minuteOfDay =
     (let candidate = time_midnight from + wrap64 (minuteOfDay * minute_nanos) in
      if \<not> candidate > from then AddDate_day candidate else candidate)"

definition FirstDueAfter :: "Schedule \<Rightarrow> int \<Rightarrow> int result" where
  "FirstDueAfter s from =
     (case Schedule_Validate s of
        Inl e \<Rightarrow> Inl e
      | Inr _ \<Rightarrow>
          if sc_Kind s = ScheduleInterval then Inr (from + sc_Interval s)
          else if sc_Kind s = ScheduleDaily then Inr (nextDailyAfter from (sc_DailyMinuteUTC s))
          else Inl (ErrAutomation ErrScheduleKindUnknown))"

text \<open>The missed occurrences, counted by one division; both operands are non-negative here.\<close>

definition skip_missed :: "int \<Rightarrow> int \<Rightarrow> int \<Rightarrow> int" where
  "skip_missed interval next now =
     (if \<not> next > now then next + wrap64 ((time_Sub now next div interval + 1) * interval) else next)"

definition NextDueAfterFiring :: "Schedule \<Rightarrow> int \<Rightarrow> int \<Rightarrow> int result" where
  "NextDueAfterFiring s firedDue now =
     (case Schedule_Validate s of
        Inl e \<Rightarrow> Inl e
      | Inr _ \<Rightarrow>
          if sc_Kind s = ScheduleInterval then Inr (skip_missed (sc_Interval s) (firedDue + sc_Interval s) now)
          else if sc_Kind s = ScheduleDaily then Inr (nextDailyAfter now (sc_DailyMinuteUTC s))
          else Inl (ErrAutomation ErrScheduleKindUnknown))"

section \<open>Its columns\<close>

text \<open>An interval is stored in whole seconds; the division truncates, and a valid interval is positive.\<close>

definition scheduleColumns :: "Schedule \<Rightarrow> int option \<times> int option" where
  "scheduleColumns s =
     (if sc_Kind s = ScheduleInterval then (Some (sc_Interval s div second_nanos), None)
      else if sc_Kind s = ScheduleDaily then (None, Some (sc_DailyMinuteUTC s))
      else (None, None))"

definition scheduleFromColumns :: "string \<Rightarrow> int option \<Rightarrow> int option \<Rightarrow> Schedule result" where
  "scheduleFromColumns kind intervalSeconds dailyMinute =
     (if kind = ScheduleInterval then
        (case intervalSeconds of
           None \<Rightarrow> Inl (ErrAutomation errScheduleColumnsInvalid)
         | Some n \<Rightarrow> Inr \<lparr>sc_Kind = ScheduleInterval, sc_Interval = wrap64 (n * second_nanos), sc_DailyMinuteUTC = 0\<rparr>)
      else if kind = ScheduleDaily then
        (case dailyMinute of
           None \<Rightarrow> Inl (ErrAutomation errScheduleColumnsInvalid)
         | Some n \<Rightarrow> Inr \<lparr>sc_Kind = ScheduleDaily, sc_Interval = 0, sc_DailyMinuteUTC = n\<rparr>)
      else Inl (ErrAutomation errScheduleColumnsInvalid))"

section \<open>The next occurrence\<close>

lemma Validate_Inr:
  "Schedule_Validate s = Inr u \<longleftrightarrow>
     sc_Kind s = ScheduleInterval \<and> MinAutomationInterval \<le> sc_Interval s \<and> sc_Interval s \<le> MaxAutomationInterval
     \<or> sc_Kind s = ScheduleDaily \<and> 0 \<le> sc_DailyMinuteUTC s \<and> sc_DailyMinuteUTC s < minutesPerDay"
  by (auto simp: Schedule_Validate_def ScheduleInterval_def ScheduleDaily_def)

lemma time_midnight: "time_midnight t = t - t mod day_nanos"
proof -
  obtain y m d where c: "civil (t div day_nanos) = (y, m, d)" by (cases "civil (t div day_nanos)") auto
  have "t div day_nanos = day_number y m d" using civil_correct [OF c] by simp
  then show ?thesis using c by (simp add: time_midnight_def minus_mod_eq_div_mult)
qed

lemma AddDate_day: "AddDate_day t = t + day_nanos"
proof -
  obtain y m d where c: "civil (t div day_nanos) = (y, m, d)" by (cases "civil (t div day_nanos)") auto
  have "day_number y m (d + 1) = t div day_nanos + 1" using civil_correct [OF c] by (simp add: day_number_def)
  then show ?thesis using c div_mult_mod_eq [of t day_nanos] by (simp add: AddDate_day_def algebra_simps)
qed

text \<open>The occurrences of a schedule: every interval from a due time on, or the minute of every day.\<close>

definition occurrence :: "Schedule \<Rightarrow> int \<Rightarrow> int \<Rightarrow> bool" where
  "occurrence s due t \<longleftrightarrow>
     (if sc_Kind s = ScheduleInterval then due < t \<and> sc_Interval s dvd t - due
      else t mod day_nanos = sc_DailyMinuteUTC s * minute_nanos)"

text \<open>The first occurrence after an instant: an occurrence later than it, and none in between.\<close>

definition next_occurrence :: "Schedule \<Rightarrow> int \<Rightarrow> int \<Rightarrow> int \<Rightarrow> bool" where
  "next_occurrence s due now t \<longleftrightarrow> occurrence s due t \<and> now < t \<and> (\<forall>u. occurrence s due u \<and> now < u \<longrightarrow> t \<le> u)"

lemma daily_occurrence:
  assumes "0 \<le> m" "m < minutesPerDay"
  shows "now < nextDailyAfter now m" "nextDailyAfter now m \<le> now + day_nanos"
    "nextDailyAfter now m mod day_nanos = m * minute_nanos"
proof -
  let ?o = "m * minute_nanos" and ?b = "now - now mod day_nanos"
  have o: "0 \<le> ?o" "?o < day_nanos" "wrap64 ?o = ?o"
    using assms by (simp_all add: minute_nanos_def minutesPerDay_def day_nanos_def wrap64_def)
  have r: "0 \<le> now mod day_nanos" "now mod day_nanos < day_nanos" by (simp_all add: day_nanos_def)
  have n: "nextDailyAfter now m = (if ?b + ?o > now then ?b + ?o else ?b + ?o + day_nanos)"
    by (simp add: nextDailyAfter_def time_midnight AddDate_day o(3) Let_def)
  show "now < nextDailyAfter now m" "nextDailyAfter now m \<le> now + day_nanos" 
    using o r unfolding n by (cases "?b + ?o > now"; simp only: if_True if_False; linarith)+
  have "?b mod day_nanos = 0" by (simp add: minus_mod_eq_div_mult)
  then have "(?b + ?o) mod day_nanos = ?o" using o by (metis add_0 mod_add_left_eq mod_pos_pos_trivial)
  then show "nextDailyAfter now m mod day_nanos = ?o" by (simp add: n)
qed

lemma interval_occurrence:
  assumes "0 < i" and "now - due + i \<le> MaxInt64"
  shows "now < skip_missed i (due + i) now" "i dvd skip_missed i (due + i) now - due" "due < skip_missed i (due + i) now"
    "skip_missed i (due + i) now \<le> max (due + i) (now + i)"
proof -
  let ?n = "due + i"
  have "now < skip_missed i ?n now \<and> i dvd skip_missed i ?n now - due \<and> due < skip_missed i ?n now
      \<and> skip_missed i ?n now \<le> max ?n (now + i)"
  proof (cases "?n > now")
    case True
    then show ?thesis using assms(1) by (simp add: skip_missed_def)
  next
    case False
    let ?q = "(now - ?n) div i"
    have q: "?q * i \<le> now - ?n" "now - ?n < (?q + 1) * i" "0 \<le> ?q"
      using minus_mod_eq_div_mult [of "now - ?n" i] pos_mod_sign [OF assms(1), of "now - ?n"]
        pos_mod_bound [OF assms(1), of "now - ?n"] assms(1) False
      unfolding distrib_right by (linarith, linarith, simp add: pos_imp_zdiv_nonneg_iff)
    have s: "time_Sub now ?n = now - ?n" using assms False by (auto simp: time_Sub_def MaxInt64_def)
    have "0 \<le> (?q + 1) * i" "(?q + 1) * i \<le> MaxInt64" using q assms by (auto simp: algebra_simps)
    then have w: "wrap64 ((?q + 1) * i) = (?q + 1) * i" by (intro wrap64_id) auto
    have "skip_missed i ?n now = ?n + (?q + 1) * i" using False s w by (simp add: skip_missed_def)
    moreover have "?n + (?q + 1) * i - due = i * (?q + 2)" by (simp add: algebra_simps)
    moreover have "0 < i * (?q + 2)" using q(3) assms(1) by simp
    ultimately show ?thesis using q by (auto simp: algebra_simps)
  qed
  then show "now < skip_missed i ?n now" "i dvd skip_missed i ?n now - due" "due < skip_missed i ?n now"
    "skip_missed i ?n now \<le> max ?n (now + i)" by blast+
qed

lemma lattice_step:
  assumes "(k::int) dvd t - u" "u < t" "0 < k"
  shows "u + k \<le> t"
  using assms zdvd_imp_le [of k "t - u"] by simp

lemma NextDueAfterFiring_next:
  assumes v: "Schedule_Validate s = Inr ()" and due: "due \<le> now"
    and "sc_Kind s = ScheduleInterval \<Longrightarrow> now - due + sc_Interval s \<le> MaxInt64"
  shows "\<exists>t. NextDueAfterFiring s due now = Inr t \<and> next_occurrence s due now t \<and> t \<le> now + MaxAutomationInterval"
  using v [unfolded Validate_Inr]
proof (elim disjE conjE)
  assume k: "sc_Kind s = ScheduleInterval" and i: "MinAutomationInterval \<le> sc_Interval s" "sc_Interval s \<le> MaxAutomationInterval"
  let ?i = "sc_Interval s" and ?t = "skip_missed (sc_Interval s) (due + sc_Interval s) now"
  have p: "0 < ?i" using i by (simp add: MinAutomationInterval_def minute_nanos_def)
  note t = interval_occurrence [OF p assms(3) [OF k]]
  have "?t \<le> u" if "occurrence s due u" "now < u" for u
  proof (rule ccontr)
    assume "\<not> ?t \<le> u"
    moreover have "?i dvd ?t - u" using that(1) t(2) k dvd_diff [of ?i "?t - due" "u - due"] by (simp add: occurrence_def)
    ultimately have "u + ?i \<le> ?t" using p by (intro lattice_step) auto
    then show False using t(4) that(2) due by auto
  qed
  then have "next_occurrence s due now ?t" using t k by (simp add: next_occurrence_def occurrence_def)
  moreover have "NextDueAfterFiring s due now = Inr ?t" using v k by (simp add: NextDueAfterFiring_def)
  ultimately show ?thesis using t(4) i due by auto
next
  assume k: "sc_Kind s = ScheduleDaily" and m: "0 \<le> sc_DailyMinuteUTC s" "sc_DailyMinuteUTC s < minutesPerDay"
  let ?t = "nextDailyAfter now (sc_DailyMinuteUTC s)"
  have k': "sc_Kind s \<noteq> ScheduleInterval" using k by (simp add: ScheduleInterval_def ScheduleDaily_def)
  note t = daily_occurrence [OF m, of now]
  have "?t \<le> u" if "occurrence s due u" "now < u" for u
  proof (rule ccontr)
    assume "\<not> ?t \<le> u"
    moreover have "day_nanos dvd ?t - u" using that(1) t(3) k' mod_eq_dvd_iff [of ?t day_nanos u] by (simp add: occurrence_def)
    ultimately have "u + day_nanos \<le> ?t" by (intro lattice_step) (auto simp: day_nanos_def)
    then show False using t(2) that(2) by simp
  qed
  then have "next_occurrence s due now ?t" using t k' by (simp add: next_occurrence_def occurrence_def)
  moreover have "NextDueAfterFiring s due now = Inr ?t" using v k k' by (simp add: NextDueAfterFiring_def)
  ultimately show ?thesis using t(2) by (auto simp: MaxAutomationInterval_def day_nanos_def)
qed

text \<open>A valid schedule reads back from its columns, up to the whole second, and is still valid.\<close>

definition whole_seconds :: "Schedule \<Rightarrow> Schedule" where
  "whole_seconds s =
     (if sc_Kind s = ScheduleInterval then s\<lparr>sc_Interval := sc_Interval s - sc_Interval s mod second_nanos, sc_DailyMinuteUTC := 0\<rparr>
      else s\<lparr>sc_Interval := 0\<rparr>)"

lemma schedule_columns_roundtrip:
  assumes v: "Schedule_Validate s = Inr ()"
  shows "scheduleFromColumns (sc_Kind s) (fst (scheduleColumns s)) (snd (scheduleColumns s)) = Inr (whole_seconds s)"
    and "Schedule_Validate (whole_seconds s) = Inr ()"
proof -
  have n: "n div second_nanos * second_nanos = n - n mod second_nanos" for n by (simp add: minus_mod_eq_div_mult)
  have i: "wrap64 (n div second_nanos * second_nanos) = n - n mod second_nanos" "MinAutomationInterval \<le> n - n mod second_nanos"
    "n - n mod second_nanos \<le> MaxAutomationInterval"
    if "MinAutomationInterval \<le> n" "n \<le> MaxAutomationInterval" for n
  proof -
    have r: "0 \<le> n mod second_nanos" "n mod second_nanos < second_nanos" by (simp_all add: second_nanos_def)
    have m: "60 \<le> n div second_nanos"
      using zdiv_mono1 [OF that(1), of second_nanos] by (simp add: MinAutomationInterval_def minute_nanos_def second_nanos_def)
    have lo: "MinAutomationInterval \<le> n div second_nanos * second_nanos"
      using mult_right_mono [OF m, of second_nanos] by (simp add: MinAutomationInterval_def minute_nanos_def second_nanos_def)
    have hi: "n div second_nanos * second_nanos \<le> MaxAutomationInterval" unfolding n using that(2) r(1) by linarith
    have "wrap64 (n div second_nanos * second_nanos) = n div second_nanos * second_nanos"
      using lo hi by (intro wrap64_id) (simp_all add: MinAutomationInterval_def minute_nanos_def MaxAutomationInterval_def day_nanos_def MaxInt64_def)
    then show "wrap64 (n div second_nanos * second_nanos) = n - n mod second_nanos"
      "MinAutomationInterval \<le> n - n mod second_nanos" "n - n mod second_nanos \<le> MaxAutomationInterval" using lo hi by (simp_all add: n)
  qed
  have kinds: "ScheduleDaily \<noteq> ScheduleInterval" by (simp add: ScheduleInterval_def ScheduleDaily_def)
  show "scheduleFromColumns (sc_Kind s) (fst (scheduleColumns s)) (snd (scheduleColumns s)) = Inr (whole_seconds s)"
    using v [unfolded Validate_Inr] i(1) kinds by (auto simp: scheduleFromColumns_def scheduleColumns_def whole_seconds_def)
  show "Schedule_Validate (whole_seconds s) = Inr ()"
    using v [unfolded Validate_Inr] i(2,3) kinds by (auto simp: Validate_Inr whole_seconds_def)
qed

end
