(* ===== verification/Automations.thy ===== *)
theory Automations
  imports ExternalAgents AutomationSchedule
begin

text \<open>
  Prompts the orchestrator sends on a schedule (\<^verbatim>\<open>automations.go\<close>): validating and saving them,
  claiming one that is due together with the run it queues, and the grant frozen for that run.
\<close>

section \<open>Automations and their tools\<close>

record AutomationTool =
  at_ServerName :: string
  at_ToolName :: string

text \<open>The list is ordered by server, then by tool.\<close>

definition tool_key :: "AutomationTool \<Rightarrow> string \<times> string" where
  "tool_key t = (at_ServerName t, at_ToolName t)"

record Automation =
  am_AutomationID :: string
  am_Name :: string
  am_Prompt :: string
  am_Schedule :: Schedule
  am_Enabled :: bool
  am_AllowedTools :: "AutomationTool list"
  am_NextDueAt :: string
  am_LastRunAt :: string
  am_LastRunID :: string
  am_SessionID :: string
  am_LastRunStatus :: string
  am_LastRunError :: string
  am_LastOccurrenceFailureCode :: string
  am_LastOccurrenceFailedAt :: string
  am_CreatedAt :: string
  am_UpdatedAt :: string

record AutomationInput =
  ai_Name :: string
  ai_Prompt :: string
  ai_Schedule :: Schedule
  ai_Enabled :: bool
  ai_AllowedTools :: "AutomationTool list"

record AutomationRunGrant =
  ag_AutomationID :: string
  ag_AutomationName :: string
  ag_AllowedTools :: "AutomationTool list"

definition Allows :: "AutomationRunGrant \<Rightarrow> string \<Rightarrow> string \<Rightarrow> bool" where
  "Allows g serverName toolName = list_ex (\<lambda>t. at_ServerName t = serverName \<and> at_ToolName t = toolName) (ag_AllowedTools g)"

definition maxAutomationNameRunes :: nat where "maxAutomationNameRunes = 120"
definition maxAutomationPromptRunes :: int where "maxAutomationPromptRunes = 8000"
definition maxAutomationAllowedTools :: nat where "maxAutomationAllowedTools = 32"

text \<open>One entry of the loop that trims and checks the list.\<close>

definition clean_tool :: "AutomationTool \<Rightarrow> AutomationTool result" where
  "clean_tool t =
     (let server = TrimSpace (at_ServerName t); tool = TrimSpace (at_ToolName t) in
      if server = '''' \<or> tool = '''' then Inl (ErrAutomation ErrAutomationToolInvalid)
      else if server = ''integrations'' then Inl (ErrAutomation ErrAutomationIntegrationToolUnsupported)
      else if server = ''memory'' then Inl (ErrAutomation ErrAutomationMemoryToolUnsupported)
      else if server = ''team'' then Inl (ErrAutomation ErrAutomationTeamToolUnsupported)
      else Inr \<lparr>at_ServerName = server, at_ToolName = tool\<rparr>)"

fun clean_tools :: "AutomationTool list \<Rightarrow> AutomationTool list \<Rightarrow> AutomationTool list result" where
  "clean_tools normalized [] = Inr normalized"
| "clean_tools normalized (t # ts) =
     (case clean_tool t of
        Inl e \<Rightarrow> Inl e
      | Inr c \<Rightarrow> clean_tools (if c \<in> set normalized then normalized else normalized @ [c]) ts)"

definition normalizeAllowedTools :: "AutomationTool list \<Rightarrow> AutomationTool list result" where
  "normalizeAllowedTools tools =
     (case clean_tools [] tools of
        Inl e \<Rightarrow> Inl e
      | Inr normalized \<Rightarrow>
          if length normalized > maxAutomationAllowedTools then Inl (ErrAutomation ErrAutomationTooManyTools)
          else Inr (sort_key tool_key normalized))"

definition validateAutomation :: "AutomationInput \<Rightarrow> AutomationInput result" where
  "validateAutomation input =
     (let name = TrimSpace (ai_Name input); prompt = TrimSpace (ai_Prompt input) in
      if name = '''' then Inl (ErrAutomation ErrAutomationNameEmpty)
      else if length (runes name) > maxAutomationNameRunes then Inl (ErrAutomation ErrAutomationNameTooLong)
      else if prompt = '''' then Inl (ErrAutomation ErrAutomationNoPrompt)
      else if int (length (runes prompt)) > maxAutomationPromptRunes then Inl (ErrAutomation ErrAutomationPromptLong)
      else case Schedule_Validate (ai_Schedule input) of
        Inl e \<Rightarrow> Inl e
      | Inr _ \<Rightarrow>
          (case normalizeAllowedTools (ai_AllowedTools input) of
             Inl e \<Rightarrow> Inl e
           | Inr tools \<Rightarrow> Inr (input\<lparr>ai_Name := name, ai_Prompt := prompt, ai_AllowedTools := tools\<rparr>)))"

section \<open>Reading\<close>

definition allowedToolsTx :: "string \<Rightarrow> AutomationTool list wtx" where
  "allowedToolsTx aid = tx_gets (\<lambda>w. sort_key tool_key (map (\<lambda>t. \<lparr>at_ServerName = aa_server_name t, at_ToolName = aa_tool_name t\<rparr>)
     (filter (\<lambda>t. aa_automation_id t = aid) (automation_allowed_tools w))))"

text \<open>The latest occurrence blocked since the last run; equal times keep the order of insertion.\<close>

definition blocked_log :: "automation_row \<Rightarrow> audit_log list \<Rightarrow> audit_log option" where
  "blocked_log a logs =
     (case rev (sort_key au_created_at (filter (\<lambda>l. au_actor_type l = ''automation'' \<and> au_actor_id l = Some (ar_id a)
             \<and> au_action l = ''automation.remote_egress_blocked'' \<and> au_created_at l > text_or_empty (ar_last_run_at a)) logs)) of
        [] \<Rightarrow> None | l # _ \<Rightarrow> Some l)"

definition payload_code :: "audit_log \<Rightarrow> string" where
  "payload_code l = (case au_payload l of None \<Rightarrow> '''' | Some p \<Rightarrow> (case json_get ''code'' p of Some (JStr s) \<Rightarrow> s | _ \<Rightarrow> ''''))"

definition last_run_status :: "automation_row \<Rightarrow> world \<Rightarrow> string option" where
  "last_run_status a w = (case ar_last_run_id a of
     None \<Rightarrow> None | Some rid \<Rightarrow> map_option run_status (find_row (\<lambda>r. run_id r = rid) (agent_runs w)))"

definition zero_schedule :: Schedule where
  "zero_schedule = \<lparr>sc_Kind = '''', sc_Interval = 0, sc_DailyMinuteUTC = 0\<rparr>"

definition row_schedule :: "automation_row \<Rightarrow> Schedule result" where
  "row_schedule a = scheduleFromColumns (ar_schedule_kind a) (ar_interval_seconds a) (ar_daily_minute_utc a)"

definition scan_automation :: "world \<Rightarrow> automation_row \<Rightarrow> Automation" where
  "scan_automation w a =
     \<lparr>am_AutomationID = ar_id a, am_Name = ar_name a, am_Prompt = ar_prompt a,
      am_Schedule = (case row_schedule a of Inl _ \<Rightarrow> zero_schedule | Inr s \<Rightarrow> s),
      am_Enabled = ar_enabled a, am_AllowedTools = [],
      am_NextDueAt = text_or_empty (ar_next_due_at a), am_LastRunAt = text_or_empty (ar_last_run_at a),
      am_LastRunID = text_or_empty (ar_last_run_id a), am_SessionID = text_or_empty (ar_session_id a),
      am_LastRunStatus = text_or_empty (last_run_status a w), am_LastRunError = '''',
      am_LastOccurrenceFailureCode = (case blocked_log a (audit_logs w) of None \<Rightarrow> '''' | Some l \<Rightarrow> payload_code l),
      am_LastOccurrenceFailedAt = (case blocked_log a (audit_logs w) of None \<Rightarrow> '''' | Some l \<Rightarrow> au_created_at l),
      am_CreatedAt = ar_created_at a, am_UpdatedAt = ar_updated_at a\<rparr>"

definition automationByIDTx :: "string \<Rightarrow> Automation wtx" where
  "automationByIDTx aid =
     tx_bind (tx_gets (\<lambda>w. map (scan_automation w) (filter (\<lambda>a. ar_id a = aid) (automations w)))) (\<lambda>found.
     case found of
       [] \<Rightarrow> tx_fail (ErrAutomation ErrAutomationNotFound)
     | automation # _ \<Rightarrow>
         tx_bind (allowedToolsTx aid) (\<lambda>tools. tx_return (automation\<lparr>am_AllowedTools := tools\<rparr>)))"

definition GetAutomation :: "string \<Rightarrow> Automation wtx" where
  "GetAutomation aid = automationByIDTx aid"

definition ListAutomations :: "Automation list wtx" where
  "ListAutomations =
     tx_bind (tx_gets (\<lambda>w. map (scan_automation w) (sort_key (\<lambda>a. (nocase (ar_name a), ar_id a)) (automations w)))) (\<lambda>found.
     tx_map (\<lambda>automation. tx_bind (allowedToolsTx (am_AutomationID automation)) (\<lambda>tools.
       tx_return (automation\<lparr>am_AllowedTools := tools\<rparr>))) found)"

section \<open>Saving\<close>

definition insert_allowed_tool :: "string \<Rightarrow> AutomationTool \<Rightarrow> unit wtx" where
  "insert_allowed_tool aid t =
     (let row = \<lparr>aa_automation_id = aid, aa_server_name = at_ServerName t, aa_tool_name = at_ToolName t\<rparr> in
      tx_bind (tx_gets automation_allowed_tools) (\<lambda>rows.
      tx_then (tx_guard (row \<notin> set rows) (ErrUnique ''automation_allowed_tools''))
        (tx_modify (\<lambda>w. w\<lparr>automation_allowed_tools := automation_allowed_tools w @ [row]\<rparr>))))"

definition replaceAllowedToolsTx :: "string \<Rightarrow> AutomationTool list \<Rightarrow> unit wtx" where
  "replaceAllowedToolsTx aid tools =
     tx_then (tx_modify (\<lambda>w. w\<lparr>automation_allowed_tools := filter (\<lambda>t. aa_automation_id t \<noteq> aid) (automation_allowed_tools w)\<rparr>)) (
     tx_then (tx_map (insert_allowed_tool aid) tools) (tx_return ()))"

text \<open>The due time of a schedule that is armed now, as the text of its column.\<close>

definition armed_due :: "Schedule \<Rightarrow> string wtx" where
  "armed_due s = tx_bind time_Now (\<lambda>t. tx_bind (tx_lift (FirstDueAfter s t)) (\<lambda>due. tx_return (FormatTimestamp due)))"

definition new_automation_row :: "AutomationInput \<Rightarrow> string \<Rightarrow> string \<Rightarrow> string \<Rightarrow> automation_row" where
  "new_automation_row input aid nextDue createdAt =
     \<lparr>ar_id = aid, ar_name = ai_Name input, ar_prompt = ai_Prompt input, ar_schedule_kind = sc_Kind (ai_Schedule input),
      ar_interval_seconds = fst (scheduleColumns (ai_Schedule input)),
      ar_daily_minute_utc = snd (scheduleColumns (ai_Schedule input)), ar_enabled = ai_Enabled input,
      ar_next_due_at = nullableText nextDue, ar_last_run_at = None, ar_last_run_id = None, ar_session_id = None,
      ar_created_at = createdAt, ar_updated_at = createdAt\<rparr>"

definition insert_automation :: "automation_row \<Rightarrow> unit wtx" where
  "insert_automation row =
     tx_bind (tx_gets automations) (\<lambda>rows.
     tx_then (tx_guard (ar_id row \<notin> set (map ar_id rows) \<and> nocase (ar_name row) \<notin> set (map (nocase \<circ> ar_name) rows))
         (ErrAutomation ErrAutomationNameTaken))
       (tx_modify (\<lambda>w. w\<lparr>automations := automations w @ [row]\<rparr>)))"

definition CreateAutomation :: "AutomationInput \<Rightarrow> Automation wtx" where
  "CreateAutomation input =
     tx_bind (tx_lift (validateAutomation input)) (\<lambda>cleaned.
     tx_bind now_text (\<lambda>createdAt.
     tx_bind (ids_New ''auto'') (\<lambda>aid.
     tx_bind (if ai_Enabled cleaned then armed_due (ai_Schedule cleaned) else tx_return '''') (\<lambda>nextDue.
     tx_then (insert_automation (new_automation_row cleaned aid nextDue createdAt)) (
     tx_then (replaceAllowedToolsTx aid (ai_AllowedTools cleaned)) (automationByIDTx aid))))))"

text \<open>An update of one row by its id; the name stays unique, and no row at all is an error of its own.\<close>

definition update_automation :: "string \<Rightarrow> string \<Rightarrow> (automation_row \<Rightarrow> automation_row) \<Rightarrow> unit wtx" where
  "update_automation aid name f =
     tx_bind (tx_gets automations) (\<lambda>rows.
     tx_then (tx_guard (list_ex (\<lambda>a. ar_id a = aid) rows \<longrightarrow>
         \<not> list_ex (\<lambda>a. ar_id a \<noteq> aid \<and> nocase (ar_name a) = nocase name) rows) (ErrAutomation ErrAutomationNameTaken)) (
     tx_then (tx_modify (\<lambda>w. w\<lparr>automations := update_where (\<lambda>a. ar_id a = aid) f (automations w)\<rparr>))
       (expectOneRowErr (rows_affected (\<lambda>a. ar_id a = aid) rows) (ErrAutomation ErrAutomationNotFound))))"

definition edit_row :: "AutomationInput \<Rightarrow> string \<Rightarrow> string \<Rightarrow> automation_row \<Rightarrow> automation_row" where
  "edit_row input nextDue at a = a\<lparr>ar_name := ai_Name input, ar_prompt := ai_Prompt input,
     ar_schedule_kind := sc_Kind (ai_Schedule input),
     ar_interval_seconds := fst (scheduleColumns (ai_Schedule input)),
     ar_daily_minute_utc := snd (scheduleColumns (ai_Schedule input)),
     ar_next_due_at := nullableText nextDue, ar_updated_at := at\<rparr>"

definition UpdateAutomation :: "string \<Rightarrow> AutomationInput \<Rightarrow> Automation wtx" where
  "UpdateAutomation aid input =
     tx_bind (tx_lift (validateAutomation input)) (\<lambda>cleaned.
     tx_bind (automationByIDTx aid) (\<lambda>existing.
     tx_bind (if am_Enabled existing \<and> (am_Schedule existing \<noteq> ai_Schedule cleaned \<or> am_NextDueAt existing = '''')
         then armed_due (ai_Schedule cleaned) else tx_return (am_NextDueAt existing)) (\<lambda>nextDue.
     tx_bind now_text (\<lambda>at.
     tx_then (update_automation aid (ai_Name cleaned) (edit_row cleaned nextDue at)) (
     tx_then (replaceAllowedToolsTx aid (ai_AllowedTools cleaned)) (automationByIDTx aid))))))"

definition SetAutomationEnabled :: "string \<Rightarrow> bool \<Rightarrow> Automation wtx" where
  "SetAutomationEnabled aid enabled =
     tx_bind (automationByIDTx aid) (\<lambda>existing.
     tx_bind (if \<not> enabled then tx_return ''''
         else if am_Enabled existing \<and> am_NextDueAt existing \<noteq> '''' then tx_return (am_NextDueAt existing)
         else armed_due (am_Schedule existing)) (\<lambda>nextDue.
     tx_bind now_text (\<lambda>at.
     tx_bind (tx_gets automations) (\<lambda>rows.
     tx_then (tx_modify (\<lambda>w. w\<lparr>automations := update_where (\<lambda>a. ar_id a = aid)
         (\<lambda>a. a\<lparr>ar_enabled := enabled, ar_next_due_at := nullableText nextDue, ar_updated_at := at\<rparr>) (automations w)\<rparr>)) (
     tx_then (expectOneRowErr (rows_affected (\<lambda>a. ar_id a = aid) rows) (ErrAutomation ErrAutomationNotFound))
       (automationByIDTx aid))))))"

text \<open>Deleting drops the allowlist with the row and leaves runs, grants and the conversation alone.\<close>

definition DeleteAutomation :: "string \<Rightarrow> unit wtx" where
  "DeleteAutomation aid =
     tx_bind (tx_gets automations) (\<lambda>rows.
     tx_then (tx_modify (\<lambda>w. w\<lparr>automations := filter (\<lambda>a. ar_id a \<noteq> aid) (automations w),
         automation_allowed_tools := filter (\<lambda>t. aa_automation_id t \<noteq> aid) (automation_allowed_tools w)\<rparr>))
       (expectOneRowErr (rows_affected (\<lambda>a. ar_id a = aid) rows) (ErrAutomation ErrAutomationNotFound)))"

section \<open>Claiming a due automation\<close>

record AutomationRunDefaults =
  df_AgentID :: string
  df_ModelProvider :: string
  df_Model :: string
  df_ValidateRouting :: "(RoutingRequirements \<Rightarrow> string option) option"

text \<open>What one claim did: it queued a run, or passed the occurrence over and says why.\<close>

record AutomationFire =
  af_AutomationID :: string
  af_Name :: string
  af_SessionID :: string
  af_RunID :: string
  af_JobID :: string
  af_TraceID :: string
  af_SessionUpdatedEvent :: "Event option"
  af_QueuedEvent :: "Event option"
  af_RoutingEvents :: "Event list"
  af_Skipped :: bool
  af_SkippedReason :: string
  af_Failed :: bool
  af_FailureCode :: string

definition SkippedPreviousRunUnfinished :: string where "SkippedPreviousRunUnfinished = ''previous_run_unfinished''"
definition SkippedScheduleUnreadable :: string where "SkippedScheduleUnreadable = ''schedule_unreadable''"
definition SkippedRoutingUnavailable :: string where "SkippedRoutingUnavailable = ''routing_unavailable''"
definition AutomationFailureRemoteEgressRequiresInteractiveConsent :: string where
  "AutomationFailureRemoteEgressRequiresInteractiveConsent = ''remote_egress_requires_interactive_consent''"
definition AutomationFailureRemoteEgressConfigurationInvalid :: string where
  "AutomationFailureRemoteEgressConfigurationInvalid = ''remote_egress_configuration_invalid''"

definition passed_fire :: "automation_row \<Rightarrow> AutomationFire" where
  "passed_fire a = \<lparr>af_AutomationID = ar_id a, af_Name = ar_name a, af_SessionID = '''', af_RunID = '''', af_JobID = '''',
     af_TraceID = '''', af_SessionUpdatedEvent = None, af_QueuedEvent = None, af_RoutingEvents = [], af_Skipped = False,
     af_SkippedReason = '''', af_Failed = False, af_FailureCode = ''''\<rparr>"

definition skipped_fire :: "automation_row \<Rightarrow> string \<Rightarrow> AutomationFire" where
  "skipped_fire a reason = (passed_fire a)\<lparr>af_Skipped := True, af_SkippedReason := reason\<rparr>"

definition failed_fire :: "automation_row \<Rightarrow> string \<Rightarrow> AutomationFire" where
  "failed_fire a code = (passed_fire a)\<lparr>af_Failed := True, af_FailureCode := code\<rparr>"

definition isTerminalRunStatus :: "string \<Rightarrow> bool" where
  "isTerminalRunStatus s \<longleftrightarrow> s \<in> {''completed'', ''failed'', ''cancelled''}"

definition is_due :: "int \<Rightarrow> automation_row \<Rightarrow> bool" where
  "is_due at a \<longleftrightarrow> ar_enabled a \<and> (case ar_next_due_at a of None \<Rightarrow> False | Some d \<Rightarrow> d \<le> FormatTimestamp at)"

definition due_automation :: "int \<Rightarrow> automation_row option wtx" where
  "due_automation at = query_opt (\<lambda>w. sort_key (\<lambda>a. (text_or_empty (ar_next_due_at a), ar_id a)) (filter (is_due at) (automations w)))"

text \<open>The compare-and-set on the due time: it reports whether exactly one row moved.\<close>

definition advance :: "automation_row \<Rightarrow> (automation_row \<Rightarrow> automation_row) \<Rightarrow> bool wtx" where
  "advance a f =
     (let p = (\<lambda>x. ar_id x = ar_id a \<and> ar_enabled x \<and> ar_next_due_at x = ar_next_due_at a) in
      tx_bind (tx_gets (\<lambda>w. rows_affected p (automations w))) (\<lambda>n.
      tx_then (tx_modify (\<lambda>w. w\<lparr>automations := update_where p f (automations w)\<rparr>)) (tx_return (n = 1))))"

definition moved_on :: "string \<Rightarrow> string \<Rightarrow> automation_row \<Rightarrow> automation_row" where
  "moved_on nextDue firedAt x = x\<lparr>ar_next_due_at := Some nextDue, ar_updated_at := firedAt\<rparr>"

definition blocked_audit :: "automation_row \<Rightarrow> string \<Rightarrow> (string \<times> json) list \<Rightarrow> unit wtx" where
  "blocked_audit a action payload = recordAuditTx '''' ''automation'' (ar_id a) action (ar_id a) (Some (JObj payload))"

text \<open>Passing an occurrence over: the schedule still moves on.\<close>

definition pass_over :: "automation_row \<Rightarrow> string \<Rightarrow> string \<Rightarrow> unit wtx \<Rightarrow> AutomationFire \<Rightarrow> AutomationFire option wtx" where
  "pass_over a nextDue firedAt audit fire =
     tx_bind (advance a (moved_on nextDue firedAt)) (\<lambda>one.
     if \<not> one then tx_return None else tx_then audit (tx_return (Some fire)))"

definition automationSessionActiveTx :: "string \<Rightarrow> bool wtx" where
  "automationSessionActiveTx sid = tx_gets (\<lambda>w. list_ex (\<lambda>s. sess_id s = sid \<and> sess_deletion_state s = ''active'') (sessions w))"

definition automationSessionTx :: "automation_row \<Rightarrow> string wtx" where
  "automationSessionTx a =
     tx_bind (case ar_session_id a of
         None \<Rightarrow> tx_return False
       | Some sid \<Rightarrow> if sid = '''' then tx_return False else automationSessionActiveTx sid) (\<lambda>active.
     if active then tx_return (text_or_empty (ar_session_id a))
     else
       tx_bind now_text (\<lambda>createdAt.
       tx_bind (ids_New ''sess'') (\<lambda>sid.
       tx_then (insert_session \<lparr>sess_id = sid, sess_kind = ''chat'', sess_parent_id = None, sess_title = Some (ar_name a),
           sess_title_origin = ''explicit'', sess_status = ''active'', sess_created_at = createdAt,
           sess_updated_at = createdAt, sess_deletion_state = ''active''\<rparr>) (
       tx_then (tx_modify (\<lambda>w. w\<lparr>automations := update_where (\<lambda>x. ar_id x = ar_id a)
           (\<lambda>x. x\<lparr>ar_session_id := Some sid\<rparr>) (automations w)\<rparr>)) (
       tx_return sid)))))"

definition automation_turn :: "AutomationRunDefaults \<Rightarrow> string \<Rightarrow> string \<Rightarrow> EnqueueUserMessageInput" where
  "automation_turn defaults sid content =
     \<lparr>ei_SessionID = sid, ei_Content = content, ei_ContentType = '''', ei_AgentID = df_AgentID defaults,
      ei_ModelProvider = df_ModelProvider defaults, ei_Model = df_Model defaults, ei_RequestedModel = '''',
      ei_ExecutionModel = '''', ei_IdempotencyKey = '''', ei_RequestedTools = [], ei_SelectedTools = [],
      ei_RequiredContextTokens = 0, ei_MinimumWorkerMaxConcurrentRuns = 0, ei_EgressDecision = None, ei_TeamRoster = [],
      ei_TeamContinuation = \<lparr>tcn_Tools = [], tcn_ResultMaxBytes = 0\<rparr>, ei_ValidateRouting = None\<rparr>"

definition default_requirements :: "AutomationRunDefaults \<Rightarrow> RoutingRequirements" where
  "default_requirements defaults = \<lparr>rq_AgentID = df_AgentID defaults, rq_ModelProvider = df_ModelProvider defaults,
     rq_Model = df_Model defaults, rq_RequestedTools = [], rq_SelectedTools = [], rq_RequiredContextTokens = 0,
     rq_MinimumWorkerMaxConcurrentRuns = 0, rq_ExternalAgent = False, rq_ExternalAgentCredentialRef = '''',
     rq_RemoteEgressDecision = False, rq_MinimumTeamProtocolVersion = 0\<rparr>"

text \<open>The route of the conversation, if it has one; a refused endpoint is an outcome of its own.\<close>

definition automation_route :: "AutomationRunDefaults \<Rightarrow> automation_row \<Rightarrow> RoutingRequirements option wtx" where
  "automation_route defaults a =
     (case ar_session_id a of
        None \<Rightarrow> tx_return (Some (default_requirements defaults))
      | Some sid \<Rightarrow>
          tx_bind (automationSessionActiveTx sid) (\<lambda>active.
          if \<not> active then tx_return (Some (default_requirements defaults))
          else (\<lambda>w. case resolveEnqueueRouteTx (automation_turn defaults sid '''') w of
              Inl e \<Rightarrow> if e = ErrExternalAgentBaseURLInsecure \<or> e = ErrExternalAgent ErrExternalAgentBaseURLInvalid
                then Inr (None, w) else Inl e
            | Inr (resolved, w') \<Rightarrow> Inr (Some (er_requirements resolved), w'))))"

definition tools_json :: "AutomationTool list \<Rightarrow> json" where
  "tools_json ts = JArr (map (\<lambda>t. JObj [(''serverName'', JStr (at_ServerName t)), (''toolName'', JStr (at_ToolName t))]) ts)"

text \<open>The grant is frozen from the allowlist as it is now, and the run becomes the latest one.\<close>

definition freeze_grant :: "automation_row \<Rightarrow> string \<Rightarrow> string \<Rightarrow> unit wtx" where
  "freeze_grant a rid firedAt =
     tx_bind (allowedToolsTx (ar_id a)) (\<lambda>tools.
     tx_bind (tx_gets automation_runs) (\<lambda>rows.
     tx_then (tx_guard (rid \<notin> set (map arn_run_id rows)) (ErrUnique ''automation_runs.run_id'')) (
     tx_then (tx_modify (\<lambda>w. w\<lparr>automation_runs := automation_runs w @ [\<lparr>arn_run_id = rid, arn_automation_id = ar_id a,
         arn_automation_name = ar_name a, arn_allowed_tools_json = tools_json tools, arn_fired_at = firedAt\<rparr>]\<rparr>))
       (tx_modify (\<lambda>w. w\<lparr>automations := update_where (\<lambda>x. ar_id x = ar_id a) (\<lambda>x. x\<lparr>ar_last_run_id := Some rid\<rparr>) (automations w)\<rparr>)))))"

definition fire_automation ::
  "SkillSnapshot list result \<Rightarrow> (MemoryPinnedDocument \<times> MemoryPinnedDocument) option \<Rightarrow> AutomationRunDefaults \<Rightarrow> automation_row \<Rightarrow> string \<Rightarrow> string \<Rightarrow> AutomationFire option wtx" where
  "fire_automation skills pins defaults a nextDue firedAt =
     tx_bind (advance a (\<lambda>x. (moved_on nextDue firedAt x)\<lparr>ar_last_run_at := Some firedAt\<rparr>)) (\<lambda>one.
     if \<not> one then tx_return None
     else
       tx_bind (automationSessionTx a) (\<lambda>sid.
       tx_bind (enqueueUserMessageTx skills pins (automation_turn defaults sid (ar_prompt a))) (\<lambda>enqueued.
       tx_then (freeze_grant a (eu_RunID enqueued) firedAt) (
       tx_return (Some ((passed_fire a)\<lparr>af_SessionID := sid, af_RunID := eu_RunID enqueued, af_JobID := eu_JobID enqueued,
         af_TraceID := eu_TraceID enqueued, af_SessionUpdatedEvent := eu_SessionUpdatedEvent enqueued,
         af_QueuedEvent := Some (eu_QueuedEvent enqueued), af_RoutingEvents := eu_RoutingEvents enqueued\<rparr>))))))"

text \<open>A local route is validated; a remote one needs a person to consent and is never taken.\<close>

definition take_route ::
  "SkillSnapshot list result \<Rightarrow> (MemoryPinnedDocument \<times> MemoryPinnedDocument) option \<Rightarrow> AutomationRunDefaults \<Rightarrow> automation_row \<Rightarrow> string \<Rightarrow> string \<Rightarrow> RoutingRequirements option
   \<Rightarrow> AutomationFire option wtx" where
  "take_route skills pins defaults a nextDue firedAt route =
     (let dueAt = text_or_empty (ar_next_due_at a) in
      case route of
        None \<Rightarrow>
          pass_over a nextDue firedAt (blocked_audit a ''automation.remote_egress_blocked''
            [(''code'', JStr AutomationFailureRemoteEgressConfigurationInvalid), (''firedDueAt'', JStr dueAt), (''nextDueAt'', JStr nextDue)])
            (failed_fire a AutomationFailureRemoteEgressConfigurationInvalid)
      | Some requirements \<Rightarrow>
          if rq_ModelProvider requirements = ''openai_compatible'' then
            pass_over a nextDue firedAt (blocked_audit a ''automation.remote_egress_blocked''
              [(''code'', JStr AutomationFailureRemoteEgressRequiresInteractiveConsent), (''firedDueAt'', JStr dueAt),
               (''nextDueAt'', JStr nextDue), (''provider'', JStr (rq_ModelProvider requirements))])
              (failed_fire a AutomationFailureRemoteEgressRequiresInteractiveConsent)
          else
            (case (case df_ValidateRouting defaults of None \<Rightarrow> None | Some validate \<Rightarrow> validate requirements) of
               Some msg \<Rightarrow>
                 pass_over a nextDue firedAt (blocked_audit a ''automation.routing_unavailable''
                   [(''error'', JStr msg), (''firedDueAt'', JStr dueAt), (''nextDueAt'', JStr nextDue),
                    (''reason'', JStr SkippedRoutingUnavailable)])
                   (skipped_fire a SkippedRoutingUnavailable)
             | None \<Rightarrow> fire_automation skills pins defaults a nextDue firedAt))"

definition disable_unreadable :: "automation_row \<Rightarrow> string \<Rightarrow> AutomationFire option wtx" where
  "disable_unreadable a firedAt =
     tx_then (tx_modify (\<lambda>w. w\<lparr>automations := update_where (\<lambda>x. ar_id x = ar_id a)
         (\<lambda>x. x\<lparr>ar_enabled := False, ar_next_due_at := None, ar_updated_at := firedAt\<rparr>) (automations w)\<rparr>))
       (tx_return (Some (skipped_fire a SkippedScheduleUnreadable)))"

definition claim_row ::
  "SkillSnapshot list result \<Rightarrow> (MemoryPinnedDocument \<times> MemoryPinnedDocument) option \<Rightarrow> int \<Rightarrow> AutomationRunDefaults \<Rightarrow> automation_row \<Rightarrow> AutomationFire option wtx" where
  "claim_row skills pins at defaults a =
     (let firedAt = FormatTimestamp at in
      case (row_schedule a, time_Parse (text_or_empty (ar_next_due_at a))) of
        (Inr sched, Inr firedDue) \<Rightarrow>
          tx_bind (tx_lift (NextDueAfterFiring sched firedDue at)) (\<lambda>nextDue.
          tx_bind (tx_gets (last_run_status a)) (\<lambda>status.
          if (case status of None \<Rightarrow> False | Some s \<Rightarrow> \<not> isTerminalRunStatus s)
          then pass_over a (FormatTimestamp nextDue) firedAt (tx_return ()) (skipped_fire a SkippedPreviousRunUnfinished)
          else
            tx_bind (automation_route defaults a) (\<lambda>route.
            take_route skills pins defaults a (FormatTimestamp nextDue) firedAt route)))
      | _ \<Rightarrow> disable_unreadable a firedAt)"

text \<open>A claim that found nothing, or lost its compare-and-set, rolls back.\<close>

definition ClaimDueAutomation ::
  "SkillSnapshot list result \<Rightarrow> (MemoryPinnedDocument \<times> MemoryPinnedDocument) option \<Rightarrow> int \<Rightarrow> AutomationRunDefaults \<Rightarrow> AutomationFire option wtx" where
  "ClaimDueAutomation skills pins at defaults w =
     (case tx_bind (due_automation at) (\<lambda>found.
        case found of None \<Rightarrow> tx_return None | Some a \<Rightarrow> claim_row skills pins at defaults a) w of
        Inl e \<Rightarrow> Inl e
      | Inr (None, _) \<Rightarrow> Inr (None, w)
      | Inr (Some fire, w') \<Rightarrow> Inr (Some fire, w'))"

definition decode_tool :: "json \<Rightarrow> AutomationTool option" where
  "decode_tool j = (case (decode_field decode_string '''' ''serverName'' j, decode_field decode_string '''' ''toolName'' j) of
     (Some s, Some t) \<Rightarrow> Some \<lparr>at_ServerName = s, at_ToolName = t\<rparr> | _ \<Rightarrow> None)"

definition decode_tools :: "json \<Rightarrow> AutomationTool list option" where
  "decode_tools j = (case j of JArr xs \<Rightarrow> all_some (map decode_tool xs) | JNull \<Rightarrow> Some [] | _ \<Rightarrow> None)"

definition GetAutomationRunGrant :: "string \<Rightarrow> AutomationRunGrant option wtx" where
  "GetAutomationRunGrant rid =
     tx_bind (query_opt (\<lambda>w. filter (\<lambda>r. arn_run_id r = rid) (automation_runs w))) (\<lambda>found.
     case found of
       None \<Rightarrow> tx_return None
     | Some r \<Rightarrow>
         (case decode_tools (arn_allowed_tools_json r) of
            None \<Rightarrow> tx_fail (ErrText ''json: cannot unmarshal'')
          | Some tools \<Rightarrow> tx_return (Some \<lparr>ag_AutomationID = arn_automation_id r,
              ag_AutomationName = arn_automation_name r, ag_AllowedTools = tools\<rparr>)))"

section \<open>The scheduler\<close>

text \<open>
  One tick (\<^verbatim>\<open>scheduler.go\<close>): claims one at a time, each its own transaction, until nothing is due,
  an error, or the bound. The context, the injected clock, the dispatcher's default model and what
  dispatching does to the store are arguments; the events that reach the bus are returned in order.
\<close>

record scheduler =
  sr_ctx_Err :: "nat \<Rightarrow> err option"
  sr_now :: "nat \<Rightarrow> int"
  sr_bus :: bool
  sr_RoutableDefaultModel :: "(string \<Rightarrow> string \<Rightarrow> string) option"
  sr_dispatch :: "AutomationFire \<Rightarrow> world \<Rightarrow> world"
  sr_defaults :: AutomationRunDefaults

definition maxFiresPerTick :: nat where "maxFiresPerTick = 20"

definition tick_defaults :: "scheduler \<Rightarrow> AutomationRunDefaults" where
  "tick_defaults s = (case sr_RoutableDefaultModel s of
     None \<Rightarrow> sr_defaults s
   | Some f \<Rightarrow> (sr_defaults s)\<lparr>df_Model := f (df_ModelProvider (sr_defaults s)) (df_Model (sr_defaults s))\<rparr>)"

definition published :: "Event option \<Rightarrow> Event list" where
  "published e = (case e of None \<Rightarrow> [] | Some x \<Rightarrow> if ev_id x \<noteq> '''' then [x] else [])"

definition fire_events :: "scheduler \<Rightarrow> AutomationFire \<Rightarrow> Event list" where
  "fire_events s f = (if sr_bus s then published (af_SessionUpdatedEvent f) @ published (af_QueuedEvent f) @ af_RoutingEvents f else [])"

definition dispatch_fire :: "scheduler \<Rightarrow> AutomationFire \<Rightarrow> world \<Rightarrow> world" where
  "dispatch_fire s f w = (case sr_RoutableDefaultModel s of None \<Rightarrow> w | Some _ \<Rightarrow> sr_dispatch s f w)"

fun tick_loop ::
  "SkillSnapshot list result \<Rightarrow> (MemoryPinnedDocument \<times> MemoryPinnedDocument) option \<Rightarrow> scheduler \<Rightarrow> nat \<Rightarrow> nat \<Rightarrow> world
   \<Rightarrow> err option \<times> Event list \<times> world" where
  "tick_loop skills pins s 0 fired w = (None, [], w)"
| "tick_loop skills pins s (Suc left) fired w =
     (case sr_ctx_Err s fired of
        Some e \<Rightarrow> (Some e, [], w)
      | None \<Rightarrow>
          (case ClaimDueAutomation skills pins (sr_now s fired) (tick_defaults s) w of
             Inl e \<Rightarrow> (Some e, [], w)
           | Inr (None, w') \<Rightarrow> (None, [], w')
           | Inr (Some fire, w') \<Rightarrow>
               if af_Skipped fire \<or> af_Failed fire then tick_loop skills pins s left (Suc fired) w'
               else (case tick_loop skills pins s left (Suc fired) (dispatch_fire s fire w') of
                       (e, es, w'') \<Rightarrow> (e, fire_events s fire @ es, w''))))"

definition Tick ::
  "SkillSnapshot list result \<Rightarrow> (MemoryPinnedDocument \<times> MemoryPinnedDocument) option \<Rightarrow> scheduler \<Rightarrow> world
   \<Rightarrow> err option \<times> Event list \<times> world" where
  "Tick skills pins s w = tick_loop skills pins s maxFiresPerTick 0 w"

section \<open>Within the store relations\<close>

context store_relation
begin

lemma within_automationByIDTx: "tx_within R (automationByIDTx aid)"
  unfolding automationByIDTx_def allowedToolsTx_def
  by (intro within_intros) (auto intro: within_intros split: list.splits)

lemma within_automation_edits:
  "tx_within R (CreateAutomation input)" "tx_within R (UpdateAutomation aid input)"
  "tx_within R (SetAutomationEnabled aid b)" "tx_within R (DeleteAutomation aid)"
  unfolding CreateAutomation_def UpdateAutomation_def SetAutomationEnabled_def DeleteAutomation_def armed_due_def insert_automation_def
    replaceAllowedToolsTx_def insert_allowed_tool_def update_automation_def expectOneRowErr_def Let_def
  by (intro within_intros within_env within_automationByIDTx within_modify frame_keys; simp add: same_keys_def)+

lemma within_automation_route: "tx_within R (automation_route defaults a)"
proof (rule tx_withinI)
  fix w route w' assume run: "automation_route defaults a w = Inr (route, w')"
  have "tx_within (\<lambda>w w'. w' = w) (resolveEnqueueRouteTx i)" for i
    unfolding resolveEnqueueRouteTx_def sessionExternalAgentTx_def
    by (intro dry.within_intros) (auto simp: tx_within_def query_opt_def split: list.splits sum.splits)
  then have "w' = w" using run unfolding automation_route_def automationSessionActiveTx_def
    by (fastforce simp: tx_bind_Inr_iff dest: tx_withinD split: option.splits if_splits sum.splits prod.splits)
  then show "R w w'" using step_refl by simp
qed

lemma within_claim_row: "tx_within R (claim_row skills pins at defaults a)"
proof -
  have advance: "tx_within R (advance a f)" for f
    unfolding advance_def Let_def by (intro within_intros within_modify frame_keys; simp add: same_keys_def)
  have pass: "tx_within R (pass_over a nd fa audit fire)" if "tx_within R audit" for nd fa audit fire
    unfolding pass_over_def by (intro within_intros advance that)
  have audit: "tx_within R (blocked_audit a action p)" for action p unfolding blocked_audit_def by (rule within_recordAuditTx)
  have fire: "tx_within R (fire_automation skills pins defaults a nd fa)" for nd fa
    unfolding fire_automation_def automationSessionTx_def freeze_grant_def automationSessionActiveTx_def allowedToolsTx_def
    by (intro within_intros advance within_env within_insert_session within_enqueueUserMessageTx within_modify frame_keys;
        simp add: same_keys_def)
  have off: "tx_within R (disable_unreadable a fa)" for fa
    unfolding disable_unreadable_def by (intro within_intros within_modify frame_keys; simp add: same_keys_def)
  have route: "tx_within R (take_route skills pins defaults a nd fa route)" for nd fa route
    unfolding take_route_def Let_def by (auto intro!: pass audit fire split: option.splits)
  show ?thesis unfolding claim_row_def Let_def
    by (auto intro!: off within_bind within_lift within_gets within_if pass within_return within_automation_route route split: sum.splits)
qed

lemma within_ClaimDueAutomation: "tx_within R (ClaimDueAutomation skills pins at defaults)"
proof (rule tx_withinI)
  fix w fire w' assume run: "ClaimDueAutomation skills pins at defaults w = Inr (fire, w')"
  let ?m = "tx_bind (due_automation at) (\<lambda>found. case found of None \<Rightarrow> tx_return None | Some a \<Rightarrow> claim_row skills pins at defaults a)"
  have "tx_within R ?m" unfolding due_automation_def by (intro within_intros within_env within_claim_row)
  then show "R w w'" using run step_refl unfolding ClaimDueAutomation_def
    by (auto dest: tx_withinD split: sum.splits prod.splits option.splits)
qed

end

end
