(* ===== verification/Aside.thy ===== *)
theory Aside
  imports Enqueue
begin

text \<open>
  What the work of runs leaves alone. A turn and a terminal transition write runs, messages, jobs,
  approvals, tool calls, events, delegations and audit rows, and touch a session's activity time; the
  tables of automations, external agents, artifacts and deletions, and whether a session is
  available, stay as they are.
\<close>

definition session_gate :: "session \<Rightarrow> string \<times> string \<times> string option \<times> string" where
  "session_gate s = (sess_id s, sess_kind s, sess_parent_id s, sess_deletion_state s)"

definition same_aside :: "world \<Rightarrow> world \<Rightarrow> bool" where
  "same_aside w w' \<longleftrightarrow> automations w' = automations w \<and> automation_allowed_tools w' = automation_allowed_tools w
     \<and> automation_runs w' = automation_runs w \<and> external_agents w' = external_agents w
     \<and> session_external_agents w' = session_external_agents w \<and> session_deletions w' = session_deletions w
     \<and> sandbox_artifacts w' = sandbox_artifacts w \<and> vault_artifacts w' = vault_artifacts w
     \<and> map session_gate (sessions w') = map session_gate (sessions w) \<and> net_lib w' = net_lib w"

interpretation aside: tx_relation same_aside
  by unfold_locales (simp_all add: same_aside_def)

lemma map_gate_update:
  "(\<And>s. p s \<Longrightarrow> session_gate (f s) = session_gate s) \<Longrightarrow> map session_gate (update_where p f ss) = map session_gate ss"
  by (simp add: update_where_def)

section \<open>Statements\<close>

lemma aside_env:
  "tx_within same_aside time_Now" "tx_within same_aside now_text" "tx_within same_aside (ids_New k)"
  "tx_within same_aside rand_nonce" "tx_within same_aside (query_row q)" "tx_within same_aside (query_opt qo)"
  "tx_within same_aside (insert_message m)" "tx_within same_aside (insert_agent_run r)"
  "tx_within same_aside (insert_job_row j)" "tx_within same_aside (readRunRow rid)"
  "tx_within same_aside (expectOneRowErr n e)" "tx_within same_aside (expectOneRow n msg)"
  by (auto simp: tx_within_def same_aside_def time_Now_def now_text_def ids_New_def rand_nonce_def query_row_def query_opt_def
      insert_message_def insert_agent_run_def insert_job_row_def expectOneRow_def expectOneRowErr_def tx_simps
      dest: readRunRow_Inr split: list.splits if_splits)

lemma aside_appendEventTx: "tx_within same_aside (appendEventTx sid r t ty p at)"
  by (auto simp: tx_within_def same_aside_def appendEventTx_def insert_event_def ids_New_def tx_simps Let_def split: if_splits)

lemma aside_events: "tx_within same_aside (appendRunEventTx sid rid t ty p at)" "tx_within same_aside (appendSessionEventTx sid t ty p at)"
  unfolding appendRunEventTx_def appendSessionEventTx_def by (rule aside_appendEventTx)+

lemma aside_recordAuditTx: "tx_within same_aside (recordAuditTx c ty aid act tgt p)"
  unfolding recordAuditTx_def
  by (intro aside.within_intros aside.within_modify aside_env) (simp add: same_aside_def)

lemma aside_touch_session: "tx_within same_aside (touch_session sid at)"
  unfolding touch_session_def
  by (intro aside.within_modify) (simp add: same_aside_def map_gate_update session_gate_def)

lemma aside_messages:
  "tx_within same_aside (nextMessageSlotTx sid t)" "tx_within same_aside (insertSessionMessageTx sid role ct c)"
  "tx_within same_aside (insertSessionAnchorTx sid rid role ct c)"
  unfolding insertSessionMessageTx_def insertSessionAnchorTx_def nextMessageSlotTx_def nextSessionActivityTimeTx_def Let_def
  by (intro aside.within_intros aside_env aside_touch_session)+

section \<open>A turn\<close>

lemma aside_egress:
  "tx_within same_aside (recordEgressConsentTx s r t d l de out a)" "tx_within same_aside (insertRunEgressDecisionTx rid p)"
proof -
  show "tx_within same_aside (recordEgressConsentTx s r t d l de out a)"
    unfolding recordEgressConsentTx_def appendRunNoticeTx_def Let_def
    by (intro aside.within_intros aside_env aside_events aside_recordAuditTx)
  show "tx_within same_aside (insertRunEgressDecisionTx rid p)"
    by (auto simp: tx_within_def same_aside_def insertRunEgressDecisionTx_def ids_New_def tx_simps Let_def split: if_splits)
qed

lemma aside_enqueueUserMessageTx: "tx_within same_aside (enqueueUserMessageTx skills pins input)"
  unfolding enqueueUserMessageTx_def requireChatSessionTx_def enqueue_route_def resolveEnqueueRouteTx_def sessionExternalAgentTx_def
    sessionHasDelegationsTx_def enqueue_decision_def accept_turn_def new_turn_def insert_turn_def store_decision_def name_session_def
    announce_session_def freeze_job_def queued_event_def routing_notice_def egressMemorySnapshotTx_def memoryEnabledTx_def Let_def
  by (intro aside.within_intros aside.within_modify aside_env aside_events aside_messages aside_egress;
      (simp add: same_aside_def map_gate_update session_gate_def aside.within_fail aside.within_return split: sum.splits)?)

section \<open>A cancelled run\<close>

lemma aside_delegation_reports: "tx_within same_aside (delegationUpdatedTx rid from to at)"
proof -
  have "tx_within same_aside (delegationByChildRunTx rid)"
    by (auto simp: tx_within_def delegationByChildRunTx_def aside.step_refl split: list.splits option.splits)
  then show ?thesis unfolding delegationUpdatedTx_def reportDelegationTx_def run_session_state_def
    by (intro aside.within_intros aside_env aside_events)
qed

lemma aside_maybeJoinTx: "tx_within same_aside (maybeJoinTx rid)"
  unfolding maybeJoinTx_def join_parent_def join_parent_row_def perform_join_def joinedDelegationsTx_def runTeamContinuation_def
    continuationInheritanceTx_def insertQueuedRunTx_def finish_delegation_def mark_joined_def Let_def
  by (intro aside.within_intros aside.within_modify aside_env aside_events aside_messages;
      (simp add: same_aside_def aside.within_fail aside.within_return split: option.splits)?)

lemma aside_apply_check: "tx_within same_aside (apply_check t)"
  unfolding apply_check_def check_approval_def check_terminal_message_def decide_transition_def transitionCommittedThisTriggerTx_def
    approvalCommittedThisTriggerTx_def ownershipClearCommittedThisTriggerTx_def runApprovalStatusTx_def Let_def
  by (intro aside.within_intros aside_env)

lemma aside_commit_row: "tx_within same_aside (commit_row t row)"
  unfolding commit_row_def write_content_def guarded_update_def Let_def
  by (intro aside.within_intros aside.within_modify aside_env; simp add: same_aside_def)

lemma aside_appendApprovalTerminalEventTx: "tx_within same_aside (appendApprovalTerminalEventTx s r t a ty at)"
  unfolding appendApprovalTerminalEventTx_def Let_def
  by (intro aside.within_intros aside_env aside_events)

lemma aside_cancelSubsidiary: "tx_within same_aside (cancelSubsidiary input st at)"
  unfolding cancelSubsidiary_def failPendingApprovalLifecycleTx_def expire_open_approvals_def fail_open_tool_calls_def
    run_session_trace_def case_prod_beta
  by (intro aside.within_intros aside.within_modify aside_env aside_events aside_appendApprovalTerminalEventTx;
      (simp add: same_aside_def)?)

lemma aside_apply_fuel:
  assumes "\<And>st at. tx_within same_aside (sub st at)"
  shows "tx_within same_aside (apply_fuel n t sub)"
  using assms
proof (induction n arbitrary: t sub)
  case 0
  then show ?case by (simp add: tx_within_def)
next
  case (Suc n)
  have commit: "tx_within same_aside (apply_commit t sub row)" for row
    unfolding apply_commit_def Let_def by (intro aside.within_intros aside_commit_row aside_events Suc.prems)
  have cancel: "tx_within same_aside (cancelRunWith (apply_fuel n) input)" for input
    unfolding cancelRunWith_def by (intro aside.within_intros aside_env Suc.IH aside_cancelSubsidiary)
  have stop: "tx_within same_aside (stopDelegatedTasksWith (apply_fuel n) rid)" for rid
    unfolding stopDelegatedTasksWith_def stop_tasks_def stop_notice_def run_session_state_def
    by (intro aside.within_intros aside_env aside_messages cancel)
  have delegation: "tx_within same_aside (apply_delegation (apply_fuel n) t row x)" for row x
    unfolding apply_delegation_def by (intro aside.within_intros aside_delegation_reports stop aside_maybeJoinTx)
  show ?case unfolding apply_fuel.simps applyWith_def
    by (intro aside.within_intros aside_apply_check commit delegation)
qed

lemma aside_cancelRunTx: "tx_within same_aside (cancelRunTx input)"
proof -
  have "tx_within same_aside (applyRunTransitionTx t sub)" if "\<And>st at. tx_within same_aside (sub st at)" for t sub
    using aside_apply_fuel [of sub, OF that] by (auto simp: tx_within_def applyRunTransitionTx_def simp del: apply_fuel.simps)
  note transition = this
  show ?thesis unfolding cancelRunTx_def cancelRunWith_def by (intro aside.within_intros aside_env transition aside_cancelSubsidiary)
qed

end
