(* ===== verification/SessionDeletion.thy ===== *)
theory SessionDeletion
  imports ExplicitCancel Automations Aside
begin

text \<open>
  Withdrawing a conversation (\<^verbatim>\<open>session_delete.go\<close>): beginning a deletion, which makes the session
  unavailable and ends its work, advancing its receipt past the gates to the cascade, and recording
  external failures. The vault's notes and the on-disk completion are outside this store; what they
  answer is an argument.
\<close>

section \<open>Receipts\<close>

record SessionDeletionReceipt =
  sdr_SessionID :: string
  sdr_LifecycleVersion :: int
  sdr_State :: string
  sdr_TerminalSequence :: int
  sdr_Retryable :: bool
  sdr_ErrorCode :: string
  sdr_RunCount :: int
  sdr_MessageCount :: int
  sdr_RetainedLegacyArtifactCount :: int

definition scrubbedAuditPayload :: json where "scrubbedAuditPayload = JObj [(''scrubbed'', JBool True)]"

definition SessionDeletionArtifactCleanupPending :: string where "SessionDeletionArtifactCleanupPending = ''artifact_cleanup_pending''"
definition SessionDeletionMemoryReconcileFailed :: string where "SessionDeletionMemoryReconcileFailed = ''memory_reconcile_failed''"
definition SessionDeletionChildPending :: string where "SessionDeletionChildPending = ''child_deletion_pending''"
definition SandboxArtifactPolicyDeleteOnSessionDelete :: string where "SandboxArtifactPolicyDeleteOnSessionDelete = ''delete_on_session_delete''"
definition SandboxArtifactPolicyRetainLegacyUnowned :: string where "SandboxArtifactPolicyRetainLegacyUnowned = ''retain_legacy_unowned''"
definition SandboxArtifactStateDeleteFailed :: string where "SandboxArtifactStateDeleteFailed = ''delete_failed''"
definition VaultArtifactStateDeleteFailed :: string where "VaultArtifactStateDeleteFailed = ''delete_failed''"
definition vaultArtifactCleanupFailedAction :: string where "vaultArtifactCleanupFailedAction = ''session.vault_artifact.cleanup.failed''"
definition sessionDeletionQuiesceLease :: int where "sessionDeletionQuiesceLease = 5 * minute_nanos"

definition receipt_of :: "session_deletion \<Rightarrow> SessionDeletionReceipt" where
  "receipt_of d = \<lparr>sdr_SessionID = sd_session_id d, sdr_LifecycleVersion = sd_lifecycle_version d, sdr_State = sd_state d,
     sdr_TerminalSequence = sd_terminal_sequence d, sdr_Retryable = sd_retryable d, sdr_ErrorCode = text_or_empty (sd_error_code d),
     sdr_RunCount = sd_run_count d, sdr_MessageCount = sd_message_count d,
     sdr_RetainedLegacyArtifactCount = sd_retained_legacy_artifact_count d\<rparr>"

definition find_deletion :: "string \<Rightarrow> session_deletion option wtx" where
  "find_deletion sid = query_opt (\<lambda>w. filter (\<lambda>d. sd_session_id d = sid) (session_deletions w))"

section \<open>Beginning\<close>

text \<open>Audit payloads of the session's runs, and of the session itself, are replaced by the tombstone.\<close>

definition scrubbed_row :: "string \<Rightarrow> world \<Rightarrow> audit_log \<Rightarrow> bool" where
  "scrubbed_row sid w l \<longleftrightarrow> au_action l \<noteq> ''session.deleted''
     \<and> (list_ex (\<lambda>r. run_session_id r = sid \<and> au_correlation_id l = Some (run_id r)) (agent_runs w)
        \<or> au_target l = Some sid \<and> (au_correlation_id l = None \<or> au_correlation_id l = Some ''''))"

definition scrub_audit :: "string \<Rightarrow> unit wtx" where
  "scrub_audit sid = tx_modify (\<lambda>w. w\<lparr>audit_logs := update_where (scrubbed_row sid w)
     (\<lambda>l. l\<lparr>au_payload := Some scrubbedAuditPayload\<rparr>) (audit_logs w)\<rparr>)"

definition abandon_input :: "string \<Rightarrow> CancelRunInput" where
  "abandon_input rid = \<lparr>xri_RunID = rid, xri_AssistantMessageID = '''', xri_ExpectedStateVersion = 0,
     xri_Cancellation = AbandonedCancellation, xri_resolveVersionInTx = True, xri_queueWaitReason = ''''\<rparr>"

definition live_statuses :: "string list" where
  "live_statuses = [''queued'', ''running'', ''waiting_approval'', ''recovering'']"

definition live_runs :: "string \<Rightarrow> world \<Rightarrow> string list" where
  "live_runs sid w = map run_id (sort_key (\<lambda>r. (run_created_at r, run_id r))
     (filter (\<lambda>r. run_session_id r = sid \<and> run_status r \<in> set live_statuses) (agent_runs w)))"

definition cancelSessionWorkTx :: "string \<Rightarrow> unit wtx" where
  "cancelSessionWorkTx sid =
     tx_bind (tx_gets (live_runs sid)) (\<lambda>runIDs.
     tx_then (tx_map (\<lambda>rid. cancelRunTx (abandon_input rid)) runIDs) (tx_return ()))"

text \<open>Which kind of session is withdrawn; once its row is gone the receipt says so.\<close>

definition deletion_kind :: "string \<Rightarrow> world \<Rightarrow> string option" where
  "deletion_kind sid w =
     (case find_row (\<lambda>s. sess_id s = sid) (sessions w) of
        Some s \<Rightarrow> Some (sess_kind s)
      | None \<Rightarrow> map_option (\<lambda>d. if sd_parent_session_id d = None then ''chat'' else ''delegation'')
          (find_row (\<lambda>d. sd_session_id d = sid) (session_deletions w)))"

definition check_kind :: "string \<Rightarrow> string \<Rightarrow> unit wtx" where
  "check_kind sid wantKind =
     tx_bind (tx_gets (deletion_kind sid)) (\<lambda>kind.
     if kind \<noteq> None \<and> kind \<noteq> Some wantKind
     then tx_fail (if wantKind = ''chat'' then ErrDelegationSessionReadOnly else ErrNotADelegationSession)
     else tx_return ())"

definition mark_deleting :: "string \<Rightarrow> unit wtx" where
  "mark_deleting sid =
     (let p = (\<lambda>s. sess_id s = sid \<and> sess_deletion_state s = ''active'') in
      tx_bind (tx_gets sessions) (\<lambda>rows.
      tx_then (tx_modify (\<lambda>w. w\<lparr>sessions := update_where p (\<lambda>s. s\<lparr>sess_deletion_state := ''deleting''\<rparr>) (sessions w)\<rparr>)) (
      if rows_affected p rows = 0 then
        tx_fail (if list_ex (\<lambda>s. sess_id s = sid) rows then ErrSessionDeleting else ErrSessionNotFound)
      else tx_return ())))"

definition insert_deletion :: "session_deletion \<Rightarrow> unit wtx" where
  "insert_deletion d =
     tx_bind (tx_gets session_deletions) (\<lambda>rows.
     tx_then (tx_guard (sd_session_id d \<notin> set (map sd_session_id rows)) (ErrUnique ''session_deletions.session_id''))
       (tx_modify (\<lambda>w. w\<lparr>session_deletions := session_deletions w @ [d]\<rparr>)))"

definition start_deletion :: "string \<Rightarrow> SessionDeletionReceipt wtx" where
  "start_deletion sid =
     tx_then (mark_deleting sid) (
     tx_then (scrub_audit sid) (
     tx_bind (tx_gets (\<lambda>w. int (length (filter (\<lambda>r. run_session_id r = sid) (agent_runs w))))) (\<lambda>runs.
     tx_bind (tx_gets (\<lambda>w. int (length (filter (\<lambda>m. msg_session_id m = sid) (messages w))))) (\<lambda>msgs.
     tx_then (cancelSessionWorkTx sid) (
     tx_bind (tx_gets (\<lambda>w. next_sequence sid (events w))) (\<lambda>terminal.
     tx_bind time_Now (\<lambda>t.
     tx_bind (tx_gets (\<lambda>w. case find_row (\<lambda>s. sess_id s = sid) (sessions w) of None \<Rightarrow> None | Some s \<Rightarrow> sess_parent_id s)) (\<lambda>parent.
     let d = \<lparr>sd_session_id = sid, sd_lifecycle_version = 1, sd_state = ''quiescing'',
           sd_quiesce_deadline_at = FormatTimestamp (t + sessionDeletionQuiesceLease), sd_terminal_sequence = terminal,
           sd_terminal_at = None, sd_deleted_at = None, sd_error_code = None, sd_retryable = True, sd_run_count = runs,
           sd_message_count = msgs, sd_retained_legacy_artifact_count = 0, sd_parent_session_id = parent\<rparr> in
     tx_then (insert_deletion d) (tx_return (receipt_of d))))))))))"

definition beginSessionDeletion :: "string \<Rightarrow> string \<Rightarrow> SessionDeletionReceipt wtx" where
  "beginSessionDeletion sid wantKind =
     tx_then (check_kind sid wantKind) (
     tx_bind (find_deletion sid) (\<lambda>found.
     case found of Some d \<Rightarrow> tx_return (receipt_of d) | None \<Rightarrow> start_deletion sid))"

definition BeginSessionDeletion :: "string \<Rightarrow> SessionDeletionReceipt wtx" where
  "BeginSessionDeletion sid = beginSessionDeletion sid ''chat''"

definition BeginDelegationSessionDeletion :: "string \<Rightarrow> SessionDeletionReceipt wtx" where
  "BeginDelegationSessionDeletion sid = beginSessionDeletion sid ''delegation''"

section \<open>The cascade\<close>

text \<open>
  The runs that go with the session: its own, and every run that continues one that goes
  (\<^verbatim>\<open>agent_runs.continues_run_id ... ON DELETE CASCADE\<close>). As many rounds as there are runs reach them all.
\<close>

fun continuing :: "nat \<Rightarrow> agent_run list \<Rightarrow> string list \<Rightarrow> string list" where
  "continuing 0 rs gone = gone"
| "continuing (Suc n) rs gone = continuing n rs (gone @ map run_id (filter (\<lambda>r. run_id r \<notin> set gone
     \<and> (case run_continues_run_id r of None \<Rightarrow> False | Some c \<Rightarrow> c \<in> set gone)) rs))"

definition gone_runs :: "string \<Rightarrow> world \<Rightarrow> string list" where
  "gone_runs sid w = continuing (length (agent_runs w)) (agent_runs w)
     (map run_id (filter (\<lambda>r. run_session_id r = sid) (agent_runs w)))"

text \<open>
  Deleting the session row with its foreign keys. Sessions delegated from it are covered by the gate
  that comes before: none is left.
\<close>

definition cascade :: "string \<Rightarrow> world \<Rightarrow> world" where
  "cascade sid w =
     (let runs = set (gone_runs sid w);
          msgs = set (map msg_id (filter (\<lambda>m. msg_session_id m = sid) (messages w)));
          gone_jobs = set (map job_id (filter (\<lambda>j. job_run_id j \<in> runs) (jobs w)));
          gone_approvals = set (map ap_id (filter (\<lambda>a. ap_run_id a \<in> runs) (approvals w))) in
      w\<lparr>sessions := filter (\<lambda>s. sess_id s \<noteq> sid) (sessions w),
        messages := filter (\<lambda>m. msg_session_id m \<noteq> sid) (messages w),
        agent_runs := filter (\<lambda>r. run_id r \<notin> runs) (agent_runs w),
        jobs := filter (\<lambda>j. job_run_id j \<notin> runs) (jobs w),
        tool_calls := filter (\<lambda>c. tc_run_id c \<notin> runs) (tool_calls w),
        approvals := filter (\<lambda>a. ap_run_id a \<notin> runs) (approvals w),
        approval_previews := filter (\<lambda>p. pv_approval_id p \<notin> gone_approvals) (approval_previews w),
        events := filter (\<lambda>e. ev_session_id e \<noteq> sid \<and> (case ev_run_id e of None \<Rightarrow> True | Some r \<Rightarrow> r \<notin> runs)) (events w),
        receipts := filter (\<lambda>r. rc_session_id r \<noteq> sid \<and> rc_run_id r \<notin> runs) (receipts w),
        run_egress_decisions := filter (\<lambda>d. ed_RunID d \<notin> runs) (run_egress_decisions w),
        send_message_idempotency := filter (\<lambda>r. si_SessionID r \<noteq> sid \<and> si_UserMessageID r \<notin> msgs
          \<and> si_AssistantMessageID r \<notin> msgs \<and> si_RunID r \<notin> runs \<and> si_JobID r \<notin> gone_jobs) (send_message_idempotency w),
        session_external_agents := filter (\<lambda>r. sx_session_id r \<noteq> sid) (session_external_agents w),
        delegations := filter (\<lambda>d. dg_parent_session_id d \<noteq> sid \<and> dg_child_session_id d \<noteq> sid
          \<and> dg_parent_run_id d \<notin> runs \<and> dg_child_run_id d \<notin> runs) (delegations w),
        sandbox_artifacts := filter (\<lambda>a. sb_session_id a \<noteq> sid \<and> sb_run_id a \<notin> runs) (sandbox_artifacts w),
        vault_artifacts := filter (\<lambda>a. vt_session_id a \<noteq> sid) (vault_artifacts w),
        automation_runs := filter (\<lambda>r. arn_run_id r \<notin> runs) (automation_runs w),
        automations := update_where (\<lambda>a. ar_session_id a = Some sid) (\<lambda>a. a\<lparr>ar_session_id := None\<rparr>) (automations w)\<rparr>)"

section \<open>Advancing\<close>

definition set_deletion :: "string \<Rightarrow> (session_deletion \<Rightarrow> session_deletion) \<Rightarrow> unit wtx" where
  "set_deletion sid f = tx_modify (\<lambda>w. w\<lparr>session_deletions := update_where (\<lambda>d. sd_session_id d = sid) f (session_deletions w)\<rparr>)"

text \<open>A gate that is not open yet is recorded on the receipt, which stays retryable.\<close>

definition hold :: "string \<Rightarrow> string \<Rightarrow> SessionDeletionReceipt \<Rightarrow> SessionDeletionReceipt wtx" where
  "hold sid code receipt =
     tx_then (set_deletion sid (\<lambda>d. d\<lparr>sd_state := ''failed_external'', sd_retryable := True, sd_error_code := Some code\<rparr>))
       (tx_return (receipt\<lparr>sdr_State := ''failed_external'', sdr_Retryable := True, sdr_ErrorCode := code\<rparr>))"

definition quiesce :: "string \<Rightarrow> SessionDeletionReceipt \<Rightarrow> SessionDeletionReceipt wtx" where
  "quiesce sid receipt =
     tx_bind (query_row (\<lambda>w. map sd_quiesce_deadline_at (filter (\<lambda>d. sd_session_id d = sid) (session_deletions w)))) (\<lambda>text.
     tx_bind (tx_lift (time_Parse text)) (\<lambda>deadline.
     tx_bind time_Now (\<lambda>t.
     if \<not> t < deadline then hold sid ''execution_unreconciled'' receipt
     else tx_then (set_deletion sid (\<lambda>d. d\<lparr>sd_state := ''quiescing'', sd_retryable := True\<rparr>))
            (tx_return (receipt\<lparr>sdr_State := ''quiescing'', sdr_Retryable := True\<rparr>)))))"

definition session_executing :: "string \<Rightarrow> world \<Rightarrow> bool" where
  "session_executing sid w \<longleftrightarrow> list_ex (\<lambda>r. run_session_id r = sid \<and> run_execution_active r) (agent_runs w)"

definition pending_children :: "string \<Rightarrow> world \<Rightarrow> bool" where
  "pending_children sid w \<longleftrightarrow> list_ex (\<lambda>s. sess_parent_id s = Some sid) (sessions w)
     \<or> list_ex (\<lambda>d. sd_parent_session_id d = Some sid \<and> sd_state d \<noteq> ''completed'') (session_deletions w)"

definition pending_artifacts :: "string \<Rightarrow> world \<Rightarrow> bool" where
  "pending_artifacts sid w \<longleftrightarrow>
     list_ex (\<lambda>a. sb_session_id a = sid \<and> sb_policy a = SandboxArtifactPolicyDeleteOnSessionDelete) (sandbox_artifacts w)
     \<or> list_ex (\<lambda>a. vt_session_id a = sid) (vault_artifacts w)"

definition legacy_artifacts :: "string \<Rightarrow> world \<Rightarrow> int" where
  "legacy_artifacts sid w = int (length (remdups (map sb_physical_path
     (filter (\<lambda>a. sb_session_id a = sid \<and> sb_policy a = SandboxArtifactPolicyRetainLegacyUnowned) (sandbox_artifacts w)))))"

text \<open>Past the gates: the retained files are counted, the rows go, and the deletion is recorded once.\<close>

definition withdraw_rows :: "string \<Rightarrow> unit result \<Rightarrow> SessionDeletionReceipt \<Rightarrow> SessionDeletionReceipt wtx" where
  "withdraw_rows sid notes receipt =
     tx_bind (tx_gets (legacy_artifacts sid)) (\<lambda>observed.
     let receipt' = receipt\<lparr>sdr_RetainedLegacyArtifactCount := max (sdr_RetainedLegacyArtifactCount receipt) observed\<rparr> in
     tx_then (set_deletion sid (\<lambda>d. d\<lparr>sd_retained_legacy_artifact_count := max (sd_retained_legacy_artifact_count d) observed\<rparr>)) (
     tx_then (scrub_audit sid) (
     tx_then (tx_lift notes) (
     tx_bind (tx_gets (\<lambda>w. list_ex (\<lambda>s. sess_id s = sid \<and> sess_deletion_state s = ''deleting'') (sessions w))) (\<lambda>present.
     if present then
       tx_then (tx_modify (cascade sid)) (
       tx_then (recordAuditTx '''' ''client'' '''' ''session.deleted'' sid
         (Some (JObj [(''messages'', JNum (sdr_MessageCount receipt)), (''runs'', JNum (sdr_RunCount receipt))]))) (
       tx_return receipt'))
     else tx_return receipt')))))"

datatype advance_step = Held SessionDeletionReceipt | Withdrawn SessionDeletionReceipt

definition advance_gates :: "string \<Rightarrow> unit result \<Rightarrow> SessionDeletionReceipt \<Rightarrow> advance_step wtx" where
  "advance_gates sid notes receipt =
     tx_bind (tx_gets (session_executing sid)) (\<lambda>active.
     tx_bind (tx_gets (pending_children sid)) (\<lambda>children.
     tx_bind (tx_gets (pending_artifacts sid)) (\<lambda>artifacts.
     if active then tx_bind (quiesce sid receipt) (\<lambda>r. tx_return (Held r))
     else if children then tx_bind (hold sid SessionDeletionChildPending receipt) (\<lambda>r. tx_return (Held r))
     else if artifacts then tx_bind (hold sid SessionDeletionArtifactCleanupPending receipt) (\<lambda>r. tx_return (Held r))
     else tx_bind (withdraw_rows sid notes receipt) (\<lambda>r. tx_return (Withdrawn r)))))"

definition advance_deletion :: "string \<Rightarrow> unit result \<Rightarrow> advance_step wtx" where
  "advance_deletion sid notes =
     tx_bind (find_deletion sid) (\<lambda>found.
     case found of
       None \<Rightarrow> tx_fail ErrSessionNotFound
     | Some d \<Rightarrow> if sd_state d = ''completed'' then tx_return (Held (receipt_of d)) else advance_gates sid notes (receipt_of d))"

definition markSessionDeletionFailedTx :: "string \<Rightarrow> string \<Rightarrow> bool wtx" where
  "markSessionDeletionFailedTx sid code =
     (let p = (\<lambda>d. sd_session_id d = sid \<and> sd_state d \<noteq> ''completed'') in
      tx_bind (tx_gets session_deletions) (\<lambda>rows.
      tx_then (tx_modify (\<lambda>w. w\<lparr>session_deletions := update_where p
          (\<lambda>d. d\<lparr>sd_state := ''failed_external'', sd_retryable := True, sd_error_code := Some code\<rparr>) (session_deletions w)\<rparr>)) (
      if rows_affected p rows > 0 then tx_return True
      else if list_ex (\<lambda>d. sd_session_id d = sid) rows then tx_return False
      else tx_fail ErrSessionNotFound)))"

definition markSessionDeletionCompletionFailure :: "string \<Rightarrow> string \<Rightarrow> unit wtx" where
  "markSessionDeletionCompletionFailure sid code = tx_bind (markSessionDeletionFailedTx sid code) (\<lambda>_. tx_return ())"

definition complete_deletion :: "string \<Rightarrow> unit wtx" where
  "complete_deletion sid = tx_bind now_text (\<lambda>at.
     set_deletion sid (\<lambda>d. d\<lparr>sd_state := ''completed'', sd_terminal_at := Some at, sd_deleted_at := Some at,
       sd_error_code := None, sd_retryable := False\<rparr>))"

text \<open>
  The cascade commits before the completion runs, and the completion before the receipt says so;
  each is its own transaction, and what an earlier one wrote stays.
\<close>

definition AdvanceSessionDeletion ::
  "string \<Rightarrow> unit result \<Rightarrow> unit result option \<Rightarrow> world \<Rightarrow> SessionDeletionReceipt result \<times> world" where
  "AdvanceSessionDeletion sid notes completion w =
     (case advance_deletion sid notes w of
        Inl e \<Rightarrow> (Inl e, w)
      | Inr (Held r, w') \<Rightarrow> (Inr r, w')
      | Inr (Withdrawn r, w') \<Rightarrow>
          (case completion of
             Some (Inl _) \<Rightarrow>
               (case markSessionDeletionCompletionFailure sid SessionDeletionMemoryReconcileFailed w' of
                  Inl e \<Rightarrow> (Inl e, w')
                | Inr (_, w'') \<Rightarrow> (Inr (r\<lparr>sdr_State := ''failed_external'', sdr_Retryable := True,
                    sdr_ErrorCode := SessionDeletionMemoryReconcileFailed\<rparr>), w''))
           | _ \<Rightarrow>
               (case complete_deletion sid w' of
                  Inl e \<Rightarrow> (Inl e, w')
                | Inr (_, w'') \<Rightarrow> (Inr (r\<lparr>sdr_State := ''completed'', sdr_Retryable := False, sdr_ErrorCode := ''''\<rparr>), w''))))"

section \<open>External failures\<close>

definition failure_code_required :: err where
  "failure_code_required = ErrText ''session deletion external failure code is required''"

definition MarkSessionDeletionReceiptFailure :: "string \<Rightarrow> string \<Rightarrow> unit wtx" where
  "MarkSessionDeletionReceiptFailure sid code =
     (if code = '''' then tx_fail failure_code_required
      else tx_bind (markSessionDeletionFailedTx sid code) (\<lambda>_. tx_return ()))"

definition MarkSessionDeletionSandboxFailure :: "string \<Rightarrow> string \<Rightarrow> unit wtx" where
  "MarkSessionDeletionSandboxFailure sid code =
     (if code = '''' then tx_fail failure_code_required
      else tx_bind (markSessionDeletionFailedTx sid code) (\<lambda>marked.
        if \<not> marked then tx_return ()
        else
          let p = (\<lambda>a. sb_session_id a = sid \<and> sb_policy a = SandboxArtifactPolicyDeleteOnSessionDelete
                      \<and> sb_state a \<noteq> SandboxArtifactStateDeleteFailed) in
          tx_bind (tx_gets (\<lambda>w. sort (map sb_id (filter p (sandbox_artifacts w))))) (\<lambda>artifactIDs.
          tx_then (tx_modify (\<lambda>w. w\<lparr>sandbox_artifacts := update_where p
              (\<lambda>a. a\<lparr>sb_state := SandboxArtifactStateDeleteFailed\<rparr>) (sandbox_artifacts w)\<rparr>)) (
          tx_then (tx_map (\<lambda>aid. recordAuditTx '''' ''system'' '''' ''session.artifact.cleanup.failed'' aid
              (Some (JObj [(''errorCode'', JStr code), (''policy'', JStr SandboxArtifactPolicyDeleteOnSessionDelete),
                (''state'', JStr SandboxArtifactStateDeleteFailed)]))) artifactIDs) (
          tx_return ())))))"

definition MarkSessionDeletionVaultFailure :: "string \<Rightarrow> string \<Rightarrow> unit wtx" where
  "MarkSessionDeletionVaultFailure sid code =
     (if code = '''' then tx_fail failure_code_required
      else tx_bind (markSessionDeletionFailedTx sid code) (\<lambda>marked.
        if \<not> marked then tx_return ()
        else
          let p = (\<lambda>a. vt_session_id a = sid \<and> vt_state a \<noteq> VaultArtifactStateDeleteFailed) in
          tx_bind (tx_gets (\<lambda>w. sort (map vt_id (filter p (vault_artifacts w))))) (\<lambda>artifactIDs.
          tx_then (tx_modify (\<lambda>w. w\<lparr>vault_artifacts := update_where p
              (\<lambda>a. a\<lparr>vt_state := VaultArtifactStateDeleteFailed\<rparr>) (vault_artifacts w)\<rparr>)) (
          tx_then (tx_map (\<lambda>aid. recordAuditTx '''' ''system'' '''' vaultArtifactCleanupFailedAction aid
              (Some (JObj [(''errorCode'', JStr code), (''state'', JStr VaultArtifactStateDeleteFailed)]))) artifactIDs) (
          tx_return ())))))"

section \<open>Reading\<close>

definition SessionExecutionRunIDs :: "string \<Rightarrow> string list wtx" where
  "SessionExecutionRunIDs sid = tx_gets (\<lambda>w. map run_id (sort_key (\<lambda>r. (run_created_at r, run_id r))
     (filter (\<lambda>r. run_session_id r = sid \<and> run_execution_active r) (agent_runs w))))"

definition pending_deletions :: "world \<Rightarrow> session_deletion list" where
  "pending_deletions w = sort_key sd_session_id (filter (\<lambda>d. sd_state d \<noteq> ''completed'') (session_deletions w))"

definition PendingSessionDeletionIDs :: "string list wtx" where
  "PendingSessionDeletionIDs = tx_gets (\<lambda>w. map sd_session_id (pending_deletions w))"

definition PendingSessionDeletions :: "(string \<times> string) list wtx" where
  "PendingSessionDeletions = tx_gets (\<lambda>w. map (\<lambda>d. (sd_session_id d, text_or_empty (sd_parent_session_id d))) (pending_deletions w))"

definition DelegationChildSessionIDs :: "string \<Rightarrow> string list wtx" where
  "DelegationChildSessionIDs parent = tx_gets (\<lambda>w.
     sort (remdups (map sess_id (filter (\<lambda>s. sess_parent_id s = Some parent) (sessions w))))
     @ sort (remdups (map sd_session_id (filter (\<lambda>d. sd_parent_session_id d = Some parent \<and> sd_state d \<noteq> ''completed''
         \<and> \<not> list_ex (\<lambda>s. sess_id s = sd_session_id d) (sessions w)) (session_deletions w)))))"

definition PendingSessionDeletionReceipts :: "SessionDeletionReceipt list wtx" where
  "PendingSessionDeletionReceipts = tx_gets (\<lambda>w.
     map receipt_of (filter (\<lambda>d. sd_parent_session_id d = None) (pending_deletions w)))"

definition read_receipt :: "string \<Rightarrow> SessionDeletionReceipt wtx" where
  "read_receipt sid = tx_bind (find_deletion sid) (\<lambda>found.
     case found of None \<Rightarrow> tx_fail ErrSessionNotFound | Some d \<Rightarrow> tx_return (receipt_of d))"

section \<open>Beginning ends the work\<close>

lemma cancelRunTx_ends:
  assumes "db_ok w" "cancelRunTx xi w = Inr (res, w')"
  shows "db_ok w' \<and> lineage w w' \<and> terminal_run (xri_RunID xi) w'"
proof -
  obtain v content where ap: "applyRunTransitionTx (cancelTransition xi v content) (cancelSubsidiary xi) w = Inr (res, w')"
    using terminal_writers_apply(3) [OF assms(2)] by blast
  have "terminal_run (xri_RunID xi) w'"
    using applyWith_terminal [OF assms(1) _ _ _ lines.apply_within_fuel ap [unfolded applyRunTransitionTx_def apply_fuel.simps]]
    by (simp add: lines.within_cancelSubsidiary)
  then show ?thesis using under_use [OF lines.within_cancelRunTx assms(2,1)] by blast
qed

lemma lineage_terminal: "lineage w w' \<Longrightarrow> terminal_run rid w \<Longrightarrow> terminal_run rid w'"
  by (rule run_history_terminal) (simp_all add: lineage_def)

lemma cancel_runs_end:
  assumes "db_ok w" "tx_map (\<lambda>rid. cancelRunTx (abandon_input rid)) rids w = Inr (rs, w')"
  shows "db_ok w' \<and> lineage w w' \<and> (\<forall>rid \<in> set rids. terminal_run rid w')"
  using assms
proof (induction rids arbitrary: w rs)
  case Nil
  then show ?case by (simp add: lines.P_refl)
next
  case (Cons rid rids)
  then obtain r w1 rs' where c: "cancelRunTx (abandon_input rid) w = Inr (r, w1)"
    and m: "tx_map (\<lambda>rid. cancelRunTx (abandon_input rid)) rids w1 = Inr (rs', w')"
    by (auto simp: tx_bind_Inr_iff)
  have w1: "db_ok w1 \<and> lineage w w1 \<and> terminal_run rid w1" using cancelRunTx_ends [OF Cons.prems(1) c] by (simp add: abandon_input_def)
  have w': "db_ok w' \<and> lineage w1 w' \<and> (\<forall>rid \<in> set rids. terminal_run rid w')" using Cons.IH [OF _ m] w1 by blast
  then show ?case using w1 lines.P_trans lineage_terminal by auto
qed

lemma start_deletion_Inr:
  assumes "start_deletion sid w = Inr (rc, w')"
  obtains w1 w2 u w3 w4 d where "mark_deleting sid w = Inr ((), w1)" "scrub_audit sid w1 = Inr ((), w2)"
    "cancelSessionWorkTx sid w2 = Inr (u, w3)" "same_aside w3 w4" "same_work w3 w4"
    "w' = w4\<lparr>session_deletions := session_deletions w4 @ [d]\<rparr>" "rc = receipt_of d" "sd_session_id d = sid" "sd_state d = ''quiescing''"
proof -
  obtain u1 w1 u2 w2 u w3 t w4 d where m: "mark_deleting sid w = Inr (u1, w1)" "scrub_audit sid w1 = Inr (u2, w2)"
    and c: "cancelSessionWorkTx sid w2 = Inr (u, w3)" and t: "time_Now w3 = Inr (t, w4)"
    and i: "insert_deletion d w4 = Inr ((), w')" and d: "rc = receipt_of d" "sd_session_id d = sid" "sd_state d = ''quiescing''"
    using assms unfolding start_deletion_def Let_def by (auto simp: tx_bind_Inr_iff tx_then_Inr_iff)
  have "w' = w4\<lparr>session_deletions := session_deletions w4 @ [d]\<rparr>"
    using i by (auto simp: insert_deletion_def tx_simps split: if_splits)
  then show thesis using m c d tx_withinD [OF aside_env(1) t] tx_withinD [OF idle_env(1) t] by (intro that [of w1 w2 u w3 w4 d]) auto
qed

lemma marked_unavailable:
  assumes "mark_deleting sid w = Inr (u, w')"
  shows "list_ex (\<lambda>s. sess_id s = sid) (sessions w') \<and> list_all (\<lambda>s. sess_id s = sid \<longrightarrow> sess_deletion_state s \<noteq> ''active'') (sessions w')"
    and "same_work w w'"
proof -
  let ?p = "\<lambda>s. sess_id s = sid \<and> sess_deletion_state s = ''active''"
  let ?rows = "update_where ?p (\<lambda>s. s\<lparr>sess_deletion_state := ''deleting''\<rparr>) (sessions w)"
  have w': "w' = w\<lparr>sessions := ?rows\<rparr>" and n: "filter ?p (sessions w) \<noteq> []"
    using assms by (auto simp: mark_deleting_def tx_simps Let_def rows_affected_def split: if_splits)
  show "same_work w w'" by (simp add: w' same_work_def)
  have "map sess_id ?rows = map sess_id (sessions w)" by (simp add: update_where_def)
  moreover have "sid \<in> set (map sess_id (sessions w))" using n by (auto simp: filter_empty_conv)
  ultimately have "sid \<in> set (map sess_id ?rows)" by (simp only:)
  then have "list_ex (\<lambda>s. sess_id s = sid) ?rows" unfolding list_ex_iff set_map by blast
  moreover have "list_all (\<lambda>s. sess_id s = sid \<longrightarrow> sess_deletion_state s \<noteq> ''active'') ?rows"
    unfolding list_all_iff
  proof (intro ballI impI)
    fix s assume "s \<in> set ?rows" "sess_id s = sid"
    then obtain x where "s = (if ?p x then x\<lparr>sess_deletion_state := ''deleting''\<rparr> else x)" unfolding update_where_def set_map by blast
    then show "sess_deletion_state s \<noteq> ''active''" using \<open>sess_id s = sid\<close> by (cases "?p x") auto
  qed
  ultimately show "list_ex (\<lambda>s. sess_id s = sid) (sessions w')
      \<and> list_all (\<lambda>s. sess_id s = sid \<longrightarrow> sess_deletion_state s \<noteq> ''active'') (sessions w')"
    by (simp add: w')
qed

lemma gate_of:
  assumes "map session_gate ss' = map session_gate ss" "s' \<in> set ss'"
  obtains s where "s \<in> set ss" "sess_id s = sess_id s'" "sess_deletion_state s = sess_deletion_state s'" "sess_kind s = sess_kind s'"
proof -
  have "session_gate s' \<in> set (map session_gate ss)" using assms by (metis image_eqI list.set_map)
  then show thesis using that by (auto simp: session_gate_def)
qed

text \<open>An unavailable session: every statement that needs it active is refused.\<close>

definition withdrawn_session :: "string \<Rightarrow> world \<Rightarrow> bool" where
  "withdrawn_session sid w \<longleftrightarrow> list_ex (\<lambda>s. sess_id s = sid) (sessions w)
     \<and> list_all (\<lambda>s. sess_id s = sid \<longrightarrow> sess_deletion_state s \<noteq> ''active'') (sessions w)"

lemma withdrawn_same:
  assumes "map session_gate (sessions w') = map session_gate (sessions w)" "withdrawn_session sid w"
  shows "withdrawn_session sid w'"
proof -
  obtain s where s: "s \<in> set (sessions w)" "sess_id s = sid" using assms(2) by (auto simp: withdrawn_session_def list_ex_iff)
  obtain s' where "s' \<in> set (sessions w')" "sess_id s' = sess_id s" by (rule gate_of [OF assms(1) [symmetric] s(1)])
  then have "list_ex (\<lambda>s. sess_id s = sid) (sessions w')" using s(2) by (auto simp: list_ex_iff)
  moreover have "sess_deletion_state s' \<noteq> ''active''" if "s' \<in> set (sessions w')" "sess_id s' = sid" for s'
    using gate_of [OF assms(1) that(1)] assms(2) that(2) unfolding withdrawn_session_def list_all_iff by metis
  ultimately show ?thesis by (simp add: withdrawn_session_def list_all_iff)
qed

lemma withdrawn_refused:
  assumes "withdrawn_session sid w"
  shows "requireActiveSessionTx sid w = Inl ErrSessionDeleting" "requireChatSessionTx sid w = Inl ErrSessionDeleting"
proof -
  obtain s ss where f: "filter (\<lambda>s. sess_id s = sid) (sessions w) = s # ss"
    using assms by (cases "filter (\<lambda>s. sess_id s = sid) (sessions w)") (auto simp: withdrawn_session_def list_ex_iff filter_empty_conv)
  then have "s \<in> set (filter (\<lambda>s. sess_id s = sid) (sessions w))" by simp
  then have "s \<in> set (sessions w)" "sess_id s = sid" by simp_all
  then have "sess_deletion_state s \<noteq> ''active''" using assms by (auto simp: withdrawn_session_def list_all_iff)
  then show "requireActiveSessionTx sid w = Inl ErrSessionDeleting" "requireChatSessionTx sid w = Inl ErrSessionDeleting"
    by (simp_all add: requireActiveSessionTx_def requireChatSessionTx_def query_opt_def tx_bind_def f)
qed

lemma start_deletion_withdraws:
  assumes db: "db_ok w" and run: "start_deletion sid w = Inr (rc, w')"
  shows "withdrawn_session sid w'" "r \<in> set (agent_runs w) \<Longrightarrow> run_session_id r = sid \<Longrightarrow> run_status r \<in> set live_statuses
    \<Longrightarrow> terminal_run (run_id r) w'" "sdr_State rc = ''quiescing''"
proof -
  obtain w1 w2 u w3 w4 d where m: "mark_deleting sid w = Inr ((), w1)" and s: "scrub_audit sid w1 = Inr ((), w2)"
    and c: "cancelSessionWorkTx sid w2 = Inr (u, w3)" and q: "same_aside w3 w4" "same_work w3 w4"
    and w': "w' = w4\<lparr>session_deletions := session_deletions w4 @ [d]\<rparr>" and rc: "rc = receipt_of d" "sd_state d = ''quiescing''"
    by (rule start_deletion_Inr [OF run])
  show "sdr_State rc = ''quiescing''" using rc by (simp add: receipt_of_def)
  have w2: "sessions w2 = sessions w1" "agent_runs w2 = agent_runs w" "same_work w1 w2"
    using s marked_unavailable(2) [OF m] by (auto simp: scrub_audit_def same_work_def)
  obtain rs where cr: "tx_map (\<lambda>rid. cancelRunTx (abandon_input rid)) (live_runs sid w2) w2 = Inr (rs, w3)"
    using c by (auto simp: cancelSessionWorkTx_def tx_simps)
  have db2: "db_ok w2"
  proof -
    have "approvals w2 = approvals w" "tool_calls w2 = tool_calls w" "messages w2 = messages w" "events w2 = events w"
      "delegations w2 = delegations w" "jobs w2 = jobs w"
      using m s by (auto simp: mark_deleting_def scrub_audit_def tx_simps Let_def split: if_splits)
    then show ?thesis using db w2(2) by (simp add: db_ok_def)
  qed
  have aside: "same_aside w2 w3" using cr aside.within_map [OF aside_cancelRunTx] by (rule tx_withinD [rotated])
  have "withdrawn_session sid w1" using marked_unavailable(1) [OF m] by (simp add: withdrawn_session_def)
  then have "withdrawn_session sid w2" using w2(1) by (simp add: withdrawn_session_def)
  then show "withdrawn_session sid w'" using withdrawn_same aside q(1) by (simp add: w' same_aside_def)
  assume r: "r \<in> set (agent_runs w)" "run_session_id r = sid" "run_status r \<in> set live_statuses"
  then have "run_id r \<in> set (live_runs sid w2)" using w2(2) by (auto simp: live_runs_def)
  then have "terminal_run (run_id r) w3" using cancel_runs_end [OF db2 cr] by blast
  then show "terminal_run (run_id r) w'" using q(2) by (simp add: w' terminal_run_def same_work_def)
qed

section \<open>What a withdrawal removes\<close>

text \<open>No table holds a row of the session, and none a row of a run it had.\<close>

definition no_trace :: "string \<Rightarrow> string list \<Rightarrow> world \<Rightarrow> bool" where
  "no_trace sid runs w \<longleftrightarrow>
     sid \<notin> set (map sess_id (sessions w)) \<and> sid \<notin> set (map msg_session_id (messages w))
     \<and> sid \<notin> set (map ev_session_id (events w)) \<and> sid \<notin> set (map run_session_id (agent_runs w))
     \<and> sid \<notin> set (map rc_session_id (receipts w)) \<and> sid \<notin> set (map si_SessionID (send_message_idempotency w))
     \<and> sid \<notin> set (map sx_session_id (session_external_agents w)) \<and> sid \<notin> set (map sb_session_id (sandbox_artifacts w))
     \<and> sid \<notin> set (map vt_session_id (vault_artifacts w)) \<and> Some sid \<notin> set (map ar_session_id (automations w))
     \<and> sid \<notin> set (map dg_parent_session_id (delegations w)) \<and> sid \<notin> set (map dg_child_session_id (delegations w))
     \<and> set runs \<inter> (set (map run_id (agent_runs w)) \<union> set (map job_run_id (jobs w)) \<union> set (map tc_run_id (tool_calls w))
         \<union> set (map ap_run_id (approvals w)) \<union> set (map ed_RunID (run_egress_decisions w))
         \<union> set (map arn_run_id (automation_runs w))) = {}"

lemma continuing_keeps: "set gone \<subseteq> set (continuing n rs gone)"
  by (induction n rs gone rule: continuing.induct) auto

lemma own_runs_go: "r \<in> set (agent_runs w) \<Longrightarrow> run_session_id r = sid \<Longrightarrow> run_id r \<in> set (gone_runs sid w)"
  using continuing_keeps by (fastforce simp: gone_runs_def)

lemma cascade_no_trace: "no_trace sid (gone_runs sid w) (cascade sid w)"
proof -
  have "sid \<notin> set (map run_session_id (filter (\<lambda>r. run_id r \<notin> set (gone_runs sid w)) (agent_runs w)))"
    using own_runs_go by auto
  moreover have "Some sid \<notin> set (map ar_session_id (update_where (\<lambda>a. ar_session_id a = Some sid) (\<lambda>a. a\<lparr>ar_session_id := None\<rparr>) (automations w)))"
  proof -
    have "map ar_session_id (update_where (\<lambda>a. ar_session_id a = Some sid) (\<lambda>a. a\<lparr>ar_session_id := None\<rparr>) (automations w))
      = map (\<lambda>a. if ar_session_id a = Some sid then None else ar_session_id a) (automations w)" by (simp add: update_where_def)
    then show ?thesis by (auto simp: image_iff)
  qed
  ultimately show ?thesis unfolding no_trace_def cascade_def Let_def by auto
qed

text \<open>Continuations stay in the conversation of the run they continue.\<close>

definition continuations_local :: "world \<Rightarrow> bool" where
  "continuations_local w \<longleftrightarrow> distinct (map run_id (agent_runs w))
     \<and> list_all (\<lambda>r. case run_continues_run_id r of None \<Rightarrow> True
         | Some c \<Rightarrow> list_all (\<lambda>p. run_id p = c \<longrightarrow> run_session_id p = run_session_id r) (agent_runs w)) (agent_runs w)"

lemma continuing_closed:
  assumes "\<And>r c. r \<in> set rs \<Longrightarrow> run_continues_run_id r = Some c \<Longrightarrow> c \<in> set gone \<Longrightarrow> run_id r \<in> set gone"
  shows "continuing n rs gone = gone"
  using assms
proof (induction n)
  case (Suc n)
  have "filter (\<lambda>r. run_id r \<notin> set gone \<and> (case run_continues_run_id r of None \<Rightarrow> False | Some c \<Rightarrow> c \<in> set gone)) rs = []"
    using Suc.prems by (auto simp: filter_empty_conv split: option.splits)
  then show ?case using Suc by simp
qed simp

lemma gone_runs_local:
  assumes "continuations_local w"
  shows "gone_runs sid w = map run_id (filter (\<lambda>r. run_session_id r = sid) (agent_runs w))"
  unfolding gone_runs_def
proof (rule continuing_closed)
  fix r c assume r: "r \<in> set (agent_runs w)" "run_continues_run_id r = Some c"
    and "c \<in> set (map run_id (filter (\<lambda>r. run_session_id r = sid) (agent_runs w)))"
  then obtain p where "p \<in> set (agent_runs w)" "run_id p = c" "run_session_id p = sid" by auto
  then have "run_session_id r = sid" using assms r unfolding continuations_local_def list_all_iff by fastforce
  then show "run_id r \<in> set (map run_id (filter (\<lambda>r. run_session_id r = sid) (agent_runs w)))" using r(1) by auto
qed

lemma filter_same_key:
  assumes "distinct (map key xs)"
  shows "filter (\<lambda>x. key x \<notin> set (map key (filter P xs))) xs = filter (\<lambda>x. \<not> P x) xs"
proof (rule filter_cong [OF refl])
  fix x assume x: "x \<in> set xs"
  have "y = x" if "y \<in> set xs" "key y = key x" for y using assms x that by (simp add: distinct_map inj_on_def)
  then show "(key x \<notin> set (map key (filter P xs))) = (\<not> P x)" using x by auto
qed

lemma cascade_others:
  assumes "continuations_local w"
  shows "sessions (cascade sid w) = filter (\<lambda>s. sess_id s \<noteq> sid) (sessions w)"
    and "messages (cascade sid w) = filter (\<lambda>m. msg_session_id m \<noteq> sid) (messages w)"
    and "agent_runs (cascade sid w) = filter (\<lambda>r. run_session_id r \<noteq> sid) (agent_runs w)"
    and "map (ar_session_id_update (\<lambda>_. None)) (automations (cascade sid w)) = map (ar_session_id_update (\<lambda>_. None)) (automations w)"
proof -
  show "agent_runs (cascade sid w) = filter (\<lambda>r. run_session_id r \<noteq> sid) (agent_runs w)"
    using assms filter_same_key [of run_id "agent_runs w" "\<lambda>r. run_session_id r = sid"]
    by (simp add: cascade_def Let_def gone_runs_local continuations_local_def)
qed (simp_all add: cascade_def Let_def update_where_def)

section \<open>Beginning, once\<close>

lemma begin_starts:
  assumes "BeginSessionDeletion sid w = Inr (rc, w')" "\<forall>d \<in> set (session_deletions w). sd_session_id d \<noteq> sid"
  shows "start_deletion sid w = Inr (rc, w')"
proof -
  have "find_deletion sid w = Inr (None, w)" using assms(2) by (simp add: find_deletion_def query_opt_def)
  then show ?thesis using assms(1)
    by (auto simp: BeginSessionDeletion_def beginSessionDeletion_def check_kind_def tx_bind_Inr_iff tx_then_Inr_iff split: if_splits)
qed

lemma withdrawn_refuses_sends:
  "withdrawn_session (ei_SessionID input) w \<Longrightarrow> EnqueueUserMessage skills pins input w = Inl ErrSessionDeleting"
  by (simp add: EnqueueUserMessage_def tx_then_def tx_bind_def Let_def withdrawn_refused normalizeEnqueueUserMessageInput_def)

section \<open>Advancing\<close>

lemma hold_Inr: "hold sid code rc w = Inr (rc', w') \<Longrightarrow> sdr_State rc' \<noteq> ''completed''"
  by (auto simp: hold_def set_deletion_def tx_simps)

lemma quiesce_Inr: "quiesce sid rc w = Inr (rc', w') \<Longrightarrow> sdr_State rc' \<noteq> ''completed''"
  by (auto simp: quiesce_def set_deletion_def tx_simps split: if_splits dest: hold_Inr)

lemma advance_gates_Inr:
  assumes "advance_gates sid notes r w = Inr (st, w')"
  shows "(\<exists>rc. st = Held rc \<and> sdr_State rc \<noteq> ''completed'')
    \<or> (\<exists>rc. st = Withdrawn rc \<and> \<not> session_executing sid w \<and> \<not> pending_children sid w \<and> \<not> pending_artifacts sid w
        \<and> withdraw_rows sid notes r w = Inr (rc, w'))"
proof -
  consider rc where "quiesce sid r w = Inr (rc, w')" "st = Held rc" | code rc where "hold sid code r w = Inr (rc, w')" "st = Held rc"
    | rc where "st = Withdrawn rc" "\<not> session_executing sid w" "\<not> pending_children sid w" "\<not> pending_artifacts sid w"
        "withdraw_rows sid notes r w = Inr (rc, w')"
    using assms unfolding advance_gates_def by (auto simp: tx_bind_Inr_iff split: if_splits)
  then show ?thesis by cases (use quiesce_Inr hold_Inr in blast)+
qed

lemma advance_deletion_Inr:
  assumes "advance_deletion sid notes w = Inr (st, w')"
  obtains d where "d \<in> set (session_deletions w)" "sd_session_id d = sid"
    "if sd_state d = ''completed'' then st = Held (receipt_of d) \<and> w' = w else advance_gates sid notes (receipt_of d) w = Inr (st, w')"
proof -
  obtain d w0 where f: "find_deletion sid w = Inr (Some d, w0)"
    and x: "(if sd_state d = ''completed'' then tx_return (Held (receipt_of d)) else advance_gates sid notes (receipt_of d)) w0 = Inr (st, w')"
    using assms unfolding advance_deletion_def by (auto simp: tx_bind_Inr_iff split: option.splits)
  have "d \<in> set (filter (\<lambda>d. sd_session_id d = sid) (session_deletions w))" "w0 = w"
    using query_opt_Some f unfolding find_deletion_def by fast+
  then show thesis using x by (intro that [of d]) (auto split: if_splits)
qed

lemma advance_deletion_Withdrawn:
  assumes "advance_deletion sid notes w = Inr (Withdrawn rc, w')"
  obtains d where "\<not> session_executing sid w" "\<not> pending_children sid w" "\<not> pending_artifacts sid w"
    "withdraw_rows sid notes (receipt_of d) w = Inr (rc, w')" "d \<in> set (session_deletions w)" "sd_session_id d = sid"
  using assms by (rule advance_deletion_Inr) (auto split: if_splits dest: advance_gates_Inr)

lemma advance_deletion_Held:
  assumes "advance_deletion sid notes w = Inr (Held rc, w')" "sdr_State rc = ''completed''"
  shows "\<exists>d \<in> set (session_deletions w). sd_session_id d = sid \<and> sd_state d = ''completed''"
  using assms(1) by (rule advance_deletion_Inr) (use assms(2) in \<open>auto split: if_splits dest: advance_gates_Inr\<close>)

text \<open>A deletion that this call completed passed every gate and its completion.\<close>

lemma completed_past_gates:
  assumes a: "AdvanceSessionDeletion sid notes completion w = (Inr rc, w')" and c: "sdr_State rc = ''completed''"
    and open_receipt: "\<forall>d \<in> set (session_deletions w). sd_session_id d = sid \<longrightarrow> sd_state d \<noteq> ''completed''"
  obtains r0 w1 where "advance_deletion sid notes w = Inr (Withdrawn r0, w1)" "complete_deletion sid w1 = Inr ((), w')"
    "completion = None \<or> completion = Some (Inr ())"
proof -
  show thesis
  proof (cases "advance_deletion sid notes w")
    case (Inl e)
    then show thesis using a by (simp add: AdvanceSessionDeletion_def)
  next
    case (Inr p)
    obtain st w1 where p: "p = (st, w1)" by fastforce
    show thesis
    proof (cases st)
      case (Held r)
      then show thesis using a c Inr p advance_deletion_Held open_receipt
        by (fastforce simp: AdvanceSessionDeletion_def)
    next
      case (Withdrawn r)
      then show thesis using a c Inr p that [of r w1]
        by (auto simp: AdvanceSessionDeletion_def split: option.splits sum.splits prod.splits)
    qed
  qed
qed

text \<open>The cascade reads neither receipts nor audit rows, so the writes around it do not matter to it.\<close>

lemma cascade_commutes:
  "cascade sid (w\<lparr>session_deletions := ds, audit_logs := al\<rparr>) = (cascade sid w)\<lparr>session_deletions := ds, audit_logs := al\<rparr>"
  by (simp add: cascade_def gone_runs_def Let_def)

lemma recordAuditTx_Inr:
  assumes "recordAuditTx c ty aid act tgt p w = Inr (u, w')"
  obtains al n k where "w' = w\<lparr>audit_logs := al, ulids_drawn := n, ticks := k\<rparr>"
proof -
  have "w' = w\<lparr>audit_logs := audit_logs w', ulids_drawn := ulids_drawn w', ticks := ticks w'\<rparr>"
    using assms by (auto simp: recordAuditTx_def ids_New_def now_text_def time_Now_def tx_simps split: if_splits)
  then show thesis using that by blast
qed

lemma withdraw_rows_Inr:
  assumes "withdraw_rows sid notes r w = Inr (rc, w')"
    and "list_ex (\<lambda>s. sess_id s = sid \<and> sess_deletion_state s = ''deleting'') (sessions w)"
  obtains ds al n k where "w' = (cascade sid w)\<lparr>session_deletions := ds, audit_logs := al, ulids_drawn := n, ticks := k\<rparr>"
proof -
  let ?ds = "update_where (\<lambda>d. sd_session_id d = sid)
    (\<lambda>d. d\<lparr>sd_retained_legacy_artifact_count := max (sd_retained_legacy_artifact_count d) (legacy_artifacts sid w)\<rparr>) (session_deletions w)"
  let ?w1 = "w\<lparr>session_deletions := ?ds\<rparr>"
  let ?al = "update_where (scrubbed_row sid ?w1) (\<lambda>l. l\<lparr>au_payload := Some scrubbedAuditPayload\<rparr>) (audit_logs w)"
  obtain p u where a: "recordAuditTx '''' ''client'' '''' ''session.deleted'' sid p (cascade sid (w\<lparr>session_deletions := ?ds, audit_logs := ?al\<rparr>)) = Inr (u, w')"
    using assms unfolding withdraw_rows_def set_deletion_def scrub_audit_def Let_def
    by (auto simp: tx_bind_Inr_iff tx_then_Inr_iff split: if_splits sum.splits)
  show thesis using a that by (elim recordAuditTx_Inr) (simp add: cascade_commutes)
qed

lemma completed_withdrawal:
  assumes "AdvanceSessionDeletion sid notes completion w = (Inr rc, w')" "sdr_State rc = ''completed''"
    and "\<forall>d \<in> set (session_deletions w). sd_session_id d = sid \<longrightarrow> sd_state d \<noteq> ''completed''"
    and "list_ex (\<lambda>s. sess_id s = sid \<and> sess_deletion_state s = ''deleting'') (sessions w)"
  obtains ds al n k where "w' = (cascade sid w)\<lparr>session_deletions := ds, audit_logs := al, ulids_drawn := n, ticks := k\<rparr>"
proof -
  obtain r0 w1 where a: "advance_deletion sid notes w = Inr (Withdrawn r0, w1)" and c: "complete_deletion sid w1 = Inr ((), w')"
    by (rule completed_past_gates [OF assms(1-3)])
  obtain d where "withdraw_rows sid notes (receipt_of d) w = Inr (r0, w1)" by (rule advance_deletion_Withdrawn [OF a])
  then obtain ds al n k where w1: "w1 = (cascade sid w)\<lparr>session_deletions := ds, audit_logs := al, ulids_drawn := n, ticks := k\<rparr>"
    using assms(4) by (rule withdraw_rows_Inr)
  have "w' = w1\<lparr>session_deletions := session_deletions w', ticks := ticks w'\<rparr>"
    using c by (auto simp: complete_deletion_def set_deletion_def now_text_def time_Now_def tx_simps)
  then have "w' = (cascade sid w)\<lparr>session_deletions := session_deletions w', audit_logs := al, ulids_drawn := n, ticks := ticks w'\<rparr>"
    unfolding w1 by (rule trans) simp
  then show thesis by (rule that)
qed

lemma no_trace_rest:
  "no_trace sid runs (w\<lparr>session_deletions := ds, audit_logs := al, ulids_drawn := n, ticks := k\<rparr>) = no_trace sid runs w"
  by (simp add: no_trace_def)

section \<open>Retries\<close>

text \<open>The count of files that stay never goes down, on whatever attempt the deletion completes.\<close>

lemma retained_on_receipt:
  assumes "withdraw_rows sid notes r w = Inr (rc, w')"
  shows "sdr_RetainedLegacyArtifactCount rc = max (sdr_RetainedLegacyArtifactCount r) (legacy_artifacts sid w)"
  using assms unfolding withdraw_rows_def Let_def by (auto simp: tx_bind_Inr_iff tx_then_Inr_iff split: if_splits)

section \<open>Within the store relations\<close>

context transition_relation
begin

lemma within_scrub_audit: "tx_within R (scrub_audit sid)"
  unfolding scrub_audit_def by (intro within_modify frame_keys; simp add: same_keys_def)

lemma within_beginSessionDeletion: "tx_within R (beginSessionDeletion sid kind)"
  unfolding beginSessionDeletion_def check_kind_def find_deletion_def start_deletion_def mark_deleting_def cancelSessionWorkTx_def
    insert_deletion_def Let_def
  by (intro within_intros within_env within_scrub_audit within_cancelRunTx within_modify frame_keys; simp add: same_keys_def)

lemma within_session_deletion:
  "tx_within R (BeginSessionDeletion sid)" "tx_within R (BeginDelegationSessionDeletion sid)"
  "tx_within R (MarkSessionDeletionReceiptFailure sid code)" "tx_within R (MarkSessionDeletionSandboxFailure sid code)"
  "tx_within R (MarkSessionDeletionVaultFailure sid code)"
  unfolding BeginSessionDeletion_def BeginDelegationSessionDeletion_def MarkSessionDeletionReceiptFailure_def
    MarkSessionDeletionSandboxFailure_def MarkSessionDeletionVaultFailure_def markSessionDeletionFailedTx_def Let_def
  by (intro within_beginSessionDeletion within_intros within_env within_recordAuditTx within_modify frame_keys; simp add: same_keys_def)+

end

end
