(* ===== verification/Orchestrator.thy ===== *)
theory Orchestrator
  imports ExplicitCancel Assignments Dispatch ToolCalls Enqueue SessionDeletion
begin

text \<open>
  The store as a state machine: one rule per exported transaction of the repository, and the
  states its transactions lead to in any order. SQLite runs the transactions one after another,
  so an interleaving of the orchestrator's goroutines is a sequence of these steps; a transaction
  that fails rolls back and is no step. The one transaction that removes rows of runs, the cascade of
  a withdrawn conversation, is no rule here: what holds along these steps holds until a conversation
  is withdrawn, and \<open>SessionDeletion\<close> says what the withdrawal removes.
\<close>

section \<open>One transaction\<close>

inductive store_op :: "world \<Rightarrow> world \<Rightarrow> bool" where
  complete: "CompleteRunCanonical cri w = Inr (tr, w') \<Longrightarrow> store_op w w'"
| fail: "FailRunCanonical fri w = Inr (tr, w') \<Longrightarrow> fri_allowedFrom fri = [] \<Longrightarrow> store_op w w'"
| cancel: "CancelRunCanonical xri w = Inr (tr, w') \<Longrightarrow> store_op w w'"
| user_cancel: "CancelUserRun sid rid key w = Inr (cu, w') \<Longrightarrow> store_op w w'"
| fence: "FenceRunOwnership rid v wk at w = Inr (tr, w') \<Longrightarrow> store_op w w'"
| resume_recovering: "ResumeRecoveringRun rid v wk at w = Inr (tr, w') \<Longrightarrow> store_op w w'"
| requeue_recovering: "RequeueRecoveringRun rid v at w = Inr (tr, w') \<Longrightarrow> store_op w w'"
| mark_running: "MarkRunRunning rid w = Inr (mr, w') \<Longrightarrow> store_op w w'"
| exit_acknowledged: "AcknowledgeExecutionExit rid w = Inr (ae, w') \<Longrightarrow> store_op w w'"
| create_approval: "CreateApprovalWithEvents rid tc ag tool args h ex w = Inr (ca, w') \<Longrightarrow> store_op w w'"
| approve: "ApproveApprovalWithEvent aid token comment at hashes w = Inr (aa, w') \<Longrightarrow> store_op w w'"
| expire_approval: "ExpireApprovalWithEvent aid at w = Inr (te, w') \<Longrightarrow> store_op w w'"
| deny: "DenyApprovalWithEvent aid reason at w = Inr (te, w') \<Longrightarrow> store_op w w'"
| delivery_failed: "FailApprovalDeliveryWithEvent aid at w = Inr (te, w') \<Longrightarrow> store_op w w'"
| consume: "ConsumeApprovalWithEvent aid at w = Inr (ce, w') \<Longrightarrow> store_op w w'"
| resume_approved: "ResumeApprovedRun ri w = Inr (tr, w') \<Longrightarrow> store_op w w'"
| store_preview: "StoreApprovalPreview pv refresh w = Inr (u, w') \<Longrightarrow> store_op w w'"
| observe: "ObserveQueuedRunRouting rid qreason n w = Inr (ob, w') \<Longrightarrow> store_op w w'"
| expire_queued: "ExpireQueuedRun eq w = Inr (tr, w') \<Longrightarrow> store_op w w'"
| retry: "RequeueOrFailRetryableRun rfi w = Inr (rd, w') \<Longrightarrow> store_op w w'"
| requeue_claimed: "RequeueClaimedJob jid rid w = Inr (u, w') \<Longrightarrow> store_op w w'"
| abort_pending: "AbortPendingAssignment a w = Inr (u, w') \<Longrightarrow> store_op w w'"
| abort_unsent: "AbortUnsentAssignment a w = Inr (u, w') \<Longrightarrow> store_op w w'"
| begin_send: "BeginAssignmentSend a w = Inr (u, w') \<Longrightarrow> store_op w w'"
| delivered: "MarkAssignmentDelivered a w = Inr (u, w') \<Longrightarrow> store_op w w'"
| uncertain: "MarkAssignmentDeliveryUncertain a w = Inr (u, w') \<Longrightarrow> store_op w w'"
| reconcile: "ReconcileAssignmentWithLimit a m w = Inr (rc, w') \<Longrightarrow> store_op w w'"
| recover: "RecoverAssignmentWithLimit a m w = Inr (rc, w') \<Longrightarrow> store_op w w'"
| heartbeat: "ReconcileHeartbeatAssignment a m w = Inr (rc, w') \<Longrightarrow> store_op w w'"
| recover_at_cutoff: "RecoverAssignmentAtCutoffWithLimit a c m w = Inr (rc, w') \<Longrightarrow> store_op w w'"
| renew: "RenewAssignments as t w = Inr (rn, w') \<Longrightarrow> store_op w w'"
| recover_all: "RecoverAllActiveAssignmentsWithLimit m w = Inr (ra, w') \<Longrightarrow> store_op w w'"
| claim: "ClaimNextCompatibleJobWithLimit ag lo lim d caps accepts w = Inr (cj, w') \<Longrightarrow> store_op w w'"
| tool_before: "RecordToolCallBeforeNew tcr tq w = Inr (tb, w') \<Longrightarrow> store_op w w'"
| tool_before_event: "RecordToolCallBeforeWithEvent tcr tq te w = Inr (tb', w') \<Longrightarrow> store_op w w'"
| tool_after: "RecordToolCallAfterWithEvent tca ty p w = Inr (ta, w') \<Longrightarrow> store_op w w'"
| append_event: "AppendEvent ei w = Inr (e, w') \<Longrightarrow> store_op w w'"
| enqueue: "EnqueueUserMessage skills pins emi w = Inr (em, w') \<Longrightarrow> store_op w w'"
| create_session: "CreateSession title w = Inr (cs, w') \<Longrightarrow> store_op w w'"
| rename_session: "RenameSession sid title w = Inr (sm, w') \<Longrightarrow> store_op w w'"
| archive_session: "ArchiveSession sid w = Inr (sm, w') \<Longrightarrow> store_op w w'"
| restore_session: "RestoreSession sid w = Inr (sm, w') \<Longrightarrow> store_op w w'"
| backfill_titles: "BackfillSessionTitles w = Inr (bf, w') \<Longrightarrow> store_op w w'"
| create_delegation: "CreateDelegation skills cdi w = Inr (cd, w') \<Longrightarrow> store_op w w'"
| grant_delegation: "GrantDelegationEgress did pending w = Inr (dg, w') \<Longrightarrow> store_op w w'"
| decline_delegation: "DeclineDelegationEgress did w = Inr (dg, w') \<Longrightarrow> store_op w w'"
| memory_setting: "SetMemoryEnabled b w = Inr (sme, w') \<Longrightarrow> store_op w w'"
| create_agent: "CreateExternalAgent xin w = Inr (xa, w') \<Longrightarrow> store_op w w'"
| update_agent: "UpdateExternalAgent xid xin w = Inr (xa, w') \<Longrightarrow> store_op w w'"
| delete_agent: "DeleteExternalAgent xid w = Inr (u, w') \<Longrightarrow> store_op w w'"
| set_session_agent: "SetSessionAgent sid xid w = Inr (xa, w') \<Longrightarrow> store_op w w'"
| clear_session_agent: "ClearSessionAgent sid w = Inr (u, w') \<Longrightarrow> store_op w w'"
| create_automation: "CreateAutomation ain w = Inr (am, w') \<Longrightarrow> store_op w w'"
| update_automation: "UpdateAutomation auid ain w = Inr (am, w') \<Longrightarrow> store_op w w'"
| enable_automation: "SetAutomationEnabled auid b w = Inr (am, w') \<Longrightarrow> store_op w w'"
| delete_automation: "DeleteAutomation auid w = Inr (u, w') \<Longrightarrow> store_op w w'"
| claim_automation: "ClaimDueAutomation skills pins t defaults w = Inr (fire, w') \<Longrightarrow> store_op w w'"
| begin_deletion: "BeginSessionDeletion sid w = Inr (sdr, w') \<Longrightarrow> store_op w w'"
| begin_child_deletion: "BeginDelegationSessionDeletion sid w = Inr (sdr, w') \<Longrightarrow> store_op w w'"
| deletion_failed: "MarkSessionDeletionReceiptFailure sid code w = Inr (u, w') \<Longrightarrow> store_op w w'"
| deletion_sandbox_failed: "MarkSessionDeletionSandboxFailure sid code w = Inr (u, w') \<Longrightarrow> store_op w w'"
| deletion_vault_failed: "MarkSessionDeletionVaultFailure sid code w = Inr (u, w') \<Longrightarrow> store_op w w'"

text \<open>Every transaction stays within any relation that satisfies the laws of the store.\<close>

context store_relation
begin

lemma withinD: "tx_within R m \<Longrightarrow> m w = Inr (x, w') \<Longrightarrow> R w w'"
  by (auto simp: tx_within_def)

lemma within_canonical:
  "tx_within R (CompleteRunCanonical cri)" "fri_allowedFrom fri = [] \<Longrightarrow> tx_within R (FailRunCanonical fri)"
  "tx_within R (CancelRunCanonical xri)"
  by (simp_all add: CompleteRunCanonical_def FailRunCanonical_def CancelRunCanonical_def fail_input_ok_def
      within_terminal_writers)

lemmas within_operations =
  within_canonical within_CancelUserRun within_writers within_MarkRunRunning within_AcknowledgeExecutionExit
  within_approval_operations within_ObserveQueuedRunRouting within_ExpireQueuedRun
  within_RequeueOrFailRetryableRun within_requeue_assignments within_delivery within_reconciliations
  within_RenewAssignments within_RecoverAllActiveAssignmentsWithLimit within_ClaimNextCompatibleJobWithLimit
  within_tool_calls within_AppendEvent within_EnqueueUserMessage within_session_operations within_delegations
  within_external_agents within_automation_edits within_ClaimDueAutomation within_session_deletion

lemma store_op_within: "store_op w w' \<Longrightarrow> R w w'"
  by (induction rule: store_op.induct) (erule within_operations [THEN withinD], assumption?)+

lemma store_ops_within: "store_op\<^sup>*\<^sup>* w w' \<Longrightarrow> R w w'"
  by (induction rule: rtranclp_induct) (auto intro: step_refl step_trans store_op_within)

end

text \<open>A tick of the scheduler is a sequence of transactions, when dispatching is one.\<close>

lemma tick_loop_store_ops:
  assumes "\<And>f w. store_op\<^sup>*\<^sup>* w (sr_dispatch s f w)" "tick_loop skills pins s left fired w = (e, es, w')"
  shows "store_op\<^sup>*\<^sup>* w w'"
  using assms(2)
proof (induction left arbitrary: fired w e es)
  case (Suc left)
  have d: "store_op\<^sup>*\<^sup>* w (dispatch_fire s f w)" for f w using assms(1) by (simp add: dispatch_fire_def split: option.splits)
  show ?case
  proof (cases "\<exists>fire w1. ClaimDueAutomation skills pins (sr_now s fired) (tick_defaults s) w = Inr (Some fire, w1) \<and> sr_ctx_Err s fired = None")
    case True
    then obtain fire w1 where c: "ClaimDueAutomation skills pins (sr_now s fired) (tick_defaults s) w = Inr (Some fire, w1)"
      "sr_ctx_Err s fired = None" by blast
    then have step: "store_op\<^sup>*\<^sup>* w w1" by (blast intro: store_op.claim_automation)
    obtain e2 es2 w2 where "tick_loop skills pins s left (Suc fired) (if af_Skipped fire \<or> af_Failed fire then w1 else dispatch_fire s fire w1) = (e2, es2, w2)"
      by (metis prod_cases3)
    moreover have "w2 = w'" using Suc.prems c calculation by (auto split: if_splits)
    ultimately have "store_op\<^sup>*\<^sup>* (if af_Skipped fire \<or> af_Failed fire then w1 else dispatch_fire s fire w1) w'" using Suc.IH by blast
    then show ?thesis using step d [of w1 fire] by (auto split: if_splits intro: rtranclp_trans)
  next
    case False
    then show ?thesis using Suc.prems by (auto split: option.splits sum.splits prod.splits intro: store_op.claim_automation)
  qed
qed simp

end
