(* ===== verification/ApprovalOutcomes.thy ===== *)
theory ApprovalOutcomes
  imports Orchestrator
begin

text \<open>
  What the operations on approvals promise across transactions: a spent approval stays spent, it
  is consumed before its deadline only, and a denial or an expiry ends the run that waits for it.
\<close>

section \<open>A spent approval stays spent\<close>

definition spent :: "string \<Rightarrow> world \<Rightarrow> bool" where
  "spent aid w \<longleftrightarrow> list_ex (\<lambda>a. ap_id a = aid \<and> ap_status a \<in> set [''consumed'', ''expired'']) (approvals w)"

lemma approval_le_spent:
  assumes "approval_le a a'" "ap_status a \<in> set [''consumed'', ''expired'']"
  shows "ap_id a' = ap_id a \<and> ap_status a' \<in> set [''consumed'', ''expired'']"
  using assms unfolding approval_le_def
  by (induction rule: rtranclp_induct) (auto simp: approval_step_def same_request_def status_next_def)

lemma approval_le_machine: "approval_le a a' \<Longrightarrow> same_request a a' \<and> status_next\<^sup>*\<^sup>* (ap_status a) (ap_status a')"
  unfolding approval_le_def
proof (induction rule: rtranclp_induct)
  case (step b c)
  then have "same_request a c" by (simp add: approval_step_def same_request_def)
  moreover have "status_next (ap_status b) (ap_status c)" using step.hyps(2) by (simp add: approval_step_def)
  ultimately show ?case using step.IH by (blast intro: rtranclp.rtrancl_into_rtrancl)
qed (simp add: same_request_def)

lemma spent_history: "approval_history w w' \<Longrightarrow> spent aid w \<Longrightarrow> spent aid w'"
  unfolding spent_def list_ex_iff approval_history_def by (fastforce dest: approval_le_spent)

lemma spent_ops: "db_ok w \<Longrightarrow> store_op\<^sup>*\<^sup>* w w' \<Longrightarrow> spent aid w \<Longrightarrow> db_ok w' \<and> spent aid w'"
  using requests.store_ops_within [of w w'] spent_history by (auto simp: under_def)

lemma spent_not_approved:
  assumes "db_ok w" "spent aid w" "a \<in> set (approvals w)" "ap_id a = aid"
  shows "ap_status a \<in> set [''consumed'', ''expired'']"
proof -
  obtain b where b: "b \<in> set (approvals w)" "ap_id b = aid" "ap_status b \<in> set [''consumed'', ''expired'']"
    using assms(2) unfolding spent_def list_ex_iff by blast
  have "inj_on ap_id (set (approvals w))" using assms(1) by (simp add: db_ok_def distinct_map)
  then have "a = b" using b assms(3,4) by (simp add: inj_on_def)
  then show ?thesis using b by simp
qed

lemma at_or_now_same:
  assumes "at_or_now at0 w = Inr (at, w')"
  shows "approvals w' = approvals w \<and> (db_ok w \<longrightarrow> db_ok w')"
proof -
  have "tx_within calm (at_or_now at0)"
    unfolding at_or_now_def by (intro calm.within_if calm_query calm.within_return)
  then have "calm w w'" using assms by (rule tx_withinD)
  moreover have "under run_history w w'" using history.within_at_or_now assms by (rule tx_withinD)
  ultimately show ?thesis by (simp add: calm_def under_def)
qed

lemma tx_bind_gets: "tx_bind (tx_gets g) f w = f (g w) w"
  by (simp add: tx_bind_def)

lemma tx_then_modify: "tx_then (tx_modify g) m w = m (g w)"
  by (simp add: tx_then_def tx_bind_def)

text \<open>A consumption that reports no error took an approved request before its deadline.\<close>

lemma Consume_Inr:
  assumes "ConsumeApprovalWithEvent aid at0 w = Inr ((t, None), w')"
  obtains at tm w1 a where "at_or_now at0 w = Inr (at, w1)" "time_Parse at = Inr tm"
    "a \<in> set (approvals w)" "consumable aid (UnixNano tm) a"
    "under approval_history (w1\<lparr>approvals := update_where (consumable aid (UnixNano tm))
       (\<lambda>a. a\<lparr>ap_status := ''consumed'', ap_consumed_at := Some at\<rparr>) (approvals w1)\<rparr>) w'"
proof -
  obtain at w1 tm w2 current w3 where 1: "at_or_now at0 w = Inr (at, w1)" and 2: "tx_lift (time_Parse at) w1 = Inr (tm, w2)"
    and 3: "approvalByID aid w2 = Inr (current, w3)"
    and rest: "(if ar_Status current = ''consumed'' then tx_return (unchanged_approval current, Some ErrApprovalAlreadyConsumed)
     else if ar_Status current \<noteq> ''approved'' then tx_fail (ErrText ''approval is not approved'')
     else
       let p = consumable aid (UnixNano tm) in
       tx_bind (tx_gets (\<lambda>w. rows_affected p (approvals w))) (\<lambda>changed.
       if changed \<noteq> 1 then
         (if approvalExpiredAtDecision (ar_ExpiresAt current) at then
            tx_bind (ExpireApprovalWithEvent aid at) (\<lambda>transition.
            tx_return (transition, Some ErrApprovalExpired))
          else tx_fail (ErrText ''approval is not approved''))
       else
         tx_then (tx_modify (\<lambda>w. w\<lparr>approvals := update_where p
             (\<lambda>a. a\<lparr>ap_status := ''consumed'', ap_consumed_at := Some at\<rparr>) (approvals w)\<rparr>)) (
         tx_bind (approvalByID aid) (\<lambda>rec.
         tx_bind (appendApprovalLifecycleEventTx rec ''approval.consumed'' at) (\<lambda>event.
         tx_return ((unchanged_approval rec)\<lparr>at_ApprovalEvent := Some event, at_Changed := True\<rparr>, None)))))) w3
       = Inr ((t, None), w')"
    using assms unfolding ConsumeApprovalWithEvent_def by (elim tx_bindE)
  have w2: "w2 = w1" "time_Parse at = Inr tm" using 2 by (auto simp: tx_lift_def split: sum.splits)
  have w3: "w3 = w1" using query_row_Inr [OF 3 [unfolded approvalByID_def]] w2 by simp
  let ?p = "consumable aid (UnixNano tm)"
  let ?f = "\<lambda>a. a\<lparr>ap_status := ''consumed'', ap_consumed_at := Some at\<rparr>"
  have n: "rows_affected ?p (approvals w1) = 1"
    using rest unfolding w3 by (auto simp: Let_def tx_bind_def split: if_splits sum.splits)
  with rest have fin: "tx_bind (approvalByID aid) (\<lambda>rec.
         tx_bind (appendApprovalLifecycleEventTx rec ''approval.consumed'' at) (\<lambda>event.
         tx_return ((unchanged_approval rec)\<lparr>at_ApprovalEvent := Some event, at_Changed := True\<rparr>, None)))
       (w1\<lparr>approvals := update_where ?p ?f (approvals w1)\<rparr>) = Inr ((t, None :: err option), w')"
    unfolding w3 Let_def by (simp only: tx_bind_gets tx_then_modify if_False if_True not_True_eq_False split: if_splits) simp_all
  have "filter ?p (approvals w1) \<noteq> []" using n by (auto simp: rows_affected_def)
  then obtain a where a: "a \<in> set (approvals w1)" "?p a" unfolding filter_empty_conv by blast
  have "under approval_history (w1\<lparr>approvals := update_where ?p ?f (approvals w1)\<rparr>) w'"
    using fin by (rule tx_withinD [rotated])
      (intro requests.within_bind requests.within_approvalByID requests.within_approval_events requests.within_return)
  then show thesis using that [of at w1 tm a] 1 w2(2) a at_or_now_same [OF 1] by simp
qed

lemma consume_spends:
  assumes db: "db_ok w" and run: "ConsumeApprovalWithEvent aid at0 w = Inr ((t, None), w')"
  shows "db_ok w' \<and> spent aid w'"
proof -
  obtain at tm w1 a where 1: "at_or_now at0 w = Inr (at, w1)" and a: "a \<in> set (approvals w)" "consumable aid (UnixNano tm) a"
    and u: "under approval_history (w1\<lparr>approvals := update_where (consumable aid (UnixNano tm))
       (\<lambda>a. a\<lparr>ap_status := ''consumed'', ap_consumed_at := Some at\<rparr>) (approvals w1)\<rparr>) w'"
    by (rule Consume_Inr [OF run])
  let ?p = "consumable aid (UnixNano tm)"
  let ?f = "\<lambda>a::approval. a\<lparr>ap_status := ''consumed'', ap_consumed_at := Some at\<rparr>"
  let ?v = "w1\<lparr>approvals := update_where ?p ?f (approvals w1)\<rparr>"
  note w1 = at_or_now_same [OF 1]
  have "db_ok ?v" by (rule db_ok_close(1)) (use w1 db in simp_all)
  moreover have "?f a \<in> set (approvals ?v)" using in_update_where_hit [of a "approvals w1" ?p ?f] a w1 by simp
  then have "spent aid ?v" unfolding spent_def list_ex_iff by (rule bexI [rotated]) (use a(2) in \<open>simp add: consumable_def\<close>)
  ultimately show ?thesis using u spent_history [of ?v w'] by (simp add: under_def)
qed

lemma consume_needs_approved:
  assumes "ConsumeApprovalWithEvent aid at0 w = Inr ((t, None), w')"
  shows "\<exists>a \<in> set (approvals w). ap_id a = aid \<and> ap_status a = ''approved''"
proof -
  obtain tm a where "a \<in> set (approvals w)" "consumable aid (UnixNano tm) a" by (rule Consume_Inr [OF assms])
  then show ?thesis by (auto simp: consumable_def)
qed

section \<open>A decision ends the run\<close>

lemma approvalByID_Inr:
  assumes "approvalByID aid w = Inr (rec, w')"
  shows "w' = w" "\<exists>a \<in> set (approvals w). ap_id a = aid \<and> ar_Status rec = ap_status a \<and> ar_RunID rec = ap_run_id a
    \<and> ar_ExpiresAt rec = ap_expires_at a"
  using query_row_Inr [OF assms [unfolded approvalByID_def]] by (auto simp: approval_record_def)

lemma hoare_approvalByID: "tx_hoare P (approvalByID aid) (\<lambda>_. P)"
  unfolding tx_hoare_def using approvalByID_Inr(1) by blast

text \<open>The approval has been decided with this status, for this run.\<close>

definition decided :: "string \<Rightarrow> string \<Rightarrow> string \<Rightarrow> world \<Rightarrow> bool" where
  "decided aid rid status w \<longleftrightarrow>
     list_ex (\<lambda>a. ap_id a = aid \<and> ap_run_id a = rid \<and> ap_status a = status) (approvals w)"

lemma approval_le_decided:
  assumes "approval_le a a'" "ap_status a \<in> set [''denied'', ''expired'']"
  shows "ap_id a' = ap_id a \<and> ap_run_id a' = ap_run_id a \<and> ap_status a' = ap_status a"
  using assms unfolding approval_le_def
  by (induction rule: rtranclp_induct) (auto simp: approval_step_def same_request_def status_next_def)

lemma decided_history:
  "approval_history w w' \<Longrightarrow> status \<in> set [''denied'', ''expired''] \<Longrightarrow> decided aid rid status w \<Longrightarrow> decided aid rid status w'"
  unfolding decided_def list_ex_iff approval_history_def by (fastforce dest: approval_le_decided)

definition deciding :: "string \<Rightarrow> string \<Rightarrow> string \<Rightarrow> bool \<Rightarrow> world \<Rightarrow> bool" where
  "deciding aid rid status over w \<longleftrightarrow> db_ok w \<and> status \<in> set [''denied'', ''expired''] \<and> decided aid rid status w
     \<and> (over \<longrightarrow> terminal_run rid w)"

lemma hoare_deciding:
  "tx_within (under approval_history) m \<Longrightarrow> tx_within (under run_history) m \<Longrightarrow>
   tx_hoare (deciding aid rid status over) m (\<lambda>_. deciding aid rid status over)"
  unfolding tx_hoare_def
proof (intro allI impI)
  fix w x w' assume m: "tx_within (under approval_history) m" "tx_within (under run_history) m"
    and d: "deciding aid rid status over w" and run: "m w = Inr (x, w')"
  have "under approval_history w w'" "under run_history w w'" using m run by (blast dest: tx_withinD)+
  then show "deciding aid rid status over w'"
    using d decided_history [of w w'] run_history_terminal [of w w'] by (simp add: deciding_def under_def)
qed

lemma deciding_record:
  assumes "deciding aid rid status over w" "approvalByID aid w = Inr (rec, w')"
  shows "ar_RunID rec = rid"
proof -
  obtain a where a: "a \<in> set (approvals w)" "ap_id a = aid" "ar_RunID rec = ap_run_id a"
    using approvalByID_Inr(2) [OF assms(2)] by blast
  obtain b where b: "b \<in> set (approvals w)" "ap_id b = aid" "ap_run_id b = rid"
    using assms(1) unfolding deciding_def decided_def list_ex_iff by blast
  have "inj_on ap_id (set (approvals w))" using assms(1) by (simp add: deciding_def db_ok_def distinct_map)
  then have "a = b" using a(1,2) b(1,2) by (simp add: inj_on_def)
  then show ?thesis using a(3) b(3) by simp
qed

lemma hoare_fail_approval_run:
  "tx_hoare (deciding aid (ar_RunID rec) status False) (fail_approval_run rec f b)
     (\<lambda>_. deciding aid (ar_RunID rec) status True)"
proof -
  have "tx_hoare (deciding aid (ar_RunID rec) status False)
      (tx_map_err run_not_found (failRunTx (approval_fail_input (ar_RunID rec) f b)))
      (\<lambda>_. deciding aid (ar_RunID rec) status True)"
    unfolding tx_hoare_def
  proof (intro allI impI)
    fix w x w' assume d: "deciding aid (ar_RunID rec) status False w"
      and "tx_map_err run_not_found (failRunTx (approval_fail_input (ar_RunID rec) f b)) w = Inr (x, w')"
    then have run: "failRunTx (approval_fail_input (ar_RunID rec) f b) w = Inr (x, w')"
      by (simp add: tx_map_err_def split: sum.splits)
    have db: "db_ok w" using d by (simp add: deciding_def)
    have "terminal_run (ar_RunID rec) w'"
      using failRunTx_terminal [OF db fail_input_ok_approval run] by (simp add: approval_fail_input_def)
    moreover have "deciding aid (ar_RunID rec) status False w'"
      using tx_hoareD [OF hoare_deciding [OF requests.within_failRunTx history.within_failRunTx] d run] by simp
    ultimately show "deciding aid (ar_RunID rec) status True w'" by (simp add: deciding_def)
  qed
  then show ?thesis unfolding fail_approval_run_def by (rule hoare_bind) (rule hoare_return)
qed

lemma within_both_decision_steps:
  "tx_hoare (deciding aid rid status over) (close_approval_tool_call rec0 ts code at) (\<lambda>_. deciding aid rid status over)"
  if "ts \<in> set [''failed'', ''denied'']"
  using hoare_deciding [OF requests.within_close_approval_tool_call history.within_close_approval_tool_call, OF that that] .

lemma hoare_decision_events:
  "tx_hoare (deciding aid rid status over) (if b then tx_bind (appendApprovalLifecycleEventTx rec ty at) (\<lambda>e. tx_return (Some e))
     else tx_return None) (\<lambda>_. deciding aid rid status over)"
  "tx_hoare (deciding aid rid status over) (if b then tx_bind (appendRunEventTx s r t ty' p at) (\<lambda>e. tx_return (Some e))
     else tx_return None) (\<lambda>_. deciding aid rid status over)"
  by (intro hoare_deciding; intro requests.within_if requests.within_bind requests.within_approval_events requests.within_events
      requests.within_return history.within_if history.within_bind history.within_approval_events history.within_events
      history.within_return)+

lemma hoare_record:
  assumes "\<And>rec. ar_RunID rec = rid \<Longrightarrow> tx_hoare (deciding aid rid status over) (f rec) Q"
  shows "tx_hoare (deciding aid rid status over) (tx_bind (approvalByID aid) f) Q"
  unfolding tx_hoare_def tx_bind_Inr_iff
proof (intro allI impI)
  fix w y w2 assume d: "deciding aid rid status over w" and "\<exists>x w1. approvalByID aid w = Inr (x, w1) \<and> f x w1 = Inr (y, w2)"
  then obtain rec w1 where r: "approvalByID aid w = Inr (rec, w1)" and f: "f rec w1 = Inr (y, w2)" by blast
  have "w1 = w" "ar_RunID rec = rid" using approvalByID_Inr(1) [OF r] deciding_record [OF d r] by simp_all
  then show "Q y w2" using tx_hoareD [OF assms d] f by simp
qed

lemma hoare_end_run:
  "ar_RunID rec = rid \<Longrightarrow> tx_hoare (deciding aid rid status late)
     (if \<not> late then fail_approval_run rec f b else tx_return (None, [], [], ''''))
     (\<lambda>_. deciding aid rid status True)"
  using hoare_fail_approval_run by (cases late) (auto intro: hoare_return)

text \<open>The approval a decision may still be taken on.\<close>

definition decidable_approval :: "string \<Rightarrow> string \<Rightarrow> string \<Rightarrow> bool \<Rightarrow> world \<Rightarrow> bool" where
  "decidable_approval aid rid status late w \<longleftrightarrow> db_ok w \<and> decided aid rid status w \<and> (late \<longrightarrow> terminal_run rid w)"

lemma hoare_close_approval_row:
  assumes closing: "(fromStatus, status) \<in> {(''pending'', ''denied''), (''pending'', ''expired''), (''approved'', ''expired'')}"
  shows "tx_hoare (decidable_approval aid rid fromStatus late) (close_approval_row aid fromStatus status reason at)
    (\<lambda>_. deciding aid rid status late)"
  unfolding tx_hoare_def
proof (intro allI impI)
  fix w u w1 assume d: "decidable_approval aid rid fromStatus late w"
    and row: "close_approval_row aid fromStatus status reason at w = Inr (u, w1)"
  let ?p = "\<lambda>x. ap_id x = aid \<and> ap_status x = fromStatus"
  let ?f = "closed_row status reason at"
  have w1: "w1 = w\<lparr>approvals := update_where ?p ?f (approvals w)\<rparr>"
    using row by (simp add: close_approval_row_def Let_def tx_simps expectOneRow_def expectOneRowErr_def split: if_splits)
  obtain a where a: "a \<in> set (approvals w)" "?p a" "ap_run_id a = rid"
    using d unfolding decidable_approval_def decided_def list_ex_iff by blast
  have "?f a \<in> set (approvals w1)" unfolding w1 using in_update_where_hit [of a "approvals w" ?p ?f] a(1,2) by simp
  then have "decided aid rid status w1"
    unfolding decided_def list_ex_iff by (rule bexI [rotated]) (use a in \<open>simp add: closed_row_def\<close>)
  moreover have "under run_history w w1"
    using row by (rule tx_withinD [OF history.within_close_approval_row [OF closing]])
  ultimately show "deciding aid rid status late w1"
    using d closing run_history_terminal [of w w1] by (auto simp: deciding_def decidable_approval_def under_def)
qed

lemma hoare_commit_decision:
  assumes d: "decision_ok d" "ae \<Longrightarrow> de_approvalStatus d = ''expired''"
  shows "tx_hoare (decidable_approval aid rid (if ae then ''approved'' else ''pending'') late)
    (commit_decision aid rec0 reason at d ae sid tid late) (\<lambda>_. deciding aid rid (de_approvalStatus d) True)"
proof -
  have ts: "de_toolCallStatus d \<in> set [''failed'', ''denied'']" using d by (simp add: decision_ok_def)
  have "((if ae then ''approved'' else ''pending''), de_approvalStatus d)
      \<in> {(''pending'', ''denied''), (''pending'', ''expired''), (''approved'', ''expired'')}"
    using d by (auto simp: decision_ok_def)
  then show ?thesis
    unfolding commit_decision_def
    by (intro hoare_then [OF hoare_close_approval_row] hoare_bind [OF within_both_decision_steps [OF ts]] hoare_case_prod
        hoare_record hoare_bind [OF hoare_decision_events(1)] hoare_bind [OF hoare_decision_events(2)]
        hoare_bind [OF hoare_end_run] hoare_return)
qed

lemma calm_validateLate: "tx_within calm (validateLateApprovalRuntimeFailure rec)"
  unfolding validateLateApprovalRuntimeFailure_def
  by (intro calm.within_then calm.within_if calm.within_bind calm_query calm.within_guard calm.within_return calm.within_gets)

text \<open>
  A decision that changed something: the approval was open, it carries the status the decision
  and the deadline call for, and the run that asked is over.
\<close>

lemma terminalizeApproval_ends:
  assumes db: "db_ok w" and d0: "decision_ok d0"
    and run: "terminalizeApproval aid reason at0 d0 b w = Inr (t, w')" and changed: "at_Changed t"
  shows "\<exists>a \<in> set (approvals w). \<exists>at. ap_id a = aid
    \<and> (ap_status a = ''pending'' \<or> ap_status a = ''approved'' \<and> de_approvalStatus d0 = ''expired'') \<and> (at0 \<noteq> '''' \<longrightarrow> at = at0)
    \<and> deciding aid (ap_run_id a)
        (if b \<and> approvalExpiredAtDecision (ap_expires_at a) at then ''expired'' else de_approvalStatus d0) True w'"
proof -
  obtain at w1 rec w2 where 1: "at_or_now at0 w = Inr (at, w1)" and 2: "approvalByID aid w1 = Inr (rec, w2)"
    and rest: "(if ar_Status rec = de_approvalStatus d0 then tx_return (unchanged_approval rec)
     else
       let approvedExpiration = (de_approvalStatus d0 = ''expired'' \<and> ar_Status rec = ''approved'') in
       if ar_Status rec \<noteq> ''pending'' \<and> \<not> approvedExpiration then tx_fail (ErrText ''approval is not pending'')
       else
         let d = (if b \<and> approvalExpiredAtDecision (ar_ExpiresAt rec) at
                  then expiry_decision else d0) in
         tx_bind (query_row (\<lambda>w. map (\<lambda>r. (run_session_id r, run_trace_id r, run_status r))
             (filter (\<lambda>r. run_id r = ar_RunID rec) (agent_runs w)))) (\<lambda>(sessionID, traceID, runStatus).
         let lateRuntimeFailure = (runStatus = lifecycleFailed);
             awaitingDecision = (runStatus = lifecycleWaitingApproval \<or> runStatus = lifecycleRecovering) in
         if \<not> awaitingDecision \<and> \<not> lateRuntimeFailure \<and> (\<not> approvedExpiration \<or> runStatus \<noteq> lifecycleRunning)
         then tx_fail (ErrText ''run not found for approval'')
         else
           tx_then (if lateRuntimeFailure then validateLateApprovalRuntimeFailure rec else tx_return ())
             (commit_decision aid rec reason at d approvedExpiration sessionID traceID lateRuntimeFailure))) w2 = Inr (t, w')"
    using run unfolding terminalizeApproval_def by (elim tx_bindE)
  let ?ae = "de_approvalStatus d0 = ''expired'' \<and> ar_Status rec = ''approved''"
  let ?d = "if b \<and> approvalExpiredAtDecision (ar_ExpiresAt rec) at then expiry_decision else d0"
  note w1 = at_or_now_same [OF 1] and w2 = approvalByID_Inr [OF 2]
  obtain a where a: "a \<in> set (approvals w)" "ap_id a = aid" "ar_Status rec = ap_status a" "ar_RunID rec = ap_run_id a"
      "ar_ExpiresAt rec = ap_expires_at a" using w2(2) w1 by auto
  have ne: "ar_Status rec \<noteq> de_approvalStatus d0" using rest changed by (auto simp: unchanged_approval_def)
  have op: "ar_Status rec = (if ?ae then ''approved'' else ''pending'')" using rest ne by (auto simp: Let_def split: if_splits)
  have nop: "\<not> (ar_Status rec \<noteq> ''pending'' \<and> \<not> ?ae)" using op by (auto split: if_splits)
  obtain y w3 where q: "query_row (\<lambda>w. map (\<lambda>r. (run_session_id r, run_trace_id r, run_status r))
             (filter (\<lambda>r. run_id r = ar_RunID rec) (agent_runs w))) w2 = Inr (y, w3)"
    and c: "(case y of (sid, tid, st) \<Rightarrow>
       if \<not> (st = lifecycleWaitingApproval \<or> st = lifecycleRecovering) \<and> \<not> st = lifecycleFailed \<and> (\<not> ?ae \<or> st \<noteq> lifecycleRunning)
       then tx_fail (ErrText ''run not found for approval'')
       else tx_then (if st = lifecycleFailed then validateLateApprovalRuntimeFailure rec else tx_return ())
             (commit_decision aid rec reason at ?d ?ae sid tid (st = lifecycleFailed))) w3 = Inr (t, w')"
    using rest unfolding Let_def if_not_P [OF ne] if_not_P [OF nop] by (rule tx_bindE)
  obtain sid tid st where y: "y = (sid, tid, st)" by (cases y)
  obtain u w4 where v: "(if st = lifecycleFailed then validateLateApprovalRuntimeFailure rec else tx_return ()) w3 = Inr (u, w4)"
    and com: "commit_decision aid rec reason at ?d ?ae sid tid (st = lifecycleFailed) w4 = Inr (t, w')"
    using c unfolding y prod.case by (auto elim!: tx_thenE split: if_splits)
  have w3: "w3 = w1" "st = lifecycleFailed \<Longrightarrow> terminal_run (ap_run_id a) w1"
    using query_row_Inr [OF q] w2(1) a(4) unfolding y terminal_run_def list_ex_iff by auto
  have h: "under run_history w3 w4"
    using v by (rule tx_withinD [rotated]) (intro history.within_if history.within_validateLate history.within_return)
  have "calm w3 w4"
    using v by (rule tx_withinD [rotated]) (intro calm.within_if calm_validateLate calm.within_return)
  then have "decided aid (ap_run_id a) (if ?ae then ''approved'' else ''pending'') w4"
    using a op w1 w3(1) by (auto simp: decided_def list_ex_iff calm_def)
  then have "decidable_approval aid (ap_run_id a) (if ?ae then ''approved'' else ''pending'') (st = lifecycleFailed) w4"
    using h w1 w3 db run_history_terminal [of w3 w4] by (simp add: decidable_approval_def under_def)
  then have "deciding aid (ap_run_id a) (de_approvalStatus ?d) True w'"
    using com by (rule tx_hoareD [OF hoare_commit_decision, rotated 2]) (use d0 in auto)
  then show ?thesis
    using a op 1 by (intro bexI [OF _ a(1)] exI [of _ at]) (auto simp: at_or_now_def split: if_splits)
qed

section \<open>Granting and resuming\<close>

text \<open>An approval is granted while it is pending, before its deadline, to a run that waits or runs.\<close>

lemma approve_admissible:
  assumes run: "ApproveApprovalWithEvent aid token comment at0 hashes w = Inr (t, w')" and changed: "at_Changed t"
  obtains a at where "a \<in> set (approvals w)" "ap_id a = aid" "ap_status a = ''pending''" "at0 \<noteq> '''' \<Longrightarrow> at = at0"
    "\<not> approvalExpiredAtDecision (ap_expires_at a) at"
proof -
  from run obtain at w1 where 1: "at_or_now at0 w = Inr (at, w1)"
    and r1: "tx_then (case hashes of [] \<Rightarrow> tx_return () | h # _ \<Rightarrow> checkPreviewDecision aid h) (
     tx_bind (approvalByID aid) (\<lambda>rec0.
     if ar_Status rec0 = ''approved'' then tx_return (unchanged_approval rec0)
     else if ar_Status rec0 \<noteq> ''pending'' then tx_fail (ErrText ''approval is not pending'')
     else if approvalExpiredAtDecision (ar_ExpiresAt rec0) at then tx_fail ErrApprovalExpired
     else
       tx_then (approve_row aid token comment at) (
       tx_bind (approvalByID aid) (\<lambda>rec.
       tx_bind (readRunRow (ar_RunID rec)) (\<lambda>row.
       if rr_lifecycle row \<noteq> lifecycleWaitingApproval \<and> rr_lifecycle row \<noteq> lifecycleRunning
       then tx_fail (ErrText ''run is not waiting for approval'')
       else
         tx_bind (appendApprovalRunStateEventTx rec ''approval.approved'' (runRow_state row) at) (\<lambda>event.
         tx_bind (if rr_lifecycle row = lifecycleWaitingApproval
                  then reportDelegationTx (ar_RunID rec) at else tx_return []) (\<lambda>delegation.
         tx_return ((unchanged_approval rec)\<lparr>at_ApprovalEvent := Some event, at_Changed := True,
           at_DelegationEvents := delegation\<rparr>)))))))) w1 = Inr (t, w')"
    unfolding ApproveApprovalWithEvent_def by (rule tx_bindE)
  from r1 obtain u w2 rec w3 where 2: "(case hashes of [] \<Rightarrow> tx_return () | h # _ \<Rightarrow> checkPreviewDecision aid h) w1 = Inr (u, w2)"
    and 3: "approvalByID aid w2 = Inr (rec, w3)"
    and ok: "ar_Status rec = ''pending'' \<and> \<not> approvalExpiredAtDecision (ar_ExpiresAt rec) at \<or> t = unchanged_approval rec"
    by (elim tx_thenE tx_bindE) (simp split: if_splits)
  have "tx_within calm (case hashes of [] \<Rightarrow> tx_return () | h # _ \<Rightarrow> checkPreviewDecision aid h)"
    by (cases hashes) (auto simp: checkPreviewDecision_def
        intro!: calm.within_return calm.within_bind calm.within_gets calm.within_if calm.within_fail)
  then have "approvals w2 = approvals w1" using 2 by (auto simp: calm_def dest: tx_withinD)
  moreover obtain a where "a \<in> set (approvals w2)" "ap_id a = aid" "ar_Status rec = ap_status a" "ar_ExpiresAt rec = ap_expires_at a"
    using approvalByID_Inr(2) [OF 3] by blast
  ultimately have a: "a \<in> set (approvals w)" "ap_id a = aid" "ar_Status rec = ap_status a" "ar_ExpiresAt rec = ap_expires_at a"
    using at_or_now_same [OF 1] by simp_all
  have "t \<noteq> unchanged_approval rec" using changed by (cases t) (simp add: unchanged_approval_def)
  moreover have "at0 \<noteq> '''' \<Longrightarrow> at = at0" using 1 by (simp add: at_or_now_def)
  ultimately show thesis using ok a(3,4) by (intro that [OF a(1,2), of at]) simp_all
qed

text \<open>
  A fresh transition is a compare-and-set: the row stood in a lifecycle the transition starts from,
  at the version the caller expected, under the worker and attempt it names.
\<close>

lemma check_approval_authorized:
  assumes "check_approval t w = Inr (u, w')" "ti_approvalID (rt_identity t) \<noteq> ''''" "rt_requiresAuthorizedApproval t"
  shows "\<exists>a \<in> set (approvals w). ap_id a = ti_approvalID (rt_identity t) \<and> ap_run_id a = rt_runID t
    \<and> approvalAuthorizesResume (ap_status a)"
proof -
  let ?q = "\<lambda>a. ap_id a = ti_approvalID (rt_identity t) \<and> ap_run_id a = rt_runID t"
  obtain a rest where f: "filter ?q (approvals w) = a # rest" "approvalAuthorizesResume (ap_status a)"
    using assms by (cases "filter ?q (approvals w)")
      (auto simp: check_approval_def runApprovalStatusTx_def query_opt_def tx_simps split: if_splits)
  then have "a \<in> set (filter ?q (approvals w))" by simp
  then show ?thesis using f(2) by auto
qed

lemma transition_compare_and_set:
  assumes run: "applyRunTransitionTx t subsidiary w = Inr (res, w')" and fresh: "\<not> tr_Duplicate res"
  obtains r where "r \<in> set (agent_runs w)" "run_id r = rt_runID t" "run_status r \<in> set (rt_allowedFrom t)"
    "\<not> rt_transactionLocal t \<Longrightarrow> run_state_version r = rt_expectedVersion t"
    "ti_workerID (rt_identity t) \<noteq> '''' \<Longrightarrow> run_worker_id r = Some (ti_workerID (rt_identity t))"
    "ti_assignmentAttemptID (rt_identity t) \<noteq> '''' \<Longrightarrow>
       run_execution_attempt_id r = Some (ti_assignmentAttemptID (rt_identity t))"
proof -
  have "applyWith (apply_fuel (length (delegations w))) t subsidiary w = Inr (res, w')"
    using run by (simp add: applyRunTransitionTx_def)
  from applyWith_split [OF this] fresh obtain row w0 where chk: "apply_check t w = Inr ((row, False), w0)" by blast
  note c = apply_check_Inr [OF chk]
  obtain r where r: "r \<in> set (agent_runs w)" "run_id r = rt_runID t"
    and row: "row = run_row_of r (assistant_message (rt_runID t) (messages w))"
    using readRunRow_Inr [OF c(4)] by blast
  note d = decide_transition_Inr [OF c(5)]
  have f: "rr_lifecycle row = run_status r" "rr_stateVersion row = run_state_version r"
    "rr_workerID row = text_or_empty (run_worker_id r)" "rr_attemptID row = text_or_empty (run_execution_attempt_id r)"
    by (simp_all add: row run_row_of_def)
  show thesis
    by (rule that [OF r])
      (use d in \<open>auto simp: f expected_version_def matchesTransitionIdentity_def text_or_empty_def split: option.splits\<close>)
qed

lemma apply_check_approval:
  assumes "apply_check t w = Inr ((row, dup), w')"
  shows "\<exists>u w1. check_approval t w = Inr (u, w1)"
proof -
  from assms obtain row0 w0 u1 w1 u2 w2 where rd: "readRunRow (rt_runID t) w = Inr (row0, w0)"
    and v: "tx_lift (Validate (runRow_link row0)) w0 = Inr (u1, w1)" and a: "check_approval t w1 = Inr (u2, w2)"
    unfolding apply_check_def validateRunCorrelationLink_def
    unfolding tx_then_guard unfolding tx_bind_Inr_iff tx_then_Inr_iff by blast
  have "w0 = w" using readRunRow_Inr [OF rd] by blast
  moreover have "w1 = w0" using v by (simp split: sum.splits)
  ultimately show ?thesis using a by blast
qed

lemma transition_authorized:
  assumes run: "applyRunTransitionTx t subsidiary w = Inr (res, w')" and fresh: "\<not> tr_Duplicate res"
    and "ti_approvalID (rt_identity t) \<noteq> ''''" "rt_requiresAuthorizedApproval t"
  shows "\<exists>a \<in> set (approvals w). ap_id a = ti_approvalID (rt_identity t) \<and> ap_run_id a = rt_runID t
    \<and> approvalAuthorizesResume (ap_status a)"
proof -
  have "applyWith (apply_fuel (length (delegations w))) t subsidiary w = Inr (res, w')"
    using run by (simp add: applyRunTransitionTx_def)
  from applyWith_split [OF this] fresh obtain row w0 where "apply_check t w = Inr ((row, False), w0)" by blast
  then obtain u w1 where "check_approval t w = Inr (u, w1)" using apply_check_approval by blast
  then show ?thesis using check_approval_authorized assms(3,4) by blast
qed

lemma duplicate_transition:
  assumes "applyRunTransitionTx t subsidiary w = Inr (res, w')" "tr_Duplicate res"
  shows "w' = w \<and> tr_Events res = [] \<and> run_in (rt_runID t) (rt_to t) w"
  using applyWith_split [OF assms(1) [unfolded applyRunTransitionTx_def apply_fuel.simps]] assms(2) by blast

end
