(* ===== verification/Samples.thy ===== *)
theory Samples
  imports Example ApprovalOutcomes
begin

text \<open>
  Concrete transactions on the store of \<^verbatim>\<open>Example\<close>, evaluated step by step: they show that the
  hypotheses of the properties can hold together.
\<close>

lemma case_InrE:
  assumes "case m of Inl e \<Rightarrow> False | Inr (r, w) \<Rightarrow> P r w"
  obtains r w where "m = Inr (r, w)" "P r w"
  using assms by (cases m) (auto split: prod.splits)

lemma case_Inr2E:
  assumes "case m of Inl e \<Rightarrow> False | Inr ((t, x), w) \<Rightarrow> P t x w"
  obtains t x w where "m = Inr ((t, x), w)" "P t x w"
  using assms by (cases m) (auto split: prod.splits)

definition waiting :: world where "waiting = demo ''waiting_approval'' ''queued''"
definition running :: world where "running = demo ''running'' ''queued''"

definition approved :: world where
  "approved = waiting\<lparr>approvals := [demo_approval\<lparr>ap_status := ''approved'', ap_jti := Some ''ap1'',
     ap_token := Some ''token'', ap_decided_at := Some t0\<rparr>]\<rparr>"

definition consumed :: world where
  "consumed = waiting\<lparr>approvals := [demo_approval\<lparr>ap_status := ''consumed'', ap_jti := Some ''ap1'',
     ap_token := Some ''token'', ap_decided_at := Some t0, ap_consumed_at := Some t0\<rparr>]\<rparr>"

definition demo_cancel :: CancelRunInput where
  "demo_cancel = \<lparr>xri_RunID = ''p'', xri_AssistantMessageID = '''', xri_ExpectedStateVersion = 3,
     xri_Cancellation = UserCancellation, xri_resolveVersionInTx = False, xri_queueWaitReason = ''''\<rparr>"

definition demo_fail :: FailRunInput where
  "demo_fail = \<lparr>fri_RunID = ''c'', fri_AssistantMessageID = '''', fri_ExpectedStateVersion = 3,
     fri_Failure = NormalizeFailure OriginExternalProvider ''provider_error'' RetryClassNever, fri_PreserveExecution = False,
     fri_leaveExecutionUntouched = False, fri_allowedFrom = [], fri_resolveVersionInTx = False, fri_queueWaitReason = ''''\<rparr>"

definition demo_complete :: CompleteRunInput where
  "demo_complete = \<lparr>cri_RunID = ''p'', cri_AssistantMessageID = ''m_p'', cri_Content = '''', cri_ExpectedStateVersion = 3,
     cri_Usage = None, cri_resolveVersionInTx = False\<rparr>"

lemma samples_ok: "db_ok waiting" "db_ok running" "db_ok approved" "runs_ok waiting" "approvals_ok approved"
  "db_ok (demo ''running'' ''completed'')" "db_ok consumed"
  by code_simp+

lemma cancel_runs:
  "case CancelRunCanonical demo_cancel waiting of
     Inl e \<Rightarrow> False | Inr (res, w') \<Rightarrow> \<not> tr_Duplicate res \<and> run_in ''p'' lifecycleCancelled w'"
  by code_simp

lemma cancel_past_runs:
  "case CancelRunCanonical demo_cancel (demo ''running'' ''completed'') of Inl e \<Rightarrow> False | Inr (res, w') \<Rightarrow> True"
  by code_simp

lemma fail_runs:
  "case FailRunCanonical demo_fail running of Inl e \<Rightarrow> False | Inr (res, w') \<Rightarrow> \<not> tr_Duplicate res"
  by code_simp

lemma complete_runs:
  "case CompleteRunCanonical demo_complete running of Inl e \<Rightarrow> False | Inr (res, w') \<Rightarrow> \<not> tr_Duplicate res"
  by code_simp

lemma consume_runs:
  "case ConsumeApprovalWithEvent ''ap1'' '''' approved of Inl e \<Rightarrow> False | Inr ((t, e), w') \<Rightarrow> e = None"
  by code_simp

lemma consume_at_runs:
  "case ConsumeApprovalWithEvent ''ap1'' t0 approved of Inl e \<Rightarrow> False | Inr ((t, e), w') \<Rightarrow> e = None"
  by code_simp

lemma deny_runs:
  "case DenyApprovalWithEvent ''ap1'' None t0 waiting of Inl e \<Rightarrow> False | Inr (t, w') \<Rightarrow> at_Changed t"
  by code_simp

lemma approve_runs:
  "case ApproveApprovalWithEvent ''ap1'' ''token'' None t0 [] waiting of Inl e \<Rightarrow> False | Inr (t, w') \<Rightarrow> at_Changed t"
  by code_simp

definition demo_assignment :: Assignment where
  "demo_assignment = \<lparr>as_JobID = ''j_p'', as_RunID = ''p'', as_WorkerID = ''worker'', as_AttemptID = ''attempt''\<rparr>"

definition demo_retry :: RetryableRunFailureInput where
  "demo_retry = \<lparr>ry_RunID = ''p'', ry_ExpectedStateVersion = 0, ry_WorkerID = '''', ry_AssignmentAttemptID = '''',
     ry_Failure = NormalizeFailure OriginExternalProvider ''provider_error'' RetryClassSameRunTransient, ry_MaxAttempts = 3\<rparr>"

definition demo_report :: ToolCallAfterRecord where
  "demo_report = \<lparr>tca_ToolCallID = ''tc1'', tca_RunID = ''p'', tca_ServerName = ''files'',
     tca_ToolName = ''files.write'', tca_ModelToolCallID = '''', tca_ArgsHash = ''h'', tca_WorkerID = ''worker'', tca_Status = '''',
     tca_ResultSummary = ''done'', tca_ErrorCode = '''', tca_ErrorMessage = '''', tca_DurationMS = 5\<rparr>"

lemma retry_runs:
  "case RequeueOrFailRetryableRun demo_retry running of Inl e \<Rightarrow> False | Inr (d, w') \<Rightarrow> rd_Requeued d"
  by code_simp

lemma recover_runs:
  "case RecoverAssignmentWithLimit demo_assignment 3 running of
     Inl e \<Rightarrow> False | Inr (rec, w') \<Rightarrow> \<not> ac_Fenced rec \<and> \<not> ac_AwaitingExit rec \<and> ac_Requeued rec"
  by code_simp

lemma claim_runs:
  "case ClaimNextCompatibleJobWithLimit ''turing'' ''w2'' 2 0 None None running of
     Inl e \<Rightarrow> False | Inr (c, w') \<Rightarrow> c \<noteq> None"
  by code_simp

lemma report_runs:
  "case RecordToolCallAfterWithEvent demo_report ''tool.call.completed'' None consumed of
     Inl e \<Rightarrow> False | Inr ((changed, ev), w') \<Rightarrow> changed"
  by code_simp

lemma repeated_report_runs:
  "case tx_then (RecordToolCallAfterWithEvent demo_report ''tool.call.completed'' None)
     (RecordToolCallAfterWithEvent demo_report ''tool.call.completed'' None) consumed of
     Inl e \<Rightarrow> False | Inr ((changed, ev), w') \<Rightarrow> \<not> changed"
  by code_simp

lemma user_cancel_runs:
  "case CancelUserRun ''s'' ''p'' ''key'' waiting of Inl e \<Rightarrow> False
   | Inr (res, w') \<Rightarrow> cu_Accepted res
       \<and> (case CancelUserRun ''s'' ''p'' ''key'' w' of Inl e \<Rightarrow> False | Inr (res2, w'') \<Rightarrow> True)"
  by code_simp

text \<open>One transaction of the store machine, from a store with open work to one without.\<close>

lemma sample_step:
  obtains w' where "store_op waiting w'" "run_in ''p'' lifecycleCancelled w'"
proof -
  obtain res w' where "CancelRunCanonical demo_cancel waiting = Inr (res, w')"
    "\<not> tr_Duplicate res \<and> run_in ''p'' lifecycleCancelled w'"
    by (rule case_InrE [OF cancel_runs])
  then show thesis using that store_op.cancel by blast
qed

definition demo_resume :: ResumeApprovedRunInput where
  "demo_resume = \<lparr>ri_RunID = ''p'', ri_ApprovalID = ''ap1'', ri_WorkerID = ''worker'', ri_AssignmentAttemptID = ''attempt'',
     ri_ExpectedStateVersion = 3\<rparr>"

lemma resume_runs:
  "case ResumeApprovedRun demo_resume approved of Inl e \<Rightarrow> False | Inr (res, w') \<Rightarrow> \<not> tr_Duplicate res"
  by code_simp

lemma repeated_cancel_runs:
  "case tx_then (CancelRunCanonical demo_cancel) (CancelRunCanonical demo_cancel) waiting of
     Inl e \<Rightarrow> False | Inr (res, w') \<Rightarrow> tr_Duplicate res"
  by code_simp

text \<open>A store in which the attempt budget was lowered while a run had already used more.\<close>

definition over_budget :: world where
  "over_budget = running\<lparr>jobs := map (\<lambda>j. j\<lparr>job_attempt := 5\<rparr>) (jobs running)\<rparr>"

definition demo_worker :: registeredWorkerCapabilities where
  "demo_worker = \<lparr>rw_models = [\<lparr>rm_provider = ''ollama'', rm_model = ''m'', rm_maxContextTokens = 0, rm_engine = ''''\<rparr>],
     rw_agentIDs = [''turing''], rw_tools = [''files/read''], rw_externalAgentCredentialRefs = [], rw_maxConcurrentRuns = 2,
     rw_remoteEgressDecisionVersion = 2, rw_teamProtocolVersion = 0\<rparr>"

definition demo_snapshot :: WorkerCapabilities where
  "demo_snapshot = \<lparr>pc_Models = [\<lparr>pm_Provider = MODEL_PROVIDER_OLLAMA, pm_Model = ''m'', pm_MaxContextTokens = 8, pm_Engine = ''''\<rparr>],
     pc_AgentIds = [AGENT_ID_GENERAL_ASSISTANT], pc_Tools = [], pc_MaxConcurrentRuns = 2, pc_ExternalAgentCredentialRefs = [],
     pc_RemoteEgressDecisionVersion = 3, pc_TeamProtocolVersion = 1\<rparr>"

definition demo_payload :: json where
  "demo_payload = JObj [(''userText'', JStr ''hello''), (''requestedTools'', JArr [JStr ''files/read'']),
     (''egressDecision'', JObj [])]"

definition demo_claimed :: Job where
  "demo_claimed = claimed_job (demo_job ''p'' ''in_progress'') ((demo_run ''p'' ''s'' ''running'')\<lparr>run_model_provider := ''ollama''\<rparr>)
     (case decode_payload demo_payload of Some p \<Rightarrow> p)"

end
