(* ===== verification/TurnSamples.thy ===== *)
theory TurnSamples
  imports Samples TurnOutcomes
begin

text \<open>
  Concrete sends and delegations on the store of \<^verbatim>\<open>Example\<close>. Digests stay symbolic in these
  evaluations: a digest is only known not to be empty.
\<close>

definition digest_head :: "string \<Rightarrow> char" where "digest_head s = hd (sha256_hex s)"
definition digest_tail :: "string \<Rightarrow> string" where "digest_tail s = tl (sha256_hex s)"

declare sha256_hex_code [code del] digest_head_def [code del] digest_tail_def [code del]

lemma sha256_hex_split: "sha256_hex s = digest_head s # digest_tail s"
  using length_sha256_hex [of s] by (cases "sha256_hex s") (simp_all add: digest_head_def digest_tail_def)

lemma sha256_hex_symbolic [code]:
  "sha256_hex [] = ''e3b0c44298fc1c149afbf4c8996fb92427ae41e4649b934ca495991b7852b855''"
  "sha256_hex (c # s) = digest_head (c # s) # digest_tail (c # s)"
  by (rule sha256_hex_empty, rule sha256_hex_split)

section \<open>Sends\<close>

definition demo_url :: "string \<Rightarrow> URL" where
  "demo_url host = \<lparr>url_Scheme = ''https'', url_Opaque = '''', url_User = False, url_Host = host, url_Path = '''', url_RawPath = '''',
     url_ForceQuery = False, url_RawQuery = '''', url_Fragment = ''''\<rparr>"

definition demo_network :: net_library where
  "demo_network = \<lparr>url_Parse = (\<lambda>s. if s = ''https://llm.example'' then Some (demo_url ''llm.example'') else None),
     url_String = (\<lambda>u. url_Scheme u @ ''://'' @ url_Host u), netip_ParseAddr = (\<lambda>_. None), strings_ToLower = id\<rparr>"

definition online :: world where "online = running\<lparr>net_lib := demo_network\<rparr>"

definition demo_send :: EnqueueUserMessageInput where
  "demo_send = \<lparr>ei_SessionID = ''s'', ei_Content = ''hi'', ei_ContentType = '''', ei_AgentID = ''turing'', ei_ModelProvider = ''ollama'',
     ei_Model = ''m'', ei_RequestedModel = '''', ei_ExecutionModel = '''', ei_IdempotencyKey = ''k'', ei_RequestedTools = [],
     ei_SelectedTools = [], ei_RequiredContextTokens = 0, ei_MinimumWorkerMaxConcurrentRuns = 0, ei_EgressDecision = None,
     ei_TeamRoster = [], ei_TeamContinuation = \<lparr>tcn_Tools = [], tcn_ResultMaxBytes = 0\<rparr>, ei_ValidateRouting = None\<rparr>"

text \<open>Without a vault the pinned documents are withheld.\<close>

definition demo_memory :: "string list \<Rightarrow> MemorySnapshot" where
  "demo_memory tools = Preimage \<lparr>mg_Enabled = True, mg_Persona = withheldPinnedDocument PersonaFileName ''vault_missing'',
     mg_Profile = withheldPinnedDocument ProfileFileName ''vault_missing''\<rparr> tools"

definition demo_decision :: PendingEgressDecision where
  "demo_decision = \<lparr>pd_Version = 3, pd_ChallengeNonce = ''n'', pd_ChallengeFingerprint = ''f'', pd_RequestDigest = ''d'',
     pd_Provider = ''openai_compatible'', pd_Model = ''gpt'', pd_ExternalAgentID = '''', pd_ExternalCredentialRefHash = '''',
     pd_Endpoint = ''https://llm.example'', pd_EndpointHost = ''llm.example'',
     pd_DataCategories = [''EGRESS_DATA_CATEGORY_CURRENT_MESSAGE''], pd_SelectedTools = [],
     pd_SkillSnapshotFingerprint = skillSnapshotFingerprint [], pd_RecallApplicable = False, pd_MemoryProfileApplicable = False,
     pd_MemorySnapshotFingerprint = MemorySnapshotFingerprint (demo_memory []), pd_ConsentGrantedAt = t0,
     pd_RemoteMCPServers = [], pd_IntegrationEndpoints = []\<rparr>"

definition demo_remote :: EnqueueUserMessageInput where
  "demo_remote = demo_send\<lparr>ei_ModelProvider := ''openai_compatible'', ei_Model := ''gpt'', ei_EgressDecision := Some demo_decision\<rparr>"

lemma send_runs:
  "case EnqueueUserMessage (Inr []) None demo_send running of Inl e \<Rightarrow> False
   | Inr (res, w') \<Rightarrow> \<not> eu_Replayed res \<and> length (send_message_idempotency w') = 1
       \<and> (case requireChatSessionTx ''s'' w' of Inl _ \<Rightarrow> False | Inr _ \<Rightarrow> True)"
  by code_simp

lemma remote_send_runs:
  "case EnqueueUserMessage (Inr []) None demo_remote online of Inl e \<Rightarrow> False
   | Inr (res, w') \<Rightarrow> \<not> eu_Replayed res \<and> list_ex (\<lambda>r. run_id r = eu_RunID res \<and> run_model_provider r = ''openai_compatible'') (agent_runs w')"
  by code_simp

section \<open>Delegations\<close>

definition team :: world where
  "team = running\<lparr>tool_rows := [\<lparr>tl_server_name = ''team'', tl_tool_name = ''team.delegate'', tl_policy = ''auto'', tl_mcp_server_id = None, tl_present = True\<rparr>],
     agent_profile_settings := [\<lparr>ps_profile_id = ''coder'', ps_enabled = True, ps_granted_revision = Some ''1''\<rparr>]\<rparr>"

definition demo_task :: CreateDelegationInput where
  "demo_task = \<lparr>cd_ParentRunID = ''p'', cd_AssignmentAttemptID = ''attempt'', cd_ToolCallID = ''tc9'', cd_ArgsHash = ''h'', cd_Policy = ''auto'',
     cd_MaxPerRun = 4, cd_Profile = \<lparr>ag_ProfileID = ''coder'', ag_Revision = ''1'', ag_DisplayName = ''Coder'', ag_Emoji = '''', ag_Instructions = '''', ag_MaxToolCalls = 5\<rparr>,
     cd_SkillPatterns = [], cd_ModelProvider = ''ollama'', cd_Model = ''m'', cd_SelectedTools = [], cd_Brief = ''b'', cd_Task = ''t'',
     cd_EgressTools = [''web/fetch''], cd_EgressRequired = False\<rparr>"

lemma delegation_runs:
  "case CreateDelegation (Inr []) demo_task team of Inl e \<Rightarrow> False | Inr (res, w') \<Rightarrow> \<not> cr_Replayed res"
  by code_simp

text \<open>A task that waits for consent, and the decision that grants it.\<close>

definition consenting :: world where
  "consenting = running\<lparr>net_lib := demo_network,
     delegations := [demo_delegation\<lparr>dg_egress_tools := JArr [JStr ''web/fetch''], dg_egress_consent := ''pending''\<rparr>]\<rparr>"

definition demo_grant :: PendingEgressDecision where
  "demo_grant = demo_decision\<lparr>pd_Provider := ''ollama'', pd_Model := ''m'', pd_Endpoint := '''', pd_EndpointHost := '''',
     pd_SelectedTools := [''web/fetch''], pd_MemorySnapshotFingerprint := MemorySnapshotFingerprint (Preimage no_memory [''web/fetch'']),
     pd_RemoteMCPServers := [\<lparr>re_ServerName = ''web'', re_Endpoint = ''https://llm.example'', re_EndpointHost = ''llm.example''\<rparr>]\<rparr>"

lemma grant_runs:
  "case GrantDelegationEgress ''d1'' (Some demo_grant) consenting of Inl e \<Rightarrow> False | Inr (res, w') \<Rightarrow> True"
  by code_simp

section \<open>Pages\<close>

definition two_chats :: world where
  "two_chats = running\<lparr>sessions := [demo_session ''a'' ''chat'', demo_session ''b'' ''chat'']\<rparr>"

lemma first_page_runs:
  "case ListSessionsPage \<lparr>ls_Filter = ''active'', ls_After = None, ls_Limit = 1\<rparr> two_chats of Inl e \<Rightarrow> False
   | Inr (page, w') \<Rightarrow> page = [demo_session ''b'' ''chat'']"
  by code_simp

lemma second_page_runs:
  "case ListSessionsPage (\<lparr>ls_Filter = ''active'', ls_After = None, ls_Limit = 1\<rparr>
       \<lparr>ls_After := Some \<lparr>scu_UpdatedAt = t0, scu_SessionID = ''b''\<rparr>\<rparr>) two_chats of Inl e \<Rightarrow> False
   | Inr (page, w') \<Rightarrow> page = [demo_session ''a'' ''chat'']"
  by code_simp

lemma chats_in_order:
  "rev (sort_key session_key (filter (listed ''active'') (sessions two_chats))) = [demo_session ''b'' ''chat'', demo_session ''a'' ''chat'']"
  by code_simp

end
