(* ===== verification/AutomationOutcomes.thy ===== *)
theory AutomationOutcomes
  imports Automations Aside
begin

text \<open>
  What a claim leaves behind: the schedule has moved past the occurrence, no run is queued while the
  last one is unfinished, a queued run is local, and its grant is the allowlist of that moment.
\<close>

section \<open>The row that was claimed\<close>

text \<open>
  Only the claimed row's schedule changes in a claim: every other automation keeps its row, and every
  statement after the compare-and-set keeps all the due times.
\<close>

definition due_state :: "automation_row \<Rightarrow> string \<times> bool \<times> string option" where
  "due_state a = (ar_id a, ar_enabled a, ar_next_due_at a)"

definition lined_up :: "string \<Rightarrow> world \<Rightarrow> world \<Rightarrow> bool" where
  "lined_up aid w w' \<longleftrightarrow> map due_state (automations w') = map due_state (automations w)
     \<and> filter (\<lambda>x. ar_id x \<noteq> aid) (automations w') = filter (\<lambda>x. ar_id x \<noteq> aid) (automations w)"

interpretation lined: tx_relation "lined_up aid" for aid
  by unfold_locales (simp_all add: lined_up_def)

lemma aside_lined: "tx_within same_aside m \<Longrightarrow> tx_within (lined_up aid) m"
  by (auto simp: tx_within_def same_aside_def lined_up_def)

lemma filter_update_other: "filter (\<lambda>x. key x \<noteq> k) (map (\<lambda>x. if key x = k then f x else x) xs) = filter (\<lambda>x. key x \<noteq> k) xs"
  if "\<And>x. key (f x) = key x"
  using that by (induction xs) auto

lemma lined_update:
  assumes "\<And>x. due_state (f x) = due_state x"
  shows "tx_within (lined_up aid) (tx_modify (\<lambda>w. w\<lparr>automations := update_where (\<lambda>x. ar_id x = aid) f (automations w)\<rparr>))"
proof -
  have "ar_id (f x) = ar_id x" for x using assms [of x] by (simp add: due_state_def)
  then show ?thesis using assms
    by (intro lined.within_modify) (simp add: lined_up_def update_where_def filter_update_other)
qed

lemma lined_insert_session: "tx_within (lined_up aid) (insert_session s)"
  by (auto simp: tx_within_def lined_up_def insert_session_def tx_simps split: if_splits)

lemma lined_steps:
  "tx_within (lined_up (ar_id a)) (automationSessionTx a)" "tx_within (lined_up (ar_id a)) (freeze_grant a rid firedAt)"
  "tx_within (lined_up aid) (blocked_audit a action p)" "tx_within (lined_up aid) (enqueueUserMessageTx skills pins input)"
  unfolding automationSessionTx_def freeze_grant_def automationSessionActiveTx_def allowedToolsTx_def blocked_audit_def
  by (intro lined.within_intros lined_update aside_lined [OF aside_recordAuditTx] aside_lined [OF aside_enqueueUserMessageTx]
      aside_lined [OF aside_env(2)] aside_lined [OF aside_env(3)] lined_insert_session lined.within_modify;
      simp add: due_state_def lined_up_def)+

lemma advance_Inr:
  assumes "advance a f w = Inr (True, w')"
  shows "w' = w\<lparr>automations := update_where (\<lambda>x. ar_id x = ar_id a \<and> ar_enabled x \<and> ar_next_due_at x = ar_next_due_at a) f (automations w)\<rparr>"
  using assms by (simp add: advance_def Let_def tx_simps)

lemma pass_over_Inr:
  assumes "pass_over a nextDue firedAt audit fire w = Inr (Some f, w')"
  obtains w1 u where "advance a (moved_on nextDue firedAt) w = Inr (True, w1)" "audit w1 = Inr (u, w')" "f = fire"
  using assms unfolding pass_over_def by (auto simp: tx_bind_Inr_iff tx_then_Inr_iff split: if_splits)

lemma fire_automation_Inr:
  assumes "fire_automation skills pins defaults a nextDue firedAt w = Inr (Some f, w')"
  obtains w1 sid w2 enqueued w3 where
    "advance a (\<lambda>x. (moved_on nextDue firedAt x)\<lparr>ar_last_run_at := Some firedAt\<rparr>) w = Inr (True, w1)"
    "automationSessionTx a w1 = Inr (sid, w2)"
    "enqueueUserMessageTx skills pins (automation_turn defaults sid (ar_prompt a)) w2 = Inr (enqueued, w3)"
    "freeze_grant a (eu_RunID enqueued) firedAt w3 = Inr ((), w')"
    "af_AutomationID f = ar_id a" "af_RunID f = eu_RunID enqueued" "\<not> af_Skipped f" "\<not> af_Failed f"
  using assms unfolding fire_automation_def passed_fire_def by (auto simp: tx_bind_Inr_iff tx_then_Inr_iff split: if_splits)

text \<open>A claim either switched the automation off, or set its due time to the one its schedule computes.\<close>

definition moved_to :: "string \<Rightarrow> string option \<Rightarrow> world \<Rightarrow> world \<Rightarrow> bool" where
  "moved_to aid next w w' \<longleftrightarrow>
     (\<forall>x \<in> set (automations w'). ar_id x = aid \<longrightarrow> (case next of None \<Rightarrow> \<not> ar_enabled x | Some d \<Rightarrow> ar_next_due_at x = Some d))
     \<and> filter (\<lambda>x. ar_id x \<noteq> aid) (automations w') = filter (\<lambda>x. ar_id x \<noteq> aid) (automations w)"

lemma moved_to_lined: "moved_to aid nd w w1 \<Longrightarrow> lined_up aid w1 w' \<Longrightarrow> moved_to aid nd w w'"
proof -
  assume m: "moved_to aid nd w w1" and l: "lined_up aid w1 w'"
  have rows: "due_state ` set (automations w') = due_state ` set (automations w1)" using l unfolding lined_up_def by (metis set_map)
  have "case nd of None \<Rightarrow> \<not> ar_enabled x | Some d \<Rightarrow> ar_next_due_at x = Some d"
    if x: "x \<in> set (automations w')" "ar_id x = aid" for x
  proof -
    obtain y where "y \<in> set (automations w1)" "due_state y = due_state x" using rows x(1) by (metis image_iff)
    then show ?thesis using m x(2) unfolding moved_to_def due_state_def by (cases nd) auto
  qed
  then show ?thesis using m l unfolding moved_to_def lined_up_def by simp
qed

lemma advance_moves:
  assumes adv: "advance a f w = Inr (True, w')" and a: "a \<in> set (automations w)" "ar_enabled a"
    and d: "distinct (map ar_id (automations w))" and f: "\<And>x. ar_id (f x) = ar_id x \<and> ar_next_due_at (f x) = Some nd"
  shows "moved_to (ar_id a) (Some nd) w w'"
proof -
  have same: "x = a" if "x \<in> set (automations w)" "ar_id x = ar_id a" for x using d a(1) that by (metis distinct_map inj_on_eq_iff)
  have rows: "automations w' = map (\<lambda>x. if ar_id x = ar_id a then f x else x) (automations w)"
    unfolding advance_Inr [OF adv] update_where_def using same a(2) by (auto intro!: map_cong)
  show ?thesis unfolding moved_to_def rows using f by (auto simp: filter_update_other)
qed

lemma dry_resolveEnqueueRouteTx: "tx_within (\<lambda>w w'. w' = w) (resolveEnqueueRouteTx input)"
  unfolding resolveEnqueueRouteTx_def sessionExternalAgentTx_def
  by (intro dry.within_intros) (auto simp: tx_within_def query_opt_def split: list.splits sum.splits)

lemma dry_automation_route: "tx_within (\<lambda>w w'. w' = w) (automation_route defaults a)"
proof (rule tx_withinI)
  fix w route w' assume "automation_route defaults a w = Inr (route, w')"
  then show "w' = w" using dry_resolveEnqueueRouteTx [THEN tx_withinD]
    unfolding automation_route_def automationSessionActiveTx_def
    by (fastforce simp: tx_bind_Inr_iff split: option.splits if_splits sum.splits prod.splits)
qed

text \<open>How a claim of one row ends: switched off, passed over, or fired.\<close>

definition quiet_audit :: "automation_row \<Rightarrow> unit wtx \<Rightarrow> bool" where
  "quiet_audit a audit \<longleftrightarrow> tx_within (lined_up (ar_id a)) audit \<and> tx_within same_work audit"

lemma quiet_audits [simp]: "quiet_audit a (tx_return ())" "quiet_audit a (blocked_audit a action p)"
proof -
  show "quiet_audit a (tx_return ())" unfolding quiet_audit_def by (intro conjI lined.within_return idle.within_return)
  have "tx_within same_work (blocked_audit a action p)" unfolding blocked_audit_def recordAuditTx_def
    by (intro idle.within_intros idle.within_modify idle_env) (simp add: same_work_def)
  then show "quiet_audit a (blocked_audit a action p)" unfolding quiet_audit_def using lined_steps(3) by blast
qed

definition passed_over :: "automation_row \<Rightarrow> AutomationFire \<Rightarrow> bool" where
  "passed_over a f \<longleftrightarrow> af_AutomationID f = ar_id a \<and> (af_Skipped f \<or> af_Failed f)"

lemma passed_over_fires [simp]: "passed_over a (skipped_fire a reason)" "passed_over a (failed_fire a code)"
  by (simp_all add: passed_over_def skipped_fire_def failed_fire_def passed_fire_def)

lemma take_route_cases:
  assumes "take_route skills pins defaults a nd at route w = Inr (Some f, w')"
  obtains audit fire where "pass_over a nd at audit fire w = Inr (Some f, w')" "quiet_audit a audit" "passed_over a fire"
  | "fire_automation skills pins defaults a nd at w = Inr (Some f, w')"
  using assms unfolding take_route_def Let_def
  by (auto split: option.splits if_splits intro: quiet_audits passed_over_fires)

lemma claim_row_cases:
  assumes c: "claim_row skills pins at defaults a w = Inr (Some f, w')"
  obtains (unreadable) "disable_unreadable a (FormatTimestamp at) w = Inr (Some f, w')"
  | (passed) s due n audit fire where "row_schedule a = Inr s" "time_Parse (text_or_empty (ar_next_due_at a)) = Inr due"
      "NextDueAfterFiring s due at = Inr n" "pass_over a (FormatTimestamp n) (FormatTimestamp at) audit fire w = Inr (Some f, w')"
      "quiet_audit a audit" "passed_over a fire"
  | (fired) s due n where "row_schedule a = Inr s" "time_Parse (text_or_empty (ar_next_due_at a)) = Inr due"
      "NextDueAfterFiring s due at = Inr n"
      "fire_automation skills pins defaults a (FormatTimestamp n) (FormatTimestamp at) w = Inr (Some f, w')"
      "\<forall>st. last_run_status a w = Some st \<longrightarrow> isTerminalRunStatus st"
proof (cases "\<exists>s due. row_schedule a = Inr s \<and> time_Parse (text_or_empty (ar_next_due_at a)) = Inr due")
  case False
  then show thesis using c by (intro unreadable) (auto simp: claim_row_def Let_def split: sum.splits)
next
  case True
  then obtain s due where s: "row_schedule a = Inr s" "time_Parse (text_or_empty (ar_next_due_at a)) = Inr due" by auto
  let ?busy = "\<exists>st. last_run_status a w = Some st \<and> \<not> isTerminalRunStatus st"
  from c obtain n where n: "NextDueAfterFiring s due at = Inr n"
    and rest: "?busy \<and> pass_over a (FormatTimestamp n) (FormatTimestamp at) (tx_return ()) (skipped_fire a SkippedPreviousRunUnfinished) w = Inr (Some f, w')
      \<or> \<not> ?busy \<and> (\<exists>route w0. automation_route defaults a w = Inr (route, w0)
          \<and> take_route skills pins defaults a (FormatTimestamp n) (FormatTimestamp at) route w0 = Inr (Some f, w'))"
    by (auto simp: claim_row_def Let_def s tx_bind_Inr_iff split: sum.splits if_splits option.splits)
  show thesis using rest
  proof (elim disjE exE conjE)
    fix route w0 assume free: "\<not> ?busy" and r: "automation_route defaults a w = Inr (route, w0)"
      and t: "take_route skills pins defaults a (FormatTimestamp n) (FormatTimestamp at) route w0 = Inr (Some f, w')"
    have "w0 = w" using dry_automation_route r by (rule tx_withinD)
    with t show thesis using passed [OF s n] fired [OF s n] free by (auto elim!: take_route_cases)
  qed (rule passed [OF s n], assumption, simp_all)
qed

lemma claim_row_moves:
  assumes c: "claim_row skills pins at defaults a w = Inr (Some f, w')"
    and a: "a \<in> set (automations w)" "ar_enabled a" and d: "distinct (map ar_id (automations w))"
  obtains (off) "moved_to (ar_id a) None w w'"
  | (armed) s due n where "row_schedule a = Inr s" "time_Parse (text_or_empty (ar_next_due_at a)) = Inr due"
      "NextDueAfterFiring s due at = Inr n" "moved_to (ar_id a) (Some (FormatTimestamp n)) w w'"
  using c
proof (cases rule: claim_row_cases)
  case unreadable
  then show thesis by (intro off) (auto simp: disable_unreadable_def moved_to_def update_where_def tx_simps filter_update_other)
next
  case (passed s due n audit fire)
  obtain w1 u where w1: "advance a (moved_on (FormatTimestamp n) (FormatTimestamp at)) w = Inr (True, w1)" and u: "audit w1 = Inr (u, w')"
    by (rule pass_over_Inr [OF passed(4)])
  have "moved_to (ar_id a) (Some (FormatTimestamp n)) w w1" using w1 a d by (intro advance_moves) (auto simp: moved_on_def)
  moreover have "lined_up (ar_id a) w1 w'" using passed(5) u unfolding quiet_audit_def by (blast dest: tx_withinD)
  ultimately show thesis using passed(1-3) by (intro armed) (auto intro: moved_to_lined)
next
  case (fired s due n)
  obtain w1 sid w2 enqueued w3 where
    w1: "advance a (\<lambda>x. (moved_on (FormatTimestamp n) (FormatTimestamp at) x)\<lparr>ar_last_run_at := Some (FormatTimestamp at)\<rparr>) w = Inr (True, w1)"
    and steps: "automationSessionTx a w1 = Inr (sid, w2)"
      "enqueueUserMessageTx skills pins (automation_turn defaults sid (ar_prompt a)) w2 = Inr (enqueued, w3)"
      "freeze_grant a (eu_RunID enqueued) (FormatTimestamp at) w3 = Inr ((), w')"
    by (rule fire_automation_Inr [OF fired(4)])
  have "moved_to (ar_id a) (Some (FormatTimestamp n)) w w1" using w1 a d by (intro advance_moves) (auto simp: moved_on_def)
  then have "moved_to (ar_id a) (Some (FormatTimestamp n)) w w'"
    using moved_to_lined tx_withinD [OF lined_steps(1) steps(1)] tx_withinD [OF lined_steps(4) steps(2)]
      tx_withinD [OF lined_steps(2) steps(3)] by blast
  then show thesis using fired(1-3) by (intro armed)
qed

section \<open>Claims\<close>

lemma ClaimDueAutomation_Some:
  assumes "ClaimDueAutomation skills pins at defaults w = Inr (Some f, w')"
  obtains a where "a \<in> set (automations w)" "is_due at a" "claim_row skills pins at defaults a w = Inr (Some f, w')"
proof -
  from assms obtain a w1 where d: "due_automation at w = Inr (Some a, w1)" and c: "claim_row skills pins at defaults a w1 = Inr (Some f, w')"
    unfolding ClaimDueAutomation_def by (auto simp: tx_bind_Inr_iff split: sum.splits prod.splits option.splits)
  have "a \<in> set (sort_key (\<lambda>a. (text_or_empty (ar_next_due_at a), ar_id a)) (filter (is_due at) (automations w)))" "w1 = w"
    using query_opt_Some d unfolding due_automation_def by fast+
  then show thesis using c by (intro that [of a]) auto
qed

lemma claim_row_id:
  assumes "claim_row skills pins at defaults a w = Inr (Some f, w')"
  shows "af_AutomationID f = ar_id a"
  using assms
proof (cases rule: claim_row_cases)
  case unreadable
  then show ?thesis by (auto simp: disable_unreadable_def skipped_fire_def passed_fire_def tx_simps)
qed (auto simp: passed_over_def elim: pass_over_Inr fire_automation_Inr)

text \<open>
  The instants the scheduler works with: a clock between 1970 and a week before the largest instant
  an \<^verbatim>\<open>int64\<close> of nanoseconds holds, and due times written by this repository in the same era.
\<close>

definition clock_era :: "int \<Rightarrow> bool" where
  "clock_era t \<longleftrightarrow> unix_epoch \<le> t \<and> t \<le> unix_epoch + MaxInt64 - MaxAutomationInterval"

definition schedules_ok :: "world \<Rightarrow> bool" where
  "schedules_ok w \<longleftrightarrow> distinct (map ar_id (automations w))
     \<and> list_all (\<lambda>a. \<forall>d. ar_next_due_at a = Some d \<longrightarrow> (\<exists>t. clock_era t \<and> d = FormatTimestamp t)) (automations w)"

lemma clock_era_range: "clock_era t \<Longrightarrow> in_range t"
  by (simp add: clock_era_def in_range_def unix_epoch_def minInstant_def maxInstant_def MaxInt64_def MaxAutomationInterval_def day_nanos_def)

lemma time_Parse_Format: "in_range t \<Longrightarrow> time_Parse (FormatTimestamp t) = Inr t"
  using ParseLegacy_Format [of t]
  by (auto simp: ParseLegacy_def time_Parse_def FormatTimestamp_def split: if_splits option.splits)

lemma next_due_in_range:
  assumes "NextDueAfterFiring s due at = Inr n" "clock_era due" "clock_era at" "due \<le> at"
  shows "in_range n" "at < n"
proof -
  have v: "Schedule_Validate s = Inr ()" using assms(1) by (cases "Schedule_Validate s") (auto simp: NextDueAfterFiring_def)
  have i: "sc_Kind s = ScheduleInterval \<Longrightarrow> at - due + sc_Interval s \<le> MaxInt64"
    using v assms(2,3) by (auto simp: Validate_Inr clock_era_def ScheduleInterval_def ScheduleDaily_def)
  obtain t where t: "NextDueAfterFiring s due at = Inr t" "next_occurrence s due at t" "t \<le> at + MaxAutomationInterval"
    using NextDueAfterFiring_next [OF v assms(4) i] by blast
  then show "at < n" using assms(1) by (simp add: next_occurrence_def)
  then show "in_range n" using t(1,3) assms(1,3) clock_era_range [OF assms(3)]
    by (auto simp: clock_era_def in_range_def unix_epoch_def minInstant_def maxInstant_def MaxInt64_def MaxAutomationInterval_def day_nanos_def)
qed

text \<open>After a claim the automation is no longer due at that instant, and the others are as they were.\<close>

lemma claim_settles:
  assumes c: "ClaimDueAutomation skills pins at defaults w = Inr (Some f, w')" and ok: "schedules_ok w" and era: "clock_era at"
  shows "\<forall>x \<in> set (automations w'). ar_id x = af_AutomationID f \<longrightarrow> \<not> is_due at x"
    and "filter (\<lambda>x. ar_id x \<noteq> af_AutomationID f) (automations w') = filter (\<lambda>x. ar_id x \<noteq> af_AutomationID f) (automations w)"
proof -
  obtain a where a: "a \<in> set (automations w)" "is_due at a" and r: "claim_row skills pins at defaults a w = Inr (Some f, w')"
    by (rule ClaimDueAutomation_Some [OF c])
  have en: "ar_enabled a" using a(2) by (simp add: is_due_def)
  obtain d where d: "ar_next_due_at a = Some d" "d \<le> FormatTimestamp at" using a(2) by (auto simp: is_due_def split: option.splits)
  have dist: "distinct (map ar_id (automations w))" using ok by (simp add: schedules_ok_def)
  have id: "af_AutomationID f = ar_id a" using claim_row_id [OF r] .
  have "(\<forall>x \<in> set (automations w'). ar_id x = ar_id a \<longrightarrow> \<not> is_due at x)
    \<and> filter (\<lambda>x. ar_id x \<noteq> ar_id a) (automations w') = filter (\<lambda>x. ar_id x \<noteq> ar_id a) (automations w)"
    using r a(1) en dist
  proof (cases rule: claim_row_moves)
    case off
    then show ?thesis by (auto simp: moved_to_def is_due_def)
  next
    case (armed s due n)
    obtain t where t: "clock_era t" "d = FormatTimestamp t" using ok a(1) d(1) by (auto simp: schedules_ok_def list_all_iff)
    have "due = t" using armed(2) d(1) t time_Parse_Format [OF clock_era_range [OF t(1)]] by (simp add: text_or_empty_def)
    moreover have "t \<le> at" using d(2) t Format_order [OF clock_era_range [OF era] clock_era_range [OF t(1)]]
      unfolding FormatTimestamp_def by (metis not_le)
    ultimately have n: "in_range n" "at < n" using next_due_in_range armed(3) t(1) era by blast+
    then have "\<not> FormatTimestamp n \<le> FormatTimestamp at"
      using Format_order [OF clock_era_range [OF era] n(1)] by (simp add: FormatTimestamp_def not_le)
    then show ?thesis using armed(4) by (auto simp: moved_to_def is_due_def)
  qed
  then show "\<forall>x \<in> set (automations w'). ar_id x = af_AutomationID f \<longrightarrow> \<not> is_due at x"
    "filter (\<lambda>x. ar_id x \<noteq> af_AutomationID f) (automations w') = filter (\<lambda>x. ar_id x \<noteq> af_AutomationID f) (automations w)"
    by (simp_all add: id)
qed

section \<open>The last run\<close>

lemma skipped_work:
  assumes "pass_over a nd at audit fire w = Inr (Some f, w')" "quiet_audit a audit"
  shows "same_work w w' \<and> f = fire"
  using assms by (auto elim!: pass_over_Inr dest!: advance_Inr tx_withinD simp: quiet_audit_def same_work_def)

lemma last_run_of:
  assumes "ar_last_run_id a = Some (run_id r)" "r \<in> set (agent_runs w)" "distinct (map run_id (agent_runs w))"
  shows "last_run_status a w = Some (run_status r)"
proof -
  have "filter (\<lambda>x. run_id x = run_id r) (agent_runs w) = [r]"
    using assms(2,3) by (simp add: filter_distinct_key)
  then show ?thesis using assms(1) by (simp add: last_run_status_def find_row_def)
qed

lemma unfinished_run_skips:
  assumes "claim_row skills pins at defaults a w = Inr (Some f, w')" "last_run_status a w = Some st" "\<not> isTerminalRunStatus st"
  shows "same_work w w' \<and> (af_Skipped f \<or> af_Failed f)"
  using assms(1)
proof (cases rule: claim_row_cases)
  case unreadable
  then show ?thesis by (auto simp: disable_unreadable_def skipped_fire_def same_work_def tx_simps)
next
  case (passed s due n audit fire)
  then show ?thesis using skipped_work [OF passed(4,5)] by (auto simp: passed_over_def)
next
  case (fired s due n)
  then show ?thesis using assms(2,3) by simp
qed

section \<open>The run that was queued\<close>

lemma no_decision: "enqueue_decision input resolved w = Inr (decision, w') \<Longrightarrow> ei_EgressDecision input = None \<Longrightarrow> decision = None"
  by (auto simp: enqueue_decision_def normalizePendingEgressDecision_def tx_bind_Inr_iff tx_then_Inr_iff)

text \<open>A turn without an egress decision is a local one.\<close>

lemma undecided_turn_is_local:
  assumes "enqueueUserMessageTx skills pins input w = Inr (res, w')" "ei_EgressDecision input = None"
  obtains r where "agent_runs w' = agent_runs w @ [r]" "run_id r = eu_RunID res" "run_status r = lifecycleQueued"
    "run_session_id r = ei_SessionID input" "run_model_provider r \<noteq> ''openai_compatible''"
proof -
  let ?i = "normalizeEnqueueUserMessageInput input"
  obtain resolved roster decision t w1 where d: "enqueue_decision ?i resolved w = Inr (decision, w)"
    and n: "new_turn (ei_SessionID input) w = Inr (t, w1)"
    and acc: "accept_turn skills pins ?i resolved roster decision t w1 = Inr (res, w')"
    by (rule enqueueUserMessageTx_Inr [OF assms(1)])
  have i: "ei_EgressDecision ?i = None" "ei_SessionID ?i = ei_SessionID input" using assms(2) by (simp_all add: normalizeEnqueueUserMessageInput_def)
  have p: "rq_ModelProvider (er_requirements resolved) \<noteq> ''openai_compatible''"
    using enqueue_decision_consents [OF d] no_decision [OF d i(1)] by blast
  have w1: "agent_runs w1 = agent_runs w" using tx_withinD [OF idle_turn(1) n] by (simp add: same_work_def)
  obtain r where "agent_runs w' = agent_runs w1 @ [r]" "run_id r = eu_RunID res" "run_status r = lifecycleQueued"
    "run_session_id r = ei_SessionID ?i" "run_model_provider r = rq_ModelProvider (er_requirements resolved)"
    using acc by (rule accept_turn_work)
  with p w1 i(2) show thesis using that [of r] by presburger
qed

lemma idle_automationSessionTx: "tx_within same_work (automationSessionTx a)"
  unfolding automationSessionTx_def automationSessionActiveTx_def
  by (intro idle.within_intros idle.within_modify idle_env; simp add: same_work_def)

definition same_grants :: "world \<Rightarrow> world \<Rightarrow> bool" where
  "same_grants w w' \<longleftrightarrow> automation_allowed_tools w' = automation_allowed_tools w \<and> automation_runs w' = automation_runs w"

interpretation grants: tx_relation same_grants
  by unfold_locales (simp_all add: same_grants_def)

lemma aside_grants: "tx_within same_aside m \<Longrightarrow> tx_within same_grants m"
  by (auto simp: tx_within_def same_aside_def same_grants_def)

lemma grants_automationSessionTx: "tx_within same_grants (automationSessionTx a)"
proof -
  have "tx_within same_grants (insert_session s)" for s
    by (auto simp: tx_within_def same_grants_def insert_session_def tx_simps split: if_splits)
  note steps = this aside_env [THEN aside_grants]
  show ?thesis unfolding automationSessionTx_def automationSessionActiveTx_def
    by (intro grants.within_intros grants.within_modify steps; simp add: same_grants_def)
qed

lemma decode_tools_json [simp]: "decode_tools (tools_json ts) = Some ts"
proof -
  have "decode_tool (JObj [(''serverName'', JStr (at_ServerName t)), (''toolName'', JStr (at_ToolName t))]) = Some t" for t :: AutomationTool
    by (simp add: decode_tool_def decode_field_def json_get_def decode_string_def)
  then show ?thesis by (induction ts) (simp_all add: decode_tools_def tools_json_def)
qed

definition granted :: "string \<Rightarrow> AutomationRunGrant \<Rightarrow> world \<Rightarrow> bool" where
  "granted rid g w \<longleftrightarrow> GetAutomationRunGrant rid w = Inr (Some g, w)"

lemma fired_automation:
  assumes c: "claim_row skills pins at defaults a w = Inr (Some f, w')" and f: "\<not> af_Skipped f" "\<not> af_Failed f"
  obtains r tools where "agent_runs w' = agent_runs w @ [r]" "run_id r = af_RunID f" "run_status r = lifecycleQueued"
    "run_model_provider r \<noteq> ''openai_compatible''" "allowedToolsTx (ar_id a) w = Inr (tools, w)"
    "granted (af_RunID f) \<lparr>ag_AutomationID = ar_id a, ag_AutomationName = ar_name a, ag_AllowedTools = tools\<rparr> w'"
    "\<forall>st. last_run_status a w = Some st \<longrightarrow> isTerminalRunStatus st"
  using c
proof (cases rule: claim_row_cases)
  case unreadable
  then show thesis using f by (auto simp: disable_unreadable_def skipped_fire_def tx_simps)
next
  case (passed s due n audit fire)
  then show thesis using f skipped_work [OF passed(4,5)] by (auto simp: passed_over_def)
next
  case (fired s due n)
  obtain w1 sid w2 enq w3 where
    w1: "advance a (\<lambda>x. (moved_on (FormatTimestamp n) (FormatTimestamp at) x)\<lparr>ar_last_run_at := Some (FormatTimestamp at)\<rparr>) w = Inr (True, w1)"
    and ss: "automationSessionTx a w1 = Inr (sid, w2)"
    and e: "enqueueUserMessageTx skills pins (automation_turn defaults sid (ar_prompt a)) w2 = Inr (enq, w3)"
    and g: "freeze_grant a (eu_RunID enq) (FormatTimestamp at) w3 = Inr ((), w')" and rid: "af_RunID f = eu_RunID enq"
    by (rule fire_automation_Inr [OF fired(4)])
  obtain r where r: "agent_runs w3 = agent_runs w2 @ [r]" "run_id r = eu_RunID enq" "run_status r = lifecycleQueued"
      "run_model_provider r \<noteq> ''openai_compatible''"
    using e by (rule undecided_turn_is_local) (simp_all add: automation_turn_def)
  have w2: "same_work w w2" "same_grants w w2"
    using advance_Inr [OF w1] tx_withinD [OF idle_automationSessionTx ss] tx_withinD [OF grants_automationSessionTx ss]
    by (simp_all add: same_work_def same_grants_def)
  have w3: "same_grants w2 w3" using tx_withinD [OF aside_grants [OF aside_enqueueUserMessageTx] e] .
  obtain tools where t: "allowedToolsTx (ar_id a) w3 = Inr (tools, w3)" by (simp add: allowedToolsTx_def)
  have g': "agent_runs w' = agent_runs w3" "eu_RunID enq \<notin> set (map arn_run_id (automation_runs w3))"
    "automation_runs w' = automation_runs w3 @ [\<lparr>arn_run_id = eu_RunID enq, arn_automation_id = ar_id a,
       arn_automation_name = ar_name a, arn_allowed_tools_json = tools_json tools, arn_fired_at = FormatTimestamp at\<rparr>]"
    using g t by (auto simp: freeze_grant_def tx_simps split: if_splits)
  have "allowedToolsTx (ar_id a) w = Inr (tools, w)" using t w2(2) w3 by (simp add: allowedToolsTx_def same_grants_def)
  moreover have "granted (eu_RunID enq) \<lparr>ag_AutomationID = ar_id a, ag_AutomationName = ar_name a, ag_AllowedTools = tools\<rparr> w'"
  proof -
    have "filter (\<lambda>r. arn_run_id r = eu_RunID enq) (automation_runs w3) = []" using g'(2) by (force simp: filter_empty_conv)
    then show ?thesis by (simp add: granted_def GetAutomationRunGrant_def query_opt_def tx_bind_def g'(3))
  qed
  ultimately show thesis using r w2(1) g'(1) rid fired(5) by (intro that [of r tools]) (simp_all add: same_work_def)
qed

text \<open>Edits of automations, in any order.\<close>

inductive automation_edit :: "world \<Rightarrow> world \<Rightarrow> bool" where
  create: "CreateAutomation input w = Inr (am, w') \<Longrightarrow> automation_edit w w'"
| update: "UpdateAutomation aid input w = Inr (am, w') \<Longrightarrow> automation_edit w w'"
| enable: "SetAutomationEnabled aid b w = Inr (am, w') \<Longrightarrow> automation_edit w w'"
| delete: "DeleteAutomation aid w = Inr (u, w') \<Longrightarrow> automation_edit w w'"

interpretation frozen: tx_relation "\<lambda>w w'. automation_runs w' = automation_runs w"
  by unfold_locales simp_all

lemma frozen_env:
  "tx_within (\<lambda>w w'. automation_runs w' = automation_runs w) now_text" "tx_within (\<lambda>w w'. automation_runs w' = automation_runs w) time_Now"
  "tx_within (\<lambda>w w'. automation_runs w' = automation_runs w) (ids_New k)"
  by (auto simp: tx_within_def now_text_def time_Now_def ids_New_def tx_simps)

lemma frozen_automationByIDTx: "tx_within (\<lambda>w w'. automation_runs w' = automation_runs w) (automationByIDTx aid)"
  unfolding automationByIDTx_def allowedToolsTx_def
  by (intro frozen.within_intros) (auto intro: frozen.within_intros split: list.splits)

lemma automation_edit_frozen: "automation_edit w w' \<Longrightarrow> automation_runs w' = automation_runs w"
proof -
  have "tx_within (\<lambda>w w'. automation_runs w' = automation_runs w) (CreateAutomation input)"
    "tx_within (\<lambda>w w'. automation_runs w' = automation_runs w) (UpdateAutomation aid input)"
    "tx_within (\<lambda>w w'. automation_runs w' = automation_runs w) (SetAutomationEnabled aid b)"
    "tx_within (\<lambda>w w'. automation_runs w' = automation_runs w) (DeleteAutomation aid)" for input aid b
    unfolding CreateAutomation_def UpdateAutomation_def SetAutomationEnabled_def DeleteAutomation_def armed_due_def insert_automation_def
      replaceAllowedToolsTx_def insert_allowed_tool_def update_automation_def expectOneRowErr_def Let_def
    by (intro frozen.within_intros frozen.within_modify frozen_env frozen_automationByIDTx; simp)+
  note frozen_edits = this [THEN tx_withinD]
  show "automation_edit w w' \<Longrightarrow> automation_runs w' = automation_runs w"
    by (induction rule: automation_edit.induct) (erule frozen_edits)+
qed

lemma granted_edits:
  assumes "automation_edit\<^sup>*\<^sup>* w w'" "granted rid g w"
  shows "granted rid g w'"
proof -
  have "automation_runs w' = automation_runs w" using assms(1) by (induction rule: rtranclp_induct) (simp_all add: automation_edit_frozen)
  then show ?thesis using assms(2)
    by (auto simp: granted_def GetAutomationRunGrant_def query_opt_def tx_bind_def split: list.splits option.splits)
qed

section \<open>Allowlists\<close>

lemma clean_toolE:
  assumes "clean_tool t = Inr c"
  shows "at_ServerName c = TrimSpace (at_ServerName t)" "at_ToolName c = TrimSpace (at_ToolName t)"
    "at_ServerName c \<notin> {'''', ''integrations'', ''memory'', ''team''}" "at_ToolName c \<noteq> ''''"
  using assms by (auto simp: clean_tool_def Let_def split: if_splits)

lemma clean_tools_ok:
  assumes "clean_tools acc ts = Inr ns" "distinct acc"
  shows "distinct ns" "set ns = set acc \<union> {c. \<exists>t \<in> set ts. clean_tool t = Inr c}" "\<forall>t \<in> set ts. \<exists>c. clean_tool t = Inr c"
  using assms by (induction acc ts rule: clean_tools.induct) (auto split: sum.splits if_splits)

text \<open>The list that is saved: no duplicates, in order, short, and nothing from a refused server.\<close>

definition allowlist_ok :: "AutomationTool list \<Rightarrow> bool" where
  "allowlist_ok ts \<longleftrightarrow> distinct ts \<and> sorted (map tool_key ts) \<and> length ts \<le> maxAutomationAllowedTools
     \<and> list_all (\<lambda>t. at_ServerName t \<notin> {'''', ''integrations'', ''memory'', ''team''} \<and> at_ToolName t \<noteq> '''') ts"

lemma normalizeAllowedTools_ok:
  assumes "normalizeAllowedTools tools = Inr ns"
  shows "allowlist_ok ns" "set ns = {c. \<exists>t \<in> set tools. clean_tool t = Inr c}"
proof -
  obtain cs where c: "clean_tools [] tools = Inr cs" "length cs \<le> maxAutomationAllowedTools" "ns = sort_key tool_key cs"
    using assms by (auto simp: normalizeAllowedTools_def split: sum.splits if_splits)
  note k = clean_tools_ok [OF c(1)]
  show "set ns = {c. \<exists>t \<in> set tools. clean_tool t = Inr c}" using k(2) c(3) by simp
  then show "allowlist_ok ns" using k(1) c(2,3) clean_toolE(3,4) by (auto simp: allowlist_ok_def list_all_iff)
qed

lemma sort_key_sorted: "sorted (map f xs) \<Longrightarrow> sort_key f xs = xs"
  by (induction xs) (auto simp: insort_is_Cons)

lemma insert_allowed_tools:
  assumes "tx_map (insert_allowed_tool aid) ts w = Inr (us, w')"
  shows "automation_allowed_tools w' = automation_allowed_tools w
    @ map (\<lambda>t. \<lparr>aa_automation_id = aid, aa_server_name = at_ServerName t, aa_tool_name = at_ToolName t\<rparr>) ts"
  using assms
proof (induction ts arbitrary: w us)
  case (Cons t ts)
  then obtain u w1 us' where i: "insert_allowed_tool aid t w = Inr (u, w1)" and m: "tx_map (insert_allowed_tool aid) ts w1 = Inr (us', w')"
    by (auto simp: tx_bind_Inr_iff)
  then show ?case using Cons.IH [OF m] by (auto simp: insert_allowed_tool_def tx_simps Let_def split: if_splits)
qed simp

lemma replaced_tools_read_back:
  assumes r: "replaceAllowedToolsTx aid ts w = Inr (u, w')" and ok: "allowlist_ok ts"
  shows "allowedToolsTx aid w' = Inr (ts, w')"
proof -
  let ?clear = "\<lambda>w. w\<lparr>automation_allowed_tools := filter (\<lambda>t. aa_automation_id t \<noteq> aid) (automation_allowed_tools w)\<rparr>"
  obtain us where m: "tx_map (insert_allowed_tool aid) ts (?clear w) = Inr (us, w')"
    using r by (auto simp: replaceAllowedToolsTx_def tx_simps)
  have "map (\<lambda>t. \<lparr>at_ServerName = aa_server_name t, at_ToolName = aa_tool_name t\<rparr>)
      (filter (\<lambda>t. aa_automation_id t = aid) (automation_allowed_tools w')) = ts"
    unfolding insert_allowed_tools [OF m] by (simp add: filter_map o_def map_idI)
  then show ?thesis using ok by (simp add: allowedToolsTx_def allowlist_ok_def sort_key_sorted)
qed

section \<open>A saved automation reads back\<close>

lemma automationByIDTx_scan:
  assumes "automationByIDTx aid w = Inr (am, w')"
  obtains x xs tools where "filter (\<lambda>a. ar_id a = aid) (automations w) = x # xs" "allowedToolsTx aid w = Inr (tools, w)"
    "am = (scan_automation w x)\<lparr>am_AllowedTools := tools\<rparr>" "w' = w"
proof -
  obtain x xs where f: "filter (\<lambda>a. ar_id a = aid) (automations w) = x # xs"
    using assms by (cases "filter (\<lambda>a. ar_id a = aid) (automations w)") (simp_all add: automationByIDTx_def tx_bind_def)
  obtain tools where t: "allowedToolsTx aid w = Inr (tools, w)" by (simp add: allowedToolsTx_def)
  have "automationByIDTx aid w = Inr ((scan_automation w x)\<lparr>am_AllowedTools := tools\<rparr>, w)"
    by (simp add: automationByIDTx_def tx_bind_def f t)
  then show thesis unfolding assms sum.inject prod.inject by (elim conjE) (rule that [OF f t])
qed

lemma automationByIDTx_row:
  assumes "automationByIDTx aid w = Inr (am, w')"
  shows "w' = w" "\<exists>x \<in> set (automations w). ar_id x = aid \<and> am_Enabled am = ar_enabled x \<and> am_NextDueAt am = text_or_empty (ar_next_due_at x)"
proof -
  obtain x xs tools where f: "filter (\<lambda>a. ar_id a = aid) (automations w) = x # xs"
    and am: "am = (scan_automation w x)\<lparr>am_AllowedTools := tools\<rparr>" and w: "w' = w"
    by (rule automationByIDTx_scan [OF assms])
  from f have "x \<in> set (filter (\<lambda>a. ar_id a = aid) (automations w))" by simp
  then show "w' = w" "\<exists>x \<in> set (automations w). ar_id x = aid \<and> am_Enabled am = ar_enabled x \<and> am_NextDueAt am = text_or_empty (ar_next_due_at x)"
    using w by (auto simp: am scan_automation_def)
qed

lemma Format_not_empty: "FormatTimestamp t \<noteq> ''''"
  by (simp add: FormatTimestamp_def Format_def Let_def split: prod.splits)

lemma armed_due_Inr: "armed_due s w = Inr (d, w') \<Longrightarrow> d \<noteq> '''' \<and> automations w' = automations w"
  by (auto simp: armed_due_def Format_not_empty time_Now_def tx_simps split: sum.splits)

text \<open>Statements that leave the automations themselves alone.\<close>

interpretation rows: tx_relation "\<lambda>w w'. automations w' = automations w"
  by unfold_locales simp_all

lemma rows_steps:
  "tx_within (\<lambda>w w'. automations w' = automations w) now_text" "tx_within (\<lambda>w w'. automations w' = automations w) (ids_New k)"
  "tx_within (\<lambda>w w'. automations w' = automations w) (replaceAllowedToolsTx aid tools)"
  unfolding replaceAllowedToolsTx_def insert_allowed_tool_def Let_def
  by (auto simp: tx_within_def now_text_def time_Now_def ids_New_def tx_simps)[2]
    (intro rows.within_intros rows.within_modify; simp)

lemma validateAutomation_Inr:
  assumes "validateAutomation input = Inr c"
  shows "ai_Name c = TrimSpace (ai_Name input)" "ai_Prompt c = TrimSpace (ai_Prompt input)" "ai_Schedule c = ai_Schedule input"
    "ai_Enabled c = ai_Enabled input" "Schedule_Validate (ai_Schedule input) = Inr ()"
    "normalizeAllowedTools (ai_AllowedTools input) = Inr (ai_AllowedTools c)"
  using assms by (auto simp: validateAutomation_def Let_def split: if_splits sum.splits)

lemma CreateAutomation_row:
  assumes run: "CreateAutomation input w = Inr (am, w')"
  obtains c aid d at where "validateAutomation input = Inr c"
    "automations w' = automations w @ [new_automation_row c aid d at]" "aid \<notin> set (map ar_id (automations w))"
    "ai_Enabled c \<longleftrightarrow> nullableText d \<noteq> None"
    "allowedToolsTx aid w' = Inr (ai_AllowedTools c, w')" "automationByIDTx aid w' = Inr (am, w')"
proof -
  obtain c w0 at w1 aid w2 d w3 u4 w4 u5 w5 where v: "tx_lift (validateAutomation input) w = Inr (c, w0)"
    and n: "now_text w0 = Inr (at, w1)" and i: "ids_New ''auto'' w1 = Inr (aid, w2)"
    and d: "(if ai_Enabled c then armed_due (ai_Schedule c) else tx_return '''') w2 = Inr (d, w3)"
    and ins: "insert_automation (new_automation_row c aid d at) w3 = Inr (u4, w4)"
    and t: "replaceAllowedToolsTx aid (ai_AllowedTools c) w4 = Inr (u5, w5)" and get: "automationByIDTx aid w5 = Inr (am, w')"
    using run unfolding CreateAutomation_def tx_bind_Inr_iff tx_then_Inr_iff by blast
  have w0: "w0 = w" and v': "validateAutomation input = Inr c" using v by (auto split: sum.splits)
  have "automations w3 = automations w2 \<and> (ai_Enabled c \<longleftrightarrow> nullableText d \<noteq> None)"
    using d armed_due_Inr [of "ai_Schedule c" w2 d w3] by (auto simp: nullableText_def split: if_splits)
  then have w3: "automations w3 = automations w" "ai_Enabled c \<longleftrightarrow> nullableText d \<noteq> None"
    using w0 tx_withinD [OF rows_steps(1) n] tx_withinD [OF rows_steps(2) i] by simp_all
  have w4: "automations w4 = automations w @ [new_automation_row c aid d at]" "aid \<notin> set (map ar_id (automations w))"
    using ins w3(1) by (auto simp: insert_automation_def new_automation_row_def tx_simps split: if_splits)
  have w': "w' = w5" by (rule automationByIDTx_row(1) [OF get])
  have "allowlist_ok (ai_AllowedTools c)" using normalizeAllowedTools_ok(1) validateAutomation_Inr(6) [OF v'] by blast
  then have "allowedToolsTx aid w' = Inr (ai_AllowedTools c, w')" using replaced_tools_read_back [OF t] by (simp add: w')
  then show thesis using that [of c aid d at] v' w3(2) w4 tx_withinD [OF rows_steps(3) t] get by (simp add: w')
qed

text \<open>What was entered is what is shown, trimmed and to the whole second.\<close>

lemma created_automation:
  assumes run: "CreateAutomation input w = Inr (am, w')"
  obtains ts where "GetAutomation (am_AutomationID am) w' = Inr (am, w')" "am_Name am = TrimSpace (ai_Name input)"
    "am_Prompt am = TrimSpace (ai_Prompt input)" "am_Schedule am = whole_seconds (ai_Schedule input)" "am_Enabled am = ai_Enabled input"
    "normalizeAllowedTools (ai_AllowedTools input) = Inr ts" "am_AllowedTools am = ts"
proof -
  obtain c aid d at where v: "validateAutomation input = Inr c" and rows: "automations w' = automations w @ [new_automation_row c aid d at]"
    and fresh: "aid \<notin> set (map ar_id (automations w))" and tools: "allowedToolsTx aid w' = Inr (ai_AllowedTools c, w')"
    and get: "automationByIDTx aid w' = Inr (am, w')"
    by (rule CreateAutomation_row [OF run])
  note c = validateAutomation_Inr [OF v]
  have "filter (\<lambda>a. ar_id a = aid) (automations w) = []" using fresh by (force simp: filter_empty_conv)
  then have one: "filter (\<lambda>a. ar_id a = aid) (automations w') = [new_automation_row c aid d at]"
    by (simp add: rows new_automation_row_def)
  obtain x xs ts where f: "filter (\<lambda>a. ar_id a = aid) (automations w') = x # xs" and t: "allowedToolsTx aid w' = Inr (ts, w')"
    and am: "am = (scan_automation w' x)\<lparr>am_AllowedTools := ts\<rparr>"
    by (rule automationByIDTx_scan [OF get])
  have x: "x = new_automation_row c aid d at" and ts: "ts = ai_AllowedTools c" using f t one tools by simp_all
  have "row_schedule x = Inr (whole_seconds (ai_Schedule input))"
    using schedule_columns_roundtrip(1) [OF c(5)] c(3) by (simp add: x row_schedule_def new_automation_row_def)
  then have s: "am_Schedule am = whole_seconds (ai_Schedule input)" by (simp add: am scan_automation_def)
  show thesis using get s c by (intro that [of ts]) (simp_all add: GetAutomation_def am x ts scan_automation_def new_automation_row_def)
qed

section \<open>Armed exactly while enabled\<close>

text \<open>
  What the schema documents of \<^verbatim>\<open>next_due_at\<close>: it is \<^verbatim>\<open>NULL\<close> exactly when the automation is disabled.
\<close>

definition armed_ok :: "world \<Rightarrow> bool" where
  "armed_ok w \<longleftrightarrow> distinct (map ar_id (automations w))
     \<and> list_all (\<lambda>a. ar_enabled a \<longleftrightarrow> ar_next_due_at a \<noteq> None) (automations w)"

lemma armed_ok_due_state:
  "armed_ok w \<longleftrightarrow> distinct (map fst (map due_state (automations w)))
     \<and> list_all (\<lambda>(i, e, d). e \<longleftrightarrow> d \<noteq> None) (map due_state (automations w))"
  by (simp add: armed_ok_def due_state_def o_def list_all_iff)

lemma armed_lined: "lined_up aid w w' \<Longrightarrow> armed_ok w \<Longrightarrow> armed_ok w'"
  unfolding armed_ok_due_state lined_up_def by simp

lemma armed_update:
  assumes "armed_ok w" "automations w' = update_where p f (automations w)"
    and "\<And>x. x \<in> set (automations w) \<Longrightarrow> p x \<Longrightarrow> ar_id (f x) = ar_id x \<and> (ar_enabled (f x) \<longleftrightarrow> ar_next_due_at (f x) \<noteq> None)"
  shows "armed_ok w'"
proof -
  have ids: "map ar_id (automations w') = map ar_id (automations w)" using assms(2,3) by (auto simp: update_where_def)
  have "ar_enabled y \<longleftrightarrow> ar_next_due_at y \<noteq> None" if y: "y \<in> set (automations w')" for y
  proof -
    obtain x where x: "x \<in> set (automations w)" "y = (if p x then f x else x)" using y unfolding assms(2) update_where_def set_map by blast
    show ?thesis using x assms(3) [of x] assms(1) by (cases "p x") (simp_all add: armed_ok_def list_all_iff)
  qed
  then show ?thesis using assms(1) unfolding armed_ok_def list_all_iff ids by blast
qed

text \<open>The row an edit reads is the row it writes.\<close>

lemma armed_ok_row:
  "armed_ok w \<Longrightarrow> x \<in> set (automations w) \<Longrightarrow> y \<in> set (automations w) \<Longrightarrow> ar_id x = ar_id y \<Longrightarrow> x = y"
  by (auto simp: armed_ok_def distinct_map dest: inj_onD)

lemma armed_ok_rowD: "armed_ok w \<Longrightarrow> x \<in> set (automations w) \<Longrightarrow> ar_enabled x \<longleftrightarrow> ar_next_due_at x \<noteq> None"
  unfolding armed_ok_def list_all_iff by blast

lemma armed_create:
  assumes ok: "armed_ok w" and run: "CreateAutomation input w = Inr (am, w')"
  shows "armed_ok w'"
proof -
  obtain c aid d at where "automations w' = automations w @ [new_automation_row c aid d at]" "aid \<notin> set (map ar_id (automations w))"
    "ai_Enabled c \<longleftrightarrow> nullableText d \<noteq> None"
    by (rule CreateAutomation_row [OF run])
  then show ?thesis using ok by (simp add: armed_ok_def new_automation_row_def)
qed

lemma update_automation_Inr:
  "update_automation aid name f w = Inr (u, w') \<Longrightarrow> automations w' = update_where (\<lambda>a. ar_id a = aid) f (automations w)"
  by (auto simp: update_automation_def expectOneRowErr_def tx_simps split: if_splits)

lemma armed_edit:
  assumes ok: "armed_ok w" and run: "UpdateAutomation aid input w = Inr (am, w')"
  shows "armed_ok w'"
proof -
  obtain c w0 old w1 d w2 at w3 u4 w4 u5 w5 where v: "tx_lift (validateAutomation input) w = Inr (c, w0)"
    and old: "automationByIDTx aid w0 = Inr (old, w1)"
    and d: "(if am_Enabled old \<and> (am_Schedule old \<noteq> ai_Schedule c \<or> am_NextDueAt old = '''')
         then armed_due (ai_Schedule c) else tx_return (am_NextDueAt old)) w1 = Inr (d, w2)"
    and n: "now_text w2 = Inr (at, w3)"
    and up: "update_automation aid (ai_Name c) (edit_row c d at) w3 = Inr (u4, w4)"
    and t: "replaceAllowedToolsTx aid (ai_AllowedTools c) w4 = Inr (u5, w5)" and get: "automationByIDTx aid w5 = Inr (am, w')"
    using run unfolding UpdateAutomation_def tx_bind_Inr_iff tx_then_Inr_iff by blast
  have w0: "w0 = w" using v by (auto split: sum.splits)
  obtain x where x: "x \<in> set (automations w)" "ar_id x = aid" "am_Enabled old = ar_enabled x"
    "am_NextDueAt old = text_or_empty (ar_next_due_at x)" and w1: "w1 = w"
    using automationByIDTx_row [OF old] w0 by blast
  have w2: "automations w2 = automations w" using d armed_due_Inr [of "ai_Schedule c" w1 d w2] w1 by (auto split: if_splits)
  have a: "ar_enabled x \<longleftrightarrow> nullableText d \<noteq> None"
    using d armed_due_Inr [of "ai_Schedule c" w1 d w2] armed_ok_rowD [OF ok x(1)] x(3,4)
    by (cases "ar_next_due_at x") (auto simp: nullableText_def text_or_empty_def split: if_splits)
  have "automations w' = update_where (\<lambda>a. ar_id a = aid) (edit_row c d at) (automations w)"
    using update_automation_Inr [OF up] tx_withinD [OF rows_steps(1) n] tx_withinD [OF rows_steps(3) t] automationByIDTx_row(1) [OF get] w2 by simp
  then show ?thesis
  proof (rule armed_update [OF ok])
    fix y assume "y \<in> set (automations w)" "ar_id y = aid"
    then have "y = x" by (intro armed_ok_row [OF ok _ x(1)]) (simp_all add: x(2))
    then show "ar_id (edit_row c d at y) = ar_id y \<and> (ar_enabled (edit_row c d at y) \<longleftrightarrow> ar_next_due_at (edit_row c d at y) \<noteq> None)"
      using a by (simp add: edit_row_def)
  qed
qed

lemma armed_enable:
  assumes ok: "armed_ok w" and run: "SetAutomationEnabled aid b w = Inr (am, w')"
  shows "armed_ok w'"
proof -
  let ?f = "\<lambda>d at a. a\<lparr>ar_enabled := b, ar_next_due_at := nullableText d, ar_updated_at := at\<rparr>"
  obtain old w1 d w2 at w3 u5 w5 u6 w6 where old: "automationByIDTx aid w = Inr (old, w1)"
    and d: "(if \<not> b then tx_return '''' else if am_Enabled old \<and> am_NextDueAt old \<noteq> '''' then tx_return (am_NextDueAt old)
         else armed_due (am_Schedule old)) w1 = Inr (d, w2)"
    and n: "now_text w2 = Inr (at, w3)"
    and m: "tx_modify (\<lambda>w. w\<lparr>automations := update_where (\<lambda>a. ar_id a = aid) (?f d at) (automations w)\<rparr>) w3 = Inr (u5, w5)"
    and e: "expectOneRowErr (rows_affected (\<lambda>a. ar_id a = aid) (automations w3)) (ErrAutomation ErrAutomationNotFound) w5 = Inr (u6, w6)"
    and get: "automationByIDTx aid w6 = Inr (am, w')"
    using run unfolding SetAutomationEnabled_def tx_bind_Inr_iff tx_then_Inr_iff tx_gets_def sum.inject prod.inject by blast
  have "w6 = w5" using e by (simp add: expectOneRowErr_def split: if_splits)
  then have w': "automations w' = update_where (\<lambda>a. ar_id a = aid) (?f d at) (automations w3)"
    using m automationByIDTx_row(1) [OF get] by auto
  have w1: "w1 = w" by (rule automationByIDTx_row(1) [OF old])
  have "(b \<longleftrightarrow> nullableText d \<noteq> None) \<and> automations w2 = automations w"
    using d armed_due_Inr [of "am_Schedule old" w1 d w2] w1 by (auto simp: nullableText_def split: if_splits)
  then have b: "b \<longleftrightarrow> nullableText d \<noteq> None" and "automations w3 = automations w" using tx_withinD [OF rows_steps(1) n] by simp_all
  with w' have "automations w' = update_where (\<lambda>a. ar_id a = aid) (?f d at) (automations w)" by simp
  then show ?thesis by (rule armed_update [OF ok]) (simp add: b)
qed

lemma armed_delete: "armed_ok w \<Longrightarrow> DeleteAutomation aid w = Inr (u, w') \<Longrightarrow> armed_ok w'"
  by (auto simp: DeleteAutomation_def expectOneRowErr_def armed_ok_def tx_simps distinct_map_filter list_all_iff split: if_splits)

lemma armed_advance:
  assumes "armed_ok w" "advance a f w = Inr (True, w')" "\<And>x. ar_id (f x) = ar_id x \<and> ar_enabled (f x) = ar_enabled x \<and> ar_next_due_at (f x) \<noteq> None"
  shows "armed_ok w'"
proof -
  have "automations w' = update_where (\<lambda>x. ar_id x = ar_id a \<and> ar_enabled x \<and> ar_next_due_at x = ar_next_due_at a) f (automations w)"
    by (simp add: advance_Inr [OF assms(2)])
  then show ?thesis by (rule armed_update [OF assms(1)]) (use assms(3) in auto)
qed

lemma armed_claim:
  assumes ok: "armed_ok w" and run: "ClaimDueAutomation skills pins at defaults w = Inr (Some f, w')"
  shows "armed_ok w'"
proof -
  obtain a where "claim_row skills pins at defaults a w = Inr (Some f, w')" by (rule ClaimDueAutomation_Some [OF run])
  then show ?thesis
  proof (cases rule: claim_row_cases)
    case unreadable
    then have "automations w' = update_where (\<lambda>x. ar_id x = ar_id a)
        (\<lambda>x. x\<lparr>ar_enabled := False, ar_next_due_at := None, ar_updated_at := FormatTimestamp at\<rparr>) (automations w)"
      by (auto simp: disable_unreadable_def tx_simps)
    then show ?thesis by (rule armed_update [OF ok]) simp
  next
    case (passed s due n audit fire)
    obtain w1 u where w1: "advance a (moved_on (FormatTimestamp n) (FormatTimestamp at)) w = Inr (True, w1)" and u: "audit w1 = Inr (u, w')"
      by (rule pass_over_Inr [OF passed(4)])
    have "lined_up (ar_id a) w1 w'" using passed(5) u unfolding quiet_audit_def by (blast dest: tx_withinD)
    moreover have "armed_ok w1" using w1 by (rule armed_advance [OF ok]) (simp add: moved_on_def)
    ultimately show ?thesis by (rule armed_lined)
  next
    case (fired s due n)
    obtain w1 sid w2 enqueued w3 where
      w1: "advance a (\<lambda>x. (moved_on (FormatTimestamp n) (FormatTimestamp at) x)\<lparr>ar_last_run_at := Some (FormatTimestamp at)\<rparr>) w = Inr (True, w1)"
      and steps: "automationSessionTx a w1 = Inr (sid, w2)"
        "enqueueUserMessageTx skills pins (automation_turn defaults sid (ar_prompt a)) w2 = Inr (enqueued, w3)"
        "freeze_grant a (eu_RunID enqueued) (FormatTimestamp at) w3 = Inr ((), w')"
      by (rule fire_automation_Inr [OF fired(4)])
    have "armed_ok w1" using w1 by (rule armed_advance [OF ok]) (simp add: moved_on_def)
    then show ?thesis using armed_lined tx_withinD [OF lined_steps(1) steps(1)] tx_withinD [OF lined_steps(4) steps(2)]
      tx_withinD [OF lined_steps(2) steps(3)] by blast
  qed
qed

text \<open>Edits and claims, interleaved in any order.\<close>

inductive automation_step :: "world \<Rightarrow> world \<Rightarrow> bool" where
  edit: "automation_edit w w' \<Longrightarrow> automation_step w w'"
| claim: "ClaimDueAutomation skills pins at defaults w = Inr (found, w') \<Longrightarrow> automation_step w w'"

lemma armed_claim_any: "armed_ok w \<Longrightarrow> ClaimDueAutomation skills pins at defaults w = Inr (found, w') \<Longrightarrow> armed_ok w'"
  using armed_claim by (cases found) (auto simp: ClaimDueAutomation_def split: sum.splits option.splits)

lemma armed_steps: "automation_step\<^sup>*\<^sup>* w w' \<Longrightarrow> armed_ok w \<Longrightarrow> armed_ok w'"
  by (induction rule: rtranclp_induct)
    (auto elim!: automation_step.cases automation_edit.cases intro: armed_create armed_edit armed_enable armed_delete armed_claim_any)

end
