(* ===== verification/WithdrawalSamples.thy ===== *)
theory WithdrawalSamples
  imports TurnSamples AutomationOutcomes
begin

text \<open>
  Concrete automations, external agents and withdrawals on the store of \<^verbatim>\<open>Example\<close>.
\<close>

section \<open>Automations\<close>

definition demo_automation :: automation_row where
  "demo_automation = \<lparr>ar_id = ''au1'', ar_name = ''digest'', ar_prompt = ''sum up'', ar_schedule_kind = ''interval'',
     ar_interval_seconds = Some 3600, ar_daily_minute_utc = None, ar_enabled = True, ar_next_due_at = Some (FormatTimestamp demo_now),
     ar_last_run_at = None, ar_last_run_id = None, ar_session_id = None, ar_created_at = t0, ar_updated_at = t0\<rparr>"

definition automated :: world where
  "automated = running\<lparr>automations := [demo_automation],
     automation_allowed_tools := [\<lparr>aa_automation_id = ''au1'', aa_server_name = ''files'', aa_tool_name = ''read''\<rparr>]\<rparr>"

definition demo_defaults :: AutomationRunDefaults where
  "demo_defaults = \<lparr>df_AgentID = ''turing'', df_ModelProvider = ''ollama'', df_Model = ''m'', df_ValidateRouting = None\<rparr>"

lemma claim_due_runs:
  "case ClaimDueAutomation (Inr []) None demo_now demo_defaults automated of Inl e \<Rightarrow> False
   | Inr (found, w') \<Rightarrow> (case found of None \<Rightarrow> False | Some f \<Rightarrow> \<not> af_Skipped f \<and> \<not> af_Failed f \<and> af_AutomationID f = ''au1'')"
  by code_simp

lemma claimed_sample:
  obtains f w' where "ClaimDueAutomation (Inr []) None demo_now demo_defaults automated = Inr (Some f, w')"
    "af_AutomationID f = ''au1''" "\<not> af_Skipped f" "\<not> af_Failed f"
  using claim_due_runs by (auto split: sum.splits prod.splits option.splits)

text \<open>Evaluated only once the clock has been read.\<close>

declare armed_due_def [code del]

lemma armed_due_at_clock [code]:
  "armed_due s w = (case FirstDueAfter s (clock w (ticks w)) of
     Inl e \<Rightarrow> Inl e | Inr due \<Rightarrow> Inr (FormatTimestamp due, w\<lparr>ticks := Suc (ticks w)\<rparr>))"
  by (simp add: armed_due_def time_Now_def tx_bind_def split: sum.splits)

definition demo_allowlist :: AutomationInput where
  "demo_allowlist = \<lparr>ai_Name = ''digest'', ai_Prompt = ''sum up'', ai_Schedule = \<lparr>sc_Kind = ScheduleInterval, sc_Interval = 3600000000000, sc_DailyMinuteUTC = 0\<rparr>,
     ai_Enabled = True, ai_AllowedTools = [\<lparr>at_ServerName = ''files'', at_ToolName = ''read''\<rparr>]\<rparr>"

lemma create_automation_runs:
  "case CreateAutomation demo_allowlist running of Inl e \<Rightarrow> False | Inr (am, w') \<Rightarrow> length (am_AllowedTools am) = 1"
  by code_simp

section \<open>External agents\<close>

definition demo_agent :: ExternalAgentInput where
  "demo_agent = \<lparr>xi_DisplayName = ''Cloud'', xi_Provider = ''openai'', xi_BaseURL = ''https://llm.example'', xi_Model = ''gpt'', xi_CredentialRef = ''key''\<rparr>"

lemma create_agent_runs:
  "case CreateExternalAgent demo_agent online of Inl e \<Rightarrow> False | Inr (a, w') \<Rightarrow> True"
  by code_simp

section \<open>Withdrawals\<close>

lemma begin_deletion_runs:
  "case BeginSessionDeletion ''s'' running of Inl e \<Rightarrow> False | Inr (rc, w') \<Rightarrow> True"
  by code_simp

definition withdrawing :: world where
  "withdrawing = (demo ''queued'' ''queued'')\<lparr>
     sessions := [(demo_session ''s'' ''chat'')\<lparr>sess_deletion_state := ''deleting''\<rparr>, demo_session ''cs'' ''chat''],
     delegations := [],
     session_deletions := [\<lparr>sd_session_id = ''s'', sd_lifecycle_version = 1, sd_state = ''quiescing'', sd_quiesce_deadline_at = t1,
       sd_terminal_sequence = 1, sd_terminal_at = None, sd_deleted_at = None, sd_error_code = None, sd_retryable = True,
       sd_run_count = 1, sd_message_count = 1, sd_retained_legacy_artifact_count = 0, sd_parent_session_id = None\<rparr>]\<rparr>"

lemma advance_runs:
  "case AdvanceSessionDeletion ''s'' (Inr ()) None withdrawing of (Inl e, w') \<Rightarrow> False
   | (Inr rc, w') \<Rightarrow> sdr_State rc = ''completed''"
  by code_simp

end
