(* ===== verification/ContextBudget.thy ===== *)
theory ContextBudget
  imports EgressFraming Store
begin

text \<open>
  What the worker sends to a model (\<^verbatim>\<open>agent-runtime-go/internal/agent/context_budget.go\<close>, with the
  admission of the pinned memory in \<^verbatim>\<open>memory.go\<close> and the recall loop of \<^verbatim>\<open>general_assistant.go\<close>): a
  request is assembled so that its estimate fits the window of the model, and everything left out is
  counted. A provider, which is
  not nil here, is its name, the endpoint it exposes if it exposes one, its two limits and its
  estimator, a function of the request. Temperatures,
  which this code leaves at zero, have no field.
\<close>

section \<open>Requests\<close>

record ToolCall =
  tk_ID :: string
  tk_Name :: string
  tk_Arguments :: json

record ChatMessage =
  cm_MessageID :: string
  cm_Role :: string
  cm_Content :: string
  cm_Name :: string
  cm_ToolCallID :: string
  cm_ToolCalls :: "ToolCall list"

record ToolDefinition =
  td_Name :: string
  td_Description :: string
  td_Parameters :: json

record ChatRequest =
  cq_Model :: string
  cq_Messages :: "ChatMessage list"
  cq_MaxTokens :: int
  cq_Tools :: "ToolDefinition list"

record Provider =
  pv_ID :: string
  pv_EgressEndpoint :: "string option"
  pv_ContextWindowTokens :: int
  pv_MaxOutputTokens :: int
  pv_EstimateRequestTokens :: "ChatRequest \<Rightarrow> string + int"

text \<open>A failed estimate, with the stage it failed in, or a mandatory part that does not fit.\<close>

datatype budget_err =
    EstimateError string string
  | errContextBudgetExceeded int int int
  | ContextCanceled
  | FrameError err

definition EstimateRequestTokens :: "Provider \<Rightarrow> ChatRequest \<Rightarrow> string + int" where
  "EstimateRequestTokens provider req = pv_EstimateRequestTokens provider req"

section \<open>Inputs and omissions\<close>

record contextInput =
  cx_memory :: "ChatMessage list"
  cx_skills :: "ChatMessage list"
  cx_history :: "ChatMessage list"
  cx_recall :: "ChatMessage option"
  cx_live :: "ChatMessage list"
  cx_requiredToolNames :: "string list"
  cx_excludedOptionalToolNames :: "string list"
  cx_skillIndexOmitted :: bool
  cx_memoryOmitted :: bool
  cx_minimalToolResults :: "nat list"

record contextOmissions =
  co_HistoryMessages :: nat
  co_RecallOmitted :: bool
  co_SkillIndexOmitted :: bool
  co_MemoryOmitted :: bool
  co_ToolDefinitions :: nat
  co_ToolResults :: nat

record budgetedContext =
  bc_Request :: ChatRequest
  bc_Omissions :: contextOmissions
  bc_RecallUsed :: bool
  bc_Estimate :: int

definition joinNoticeItems :: "string list \<Rightarrow> string" where
  "joinNoticeItems items =
     (case items of
        [] \<Rightarrow> ''''
      | [a] \<Rightarrow> a
      | [a, b] \<Rightarrow> a @ '' and '' @ b
      | _ \<Rightarrow> Join (butlast items) '', '' @ '', and '' @ last items)"

definition counted :: "nat \<Rightarrow> string \<Rightarrow> string \<Rightarrow> string" where
  "counted n one many = dec (int n) @ '' '' @ (if n = 1 then one else many)"

definition notice_items :: "contextOmissions \<Rightarrow> string list" where
  "notice_items o1 =
     (if co_HistoryMessages o1 > 0 then [counted (co_HistoryMessages o1) ''older conversation message'' ''older conversation messages''] else [])
     @ (if co_RecallOmitted o1 then [''recalled material''] else [])
     @ (if co_SkillIndexOmitted o1 then [''enabled skill metadata''] else [])
     @ (if co_MemoryOmitted o1 then [''pinned memory''] else [])
     @ (if co_ToolDefinitions o1 > 0 then [counted (co_ToolDefinitions o1) ''tool definition'' ''tool definitions''] else [])
     @ (if co_ToolResults o1 > 0 then [''content from '' @ counted (co_ToolResults o1) ''tool result'' ''tool results''] else [])"

definition Notice :: "contextOmissions \<Rightarrow> string" where
  "Notice o1 = (if notice_items o1 = [] then ''''
     else ''Context window limit: omitted '' @ joinNoticeItems (notice_items o1) @ '' from this model request.'')"

definition EventPayload :: "contextOmissions \<Rightarrow> json" where
  "EventPayload o1 = JObj [(''historyMessagesOmitted'', JNum (int (co_HistoryMessages o1))), (''recallOmitted'', JBool (co_RecallOmitted o1)),
     (''skillIndexOmitted'', JBool (co_SkillIndexOmitted o1)), (''memoryOmitted'', JBool (co_MemoryOmitted o1)),
     (''toolDefinitionsOmitted'', JNum (int (co_ToolDefinitions o1))), (''toolResultsOmitted'', JNum (int (co_ToolResults o1)))]"

section \<open>Assembly\<close>

definition liveToolNames :: "ChatMessage list \<Rightarrow> string list" where
  "liveToolNames ms = filter (\<lambda>n. n \<noteq> '''') (map tk_Name (concat (map cm_ToolCalls ms)))"

fun add_to_units :: "ChatMessage list list \<Rightarrow> ChatMessage list \<Rightarrow> ChatMessage list list" where
  "add_to_units units [] = units"
| "add_to_units units (m # ms) =
     add_to_units (if cm_Role m = ''user'' \<or> units = [] then units @ [[m]] else butlast units @ [last units @ [m]]) ms"

definition completeHistoryUnits :: "ChatMessage list \<Rightarrow> ChatMessage list list" where
  "completeHistoryUnits ms = add_to_units [] ms"

definition compactedToolResultForBytes :: "nat \<Rightarrow> string" where
  "compactedToolResultForBytes n = ''{\"contextBudget\":{\"omitted\":true,\"originalBytes\":'' @ dec (int n)
     @ '',\"message\":\"Tool result content omitted to fit the configured context window.\"}}''"

text \<open>What the closures of the Go function share: the live messages, the chosen tools, recall and history.\<close>

record assembly =
  as_live :: "ChatMessage list"
  as_selectedTools :: "bool list"
  as_recallUsed :: bool
  as_selectedHistory :: "ChatMessage list list"

definition buildRequest :: "Provider \<Rightarrow> string \<Rightarrow> contextInput \<Rightarrow> ToolDefinition list \<Rightarrow> assembly \<Rightarrow> ChatRequest" where
  "buildRequest provider model input tools s = \<lparr>cq_Model = model,
     cq_Messages = cx_memory input
       @ (case cx_recall input of Some r \<Rightarrow> if as_recallUsed s then [r] else [] | None \<Rightarrow> [])
       @ cx_skills input @ concat (as_selectedHistory s) @ as_live s,
     cq_MaxTokens = pv_MaxOutputTokens provider,
     cq_Tools = map fst (filter snd (zip tools (as_selectedTools s)))\<rparr>"

definition fits :: "Provider \<Rightarrow> string \<Rightarrow> contextInput \<Rightarrow> ToolDefinition list \<Rightarrow> assembly \<Rightarrow> string + bool \<times> int" where
  "fits provider model input tools s =
     (case EstimateRequestTokens provider (buildRequest provider model input tools s) of
        Inl e \<Rightarrow> Inl e
      | Inr v \<Rightarrow> Inr (v \<le> pv_ContextWindowTokens provider - pv_MaxOutputTokens provider, v))"

text \<open>Tool results whose replacement by a marker saves something, by index.\<close>

type_synonym candidate = "int \<times> nat \<times> string"

fun tool_result_candidates ::
  "(ChatMessage list \<Rightarrow> string + int) \<Rightarrow> ChatMessage list \<Rightarrow> nat list \<Rightarrow> int \<Rightarrow> nat list \<Rightarrow> budget_err + candidate list" where
  "tool_result_candidates est live minimal mandatory [] = Inr []"
| "tool_result_candidates est live minimal mandatory (i # is) =
     (let m = live ! i; marker = compactedToolResultForBytes (length (cm_Content m)) in
      if cm_Role m \<noteq> ''tool'' \<or> i \<in> set minimal then tool_result_candidates est live minimal mandatory is
      else case est (live[i := m\<lparr>cm_Content := marker\<rparr>]) of
        Inl e \<Rightarrow> Inl (EstimateError (''estimate compacted tool result '' @ dec (int i)) e)
      | Inr v \<Rightarrow>
          (case tool_result_candidates est live minimal mandatory is of
             Inl e \<Rightarrow> Inl e
           | Inr cs \<Rightarrow> Inr (if mandatory - v \<le> 0 then cs else (mandatory - v, i, marker) # cs)))"

fun compact_results ::
  "(assembly \<Rightarrow> string + bool \<times> int) \<Rightarrow> candidate list \<Rightarrow> assembly \<Rightarrow> nat \<Rightarrow> bool \<times> int \<Rightarrow> budget_err + assembly \<times> nat \<times> bool \<times> int" where
  "compact_results ft [] s n r = Inr (s, n, r)"
| "compact_results ft ((saved, i, marker) # cs) s n r =
     (if fst r then Inr (s, n, r)
      else
        let s' = s\<lparr>as_live := (as_live s)[i := (as_live s ! i)\<lparr>cm_Content := marker\<rparr>]\<rparr> in
        case ft s' of
          Inl e \<Rightarrow> Inl (EstimateError ''estimate compacted live tool protocol'' e)
        | Inr r' \<Rightarrow> compact_results ft cs s' (Suc n) r')"

definition admit_mandatory ::
  "Provider \<Rightarrow> string \<Rightarrow> contextInput \<Rightarrow> ToolDefinition list \<Rightarrow> assembly \<Rightarrow> budget_err + assembly \<times> nat" where
  "admit_mandatory provider model input tools s =
     (let ft = fits provider model input tools;
          est = (\<lambda>live. EstimateRequestTokens provider (buildRequest provider model input tools (s\<lparr>as_live := live\<rparr>))) in
      case ft s of
        Inl e \<Rightarrow> Inl (EstimateError ''estimate mandatory model context'' e)
      | Inr r \<Rightarrow>
          (case (if fst r then Inr (s, 0, r)
                 else case tool_result_candidates est (as_live s) (cx_minimalToolResults input) (snd r) [0..<length (as_live s)] of
                        Inl e \<Rightarrow> Inl e
                      | Inr cs \<Rightarrow> compact_results ft (sort_key (\<lambda>(saved, i, _). (- saved, i)) cs) s 0 r) of
             Inl e \<Rightarrow> Inl e
           | Inr (s', n, r') \<Rightarrow>
               if fst r' then Inr (s', n)
               else Inl (errContextBudgetExceeded (snd r') (pv_MaxOutputTokens provider) (pv_ContextWindowTokens provider))))"

text \<open>The binary search both the tools and the history use: the best count that was seen to fit.\<close>

function search :: "(int \<Rightarrow> 'e + bool) \<Rightarrow> int \<Rightarrow> int \<Rightarrow> int \<Rightarrow> 'e + int" where
  "search test low high best =
     (if low > high then Inr best
      else
        let middle = low + (high - low) div 2 in
        case test middle of
          Inl e \<Rightarrow> Inl e
        | Inr True \<Rightarrow> search test (middle + 1) high middle
        | Inr False \<Rightarrow> search test low (middle - 1) best)"
  by auto
termination by (relation "measure (\<lambda>(test, low, high, best). nat (high - low + 1))") auto

definition setOptionalPrefix :: "nat list \<Rightarrow> int \<Rightarrow> bool list \<Rightarrow> bool list" where
  "setOptionalPrefix optional count selected =
     fold (\<lambda>(k, i) sel. sel[i := int k < count]) (enumerate 0 optional) selected"

definition optional_tools :: "contextInput \<Rightarrow> ToolDefinition list \<Rightarrow> bool list \<Rightarrow> nat list" where
  "optional_tools input tools selected =
     filter (\<lambda>i. \<not> selected ! i \<and> td_Name (tools ! i) \<notin> set (cx_excludedOptionalToolNames input)) [0..<length tools]"

definition staged :: "string \<Rightarrow> string + bool \<times> int \<Rightarrow> budget_err + bool" where
  "staged stage r = (case r of Inl e \<Rightarrow> Inl (EstimateError stage e) | Inr (b, _) \<Rightarrow> Inr b)"

definition choose_tools ::
  "Provider \<Rightarrow> string \<Rightarrow> contextInput \<Rightarrow> ToolDefinition list \<Rightarrow> assembly \<Rightarrow> budget_err + assembly" where
  "choose_tools provider model input tools s =
     (let optional = optional_tools input tools (as_selectedTools s);
          pick = (\<lambda>n. s\<lparr>as_selectedTools := setOptionalPrefix optional n (as_selectedTools s)\<rparr>) in
      case search (\<lambda>n. staged (''estimate model context with '' @ dec n @ '' optional tools'') (fits provider model input tools (pick n)))
             0 (int (length optional)) 0 of
        Inl e \<Rightarrow> Inl e
      | Inr best \<Rightarrow> Inr (pick best))"

definition try_recall ::
  "Provider \<Rightarrow> string \<Rightarrow> contextInput \<Rightarrow> ToolDefinition list \<Rightarrow> assembly \<Rightarrow> budget_err + assembly" where
  "try_recall provider model input tools s =
     (case cx_recall input of
        None \<Rightarrow> Inr s
      | Some _ \<Rightarrow>
          (case staged ''estimate model context with recall'' (fits provider model input tools (s\<lparr>as_recallUsed := True\<rparr>)) of
             Inl e \<Rightarrow> Inl e
           | Inr ok \<Rightarrow> Inr (s\<lparr>as_recallUsed := ok\<rparr>)))"

definition choose_history ::
  "Provider \<Rightarrow> string \<Rightarrow> contextInput \<Rightarrow> ToolDefinition list \<Rightarrow> assembly \<Rightarrow> budget_err + assembly" where
  "choose_history provider model input tools s =
     (let units = completeHistoryUnits (cx_history input);
          pick = (\<lambda>n. s\<lparr>as_selectedHistory := drop (length units - nat n) units\<rparr>) in
      case search (\<lambda>n. staged (''estimate model context with '' @ dec n @ '' history units'') (fits provider model input tools (pick n)))
             0 (int (length units)) 0 of
        Inl e \<Rightarrow> Inl e
      | Inr best \<Rightarrow> Inr (pick best))"

definition first_assembly :: "contextInput \<Rightarrow> ToolDefinition list \<Rightarrow> assembly" where
  "first_assembly input tools =
     \<lparr>as_live = cx_live input,
      as_selectedTools = map (\<lambda>d. td_Name d \<in> set (liveToolNames (cx_live input)) \<union> set (cx_requiredToolNames input)) tools,
      as_recallUsed = False, as_selectedHistory = []\<rparr>"

definition omissions_of :: "contextInput \<Rightarrow> nat \<Rightarrow> assembly \<Rightarrow> contextOmissions" where
  "omissions_of input compacted s =
     (let units = completeHistoryUnits (cx_history input) in
      \<lparr>co_HistoryMessages = sum_list (map length (take (length units - length (as_selectedHistory s)) units)),
       co_RecallOmitted = (cx_recall input \<noteq> None \<and> \<not> as_recallUsed s),
       co_SkillIndexOmitted = cx_skillIndexOmitted input, co_MemoryOmitted = cx_memoryOmitted input,
       co_ToolDefinitions = length (filter Not (as_selectedTools s)), co_ToolResults = compacted\<rparr>)"

definition buildBudgetedContext ::
  "Provider \<Rightarrow> string \<Rightarrow> contextInput \<Rightarrow> ToolDefinition list \<Rightarrow> budget_err + budgetedContext" where
  "buildBudgetedContext provider model input tools =
     (case admit_mandatory provider model input tools (first_assembly input tools) of
        Inl e \<Rightarrow> Inl e
      | Inr (s1, compacted) \<Rightarrow>
          (case choose_tools provider model input tools s1 of
             Inl e \<Rightarrow> Inl e
           | Inr s2 \<Rightarrow>
               (case try_recall provider model input tools s2 of
                  Inl e \<Rightarrow> Inl e
                | Inr s3 \<Rightarrow>
                    (case choose_history provider model input tools s3 of
                       Inl e \<Rightarrow> Inl e
                     | Inr s4 \<Rightarrow>
                         (let request = buildRequest provider model input tools s4 in
                          case EstimateRequestTokens provider request of
                            Inl e \<Rightarrow> Inl (EstimateError ''estimate final model context'' e)
                          | Inr v \<Rightarrow> Inr \<lparr>bc_Request = request, bc_Omissions = omissions_of input compacted s4,
                              bc_RecallUsed = as_recallUsed s4, bc_Estimate = v\<rparr>)))))"

section \<open>The search\<close>

declare search.simps [simp del]

lemma search_done: "low > high \<Longrightarrow> search test low high best = Inr best"
  by (subst search.simps) simp

lemma search_stepE:
  assumes "search test low high best = Inr k" "\<not> low > high"
  obtains m where "low \<le> m" "m \<le> high" "m = low + (high - low) div 2" "test m = Inr True" "search test (m + 1) high m = Inr k"
  | m where "low \<le> m" "m \<le> high" "m = low + (high - low) div 2" "test m = Inr False" "search test low (m - 1) best = Inr k"
proof -
  let ?m = "low + (high - low) div 2"
  have m: "low \<le> ?m" "?m \<le> high" using assms(2) by auto
  have s: "(case test ?m of Inl e \<Rightarrow> Inl e | Inr True \<Rightarrow> search test (?m + 1) high ?m | Inr False \<Rightarrow> search test low (?m - 1) best) = Inr k"
    using assms by (subst (asm) search.simps) (simp add: Let_def)
  show thesis
  proof (cases "test ?m")
    case (Inl e)
    then show thesis using s by simp
  next
    case (Inr b)
    then show thesis using s that m by (cases b) auto
  qed
qed

lemma search_seen:
  "search test low high best = Inr k \<Longrightarrow> k = best \<or> low \<le> k \<and> k \<le> high \<and> test k = Inr True"
proof (induction test low high best rule: search.induct)
  case (1 test low high best)
  show ?case
  proof (cases "low > high")
    case True
    then show ?thesis using 1(3) by (simp add: search_done)
  next
    case False
    show ?thesis using 1(3) False
    proof (cases rule: search_stepE)
      case (1 m)
      then show ?thesis using "1.IH"(1) [OF False 1(3)] by fastforce
    next
      case (2 m)
      then show ?thesis using "1.IH"(2) [OF False 2(3)] by fastforce
    qed
  qed
qed

text \<open>When more never fits better, the search finds the most that fits.\<close>

lemma search_most:
  assumes "search test low high best = Inr k" "0 \<le> low" "high \<le> n" "test best = Inr True" "low = best + 1 \<or> low = 0 \<and> best = 0"
    and "\<And>i. high < i \<Longrightarrow> i \<le> n \<Longrightarrow> test i = Inr False"
    and down: "\<And>i j. 0 \<le> i \<Longrightarrow> i \<le> j \<Longrightarrow> j \<le> n \<Longrightarrow> test i = Inr False \<Longrightarrow> test j = Inr False"
  shows "test k = Inr True \<and> (\<forall>i. k < i \<and> i \<le> n \<longrightarrow> test i = Inr False)"
  using assms
proof (induction test low high best rule: search.induct)
  case (1 test low high best)
  show ?case
  proof (cases "low > high")
    case True
    then have "k = best" using "1.prems"(1) by (simp add: search_done)
    then show ?thesis using True "1.prems"(4-6) by force
  next
    case False
    show ?thesis using "1.prems"(1) False
    proof (cases rule: search_stepE)
      case (1 m)
      show ?thesis by (rule "1.IH"(1) [OF False 1(3,4)]; (rule "1.prems"(6,7), assumption+ | use 1 "1.prems"(2,3) in simp))
    next
      case (2 m)
      have up: "test i = Inr False" if "m - 1 < i" "i \<le> n" for i using "1.prems"(7) [of m i] 2 that "1.prems"(2) by linarith
      show ?thesis by (rule "1.IH"(2) [OF False 2(3,4)]; (rule up "1.prems"(7), assumption+ | use 2 "1.prems"(2-5) in simp))
    qed
  qed
qed

section \<open>History\<close>

lemma concat_add_to_units: "concat (add_to_units us ms) = concat us @ ms"
proof (induction us ms rule: add_to_units.induct)
  case (2 us m ms)
  have "us \<noteq> [] \<Longrightarrow> concat us = concat (butlast us) @ last us" by (metis append_butlast_last_id concat.simps concat_append append_Nil2)
  then show ?case using 2 by auto
qed simp

text \<open>A unit is an exchange: it is not empty, and but for the first it opens with what the user said.\<close>

definition exchange :: "ChatMessage list \<Rightarrow> bool" where
  "exchange u \<longleftrightarrow> u \<noteq> [] \<and> cm_Role (hd u) = ''user''"

lemma add_to_units_exchanges:
  "list_all (\<lambda>u. u \<noteq> []) us \<Longrightarrow> list_all exchange (tl us) \<Longrightarrow>
   list_all (\<lambda>u. u \<noteq> []) (add_to_units us ms) \<and> list_all exchange (tl (add_to_units us ms))"
proof (induction us ms rule: add_to_units.induct)
  case (2 us m ms)
  let ?us = "if cm_Role m = ''user'' \<or> us = [] then us @ [[m]] else butlast us @ [last us @ [m]]"
  have "list_all (\<lambda>u. u \<noteq> []) ?us \<and> list_all exchange (tl ?us)"
  proof (cases us rule: rev_cases)
    case (snoc vs v)
    show ?thesis using 2(2,3) unfolding snoc by (cases vs) (auto simp: exchange_def [abs_def] hd_append)
  qed simp
  then show ?case using 2(1) by simp
qed simp

lemma history_units:
  "concat (completeHistoryUnits ms) = ms" "list_all (\<lambda>u. u \<noteq> []) (completeHistoryUnits ms)"
  "list_all exchange (tl (completeHistoryUnits ms))"
  using concat_add_to_units [of "[]" ms] add_to_units_exchanges [of "[]" ms] by (simp_all add: completeHistoryUnits_def)

lemma concat_drop: "concat (drop j us) = drop (sum_list (map length (take j us))) (concat us)"
proof (induction us arbitrary: j)
  case (Cons u us)
  then show ?case by (cases j) auto
qed simp

text \<open>Dropping whole units cuts the history where the user speaks.\<close>

lemma history_cut:
  assumes "j \<le> length (completeHistoryUnits ms)"
  defines "k \<equiv> sum_list (map length (take j (completeHistoryUnits ms)))"
  shows "concat (drop j (completeHistoryUnits ms)) = drop k ms" "k = 0 \<or> k = length ms \<or> k < length ms \<and> cm_Role (ms ! k) = ''user''"
proof -
  let ?us = "completeHistoryUnits ms"
  show c: "concat (drop j ?us) = drop k ms" using concat_drop [of j ?us] history_units(1) by (simp add: k_def)
  show "k = 0 \<or> k = length ms \<or> k < length ms \<and> cm_Role (ms ! k) = ''user''"
  proof (cases "0 < j \<and> j < length ?us")
    case True
    then have d: "drop j ?us = ?us ! j # drop (Suc j) ?us" by (simp add: Cons_nth_drop_Suc)
    have "?us ! j = tl ?us ! (j - 1)" "j - 1 < length (tl ?us)" using True by (auto simp: nth_tl)
    then have u: "exchange (?us ! j)" using history_units(3) by (metis list_all_length)
    then have "drop k ms = ?us ! j @ concat (drop (Suc j) ?us)" using c d by simp
    then have "drop k ms \<noteq> [] \<and> hd (drop k ms) = hd (?us ! j)" using u by (simp add: exchange_def)
    then show ?thesis using u by (auto simp: exchange_def hd_drop_conv_nth)
  next
    case False
    then consider "j = 0" | "j = length ?us" using assms(1) by linarith
    then show ?thesis
    proof cases
      case 2
      then have "k = length (concat ?us)" by (simp add: k_def length_concat)
      then show ?thesis using history_units(1) [of ms] by simp
    qed (simp add: k_def)
  qed
qed

section \<open>Chosen tools\<close>

lemma setOptionalPrefix_length [simp]: "length (setOptionalPrefix opt n sel) = length sel"
proof -
  have "length (fold (\<lambda>(k, i) sel. sel[i := int k < n]) ps sel) = length sel" for ps
    by (induction ps arbitrary: sel) auto
  then show ?thesis by (simp add: setOptionalPrefix_def)
qed

lemma setOptionalPrefix_other: "i \<notin> set opt \<Longrightarrow> setOptionalPrefix opt n sel ! i = sel ! i"
proof -
  have "i \<notin> snd ` set ps \<Longrightarrow> fold (\<lambda>(k, i) sel. sel[i := int k < n]) ps sel ! i = sel ! i" for ps
    by (induction ps arbitrary: sel) (auto simp: nth_list_update)
  moreover have "snd ` set (enumerate 0 opt) = set opt" by (metis list.set_map map_snd_enumerate)
  ultimately show "i \<notin> set opt \<Longrightarrow> ?thesis" by (simp add: setOptionalPrefix_def)
qed

lemma setOptionalPrefix_0:
  assumes "\<And>i. i \<in> set opt \<Longrightarrow> \<not> sel ! i"
  shows "setOptionalPrefix opt 0 sel = sel"
proof -
  have unchanged: "fold (\<lambda>(k, i) sel. sel[i := int k < 0]) ps sel = sel" if "\<And>i. i \<in> snd ` set ps \<Longrightarrow> \<not> sel ! i" for ps
    using that
  proof (induction ps)
    case (Cons p ps)
    have "sel[snd p := False] = sel"
    proof (cases "snd p < length sel")
      case True
      have "\<not> sel ! snd p" using Cons.prems by simp
      then show ?thesis by (metis list_update_id)
    qed (simp add: list_update_beyond)
    then show ?case using Cons by (cases p) simp
  qed simp
  have s: "snd ` set (enumerate 0 opt) = set opt" by (metis list.set_map map_snd_enumerate)
  show ?thesis unfolding setOptionalPrefix_def by (rule unchanged) (use s assms in blast)
qed

section \<open>Every choice keeps what fits\<close>

definition roomy :: "Provider \<Rightarrow> string \<Rightarrow> contextInput \<Rightarrow> ToolDefinition list \<Rightarrow> assembly \<Rightarrow> bool" where
  "roomy provider model input tools s \<longleftrightarrow> (\<exists>v. fits provider model input tools s = Inr (True, v))"

lemma staged_True: "staged stage (fits provider model input tools s) = Inr True \<Longrightarrow> roomy provider model input tools s"
  by (auto simp: staged_def roomy_def split: sum.splits)

lemma choose_tools_Inr:
  assumes "choose_tools provider model input tools s = Inr s'" "roomy provider model input tools s"
  obtains sel where "s' = s\<lparr>as_selectedTools := sel\<rparr>" "roomy provider model input tools s'" "length sel = length (as_selectedTools s)"
    "\<forall>i. as_selectedTools s ! i \<longrightarrow> sel ! i"
proof -
  let ?opt = "optional_tools input tools (as_selectedTools s)"
  let ?pick = "\<lambda>n. s\<lparr>as_selectedTools := setOptionalPrefix ?opt n (as_selectedTools s)\<rparr>"
  let ?test = "\<lambda>n. staged (''estimate model context with '' @ dec n @ '' optional tools'') (fits provider model input tools (?pick n))"
  obtain k where k: "search ?test 0 (int (length ?opt)) 0 = Inr k" "s' = ?pick k"
    using assms(1) by (auto simp: choose_tools_def Let_def split: sum.splits)
  have "?pick 0 = s" by (subst setOptionalPrefix_0) (auto simp: optional_tools_def)
  then have "roomy provider model input tools s'" using search_seen [OF k(1)] staged_True assms(2) k(2) by auto
  moreover have "i \<notin> set ?opt" if "as_selectedTools s ! i" for i using that by (simp add: optional_tools_def)
  ultimately show thesis using k(2) by (intro that [of "setOptionalPrefix ?opt k (as_selectedTools s)"]) (simp_all add: setOptionalPrefix_other)
qed

lemma try_recall_Inr:
  assumes "try_recall provider model input tools s = Inr s'" "roomy provider model input tools s" "\<not> as_recallUsed s"
  shows "roomy provider model input tools s' \<and> s' = s\<lparr>as_recallUsed := as_recallUsed s'\<rparr> \<and> (as_recallUsed s' \<longrightarrow> cx_recall input \<noteq> None)"
proof (cases "cx_recall input")
  case None
  then show ?thesis using assms by (simp add: try_recall_def)
next
  case (Some r)
  obtain ok where ok: "staged ''estimate model context with recall'' (fits provider model input tools (s\<lparr>as_recallUsed := True\<rparr>)) = Inr ok"
    "s' = s\<lparr>as_recallUsed := ok\<rparr>"
    using assms(1) Some by (auto simp: try_recall_def split: sum.splits)
  show ?thesis
  proof (cases ok)
    case True
    then show ?thesis using ok staged_True Some by auto
  next
    case False
    then have "s' = s" using ok(2) assms(3) by simp
    then show ?thesis using assms(2,3) by simp
  qed
qed

lemma choose_history_Inr:
  assumes "choose_history provider model input tools s = Inr s'" "roomy provider model input tools s" "as_selectedHistory s = []"
  obtains j where "s' = s\<lparr>as_selectedHistory := drop j (completeHistoryUnits (cx_history input))\<rparr>" "roomy provider model input tools s'"
    "j \<le> length (completeHistoryUnits (cx_history input))"
proof -
  let ?units = "completeHistoryUnits (cx_history input)"
  let ?pick = "\<lambda>n. s\<lparr>as_selectedHistory := drop (length ?units - nat n) ?units\<rparr>"
  let ?test = "\<lambda>n. staged (''estimate model context with '' @ dec n @ '' history units'') (fits provider model input tools (?pick n))"
  obtain k where k: "search ?test 0 (int (length ?units)) 0 = Inr k" "s' = ?pick k"
    using assms(1) by (auto simp: choose_history_def Let_def split: sum.splits)
  have "?pick 0 = s" using assms(3) by simp
  then have "roomy provider model input tools s'" using search_seen [OF k(1)] staged_True assms(2) k(2) by auto
  then show thesis using k(2) by (intro that [of "length ?units - nat k"]) simp_all
qed

section \<open>Compacted tool results\<close>

definition compacted :: "ChatMessage \<Rightarrow> ChatMessage" where
  "compacted m = m\<lparr>cm_Content := compactedToolResultForBytes (length (cm_Content m))\<rparr>"

definition compact_at :: "ChatMessage list \<Rightarrow> nat list \<Rightarrow> ChatMessage list" where
  "compact_at live J = map (\<lambda>i. if i \<in> set J then compacted (live ! i) else live ! i) [0..<length live]"

lemma compact_at_Nil [simp]: "compact_at live [] = live"
  by (simp add: compact_at_def map_nth)

lemma compact_at_snoc:
  assumes "i < length live" "i \<notin> set J"
  shows "compact_at live (J @ [i]) = (compact_at live J)[i := (compact_at live J ! i)\<lparr>cm_Content := compactedToolResultForBytes (length (cm_Content (live ! i)))\<rparr>]"
proof (rule nth_equalityI)
  fix x assume "x < length (compact_at live (J @ [i]))"
  then have "x < length live" by (simp add: compact_at_def)
  then show "compact_at live (J @ [i]) ! x
      = (compact_at live J)[i := (compact_at live J ! i)\<lparr>cm_Content := compactedToolResultForBytes (length (cm_Content (live ! i)))\<rparr>] ! x"
    using assms by (cases "x = i") (auto simp: compact_at_def nth_list_update compacted_def)
qed (simp add: compact_at_def)

definition candidate_index :: "candidate \<Rightarrow> nat" where "candidate_index c = fst (snd c)"

lemma candidate_index [simp]: "candidate_index (saved, i, marker) = i"
  by (simp add: candidate_index_def)

text \<open>A candidate is a tool result the caller did not mark, with the marker for its own size.\<close>

definition candidate_ok :: "ChatMessage list \<Rightarrow> nat list \<Rightarrow> candidate \<Rightarrow> bool" where
  "candidate_ok live minimal c = (case c of (saved, i, marker) \<Rightarrow> i < length live \<and> cm_Role (live ! i) = ''tool'' \<and> i \<notin> set minimal
     \<and> marker = compactedToolResultForBytes (length (cm_Content (live ! i))))"

lemma candidates_ok:
  assumes "tool_result_candidates est live minimal mandatory is = Inr cs" "set is \<subseteq> {..<length live}" "distinct is"
  shows "list_all (candidate_ok live minimal) cs \<and> distinct (map candidate_index cs) \<and> set (map candidate_index cs) \<subseteq> set is"
  using assms
proof (induction "is" arbitrary: cs)
  case (Cons i "is")
  let ?m = "live ! i"
  show ?case
  proof (cases "cm_Role ?m \<noteq> ''tool'' \<or> i \<in> set minimal")
    case True
    then show ?thesis using Cons by (auto simp: Let_def)
  next
    case False
    obtain v cs' where r: "tool_result_candidates est live minimal mandatory is = Inr cs'"
      and cs: "cs = (if mandatory - v \<le> 0 then cs' else (mandatory - v, i, compactedToolResultForBytes (length (cm_Content ?m))) # cs')"
      using Cons.prems(1) False by (auto simp: Let_def split: sum.splits)
    show ?thesis using Cons.IH [OF r] Cons.prems(2,3) False by (auto simp: cs candidate_ok_def)
  qed
qed simp

lemma compact_results_Inr:
  assumes "compact_results ft cs s n r = Inr (s', n', r')" "ft s = Inr r" "as_live s = compact_at live J"
    and "list_all (candidate_ok live minimal) cs" "distinct (J @ map candidate_index cs)"
  shows "\<exists>K. as_live s' = compact_at live (J @ K) \<and> n' = n + length K \<and> ft s' = Inr r' \<and> s' = s\<lparr>as_live := as_live s'\<rparr>
    \<and> set K \<subseteq> set (map candidate_index cs) \<and> distinct K"
  using assms
proof (induction ft cs s n r arbitrary: J rule: compact_results.induct)
  case (1 ft s n r)
  then show ?case by (intro exI [of _ "[]"]) simp
next
  case (2 ft saved i marker cs s n r)
  show ?case
  proof (cases "fst r")
    case True
    then show ?thesis using 2 by (intro exI [of _ "[]"]) simp
  next
    case False
    let ?s = "s\<lparr>as_live := (as_live s)[i := (as_live s ! i)\<lparr>cm_Content := marker\<rparr>]\<rparr>"
    obtain r1 where r1: "ft ?s = Inr r1" and rest: "compact_results ft cs ?s (Suc n) r1 = Inr (s', n', r')"
      using "2.prems"(1) False by (auto simp: Let_def split: sum.splits)
    have i: "i < length live" "i \<notin> set J" "marker = compactedToolResultForBytes (length (cm_Content (live ! i)))"
      using "2.prems"(4,5) by (auto simp: candidate_ok_def)
    have live: "as_live ?s = compact_at live (J @ [i])" using compact_at_snoc [OF i(1,2)] "2.prems"(3) i(3) by simp
    have "list_all (candidate_ok live minimal) cs" "distinct ((J @ [i]) @ map candidate_index cs)" using "2.prems"(4,5) by auto
    then obtain K where K: "as_live s' = compact_at live ((J @ [i]) @ K)" "n' = Suc n + length K" "ft s' = Inr r'"
      "s' = ?s\<lparr>as_live := as_live s'\<rparr>" "set K \<subseteq> set (map candidate_index cs)" "distinct K"
      using "2.IH" [OF False refl r1 rest r1 live] by blast
    have s: "s' = s\<lparr>as_live := as_live s'\<rparr>" using K(4) by (rule trans) simp
    have "i \<notin> set K" using K(5) "2.prems"(5) by auto
    then show ?thesis using K s by (intro exI [of _ "i # K"]) auto
  qed
qed

lemma admit_mandatory_Inr:
  assumes "admit_mandatory provider model input tools s = Inr (s', n)"
  obtains K where "s' = s\<lparr>as_live := compact_at (as_live s) K\<rparr>" "n = length K" "distinct K" "roomy provider model input tools s'"
    "\<forall>i \<in> set K. i < length (as_live s) \<and> cm_Role (as_live s ! i) = ''tool'' \<and> i \<notin> set (cx_minimalToolResults input)"
proof -
  let ?ft = "fits provider model input tools"
  obtain r where r: "?ft s = Inr r" using assms by (auto simp: admit_mandatory_def Let_def split: sum.splits)
  show thesis
  proof (cases "fst r")
    case True
    then show thesis using assms r that [of "[]"] by (cases r) (auto simp: admit_mandatory_def roomy_def Let_def)
  next
    case False
    obtain cs r' where cs: "tool_result_candidates (\<lambda>live. EstimateRequestTokens provider (buildRequest provider model input tools (s\<lparr>as_live := live\<rparr>)))
        (as_live s) (cx_minimalToolResults input) (snd r) [0..<length (as_live s)] = Inr cs"
      and c: "compact_results ?ft (sort_key (\<lambda>(saved, i, _). (- saved, i)) cs) s 0 r = Inr (s', n, r')" and ok: "fst r'"
      using assms r False by (auto simp: admit_mandatory_def Let_def split: sum.splits if_splits prod.splits)
    let ?cs = "sort_key (\<lambda>(saved, i, _). (- saved, i)) cs"
    have k: "list_all (candidate_ok (as_live s) (cx_minimalToolResults input)) cs" "distinct (map candidate_index cs)"
      using candidates_ok [OF cs] by (auto simp: atLeast0LessThan)
    have k2: "list_all (candidate_ok (as_live s) (cx_minimalToolResults input)) ?cs" "distinct ([] @ map candidate_index ?cs)"
      using k by (simp_all add: list_all_iff distinct_map)
    have "as_live s = compact_at (as_live s) []" by simp
    from compact_results_Inr [OF c r this k2] obtain K where K: "as_live s' = compact_at (as_live s) ([] @ K)" "n = 0 + length K" "?ft s' = Inr r'" "s' = s\<lparr>as_live := as_live s'\<rparr>"
      "set K \<subseteq> set (map candidate_index ?cs)" "distinct K"
      by blast
    have "roomy provider model input tools s'" using K(3) ok by (cases r') (auto simp: roomy_def)
    moreover have "i < length (as_live s) \<and> cm_Role (as_live s ! i) = ''tool'' \<and> i \<notin> set (cx_minimalToolResults input)" if i: "i \<in> set K" for i
    proof -
      obtain c where "c \<in> set cs" "i = candidate_index c" using K(5) i by auto
      then show ?thesis using k(1) by (cases c) (auto simp: list_all_iff candidate_ok_def)
    qed
    moreover have "s' = s\<lparr>as_live := compact_at (as_live s) K\<rparr>" using K(4) [unfolded K(1)] by simp
    ultimately show thesis using K(2,6) by (intro that [of K]) auto
  qed
qed

section \<open>The request\<close>

lemma filter_zip_length:
  assumes "length sel = length xs"
  shows "length (map fst (filter snd (zip xs sel))) + length (filter Not sel) = length xs"
  using assms by (induction xs sel rule: list_induct2') auto

lemma filter_zip_set:
  assumes "length sel = length xs" "i < length xs" "sel ! i"
  shows "xs ! i \<in> set (map fst (filter snd (zip xs sel)))"
  using assms by (force simp: set_zip)

definition required_tool :: "contextInput \<Rightarrow> ToolDefinition \<Rightarrow> bool" where
  "required_tool input d \<longleftrightarrow> td_Name d \<in> set (liveToolNames (cx_live input)) \<union> set (cx_requiredToolNames input)"

text \<open>What a request holds, and that the omissions account for all the rest.\<close>

definition accounted :: "contextInput \<Rightarrow> ToolDefinition list \<Rightarrow> budgetedContext \<Rightarrow> bool" where
  "accounted input tools b \<longleftrightarrow>
     (let o1 = bc_Omissions b; k = co_HistoryMessages o1 in
      (\<exists>K. cq_Messages (bc_Request b) = cx_memory input
          @ (if bc_RecallUsed b then [the (cx_recall input)] else []) @ cx_skills input @ drop k (cx_history input) @ compact_at (cx_live input) K
        \<and> length K = co_ToolResults o1 \<and> distinct K
        \<and> (\<forall>i \<in> set K. i < length (cx_live input) \<and> cm_Role (cx_live input ! i) = ''tool''))
      \<and> (k = 0 \<or> k = length (cx_history input) \<or> k < length (cx_history input) \<and> cm_Role (cx_history input ! k) = ''user'')
      \<and> (bc_RecallUsed b \<longrightarrow> cx_recall input \<noteq> None) \<and> (co_RecallOmitted o1 \<longleftrightarrow> cx_recall input \<noteq> None \<and> \<not> bc_RecallUsed b)
      \<and> length (cq_Tools (bc_Request b)) + co_ToolDefinitions o1 = length tools
      \<and> {d \<in> set tools. required_tool input d} \<subseteq> set (cq_Tools (bc_Request b)) \<and> set (cq_Tools (bc_Request b)) \<subseteq> set tools)"

lemma budgeted_assembly:
  assumes "buildBudgetedContext provider model input tools = Inr b"
  obtains K sel j s where "roomy provider model input tools s" "bc_Request b = buildRequest provider model input tools s"
    "EstimateRequestTokens provider (bc_Request b) = Inr (bc_Estimate b)" "bc_Omissions b = omissions_of input (length K) s"
    "bc_RecallUsed b = as_recallUsed s" "as_live s = compact_at (cx_live input) K" "as_selectedTools s = sel" "length sel = length tools"
    "as_selectedHistory s = drop j (completeHistoryUnits (cx_history input))" "j \<le> length (completeHistoryUnits (cx_history input))"
    "as_recallUsed s \<longrightarrow> cx_recall input \<noteq> None" "\<forall>i < length tools. required_tool input (tools ! i) \<longrightarrow> sel ! i" "distinct K"
    "\<forall>i \<in> set K. i < length (cx_live input) \<and> cm_Role (cx_live input ! i) = ''tool''"
proof -
  let ?s0 = "first_assembly input tools"
  obtain s1 n s2 s3 s4 v where m: "admit_mandatory provider model input tools ?s0 = Inr (s1, n)"
    and c: "choose_tools provider model input tools s1 = Inr s2" and r: "try_recall provider model input tools s2 = Inr s3"
    and h: "choose_history provider model input tools s3 = Inr s4"
    and v: "EstimateRequestTokens provider (buildRequest provider model input tools s4) = Inr v"
    and b: "b = \<lparr>bc_Request = buildRequest provider model input tools s4, bc_Omissions = omissions_of input n s4,
      bc_RecallUsed = as_recallUsed s4, bc_Estimate = v\<rparr>"
    using assms by (auto simp: buildBudgetedContext_def Let_def split: sum.splits)
  obtain K where s1: "s1 = ?s0\<lparr>as_live := compact_at (as_live ?s0) K\<rparr>" "n = length K" "distinct K" "roomy provider model input tools s1"
    and K: "\<forall>i \<in> set K. i < length (as_live ?s0) \<and> cm_Role (as_live ?s0 ! i) = ''tool'' \<and> i \<notin> set (cx_minimalToolResults input)"
    by (rule admit_mandatory_Inr [OF m])
  obtain sel where s2: "s2 = s1\<lparr>as_selectedTools := sel\<rparr>" "roomy provider model input tools s2" "length sel = length (as_selectedTools s1)"
    and sel: "\<forall>i. as_selectedTools s1 ! i \<longrightarrow> sel ! i"
    by (rule choose_tools_Inr [OF c s1(4)])
  have "\<not> as_recallUsed s2" by (simp add: s2(1) s1(1) first_assembly_def)
  note s3 = try_recall_Inr [OF r s2(2) this]
  have "as_selectedHistory s3 = []" by (subst conjunct1 [OF conjunct2 [OF s3]]) (simp add: s2(1) s1(1) first_assembly_def)
  then obtain j where s4: "s4 = s3\<lparr>as_selectedHistory := drop j (completeHistoryUnits (cx_history input))\<rparr>" "roomy provider model input tools s4"
    "j \<le> length (completeHistoryUnits (cx_history input))"
    using choose_history_Inr [OF h conjunct1 [OF s3]] by blast
  have f: "as_live s4 = compact_at (cx_live input) K \<and> as_selectedTools s4 = sel"
  proof -
    have e: "s3 = s2\<lparr>as_recallUsed := as_recallUsed s3\<rparr>" using s3 by blast
    have "as_live s3 = as_live s2" by (subst e) simp
    moreover have "as_selectedTools s3 = as_selectedTools s2" by (subst e) simp
    ultimately show ?thesis by (simp add: s4(1) s2(1) s1(1) first_assembly_def)
  qed
  have "length sel = length tools" using s2(3) by (simp add: s1(1) first_assembly_def)
  moreover have "sel ! i" if "i < length tools" "required_tool input (tools ! i)" for i
    using that sel by (simp add: s1(1) first_assembly_def required_tool_def)
  ultimately show thesis using s4 f v K s1(2,3) s3 by (intro that [of s4 K sel j]) (simp_all add: b first_assembly_def)
qed

lemma budgeted_fits:
  assumes "buildBudgetedContext provider model input tools = Inr b"
  shows "EstimateRequestTokens provider (bc_Request b) = Inr (bc_Estimate b)"
    "bc_Estimate b + pv_MaxOutputTokens provider \<le> pv_ContextWindowTokens provider"
    "cq_MaxTokens (bc_Request b) = pv_MaxOutputTokens provider"
proof -
  obtain s where s: "roomy provider model input tools s" "bc_Request b = buildRequest provider model input tools s"
    and e: "EstimateRequestTokens provider (bc_Request b) = Inr (bc_Estimate b)"
    by (rule budgeted_assembly [OF assms])
  show "EstimateRequestTokens provider (bc_Request b) = Inr (bc_Estimate b)" by (rule e)
  show "bc_Estimate b + pv_MaxOutputTokens provider \<le> pv_ContextWindowTokens provider"
    using s e by (auto simp: roomy_def fits_def)
  show "cq_MaxTokens (bc_Request b) = pv_MaxOutputTokens provider" by (simp add: s(2) buildRequest_def)
qed

lemma budgeted_accounted:
  assumes "buildBudgetedContext provider model input tools = Inr b"
  shows "accounted input tools b"
proof -
  obtain K sel j s where s: "bc_Request b = buildRequest provider model input tools s" "bc_Omissions b = omissions_of input (length K) s"
    "bc_RecallUsed b = as_recallUsed s" "as_live s = compact_at (cx_live input) K" "as_selectedTools s = sel" "length sel = length tools"
    "as_selectedHistory s = drop j (completeHistoryUnits (cx_history input))" "j \<le> length (completeHistoryUnits (cx_history input))"
    "as_recallUsed s \<longrightarrow> cx_recall input \<noteq> None" and req: "\<forall>i < length tools. required_tool input (tools ! i) \<longrightarrow> sel ! i"
    and K: "distinct K" "\<forall>i \<in> set K. i < length (cx_live input) \<and> cm_Role (cx_live input ! i) = ''tool''"
    by (rule budgeted_assembly [OF assms])
  let ?us = "completeHistoryUnits (cx_history input)"
  note h = history_cut [OF s(8)]
  have k: "co_HistoryMessages (bc_Omissions b) = sum_list (map length (take j ?us))" using s(7,8) by (simp add: s(2) omissions_of_def Let_def)
  have msgs: "cq_Messages (bc_Request b) = cx_memory input @ (if bc_RecallUsed b then [the (cx_recall input)] else []) @ cx_skills input
      @ drop (co_HistoryMessages (bc_Omissions b)) (cx_history input) @ compact_at (cx_live input) K"
    using s(9) h(1) by (auto simp: s(1,3,4,7) k buildRequest_def split: option.splits)
  have tools: "cq_Tools (bc_Request b) = map fst (filter snd (zip tools sel))" by (simp add: s(1,5) buildRequest_def)
  have "d \<in> set (cq_Tools (bc_Request b))" if d: "d \<in> set tools" "required_tool input d" for d
  proof -
    obtain i where "i < length tools" "d = tools ! i" using d(1) by (auto simp: in_set_conv_nth)
    then show ?thesis using filter_zip_set [OF s(6)] req d(2) by (simp add: tools)
  qed
  moreover have "set (cq_Tools (bc_Request b)) \<subseteq> set tools" by (auto simp: tools dest: set_zip_leftD)
  moreover have "length (cq_Tools (bc_Request b)) + co_ToolDefinitions (bc_Omissions b) = length tools"
    using filter_zip_length [OF s(6)] by (simp add: tools s(2,5) omissions_of_def Let_def)
  moreover have "co_ToolResults (bc_Omissions b) = length K" "co_RecallOmitted (bc_Omissions b) \<longleftrightarrow> cx_recall input \<noteq> None \<and> \<not> bc_RecallUsed b"
    by (simp_all add: s(2,3) omissions_of_def Let_def)
  ultimately show ?thesis unfolding accounted_def Let_def using msgs K s(3,9) h(2) k by auto
qed

section \<open>A request that exists\<close>

text \<open>With an estimator that answers, the optional parts never cost the request: only the mandatory ones decide.\<close>

definition answers :: "Provider \<Rightarrow> bool" where
  "answers provider \<longleftrightarrow> (\<forall>req. \<exists>v. EstimateRequestTokens provider req = Inr v)"

lemma staged_answers: "answers provider \<Longrightarrow> \<exists>ok. staged stage (fits provider model input tools s) = Inr ok"
  unfolding answers_def by (auto simp: staged_def fits_def split: sum.splits) (metis sum.distinct(1))

lemma search_total:
  assumes "\<And>i. \<exists>ok. test i = Inr ok"
  shows "\<exists>k. search test low high best = Inr k"
  using assms
proof (induction test low high best rule: search.induct)
  case (1 test low high best)
  show ?case
  proof (cases "low > high")
    case False
    let ?m = "low + (high - low) div 2"
    obtain ok where ok: "test ?m = Inr ok" using "1.prems" by blast
    show ?thesis
    proof (cases ok)
      case True
      then show ?thesis using "1.IH"(1) [OF False refl] "1.prems" ok False by (subst search.simps) (simp add: Let_def)
    next
      case no: False
      then show ?thesis using "1.IH"(2) [OF False refl] "1.prems" ok False by (subst search.simps) (simp add: Let_def)
    qed
  qed (simp add: search_done)
qed

lemma search_then:
  assumes "\<And>i. \<exists>ok. test i = Inr ok"
  shows "\<exists>s. (case search test low high best of Inl e \<Rightarrow> Inl e | Inr k \<Rightarrow> Inr (pick k)) = Inr s"
proof -
  obtain k where "search test low high best = Inr k" using search_total [of test, OF assms] by blast
  then show ?thesis by simp
qed

lemma choose_tools_total: "answers provider \<Longrightarrow> \<exists>s'. choose_tools provider model input tools s = Inr s'"
  unfolding choose_tools_def Let_def by (rule search_then) (rule staged_answers)

lemma choose_history_total: "answers provider \<Longrightarrow> \<exists>s'. choose_history provider model input tools s = Inr s'"
  unfolding choose_history_def Let_def by (rule search_then) (rule staged_answers)

lemma try_recall_total:
  assumes "answers provider"
  shows "\<exists>s'. try_recall provider model input tools s = Inr s'"
proof -
  obtain ok where "staged ''estimate model context with recall'' (fits provider model input tools (s\<lparr>as_recallUsed := True\<rparr>)) = Inr ok"
    using staged_answers [OF assms] by blast
  then show ?thesis by (cases "cx_recall input") (simp_all add: try_recall_def)
qed

lemma budgeted_exists:
  assumes "answers provider" "admit_mandatory provider model input tools (first_assembly input tools) = Inr (s1, n)"
  shows "\<exists>b. buildBudgetedContext provider model input tools = Inr b \<and> co_ToolResults (bc_Omissions b) = n"
proof -
  obtain s2 where "choose_tools provider model input tools s1 = Inr s2" using choose_tools_total [OF assms(1)] by blast
  moreover obtain s3 where "try_recall provider model input tools s2 = Inr s3" using try_recall_total [OF assms(1)] by blast
  moreover obtain s4 where "choose_history provider model input tools s3 = Inr s4" using choose_history_total [OF assms(1)] by blast
  moreover obtain v where "EstimateRequestTokens provider (buildRequest provider model input tools s4) = Inr v"
    using assms(1) unfolding answers_def by blast
  ultimately show ?thesis using assms(2) by (simp add: buildBudgetedContext_def omissions_of_def Let_def)
qed

end
