(* ===== verification/AgentJobs.thy ===== *)
theory AgentJobs
  imports Enqueue Dispatch
begin

text \<open>
  The job a worker receives and the checks it makes before anything leaves the machine: the message
  built from a claimed job (\<^verbatim>\<open>mapJob\<close> of \<^verbatim>\<open>service/runtime/service.go\<close>), the worker's own derivation of
  the snapshots the user consented to (\<^verbatim>\<open>agent-runtime-go/internal/agent/memory.go\<close>) and its check of
  the decision against the job and the provider (\<^verbatim>\<open>agent/egress.go\<close>). On the wire a skill has only
  instructions, so \<open>sk_Body\<close> is empty there; a repeated field has no nil entry. The typed snapshots of a
  claimed job are an argument of \<open>mapJob\<close>, because the model of the claim keeps them as the JSON they
  are decoded from.
\<close>

section \<open>The job on the wire\<close>

abbreviation MODEL_PROVIDER_UNSPECIFIED :: ModelProvider where
  "MODEL_PROVIDER_UNSPECIFIED \<equiv> MODEL_PROVIDER_OTHER 0"

abbreviation AGENT_ID_UNSPECIFIED :: AgentId where
  "AGENT_ID_UNSPECIFIED \<equiv> AGENT_ID_OTHER 0"

record WireEgressDecision =
  wd_DecisionId :: string
  wd_Version :: int
  wd_Provider :: ModelProvider
  wd_Model :: string
  wd_Endpoint :: string
  wd_EndpointHost :: string
  wd_ExternalAgentId :: string
  wd_DataCategories :: "int list"
  wd_ConsentGrantedAt :: "int option"
  wd_ChallengeFingerprint :: string
  wd_SelectedTools :: "string list"
  wd_SkillSnapshotFingerprint :: string
  wd_RecallApplicable :: bool
  wd_MemoryProfileApplicable :: bool
  wd_ExternalCredentialRefHash :: string
  wd_RequestDigest :: string
  wd_RemoteMcpServers :: "RemoteMCPServerEgress list"
  wd_IntegrationEndpoints :: "IntegrationEndpointEgress list"
  wd_MemorySnapshotFingerprint :: string

record AgentJob =
  aj_JobId :: string
  aj_RunId :: string
  aj_SessionId :: string
  aj_UserMessageId :: string
  aj_AssistantMessageId :: string
  aj_AgentId :: AgentId
  aj_TraceId :: string
  aj_ModelProvider :: ModelProvider
  aj_Model :: string
  aj_UserText :: string
  aj_RequestedTools :: "string list"
  aj_Attempt :: int
  aj_Skills :: "SkillSnapshot list"
  aj_ExternalAgent :: "ExternalAgentTarget option"
  aj_RequiredContextTokens :: int
  aj_MinimumWorkerMaxConcurrentRuns :: int
  aj_ExpectedStateVersion :: int
  aj_AssignmentAttemptId :: string
  aj_EgressDecision :: "WireEgressDecision option"
  aj_SelectedTools :: "string list"
  aj_PinnedPersona :: "PinnedPersonaSnapshot option"
  aj_PinnedProfile :: "PinnedProfileSnapshot option"
  aj_MemorySnapshotFingerprint :: string
  aj_AgentProfile :: "AgentProfileSnapshot option"
  aj_EnforceSelectedTools :: bool
  aj_SkipAutomaticRecall :: bool

record job_snapshots =
  js_Skills :: "SkillSnapshot list"
  js_ExternalAgent :: "ExternalAgentTarget option"
  js_EgressDecision :: "RunEgressDecision option"
  js_PinnedPersona :: "PinnedPersonaSnapshot option"
  js_PinnedProfile :: "PinnedProfileSnapshot option"
  js_AgentProfile :: "AgentProfileSnapshot option"

definition int32 :: "int \<Rightarrow> int" where
  "int32 n = (n + 2147483648) mod 4294967296 - 2147483648"

definition providerToProto :: "string \<Rightarrow> ModelProvider" where
  "providerToProto provider =
     (if provider = ''openai_compatible'' then MODEL_PROVIDER_OPENAI_COMPATIBLE
      else if provider = LocalProvider then MODEL_PROVIDER_OLLAMA else MODEL_PROVIDER_UNSPECIFIED)"

text \<open>A category the wire does not know becomes unspecified, which the worker refuses.\<close>

definition category_value :: "string \<Rightarrow> int" where
  "category_value name = (case map_of validEgressDataCategories name of None \<Rightarrow> 0 | Some v \<Rightarrow> v)"

text \<open>The zero time, which \<^verbatim>\<open>time.Parse\<close> returns beside an error.\<close>

definition zero_time :: int where "zero_time = -62135596800000000000"

definition toProtoEgressDecision :: "RunEgressDecision option \<Rightarrow> WireEgressDecision option" where
  "toProtoEgressDecision decision =
     (case decision of
        None \<Rightarrow> None
      | Some d \<Rightarrow> Some \<lparr>wd_DecisionId = ed_DecisionID d, wd_Version = int32 (ed_Version d), wd_Provider = providerToProto (ed_Provider d),
          wd_Model = ed_Model d, wd_Endpoint = ed_Endpoint d, wd_EndpointHost = ed_EndpointHost d, wd_ExternalAgentId = ed_ExternalAgentID d,
          wd_DataCategories = map category_value (ed_DataCategories d),
          wd_ConsentGrantedAt = Some (case time_Parse (ed_ConsentGrantedAt d) of Inl _ \<Rightarrow> zero_time | Inr t \<Rightarrow> t),
          wd_ChallengeFingerprint = ed_ChallengeFingerprint d, wd_SelectedTools = ed_SelectedTools d,
          wd_SkillSnapshotFingerprint = ed_SkillSnapshotFingerprint d, wd_RecallApplicable = ed_RecallApplicable d,
          wd_MemoryProfileApplicable = ed_MemoryProfileApplicable d, wd_ExternalCredentialRefHash = ed_ExternalCredentialRefHash d,
          wd_RequestDigest = ed_RequestDigest d, wd_RemoteMcpServers = ed_RemoteMCPServers d,
          wd_IntegrationEndpoints = ed_IntegrationEndpoints d, wd_MemorySnapshotFingerprint = ed_MemorySnapshotFingerprint d\<rparr>)"

definition toProtoSkills :: "SkillSnapshot list \<Rightarrow> SkillSnapshot list" where
  "toProtoSkills skills =
     map (\<lambda>s. s\<lparr>sk_Body := '''', sk_Instructions := (if sk_Body s = '''' then sk_Instructions s else sk_Body s)\<rparr>) skills"

definition toProtoAgentProfile :: "AgentProfileSnapshot option \<Rightarrow> AgentProfileSnapshot option" where
  "toProtoAgentProfile snapshot = map_option (\<lambda>p. p\<lparr>ag_MaxToolCalls := int32 (ag_MaxToolCalls p)\<rparr>) snapshot"

definition mapJob :: "Job \<Rightarrow> job_snapshots \<Rightarrow> AgentJob" where
  "mapJob job snapshots = (let p = jb_Payload job in
     \<lparr>aj_JobId = jb_JobID job, aj_RunId = jb_RunID job, aj_SessionId = jb_SessionID job, aj_UserMessageId = jb_UserMessageID job,
      aj_AssistantMessageId = jb_AssistantMessageID job,
      aj_AgentId = (if jb_AgentID job = ''general_assistant'' then AGENT_ID_GENERAL_ASSISTANT else AGENT_ID_UNSPECIFIED),
      aj_TraceId = jb_TraceID job,
      aj_ModelProvider =
        (if jb_ModelProvider job = ''openai_compatible'' then MODEL_PROVIDER_OPENAI_COMPATIBLE
         else if jb_ModelProvider job = LocalProvider then MODEL_PROVIDER_OLLAMA else MODEL_PROVIDER_UNSPECIFIED),
      aj_Model = jb_Model job, aj_UserText = qp_userText p, aj_RequestedTools = qp_requestedTools p, aj_Attempt = int32 (jb_Attempt job),
      aj_Skills = toProtoSkills (js_Skills snapshots), aj_ExternalAgent = js_ExternalAgent snapshots,
      aj_RequiredContextTokens = int32 (qp_requiredContextTokens p),
      aj_MinimumWorkerMaxConcurrentRuns = int32 (qp_minimumWorkerMaxConcurrentRuns p),
      aj_ExpectedStateVersion = jb_ExpectedStateVersion job, aj_AssignmentAttemptId = jb_AssignmentAttemptID job,
      aj_EgressDecision = toProtoEgressDecision (js_EgressDecision snapshots), aj_SelectedTools = qp_selectedTools p,
      aj_PinnedPersona = js_PinnedPersona snapshots, aj_PinnedProfile = js_PinnedProfile snapshots,
      aj_MemorySnapshotFingerprint = qp_memorySnapshotFingerprint p, aj_AgentProfile = toProtoAgentProfile (js_AgentProfile snapshots),
      aj_EnforceSelectedTools = qp_enforceSelectedTools p, aj_SkipAutomaticRecall = qp_skipAutomaticRecall p\<rparr>)"

section \<open>What the worker derives\<close>

definition runtimeMemorySnapshot :: "AgentJob \<Rightarrow> MemorySnapshot" where
  "runtimeMemorySnapshot job =
     (let persona = (case aj_PinnedPersona job of Some p \<Rightarrow> p
            | None \<Rightarrow> \<lparr>pp_PersonaID = '''', pp_DisplayName = '''', pp_Body = '''', pp_ContentHash = '''', pp_Withheld = False\<rparr>);
          profile = (case aj_PinnedProfile job of Some p \<Rightarrow> p
            | None \<Rightarrow> \<lparr>pf_ProfileID = '''', pf_Body = '''', pf_ContentHash = '''', pf_Withheld = False\<rparr>) in
      Canonical \<lparr>ms_PersonaID = pp_PersonaID persona, ms_PersonaDisplayName = pp_DisplayName persona, ms_PersonaBody = pp_Body persona,
        ms_PersonaContentHash = pp_ContentHash persona, ms_PersonaWithheld = pp_Withheld persona, ms_ProfileID = pf_ProfileID profile,
        ms_ProfileBody = pf_Body profile, ms_ProfileContentHash = pf_ContentHash profile, ms_ProfileWithheld = pf_Withheld profile,
        ms_MemoryToolsSelected = SelectedToolsIncludeMemory (aj_SelectedTools job)\<rparr>)"

definition runtimeMemorySnapshotFingerprint :: "AgentJob \<Rightarrow> string" where
  "runtimeMemorySnapshotFingerprint job = MemorySnapshotFingerprint (runtimeMemorySnapshot job)"

definition providerRemote :: "AgentJob \<Rightarrow> bool" where
  "providerRemote job \<longleftrightarrow> aj_ModelProvider job = MODEL_PROVIDER_OPENAI_COMPATIBLE \<or> aj_ExternalAgent job \<noteq> None"

definition runtimeMemoryProfileApplicable :: "AgentJob \<Rightarrow> bool" where
  "runtimeMemoryProfileApplicable job \<longleftrightarrow> providerRemote job
     \<and> (HasPinnedContent (runtimeMemorySnapshot job) \<or> ms_MemoryToolsSelected (runtimeMemorySnapshot job))"

definition runtimeSkillSnapshotFingerprint :: "SkillSnapshot list \<Rightarrow> string" where
  "runtimeSkillSnapshotFingerprint skills = skillSnapshotFingerprint (map (\<lambda>s. s\<lparr>sk_Body := ''''\<rparr>) skills)"

section \<open>The worker's check of a decision\<close>

text \<open>A run of checks that returns the message of the first one that fails.\<close>

fun first_failure :: "(bool \<times> string) list \<Rightarrow> string + unit" where
  "first_failure [] = Inr ()"
| "first_failure ((ok, message) # checks) = (if ok then first_failure checks else Inl message)"

definition matches_job :: "AgentJob \<Rightarrow> WireEgressDecision \<Rightarrow> bool" where
  "matches_job job d \<longleftrightarrow> wd_Version d = DecisionVersion \<and> wd_DecisionId d \<noteq> '''' \<and> wd_ChallengeFingerprint d \<noteq> '''' \<and> wd_RequestDigest d \<noteq> ''''
     \<and> wd_Provider d = aj_ModelProvider job \<and> wd_Model d = aj_Model job \<and> wd_ConsentGrantedAt d \<noteq> None
     \<and> wd_SkillSnapshotFingerprint d \<noteq> '''' \<and> wd_MemorySnapshotFingerprint d \<noteq> '''' \<and> wd_SelectedTools d = aj_SelectedTools job"

definition has_selected_tool :: "AgentJob \<Rightarrow> string \<Rightarrow> bool" where
  "has_selected_tool job server \<longleftrightarrow>
     list_ex (\<lambda>tool. length tool > length server \<and> take (length server + 1) tool = server @ ''/'') (aj_SelectedTools job)"

definition remote_server_checks :: "net_library \<Rightarrow> AgentJob \<Rightarrow> RemoteMCPServerEgress list \<Rightarrow> (bool \<times> string) list" where
  "remote_server_checks lib job servers =
     concat (map (\<lambda>i. let d = servers ! i in
       [(re_ServerName d \<noteq> '''' \<and> \<not> (i > 0 \<and> re_ServerName (servers ! (i - 1)) \<ge> re_ServerName d), ''remote MCP destinations are invalid or unsorted''),
        (canonical_endpoint lib (re_Endpoint d) (re_EndpointHost d), ''remote MCP destination endpoint is invalid''),
        (has_selected_tool job (re_ServerName d), ''remote MCP destination has no selected tool'')]) [0..<length servers])"

definition integration_checks :: "AgentJob \<Rightarrow> IntegrationEndpointEgress list \<Rightarrow> (bool \<times> string) list" where
  "integration_checks job endpoints =
     concat (map (\<lambda>i. let d = endpoints ! i; previous = endpoints ! (i - 1) in
       [(ie_Endpoint d = ''https://api.github.com'' \<and> ie_EndpointHost d = ''api.github.com'' \<and> ie_ConnectionID d \<noteq> ''''
           \<and> ie_DisplayName d \<noteq> '''' \<and> ie_Tools d \<noteq> [] \<and> sorted (ie_Tools d), ''integration destinations are invalid''),
        (\<not> (i > 0 \<and> (ie_Endpoint previous > ie_Endpoint d
           \<or> ie_Endpoint previous = ie_Endpoint d \<and> ie_ConnectionID previous \<ge> ie_ConnectionID d)), ''integration destinations are unsorted''),
        (list_all (\<lambda>tool. ''integrations/'' @ tool \<in> set (aj_SelectedTools job)) (ie_Tools d),
           ''integration destination has an unselected tool'')]) [0..<length endpoints])"

fun category_checks :: "int list \<Rightarrow> int list \<Rightarrow> (bool \<times> string) list" where
  "category_checks present [] = []"
| "category_checks present (c # cs) =
     [(0 < c \<and> c \<le> 9, ''remote run decision has an unknown data category''),
      (c \<notin> set present, ''remote run decision has duplicate data categories'')] @ category_checks (c # present) cs"

definition requiredCategories :: "AgentJob \<Rightarrow> WireEgressDecision \<Rightarrow> int list" where
  "requiredCategories job d =
     remdups_adj (sort (
       (if providerRemote job then [1, 2] @ (if aj_Skills job \<noteq> [] then [5] else []) @ (if aj_ExternalAgent job = None then [3] else [])
          @ (if runtimeMemoryProfileApplicable job then [4] else []) else [])
       @ (if providerRemote job \<and> aj_SelectedTools job \<noteq> [] then [6, 7, 8] else [])
       @ (if wd_RemoteMcpServers d \<noteq> [] then [7, 8] else [])
       @ (if wd_IntegrationEndpoints d \<noteq> [] then [7, 8] else [])))"

definition category_name :: "int \<Rightarrow> string" where
  "category_name c = (case map_of (map prod.swap validEgressDataCategories) c of Some name \<Rightarrow> name | None \<Rightarrow> dec c)"

definition required_checks :: "int list \<Rightarrow> int list \<Rightarrow> (bool \<times> string) list" where
  "required_checks present required =
     map (\<lambda>c. (c \<in> set present, ''remote run decision is missing '' @ category_name c)) required
     @ [(card (set present) = length required, ''remote run decision contains inapplicable data categories'')]"

definition decision_checks :: "net_library \<Rightarrow> AgentJob \<Rightarrow> WireEgressDecision \<Rightarrow> (bool \<times> string) list" where
  "decision_checks lib job d =
     (let remote = providerRemote job; memoryFingerprint = runtimeMemorySnapshotFingerprint job in
      [(remote \<or> wd_RemoteMcpServers d \<noteq> [] \<or> wd_IntegrationEndpoints d \<noteq> [], ''local run carries an inapplicable egress decision''),
       (remote \<longrightarrow> aj_ModelProvider job = MODEL_PROVIDER_OPENAI_COMPATIBLE, ''external agent run is not routed through the remote provider''),
       (matches_job job d, ''remote run decision does not match its frozen job''),
       (remote \<longrightarrow> wd_Endpoint d \<noteq> '''' \<and> wd_EndpointHost d \<noteq> '''', ''remote provider decision has no endpoint''),
       (remote \<or> wd_Endpoint d = '''' \<and> wd_EndpointHost d = '''' \<and> wd_ExternalAgentId d = '''' \<and> wd_ExternalCredentialRefHash d = '''',
          ''local-provider decision contains a remote model destination''),
       (runtimeSkillSnapshotFingerprint (aj_Skills job) = wd_SkillSnapshotFingerprint d, ''remote run skill snapshot differs from the egress decision''),
       (memoryFingerprint = wd_MemorySnapshotFingerprint d \<and> memoryFingerprint = aj_MemorySnapshotFingerprint job,
          ''remote run memory snapshot differs from the egress decision''),
       (wd_RecallApplicable d = (remote \<and> aj_ExternalAgent job = None) \<and> wd_MemoryProfileApplicable d = runtimeMemoryProfileApplicable job,
          ''remote run context flags differ from the egress decision''),
       (remote \<longrightarrow> canonical_endpoint lib (wd_Endpoint d) (wd_EndpointHost d), ''remote run decision endpoint is invalid'')]
      @ remote_server_checks lib job (wd_RemoteMcpServers d) @ integration_checks job (wd_IntegrationEndpoints d)
      @ category_checks [] (wd_DataCategories d) @ required_checks (wd_DataCategories d) (requiredCategories job d))"

definition validateEgressDecisionShape :: "net_library \<Rightarrow> AgentJob \<Rightarrow> string + unit" where
  "validateEgressDecisionShape lib job =
     (case aj_EgressDecision job of
        None \<Rightarrow> if providerRemote job then Inl ''remote run has no egress decision'' else Inr ()
      | Some d \<Rightarrow> first_failure (decision_checks lib job d))"

text \<open>
  The provider a job resolved to, by what the check reads of it: its name, and the endpoint it exposes
  if it has one to expose. A getter of an absent decision returns the empty text.
\<close>

definition validateEgressProvider :: "AgentJob \<Rightarrow> string \<Rightarrow> string option \<Rightarrow> string + unit" where
  "validateEgressProvider job providerID egressEndpoint =
     (let decided = (\<lambda>get. case aj_EgressDecision job of None \<Rightarrow> '''' | Some d \<Rightarrow> get d) in
      if aj_ModelProvider job \<noteq> MODEL_PROVIDER_OPENAI_COMPATIBLE then
        first_failure [(egressEndpoint = None \<or> egressEndpoint = Some '''', ''local run resolved to a provider with a remote endpoint'')]
      else first_failure (
        [(providerID = ''openai_compatible'', ''remote run resolved to a non-remote provider''),
         (egressEndpoint \<noteq> None, ''remote provider does not expose its endpoint identity''),
         (egressEndpoint = Some (decided wd_Endpoint), ''remote provider endpoint differs from the egress decision'')]
        @ (case aj_ExternalAgent job of
             None \<Rightarrow> []
           | Some target \<Rightarrow>
               [(et_AgentID target \<noteq> '''' \<and> et_AgentID target = decided wd_ExternalAgentId, ''external agent identity differs from the egress decision''),
                (et_BaseURL target = decided wd_Endpoint, ''external agent endpoint differs from the egress decision''),
                (HashCredentialReference (et_CredentialRef target) = decided wd_ExternalCredentialRefHash,
                   ''external agent credential reference differs from the egress decision'')])))"

section \<open>Agreement with the orchestrator\<close>

text \<open>The worker derives from the job exactly the fingerprints the orchestrator froze.\<close>

lemma wire_skill_canonical:
  "skillSnapshotCanonical ((s\<lparr>sk_Body := '''', sk_Instructions := (if sk_Body s = '''' then sk_Instructions s else sk_Body s)\<rparr>)\<lparr>sk_Body := ''''\<rparr>)
    = skillSnapshotCanonical s"
  by (cases "sk_References s = []"; cases "sk_Body s = ''''") (simp_all add: skillSnapshotCanonical_def)

lemma skill_fingerprints_agree:
  "runtimeSkillSnapshotFingerprint (toProtoSkills skills) = skillSnapshotFingerprint skills"
  unfolding runtimeSkillSnapshotFingerprint_def toProtoSkills_def skillSnapshotFingerprint_def map_map comp_def wire_skill_canonical ..

lemma memory_fingerprints_agree:
  assumes "aj_PinnedPersona job = Some (pinnedPersonaSnapshot (Preimage s tools))"
    and "aj_PinnedProfile job = Some (pinnedProfileSnapshot (Preimage s tools))" "aj_SelectedTools job = tools"
  shows "runtimeMemorySnapshot job = Preimage s tools"
    "runtimeMemorySnapshotFingerprint job = MemorySnapshotFingerprint (Preimage s tools)"
proof -
  show e: "runtimeMemorySnapshot job = Preimage s tools"
    using assms by (simp add: runtimeMemorySnapshot_def pinnedPersonaSnapshot_def pinnedProfileSnapshot_def Preimage_def Canonical_def Let_def)
  show "runtimeMemorySnapshotFingerprint job = MemorySnapshotFingerprint (Preimage s tools)" by (simp add: runtimeMemorySnapshotFingerprint_def e)
qed

lemma mapJob_snapshots:
  "aj_Skills (mapJob job snapshots) = toProtoSkills (js_Skills snapshots)" "aj_PinnedPersona (mapJob job snapshots) = js_PinnedPersona snapshots"
  "aj_PinnedProfile (mapJob job snapshots) = js_PinnedProfile snapshots" "aj_SelectedTools (mapJob job snapshots) = qp_selectedTools (jb_Payload job)"
  by (simp_all add: mapJob_def Let_def)

section \<open>What a passed check means\<close>

lemma first_failure_ok: "first_failure checks = Inr () \<longleftrightarrow> list_all fst checks"
  by (induction checks rule: first_failure.induct) auto

lemma category_checks_ok:
  "list_all fst (category_checks present cs) \<longleftrightarrow> distinct cs \<and> set cs \<inter> set present = {} \<and> list_all (\<lambda>c. 0 < c \<and> c \<le> 9) cs"
  by (induction present cs rule: category_checks.induct) auto

lemma distinct_remdups_adj_sorted: "sorted (xs :: int list) \<Longrightarrow> distinct (remdups_adj xs)"
  by (induction xs rule: remdups_adj.induct) (auto dest: order.antisym)

lemma required_checks_ok:
  assumes "list_all fst (required_checks present required)" "distinct required"
  shows "set present = set required"
proof -
  have sub: "set required \<subseteq> set present" and n: "card (set present) = length required"
    using assms(1) by (auto simp: required_checks_def list_all_iff)
  have "card (set required) = card (set present)" using n assms(2) by (simp add: distinct_card)
  then show ?thesis using card_subset_eq [OF finite_set sub] by simp
qed

lemma requiredCategories_set:
  "set (requiredCategories job d) =
     (if providerRemote job then {1, 2} \<union> (if aj_Skills job \<noteq> [] then {5} else {}) \<union> (if aj_ExternalAgent job = None then {3} else {})
        \<union> (if runtimeMemoryProfileApplicable job then {4} else {}) \<union> (if aj_SelectedTools job \<noteq> [] then {6, 7, 8} else {}) else {})
     \<union> (if wd_RemoteMcpServers d \<noteq> [] \<or> wd_IntegrationEndpoints d \<noteq> [] then {7, 8} else {})"
  by (auto simp: requiredCategories_def)

lemma validated_decision:
  assumes "validateEgressDecisionShape lib job = Inr ()" "providerRemote job"
  obtains d where "aj_EgressDecision job = Some d" "matches_job job d" "aj_ModelProvider job = MODEL_PROVIDER_OPENAI_COMPATIBLE"
    "canonical_endpoint lib (wd_Endpoint d) (wd_EndpointHost d)" "set (wd_DataCategories d) = set (requiredCategories job d)"
    "runtimeSkillSnapshotFingerprint (aj_Skills job) = wd_SkillSnapshotFingerprint d"
    "runtimeMemorySnapshotFingerprint job = wd_MemorySnapshotFingerprint d"
proof -
  obtain d where d: "aj_EgressDecision job = Some d" "list_all fst (decision_checks lib job d)"
    using assms by (cases "aj_EgressDecision job") (auto simp: validateEgressDecisionShape_def first_failure_ok)
  have "list_all fst (required_checks (wd_DataCategories d) (requiredCategories job d))" using d(2) by (simp add: decision_checks_def Let_def)
  then have "set (wd_DataCategories d) = set (requiredCategories job d)"
    by (rule required_checks_ok) (simp add: requiredCategories_def distinct_remdups_adj_sorted)
  then show thesis using d assms(2) by (intro that [of d]) (simp_all add: decision_checks_def Let_def)
qed

lemma validated_provider:
  assumes "validateEgressProvider job pid endpoint = Inr ()"
  shows "aj_ModelProvider job \<noteq> MODEL_PROVIDER_OPENAI_COMPATIBLE \<Longrightarrow> endpoint = None \<or> endpoint = Some ''''"
    "aj_ModelProvider job = MODEL_PROVIDER_OPENAI_COMPATIBLE \<Longrightarrow> aj_EgressDecision job = Some d \<Longrightarrow> endpoint = Some (wd_Endpoint d)"
  using assms by (auto simp: validateEgressProvider_def first_failure_ok split: if_splits)

end
