(* ===== verification/ToolDiscovery.thy ===== *)
theory ToolDiscovery
  imports SkillContext
begin

text \<open>
  The tools a worker offers to a model (\<^verbatim>\<open>agent-runtime-go/internal/agent/toolregistry.go\<close>,
  \<^verbatim>\<open>team_tool.go\<close> and \<^verbatim>\<open>toolDefinitionsForJob\<close> of \<^verbatim>\<open>general_assistant.go\<close>): the registry built from
  what the tool servers list, and the frozen set of a job resolved against it. What a server lists is
  an argument, as is what the orchestrator lists for the team. The listings are decoded JSON, on which
  \<^verbatim>\<open>normalizeJSONMap\<close> and the copies of a schema are the identity; a context that ends during the
  discovery is not modelled.
\<close>

section \<open>Schemas\<close>

lemma size_json_arr: "x \<in> set xs \<Longrightarrow> size x < size (JArr xs)"
  by (induction xs) auto

lemma size_json_obj: "(k, v) \<in> set kvs \<Longrightarrow> size v < size (JObj kvs)"
  by (induction kvs) auto

lemma size_json_get: "json_get k j = Some v \<Longrightarrow> size v < size j"
  by (auto simp: json_get_def split: json.splits dest!: map_of_SomeD size_json_obj)

lemma size_json_member: "json_get k j = Some (JObj ps) \<Longrightarrow> (n, d) \<in> set ps \<Longrightarrow> size d < size j"
  using size_json_get [of k j "JObj ps"] size_json_obj [of n d ps] by linarith

lemma size_json_entry: "json_get k j = Some (JArr xs) \<Longrightarrow> d \<in> set xs \<Longrightarrow> size d < size j"
  using size_json_get [of k j "JArr xs"] size_json_arr [of d xs] by linarith

text \<open>Whether every keyword that holds schemas holds schemas, to any depth: an object, or a truth value.\<close>

function validateInputSchemaShape :: "json \<Rightarrow> bool" where
  "validateInputSchemaShape schema \<longleftrightarrow>
     (case json_get ''properties'' schema of
        None \<Rightarrow> True
      | Some (JObj ps) \<Rightarrow>
          list_all (\<lambda>(n, d). case d of JBool _ \<Rightarrow> True | JObj _ \<Rightarrow> validateInputSchemaShape d | _ \<Rightarrow> False) ps
      | Some _ \<Rightarrow> False)
     \<and> (case json_get ''required'' schema of
          None \<Rightarrow> True
        | Some (JArr ns) \<Rightarrow> list_all (\<lambda>n. case n of JStr _ \<Rightarrow> True | _ \<Rightarrow> False) ns
        | Some _ \<Rightarrow> False)
     \<and> list_all (\<lambda>keyword.
          case json_get keyword schema of
            None \<Rightarrow> True
          | Some d \<Rightarrow> (case d of JBool _ \<Rightarrow> True | JObj _ \<Rightarrow> validateInputSchemaShape d | _ \<Rightarrow> False))
        [''additionalProperties'', ''items'', ''not'', ''if'', ''then'', ''else'']
     \<and> list_all (\<lambda>keyword.
          case json_get keyword schema of
            None \<Rightarrow> True
          | Some (JArr ds) \<Rightarrow> list_all (\<lambda>d. case d of JBool _ \<Rightarrow> True | JObj _ \<Rightarrow> validateInputSchemaShape d | _ \<Rightarrow> False) ds
          | Some _ \<Rightarrow> False)
        [''prefixItems'', ''oneOf'', ''anyOf'', ''allOf'']
     \<and> (case json_get ''$defs'' schema of
          None \<Rightarrow> True
        | Some (JObj ps) \<Rightarrow>
            list_all (\<lambda>(n, d). case d of JBool _ \<Rightarrow> True | JObj _ \<Rightarrow> validateInputSchemaShape d | _ \<Rightarrow> False) ps
        | Some _ \<Rightarrow> False)"
  by auto
termination
  by (relation "measure size") (auto dest: size_json_member size_json_entry size_json_get)

declare validateInputSchemaShape.simps [simp del]

section \<open>Discovery\<close>

record RegisteredTool =
  rg_ServerName :: string
  rg_ToolName :: string
  rg_Schema :: json

record ToolEntry =
  te_ServerName :: string
  te_Definition :: ToolDefinition

record ToolRegistry =
  tr_definitions :: "ToolDefinition list"
  tr_entries :: "(string \<times> ToolEntry) list"
  tr_discovered :: "RegisteredTool list"

datatype ToolDiscoveryError =
    NilClient string
  | ListingFailed string bool
  | InvalidName string nat
  | InvalidPolicy string string
  | InvalidDescription string string
  | InvalidSchema string string
  | InvalidRootType string nat string
  | DuplicateTool string string nat

definition ToolDiscoveryRetryable :: "ToolDiscoveryError \<Rightarrow> bool" where
  "ToolDiscoveryRetryable e = (case e of ListingFailed _ retryable \<Rightarrow> retryable | _ \<Rightarrow> False)"

text \<open>A client that is nil, a listing that failed and whether that is worth a retry, or what the server lists.\<close>

datatype ToolLister = NoClient | ListingError bool | Listing "(string \<times> json) list list"

definition read_policy :: "string \<Rightarrow> string \<Rightarrow> json option \<Rightarrow> ToolDiscoveryError + bool" where
  "read_policy serverName name policy =
     (case policy of
        None \<Rightarrow> Inr True
      | Some (JStr p) \<Rightarrow>
          if p = ''safe'' \<or> p = ''approval_required'' then Inr True
          else if p = ''disabled'' then Inr False
          else Inl (InvalidPolicy serverName name)
      | Some _ \<Rightarrow> Inl (InvalidPolicy serverName name))"

definition read_schema :: "string \<Rightarrow> nat \<Rightarrow> string \<Rightarrow> json option \<Rightarrow> ToolDiscoveryError + json" where
  "read_schema serverName index name inputSchema =
     (case inputSchema of
        None \<Rightarrow> Inr (JObj [(''type'', JStr ''object'')])
      | Some JNull \<Rightarrow> Inr (JObj [(''type'', JStr ''object'')])
      | Some (JObj ps) \<Rightarrow>
          let parameters = (case map_of ps ''type'' of None \<Rightarrow> AList.update ''type'' (JStr ''object'') ps | Some _ \<Rightarrow> ps) in
          if map_of parameters ''type'' \<noteq> Some (JStr ''object'') then Inl (InvalidRootType serverName index name)
          else if \<not> validateInputSchemaShape (JObj parameters) then Inl (InvalidSchema serverName name)
          else Inr (JObj parameters)
      | Some _ \<Rightarrow> Inl (InvalidSchema serverName name))"

text \<open>One listed tool: an error, a disabled tool that is skipped, or its definition.\<close>

definition read_tool :: "string \<Rightarrow> nat \<Rightarrow> (string \<times> json) list \<Rightarrow> ToolDiscoveryError + ToolDefinition option" where
  "read_tool serverName index raw =
     (case map_of raw ''name'' of
        Some (JStr name) \<Rightarrow>
          if TrimSpace name = '''' then Inl (InvalidName serverName index)
          else (case read_policy serverName name (map_of raw ''policy'') of
            Inl e \<Rightarrow> Inl e
          | Inr False \<Rightarrow> Inr None
          | Inr True \<Rightarrow>
              (case (case map_of raw ''description'' of None \<Rightarrow> Inr '''' | Some (JStr d) \<Rightarrow> Inr d
                      | Some _ \<Rightarrow> Inl (InvalidDescription serverName name)) of
                 Inl e \<Rightarrow> Inl e
               | Inr description \<Rightarrow>
                   (case read_schema serverName index name (map_of raw ''inputSchema'') of
                      Inl e \<Rightarrow> Inl e
                    | Inr parameters \<Rightarrow> Inr (Some \<lparr>td_Name = name, td_Description = description, td_Parameters = parameters\<rparr>))))
      | _ \<Rightarrow> Inl (InvalidName serverName index))"

definition add_tool :: "string \<Rightarrow> ToolDefinition \<Rightarrow> ToolRegistry \<Rightarrow> ToolRegistry" where
  "add_tool serverName d r = r\<lparr>
     tr_entries := tr_entries r @ [(td_Name d, \<lparr>te_ServerName = serverName, te_Definition = d\<rparr>)],
     tr_definitions := tr_definitions r @ [d],
     tr_discovered := tr_discovered r @ [\<lparr>rg_ServerName = serverName, rg_ToolName = td_Name d, rg_Schema = td_Parameters d\<rparr>]\<rparr>"

fun add_listing :: "string \<Rightarrow> nat \<Rightarrow> (string \<times> json) list list \<Rightarrow> ToolRegistry \<Rightarrow> ToolDiscoveryError + ToolRegistry" where
  "add_listing serverName index [] r = Inr r"
| "add_listing serverName index (raw # raws) r =
     (case read_tool serverName index raw of
        Inl e \<Rightarrow> Inl e
      | Inr None \<Rightarrow> add_listing serverName (Suc index) raws r
      | Inr (Some d) \<Rightarrow>
          if td_Name d \<in> fst ` set (tr_entries r) then Inl (DuplicateTool (td_Name d) serverName index)
          else add_listing serverName (Suc index) raws (add_tool serverName d r))"

fun add_servers :: "(string \<times> ToolLister) list \<Rightarrow> ToolRegistry \<Rightarrow> ToolDiscoveryError + ToolRegistry" where
  "add_servers [] r = Inr r"
| "add_servers ((serverName, client) # servers) r =
     (case client of
        NoClient \<Rightarrow> Inl (NilClient serverName)
      | ListingError retryable \<Rightarrow> Inl (ListingFailed serverName retryable)
      | Listing raws \<Rightarrow>
          (case add_listing serverName 0 raws r of
             Inl e \<Rightarrow> Inl e
           | Inr r' \<Rightarrow> add_servers servers r'))"

definition BuildToolRegistry :: "(string \<times> ToolLister) list \<Rightarrow> ToolDiscoveryError + ToolRegistry" where
  "BuildToolRegistry servers = add_servers (sort_key fst servers) \<lparr>tr_definitions = [], tr_entries = [], tr_discovered = []\<rparr>"

definition Lookup :: "ToolRegistry \<Rightarrow> string \<Rightarrow> ToolEntry option" where
  "Lookup r name = map_of (tr_entries r) name"

section \<open>The frozen set of a job\<close>

definition identity :: "RegisteredTool \<Rightarrow> string" where
  "identity t = rg_ServerName t @ ''/'' @ rg_ToolName t"

fun pick_allowed :: "(RegisteredTool \<times> ToolDefinition) list \<Rightarrow> string list \<Rightarrow> ToolDefinition list \<times> string list" where
  "pick_allowed [] allowed = ([], allowed)"
| "pick_allowed ((t, d) # ts) allowed =
     (if identity t \<in> set allowed
      then (case pick_allowed ts (removeAll (identity t) allowed) of (ds, rest) \<Rightarrow> (d # ds, rest))
      else pick_allowed ts allowed)"

text \<open>The names of selected tools that are not available are the error.\<close>

definition DefinitionsFor :: "ToolRegistry \<Rightarrow> string list \<Rightarrow> string list + ToolDefinition list" where
  "DefinitionsFor r selected =
     (if selected = [] then Inr []
      else case pick_allowed (zip (tr_discovered r) (tr_definitions r)) (remdups selected) of
        (ds, missing) \<Rightarrow> if missing \<noteq> [] then Inl (sort missing) else Inr ds)"

definition teamServerName :: string where "teamServerName = ''team''"
definition teamDelegateName :: string where "teamDelegateName = ''team.delegate''"
definition teamDelegateTool :: string where "teamDelegateTool = teamServerName @ ''/'' @ teamDelegateName"

definition withoutTeamTool :: "string list \<Rightarrow> string list" where
  "withoutTeamTool selected = filter (\<lambda>name. name \<noteq> teamDelegateTool) selected"

definition toolDefinitionsForJob :: "ToolRegistry \<Rightarrow> AgentJob \<Rightarrow> string list + ToolDefinition list" where
  "toolDefinitionsForJob registry job =
     (if aj_EgressDecision job \<noteq> None \<or> aj_EnforceSelectedTools job
      then DefinitionsFor registry (withoutTeamTool (aj_SelectedTools job)) else Inr (tr_definitions registry))"

text \<open>What the orchestrator lists for the team of a run; no team, and a listing that failed, are \<open>None\<close>.\<close>

record ToolDescriptor =
  tt_ToolName :: string
  tt_Enabled :: bool
  tt_PolicyDisabled :: bool
  tt_Description :: string
  tt_Schema :: "json option"

definition team_listing :: "ToolDescriptor \<Rightarrow> (string \<times> json) list" where
  "team_listing t = [(''name'', JStr teamDelegateName), (''description'', JStr (tt_Description t))]
     @ (case tt_Schema t of None \<Rightarrow> [] | Some s \<Rightarrow> [(''inputSchema'', s)])"

definition teamDefinition :: "ToolDescriptor list option \<Rightarrow> AgentJob \<Rightarrow> ToolRegistry \<Rightarrow> ToolDefinition option" where
  "teamDefinition team job registry =
     (if (aj_EgressDecision job \<noteq> None \<or> aj_EnforceSelectedTools job) \<and> teamDelegateTool \<notin> set (aj_SelectedTools job) then None
      else if Lookup registry teamDelegateName \<noteq> None then None
      else case team of
        None \<Rightarrow> None
      | Some ts \<Rightarrow>
          (case filter (\<lambda>t. tt_ToolName t = teamDelegateName \<and> tt_Enabled t \<and> \<not> tt_PolicyDisabled t) ts of
             [] \<Rightarrow> None
           | t # _ \<Rightarrow>
               (case BuildToolRegistry [(teamServerName, Listing [team_listing t])] of
                  Inl e \<Rightarrow> None
                | Inr r \<Rightarrow> (case tr_definitions r of [d] \<Rightarrow> Some d | _ \<Rightarrow> None))))"

definition offeredTools :: "ToolRegistry \<Rightarrow> ToolDescriptor list option \<Rightarrow> AgentJob \<Rightarrow> string list + ToolDefinition list" where
  "offeredTools registry team job =
     (case toolDefinitionsForJob registry job of
        Inl missing \<Rightarrow> Inl missing
      | Inr ds \<Rightarrow> Inr (ds @ (case teamDefinition team job registry of None \<Rightarrow> [] | Some d \<Rightarrow> [d])))"

section \<open>A well-formed registry\<close>

definition definition_ok :: "ToolDefinition \<Rightarrow> bool" where
  "definition_ok d \<longleftrightarrow> TrimSpace (td_Name d) \<noteq> '''' \<and> json_get ''type'' (td_Parameters d) = Some (JStr ''object'')
     \<and> validateInputSchemaShape (td_Parameters d)"

definition registry_ok :: "ToolRegistry \<Rightarrow> bool" where
  "registry_ok r \<longleftrightarrow> distinct (map td_Name (tr_definitions r)) \<and> list_all definition_ok (tr_definitions r)
     \<and> map (\<lambda>t. (rg_ToolName t, rg_Schema t)) (tr_discovered r) = map (\<lambda>d. (td_Name d, td_Parameters d)) (tr_definitions r)
     \<and> tr_entries r = map2 (\<lambda>t d. (td_Name d, \<lparr>te_ServerName = rg_ServerName t, te_Definition = d\<rparr>)) (tr_discovered r) (tr_definitions r)"

lemma plain_schema_ok: "validateInputSchemaShape (JObj [(''type'', JStr ''object'')])"
  by (simp add: validateInputSchemaShape.simps [of "JObj [(''type'', JStr ''object'')]"] json_get_def)

lemma read_schema_ok:
  assumes "read_schema server i name s = Inr p"
  shows "json_get ''type'' p = Some (JStr ''object'') \<and> validateInputSchemaShape p"
  using assms unfolding read_schema_def
  by (auto simp: Let_def plain_schema_ok json_get_def split: option.splits json.splits if_splits)

lemma read_tool_ok:
  assumes "read_tool server i raw = Inr (Some d)"
  shows "definition_ok d"
proof -
  obtain name where "map_of raw ''name'' = Some (JStr name)" "TrimSpace name \<noteq> ''''"
    and s: "read_schema server i name (map_of raw ''inputSchema'') = Inr (td_Parameters d)" and n: "td_Name d = name"
    using assms unfolding read_tool_def by (auto split: option.splits json.splits if_splits sum.splits bool.splits)
  then show ?thesis using read_schema_ok [OF s] by (simp add: definition_ok_def)
qed

lemma registry_ok_lengths: "registry_ok r \<Longrightarrow> length (tr_discovered r) = length (tr_definitions r)"
  unfolding registry_ok_def by (metis length_map)

lemma registry_ok_names: "registry_ok r \<Longrightarrow> map fst (tr_entries r) = map td_Name (tr_definitions r)"
  using registry_ok_lengths [of r] by (auto simp: registry_ok_def intro!: nth_equalityI)

lemma add_tool_ok:
  assumes "registry_ok r" "definition_ok d" "td_Name d \<notin> fst ` set (tr_entries r)"
  shows "registry_ok (add_tool server d r)"
proof -
  have "td_Name d \<notin> set (map td_Name (tr_definitions r))" using assms(3) registry_ok_names [OF assms(1)] by (metis set_map)
  then show ?thesis using assms(1,2) registry_ok_lengths [OF assms(1)] by (auto simp: registry_ok_def add_tool_def)
qed

lemma add_listing_ok: "add_listing server i raws r = Inr r' \<Longrightarrow> registry_ok r \<Longrightarrow> registry_ok r'"
proof (induction server i raws r rule: add_listing.induct)
  case (2 server i raw raws r)
  show ?case
  proof (cases "read_tool server i raw")
    case (Inr o1)
    then show ?thesis using 2 read_tool_ok add_tool_ok by (cases o1) (auto split: if_splits)
  qed (use 2 in simp)
qed simp

lemma add_servers_ok: "add_servers servers r = Inr r' \<Longrightarrow> registry_ok r \<Longrightarrow> registry_ok r'"
proof (induction servers r rule: add_servers.induct)
  case (2 server client servers r)
  show ?case
  proof (cases client)
    case (Listing raws)
    then show ?thesis using 2 add_listing_ok by (auto split: sum.splits)
  qed (use 2 in auto)
qed simp

lemma BuildToolRegistry_ok: "BuildToolRegistry servers = Inr r \<Longrightarrow> registry_ok r"
  unfolding BuildToolRegistry_def by (erule add_servers_ok) (simp add: registry_ok_def)

section \<open>The set is offered whole\<close>

definition pair_identity :: "RegisteredTool \<times> ToolDefinition \<Rightarrow> string" where
  "pair_identity p = identity (fst p)"

lemma pick_allowed_exact:
  assumes "pick_allowed ts allowed = (ds, rest)" "distinct allowed"
  shows "\<exists>ps. ds = map snd ps \<and> set ps \<subseteq> set ts \<and> distinct (map pair_identity ps)
    \<and> set (map pair_identity ps) \<union> set rest = set allowed \<and> set (map pair_identity ps) \<inter> set rest = {}"
  using assms
proof (induction ts allowed arbitrary: ds rest rule: pick_allowed.induct)
  case (1 allowed)
  then show ?case by (intro exI [of _ "[]"]) simp
next
  case (2 t d ts allowed)
  show ?case
  proof (cases "identity t \<in> set allowed")
    case True
    obtain ds' where p: "pick_allowed ts (removeAll (identity t) allowed) = (ds', rest)" and ds: "ds = d # ds'"
      using "2.prems"(1) True by (auto split: prod.splits)
    obtain ps where ps: "ds' = map snd ps" "set ps \<subseteq> set ts" "distinct (map pair_identity ps)"
      "set (map pair_identity ps) \<union> set rest = set allowed - {identity t}" "set (map pair_identity ps) \<inter> set rest = {}"
      using "2.IH"(1) [OF True p distinct_removeAll [OF "2.prems"(2)]] unfolding set_removeAll by blast
    have "identity t \<notin> set (map pair_identity ps)" "identity t \<notin> set rest" using ps(4) by blast+
    moreover have "pair_identity (t, d) = identity t" by (simp add: pair_identity_def)
    ultimately show ?thesis using ps ds True by (intro exI [of _ "(t, d) # ps"]) (auto simp del: set_map)
  next
    case False
    then have p: "pick_allowed ts allowed = (ds, rest)" using "2.prems"(1) by simp
    obtain ps where "ds = map snd ps" "set ps \<subseteq> set ts" "distinct (map pair_identity ps)"
      "set (map pair_identity ps) \<union> set rest = set allowed" "set (map pair_identity ps) \<inter> set rest = {}"
      using "2.IH"(2) [OF False p "2.prems"(2)] by blast
    then show ?thesis by (intro exI [of _ ps]) auto
  qed
qed

lemma DefinitionsFor_exact:
  assumes "DefinitionsFor r selected = Inr ds"
  shows "\<exists>ps. ds = map snd ps \<and> set ps \<subseteq> set (zip (tr_discovered r) (tr_definitions r)) \<and> distinct (map pair_identity ps)
    \<and> set (map pair_identity ps) = set selected"
proof (cases "selected = []")
  case True
  then show ?thesis using assms by (intro exI [of _ "[]"]) (simp add: DefinitionsFor_def)
next
  case False
  have "pick_allowed (zip (tr_discovered r) (tr_definitions r)) (remdups selected) = (ds, [])"
    using assms False by (auto simp: DefinitionsFor_def split: prod.splits if_splits)
  from pick_allowed_exact [OF this] show ?thesis by auto
qed

lemma registered_names_differ:
  assumes "registry_ok r" "set ps \<subseteq> set (zip (tr_discovered r) (tr_definitions r))" "distinct ps"
  shows "distinct (map td_Name (map snd ps))"
proof -
  have "inj_on (td_Name \<circ> snd) (set (zip (tr_discovered r) (tr_definitions r)))"
  proof (rule inj_onI)
    fix p q assume p: "p \<in> set (zip (tr_discovered r) (tr_definitions r))" and q: "q \<in> set (zip (tr_discovered r) (tr_definitions r))"
      and e: "(td_Name \<circ> snd) p = (td_Name \<circ> snd) q"
    obtain i j where ij: "i < length (tr_definitions r)" "p = (tr_discovered r ! i, tr_definitions r ! i)"
        "j < length (tr_definitions r)" "q = (tr_discovered r ! j, tr_definitions r ! j)"
      using p q by (auto simp: set_zip)
    have "distinct (map td_Name (tr_definitions r))" using assms(1) by (simp add: registry_ok_def)
    then have "i = j" using ij e by (simp add: distinct_conv_nth) metis
    then show "p = q" using ij by simp
  qed
  then show ?thesis using assms(2,3) by (simp add: distinct_map comp_def inj_on_subset)
qed

text \<open>A job with a decision is offered nothing when it selected nothing.\<close>

lemma no_selection_no_tools:
  assumes "offeredTools registry team job = Inr ds" "aj_EgressDecision job \<noteq> None" "aj_SelectedTools job = []"
  shows "ds = []"
  using assms by (auto simp: offeredTools_def toolDefinitionsForJob_def DefinitionsFor_def withoutTeamTool_def teamDefinition_def)

end
