(* ===== verification/ModelRound.thy ===== *)
theory ModelRound
  imports ContextAssembly
begin

text \<open>
  One round of the worker's loop over a model (\<^verbatim>\<open>Execute\<close> of
  \<^verbatim>\<open>agent-runtime-go/internal/agent/general_assistant.go\<close>), from the frozen job to the request: skills,
  memory, budget and recall composed as the code composes them; that only what is mandatory can fail
  it; and that under a checked decision everything in a remote request was disclosed.
\<close>

section \<open>The round\<close>

type_synonym recall_fun = "nat \<Rightarrow> ChatMessage list \<Rightarrow> ChatMessage option"

definition prepareRecallForRun :: "recall_fun option \<Rightarrow> AgentJob \<Rightarrow> recall_fun option" where
  "prepareRecallForRun recall job =
     (if aj_ExternalAgent job \<noteq> None \<or> aj_SkipAutomaticRecall job \<or> aj_AgentProfile job \<noteq> None then None else recall)"

definition assembleRequest ::
  "(int \<Rightarrow> bool) \<Rightarrow> string \<Rightarrow> Provider \<Rightarrow> AgentJob \<Rightarrow> ChatMessage list \<Rightarrow> ChatMessage list \<Rightarrow> ToolDefinition list \<Rightarrow> recall_fun option
   \<Rightarrow> (nat \<Rightarrow> bool) \<Rightarrow> bool \<Rightarrow> budget_err + budgetedContext \<times> ChatMessage option" where
  "assembleRequest uni nonce provider job historyMessages liveMessages toolDefinitions recallForContext expired canceled =
     (case buildSkillMessagesWithinContext uni provider (aj_Model job) (aj_Skills job) (aj_UserText job) liveMessages toolDefinitions
         (agentProfileMessages job) (withEnforcedToolNames job toolDefinitions []) of
        Inl e \<Rightarrow> Inl e
      | Inr (skillMessages, skillIndexIncluded, skillIndexOmitted) \<Rightarrow>
          (let requiredToolNames = withEnforcedToolNames job toolDefinitions (requiredSkillToolNames skillIndexIncluded) in
           case buildMemoryMessagesWithinContext nonce provider (aj_Model job) job skillMessages liveMessages toolDefinitions requiredToolNames of
             Inl e \<Rightarrow> Inl e
           | Inr (memoryMessages, memoryOmitted) \<Rightarrow>
               buildBudgetedContextWithRecall provider (aj_Model job)
                 \<lparr>cx_memory = memoryMessages, cx_skills = skillMessages, cx_history = historyMessages, cx_recall = None, cx_live = liveMessages,
                  cx_requiredToolNames = requiredToolNames,
                  cx_excludedOptionalToolNames = excludedOptionalSkillToolNames skillIndexIncluded skillIndexOmitted,
                  cx_skillIndexOmitted = skillIndexOmitted, cx_memoryOmitted = memoryOmitted, cx_minimalToolResults = []\<rparr>
                 toolDefinitions recallForContext expired canceled))"

lemma assembleRequest_Inr:
  assumes "assembleRequest uni nonce provider job history live tools recall expired canceled = Inr (b, m)"
  obtains skills inc om memory mo base where
    "buildSkillMessagesWithinContext uni provider (aj_Model job) (aj_Skills job) (aj_UserText job) live tools
       (agentProfileMessages job) (withEnforcedToolNames job tools []) = Inr (skills, inc, om)"
    "buildMemoryMessagesWithinContext nonce provider (aj_Model job) job skills live tools
       (withEnforcedToolNames job tools (requiredSkillToolNames inc)) = Inr (memory, mo)"
    "buildBudgetedContextWithRecall provider (aj_Model job) base tools recall expired canceled = Inr (b, m)"
    "cx_memory base = memory" "cx_skills base = skills" "cx_history base = history" "cx_live base = live" "cx_recall base = None"
  using assms by (auto simp: assembleRequest_def Let_def split: sum.splits)

section \<open>Only what is mandatory can fail a round\<close>

lemma enforced_names: "set (withEnforcedToolNames job tools req) = set req \<union> set (withEnforcedToolNames job tools [])"
  by (simp add: withEnforcedToolNames_def)

lemma skills_fit_assembly:
  assumes "skills_fit provider model (cx_live base) tools (cx_memory base) (withEnforcedToolNames job tools []) (cx_skills base) inc = Inr True"
    and "cx_requiredToolNames base = withEnforcedToolNames job tools (requiredSkillToolNames inc)"
  shows "\<exists>v. fits provider model base tools (first_assembly base tools) = Inr (True, v)"
proof -
  have "td_Name d \<in> set (liveToolNames (cx_live base)) \<union> set (cx_requiredToolNames base)
      \<longleftrightarrow> td_Name d \<in> set (liveToolNames (cx_live base)) \<or> td_Name d \<in> set (withEnforcedToolNames job tools []) \<or> skill_required inc d" for d
    using enforced_names [of job tools "requiredSkillToolNames inc"] assms(2) by (auto simp: requiredSkillToolNames_def skill_required_def)
  then have "buildRequest provider model base tools (first_assembly base tools) =
      \<lparr>cq_Model = model, cq_Messages = cx_memory base @ cx_skills base @ cx_live base, cq_MaxTokens = pv_MaxOutputTokens provider,
       cq_Tools = filter (\<lambda>d. td_Name d \<in> set (liveToolNames (cx_live base)) \<or> td_Name d \<in> set (withEnforcedToolNames job tools [])
         \<or> skill_required inc d) tools\<rparr>"
    by (simp add: buildRequest_def first_assembly_def filter_zip_map split: option.splits)
  then show ?thesis using assms(1) by (auto simp: skills_fit_def fits_def split: sum.splits)
qed

lemma memory_outcome:
  assumes "answers provider" "pinnedMemoryMessages nonce job = Inr pm"
  shows "\<exists>m mo. buildMemoryMessagesWithinContext nonce provider model job skills live tools names = Inr (m, mo)
    \<and> (m = [] \<or> \<not> mo) \<and> (aj_AgentProfile job \<noteq> None \<longrightarrow> m = pm)"
proof -
  obtain v where "EstimateRequestTokens provider \<lparr>cq_Model = model, cq_Messages = pm @ skills @ live,
      cq_MaxTokens = pv_MaxOutputTokens provider,
      cq_Tools = filter (\<lambda>d. td_Name d \<in> set (liveToolNames live) \<union> set names) tools\<rparr> = Inr v"
    using assms(1) unfolding answers_def by blast
  then show ?thesis using assms(2) by (cases "aj_AgentProfile job") (auto simp: buildMemoryMessagesWithinContext_def)
qed

lemma round_builds:
  assumes "answers provider" "pinnedMemoryMessages nonce job = Inr pm"
    and "skills_fit provider (aj_Model job) live tools (agentProfileMessages job) (withEnforcedToolNames job tools [])
      (requiredSkillMessages uni (aj_Skills job) (aj_UserText job)) False = Inr True"
  shows "\<exists>b m. assembleRequest uni nonce provider job history live tools recall expired False = Inr (b, m) \<and> co_ToolResults (bc_Omissions b) = 0"
proof -
  obtain skills inc om where s: "buildSkillMessagesWithinContext uni provider (aj_Model job) (aj_Skills job) (aj_UserText job) live tools
      (agentProfileMessages job) (withEnforcedToolNames job tools []) = Inr (skills, inc, om)"
    using skill_messages_exist [OF assms(1)] by blast
  note fit = skill_messages_fit [OF s assms(3)]
  let ?names = "withEnforcedToolNames job tools (requiredSkillToolNames inc)"
  obtain m mo where mem: "buildMemoryMessagesWithinContext nonce provider (aj_Model job) job skills live tools ?names = Inr (m, mo)"
    and mo: "m = [] \<or> \<not> mo" and spec: "aj_AgentProfile job \<noteq> None \<longrightarrow> m = pm"
    using memory_outcome [OF assms(1,2)] by blast
  let ?base = "\<lparr>cx_memory = m, cx_skills = skills, cx_history = history, cx_recall = None, cx_live = live, cx_requiredToolNames = ?names,
     cx_excludedOptionalToolNames = excludedOptionalSkillToolNames inc om, cx_skillIndexOmitted = om, cx_memoryOmitted = mo, cx_minimalToolResults = []\<rparr>"
  have "\<exists>v. fits provider (aj_Model job) ?base tools (first_assembly ?base tools) = Inr (True, v)"
  proof (cases "aj_AgentProfile job = None \<and> m \<noteq> []")
    case True
    then show ?thesis using mem mo by (intro admitted_memory_fits) auto
  next
    case False
    have "m = agentProfileMessages job"
    proof (cases "aj_AgentProfile job")
      case None
      have "TrimSpace '''' = ''''" by code_simp
      then show ?thesis using None False by (simp add: agentProfileMessages_def)
    next
      case (Some p)
      then show ?thesis using spec assms(2) by (simp add: pinnedMemoryMessages_def)
    qed
    then show ?thesis using fit by (intro skills_fit_assembly [of provider "aj_Model job" ?base tools job inc]) simp_all
  qed
  then obtain v where "fits provider (aj_Model job) ?base tools (first_assembly ?base tools) = Inr (True, v)" by blast
  from with_recall_exists [OF assms(1) this] show ?thesis using s mem by (simp add: assembleRequest_def Let_def)
qed

section \<open>Everything in a remote request was disclosed\<close>

lemma recall_only_when_prepared:
  assumes "buildBudgetedContextWithRecall provider model base tools recall expired canceled = Inr (b, Some m)"
  shows "recall \<noteq> None"
  using assms by (cases recall) (auto simp: buildBudgetedContextWithRecall_def split: sum.splits)

lemma memory_only_pinned:
  assumes "buildMemoryMessagesWithinContext nonce provider model job skills live tools names = Inr (m, mo)" "m \<noteq> []"
  shows "pinnedMemoryMessages nonce job = Inr m"
  using assms by (auto simp: buildMemoryMessagesWithinContext_def split: sum.splits if_splits)

text \<open>What kinds of content a request holds, by the parts it was put together from.\<close>

definition disclosed :: "int set \<Rightarrow> AgentJob \<Rightarrow> ChatMessage list \<Rightarrow> ChatMessage list \<Rightarrow> ChatRequest \<Rightarrow> ChatMessage option \<Rightarrow> bool" where
  "disclosed categories job history live req recalled_message \<longleftrightarrow>
     (\<exists>memory skills k live'. cq_Messages req = memory @ (case recalled_message of None \<Rightarrow> [] | Some r \<Rightarrow> [r]) @ skills @ drop k history @ live'
        \<and> length live' = length live \<and> {1, 2} \<subseteq> categories
        \<and> (memory \<noteq> [] \<and> aj_AgentProfile job = None \<longrightarrow> 4 \<in> categories) \<and> (skills \<noteq> [] \<longrightarrow> 5 \<in> categories))
     \<and> (recalled_message \<noteq> None \<longrightarrow> 3 \<in> categories) \<and> (cq_Tools req \<noteq> [] \<longrightarrow> {6, 7, 8} \<subseteq> categories)"

lemma compact_at_length [simp]: "length (compact_at live K) = length live"
  by (simp add: compact_at_def)

lemma accounted_parts:
  assumes "accounted input tools b"
  shows "\<exists>K. cq_Messages (bc_Request b) = cx_memory input @ (if bc_RecallUsed b then [the (cx_recall input)] else []) @ cx_skills input
      @ drop (co_HistoryMessages (bc_Omissions b)) (cx_history input) @ compact_at (cx_live input) K"
    "bc_RecallUsed b \<Longrightarrow> cx_recall input \<noteq> None" "set (cq_Tools (bc_Request b)) \<subseteq> set tools"
  using assms unfolding accounted_def Let_def by blast+

lemma round_disclosed:
  assumes "assembleRequest uni nonce provider job history live tools (prepareRecallForRun recall job) expired canceled = Inr (b, m)"
    and "offeredTools registry team job = Inr tools"
    and "aj_EgressDecision job = Some d" "set (wd_DataCategories d) = set (requiredCategories job d)" "providerRemote job"
  shows "disclosed (set (wd_DataCategories d)) job history live (bc_Request b) m"
proof -
  obtain skills inc om memory mo base where
    s: "buildSkillMessagesWithinContext uni provider (aj_Model job) (aj_Skills job) (aj_UserText job) live tools
       (agentProfileMessages job) (withEnforcedToolNames job tools []) = Inr (skills, inc, om)"
    and mem: "buildMemoryMessagesWithinContext nonce provider (aj_Model job) job skills live tools
       (withEnforcedToolNames job tools (requiredSkillToolNames inc)) = Inr (memory, mo)"
    and r: "buildBudgetedContextWithRecall provider (aj_Model job) base tools (prepareRecallForRun recall job) expired canceled = Inr (b, m)"
    and base: "cx_memory base = memory" "cx_skills base = skills" "cx_history base = history" "cx_live base = live" "cx_recall base = None"
    by (rule assembleRequest_Inr [OF assms(1)])
  obtain rm where bm: "buildBudgetedContext provider (aj_Model job) (base\<lparr>cx_recall := rm\<rparr>) tools = Inr b"
    and m: "m = (if bc_RecallUsed b then rm else None)"
    using with_recall_recalled [OF r base(5)] unfolding recalled_def by blast
  note acc = accounted_parts [OF budgeted_accounted [OF bm]]
  obtain K where "cq_Messages (bc_Request b) = cx_memory (base\<lparr>cx_recall := rm\<rparr>) @ (if bc_RecallUsed b then [the (cx_recall (base\<lparr>cx_recall := rm\<rparr>))] else [])
      @ cx_skills (base\<lparr>cx_recall := rm\<rparr>) @ drop (co_HistoryMessages (bc_Omissions b)) (cx_history (base\<lparr>cx_recall := rm\<rparr>))
      @ compact_at (cx_live (base\<lparr>cx_recall := rm\<rparr>)) K"
    using acc(1) by blast
  then have msgs: "cq_Messages (bc_Request b) = memory @ (if bc_RecallUsed b then [the rm] else []) @ skills
      @ drop (co_HistoryMessages (bc_Omissions b)) history @ compact_at live K" by (simp add: base)
  have used: "bc_RecallUsed b \<Longrightarrow> rm \<noteq> None" using acc(2) by simp
  note tools = acc(3)
  note cats = assms(4) requiredCategories_set [of job d]
  have "4 \<in> set (wd_DataCategories d)" if "memory \<noteq> []" "aj_AgentProfile job = None"
    using pinned_messages_disclosed [OF memory_only_pinned [OF mem that(1)] that] assms(5) by (simp add: cats runtimeMemoryProfileApplicable_def)
  moreover have "5 \<in> set (wd_DataCategories d)" if "skills \<noteq> []"
    using no_skills_no_messages s that assms(5) by (cases "aj_Skills job") (auto simp: cats)
  moreover have "3 \<in> set (wd_DataCategories d)" if "m \<noteq> None"
    using recall_only_when_prepared r that assms(5) by (fastforce simp: cats prepareRecallForRun_def split: if_splits)
  moreover have "{6, 7, 8} \<subseteq> set (wd_DataCategories d)" if "cq_Tools (bc_Request b) \<noteq> []"
  proof -
    have "tools \<noteq> []" using that tools by auto
    then have "aj_SelectedTools job \<noteq> []" using no_selection_no_tools [OF assms(2)] assms(3) by auto
    then show ?thesis using assms(5) by (auto simp: cats)
  qed
  moreover have "{1, 2} \<subseteq> set (wd_DataCategories d)" using assms(5) by (auto simp: cats)
  moreover have "(if bc_RecallUsed b then [the rm] else []) = (case m of None \<Rightarrow> [] | Some r \<Rightarrow> [r])" using m used by auto
  ultimately show ?thesis unfolding disclosed_def using msgs
    by (intro conjI exI [of _ memory] exI [of _ skills] exI [of _ "co_HistoryMessages (bc_Omissions b)"] exI [of _ "compact_at live K"]) auto
qed

end
