(* ===== verification/ContextSamples.thy ===== *)
theory ContextSamples
  imports ModelRound TurnSamples
begin

text \<open>
  A small model request, evaluated: a window of 80 tokens of which 20 are kept for the answer, a
  provider that counts a token per character and ten per tool, two tools, a persona and two earlier
  exchanges, of which the older one no longer fits.
\<close>

definition counting_provider :: Provider where
  "counting_provider = \<lparr>pv_ID = ''openai_compatible'', pv_EgressEndpoint = Some ''https://api.example.com/v1'', pv_ContextWindowTokens = 80, pv_MaxOutputTokens = 20, pv_EstimateRequestTokens =
     (\<lambda>req. Inr (sum_list (map (\<lambda>m. int (length (cm_Content m))) (cq_Messages req)) + 10 * int (length (cq_Tools req))))\<rparr>"

definition two_tools :: "ToolDefinition list" where
  "two_tools = map (\<lambda>n. \<lparr>td_Name = n, td_Description = '''', td_Parameters = JNull\<rparr>) [''read'', ''write'']"

definition pinned_job :: AgentJob where
  "pinned_job = \<lparr>aj_JobId = ''j'', aj_RunId = ''r'', aj_SessionId = ''s'', aj_UserMessageId = ''u'', aj_AssistantMessageId = ''a'',
     aj_AgentId = AGENT_ID_GENERAL_ASSISTANT, aj_TraceId = ''t'', aj_ModelProvider = MODEL_PROVIDER_OLLAMA, aj_Model = ''m'',
     aj_UserText = ''What now?'', aj_RequestedTools = [], aj_Attempt = 1, aj_Skills = [], aj_ExternalAgent = None,
     aj_RequiredContextTokens = 0, aj_MinimumWorkerMaxConcurrentRuns = 0, aj_ExpectedStateVersion = 2, aj_AssignmentAttemptId = ''x'',
     aj_EgressDecision = None, aj_SelectedTools = [],
     aj_PinnedPersona = Some \<lparr>pp_PersonaID = ''persona.md'', pp_DisplayName = ''persona.md'', pp_Body = ''Be brief.'', pp_ContentHash = ''h'', pp_Withheld = False\<rparr>,
     aj_PinnedProfile = None, aj_MemorySnapshotFingerprint = '''', aj_AgentProfile = None, aj_EnforceSelectedTools = False,
     aj_SkipAutomaticRecall = False\<rparr>"

definition long_chat :: contextInput where
  "long_chat = \<lparr>cx_memory = [chat_message ''system'' ''Be brief.''], cx_skills = [],
     cx_history = [chat_message ''user'' ''hello there'', chat_message ''assistant'' ''hi'', chat_message ''user'' ''second'', chat_message ''assistant'' ''okay''],
     cx_recall = None, cx_live = [chat_message ''user'' ''What now?''], cx_requiredToolNames = [], cx_excludedOptionalToolNames = [],
     cx_skillIndexOmitted = False, cx_memoryOmitted = False, cx_minimalToolResults = []\<rparr>"

definition constant_recall :: "nat \<Rightarrow> ChatMessage list \<Rightarrow> ChatMessage option" where
  "constant_recall pass shown = Some (chat_message ''user'' ''earlier'')"

lemma long_chat_request:
  "case buildBudgetedContextWithRecall counting_provider ''m'' long_chat two_tools (Some constant_recall) (\<lambda>_. False) False of
     Inr (b, m) \<Rightarrow> bc_Estimate b = 55 \<and> m = Some (chat_message ''user'' ''earlier'') \<and> co_HistoryMessages (bc_Omissions b) = 2
       \<and> co_ToolDefinitions (bc_Omissions b) = 0
   | _ \<Rightarrow> False"
  by code_simp

lemma long_chat_notice:
  "case buildBudgetedContextWithRecall counting_provider ''m'' long_chat two_tools (Some constant_recall) (\<lambda>_. False) False of
     Inr (b, m) \<Rightarrow> Notice (bc_Omissions b) = ''Context window limit: omitted 2 older conversation messages from this model request.''
   | _ \<Rightarrow> False"
  by code_simp

lemma pinned_memory_admitted:
  "buildMemoryMessagesWithinContext ''nonce'' counting_provider ''m'' pinned_job (cx_skills long_chat) (cx_live long_chat) two_tools
     (cx_requiredToolNames long_chat) = Inr (cx_memory long_chat, False)"
  by code_simp

lemma counting_answers: "answers counting_provider"
  by (simp add: answers_def EstimateRequestTokens_def counting_provider_def)

text \<open>A window too small for the persona drops it and says so.\<close>

lemma pinned_memory_omitted:
  "buildMemoryMessagesWithinContext ''nonce'' (counting_provider\<lparr>pv_ContextWindowTokens := 35\<rparr>) ''m'' pinned_job [] (cx_live long_chat) two_tools []
     = Inr ([], True)"
  by code_simp

text \<open>A long tool result gives way to a marker before the run does.\<close>

definition tool_context :: contextInput where
  "tool_context = long_chat\<lparr>cx_history := [], cx_live := [chat_message ''user'' ''go'', (chat_message ''tool'' (replicate 200 CHR ''x''))\<lparr>cm_ToolCallID := ''t''\<rparr>]\<rparr>"

lemma tool_result_compacted:
  "case buildBudgetedContext (counting_provider\<lparr>pv_ContextWindowTokens := 190\<rparr>) ''m'' tool_context two_tools of
     Inr b \<Rightarrow> co_ToolResults (bc_Omissions b) = 1 \<and> co_ToolDefinitions (bc_Omissions b) = 0 | _ \<Rightarrow> False"
  by code_simp

section \<open>A remote round\<close>

text \<open>A run on a remote model with a persona, a skill and two tools, and the decision its user took.\<close>

definition tone_skill :: SkillSnapshot where
  "tone_skill = \<lparr>sk_SkillID = ''writing/tone'', sk_Name = ''Tone'', sk_Description = ''Plain words'', sk_Category = ''writing'', sk_Body = '''',
     sk_References = [], sk_Withheld = False, sk_MissingCapabilities = [], sk_Instructions = ''Short sentences.''\<rparr>"

definition undecided_job :: AgentJob where
  "undecided_job = pinned_job\<lparr>aj_ModelProvider := MODEL_PROVIDER_OPENAI_COMPATIBLE, aj_Skills := [tone_skill],
     aj_UserText := ''Use $writing/tone.'', aj_SelectedTools := [''files/read'', ''files/write'']\<rparr>"

definition wire_decision :: WireEgressDecision where
  "wire_decision = \<lparr>wd_DecisionId = ''d'', wd_Version = 3, wd_Provider = MODEL_PROVIDER_OPENAI_COMPATIBLE, wd_Model = ''m'',
     wd_Endpoint = ''https://llm.example'', wd_EndpointHost = ''llm.example'', wd_ExternalAgentId = '''', wd_DataCategories = [1, 2, 3, 4, 5, 6, 7, 8],
     wd_ConsentGrantedAt = Some 0, wd_ChallengeFingerprint = ''f'', wd_SelectedTools = [''files/read'', ''files/write''],
     wd_SkillSnapshotFingerprint = runtimeSkillSnapshotFingerprint [tone_skill], wd_RecallApplicable = True, wd_MemoryProfileApplicable = True,
     wd_ExternalCredentialRefHash = '''', wd_RequestDigest = ''q'', wd_RemoteMcpServers = [], wd_IntegrationEndpoints = [],
     wd_MemorySnapshotFingerprint = runtimeMemorySnapshotFingerprint undecided_job\<rparr>"

definition decided_job :: AgentJob where
  "decided_job = undecided_job\<lparr>aj_EgressDecision := Some wire_decision,
     aj_MemorySnapshotFingerprint := runtimeMemorySnapshotFingerprint undecided_job\<rparr>"

definition remote_provider :: Provider where
  "remote_provider = counting_provider\<lparr>pv_EgressEndpoint := Some ''https://llm.example'', pv_ContextWindowTokens := 1500\<rparr>"

definition files_server :: "(string \<times> ToolLister) list" where
  "files_server = [(''files'', Listing [[(''name'', JStr ''read'')], [(''name'', JStr ''write''), (''policy'', JStr ''approval_required'')],
     [(''name'', JStr ''erase''), (''policy'', JStr ''disabled'')]])]"

definition files_registry :: ToolRegistry where
  "files_registry = (case BuildToolRegistry files_server of Inr r \<Rightarrow> r)"

definition files_tools :: "ToolDefinition list" where
  "files_tools = map (\<lambda>n. \<lparr>td_Name = n, td_Description = '''', td_Parameters = JObj [(''type'', JStr ''object'')]\<rparr>) [''read'', ''write'']"

lemma files_registry_builds: "BuildToolRegistry files_server = Inr files_registry"
  by code_simp

lemma files_offered: "toolDefinitionsForJob files_registry decided_job = Inr files_tools" "offeredTools files_registry None decided_job = Inr files_tools"
  by code_simp+

lemma decision_passes: "validateEgressDecisionShape demo_network decided_job = Inr ()"
  by code_simp

lemma provider_passes: "validateEgressProvider decided_job (pv_ID remote_provider) (pv_EgressEndpoint remote_provider) = Inr ()"
  by code_simp

text \<open>A decision that leaves the persona out of its categories is refused.\<close>

lemma undisclosed_memory_refused:
  "validateEgressDecisionShape demo_network (decided_job\<lparr>aj_EgressDecision := Some (wire_decision\<lparr>wd_DataCategories := [1, 2, 3, 5, 6, 7, 8]\<rparr>)\<rparr>)
   = Inl ''remote run decision is missing EGRESS_DATA_CATEGORY_MEMORY_PROFILE''"
  by code_simp

lemma remote_round_fits:
  "skills_fit remote_provider (aj_Model decided_job) [user_message ''hi''] files_tools (agentProfileMessages decided_job)
     (withEnforcedToolNames decided_job files_tools []) (requiredSkillMessages (\<lambda>_. False) (aj_Skills decided_job) (aj_UserText decided_job)) False = Inr True"
  by code_simp

lemma remote_round_memory: "pinnedMemoryMessages ''nonce'' decided_job = Inr [system_message ''Be brief.'']"
  by code_simp

lemma remote_answers: "answers remote_provider"
  by (simp add: answers_def EstimateRequestTokens_def remote_provider_def counting_provider_def)

end
