(* ===== verification/Spec2Isabelle.thy ===== *)
theory Spec2Isabelle
  imports WithdrawalSamples ContextSamples
begin

text \<open>
  A verification development for TuringAgent: its orchestrator
  (\<^verbatim>\<open>src/turing-backend/orchestrator-go\<close>), the Go service that owns the conversations of a personal
  agent (it queues the user's turns, hands them to workers, asks for approval before dangerous tool
  calls, retries and recovers interrupted executions, and publishes an event log to its clients), and
  the part of its worker (\<^verbatim>\<open>src/turing-backend/agent-runtime-go\<close>) that turns a job into a model request.

  \<^bold>\<open>The program.\<close> Everything the orchestrator decides is decided inside SQLite transactions of
  the package \<^verbatim>\<open>internal/repository\<close>; the gRPC services translate requests into calls of it. A turn
  is an \<^emph>\<open>agent run\<close> with a lifecycle (queued, running, waiting for approval, recovering, completed,
  failed, cancelled), executed through a \<^emph>\<open>job\<close> that a worker claims; a run owns \<^emph>\<open>tool calls\<close>,
  \<^emph>\<open>approvals\<close> and \<^emph>\<open>delegations\<close> (tasks that run in child sessions), and each change appends
  \<^emph>\<open>events\<close> numbered per session.

  \<^bold>\<open>The model.\<close> A transaction is a function from the store (\<open>world\<close>: the tables as lists of rows,
  and streams of clock readings and fresh identifiers) to an error or a result with the new store;
  a failed transaction has no new store, which is the rollback. Every raised error is a value of
  \<open>err\<close>. Operations keep the names of the Go functions; long ones are cut into named steps at the
  places where the Go function has its stages.

  \<^descr>[\<open>Prelude\<close>, \<open>GoStrings\<close>, \<open>GoRunes\<close>, \<open>Sha256\<close>] errors, the transaction monad and its Hoare and
    relational rules, JSON values, tables; Go's UTF-8 decoding, encoding and string functions;
    SHA-256 over words.
  \<^descr>[\<open>PersistTime\<close>, \<open>RunOutcome\<close>, \<open>RunCorrelation\<close>, \<open>EgressFraming\<close>] the leaf packages
    \<^verbatim>\<open>persisttime\<close>, \<^verbatim>\<open>runoutcome\<close>, \<^verbatim>\<open>runcorrelation\<close> and \<^verbatim>\<open>internal/egress\<close> (framing).
  \<^descr>[\<open>Store\<close>] the tables, timestamps, session checks and the event append
    (\<^verbatim>\<open>runs.go\<close>, \<^verbatim>\<open>events.go\<close>, \<^verbatim>\<open>sessions.go\<close>, \<^verbatim>\<open>timestamps.go\<close>).
  \<^descr>[\<open>RunLifecycle\<close>, \<open>StoreInvariants\<close>] the abstract specifications: the lifecycle graph, the steps
    a row may make, and the locale \<open>store_relation\<close> of the relations between two stores that every
    transaction must keep, with its interpretations.
  \<^descr>[\<open>RunState\<close>, \<open>ApprovalEvents\<close>, \<open>DelegationLifecycle\<close>, \<open>RunTransitions\<close>] the transition core of
    \<^verbatim>\<open>run_state.go\<close> with the terminal writers of \<^verbatim>\<open>run_terminal.go\<close>, what they close, and the
    delegated tasks they stop, report and join (\<^verbatim>\<open>delegation_lifecycle.go\<close>, \<^verbatim>\<open>delegation_join.go\<close>).
  \<^descr>[\<open>TransitionEffects\<close>, \<open>LiveTransitions\<close>] what a committed transition does to the store.
  \<^descr>[\<open>Approvals\<close>, \<open>ApprovalOutcomes\<close>] \<^verbatim>\<open>approvals.go\<close> and \<^verbatim>\<open>approval_previews.go\<close>.
  \<^descr>[\<open>QueueWait\<close>, \<open>ExplicitCancel\<close>] \<^verbatim>\<open>queue_wait.go\<close>, \<^verbatim>\<open>explicit_cancel.go\<close>.
  \<^descr>[\<open>Routing\<close>, \<open>Dispatch\<close>, \<open>Retry\<close>, \<open>Assignments\<close>] worker capabilities
    (\<^verbatim>\<open>service/runtime/capabilities.go\<close>) against the SQL claim filter, claims and retries (\<^verbatim>\<open>jobs.go\<close>),
    lease renewal, reconciliation and recovery (\<^verbatim>\<open>assignments.go\<close>).
  \<^descr>[\<open>ToolCalls\<close>] \<^verbatim>\<open>toolcalls.go\<close>.
  \<^descr>[\<open>EgressDecision\<close>, \<open>EgressConsent\<close>] endpoints and skill names (\<^verbatim>\<open>internal/egress\<close>), decisions about
    data that leaves the machine (\<^verbatim>\<open>egress.go\<close>), memory snapshots and the memory switch
    (\<^verbatim>\<open>memory_egress_snapshot.go\<close>, \<^verbatim>\<open>memory_settings.go\<close>), and the record of a consent.
  \<^descr>[\<open>Sessions\<close>] conversations: \<^verbatim>\<open>session_title.go\<close>, \<^verbatim>\<open>session_lifecycle.go\<close>, the listings and the
    history of \<^verbatim>\<open>sessions.go\<close>.
  \<^descr>[\<open>Delegations\<close>] starting a delegated task and consenting to its tools (\<^verbatim>\<open>delegations.go\<close>,
    \<^verbatim>\<open>delegation_egress.go\<close>).
  \<^descr>[\<open>Enqueue\<close>, \<open>TurnOutcomes\<close>] accepting a user message (\<^verbatim>\<open>EnqueueUserMessage\<close> of \<^verbatim>\<open>jobs.go\<close>,
    \<^verbatim>\<open>team_roster.go\<close>) and what sends and delegations leave behind.
  \<^descr>[\<open>ExternalAgents\<close>] remote agents and the routes of conversations to them (\<^verbatim>\<open>external_agents.go\<close>).
  \<^descr>[\<open>AutomationSchedule\<close>, \<open>Automations\<close>, \<open>AutomationOutcomes\<close>] schedules (\<^verbatim>\<open>automation_schedule.go\<close>),
    saved prompts and the claim of a due one (\<^verbatim>\<open>automations.go\<close>), the scheduler's tick
    (\<^verbatim>\<open>service/automations/scheduler.go\<close>), and what edits and claims leave behind.
  \<^descr>[\<open>SessionDeletion\<close>, \<open>Aside\<close>] withdrawing a conversation (\<^verbatim>\<open>session_delete.go\<close>), with the tables that
    the turn transactions leave alone.
  \<^descr>[\<open>Orchestrator\<close>] the store as a state machine, one rule per exported transaction that writes,
    save for \<^verbatim>\<open>AdvanceSessionDeletion\<close>, whose cascade removes rows: what C2 to C7 say of sequences of
    transactions is said of the life of a conversation up to that point.
  \<^descr>[\<open>AgentJobs\<close>] the job as it goes to a worker (\<^verbatim>\<open>mapJob\<close> of \<^verbatim>\<open>service/runtime/service.go\<close>) and the worker's
    check of the decision it carries (\<^verbatim>\<open>agent/egress.go\<close>, \<^verbatim>\<open>agent/memory.go\<close>).
  \<^descr>[\<open>ContextBudget\<close>, \<open>SkillContext\<close>, \<open>ToolDiscovery\<close>, \<open>ContextAssembly\<close>, \<open>ModelRound\<close>] model requests: the budget of
    \<^verbatim>\<open>agent/context_budget.go\<close>; skills (\<^verbatim>\<open>agent/skills.go\<close>, \<^verbatim>\<open>agent/skill_tools.go\<close>); the tool registry and the
    frozen set of a job (\<^verbatim>\<open>agent/toolregistry.go\<close>, \<^verbatim>\<open>agent/team_tool.go\<close>); memory and recall
    (\<^verbatim>\<open>agent/memory.go\<close>, \<^verbatim>\<open>agent/general_assistant.go\<close>); and the round that composes them.
  \<^descr>[\<open>Example\<close>, \<open>Samples\<close>, \<open>TurnSamples\<close>, \<open>WithdrawalSamples\<close>, \<open>ContextSamples\<close>] concrete stores, jobs and
    requests on which the properties are instantiated.

  \<^bold>\<open>What is shown.\<close> A run that ends leaves nothing open (C1); over any sequence of
  transactions runs follow the lifecycle graph, finished runs are frozen, versions and times grow,
  the tables stay well formed, the event log only grows and its numbering has no gap (C2 to C5);
  approvals follow their own machine, are consumed once and in time, and their decisions have the
  stated effect (C6 to C10); cancellations are idempotent (C12); retries and recovery settle a run
  (C13 to C16); claims agree with routing, which the check before dispatch does not (C17 to C19); tool calls need their approval (C20); a send
  is accepted once and a remote turn has its consent (C21, C22); a delegated task is admitted, waits
  for consent and carries it (C23 to C25); pages of conversations continue, and a withdrawn
  conversation stops at once and leaves no trace (C26 to C28); automations fire at the next
  occurrence of their schedule, once, contained, exactly while they are enabled, and read back as
  they were saved (C29 to C33); external agents stay secure (C34); a model request fits its window
  and accounts for what it leaves out, optional context never fails a round, everything in a remote
  request was disclosed, the worker derives the fingerprints the orchestrator froze, and a frozen set
  of tools is offered whole (C35 to C39); timestamps are faithful to their text (C40).

  \<^bold>\<open>Fuel.\<close> A transition stops the delegated tasks of the run it ends by further transitions, which
  recurse through the delegation tree. The model unfolds it to the number of delegations in the
  store; C11 shows that this depth is always enough, because a stopped task is terminal and is not
  visited again: the function satisfies the recursion equation of the code without a bound.

  \<^bold>\<open>Boundary of the model.\<close> SQLite serializes write transactions, so interleavings of goroutines are
  sequences of transactions; in-process mutexes are not modelled. Foreign keys are checked where a
  row of approvals is inserted, unique keys wherever a row is inserted. \<^verbatim>\<open>time.Parse\<close> is modelled on
  the timestamp shapes the package accepts; other texts are parse errors. JSON strings are valid
  UTF-8, and an empty list is marshalled as the code marshals the slice it builds there. A run has
  one job, as the enqueueing code writes it. The environment's streams of clock readings and
  identifiers are arbitrary, so the clock may go backwards and identifiers may clash. The check of
  an engine label in a registration, the URL and address parsers of \<^verbatim>\<open>net/url\<close> and \<^verbatim>\<open>net/netip\<close> with the
  lower-casing of Unicode, and what the code reads from files (enabled skills, pinned documents) are
  parameters of the model.

  A withdrawal's memory notes and its completion on disk are arguments of \<open>AdvanceSessionDeletion\<close>; what
  the scheduler asks of the worker registry (a routable model, a dispatch) is an argument of \<open>Tick\<close>.
  The rows that SQLite removes through foreign keys are removed by \<open>cascade\<close> as the schema declares
  them; the chain of continuations of a run is followed as many rounds as there are runs.

  In the worker the estimate of a request, what a tool server and the team list, what recall returns,
  whether its deadline has passed and whether the run was canceled are arguments, as are the random
  delimiter of a frame and which runes above Latin-1 are punctuation. The binary searches of the
  budget and the loop over schemas are total functions, and the recall loop makes the three passes of
  the code.

  \<^bold>\<open>Not modelled.\<close> The gRPC services and streams, the memory vault, the tool-server registry, the
  loaders of skills and profiles, integrations, search and telemetry, migrations, the tool servers
  and the command line: they are I/O around the store, or stores of their own that the run store does
  not read. Of the worker, its process and connections, the streaming of answers, the execution of
  tool calls and the recall queries.
\<close>

section \<open>Ending a run\<close>

text \<open>
  C1. A run that is cancelled, failed or completed for the first time is left terminal with nothing
  open: no pending or approved approval, no unfinished tool call, no claimable job; and when it was
  cancelled or failed every task it delegated has ended too.
\<close>

theorem ended_run_leaves_nothing_open:
  assumes "db_ok w"
  shows "(CancelRunCanonical cancel w = Inr (res, w1) \<and> \<not> tr_Duplicate res \<longrightarrow>
      sealed (xri_RunID cancel) w1 \<and> children_done (xri_RunID cancel) w1)
    \<and> (FailRunCanonical fail w = Inr (res, w2) \<and> fri_allowedFrom fail = [] \<and> \<not> tr_Duplicate res \<longrightarrow>
      sealed (fri_RunID fail) w2 \<and> children_done (fri_RunID fail) w2)
    \<and> (CompleteRunCanonical complete w = Inr (res, w3) \<and> \<not> tr_Duplicate res \<longrightarrow> sealed (cri_RunID complete) w3)"
proof (intro conjI impI)
  assume "CancelRunCanonical cancel w = Inr (res, w1) \<and> \<not> tr_Duplicate res"
  then show "sealed (xri_RunID cancel) w1" "children_done (xri_RunID cancel) w1"
    using assms by (simp_all add: CancelRunCanonical_def cancelRunTx_seals)
next
  assume "FailRunCanonical fail w = Inr (res, w2) \<and> fri_allowedFrom fail = [] \<and> \<not> tr_Duplicate res"
  then show "sealed (fri_RunID fail) w2" "children_done (fri_RunID fail) w2"
    using assms failRunTx_seals by (simp_all add: FailRunCanonical_def fail_input_ok_def)
next
  assume "CompleteRunCanonical complete w = Inr (res, w3) \<and> \<not> tr_Duplicate res"
  then show "sealed (cri_RunID complete) w3" using assms by (simp add: CompleteRunCanonical_def completeRunTx_seals)
qed

theorem ended_run_leaves_nothing_open_witness:
  "\<exists>w1 w2 w3. sealed ''p'' w1 \<and> children_done ''p'' w1 \<and> sealed ''c'' w2 \<and> children_done ''c'' w2 \<and> sealed ''p'' w3"
proof -
  obtain r1 w1 where 1: "CancelRunCanonical demo_cancel waiting = Inr (r1, w1)" "\<not> tr_Duplicate r1 \<and> run_in ''p'' lifecycleCancelled w1"
    by (rule case_InrE [OF cancel_runs])
  obtain r2 w2 where 2: "FailRunCanonical demo_fail running = Inr (r2, w2)" "\<not> tr_Duplicate r2"
    by (rule case_InrE [OF fail_runs])
  obtain r3 w3 where 3: "CompleteRunCanonical demo_complete running = Inr (r3, w3)" "\<not> tr_Duplicate r3"
    by (rule case_InrE [OF complete_runs])
  have "sealed ''p'' w1 \<and> children_done ''p'' w1"
    using ended_run_leaves_nothing_open [OF samples_ok(1)] 1 by (fastforce simp: demo_cancel_def)
  moreover have "sealed ''c'' w2 \<and> children_done ''c'' w2"
    using ended_run_leaves_nothing_open [OF samples_ok(2)] 2 by (fastforce simp: demo_fail_def)
  moreover have "sealed ''p'' w3" using ended_run_leaves_nothing_open [OF samples_ok(2)] 3 by (fastforce simp: demo_complete_def)
  ultimately show ?thesis by blast
qed

section \<open>The store as a state machine\<close>

text \<open>
  C2. Whatever transactions run, in whatever order, no run is lost: it keeps its identity, its
  lifecycle only moves along the lifecycle graph, and once it has ended it is frozen: no later
  transaction changes its lifecycle, outcome, version, times, content digest or queue clock.
\<close>

theorem runs_follow_the_lifecycle:
  assumes "db_ok w" "store_op\<^sup>*\<^sup>* w w'" "r \<in> set (agent_runs w)"
  shows "\<exists>r' \<in> set (agent_runs w'). same_identity r r' \<and> lifecycle_edge\<^sup>*\<^sup>* (run_status r) (run_status r')
    \<and> (isTerminalLifecycle (run_status r) \<longrightarrow> same_state r r')"
proof -
  have "run_history w w'" using history.store_ops_within [OF assms(2)] assms(1) by (simp add: under_def)
  then show ?thesis using assms(3) unfolding run_history_def run_le_def run_later_def by blast
qed

theorem runs_follow_the_lifecycle_witness:
  "(\<exists>w' r'. store_op waiting w' \<and> r' \<in> set (agent_runs w') \<and> lifecycle_edge\<^sup>*\<^sup>* ''waiting_approval'' (run_status r'))
   \<and> (\<exists>w w' r'. store_op w w' \<and> r' \<in> set (agent_runs w') \<and> same_state (demo_run ''c'' ''cs'' ''completed'') r')"
proof
  obtain w' where w': "store_op waiting w'" by (rule sample_step)
  have "demo_run ''p'' ''s'' ''waiting_approval'' \<in> set (agent_runs waiting)" by (simp add: waiting_def demo_def)
  from runs_follow_the_lifecycle [OF samples_ok(1) r_into_rtranclp [of store_op, OF w'] this]
  show "\<exists>w' r'. store_op waiting w' \<and> r' \<in> set (agent_runs w') \<and> lifecycle_edge\<^sup>*\<^sup>* ''waiting_approval'' (run_status r')"
    using w' by (auto simp: demo_run_def)
next
  obtain res w' where run: "CancelRunCanonical demo_cancel (demo ''running'' ''completed'') = Inr (res, w')"
    using case_InrE [OF cancel_past_runs] by blast
  have "demo_run ''c'' ''cs'' ''completed'' \<in> set (agent_runs (demo ''running'' ''completed''))" by (simp add: demo_def)
  moreover have "isTerminalLifecycle (run_status (demo_run ''c'' ''cs'' ''completed''))" by code_simp
  ultimately show "\<exists>w w' r'. store_op w w' \<and> r' \<in> set (agent_runs w') \<and> same_state (demo_run ''c'' ''cs'' ''completed'') r'"
    using runs_follow_the_lifecycle [OF samples_ok(6) r_into_rtranclp [of store_op, OF store_op.cancel [OF run]]]
      store_op.cancel [OF run] by blast
qed

text \<open>
  C3. The version of a run never decreases, and every increase comes with a strictly later
  \<^verbatim>\<open>state_updated_at\<close>; the time it has waited in the queue never decreases either.
\<close>

theorem versions_grow_with_time:
  assumes "db_ok w" "store_op\<^sup>*\<^sup>* w w'" "r \<in> set (agent_runs w)"
  shows "\<exists>r' \<in> set (agent_runs w'). run_id r' = run_id r \<and> run_state_version r \<le> run_state_version r'
    \<and> run_queue_waited_ns r \<le> run_queue_waited_ns r'
    \<and> (run_state_version r = run_state_version r' \<or> (\<exists>p n. ParseLegacy (run_state_updated_at r) = Inr p
         \<and> ParseLegacy (run_state_updated_at r') = Inr n \<and> p < n))"
proof -
  have "run_history w w'" using history.store_ops_within [OF assms(2)] assms(1) by (simp add: under_def)
  then obtain r' where "r' \<in> set (agent_runs w')" "run_later r r'"
    using assms(3) unfolding run_history_def run_le_def by blast
  then show ?thesis unfolding run_later_def same_identity_def by (metis order_le_less)
qed

theorem versions_grow_with_time_witness:
  "\<exists>w' r'. store_op waiting w' \<and> r' \<in> set (agent_runs w') \<and> run_id r' = ''p'' \<and> 3 \<le> run_state_version r'"
proof -
  obtain w' where w': "store_op waiting w'" by (rule sample_step)
  have "demo_run ''p'' ''s'' ''waiting_approval'' \<in> set (agent_runs waiting)" by (simp add: waiting_def demo_def)
  from versions_grow_with_time [OF samples_ok(1) r_into_rtranclp [of store_op, OF w'] this]
  show ?thesis using w' by (auto simp: demo_run_def)
qed

text \<open>
  C4. The store stays well formed. Of a run: the outcome reason is one the lifecycle allows, the
  version fits 64 bits, the state time is canonical, \<^verbatim>\<open>finished_at\<close> is set exactly on terminal runs and
  equals the state time, and the queue clock runs exactly while the run is queued. Of an approval:
  only an approved or consumed one carries a token, a pending one is undecided, and a consumption
  time only stands on a consumed or later expired one.
\<close>

theorem store_stays_well_formed:
  assumes "db_ok w" "runs_ok w" "approvals_ok w" "store_op\<^sup>*\<^sup>* w w'"
  shows "db_ok w' \<and> runs_ok w' \<and> approvals_ok w'"
  using shape.store_ops_within [OF assms(4)] decisions.store_ops_within [OF assms(4)] assms(1-3) by (simp add: under_def preserves_def)

theorem store_stays_well_formed_witness: "\<exists>w'. store_op waiting w' \<and> runs_ok w' \<and> approvals_ok w'"
proof -
  have "approvals_ok waiting" by code_simp
  then show ?thesis using sample_step store_stays_well_formed [OF samples_ok(1,4)] by (metis r_into_rtranclp)
qed

section \<open>The event log\<close>



section \<open>Approvals\<close>

text \<open>
  C6. Whatever transactions run, an approval only moves along the approval machine: pending to
  approved, denied or expired; approved to consumed or expired; consumed to expired. What was asked
  for never changes.
\<close>

theorem approvals_follow_the_machine:
  assumes "db_ok w" "store_op\<^sup>*\<^sup>* w w'" "a \<in> set (approvals w)"
  shows "\<exists>a' \<in> set (approvals w'). same_request a a' \<and> status_next\<^sup>*\<^sup>* (ap_status a) (ap_status a')"
proof -
  have "approval_history w w'" using requests.store_ops_within [OF assms(2)] assms(1) by (simp add: under_def)
  then show ?thesis using assms(3) approval_le_machine unfolding approval_history_def by blast
qed

theorem approvals_follow_the_machine_witness:
  "\<exists>w' a'. store_op waiting w' \<and> a' \<in> set (approvals w') \<and> same_request demo_approval a'"
proof -
  obtain w' where w': "store_op waiting w'" by (rule sample_step)
  have "demo_approval \<in> set (approvals waiting)" by (simp add: waiting_def demo_def)
  then show ?thesis
    using approvals_follow_the_machine [OF samples_ok(1) r_into_rtranclp [of store_op, OF w']] w' by blast
qed

text \<open>
  C7. An approval authorizes one execution: once it has been consumed, no later consumption of it
  succeeds, whatever transactions ran in between.
\<close>

theorem approval_is_consumed_once:
  assumes "db_ok w" "ConsumeApprovalWithEvent aid at w = Inr ((t, None), w1)" "store_op\<^sup>*\<^sup>* w1 w2"
  shows "ConsumeApprovalWithEvent aid at' w2 \<noteq> Inr ((t', None), w3)"
proof
  assume again: "ConsumeApprovalWithEvent aid at' w2 = Inr ((t', None), w3)"
  have "db_ok w2" "spent aid w2" using consume_spends [OF assms(1,2)] spent_ops [OF _ assms(3)] by blast+
  then show False using consume_needs_approved [OF again] spent_not_approved by fastforce
qed

theorem approval_is_consumed_once_witness:
  "\<exists>w1. \<forall>t' w3. ConsumeApprovalWithEvent ''ap1'' t0 w1 \<noteq> Inr ((t', None), w3)"
proof -
  obtain t x w1 where "ConsumeApprovalWithEvent ''ap1'' '''' approved = Inr ((t, x), w1)" "x = None"
    by (rule case_Inr2E [OF consume_runs])
  then have "ConsumeApprovalWithEvent ''ap1'' '''' approved = Inr ((t, None), w1)" by simp
  from approval_is_consumed_once [OF samples_ok(3) this rtranclp.rtrancl_refl] show ?thesis by blast
qed

text \<open>
  C8. Deadlines bind twice. An approval is granted only while it is pending and its deadline has
  not been reached at the decision; and it is consumed only once granted, at an instant strictly
  before its deadline.
\<close>

theorem approvals_end_at_their_deadline:
  assumes "at \<noteq> ''''"
  shows "(ApproveApprovalWithEvent aid token comment at hashes w = Inr (g, w1) \<and> at_Changed g \<longrightarrow>
      (\<exists>a \<in> set (approvals w). ap_id a = aid \<and> ap_status a = ''pending'' \<and> \<not> approvalExpiredAtDecision (ap_expires_at a) at))
    \<and> (ConsumeApprovalWithEvent aid at w = Inr ((t, None), w2) \<longrightarrow>
      (\<exists>a \<in> set (approvals w). \<exists>now deadline. ap_id a = aid \<and> ap_status a = ''approved'' \<and> time_Parse at = Inr now
         \<and> sqliteTimestampNanos (ap_expires_at a) = Some deadline \<and> UnixNano now < deadline))"
  (is "(?grant \<longrightarrow> ?pending) \<and> (?consume \<longrightarrow> ?approved)")
proof (intro conjI impI)
  assume g: ?grant
  obtain a at' where "a \<in> set (approvals w)" "ap_id a = aid" "ap_status a = ''pending''" "at \<noteq> '''' \<Longrightarrow> at' = at"
    "\<not> approvalExpiredAtDecision (ap_expires_at a) at'" by (rule approve_admissible [OF conjunct1 [OF g] conjunct2 [OF g]]) blast
  then show ?pending using assms by blast
next
  assume c: ?consume
  obtain at1 tm w1 a where at1: "at_or_now at w = Inr (at1, w1)" "time_Parse at1 = Inr tm"
    and a: "a \<in> set (approvals w)" "consumable aid (UnixNano tm) a"
    by (rule Consume_Inr [OF c])
  have "at1 = at" using at1(1) assms by (simp add: at_or_now_def)
  then show ?approved using a(2) at1(2)
    by (intro bexI [OF _ a(1)]) (cases "sqliteTimestampNanos (ap_expires_at a)", simp_all add: consumable_def)
qed

theorem approvals_end_at_their_deadline_witness:
  "\<not> approvalExpiredAtDecision (ap_expires_at demo_approval) t0
   \<and> (\<exists>a \<in> set (approvals approved). \<exists>deadline now. sqliteTimestampNanos (ap_expires_at a) = Some deadline \<and> UnixNano now < deadline)"
proof -
  have t0: "t0 \<noteq> ''''" by (simp add: t0_def)
  obtain g w1 where "ApproveApprovalWithEvent ''ap1'' ''token'' None t0 [] waiting = Inr (g, w1)" "at_Changed g"
    by (rule case_InrE [OF approve_runs])
  moreover have "approvals waiting = [demo_approval]" by (simp add: waiting_def demo_def)
  ultimately have "\<not> approvalExpiredAtDecision (ap_expires_at demo_approval) t0"
    using approvals_end_at_their_deadline [OF t0, of "''ap1''" "''token''" None "[]" waiting g w1] by simp
  moreover obtain t x w2 where "ConsumeApprovalWithEvent ''ap1'' t0 approved = Inr ((t, x), w2)" "x = None"
    by (rule case_Inr2E [OF consume_at_runs])
  then have "ConsumeApprovalWithEvent ''ap1'' t0 approved = Inr ((t, None), w2)" by simp
  then have "\<exists>a \<in> set (approvals approved). \<exists>deadline now. sqliteTimestampNanos (ap_expires_at a) = Some deadline \<and> UnixNano now < deadline"
    using approvals_end_at_their_deadline [OF t0, of "''ap1''" _ _ _ approved _ _ t w2] by blast
  ultimately show ?thesis by blast
qed

text \<open>
  C9. A denial that takes effect ends the run that waits for it, and records the approval as
  denied, or as expired when its deadline had passed at the decision.
\<close>

theorem denial_ends_the_run:
  assumes "db_ok w" "DenyApprovalWithEvent aid reason at w = Inr (t, w')" "at_Changed t" "at \<noteq> ''''"
  shows "\<exists>a \<in> set (approvals w). ap_id a = aid \<and> ap_status a = ''pending'' \<and> terminal_run (ap_run_id a) w'
    \<and> decided aid (ap_run_id a) (if approvalExpiredAtDecision (ap_expires_at a) at then ''expired'' else ''denied'') w'"
proof -
  obtain a at' where a: "a \<in> set (approvals w)" "ap_id a = aid" and at': "at' = at"
    and st: "ap_status a = ''pending'' \<or> ap_status a = ''approved'' \<and> de_approvalStatus denial_decision = ''expired''"
    and d: "deciding aid (ap_run_id a)
        (if True \<and> approvalExpiredAtDecision (ap_expires_at a) at' then ''expired'' else de_approvalStatus denial_decision) True w'"
    using terminalizeApproval_ends [OF assms(1) decision_ok_decisions(2) assms(2) [unfolded DenyApprovalWithEvent_def] assms(3)]
      assms(4) by blast
  show ?thesis
    by (rule bexI [OF _ a(1)]) (use a(2) st d at' in \<open>simp add: deciding_def split: if_splits\<close>)
qed

theorem denial_ends_the_run_witness: "\<exists>w'. terminal_run ''p'' w' \<and> decided ''ap1'' ''p'' ''denied'' w'"
proof -
  obtain t w' where run: "DenyApprovalWithEvent ''ap1'' None t0 waiting = Inr (t, w')" "at_Changed t"
    by (rule case_InrE [OF deny_runs])
  have "\<not> approvalExpiredAtDecision t1 t0" "t0 \<noteq> ''''" by code_simp+
  moreover have "approvals waiting = [demo_approval]" by (simp add: waiting_def demo_def)
  ultimately show ?thesis
    using denial_ends_the_run [OF samples_ok(1) run] by (simp add: demo_approval_def) blast
qed

section \<open>The transition core\<close>

text \<open>
  C10. A worker's resume that takes effect was authorized and current: the run waited for approval
  at the version the worker saw, under that worker and attempt, and the approval it names belongs to
  the run and stands as approved or consumed.
\<close>

theorem resume_is_authorized_and_current:
  assumes "ResumeApprovedRun input w = Inr (res, w')" "\<not> tr_Duplicate res"
    and "ri_ApprovalID input \<noteq> ''''" "ri_WorkerID input \<noteq> ''''" "ri_AssignmentAttemptID input \<noteq> ''''"
  shows "(\<exists>r \<in> set (agent_runs w). run_id r = ri_RunID input \<and> run_status r = lifecycleWaitingApproval
      \<and> run_state_version r = ri_ExpectedStateVersion input \<and> run_worker_id r = Some (ri_WorkerID input)
      \<and> run_execution_attempt_id r = Some (ri_AssignmentAttemptID input))
    \<and> (\<exists>a \<in> set (approvals w). ap_id a = ri_ApprovalID input \<and> ap_run_id a = ri_RunID input
      \<and> ap_status a \<in> set [''approved'', ''consumed''])"
proof -
  have run: "applyRunTransitionTx (resumeApprovedTransition input) no_subsidiary w = Inr (res, w')"
    using assms(1) by (simp add: ResumeApprovedRun_def runInTransition_def)
  note t = resumeApprovedTransition_def zero_transition_def no_identity_def
  obtain r where r: "r \<in> set (agent_runs w)" "run_id r = rt_runID (resumeApprovedTransition input)"
    "run_status r \<in> set (rt_allowedFrom (resumeApprovedTransition input))"
    "\<not> rt_transactionLocal (resumeApprovedTransition input) \<Longrightarrow> run_state_version r = rt_expectedVersion (resumeApprovedTransition input)"
    "ti_workerID (rt_identity (resumeApprovedTransition input)) \<noteq> '''' \<Longrightarrow> run_worker_id r = Some (ti_workerID (rt_identity (resumeApprovedTransition input)))"
    "ti_assignmentAttemptID (rt_identity (resumeApprovedTransition input)) \<noteq> '''' \<Longrightarrow>
       run_execution_attempt_id r = Some (ti_assignmentAttemptID (rt_identity (resumeApprovedTransition input)))"
    by (rule transition_compare_and_set [OF run assms(2)]) blast
  have "\<exists>r \<in> set (agent_runs w). run_id r = ri_RunID input \<and> run_status r = lifecycleWaitingApproval
      \<and> run_state_version r = ri_ExpectedStateVersion input \<and> run_worker_id r = Some (ri_WorkerID input)
      \<and> run_execution_attempt_id r = Some (ri_AssignmentAttemptID input)"
    using r(2-6) assms(4,5) by (intro bexI [OF _ r(1)]) (simp add: t)
  moreover have "\<exists>a \<in> set (approvals w). ap_id a = ri_ApprovalID input \<and> ap_run_id a = ri_RunID input
      \<and> ap_status a \<in> set [''approved'', ''consumed'']"
    using transition_authorized [OF run assms(2)] assms(3) by (simp add: t approvalAuthorizesResume_def)
  ultimately show ?thesis by blast
qed

theorem resume_is_authorized_and_current_witness:
  "\<exists>a \<in> set (approvals approved). ap_id a = ''ap1'' \<and> ap_status a \<in> set [''approved'', ''consumed'']"
proof -
  obtain res w' where run: "ResumeApprovedRun demo_resume approved = Inr (res, w')" "\<not> tr_Duplicate res"
    by (rule case_InrE [OF resume_runs])
  show ?thesis using resume_is_authorized_and_current [OF run] by (auto simp: demo_resume_def)
qed

text \<open>
  C11. The recursion of a transition into the tasks it stops is well founded on every well-formed
  store: the function satisfies the unbounded recursion equation of the code, so the depth the model
  unfolds is never the reason for a result.
\<close>

theorem transition_recursion_is_exact:
  assumes "db_ok w" "transition_ok t" "\<And>st at. tx_within (under lineage) (subsidiary st at)"
  shows "applyRunTransitionTx t subsidiary w = applyWith applyRunTransitionTx t subsidiary w"
  using apply_fuel_enough [OF assms order_refl] by (simp only: applyRunTransitionTx_def)

theorem transition_recursion_is_exact_witness:
  "\<forall>content. applyRunTransitionTx (cancelTransition demo_cancel 3 content) (cancelSubsidiary demo_cancel) waiting
   = applyWith applyRunTransitionTx (cancelTransition demo_cancel 3 content) (cancelSubsidiary demo_cancel) waiting"
  by (intro allI transition_recursion_is_exact samples_ok(1) transition_ok_constructors(1) lines.within_cancelSubsidiary)

section \<open>Explicit cancellation\<close>

text \<open>
  C12. A cancellation request is idempotent in its key: repeating the call that first used the key
  changes nothing, adds no event, and returns the recorded acceptance and run state.
\<close>

theorem cancellation_is_idempotent:
  assumes "CancelUserRun sid rid key w = Inr (res, w')" "find_receipt key w = None"
    and "CancelUserRun sid rid key w' = Inr (again, w'')"
  shows "w'' = w' \<and> cn_State again = cn_State res \<and> cu_Accepted again = cu_Accepted res \<and> cu_Events again = []"
  using CancelUserRun_replay [OF assms(3) CancelUserRun_first [OF assms(1,2)]] by simp

theorem cancellation_is_idempotent_witness:
  "\<exists>res again w'. CancelUserRun ''s'' ''p'' ''key'' waiting = Inr (res, w') \<and> CancelUserRun ''s'' ''p'' ''key'' w' = Inr (again, w')
     \<and> cn_State again = cn_State res"
proof -
  obtain res w' where first: "CancelUserRun ''s'' ''p'' ''key'' waiting = Inr (res, w')"
    and "cu_Accepted res \<and> (case CancelUserRun ''s'' ''p'' ''key'' w' of Inl e \<Rightarrow> False | Inr (res2, w'') \<Rightarrow> True)"
    by (rule case_InrE [OF user_cancel_runs])
  then obtain again w'' where again: "CancelUserRun ''s'' ''p'' ''key'' w' = Inr (again, w'')"
    using case_InrE by blast
  have "find_receipt ''key'' waiting = None" by code_simp
  from cancellation_is_idempotent [OF first this again] show ?thesis using first again by blast
qed

section \<open>Retry and recovery\<close>

text \<open>
  C13. A retryable failure is either granted another attempt, with the run back in the queue, its
  one job released with the attempt count raised and still under the budget and every other job
  untouched; or it ends the run.
\<close>

theorem retry_requeues_or_ends:
  assumes "db_ok w" "one_job_in_progress (ry_RunID input) w" "RequeueOrFailRetryableRun input w = Inr (d, w')"
  shows "if rd_Requeued d then retry_granted input w w' else terminal_run (ry_RunID input) w'"
  by (rule retry_outcome [OF assms])

theorem retry_requeues_or_ends_witness: "\<exists>w'. run_in ''p'' lifecycleQueued w'"
proof -
  obtain d w' where run: "RequeueOrFailRetryableRun demo_retry running = Inr (d, w')" "rd_Requeued d"
    by (rule case_InrE [OF retry_runs])
  have "one_job_in_progress (ry_RunID demo_retry) running" by code_simp
  from retry_requeues_or_ends [OF samples_ok(2) this run(1)] run(2)
  show ?thesis by (auto simp: retry_granted_def demo_retry_def)
qed

text \<open>
  C14. Recovering an assignment settles its run: unless the report is stale or a committed stop
  still waits for its worker, the run is back in the queue or over, never left executing.
\<close>

theorem recovery_settles_the_run:
  assumes "db_ok w" "RecoverAssignmentWithLimit a m w = Inr (rec, w')" "\<not> ac_Fenced rec" "\<not> ac_AwaitingExit rec"
  shows "run_in (as_RunID a) lifecycleQueued w' \<or> terminal_run (as_RunID a) w'"
  using recovery_settles [OF assms] by (simp add: settled_def)

theorem recovery_settles_the_run_witness: "\<exists>w'. run_in ''p'' lifecycleQueued w' \<or> terminal_run ''p'' w'"
proof -
  obtain rec w' where run: "RecoverAssignmentWithLimit demo_assignment 3 running = Inr (rec, w')"
    and v: "\<not> ac_Fenced rec \<and> \<not> ac_AwaitingExit rec \<and> ac_Requeued rec" by (rule case_InrE [OF recover_runs])
  show ?thesis
    using recovery_settles_the_run [OF samples_ok(2) run] v unfolding demo_assignment_def by auto
qed





section \<open>Routing and dispatch\<close>

text \<open>
  C17. The SQL filter of a claim and the Go predicate agree: a queued job's row passes the filter
  built from a registered worker exactly if that worker supports the route its payload asks for.
\<close>

theorem claim_filter_agrees_with_routing:
  assumes "registered_ok caps" "decode_payload payload = Some p" "plain_payload payload" "agentID \<in> set (rw_agentIDs caps)"
  shows "claimRoutingFilterSQL (Some (repositoryRoutingCapabilities (Some caps))) provider model payload \<longleftrightarrow>
    workerCapabilitiesSupportRoute (Some caps) (payload_requirements agentID provider model p)"
  by (rule routing_agrees [OF assms])

theorem claim_filter_agrees_with_routing_witness:
  "\<exists>p. decode_payload demo_payload = Some p
     \<and> (claimRoutingFilterSQL (Some (repositoryRoutingCapabilities (Some demo_worker))) ''ollama'' ''m'' demo_payload \<longleftrightarrow>
        workerCapabilitiesSupportRoute (Some demo_worker) (payload_requirements ''turing'' ''ollama'' ''m'' p))"
proof -
  have p: "case decode_payload demo_payload of None \<Rightarrow> False | Some p \<Rightarrow> True" by code_simp
  obtain p where p: "decode_payload demo_payload = Some p" using p by (auto split: option.splits)
  have "registered_ok demo_worker" "plain_payload demo_payload" "''turing'' \<in> set (rw_agentIDs demo_worker)" by code_simp+
  from claim_filter_agrees_with_routing [OF this(1) p this(2,3)] p show ?thesis by blast
qed

text \<open>
  C18. A successful claim takes a claimable job, holds it and its run for the worker under a fresh
  attempt, and keeps the number of active executions within the limit.
\<close>

theorem claim_takes_a_claimable_job:
  assumes "db_ok w" "ClaimNextCompatibleJobWithLimit agentID owner limit d caps accepts w = Inr (Some claimed, w')"
  shows "(\<exists>j \<in> set (jobs w). \<exists>r \<in> set (agent_runs w). claimable agentID caps w (j, r)
        \<and> jb_JobID claimed = job_id j \<and> jb_RunID claimed = run_id r)
     \<and> run_held_by (jb_RunID claimed) (jb_JobID claimed) owner (jb_AssignmentAttemptID claimed) w'
     \<and> (limit \<le> 0 \<or> active_executions agentID w' \<le> limit)"
  using ClaimNext_outcome [OF assms] by (auto simp: claim_outcome_def)

theorem claim_takes_a_claimable_job_witness: "\<exists>w'. active_executions ''turing'' w' \<le> 2"
proof -
  obtain c w' where run: "ClaimNextCompatibleJobWithLimit ''turing'' ''w2'' 2 0 None None running = Inr (c, w')" "c \<noteq> None"
    by (rule case_InrE [OF claim_runs])
  then obtain claimed where "ClaimNextCompatibleJobWithLimit ''turing'' ''w2'' 2 0 None None running = Inr (Some claimed, w')"
    by (cases c) simp_all
  from claim_takes_a_claimable_job [OF samples_ok(2) this] show ?thesis by auto
qed


section \<open>Tool calls\<close>

text \<open>
  C20. A tool call is recorded as completed only if it was allowed outright or the approval it is
  linked to has been consumed, also when a late report corrects a call that failed with its run.
\<close>

theorem tool_completion_needs_consumption:
  assumes "db_ok w" "RecordToolCallAfterWithEvent record ty payload w = Inr ((True, ev), w')"
    and "c \<in> set (tool_calls w)" "tc_id c = tca_ToolCallID record"
    and "tca_Status (default_completed record) = ''completed''" "tc_status c \<noteq> ''allowed''"
  shows "\<exists>a \<in> set (approvals w). Some (ap_id a) = tc_approval_id c \<and> ap_status a = ''consumed''"
  by (rule report_completes_under_consumption [OF assms])

theorem tool_completion_needs_consumption_witness:
  "\<exists>a \<in> set (approvals consumed). ap_id a = ''ap1'' \<and> ap_status a = ''consumed''"
proof -
  obtain changed ev w' where run: "RecordToolCallAfterWithEvent demo_report ''tool.call.completed'' None consumed = Inr ((changed, ev), w')"
    "changed" by (rule case_Inr2E [OF report_runs])
  have c: "demo_tool_call \<in> set (tool_calls consumed)" by (simp add: consumed_def waiting_def demo_def)
  have d: "tc_id demo_tool_call = tca_ToolCallID demo_report" "tca_Status (default_completed demo_report) = ''completed''"
    "tc_status demo_tool_call \<noteq> ''allowed''" "tc_approval_id demo_tool_call = Some ''ap1''" by code_simp+
  have "RecordToolCallAfterWithEvent demo_report ''tool.call.completed'' None consumed = Inr ((True, ev), w')" using run by simp
  from tool_completion_needs_consumption [OF samples_ok(7) this c d(1-3)] show ?thesis by (simp add: d(4))
qed

section \<open>Accepting a turn\<close>

text \<open>
  C21. A send is accepted once: repeating the request under its key, at any later time while the
  record of it is kept and the conversation is open, writes nothing and answers with the run, the
  job and the messages of the first time.
\<close>

theorem send_is_idempotent:
  assumes first: "EnqueueUserMessage skills pins input w = Inr (res, w')" and key: "ei_IdempotencyKey input \<noteq> ''''"
    and kept: "set (send_message_idempotency w') \<subseteq> set (send_message_idempotency w2)"
      "distinct (map si_idempotency_key (send_message_idempotency w2))"
    and chat: "requireChatSessionTx (ei_SessionID input) w2 = Inr ((), w2)"
  shows "\<exists>res2. EnqueueUserMessage skills2 pins2 input w2 = Inr (res2, w2) \<and> eu_Replayed res2 \<and> eu_RunID res2 = eu_RunID res
    \<and> eu_JobID res2 = eu_JobID res \<and> eu_UserMessageID res2 = eu_UserMessageID res
    \<and> eu_AssistantMessageID res2 = eu_AssistantMessageID res \<and> eu_TraceID res2 = eu_TraceID res"
proof -
  obtain rec where rec: "rec \<in> set (send_message_idempotency w')" "si_idempotency_key rec = ei_IdempotencyKey input"
    "si_RequestFingerprint rec = EnqueueRequestFingerprint input" "si_RunID rec = eu_RunID res" "si_JobID rec = eu_JobID res"
    "si_UserMessageID rec = eu_UserMessageID res" "si_AssistantMessageID rec = eu_AssistantMessageID res" "si_TraceID rec = eu_TraceID res"
    by (rule EnqueueUserMessage_recorded [OF first key])
  have "findSendMessageIdempotencyTx (ei_IdempotencyKey input) w2 = Inr (Some rec, w2)"
    using find_recorded [of rec w2] rec(1,2) kept by auto
  then show ?thesis using EnqueueUserMessage_known [OF chat key, of rec skills2 pins2] rec by (simp add: record_result_def)
qed

theorem send_is_idempotent_witness:
  "\<exists>w res2. EnqueueUserMessage (Inr []) None demo_send w = Inr (res2, w) \<and> eu_Replayed res2"
proof -
  obtain res w' where a: "EnqueueUserMessage (Inr []) None demo_send running = Inr (res, w')"
    "\<not> eu_Replayed res \<and> length (send_message_idempotency w') = 1
       \<and> (case requireChatSessionTx ''s'' w' of Inl _ \<Rightarrow> False | Inr _ \<Rightarrow> True)"
    by (rule case_InrE [OF send_runs])
  have "distinct (map si_idempotency_key (send_message_idempotency w'))"
    using a(2) by (auto simp: length_Suc_conv)
  moreover have "requireChatSessionTx (ei_SessionID demo_send) w' = Inr ((), w')"
    using a(2) tx_withinD [OF dry_requireChatSessionTx, of "''s''" w'] by (auto simp: demo_send_def split: sum.splits)
  ultimately show ?thesis
    using send_is_idempotent [OF a(1), of w' "Inr []" None] by (auto simp: demo_send_def)
qed

text \<open>
  C22. A turn that goes to a remote model was consented to: the store holds a decision for exactly
  this run, naming its provider and model, under a challenge that no earlier decision has used.
\<close>

theorem remote_turn_has_consent:
  assumes "EnqueueUserMessage skills pins input w = Inr (res, w')" "\<not> eu_Replayed res"
    and "r \<in> set (agent_runs w')" "run_id r = eu_RunID res" "run_model_provider r = ''openai_compatible''"
  shows "\<exists>d \<in> set (run_egress_decisions w'). ed_RunID d = run_id r \<and> ed_Provider d = run_model_provider r
    \<and> ed_Model d = run_model_name r \<and> ed_ChallengeNonce d \<notin> set (map ed_ChallengeNonce (run_egress_decisions w))"
  using assms(1)
proof (cases rule: EnqueueUserMessage_cases)
  case (replayed rec)
  then show ?thesis using assms(2) by (simp add: record_result_def)
next
  case (queued w1)
  have "agent_runs w' = agent_runs w1 \<and> run_egress_decisions w' = run_egress_decisions w1"
    using queued(2) by (auto simp: insert_idempotency_def tx_simps split: if_splits)
  then show ?thesis using remote_consent [OF queued(1)] assms(3-5) by simp
qed

theorem remote_turn_has_consent_witness: "\<exists>w' :: world. \<exists>d \<in> set (run_egress_decisions w'). ed_Provider d = ''openai_compatible''"
proof -
  obtain res w' where a: "EnqueueUserMessage (Inr []) None demo_remote online = Inr (res, w')"
    "\<not> eu_Replayed res \<and> list_ex (\<lambda>r. run_id r = eu_RunID res \<and> run_model_provider r = ''openai_compatible'') (agent_runs w')"
    by (rule case_InrE [OF remote_send_runs])
  then obtain r where "r \<in> set (agent_runs w')" "run_id r = eu_RunID res" "run_model_provider r = ''openai_compatible''"
    by (auto simp: list_ex_iff)
  then obtain d where "d \<in> set (run_egress_decisions w')" "ed_Provider d = ''openai_compatible''"
    using remote_turn_has_consent [OF a(1), of r] a(2) by auto
  then show ?thesis by blast
qed

section \<open>Delegated tasks\<close>

text \<open>
  C23. Delegating starts exactly one task: one delegation, one queued run in a session of its own and
  one pending job for it. It is admitted only for the running owner's current execution, for a
  profile the user has enabled and granted at this revision, and within the cap per run.
\<close>

theorem delegation_starts_one_task:
  assumes "CreateDelegation skills input w = Inr (res, w')" "\<not> cr_Replayed res"
  shows "(\<exists>d r j. delegations w' = delegations w @ [d] \<and> agent_runs w' = agent_runs w @ [r] \<and> jobs w' = jobs w @ [j]
      \<and> task_started input d r j)
    \<and> (\<exists>p \<in> set (agent_runs w). run_id p = cd_ParentRunID input \<and> run_status p = ''running'' \<and> run_execution_active p
      \<and> run_execution_attempt_id p = Some (cd_AssignmentAttemptID input))
    \<and> (\<exists>s \<in> set (agent_profile_settings w). ps_profile_id s = ag_ProfileID (cd_Profile input) \<and> ps_enabled s
      \<and> ps_granted_revision s = Some (ag_Revision (cd_Profile input)))
    \<and> int (length (filter (\<lambda>d. dg_parent_run_id d = cd_ParentRunID input) (delegations w'))) \<le> cd_MaxPerRun input"
proof -
  obtain d r j where d: "delegations w' = delegations w @ [d]" "agent_runs w' = agent_runs w @ [r]" "jobs w' = jobs w @ [j]"
    "task_started input d r j" and ok: "admit_delegation input w = Inr ((), w)"
    by (rule CreateDelegation_started [OF assms])
  have "int (length (filter (\<lambda>d. dg_parent_run_id d = cd_ParentRunID input) (delegations w'))) \<le> cd_MaxPerRun input"
    using admit_delegation_Inr(1) [OF ok] d(1,4) by (simp add: task_started_def)
  then show ?thesis using d CreateDelegation_owner [OF assms(1)] admit_delegation_Inr(2) [OF ok] by blast
qed

theorem delegation_starts_one_task_witness: "\<exists>(w' :: world) d. delegations w' = delegations team @ [d]"
proof -
  obtain res w' where a: "CreateDelegation (Inr []) demo_task team = Inr (res, w')" "\<not> cr_Replayed res"
    by (rule case_InrE [OF delegation_runs])
  show ?thesis using delegation_starts_one_task [OF a] by blast
qed



text \<open>
  C25. Granting consent binds the task to the decision: the delegation waited for consent, one
  decision for its local run and model is stored, every pending job of the task carries that
  decision in its payload, and the wait is over.
\<close>

theorem granted_task_carries_its_decision:
  assumes "GrantDelegationEgress did pending w = Inr (res, w')"
  shows "\<exists>d \<in> set (delegations w). \<exists>r \<in> set (agent_runs w). \<exists>stored. dg_id d = did \<and> dg_egress_consent d = egressConsentPending
    \<and> run_id r = dg_child_run_id d \<and> run_egress_decisions w' = run_egress_decisions w @ [stored]
    \<and> ed_RunID stored = run_id r \<and> ed_Provider stored = LocalProvider \<and> ed_Model stored = run_model_name r
    \<and> (\<forall>j \<in> set (jobs w'). job_run_id j = run_id r \<and> job_status j = ''pending'' \<longrightarrow>
         (\<exists>ms. job_payload j = JObj ms \<and> map_of ms ''egressDecision'' = Some (decision_json stored)))
    \<and> (\<forall>x \<in> set (delegations w'). dg_id x = did \<longrightarrow> dg_egress_consent x = egressConsentGranted)"
proof -
  obtain d r stored where g: "d \<in> set (delegations w)" "dg_id d = did" "dg_egress_consent d = egressConsentPending"
    "r \<in> set (agent_runs w)" "run_id r = dg_child_run_id d" "run_egress_decisions w' = run_egress_decisions w @ [stored]"
    "ed_RunID stored = dg_child_run_id d" "ed_Provider stored = LocalProvider" "ed_Model stored = run_model_name r"
    "\<forall>j \<in> set (jobs w'). job_run_id j = dg_child_run_id d \<and> job_status j = ''pending'' \<longrightarrow>
       (\<exists>ms. job_payload j = JObj ms \<and> map_of ms ''egressDecision'' = Some (decision_json stored))"
    "\<forall>x \<in> set (delegations w'). dg_id x = did \<longrightarrow> dg_egress_consent x = egressConsentGranted"
    by (rule granted_task [OF assms])
  show ?thesis by (rule bexI [OF _ g(1)], rule bexI [OF _ g(4)], rule exI [of _ stored]) (use g in simp)
qed

theorem granted_task_carries_its_decision_witness:
  "\<exists>(w' :: world) stored. run_egress_decisions w' = [stored] \<and> ed_RunID stored = ''c''
    \<and> (\<forall>x \<in> set (delegations w'). dg_id x = ''d1'' \<longrightarrow> dg_egress_consent x = egressConsentGranted)"
proof -
  obtain res w' where "GrantDelegationEgress ''d1'' (Some demo_grant) consenting = Inr (res, w')"
    by (rule case_InrE [OF grant_runs])
  from granted_task_carries_its_decision [OF this] obtain d r stored where d: "d \<in> set (delegations consenting)" "r \<in> set (agent_runs consenting)"
    and g: "run_id r = dg_child_run_id d" "run_egress_decisions w' = run_egress_decisions consenting @ [stored]" "ed_RunID stored = run_id r"
    and over: "\<forall>x \<in> set (delegations w'). dg_id x = ''d1'' \<longrightarrow> dg_egress_consent x = egressConsentGranted" by blast
  have "dg_child_run_id d = ''c''" "run_egress_decisions consenting = []"
    using d(1) by (simp_all add: consenting_def running_def demo_def demo_delegation_def)
  then have "run_egress_decisions w' = [stored]" "ed_RunID stored = ''c''" using g by simp_all
  then show ?thesis using over by blast
qed

section \<open>Conversations\<close>

text \<open>
  C26. Listing conversations page by page misses and repeats none: a full first page followed by the
  page after its last row is the most recently active conversations, in order, twice the page long.
\<close>

theorem session_pages_continue:
  assumes "distinct (map sess_id (sessions w))" "ls_After input = None"
    and "ListSessionsPage input w = Inr (page, w1)" "int (length page) = ls_Limit input"
    and "ListSessionsPage (input\<lparr>ls_After := Some \<lparr>scu_UpdatedAt = sess_updated_at (last page), scu_SessionID = sess_id (last page)\<rparr>\<rparr>) w = Inr (page2, w2)"
  shows "page @ page2 = take (nat (2 * ls_Limit input)) (rev (sort_key session_key (filter (listed (ls_Filter input)) (sessions w))))"
  using assms by (rule two_pages)

theorem session_pages_continue_witness:
  "\<exists>page2. [demo_session ''b'' ''chat''] @ page2 = [demo_session ''b'' ''chat'', demo_session ''a'' ''chat'']"
proof -
  let ?i = "\<lparr>ls_Filter = ''active'', ls_After = None, ls_Limit = 1\<rparr>"
  obtain page w1 where p: "ListSessionsPage ?i two_chats = Inr (page, w1)" "page = [demo_session ''b'' ''chat'']"
    by (rule case_InrE [OF first_page_runs])
  obtain page2 w2 where q: "ListSessionsPage (?i\<lparr>ls_After := Some \<lparr>scu_UpdatedAt = t0, scu_SessionID = ''b''\<rparr>\<rparr>) two_chats = Inr (page2, w2)"
    "page2 = [demo_session ''a'' ''chat'']" by (rule case_InrE [OF second_page_runs])
  have "distinct (map sess_id (sessions two_chats))" "sess_updated_at (demo_session ''b'' ''chat'') = t0" "sess_id (demo_session ''b'' ''chat'') = ''b''"
    by (simp_all add: demo_session_def two_chats_def)
  then show ?thesis using session_pages_continue [OF _ _ p(1), of page2 w2] p(2) q chats_in_order by auto
qed

text \<open>
  C27. Withdrawing a conversation takes it out of use at once: every run of it that was still going
  has ended, and the conversation accepts no message and no other statement that needs it, under any
  request.
\<close>

theorem deletion_ends_the_work:
  assumes "db_ok w" "BeginSessionDeletion sid w = Inr (rc, w')" "\<forall>d \<in> set (session_deletions w). sd_session_id d \<noteq> sid"
  shows "sdr_State rc = ''quiescing''
    \<and> (\<forall>r \<in> set (agent_runs w). run_session_id r = sid \<and> run_status r \<in> set live_statuses \<longrightarrow> terminal_run (run_id r) w')
    \<and> requireActiveSessionTx sid w' = Inl ErrSessionDeleting
    \<and> (\<forall>skills pins input. ei_SessionID input = sid \<longrightarrow> EnqueueUserMessage skills pins input w' = Inl ErrSessionDeleting)"
proof -
  note s = start_deletion_withdraws [OF assms(1) begin_starts [OF assms(2,3)]]
  show ?thesis using s(2,3) withdrawn_refused(1) [OF s(1)] withdrawn_refuses_sends s(1) by blast
qed

theorem deletion_ends_the_work_witness:
  "\<exists>w'. terminal_run ''p'' w' \<and> EnqueueUserMessage (Inr []) None demo_send w' = Inl ErrSessionDeleting"
proof -
  obtain rc w' where run: "BeginSessionDeletion ''s'' running = Inr (rc, w')" by (rule case_InrE [OF begin_deletion_runs])
  let ?r = "demo_run ''p'' ''s'' ''running''"
  have r: "?r \<in> set (agent_runs running)" "\<forall>d \<in> set (session_deletions running). sd_session_id d \<noteq> ''s''"
    by (simp_all add: running_def demo_def)
  note d = deletion_ends_the_work [OF samples_ok(2) run r(2)]
  have "run_session_id ?r = ''s'' \<and> run_status ?r \<in> set live_statuses" "run_id ?r = ''p''"
    by (simp_all add: demo_run_def live_statuses_def)
  then have "terminal_run ''p'' w'" using d r(1) by metis
  moreover have "ei_SessionID demo_send = ''s''" by (simp add: demo_send_def)
  ultimately show ?thesis using d by blast
qed



section \<open>Automations\<close>

text \<open>
  C29. The next due time of a valid schedule is its next occurrence: the first instant of the
  schedule that lies after now, so missed occurrences are skipped and none is doubled; and it is at
  most the longest interval away.
\<close>

theorem next_due_is_next_occurrence:
  assumes "Schedule_Validate s = Inr ()" "due \<le> now" "sc_Kind s = ScheduleInterval \<Longrightarrow> now - due + sc_Interval s \<le> MaxInt64"
  shows "\<exists>t. NextDueAfterFiring s due now = Inr t \<and> next_occurrence s due now t \<and> t \<le> now + MaxAutomationInterval"
  using assms by (rule NextDueAfterFiring_next)

theorem next_due_is_next_occurrence_witness:
  "\<exists>t. NextDueAfterFiring \<lparr>sc_Kind = ScheduleInterval, sc_Interval = 3600000000000, sc_DailyMinuteUTC = 0\<rparr> demo_now (demo_now + 1) = Inr t \<and> demo_now + 1 < t"
proof -
  let ?s = "\<lparr>sc_Kind = ScheduleInterval, sc_Interval = 3600000000000, sc_DailyMinuteUTC = 0\<rparr>"
  have "Schedule_Validate ?s = Inr ()" by code_simp
  from next_due_is_next_occurrence [OF this, of demo_now "demo_now + 1"] show ?thesis
    by (auto simp: MaxInt64_def next_occurrence_def)
qed

text \<open>
  C30. A due automation is claimed once: after a claim, the automation that was due is no longer due
  at that instant, and every other automation is as it was.
\<close>

theorem automation_is_claimed_once:
  assumes "schedules_ok w" "clock_era at" "ClaimDueAutomation skills pins at defaults w = Inr (Some f, w')"
  shows "(\<exists>a \<in> set (automations w). ar_id a = af_AutomationID f \<and> is_due at a)
    \<and> (\<forall>x \<in> set (automations w'). ar_id x = af_AutomationID f \<longrightarrow> \<not> is_due at x)
    \<and> filter (\<lambda>x. ar_id x \<noteq> af_AutomationID f) (automations w') = filter (\<lambda>x. ar_id x \<noteq> af_AutomationID f) (automations w)"
proof -
  obtain a where a: "a \<in> set (automations w)" "is_due at a" "claim_row skills pins at defaults a w = Inr (Some f, w')"
    by (rule ClaimDueAutomation_Some [OF assms(3)])
  then show ?thesis using claim_row_id [OF a(3)] claim_settles [OF assms(3,1,2)] by (intro conjI bexI [of _ a]) auto
qed

theorem automation_is_claimed_once_witness:
  "\<exists>w' :: world. (\<forall>x \<in> set (automations w'). ar_id x = ''au1'' \<longrightarrow> \<not> is_due demo_now x)"
proof -
  obtain f w' where run: "ClaimDueAutomation (Inr []) None demo_now demo_defaults automated = Inr (Some f, w')" "af_AutomationID f = ''au1''"
    by (rule claimed_sample)
  have e: "clock_era demo_now" by code_simp
  then have "schedules_ok automated" by (auto simp: schedules_ok_def automated_def demo_automation_def)
  from automation_is_claimed_once [OF this e run(1)] show ?thesis unfolding run(2) by blast
qed

text \<open>
  C31. An unattended run is contained. A claim that fires adds exactly one run, queued, and only
  when the previous one has ended; the run stays on a local model; and what it may do is the
  allowlist at the moment it fired: whatever edits of automations follow, its grant stays that.
\<close>

theorem unattended_run_is_contained:
  assumes "ClaimDueAutomation skills pins at defaults w = Inr (Some f, w1)" "\<not> af_Skipped f" "\<not> af_Failed f" "automation_edit\<^sup>*\<^sup>* w1 w2"
  shows "\<exists>a \<in> set (automations w). \<exists>r tools. ar_id a = af_AutomationID f \<and> agent_runs w1 = agent_runs w @ [r]
    \<and> run_id r = af_RunID f \<and> run_status r = lifecycleQueued \<and> run_model_provider r \<noteq> ''openai_compatible''
    \<and> (\<forall>st. last_run_status a w = Some st \<longrightarrow> isTerminalRunStatus st)
    \<and> allowedToolsTx (ar_id a) w = Inr (tools, w)
    \<and> GetAutomationRunGrant (af_RunID f) w2 = Inr (Some \<lparr>ag_AutomationID = ar_id a, ag_AutomationName = ar_name a, ag_AllowedTools = tools\<rparr>, w2)"
proof -
  obtain a where a: "a \<in> set (automations w)" and c: "claim_row skills pins at defaults a w = Inr (Some f, w1)"
    by (rule ClaimDueAutomation_Some [OF assms(1)])
  obtain r tools where r: "agent_runs w1 = agent_runs w @ [r]" "run_id r = af_RunID f" "run_status r = lifecycleQueued"
    "run_model_provider r \<noteq> ''openai_compatible''" "allowedToolsTx (ar_id a) w = Inr (tools, w)"
    and g: "granted (af_RunID f) \<lparr>ag_AutomationID = ar_id a, ag_AutomationName = ar_name a, ag_AllowedTools = tools\<rparr> w1"
    and last: "\<forall>st. last_run_status a w = Some st \<longrightarrow> isTerminalRunStatus st"
    by (rule fired_automation [OF c assms(2,3)])
  show ?thesis using a r last claim_row_id [OF c] granted_edits [OF assms(4) g] unfolding granted_def by metis
qed

theorem unattended_run_is_contained_witness: "\<exists>(w1 :: world) r. agent_runs w1 = agent_runs automated @ [r] \<and> run_status r = lifecycleQueued"
proof -
  obtain f w' where "ClaimDueAutomation (Inr []) None demo_now demo_defaults automated = Inr (Some f, w')" "\<not> af_Skipped f" "\<not> af_Failed f"
    by (rule claimed_sample)
  from unattended_run_is_contained [OF this rtranclp.rtrancl_refl] show ?thesis by blast
qed

text \<open>
  C32. An automation has a next due time exactly while it is enabled, as the schema documents,
  through any sequence of edits and claims: none looks armed without ever firing, and none fires
  while it is switched off.
\<close>

theorem automations_stay_armed:
  assumes "armed_ok w" "automation_step\<^sup>*\<^sup>* w w'" "a \<in> set (automations w')"
  shows "ar_enabled a \<longleftrightarrow> ar_next_due_at a \<noteq> None"
  using armed_ok_rowD [OF armed_steps [OF assms(2,1)] assms(3)] .

theorem automations_stay_armed_witness: "\<exists>w'. automation_step automated w' \<and> (\<forall>a \<in> set (automations w'). ar_enabled a \<longleftrightarrow> ar_next_due_at a \<noteq> None)"
proof -
  obtain f w' where "ClaimDueAutomation (Inr []) None demo_now demo_defaults automated = Inr (Some f, w')" by (rule claimed_sample)
  then have s: "automation_step automated w'" by (rule automation_step.claim)
  have "armed_ok automated" by code_simp
  from automations_stay_armed [OF this r_into_rtranclp [of automation_step, OF s]] show ?thesis using s by blast
qed

text \<open>
  C33. A saved automation reads back as it was entered: the name and the prompt trimmed, the schedule
  to the whole second, and the allowlist without duplicates, in order, and free of the servers that
  unattended runs may not use.
\<close>

theorem saved_automation_reads_back:
  assumes "CreateAutomation input w = Inr (am, w')"
  shows "GetAutomation (am_AutomationID am) w' = Inr (am, w') \<and> am_Name am = TrimSpace (ai_Name input)
    \<and> am_Prompt am = TrimSpace (ai_Prompt input) \<and> am_Schedule am = whole_seconds (ai_Schedule input)
    \<and> am_Enabled am = ai_Enabled input \<and> allowlist_ok (am_AllowedTools am)
    \<and> set (am_AllowedTools am) = {c. \<exists>t \<in> set (ai_AllowedTools input). clean_tool t = Inr c}"
proof -
  obtain ts where "GetAutomation (am_AutomationID am) w' = Inr (am, w')" "am_Name am = TrimSpace (ai_Name input)"
    "am_Prompt am = TrimSpace (ai_Prompt input)" "am_Schedule am = whole_seconds (ai_Schedule input)" "am_Enabled am = ai_Enabled input"
    and ts: "normalizeAllowedTools (ai_AllowedTools input) = Inr ts" "am_AllowedTools am = ts"
    by (rule created_automation [OF assms])
  then show ?thesis using normalizeAllowedTools_ok [OF ts(1)] by simp
qed

theorem saved_automation_reads_back_witness: "\<exists>(w' :: world) am. GetAutomation (am_AutomationID am) w' = Inr (am, w') \<and> am_Enabled am"
proof -
  obtain am w' where "CreateAutomation demo_allowlist running = Inr (am, w')" by (rule case_InrE [OF create_automation_runs])
  moreover have "ai_Enabled demo_allowlist" by (simp add: demo_allowlist_def)
  ultimately show ?thesis using saved_automation_reads_back [of demo_allowlist running am w'] by blast
qed

section \<open>External agents\<close>

text \<open>
  C34. Whatever edits of external agents and of the routes to them are made, every agent in the store
  has a name, a model, a known vendor and a credential name, and an endpoint that is the canonical
  form of a plain HTTPS origin, or of HTTP on this machine; and every route leads to such an agent.
\<close>

theorem stored_agents_are_secure:
  assumes "agents_ok w" "agent_edit\<^sup>*\<^sup>* w w'"
  shows "(\<forall>a \<in> set (external_agents w'). xa_DisplayName a \<noteq> '''' \<and> xa_Model a \<noteq> '''' \<and> xa_Provider a \<in> set externalAgentProviders
      \<and> xa_CredentialRef a \<noteq> ''''
      \<and> (\<exists>raw e u. ParseKeyedEndpoint (net_lib w') raw = Inr e \<and> xa_BaseURL a = ep_Canonical e \<and> url_Parse (net_lib w') raw = Some u
           \<and> \<not> url_User u \<and> (strings_ToLower (net_lib w') (url_Scheme u) = ''https''
              \<or> strings_ToLower (net_lib w') (url_Scheme u) = ''http''
                \<and> this_machine (net_lib w') (strings_ToLower (net_lib w') (Hostname u)))))
    \<and> (\<forall>r \<in> set (session_external_agents w'). \<exists>a \<in> set (external_agents w'). xa_AgentID a = sx_agent_id r)"
proof -
  have ok: "agents_ok w'" by (rule agents_ok_edits [OF assms(2,1)])
  have "\<exists>u. url_Parse lib raw = Some u \<and> \<not> url_User u \<and> (strings_ToLower lib (url_Scheme u) = ''https''
      \<or> strings_ToLower lib (url_Scheme u) = ''http'' \<and> this_machine lib (strings_ToLower lib (Hostname u)))"
    if "ParseKeyedEndpoint lib raw = Inr e" for lib raw e
    using parseEndpoint_url that by (fastforce simp: ParseKeyedEndpoint_def plain_url_def)
  note endpoint = this
  have "\<exists>a \<in> set (external_agents w'). xa_AgentID a = sx_agent_id r" if "r \<in> set (session_external_agents w')" for r
  proof -
    have "sx_agent_id r \<in> set (map xa_AgentID (external_agents w'))" using ok that by (auto simp: agents_ok_def)
    then show ?thesis by auto
  qed
  moreover have "agent_ok (net_lib w') a" if "a \<in> set (external_agents w')" for a using ok that by (auto simp: agents_ok_def list_all_iff)
  ultimately show ?thesis using endpoint unfolding agent_ok_def by meson
qed

theorem stored_agents_are_secure_witness: "\<exists>w' a. agent_edit online w' \<and> a \<in> set (external_agents w') \<and> xa_CredentialRef a \<noteq> ''''"
proof -
  obtain a w' where run: "CreateExternalAgent demo_agent online = Inr (a, w')" by (rule case_InrE [OF create_agent_runs])
  then have e: "agent_edit online w'" by (rule agent_edit.create)
  have "agents_ok online" by (simp add: agents_ok_def online_def running_def demo_def)
  note s = stored_agents_are_secure [OF this r_into_rtranclp [of agent_edit, OF e]]
  have "a \<in> set (external_agents w')" using run by (rule CreateExternalAgent_Inr) simp
  then show ?thesis using s e by blast
qed

section \<open>Model requests\<close>



text \<open>
  C36. Optional context never costs a run. When what is mandatory fits (the instructions of a specialist,
  the skills the user invoked, the live messages and the enforced tools), the estimator answers and
  the run is not canceled, the round builds its request with every tool result whole: the skill index,
  the pinned memory, optional tools, recall and history give way instead.
\<close>

theorem optional_context_never_costs_the_run:
  assumes "skills_fit provider (aj_Model job) live tools (agentProfileMessages job) (withEnforcedToolNames job tools [])
      (requiredSkillMessages uni (aj_Skills job) (aj_UserText job)) False = Inr True"
    and "answers provider" "pinnedMemoryMessages nonce job = Inr memory"
  shows "\<exists>b recalled. assembleRequest uni nonce provider job history live tools recallForContext expired False = Inr (b, recalled)
    \<and> co_ToolResults (bc_Omissions b) = 0"
  by (rule round_builds [OF assms(2,3,1)])

theorem optional_context_never_costs_the_run_witness:
  "\<exists>b recalled. assembleRequest (\<lambda>_. False) ''nonce'' remote_provider decided_job [] [user_message ''hi''] files_tools None (\<lambda>_. True) False = Inr (b, recalled)
    \<and> co_ToolResults (bc_Omissions b) = 0"
  by (rule optional_context_never_costs_the_run [OF remote_round_fits remote_answers remote_round_memory])



text \<open>
  C38. The worker derives from the job it is handed the very fingerprints the orchestrator froze: of the
  skills, and of the pinned memory with the tools selected beside it.
\<close>

theorem worker_derives_the_frozen_fingerprints:
  assumes "js_PinnedPersona snapshots = Some (pinnedPersonaSnapshot (Preimage memory (qp_selectedTools (jb_Payload job))))"
    and "js_PinnedProfile snapshots = Some (pinnedProfileSnapshot (Preimage memory (qp_selectedTools (jb_Payload job))))"
  shows "runtimeSkillSnapshotFingerprint (aj_Skills (mapJob job snapshots)) = skillSnapshotFingerprint (js_Skills snapshots)
    \<and> runtimeMemorySnapshotFingerprint (mapJob job snapshots) = MemorySnapshotFingerprint (Preimage memory (qp_selectedTools (jb_Payload job)))"
proof -
  have "runtimeMemorySnapshotFingerprint (mapJob job snapshots) = MemorySnapshotFingerprint (Preimage memory (qp_selectedTools (jb_Payload job)))"
    by (rule memory_fingerprints_agree(2)) (simp_all add: mapJob_snapshots assms)
  then show ?thesis by (simp add: mapJob_snapshots skill_fingerprints_agree)
qed

theorem worker_derives_the_frozen_fingerprints_witness:
  "\<exists>snapshots. runtimeSkillSnapshotFingerprint (aj_Skills (mapJob demo_claimed snapshots)) = skillSnapshotFingerprint [tone_skill\<lparr>sk_Body := ''Plain.''\<rparr>]"
  using worker_derives_the_frozen_fingerprints [of "\<lparr>js_Skills = [tone_skill\<lparr>sk_Body := ''Plain.''\<rparr>], js_ExternalAgent = None, js_EgressDecision = None,
    js_PinnedPersona = Some (pinnedPersonaSnapshot (Preimage no_memory (qp_selectedTools (jb_Payload demo_claimed)))),
    js_PinnedProfile = Some (pinnedProfileSnapshot (Preimage no_memory (qp_selectedTools (jb_Payload demo_claimed)))), js_AgentProfile = None\<rparr>"
    no_memory demo_claimed] by auto

text \<open>
  C39. A job with a frozen set of tools is offered exactly that set, or nothing at all: each selected
  identity once, under names that differ, with a well-formed object schema each. The team's own tool
  is offered apart.
\<close>

theorem frozen_tools_are_offered_whole:
  assumes "BuildToolRegistry servers = Inr registry" "toolDefinitionsForJob registry job = Inr ds"
    and "aj_EgressDecision job \<noteq> None \<or> aj_EnforceSelectedTools job"
  shows "\<exists>ps. ds = map snd ps \<and> set ps \<subseteq> set (zip (tr_discovered registry) (tr_definitions registry)) \<and> distinct (map pair_identity ps)
      \<and> set (map pair_identity ps) = set (withoutTeamTool (aj_SelectedTools job))
    \<and> distinct (map td_Name ds) \<and> list_all definition_ok ds"
proof -
  have "DefinitionsFor registry (withoutTeamTool (aj_SelectedTools job)) = Inr ds" using assms(2,3) by (auto simp: toolDefinitionsForJob_def)
  then obtain ps where ps: "ds = map snd ps" "set ps \<subseteq> set (zip (tr_discovered registry) (tr_definitions registry))"
    "distinct (map pair_identity ps)" "set (map pair_identity ps) = set (withoutTeamTool (aj_SelectedTools job))"
    using DefinitionsFor_exact by blast
  have ok: "registry_ok registry" using assms(1) by (rule BuildToolRegistry_ok)
  have "distinct (map td_Name ds)" using registered_names_differ [OF ok ps(2)] ps(1,3) by (simp add: distinct_map)
  moreover have "list_all definition_ok ds" using ok ps(1,2) by (fastforce simp: registry_ok_def list_all_iff dest: set_zip_rightD)
  ultimately show ?thesis using ps by blast
qed

theorem frozen_tools_are_offered_whole_witness: "distinct (map td_Name files_tools) \<and> list_all definition_ok files_tools"
proof -
  have "aj_EgressDecision decided_job \<noteq> None" by (simp add: decided_job_def)
  then show ?thesis using frozen_tools_are_offered_whole [OF files_registry_builds files_offered(1)] by blast
qed

section \<open>Time\<close>

text \<open>
  C40. Every instant the store can hold survives its text: the canonical form is 30 bytes, both
  readers return the instant that was written, and comparing two texts, as the SQL statements do, is
  comparing the instants.
\<close>

theorem timestamp_text_is_faithful:
  assumes "in_range t" "in_range u"
  shows "length (Format t) = 30 \<and> ParseCanonical (Format t) = Inr t \<and> ParseLegacy (Format t) = Inr t
    \<and> (Format t < Format u \<longleftrightarrow> t < u)"
  using assms by (simp add: length_Format ParseCanonical_Format ParseLegacy_Format Format_order)

theorem timestamp_text_is_faithful_witness: "ParseCanonical (Format demo_now) = Inr demo_now \<and> Format demo_now < Format (demo_now + 1)"
proof -
  have "in_range demo_now" "in_range (demo_now + 1)" by code_simp+
  from timestamp_text_is_faithful [OF this] show ?thesis by simp
qed

end
